(* ===== verification/Sophia_Prelude.thy ===== *)
theory Sophia_Prelude
  imports Main "HOL-Library.Word"
begin

text \<open>
  Shared vocabulary of the development: Rust's fixed-width integers with their checked, saturating
  and wrapping operations, results with early return, the two ordered containers of the Rust
  standard library that the code iterates over (\<open>BTreeMap\<close>, \<open>BTreeSet\<close>), strings as UTF-8
  bytes, and two generic interfaces (invariant machines and monotone machines) that the state
  machines of the components instantiate.
\<close>

unbundle bit_operations_syntax

named_theorems rust_arith \<open>readings of Rust's machine arithmetic in the naturals and integers\<close>
named_theorems btree_simps \<open>lookup and well-formedness rules of the ordered containers\<close>

section \<open>Machine integers\<close>

type_synonym u8 = "8 word"
type_synonym u16 = "16 word"
type_synonym u32 = "32 word"
type_synonym u64 = "64 word"

text \<open>
  An \<open>i32\<close> is a 32-bit word read by \<^const>\<open>sint\<close>; an \<open>f32\<close> is kept as its IEEE bit pattern,
  which is all the code moves around.
\<close>

type_synonym i32 = "32 word"
type_synonym f32 = "32 word"
type_synonym f64 = "64 word"

definition word_max :: "'a::len word" where
  "word_max = - 1"

definition sat_add :: "'a::len word \<Rightarrow> 'a word \<Rightarrow> 'a word" where
  "sat_add a b = (if unat a + unat b < 2 ^ LENGTH('a) then a + b else word_max)"

definition sat_sub :: "'a::len word \<Rightarrow> 'a word \<Rightarrow> 'a word" where
  "sat_sub a b = (if a < b then 0 else a - b)"

definition sat_mul :: "'a::len word \<Rightarrow> 'a word \<Rightarrow> 'a word" where
  "sat_mul a b = (if unat a * unat b < 2 ^ LENGTH('a) then a * b else word_max)"

definition checked_add :: "'a::len word \<Rightarrow> 'a word \<Rightarrow> 'a word option" where
  "checked_add a b = (if unat a + unat b < 2 ^ LENGTH('a) then Some (a + b) else None)"

definition checked_mul :: "'a::len word \<Rightarrow> 'a word \<Rightarrow> 'a word option" where
  "checked_mul a b = (if unat a * unat b < 2 ^ LENGTH('a) then Some (a * b) else None)"

text \<open>Signed 32-bit arithmetic: the exact integer result, checked or clamped to the range.\<close>

definition i32_in_range :: "int \<Rightarrow> bool" where
  "i32_in_range x \<longleftrightarrow> - 2147483648 \<le> x \<and> x \<le> 2147483647"

definition i32_clamp :: "int \<Rightarrow> int" where
  "i32_clamp x = max (- 2147483648) (min 2147483647 x)"

definition i32_checked_add :: "i32 \<Rightarrow> i32 \<Rightarrow> i32 option" where
  "i32_checked_add a b =
     (if i32_in_range (sint a + sint b) then Some (a + b) else None)"

definition i32_sat_add :: "i32 \<Rightarrow> i32 \<Rightarrow> i32" where
  "i32_sat_add a b = word_of_int (i32_clamp (sint a + sint b))"

definition i32_sat_sub :: "i32 \<Rightarrow> i32 \<Rightarrow> i32" where
  "i32_sat_sub a b = word_of_int (i32_clamp (sint a - sint b))"

definition i32_sat_mul :: "i32 \<Rightarrow> i32 \<Rightarrow> i32" where
  "i32_sat_mul a b = word_of_int (i32_clamp (sint a * sint b))"

definition i32_max :: "i32 \<Rightarrow> i32 \<Rightarrow> i32" where
  "i32_max a b = (if sint a \<le> sint b then b else a)"

definition i32_min :: "i32 \<Rightarrow> i32 \<Rightarrow> i32" where
  "i32_min a b = (if sint a \<le> sint b then a else b)"

text \<open>\<open>x > 0.0\<close> on an \<open>f32\<close> bit pattern: sign bit clear, not zero, not a NaN.\<close>

definition f32_positive :: "f32 \<Rightarrow> bool" where
  "f32_positive x \<longleftrightarrow> 0 < x \<and> x \<le> 0x7F800000"

section \<open>Results with early return\<close>

text \<open>\<open>Result<A, E>\<close> is \<open>'e + 'a\<close>; \<^term>\<open>bind_res\<close> is the \<open>?\<close> operator.\<close>

definition bind_res :: "'e + 'a \<Rightarrow> ('a \<Rightarrow> 'e + 'b) \<Rightarrow> 'e + 'b" where
  "bind_res r f = (case r of Inl e \<Rightarrow> Inl e | Inr x \<Rightarrow> f x)"

definition ok_or :: "'a option \<Rightarrow> 'e \<Rightarrow> 'e + 'a" where
  "ok_or v e = (case v of None \<Rightarrow> Inl e | Some x \<Rightarrow> Inr x)"

text \<open>Collecting an iterator of results: the first error wins.\<close>

fun map_res :: "('a \<Rightarrow> 'e + 'b) \<Rightarrow> 'a list \<Rightarrow> 'e + 'b list" where
  "map_res f [] = Inr []"
| "map_res f (x # xs) = bind_res (f x) (\<lambda>y. bind_res (map_res f xs) (\<lambda>ys. Inr (y # ys)))"

section \<open>Ordered maps and sets\<close>

text \<open>
  A \<open>BTreeMap\<close> is the list of its entries in key order, so that iteration in the model is iteration
  over the list. Every operation keeps \<open>bt_wf\<close>; lookups need no well-formedness.
\<close>

type_synonym ('k, 'v) btree = "('k \<times> 'v) list"

abbreviation bt_get :: "('k, 'v) btree \<Rightarrow> 'k \<Rightarrow> 'v option" where
  "bt_get m k \<equiv> map_of m k"

fun bt_insert :: "'k::linorder \<Rightarrow> 'v \<Rightarrow> ('k, 'v) btree \<Rightarrow> ('k, 'v) btree" where
  "bt_insert k v [] = [(k, v)]"
| "bt_insert k v ((k', v') # m) =
     (if k < k' then (k, v) # (k', v') # m
      else if k = k' then (k, v) # m
      else (k', v') # bt_insert k v m)"

definition bt_remove :: "'k \<Rightarrow> ('k, 'v) btree \<Rightarrow> ('k, 'v) btree" where
  "bt_remove k m = filter (\<lambda>(k', v). k' \<noteq> k) m"

definition bt_contains :: "('k, 'v) btree \<Rightarrow> 'k \<Rightarrow> bool" where
  "bt_contains m k = (bt_get m k \<noteq> None)"

definition bt_keys :: "('k, 'v) btree \<Rightarrow> 'k list" where
  "bt_keys m = map fst m"

definition bt_values :: "('k, 'v) btree \<Rightarrow> 'v list" where
  "bt_values m = map snd m"

definition bt_map_values :: "('k \<Rightarrow> 'v \<Rightarrow> 'v) \<Rightarrow> ('k, 'v) btree \<Rightarrow> ('k, 'v) btree" where
  "bt_map_values f m = map (\<lambda>(k, v). (k, f k v)) m"

text \<open>\<open>get_mut\<close> followed by an assignment through the reference: absent keys are left absent.\<close>

definition bt_update :: "'k \<Rightarrow> ('v \<Rightarrow> 'v) \<Rightarrow> ('k, 'v) btree \<Rightarrow> ('k, 'v) btree" where
  "bt_update k f m = map (\<lambda>(k', v). (k', if k' = k then f v else v)) m"

definition bt_wf :: "('k::linorder, 'v) btree \<Rightarrow> bool" where
  "bt_wf m = sorted_wrt (<) (map fst m)"

definition bt_from_list :: "('k::linorder \<times> 'v) list \<Rightarrow> ('k, 'v) btree" where
  "bt_from_list xs = fold (\<lambda>(k, v) m. bt_insert k v m) xs []"

fun bs_insert :: "'a::linorder \<Rightarrow> 'a list \<Rightarrow> 'a list" where
  "bs_insert x [] = [x]"
| "bs_insert x (y # ys) =
     (if x < y then x # y # ys else if x = y then y # ys else y # bs_insert x ys)"

definition bs_remove :: "'a \<Rightarrow> 'a list \<Rightarrow> 'a list" where
  "bs_remove x s = filter (\<lambda>y. y \<noteq> x) s"

definition bs_from_list :: "'a::linorder list \<Rightarrow> 'a list" where
  "bs_from_list xs = fold bs_insert xs []"

definition bs_wf :: "'a::linorder list \<Rightarrow> bool" where
  "bs_wf s = sorted_wrt (<) s"

section \<open>Strings\<close>

text \<open>
  A Rust \<open>String\<close> is its UTF-8 byte sequence, so \<open>len()\<close> is \<^const>\<open>length\<close>. \<^term>\<open>utf8_chars\<close> is
  the standard library's decoder: it accepts exactly the well-formed sequences of the Unicode
  standard (no overlong forms, no surrogates, nothing above U+10FFFF).
\<close>

type_synonym rust_string = "u8 list"

definition lit :: "string \<Rightarrow> rust_string" where
  "lit s = map (\<lambda>c. word_of_nat (of_char c)) s"

definition utf8_cont :: "u8 \<Rightarrow> bool" where
  "utf8_cont b \<longleftrightarrow> 0x80 \<le> b \<and> b \<le> 0xBF"

fun utf8_chars :: "u8 list \<Rightarrow> nat list option" where
  "utf8_chars [] = Some []"
| "utf8_chars (b0 # bs) =
     (if b0 \<le> 0x7F then map_option (\<lambda>cs. unat b0 # cs) (utf8_chars bs)
      else if 0xC2 \<le> b0 \<and> b0 \<le> 0xDF then
        (case bs of
          b1 # bs' \<Rightarrow>
            if utf8_cont b1
            then map_option (\<lambda>cs. ((unat b0 - 0xC0) * 64 + (unat b1 - 0x80)) # cs) (utf8_chars bs')
            else None
        | _ \<Rightarrow> None)
      else if 0xE0 \<le> b0 \<and> b0 \<le> 0xEF then
        (case bs of
          b1 # b2 # bs' \<Rightarrow>
            if utf8_cont b1 \<and> utf8_cont b2
               \<and> (b0 = 0xE0 \<longrightarrow> 0xA0 \<le> b1) \<and> (b0 = 0xED \<longrightarrow> b1 \<le> 0x9F)
            then map_option (\<lambda>cs. ((unat b0 - 0xE0) * 4096 + (unat b1 - 0x80) * 64
                                    + (unat b2 - 0x80)) # cs) (utf8_chars bs')
            else None
        | _ \<Rightarrow> None)
      else if 0xF0 \<le> b0 \<and> b0 \<le> 0xF4 then
        (case bs of
          b1 # b2 # b3 # bs' \<Rightarrow>
            if utf8_cont b1 \<and> utf8_cont b2 \<and> utf8_cont b3
               \<and> (b0 = 0xF0 \<longrightarrow> 0x90 \<le> b1) \<and> (b0 = 0xF4 \<longrightarrow> b1 \<le> 0x8F)
            then map_option (\<lambda>cs. ((unat b0 - 0xF0) * 262144 + (unat b1 - 0x80) * 4096
                                    + (unat b2 - 0x80) * 64 + (unat b3 - 0x80)) # cs)
                   (utf8_chars bs')
            else None
        | _ \<Rightarrow> None)
      else None)"

definition utf8_valid :: "u8 list \<Rightarrow> bool" where
  "utf8_valid bs = (utf8_chars bs \<noteq> None)"

text \<open>\<open>char::is_control\<close> (category Cc) and \<open>char::is_whitespace\<close> (property White_Space).\<close>

definition char_is_control :: "nat \<Rightarrow> bool" where
  "char_is_control c \<longleftrightarrow> c \<le> 0x1F \<or> (0x7F \<le> c \<and> c \<le> 0x9F)"

definition char_is_whitespace :: "nat \<Rightarrow> bool" where
  "char_is_whitespace c \<longleftrightarrow>
     (0x09 \<le> c \<and> c \<le> 0x0D) \<or> c \<in> {0x20, 0x85, 0xA0, 0x1680, 0x2028, 0x2029, 0x202F, 0x205F, 0x3000}
     \<or> (0x2000 \<le> c \<and> c \<le> 0x200A)"

definition str_chars :: "rust_string \<Rightarrow> nat list" where
  "str_chars s = (case utf8_chars s of None \<Rightarrow> [] | Some cs \<Rightarrow> cs)"

section \<open>Facts about machine integers\<close>

lemma unat_word_max [rust_arith]: "unat (word_max :: 'a::len word) = 2 ^ LENGTH('a) - 1"
  unfolding word_max_def
  by transfer (simp add: mask_eq_exp_minus_1 nat_diff_distrib nat_power_eq)

lemma unat_inject [simp]: "unat a = unat b \<longleftrightarrow> a = b"
  for a b :: "'a::len word"
  by (simp add: word_unat_eq_iff)

lemma unat_sat_add [rust_arith]:
  "unat (sat_add a b) = min (unat a + unat b) (2 ^ LENGTH('a) - 1)"
  for a b :: "'a::len word"
proof (cases "unat a + unat b < 2 ^ LENGTH('a)")
  case True
  then show ?thesis
    by (simp add: sat_add_def unat_word_ariths)
next
  case False
  then show ?thesis
    by (simp add: sat_add_def unat_word_max)
qed

lemma unat_sat_sub [rust_arith]: "unat (sat_sub a b) = unat a - unat b"
  for a b :: "'a::len word"
  by (auto simp: sat_sub_def unat_sub word_le_nat_alt word_less_nat_alt not_less)

lemma unat_sat_mul [rust_arith]:
  "unat (sat_mul a b) = min (unat a * unat b) (2 ^ LENGTH('a) - 1)"
  for a b :: "'a::len word"
proof (cases "unat a * unat b < 2 ^ LENGTH('a)")
  case True
  then show ?thesis
    by (simp add: sat_mul_def unat_word_ariths)
next
  case False
  then show ?thesis
    by (simp add: sat_mul_def unat_word_max)
qed

lemma unat_u64_from_u32 [simp]: "unat (ucast (a :: u32) :: u64) = unat a"
proof -
  have "unat a < 2 ^ 32" using unsigned_less [of a] by simp
  then have "unat a < 2 ^ 64" by simp
  then show ?thesis by (simp add: unsigned_ucast_eq take_bit_nat_eq_self)
qed

lemma checked_add_Some_iff:
  "checked_add a b = Some c \<longleftrightarrow> unat a + unat b < 2 ^ LENGTH('a) \<and> c = a + b"
  for a b :: "'a::len word"
  by (auto simp: checked_add_def)

lemma checked_add_unat: "checked_add a b = Some c \<Longrightarrow> unat c = unat a + unat b"
  by (auto simp: checked_add_def unat_word_ariths split: if_splits)

lemma sat_add_ge: "a \<le> sat_add a b"
  for a b :: "'a::len word"
proof -
  have "unat a < 2 ^ LENGTH('a)"
    by simp
  then show ?thesis
    by (simp add: word_le_nat_alt unat_sat_add del: unsigned_less)
qed

lemma word_le_max [simp]: "a \<le> word_max"
  for a :: "'a::len word"
proof -
  have "unat a < 2 ^ LENGTH('a)" by simp
  then show ?thesis by (simp add: word_le_nat_alt unat_word_max del: unsigned_less)
qed

text \<open>A saturating counter moves forward until it stands at the top.\<close>

lemma sat_add_one_cases: "a < sat_add a 1 \<or> (a = word_max \<and> sat_add a 1 = word_max)"
  for a :: "'a::len word"
proof (cases "unat a + 1 < 2 ^ LENGTH('a)")
  case True
  then have "unat (sat_add a 1) = unat a + 1"
    using unat_sat_add [of a 1] by simp
  then show ?thesis by (simp add: word_less_nat_alt)
next
  case False
  have "unat a < 2 ^ LENGTH('a)" by simp
  then have "unat a = 2 ^ LENGTH('a) - 1" using False by arith
  then have "a = word_max" by (simp add: word_unat_eq_iff unat_word_max)
  then show ?thesis
    using sat_add_ge [of a 1] word_le_max [of "sat_add a 1"] by auto
qed

lemma sint_i32_bounds: "- 2147483648 \<le> sint (a :: i32)" "sint (a :: i32) \<le> 2147483647"
  using sint_greater_eq [of a] sint_less [of a] by simp_all

lemma sint_of_i32_range: "i32_in_range x \<Longrightarrow> sint (word_of_int x :: i32) = x"
  by (simp add: i32_in_range_def signed_take_bit_int_eq_self signed_of_int)

lemma i32_clamp_range [simp]: "i32_in_range (i32_clamp x)"
  by (simp add: i32_in_range_def i32_clamp_def)

lemma i32_clamp_id: "i32_in_range x \<Longrightarrow> i32_clamp x = x"
  by (simp add: i32_in_range_def i32_clamp_def)

lemma sint_i32_sat [rust_arith]:
  "sint (i32_sat_add a b) = i32_clamp (sint a + sint b)"
  "sint (i32_sat_sub a b) = i32_clamp (sint a - sint b)"
  "sint (i32_sat_mul a b) = i32_clamp (sint a * sint b)"
  by (simp_all add: i32_sat_add_def i32_sat_sub_def i32_sat_mul_def sint_of_i32_range
        del: of_int_add of_int_diff of_int_mult)

lemma sint_i32_minmax [rust_arith]:
  "sint (i32_max a b) = max (sint a) (sint b)"
  "sint (i32_min a b) = min (sint a) (sint b)"
  by (simp_all add: i32_max_def i32_min_def max_def min_def)

lemma i32_checked_add_sint: "i32_checked_add a b = Some c \<Longrightarrow> sint c = sint a + sint b"
proof -
  assume h: "i32_checked_add a b = Some c"
  then have r: "i32_in_range (sint a + sint b)" and c: "c = a + b"
    by (auto simp: i32_checked_add_def split: if_splits)
  have "a + b = word_of_int (sint a + sint b)"
    by simp
  then show "sint c = sint a + sint b"
    using sint_of_i32_range [OF r] c by metis
qed

section \<open>Facts about results\<close>

lemma bind_res_simps [simp]:
  "bind_res (Inl e) f = Inl e"
  "bind_res (Inr x) f = f x"
  by (simp_all add: bind_res_def)

lemma bind_res_eq_Inr [simp]:
  "bind_res r f = Inr y \<longleftrightarrow> (\<exists>x. r = Inr x \<and> f x = Inr y)"
  by (cases r) simp_all

lemma bind_res_assoc: "bind_res (bind_res r f) g = bind_res r (\<lambda>x. bind_res (f x) g)"
  by (cases r) simp_all

lemma ok_or_simps [simp]:
  "ok_or None e = Inl e"
  "ok_or (Some x) e = Inr x"
  by (simp_all add: ok_or_def)

lemma ok_or_eq_Inr [simp]: "ok_or v e = Inr x \<longleftrightarrow> v = Some x"
  by (cases v) simp_all

lemma map_res_length: "map_res f xs = Inr ys \<Longrightarrow> length ys = length xs"
  by (induction xs arbitrary: ys) auto

lemma map_res_nth:
  "map_res f xs = Inr ys \<Longrightarrow> i < length xs \<Longrightarrow> f (xs ! i) = Inr (ys ! i)"
proof (induction xs arbitrary: ys i)
  case Nil
  then show ?case by simp
next
  case (Cons x xs)
  then show ?case by (cases i) auto
qed

text \<open>Per-element success and failure conditions carry over to the collected result.\<close>

lemma map_res_cases:
  assumes "\<And>x. case f x of Inl e \<Rightarrow> bad e \<and> \<not> P x | Inr y \<Rightarrow> rel x y \<and> P x"
  shows "case map_res f xs of
      Inl e \<Rightarrow> bad e \<and> \<not> (\<forall>x \<in> set xs. P x)
    | Inr ys \<Rightarrow> list_all2 rel xs ys \<and> (\<forall>x \<in> set xs. P x)"
proof (induction xs)
  case (Cons x xs)
  then show ?case
    using assms [of x] by (cases "f x"; cases "map_res f xs") simp_all
qed simp

section \<open>Facts about ordered maps and sets\<close>

lemma bt_get_insert [btree_simps]: "bt_get (bt_insert k v m) = (bt_get m)(k \<mapsto> v)"
  by (induction m) (auto simp: fun_eq_iff)

lemma bt_get_remove [btree_simps]: "bt_get (bt_remove k m) = (bt_get m)(k := None)"
  by (induction m) (auto simp: bt_remove_def fun_eq_iff)

lemma bt_get_update [btree_simps]:
  "bt_get (bt_update k f m) k' = (if k' = k then map_option f (bt_get m k) else bt_get m k')"
  by (induction m) (auto simp: bt_update_def)

lemma bt_get_map_values [btree_simps]:
  "bt_get (bt_map_values f m) k = map_option (f k) (bt_get m k)"
  by (induction m) (auto simp: bt_map_values_def)

lemma bt_keys_insert: "set (bt_keys (bt_insert k v m)) = insert k (set (bt_keys m))"
  by (induction k v m rule: bt_insert.induct) (simp_all add: bt_keys_def insert_commute)

lemma bt_keys_update [simp]: "map fst (bt_update k f m) = map fst m"
  by (induction m) (auto simp: bt_update_def)

lemma bt_keys_map_values [simp]: "map fst (bt_map_values f m) = map fst m"
  by (induction m) (auto simp: bt_map_values_def)

lemma bt_wf_Nil [simp]: "bt_wf []"
  by (simp add: bt_wf_def)

lemma bt_wf_insert [simp]: "bt_wf m \<Longrightarrow> bt_wf (bt_insert k v m)"
proof (induction m)
  case Nil
  then show ?case by (simp add: bt_wf_def)
next
  case (Cons p m)
  obtain k' v' where p: "p = (k', v')" by force
  have keys: "set (map fst (bt_insert k v m)) = insert k (set (map fst m))"
    using bt_keys_insert [of k v m] by (simp add: bt_keys_def)
  show ?case
    using Cons by (auto simp: p bt_wf_def keys simp del: set_map)
qed

lemma bt_wf_remove [simp]: "bt_wf m \<Longrightarrow> bt_wf (bt_remove k m)"
proof (induction m)
  case (Cons p m)
  then show ?case by (cases p) (auto simp: bt_wf_def bt_remove_def)
qed (simp add: bt_remove_def)

lemma bt_wf_update [simp]: "bt_wf (bt_update k f m) = bt_wf m"
  by (simp add: bt_wf_def)

lemma bt_wf_map_values [simp]: "bt_wf (bt_map_values f m) = bt_wf m"
  by (simp add: bt_wf_def)

lemma bt_wf_distinct: "bt_wf m \<Longrightarrow> distinct (map fst m)"
  by (simp add: bt_wf_def strict_sorted_iff)

lemma bt_wf_entry: "bt_wf m \<Longrightarrow> (k, v) \<in> set m \<longleftrightarrow> bt_get m k = Some v"
  by (simp add: bt_wf_distinct)

lemma bt_contains_iff: "bt_contains m k \<longleftrightarrow> k \<in> set (map fst m)"
  by (auto simp: bt_contains_def map_of_eq_None_iff)

lemma bt_values_ran: "bt_wf m \<Longrightarrow> v \<in> set (bt_values m) \<longleftrightarrow> (\<exists>k. bt_get m k = Some v)"
  by (force simp: bt_values_def simp flip: bt_wf_entry)

lemma bt_count:
  "length (filter P (bt_values m)) = card {k. \<exists>v. bt_get m k = Some v \<and> P v}" if "bt_wf m"
proof -
  have "distinct (map fst (filter (P \<circ> snd) m))"
    using bt_wf_distinct [OF that] by (rule distinct_map_filter)
  then have "length (filter (P \<circ> snd) m) = card (fst ` set (filter (P \<circ> snd) m))"
    by (metis distinct_card length_map set_map)
  moreover have "fst ` set (filter (P \<circ> snd) m) = {k. \<exists>v. bt_get m k = Some v \<and> P v}"
    using that by (force simp flip: bt_wf_entry)
  ultimately show ?thesis by (simp add: bt_values_def filter_map comp_def)
qed

lemma bt_length_insert:
  "length (bt_insert k v m) \<le> (if bt_contains m k then length m else Suc (length m))"
  if "bt_wf m"
  using that
proof (induction m)
  case (Cons p m)
  obtain k' v' where p: "p = (k', v')" by force
  have "bt_wf m" using Cons.prems by (simp add: bt_wf_def)
  moreover have "k < k' \<Longrightarrow> k \<notin> fst ` set m" using Cons.prems by (auto simp: p bt_wf_def)
  ultimately show ?case using Cons.IH by (simp add: p bt_contains_iff split: if_splits)
qed (simp add: bt_contains_def)

lemma bt_length_remove: "length (bt_remove k m) \<le> length m"
  by (simp add: bt_remove_def)

lemma bt_wf_from_list [simp]: "bt_wf (bt_from_list xs)"
proof -
  have "bt_wf m \<Longrightarrow> bt_wf (fold (\<lambda>(k, v) m. bt_insert k v m) xs m)" for m
    by (induction xs arbitrary: m) auto
  then show ?thesis by (simp add: bt_from_list_def)
qed

lemma bt_get_from_list: "bt_get (bt_from_list xs) k = map_of (rev xs) k"
proof -
  have "bt_get (fold (\<lambda>(k, v) m. bt_insert k v m) xs m) k
        = (case map_of (rev xs) k of Some v \<Rightarrow> Some v | None \<Rightarrow> bt_get m k)" for m
    by (induction xs arbitrary: m)
       (auto simp: bt_get_insert map_add_def split: option.splits)
  then show ?thesis by (simp add: bt_from_list_def split: option.splits)
qed

lemma set_bs_insert [simp]: "set (bs_insert x s) = insert x (set s)"
  by (induction s) auto

lemma set_bs_remove [simp]: "set (bs_remove x s) = set s - {x}"
  by (auto simp: bs_remove_def)

lemma bs_wf_insert [simp]: "bs_wf s \<Longrightarrow> bs_wf (bs_insert x s)"
  by (induction s) (auto simp: bs_wf_def)

lemma bs_wf_remove [simp]: "bs_wf s \<Longrightarrow> bs_wf (bs_remove x s)"
  by (simp add: bs_wf_def bs_remove_def sorted_wrt_filter)

lemma set_bs_from_list [simp]: "set (bs_from_list xs) = set xs"
proof -
  have "set (fold bs_insert xs s) = set xs \<union> set s" for s
    by (induction xs arbitrary: s) auto
  then show ?thesis by (simp add: bs_from_list_def)
qed

lemma bs_wf_from_list [simp]: "bs_wf (bs_from_list xs)"
proof -
  have "bs_wf s \<Longrightarrow> bs_wf (fold bs_insert xs s)" for s
    by (induction xs arbitrary: s) auto
  then show ?thesis by (simp add: bs_from_list_def bs_wf_def)
qed

section \<open>Generic machines\<close>

text \<open>
  A component driven by a sequence of events: one law (a step keeps the invariant) gives the
  invariant after every run, and a reflexive, transitive history relation kept by single steps
  relates the two ends of every run.
\<close>

locale invariant_machine =
  fixes step :: "'s \<Rightarrow> 'e \<Rightarrow> 's"
    and inv :: "'s \<Rightarrow> bool"
  assumes step_inv: "inv s \<Longrightarrow> inv (step s e)"
begin

lemma run_inv: "inv s \<Longrightarrow> inv (foldl step s es)"
  by (induction es arbitrary: s) (auto intro: step_inv)

end

locale history_machine = invariant_machine +
  fixes rel :: "'a \<Rightarrow> 'a \<Rightarrow> bool"
  assumes rel_refl: "rel s s"
    and rel_trans: "rel s t \<Longrightarrow> rel t u \<Longrightarrow> rel s u"
    and step_rel: "inv s \<Longrightarrow> rel s (step s e)"
begin

lemma run_rel: "inv s \<Longrightarrow> rel s (foldl step s es)"
proof (induction es arbitrary: s)
  case Nil
  then show ?case by (simp add: rel_refl)
next
  case (Cons e es)
  then have "rel s (step s e)" "rel (step s e) (foldl step (step s e) es)"
    by (auto intro: step_rel step_inv)
  then show ?case by (auto intro: rel_trans)
qed

end

end
