(* ===== verification/Protocol_Types.thy ===== *)
theory Protocol_Types
  imports Sophia_Prelude
begin

text \<open>
  The plain data of \<^verbatim>\<open>crates/sophia-protocol\<close>: identifiers (\<^verbatim>\<open>ids.rs\<close>), geometry (\<^verbatim>\<open>geometry.rs\<close>),
  and the packets that cross component boundaries (\<^verbatim>\<open>packets/*.rs\<close>, \<^verbatim>\<open>cursor.rs\<close>), with the
  constructors and validators those files define. Field names carry a short prefix naming their
  struct; \<open>Vec\<close> is a list, \<open>Option\<close> an option, \<open>[f32; 9]\<close> nine bit patterns.
\<close>

section \<open>Identifiers (ids.rs)\<close>

text \<open>The newtypes of \<^verbatim>\<open>simple_id!\<close> are raw 64-bit words; 0 is the invalid id.\<close>

type_synonym NamespaceId = u64
type_synonym ClientAdmissionId = u64
type_synonym OutputId = u64
type_synonym SeatId = u64
type_synonym DeviceId = u64
type_synonym TransactionId = u64
type_synonym PortalTransferId = u64
type_synonym WorkspaceId = u64
type_synonym IconTokenId = u64
type_synonym BufferHandle = u64
type_synonym FenceHandle = u64
type_synonym WmActionId = u64

definition id_INVALID :: u64 where
  "id_INVALID = 0"

definition id_is_valid :: "u64 \<Rightarrow> bool" where
  "id_is_valid i = (i \<noteq> 0)"

datatype SurfaceId = SurfaceId (sid_index: u32) (sid_generation: u32)

definition SurfaceId_INVALID :: SurfaceId where
  "SurfaceId_INVALID = SurfaceId word_max 0"

definition surface_is_valid :: "SurfaceId \<Rightarrow> bool" where
  "surface_is_valid s = (sid_index s \<noteq> word_max \<and> sid_generation s \<noteq> 0)"

datatype XWindowId = XWindowId (xw_xid: u32) (xw_generation: u32)

definition XWindowId_NONE :: XWindowId where
  "XWindowId_NONE = XWindowId 0 0"

definition xwindow_is_valid :: "XWindowId \<Rightarrow> bool" where
  "xwindow_is_valid w = (xw_xid w \<noteq> 0 \<and> xw_generation w \<noteq> 0)"

text \<open>The derived \<open>Ord\<close> of \<open>SurfaceId\<close> compares the fields in declaration order.\<close>

instantiation SurfaceId :: linorder
begin

definition less_eq_SurfaceId :: "SurfaceId \<Rightarrow> SurfaceId \<Rightarrow> bool" where
  "less_eq_SurfaceId a b =
     (sid_index a < sid_index b \<or> (sid_index a = sid_index b \<and> sid_generation a \<le> sid_generation b))"

definition less_SurfaceId :: "SurfaceId \<Rightarrow> SurfaceId \<Rightarrow> bool" where
  "less_SurfaceId a b =
     (sid_index a < sid_index b \<or> (sid_index a = sid_index b \<and> sid_generation a < sid_generation b))"

instance
  by standard
     (auto simp: less_eq_SurfaceId_def less_SurfaceId_def intro: SurfaceId.expand)

end

text \<open>
  \<open>IdAllocator\<close>: \<open>None\<close> is the panic of the overflow check, which happens before an id is returned.
\<close>

record IdAllocator =
  ia_next :: u64

definition id_allocator_new :: IdAllocator where
  "id_allocator_new = \<lparr>ia_next = 1\<rparr>"

definition next_raw :: "IdAllocator \<Rightarrow> (u64 \<times> IdAllocator) option" where
  "next_raw a =
     (case checked_add (ia_next a) 1 of
        None \<Rightarrow> None
      | Some n \<Rightarrow> Some (ia_next a, a\<lparr>ia_next := n\<rparr>))"

section \<open>Geometry (geometry.rs)\<close>

record Point =
  pt_x :: f64
  pt_y :: f64

record Size =
  sz_width :: i32
  sz_height :: i32

record Rect =
  rc_x :: i32
  rc_y :: i32
  rc_width :: i32
  rc_height :: i32

definition rect_is_empty :: "Rect \<Rightarrow> bool" where
  "rect_is_empty r = (sint (rc_width r) \<le> 0 \<or> sint (rc_height r) \<le> 0)"

record Region =
  rg_rects :: "Rect list"

definition region_empty :: Region where
  "region_empty = \<lparr>rg_rects = []\<rparr>"

definition region_single :: "Rect \<Rightarrow> Region" where
  "region_single r = (if rect_is_empty r then region_empty else \<lparr>rg_rects = [r]\<rparr>)"

definition region_is_empty :: "Region \<Rightarrow> bool" where
  "region_is_empty g = (rg_rects g = [])"

definition region_extend :: "Region \<Rightarrow> Region \<Rightarrow> Region" where
  "region_extend g other =
     g\<lparr>rg_rects := rg_rects g @ filter (\<lambda>r. \<not> rect_is_empty r) (rg_rects other)\<rparr>"

definition region_push :: "Region \<Rightarrow> Rect \<Rightarrow> Region" where
  "region_push g r = (if rect_is_empty r then g else g\<lparr>rg_rects := rg_rects g @ [r]\<rparr>)"

datatype Transform = Transform f32 f32 f32 f32 f32 f32 f32 f32 f32

definition transform_IDENTITY :: Transform where
  "transform_IDENTITY =
     Transform 0x3F800000 0 0 0 0x3F800000 0 0 0 0x3F800000"

section \<open>Namespaces (packets/namespace.rs)\<close>

datatype NamespaceProfile = ClassicShared | Confined

datatype NamespacePortalCapability =
    CapClipboard | CapDragAndDrop | CapFileHandoff | CapScreenCapture | CapScreenRecording
  | CapUriOpen | CapNotification

fun capability_index :: "NamespacePortalCapability \<Rightarrow> nat" where
  "capability_index CapClipboard = 0"
| "capability_index CapDragAndDrop = 1"
| "capability_index CapFileHandoff = 2"
| "capability_index CapScreenCapture = 3"
| "capability_index CapScreenRecording = 4"
| "capability_index CapUriOpen = 5"
| "capability_index CapNotification = 6"

definition capability_bit :: "NamespacePortalCapability \<Rightarrow> u64" where
  "capability_bit c = push_bit (capability_index c) 1"

record NamespaceCapabilities =
  nc_request_bits :: u64
  nc_publish_bits :: u64

definition NC_SUPPORTED_BITS :: u64 where
  "NC_SUPPORTED_BITS = push_bit 7 1 - 1"

definition capabilities_NONE :: NamespaceCapabilities where
  "capabilities_NONE = \<lparr>nc_request_bits = 0, nc_publish_bits = 0\<rparr>"

definition capabilities_ALL :: NamespaceCapabilities where
  "capabilities_ALL =
     \<lparr>nc_request_bits = NC_SUPPORTED_BITS, nc_publish_bits = NC_SUPPORTED_BITS\<rparr>"

definition capabilities_from_bits :: "u64 \<Rightarrow> u64 \<Rightarrow> NamespaceCapabilities option" where
  "capabilities_from_bits r p =
     (if r AND NOT NC_SUPPORTED_BITS = 0 \<and> p AND NOT NC_SUPPORTED_BITS = 0
      then Some \<lparr>nc_request_bits = r, nc_publish_bits = p\<rparr> else None)"

definition with_request ::
  "NamespaceCapabilities \<Rightarrow> NamespacePortalCapability \<Rightarrow> NamespaceCapabilities" where
  "with_request n c = n\<lparr>nc_request_bits := nc_request_bits n OR capability_bit c\<rparr>"

definition with_publish ::
  "NamespaceCapabilities \<Rightarrow> NamespacePortalCapability \<Rightarrow> NamespaceCapabilities" where
  "with_publish n c = n\<lparr>nc_publish_bits := nc_publish_bits n OR capability_bit c\<rparr>"

definition allows_request :: "NamespaceCapabilities \<Rightarrow> NamespacePortalCapability \<Rightarrow> bool" where
  "allows_request n c = (nc_request_bits n AND capability_bit c \<noteq> 0)"

definition allows_publish :: "NamespaceCapabilities \<Rightarrow> NamespacePortalCapability \<Rightarrow> bool" where
  "allows_publish n c = (nc_publish_bits n AND capability_bit c \<noteq> 0)"

record NamespaceContext =
  nx_id :: NamespaceId
  nx_profile :: NamespaceProfile
  nx_capabilities :: NamespaceCapabilities

definition namespace_context_new ::
  "NamespaceId \<Rightarrow> NamespaceProfile \<Rightarrow> NamespaceCapabilities \<Rightarrow> NamespaceContext option" where
  "namespace_context_new i p c =
     (if id_is_valid i then Some \<lparr>nx_id = i, nx_profile = p, nx_capabilities = c\<rparr> else None)"

definition namespace_context_is_valid :: "NamespaceContext \<Rightarrow> bool" where
  "namespace_context_is_valid x = id_is_valid (nx_id x)"

datatype ClientAuthenticationMethod = TrustedLocal | PeerCredentials | MitMagicCookie1

record ClientAuthProvenance =
  ap_method :: ClientAuthenticationMethod
  ap_session_generation :: u64

definition auth_provenance_new ::
  "ClientAuthenticationMethod \<Rightarrow> u64 \<Rightarrow> ClientAuthProvenance option" where
  "auth_provenance_new m g =
     (if g = 0 then None else Some \<lparr>ap_method = m, ap_session_generation = g\<rparr>)"

definition auth_provenance_is_valid :: "ClientAuthProvenance \<Rightarrow> bool" where
  "auth_provenance_is_valid p = (ap_session_generation p \<noteq> 0)"

record ClientAdmissionContext =
  ac_client_id :: ClientAdmissionId
  ac_namespace :: NamespaceContext
  ac_auth_provenance :: ClientAuthProvenance

definition admission_is_valid :: "ClientAdmissionContext \<Rightarrow> bool" where
  "admission_is_valid a =
     (id_is_valid (ac_client_id a) \<and> namespace_context_is_valid (ac_namespace a)
      \<and> auth_provenance_is_valid (ac_auth_provenance a))"

definition admission_context_new ::
  "ClientAdmissionId \<Rightarrow> NamespaceContext \<Rightarrow> ClientAuthProvenance \<Rightarrow> ClientAdmissionContext option"
  where
  "admission_context_new i n p =
     (if id_is_valid i \<and> namespace_context_is_valid n \<and> auth_provenance_is_valid p
      then Some \<lparr>ac_client_id = i, ac_namespace = n, ac_auth_provenance = p\<rparr> else None)"

section \<open>Authorities and buffers (packets/authority.rs, packets/surface/snapshot.rs)\<close>

datatype AuthorityKind = SophiaX | SophiaNative

datatype BufferSource =
    BufNone
  | BufXPixmap u32
  | BufDmaBuf u64
  | BufCpuBuffer u64

datatype AuthorityLocalId = AuthorityLocalId (al_raw: u64) (al_generation: u32)

definition local_id_is_valid :: "AuthorityLocalId \<Rightarrow> bool" where
  "local_id_is_valid i = (al_raw i \<noteq> 0 \<and> al_generation i \<noteq> 0)"

definition local_id_from_window :: "XWindowId \<Rightarrow> AuthorityLocalId" where
  "local_id_from_window w = AuthorityLocalId (ucast (xw_xid w)) (xw_generation w)"

record SurfacePresentationFeedback =
  pf_surface :: SurfaceId
  pf_generation :: u64
  pf_presentation_msec :: u64
  pf_presentation_micros :: u64
  pf_output_msc :: u64

definition feedback_from_millis ::
  "SurfaceId \<Rightarrow> u64 \<Rightarrow> u64 \<Rightarrow> u64 \<Rightarrow> SurfacePresentationFeedback" where
  "feedback_from_millis s g msec msc =
     \<lparr>pf_surface = s, pf_generation = g, pf_presentation_msec = msec,
      pf_presentation_micros = sat_mul msec 1000, pf_output_msc = msc\<rparr>"

record BufferReleaseFeedback =
  br_surface :: SurfaceId
  br_source :: BufferSource

definition DMA_BUF_MAX_PLANES :: nat where "DMA_BUF_MAX_PLANES = 4"
definition DMA_BUF_MAX_DIMENSION :: int where "DMA_BUF_MAX_DIMENSION = 16384"
definition DMA_BUF_MAX_BYTES :: u64 where "DMA_BUF_MAX_BYTES = 256 * 1024 * 1024"
definition DRM_FORMAT_XRGB8888 :: u32 where "DRM_FORMAT_XRGB8888 = 0x34325258"
definition DRM_FORMAT_ARGB8888 :: u32 where "DRM_FORMAT_ARGB8888 = 0x34325241"

record DmaBufPlaneDescriptor =
  dp_offset :: u32
  dp_stride :: u32

text \<open>\<open>planes: [Option<_>; 4]\<close> is a list; Rust's type fixes its length at 4.\<close>

record DmaBufDescriptor =
  db_handle :: BufferHandle
  db_size :: Size
  db_format :: u32
  db_modifier :: u64
  db_plane_count :: u8
  db_planes :: "DmaBufPlaneDescriptor option list"

datatype DmaBufDescriptorError =
    InvalidHandle | InvalidSize | UnsupportedFormat | InvalidPlaneCount | MissingPlane
  | UnexpectedPlane | InvalidStride | BufferTooLarge

text \<open>The two loops of \<open>validate\<close>: plane presence by index, then the byte extent of each plane.\<close>

fun dmabuf_check_presence ::
  "nat \<Rightarrow> nat \<Rightarrow> DmaBufPlaneDescriptor option list \<Rightarrow> DmaBufDescriptorError + unit" where
  "dmabuf_check_presence i n [] = Inr ()"
| "dmabuf_check_presence i n (p # ps) =
     (if i < n \<and> p = None then Inl MissingPlane
      else if n \<le> i \<and> p \<noteq> None then Inl UnexpectedPlane
      else dmabuf_check_presence (Suc i) n ps)"

definition dmabuf_plane_end :: "u64 \<Rightarrow> u64 \<Rightarrow> DmaBufPlaneDescriptor \<Rightarrow> u64 option" where
  "dmabuf_plane_end width_bytes height p =
     Option.bind (checked_mul (sat_sub height 1) (ucast (dp_stride p)))
       (\<lambda>rows. Option.bind (checked_add (ucast (dp_offset p)) rows)
         (\<lambda>v. checked_add v width_bytes))"

fun dmabuf_check_planes ::
  "u64 \<Rightarrow> u64 \<Rightarrow> DmaBufPlaneDescriptor list \<Rightarrow> DmaBufDescriptorError + unit" where
  "dmabuf_check_planes wb h [] = Inr ()"
| "dmabuf_check_planes wb h (p # ps) =
     (if (ucast (dp_stride p) :: u64) < wb then Inl InvalidStride
      else case dmabuf_plane_end wb h p of
             None \<Rightarrow> Inl BufferTooLarge
           | Some e \<Rightarrow> if DMA_BUF_MAX_BYTES < e then Inl BufferTooLarge
                       else dmabuf_check_planes wb h ps)"

definition dmabuf_flatten :: "'a option list \<Rightarrow> 'a list" where
  "dmabuf_flatten ps = concat (map (\<lambda>p. case p of None \<Rightarrow> [] | Some x \<Rightarrow> [x]) ps)"

definition dmabuf_validate :: "DmaBufDescriptor \<Rightarrow> DmaBufDescriptorError + unit" where
  "dmabuf_validate d =
     (let w = sint (sz_width (db_size d)); h = sint (sz_height (db_size d));
          n = unat (db_plane_count d) in
      if \<not> id_is_valid (db_handle d) then Inl InvalidHandle
      else if w \<le> 0 \<or> h \<le> 0 \<or> DMA_BUF_MAX_DIMENSION < w \<or> DMA_BUF_MAX_DIMENSION < h
        then Inl InvalidSize
      else if db_format d \<noteq> DRM_FORMAT_XRGB8888 \<and> db_format d \<noteq> DRM_FORMAT_ARGB8888
        then Inl UnsupportedFormat
      else if n = 0 \<or> DMA_BUF_MAX_PLANES < n then Inl InvalidPlaneCount
      else bind_res (dmabuf_check_presence 0 n (db_planes d))
        (\<lambda>_. case checked_mul (word_of_int w :: u64) 4 of
               None \<Rightarrow> Inl BufferTooLarge
             | Some wb \<Rightarrow>
                 dmabuf_check_planes wb (word_of_int h) (dmabuf_flatten (take n (db_planes d)))))"

datatype CpuBufferFormat = Argb8888 | Xrgb8888

record CpuBufferRegistration =
  cb_handle :: u64
  cb_size :: Size
  cb_stride :: u32
  cb_format :: CpuBufferFormat
  cb_generation :: u64
  cb_bytes :: "u8 list"

section \<open>Surfaces (packets/surface/*.rs)\<close>

datatype ResizeSyncCapability = ImplicitOnly | ExplicitSync

datatype SurfaceTransactionReadiness = TrPending | TrReady | TrFailed | TrTimedOut

record SurfaceConstraints =
  sc_min_size :: "Size option"
  sc_max_size :: "Size option"

record AuthoritySurface =
  as_authority :: AuthorityKind
  as_local_id :: AuthorityLocalId
  as_surface :: SurfaceId
  as_namespace :: "NamespaceId option"
  as_mapped :: bool
  as_geometry :: Rect
  as_constraints :: SurfaceConstraints
  as_generation :: u64

record SurfaceSnapshot =
  ss_surface :: SurfaceId
  ss_window :: XWindowId
  ss_toplevel :: "XWindowId option"
  ss_client :: "XWindowId option"
  ss_namespace :: "NamespaceId option"
  ss_mapped :: bool
  ss_stack_rank :: u32
  ss_geometry :: Rect
  ss_source :: BufferSource
  ss_damage :: Region
  ss_generation :: u64
  ss_resize_sync :: ResizeSyncCapability

record LayerSnapshot =
  ls_surface :: SurfaceId
  ls_authority_local_id :: "AuthorityLocalId option"
  ls_namespace :: "NamespaceId option"
  ls_stack_rank :: u32
  ls_geometry :: Rect
  ls_source :: BufferSource
  ls_damage :: Region
  ls_opacity :: f32
  ls_crop :: "Rect option"
  ls_transform :: Transform
  ls_generation :: u64
  ls_resize_sync :: ResizeSyncCapability

record SurfaceTransaction =
  st_transaction :: TransactionId
  st_authority :: AuthorityKind
  st_surface :: SurfaceId
  st_namespace :: "NamespaceId option"
  st_target_geometry :: Rect
  st_target_buffer :: BufferSource
  st_damage :: Region
  st_readiness :: SurfaceTransactionReadiness
  st_timeout_msec :: u32
  st_previous_committed_generation :: u64

record CommittedSurfaceState =
  cs_surface :: SurfaceId
  cs_committed_generation :: u64
  cs_geometry :: Rect
  cs_buffer :: BufferSource
  cs_damage :: Region

definition snapshot_to_authority_surface :: "SurfaceSnapshot \<Rightarrow> AuthorityKind \<Rightarrow> AuthoritySurface"
  where
  "snapshot_to_authority_surface s a =
     \<lparr>as_authority = a, as_local_id = local_id_from_window (ss_window s),
      as_surface = ss_surface s, as_namespace = ss_namespace s, as_mapped = ss_mapped s,
      as_geometry = ss_geometry s,
      as_constraints = \<lparr>sc_min_size = None, sc_max_size = None\<rparr>,
      as_generation = ss_generation s\<rparr>"

definition snapshot_to_surface_transaction ::
  "SurfaceSnapshot \<Rightarrow> TransactionId \<Rightarrow> AuthorityKind \<Rightarrow> SurfaceTransactionReadiness \<Rightarrow> u32 \<Rightarrow> u64
   \<Rightarrow> SurfaceTransaction" where
  "snapshot_to_surface_transaction s t a r timeout prev =
     \<lparr>st_transaction = t, st_authority = a, st_surface = ss_surface s,
      st_namespace = ss_namespace s, st_target_geometry = ss_geometry s,
      st_target_buffer = ss_source s, st_damage = ss_damage s, st_readiness = r,
      st_timeout_msec = timeout, st_previous_committed_generation = prev\<rparr>"

definition layer_to_surface_transaction ::
  "LayerSnapshot \<Rightarrow> TransactionId \<Rightarrow> AuthorityKind \<Rightarrow> SurfaceTransactionReadiness \<Rightarrow> u32 \<Rightarrow> u64
   \<Rightarrow> SurfaceTransaction" where
  "layer_to_surface_transaction l t a r timeout prev =
     \<lparr>st_transaction = t, st_authority = a, st_surface = ls_surface l,
      st_namespace = ls_namespace l, st_target_geometry = ls_geometry l,
      st_target_buffer = ls_source l, st_damage = ls_damage l, st_readiness = r,
      st_timeout_msec = timeout, st_previous_committed_generation = prev\<rparr>"

definition committed_from_layer_snapshot :: "LayerSnapshot \<Rightarrow> CommittedSurfaceState" where
  "committed_from_layer_snapshot l =
     \<lparr>cs_surface = ls_surface l, cs_committed_generation = ls_generation l,
      cs_geometry = ls_geometry l, cs_buffer = ls_source l, cs_damage = ls_damage l\<rparr>"

record DamageFrame =
  df_output :: OutputId
  df_frame_serial :: u64
  df_buffer_age :: u32
  df_root_generation :: u64
  df_affected_surfaces :: "SurfaceId list"
  df_damage :: Region

datatype RenderCommandKind = Blit | Clear | Composite

record RenderCommand =
  rn_kind :: RenderCommandKind
  rn_source :: "SurfaceId option"
  rn_output :: OutputId
  rn_target :: Region
  rn_clip :: "Region option"
  rn_transform :: Transform
  rn_alpha :: f32

record FrameSnapshot =
  fs_output :: OutputId
  fs_output_size :: Size
  fs_output_scale :: u32
  fs_frame_serial :: u64
  fs_layers :: "LayerSnapshot list"
  fs_commands :: "RenderCommand list"
  fs_damage :: Region

end
