(* ===== verification/Surface_Table.thy ===== *)
theory Surface_Table
  imports Protocol_Types
begin

text \<open>
  The generational slot table of \<^verbatim>\<open>crates/sophia-protocol/src/table.rs\<close>. The interface
  \<open>handle_table\<close> states what clients rely on (a table of handles behaves as a finite map whose
  fresh handles are new); \<open>SurfaceTable\<close> is shown to implement it as long as fewer than
  \<open>2 ^ 32 - 1\<close> slots exist.
\<close>

section \<open>Model\<close>

datatype TableError = StaleId | InvalidId

record 'v Slot =
  sl_generation :: u32
  sl_value :: "'v option"

record 'v SurfaceTable =
  tb_slots :: "'v Slot list"
  tb_free :: "u32 list"

definition table_new :: "'v SurfaceTable" where
  "table_new = \<lparr>tb_slots = [], tb_free = []\<rparr>"

text \<open>\<open>wrapping_add(1).max(1)\<close>\<close>

definition next_generation :: "u32 \<Rightarrow> u32" where
  "next_generation g = max (g + 1) 1"

text \<open>
  \<open>None\<close> is a panic: a free index outside the slots, or a slot count that does not fit \<open>u32\<close>.
\<close>

definition table_insert :: "'v SurfaceTable \<Rightarrow> 'v \<Rightarrow> (SurfaceId \<times> 'v SurfaceTable) option" where
  "table_insert t v =
     (if tb_free t \<noteq> [] then
        (let index = last (tb_free t); i = unat index in
         if i < length (tb_slots t) then
           (let g = next_generation (sl_generation (tb_slots t ! i)) in
            Some (SurfaceId index g,
              t\<lparr>tb_slots := (tb_slots t)[i := \<lparr>sl_generation = g, sl_value = Some v\<rparr>],
                tb_free := butlast (tb_free t)\<rparr>))
         else None)
      else if length (tb_slots t) < 2 ^ 32 then
        Some (SurfaceId (word_of_nat (length (tb_slots t))) 1,
          t\<lparr>tb_slots := tb_slots t @ [\<lparr>sl_generation = 1, sl_value = Some v\<rparr>]\<rparr>)
      else None)"

definition table_slot :: "'v SurfaceTable \<Rightarrow> SurfaceId \<Rightarrow> TableError + 'v Slot" where
  "table_slot t i =
     (if \<not> surface_is_valid i then Inl InvalidId
      else if length (tb_slots t) \<le> unat (sid_index i) then Inl InvalidId
      else if sl_generation (tb_slots t ! unat (sid_index i)) \<noteq> sid_generation i then Inl StaleId
      else Inr (tb_slots t ! unat (sid_index i)))"

definition table_get :: "'v SurfaceTable \<Rightarrow> SurfaceId \<Rightarrow> 'v option" where
  "table_get t i = (case table_slot t i of Inl e \<Rightarrow> None | Inr s \<Rightarrow> sl_value s)"

text \<open>\<open>get_mut\<close> and a write through the returned reference.\<close>

definition table_get_mut :: "'v SurfaceTable \<Rightarrow> SurfaceId \<Rightarrow> ('v \<Rightarrow> 'v) \<Rightarrow> 'v SurfaceTable" where
  "table_get_mut t i f =
     (case table_slot t i of
        Inl e \<Rightarrow> t
      | Inr s \<Rightarrow> t\<lparr>tb_slots := (tb_slots t)[unat (sid_index i) :=
                                   s\<lparr>sl_value := map_option f (sl_value s)\<rparr>]\<rparr>)"

definition table_remove :: "'v SurfaceTable \<Rightarrow> SurfaceId \<Rightarrow> TableError + ('v \<times> 'v SurfaceTable)" where
  "table_remove t i =
     bind_res (table_slot t i) (\<lambda>s.
       bind_res (ok_or (sl_value s) StaleId) (\<lambda>v.
         Inr (v, t\<lparr>tb_slots := (tb_slots t)[unat (sid_index i) := s\<lparr>sl_value := None\<rparr>],
                    tb_free := tb_free t @ [sid_index i]\<rparr>)))"

text \<open>
  The invariant: the free list names each empty slot once, no live slot, and generations start at 1.
\<close>

definition table_wf :: "'v SurfaceTable \<Rightarrow> bool" where
  "table_wf t \<longleftrightarrow>
     distinct (tb_free t)
     \<and> (\<forall>f \<in> set (tb_free t). unat f < length (tb_slots t))
     \<and> (\<forall>i < length (tb_slots t).
           sl_generation (tb_slots t ! i) \<noteq> 0
           \<and> (sl_value (tb_slots t ! i) = None \<longleftrightarrow> i \<in> unat ` set (tb_free t)))
     \<and> length (tb_slots t) < 2 ^ 32"

text \<open>Room for one more surface without reaching the reserved index \<open>u32::MAX\<close>.\<close>

definition table_has_room :: "'v SurfaceTable \<Rightarrow> bool" where
  "table_has_room t = (tb_free t \<noteq> [] \<or> length (tb_slots t) < 2 ^ 32 - 1)"

section \<open>The interface\<close>

locale handle_table =
  fixes get :: "'t \<Rightarrow> 'h \<Rightarrow> 'v option"
    and ins :: "'t \<Rightarrow> 'v \<Rightarrow> ('h \<times> 't) option"
    and rem :: "'t \<Rightarrow> 'h \<Rightarrow> 'e + ('v \<times> 't)"
    and wf :: "'t \<Rightarrow> bool"
    and room :: "'t \<Rightarrow> bool"
  assumes ins_returns: "wf t \<Longrightarrow> room t \<Longrightarrow> ins t v \<noteq> None"
    and ins_wf: "wf t \<Longrightarrow> room t \<Longrightarrow> ins t v = Some (h, t') \<Longrightarrow> wf t'"
    and ins_fresh: "wf t \<Longrightarrow> room t \<Longrightarrow> ins t v = Some (h, t') \<Longrightarrow> get t h = None"
    and ins_get: "wf t \<Longrightarrow> room t \<Longrightarrow> ins t v = Some (h, t') \<Longrightarrow> get t' = (get t)(h \<mapsto> v)"
    and rem_wf: "wf t \<Longrightarrow> rem t h = Inr (v, t') \<Longrightarrow> wf t'"
    and rem_get: "wf t \<Longrightarrow> rem t h = Inr (v, t') \<Longrightarrow> get t h = Some v \<and> get t' = (get t)(h := None)"
    and rem_fails: "wf t \<Longrightarrow> (\<exists>e. rem t h = Inl e) \<longleftrightarrow> get t h = None"
begin

lemma insert_then_remove:
  assumes "wf t" "room t" "ins t v = Some (h, t1)"
  shows "\<exists>t2. rem t1 h = Inr (v, t2) \<and> wf t2 \<and> get t2 = get t"
proof -
  have wf1: "wf t1" and get1: "get t1 = (get t)(h \<mapsto> v)" and fresh: "get t h = None"
    using assms ins_wf ins_get ins_fresh by blast+
  have "\<not> (\<exists>e. rem t1 h = Inl e)"
    using rem_fails [OF wf1, of h] get1 by simp
  then obtain p where "rem t1 h = Inr p"
    by (cases "rem t1 h") auto
  then obtain v' t2 where rem: "rem t1 h = Inr (v', t2)"
    by (cases p) auto
  have "get t1 h = Some v'" and "get t2 = (get t1)(h := None)"
    using rem_get [OF wf1 rem] by auto
  then have "v' = v" and "get t2 = get t"
    using get1 fresh by auto
  then show ?thesis
    using rem rem_wf [OF wf1 rem] by auto
qed

lemma remove_twice_fails:
  assumes "wf t" "rem t h = Inr (v, t1)"
  shows "\<exists>e. rem t1 h = Inl e"
proof -
  have "wf t1" "get t1 h = None"
    using assms rem_wf rem_get by (blast, fastforce)
  then show ?thesis
    using rem_fails by blast
qed

end

section \<open>The slot table implements the interface\<close>

lemma next_generation_nonzero [simp]: "next_generation g \<noteq> 0"
proof -
  have "(1::u32) \<le> next_generation g"
    by (simp add: next_generation_def)
  then show ?thesis by auto
qed

lemma next_generation_neq [simp]: "next_generation g \<noteq> g"
proof (cases "g + 1 = 0")
  case True
  then have "g = - 1" by (simp add: eq_neg_iff_add_eq_0)
  then show ?thesis by (simp add: next_generation_def)
next
  case False
  then have "(1::u32) \<le> g + 1"
    by (simp add: word_le_nat_alt Suc_le_eq unat_gt_0)
  then show ?thesis by (simp add: next_generation_def max_def)
qed

lemma next_generation_neq' [simp]: "g \<noteq> next_generation g"
  using next_generation_neq [of g] by metis

lemma unat_word_max_u32: "unat (word_max :: u32) = 4294967295"
  by (simp add: unat_word_max)

lemma word_of_nat_index:
  "n < 2 ^ 32 \<Longrightarrow> unat (word_of_nat n :: u32) = n"
  by (simp add: unat_of_nat)

lemma table_wf_free_slot:
  assumes "table_wf t" "f \<in> set (tb_free t)"
  shows "unat f < length (tb_slots t)" "sl_value (tb_slots t ! unat f) = None"
  using assms by (auto simp: table_wf_def)

lemma table_get_eq:
  "table_get t i =
     (if surface_is_valid i \<and> unat (sid_index i) < length (tb_slots t)
         \<and> sl_generation (tb_slots t ! unat (sid_index i)) = sid_generation i
      then sl_value (tb_slots t ! unat (sid_index i)) else None)"
  by (auto simp: table_get_def table_slot_def)

text \<open>The two ways an insertion can go, with the resulting table spelled out.\<close>

lemma table_insert_cases:
  assumes "table_wf t" "table_has_room t" "table_insert t v = Some (h, t')"
  obtains (reuse) f i g where
    "tb_free t \<noteq> []" "f = last (tb_free t)" "i = unat f" "i < length (tb_slots t)"
    "g = next_generation (sl_generation (tb_slots t ! i))" "h = SurfaceId f g"
    "t' = t\<lparr>tb_slots := (tb_slots t)[i := \<lparr>sl_generation = g, sl_value = Some v\<rparr>],
            tb_free := butlast (tb_free t)\<rparr>"
  | (fresh) "tb_free t = []" "length (tb_slots t) < 2 ^ 32 - 1"
    "h = SurfaceId (word_of_nat (length (tb_slots t))) 1"
    "t' = t\<lparr>tb_slots := tb_slots t @ [\<lparr>sl_generation = 1, sl_value = Some v\<rparr>]\<rparr>"
proof (cases "tb_free t = []")
  case True
  then show ?thesis
    using assms fresh by (auto simp: table_insert_def table_has_room_def split: if_splits)
next
  case False
  then show ?thesis
    using assms reuse by (auto simp: table_insert_def Let_def split: if_splits)
qed

lemma table_insert_returns:
  assumes "table_wf t" "table_has_room t"
  shows "table_insert t v \<noteq> None"
  using assms table_wf_free_slot(1) [OF assms(1), of "last (tb_free t)"]
  by (auto simp: table_insert_def table_has_room_def Let_def)

lemma table_index_not_max:
  assumes "unat f < length xs" "length xs < 2 ^ 32"
  shows "f \<noteq> (word_max :: u32)"
  using assms by (auto simp: unat_word_max_u32)

lemma last_notin_butlast: "distinct xs \<Longrightarrow> xs \<noteq> [] \<Longrightarrow> last xs \<notin> set (butlast xs)"
  by (induction xs rule: rev_induct) auto

lemma set_butlast_distinct:
  "distinct xs \<Longrightarrow> xs \<noteq> [] \<Longrightarrow> set (butlast xs) = set xs - {last xs}"
  by (induction xs rule: rev_induct) auto

lemma table_insert_wf:
  assumes wf: "table_wf t" and room: "table_has_room t" and ins: "table_insert t v = Some (h, t')"
  shows "table_wf t'"
  using wf room ins
proof (cases rule: table_insert_cases)
  case (reuse f i g)
  have mem: "f \<in> set (tb_free t)" using reuse by simp
  have d: "distinct (tb_free t)" using wf by (simp add: table_wf_def)
  have img: "j \<in> unat ` set (butlast (tb_free t)) \<longleftrightarrow> j \<in> unat ` set (tb_free t) \<and> j \<noteq> i" for j
    using reuse d by (auto simp: set_butlast_distinct)
  show ?thesis
    using wf reuse d unfolding table_wf_def
    by (auto simp: img nth_list_update distinct_butlast dest: in_set_butlastD)
next
  case fresh
  then show ?thesis
    using wf unfolding table_wf_def by (auto simp: nth_append less_Suc_eq)
qed

lemma table_insert_valid:
  assumes wf: "table_wf t" and room: "table_has_room t" and ins: "table_insert t v = Some (h, t')"
  shows "surface_is_valid h"
  using wf room ins
proof (cases rule: table_insert_cases)
  case (reuse f i g)
  then show ?thesis
    using wf table_index_not_max [of f "tb_slots t"]
    by (simp add: surface_is_valid_def table_wf_def)
next
  case fresh
  then have "unat (word_of_nat (length (tb_slots t)) :: u32) = length (tb_slots t)"
    by (simp add: word_of_nat_index)
  then show ?thesis
    using fresh by (auto simp: surface_is_valid_def unat_word_max_u32)
qed

lemma table_insert_fresh:
  assumes wf: "table_wf t" and room: "table_has_room t" and ins: "table_insert t v = Some (h, t')"
  shows "table_get t h = None"
  using wf room ins
proof (cases rule: table_insert_cases)
  case (reuse f i g)
  then show ?thesis by (simp add: table_get_eq)
next
  case fresh
  then show ?thesis by (simp add: table_get_eq word_of_nat_index)
qed

lemma SurfaceId_eq_iff:
  "a = b \<longleftrightarrow> unat (sid_index a) = unat (sid_index b) \<and> sid_generation a = sid_generation b"
  by (cases a; cases b) simp

lemma table_insert_get:
  assumes wf: "table_wf t" and room: "table_has_room t" and ins: "table_insert t v = Some (h, t')"
  shows "table_get t' = (table_get t)(h \<mapsto> v)"
proof
  fix j
  note valid = table_insert_valid [OF assms]
  show "table_get t' j = ((table_get t)(h \<mapsto> v)) j"
    using wf room ins
  proof (cases rule: table_insert_cases)
    case (reuse f i g)
    have "f \<in> set (tb_free t)" using reuse by simp
    then have none: "sl_value (tb_slots t ! i) = None"
      using table_wf_free_slot [OF wf] reuse by simp
    show ?thesis
      using reuse valid none
      by (auto simp: table_get_eq SurfaceId_eq_iff nth_list_update surface_is_valid_def)
  next
    case fresh
    then have len: "unat (word_of_nat (length (tb_slots t)) :: u32) = length (tb_slots t)"
      by (simp add: word_of_nat_index)
    show ?thesis
    proof (cases "j = h")
      case True
      then show ?thesis using fresh valid len by (simp add: table_get_eq)
    next
      case False
      then have "unat (sid_index j) \<noteq> length (tb_slots t) \<or> sid_generation j \<noteq> 1"
        using fresh len by (simp add: SurfaceId_eq_iff)
      then show ?thesis using False fresh by (auto simp: table_get_eq nth_append)
    qed
  qed
qed

lemma table_remove_cases:
  assumes "table_remove t h = Inr (v, t')"
  shows "surface_is_valid h" "unat (sid_index h) < length (tb_slots t)"
    "sl_generation (tb_slots t ! unat (sid_index h)) = sid_generation h"
    "sl_value (tb_slots t ! unat (sid_index h)) = Some v"
    "t' = t\<lparr>tb_slots := (tb_slots t)[unat (sid_index h) :=
                         (tb_slots t ! unat (sid_index h))\<lparr>sl_value := None\<rparr>],
            tb_free := tb_free t @ [sid_index h]\<rparr>"
  using assms by (auto simp: table_remove_def table_slot_def split: if_splits)

lemma table_remove_wf:
  assumes wf: "table_wf t" and rem: "table_remove t h = Inr (v, t')"
  shows "table_wf t'"
proof -
  note rc = table_remove_cases [OF rem]
  have "sid_index h \<notin> set (tb_free t)"
    using wf rc(2,4) by (auto simp: table_wf_def)
  then show ?thesis
    using wf rc unfolding table_wf_def by (auto simp: nth_list_update)
qed

lemma table_remove_get:
  assumes wf: "table_wf t" and rem: "table_remove t h = Inr (v, t')"
  shows "table_get t h = Some v \<and> table_get t' = (table_get t)(h := None)"
proof -
  note rc = table_remove_cases [OF rem]
  show ?thesis
    using rc(1-4) by (auto simp: rc(5) table_get_eq fun_eq_iff SurfaceId_eq_iff nth_list_update)
qed

lemma table_remove_fails: "(\<exists>e. table_remove t h = Inl e) \<longleftrightarrow> table_get t h = None"
proof (cases "table_slot t h")
  case (Inl e)
  then show ?thesis by (simp add: table_remove_def table_get_def)
next
  case (Inr s)
  then show ?thesis by (cases "sl_value s") (simp_all add: table_remove_def table_get_def)
qed

interpretation surfaces: handle_table table_get table_insert table_remove table_wf table_has_room
proof unfold_locales
  fix t :: "'a SurfaceTable" and v
  assume "table_wf t" "table_has_room t"
  then show "table_insert t v \<noteq> None" by (rule table_insert_returns)
next
  fix t :: "'a SurfaceTable" and v h t'
  assume a: "table_wf t" "table_has_room t" "table_insert t v = Some (h, t')"
  show "table_wf t'" by (rule table_insert_wf [OF a])
  show "table_get t h = None" by (rule table_insert_fresh [OF a])
  show "table_get t' = (table_get t)(h \<mapsto> v)" by (rule table_insert_get [OF a])
next
  fix t :: "'a SurfaceTable" and v h t'
  assume a: "table_wf t" "table_remove t h = Inr (v, t')"
  show "table_wf t'" by (rule table_remove_wf [OF a])
  show "table_get t h = Some v \<and> table_get t' = (table_get t)(h := None)"
    by (rule table_remove_get [OF a])
next
  fix t :: "'a SurfaceTable" and h
  show "(\<exists>e. table_remove t h = Inl e) \<longleftrightarrow> table_get t h = None"
    by (rule table_remove_fails)
qed

section \<open>Histories\<close>

text \<open>Operations on a table, with the handles that the insertions return; \<open>None\<close> is a panic.\<close>

datatype 'v table_event =
    TInsert 'v
  | TRemove SurfaceId
  | TUpdate SurfaceId "'v \<Rightarrow> 'v"

fun table_run :: "'v table_event list \<Rightarrow> 'v SurfaceTable \<Rightarrow> (SurfaceId list \<times> 'v SurfaceTable) option" where
  "table_run [] t = Some ([], t)"
| "table_run (TInsert v # es) t =
     (case table_insert t v of
        None \<Rightarrow> None
      | Some (h, t') \<Rightarrow> map_option (\<lambda>(hs, u). (h # hs, u)) (table_run es t'))"
| "table_run (TRemove h # es) t =
     (case table_remove t h of Inl _ \<Rightarrow> table_run es t | Inr (_, t') \<Rightarrow> table_run es t')"
| "table_run (TUpdate h f # es) t = table_run es (table_get_mut t h f)"

fun insertions :: "'v table_event list \<Rightarrow> nat" where
  "insertions [] = 0"
| "insertions (TInsert v # es) = Suc (insertions es)"
| "insertions (_ # es) = insertions es"

text \<open>Generations run through the \<open>2 ^ 32 - 1\<close> non-zero values in turn.\<close>

lemma unat_next_generation:
  assumes "g \<noteq> 0"
  shows "unat (next_generation g) = unat g mod (2 ^ 32 - 1) + 1"
proof (cases "g = - 1")
  case True
  then show ?thesis using unat_word_max [where 'a = 32] by (simp add: next_generation_def word_max_def)
next
  case False
  then have "unat g \<noteq> unat (word_max :: u32)" unfolding word_max_def by (metis word_unat_eq_iff)
  then have g: "unat g \<noteq> 2 ^ 32 - 1" by (simp add: unat_word_max)
  have "unat g < 2 ^ 32" using unsigned_less [of g] by simp
  then have s: "unat g < 2 ^ 32 - 1" using g by simp
  then have "unat (g + 1) = unat g + 1" by (simp add: unat_word_ariths)
  moreover have "1 \<le> g + 1" using \<open>unat (g + 1) = unat g + 1\<close> by (simp add: word_le_nat_alt)
  ultimately show ?thesis using s by (simp add: next_generation_def max_def)
qed

lemma funpow_generation_nonzero: "g \<noteq> 0 \<Longrightarrow> (next_generation ^^ k) g \<noteq> 0"
  by (cases k) simp_all

lemma unat_funpow_generation:
  assumes "g \<noteq> 0"
  shows "unat ((next_generation ^^ k) g) = (unat g - 1 + k) mod (2 ^ 32 - 1) + 1"
proof (induction k)
  case 0
  have "unat g < 2 ^ 32" "0 < unat g" using unsigned_less [of g] assms by (simp_all add: unat_gt_0)
  then have "unat g - 1 < 2 ^ 32 - 1" by linarith
  then show ?case using \<open>0 < unat g\<close> by simp
next
  case (Suc k)
  have "unat ((next_generation ^^ Suc k) g) = ((unat g - 1 + k) mod (2 ^ 32 - 1) + 1) mod (2 ^ 32 - 1) + 1"
    using unat_next_generation [OF funpow_generation_nonzero [OF assms, of k]] Suc by simp
  then show ?case by (simp add: mod_Suc_eq)
qed

lemma mod_shift_neq:
  fixes a k n :: nat
  assumes "a < n" "0 < k" "k < n"
  shows "(a + k) mod n \<noteq> a"
  using assms by (cases "a + k < n") (auto simp: le_mod_geq)

lemma generation_returns_late:
  assumes "g \<noteq> 0" "0 < k" "k < 2 ^ 32 - 1"
  shows "(next_generation ^^ k) g \<noteq> g"
proof -
  have "unat g < 2 ^ 32" "0 < unat g" using unsigned_less [of g] assms(1) by (simp_all add: unat_gt_0)
  then have "unat g - 1 < 2 ^ 32 - 1" by linarith
  from mod_shift_neq [OF this assms(2,3)] have "unat ((next_generation ^^ k) g) \<noteq> unat g"
    unfolding unat_funpow_generation [OF assms(1)] using \<open>0 < unat g\<close> by linarith
  then show ?thesis by auto
qed

text \<open>The slot of a removed handle: \<open>j\<close> of at most \<open>k\<close> insertions went into it, and it is empty if none did.\<close>

definition retired_slot :: "SurfaceId \<Rightarrow> nat \<Rightarrow> 'v SurfaceTable \<Rightarrow> bool" where
  "retired_slot h k t \<longleftrightarrow> unat (sid_index h) < length (tb_slots t)
     \<and> (\<exists>j\<le>k. sl_generation (tb_slots t ! unat (sid_index h)) = (next_generation ^^ j) (sid_generation h)
          \<and> (j = 0 \<longrightarrow> sl_value (tb_slots t ! unat (sid_index h)) = None))"

lemma retired_insert:
  assumes "retired_slot h k t" "table_insert t v = Some (h', t')"
  shows "retired_slot h (Suc k) t'"
    and "sid_generation h \<noteq> 0 \<Longrightarrow> Suc k < 2 ^ 32 - 1 \<Longrightarrow> h' \<noteq> h"
proof -
  obtain j where j: "j \<le> k" "sl_generation (tb_slots t ! unat (sid_index h)) = (next_generation ^^ j) (sid_generation h)"
      "j = 0 \<longrightarrow> sl_value (tb_slots t ! unat (sid_index h)) = None" and i: "unat (sid_index h) < length (tb_slots t)"
    using assms(1) by (auto simp: retired_slot_def)
  have here: "j \<le> Suc k" "Suc j \<le> Suc k" using j(1) by simp_all
  show "retired_slot h (Suc k) t'"
  proof (cases "tb_free t = []")
    case True
    then show ?thesis
      using assms(2) i j here unfolding retired_slot_def table_insert_def
      by (intro conjI exI [of _ j]) (auto simp: nth_append split: if_splits)
  next
    case False
    show ?thesis
    proof (cases "sid_index h = last (tb_free t)")
      case True
      then have "sl_generation (tb_slots t' ! unat (sid_index h)) = (next_generation ^^ Suc j) (sid_generation h)"
        using assms(2) False i j(2) by (auto simp: table_insert_def Let_def split: if_splits)
      then show ?thesis
        using assms(2) False i here(2) unfolding retired_slot_def
        by (intro conjI exI [of _ "Suc j"]) (auto simp: table_insert_def Let_def split: if_splits)
    next
      case other: False
      then have "unat (last (tb_free t)) \<noteq> unat (sid_index h)" by (metis word_unat_eq_iff)
      then show ?thesis
        using assms(2) False i j here unfolding retired_slot_def table_insert_def
        by (intro conjI exI [of _ j]) (auto simp: Let_def split: if_splits)
    qed
  qed
  assume g: "sid_generation h \<noteq> 0" "Suc k < 2 ^ 32 - 1"
  show "h' \<noteq> h"
  proof
    assume "h' = h"
    show False
    proof (cases "tb_free t = []")
      case True
      then show ?thesis
        using assms(2) \<open>h' = h\<close> i by (auto simp: table_insert_def word_of_nat_index split: if_splits)
    next
      case False
      then have "sid_generation h = (next_generation ^^ Suc j) (sid_generation h)"
        using assms(2) \<open>h' = h\<close> i j(2) by (auto simp: table_insert_def Let_def split: if_splits)
      then show ?thesis using generation_returns_late [OF g(1), of "Suc j"] j(1) g(2) by auto
    qed
  qed
qed

lemma retired_remove:
  assumes "retired_slot h k t" "table_remove t h' = Inr (v, t')"
  shows "retired_slot h k t'"
  using assms(1) table_remove_cases [OF assms(2)]
  by (auto simp: retired_slot_def nth_list_update)

lemma retired_update: "retired_slot h k t \<Longrightarrow> retired_slot h k (table_get_mut t h' f)"
  by (auto simp: retired_slot_def table_get_mut_def table_slot_def nth_list_update split: if_splits)

lemma retired_dead:
  assumes "retired_slot h k t" "sid_generation h \<noteq> 0" "k < 2 ^ 32 - 1"
  shows "table_get t h = None"
proof -
  obtain j where "j \<le> k" "sl_generation (tb_slots t ! unat (sid_index h)) = (next_generation ^^ j) (sid_generation h)"
      "j = 0 \<longrightarrow> sl_value (tb_slots t ! unat (sid_index h)) = None"
    using assms(1) by (auto simp: retired_slot_def)
  then show ?thesis
    using generation_returns_late [OF assms(2), of j] assms(3) by (cases "j = 0") (auto simp: table_get_eq)
qed

lemma retired_run:
  assumes "retired_slot h k t" "sid_generation h \<noteq> 0" "k + insertions es < 2 ^ 32 - 1" "table_run es t = Some (hs, t')"
  shows "h \<notin> set hs \<and> table_get t' h = None"
  using assms
proof (induction es arbitrary: k t hs)
  case Nil
  then show ?case using retired_dead by auto
next
  case (Cons e es)
  show ?case
  proof (cases e)
    case (TInsert v)
    then obtain h' t1 hs1 where ins: "table_insert t v = Some (h', t1)" "table_run es t1 = Some (hs1, t')" "hs = h' # hs1"
      using Cons.prems(4) by (auto split: option.splits)
    have "h' \<noteq> h" using retired_insert(2) [OF Cons.prems(1) ins(1) Cons.prems(2)] Cons.prems(3) TInsert by simp
    then show ?thesis
      using Cons.IH [OF retired_insert(1) [OF Cons.prems(1) ins(1)] Cons.prems(2) _ ins(2)] Cons.prems(3) TInsert ins(3) by simp
  next
    case (TRemove h')
    then show ?thesis
      using Cons.IH [OF Cons.prems(1,2), of hs] Cons.IH [OF retired_remove [OF Cons.prems(1)] Cons.prems(2), of h' _ _ hs]
        Cons.prems(3,4) by (cases "table_remove t h'") auto
  next
    case (TUpdate h' f)
    then show ?thesis
      using Cons.IH [OF retired_update [OF Cons.prems(1)] Cons.prems(2)] Cons.prems by auto
  qed
qed

text \<open>A history does not panic as long as the slots suffice.\<close>

lemma table_get_mut_wf: "table_wf t \<Longrightarrow> table_wf (table_get_mut t h f) \<and> length (tb_slots (table_get_mut t h f)) = length (tb_slots t)"
  by (auto simp: table_wf_def table_get_mut_def table_slot_def nth_list_update split: if_splits)

lemma table_run_returns:
  "table_wf t \<Longrightarrow> length (tb_slots t) + insertions es < 2 ^ 32 \<Longrightarrow> table_run es t \<noteq> None"
proof (induction es arbitrary: t)
  case (Cons e es)
  show ?case
  proof (cases e)
    case (TInsert v)
    then have room: "table_has_room t" using Cons.prems by (simp add: table_has_room_def)
    obtain h t1 where ins: "table_insert t v = Some (h, t1)" using table_insert_returns [OF Cons.prems(1) room, of v] by auto
    have "length (tb_slots t1) \<le> Suc (length (tb_slots t))"
      using ins by (auto simp: table_insert_def Let_def split: if_splits)
    then have "table_run es t1 \<noteq> None"
      using Cons.IH [OF table_insert_wf [OF Cons.prems(1) room ins]] Cons.prems(2) TInsert by simp
    then show ?thesis using ins TInsert by simp
  next
    case (TRemove h)
    have "length (tb_slots t') = length (tb_slots t)" if "table_remove t h = Inr (v, t')" for v t'
      using table_remove_cases(5) [OF that] by simp
    then show ?thesis
      using TRemove Cons.IH [OF Cons.prems(1)] Cons.IH [OF table_remove_wf [OF Cons.prems(1)], of h] Cons.prems(2)
      by (cases "table_remove t h") fastforce+
  next
    case (TUpdate h f)
    then show ?thesis using Cons.IH [of "table_get_mut t h f"] table_get_mut_wf [OF Cons.prems(1), of h f] Cons.prems(2) by simp
  qed
qed simp

section \<open>Properties\<close>

lemma table_wf_new: "table_wf table_new"
  by (simp add: table_wf_def table_new_def)

text \<open>
  The slot table implements a finite map from handles to values: inserting into a
  well-formed table that has room returns (no panic) a valid handle that was not in use, the new
  table is well formed, and lookups change exactly at the new handle; removing that handle gives the
  value back and restores every lookup.
\<close>

theorem table_insert_remove_roundtrip:
  assumes "table_wf t" "table_has_room t"
  shows "\<exists>h t1 t2. table_insert t v = Some (h, t1) \<and> surface_is_valid h \<and> table_get t h = None
           \<and> table_wf t1 \<and> table_get t1 = (table_get t)(h \<mapsto> v)
           \<and> table_remove t1 h = Inr (v, t2) \<and> table_wf t2 \<and> table_get t2 = table_get t"
proof -
  obtain h t1 where ins: "table_insert t v = Some (h, t1)"
    using table_insert_returns [OF assms, of v] by auto
  show ?thesis
    using ins table_insert_valid [OF assms ins] surfaces.ins_fresh [OF assms ins]
      surfaces.ins_wf [OF assms ins] surfaces.ins_get [OF assms ins]
      surfaces.insert_then_remove [OF assms ins]
    by blast
qed

theorem table_insert_remove_roundtrip_witness:
  "\<exists>h t1 t2. table_insert table_new (7::nat) = Some (h, t1) \<and> surface_is_valid h
     \<and> table_get table_new h = (None :: nat option) \<and> table_wf t1 \<and> table_get t1 = (table_get table_new)(h \<mapsto> 7)
     \<and> table_remove t1 h = Inr (7, t2) \<and> table_wf t2 \<and> table_get t2 = table_get table_new"
proof -
  have "table_wf (table_new :: nat SurfaceTable)" "table_has_room (table_new :: nat SurfaceTable)"
    by (rule table_wf_new) (simp add: table_has_room_def table_new_def)
  then show ?thesis by (rule table_insert_remove_roundtrip)
qed

text \<open>
  Property C1. A removed handle is dead. It cannot be looked up or removed again; the next
  insertion reuses its slot under another handle; and whatever insertions, removals and updates follow, as
  long as fewer than \<open>2 ^ 32 - 1\<close> of them are insertions (after which the 32-bit generation of a slot may come round),
  no insertion returns the handle and it resolves to nothing. Such a history returns without a panic when the slots
  it starts from and its insertions together stay below \<open>2 ^ 32\<close>.
\<close>

theorem table_stale_handle_is_dead:
  assumes "table_wf t" "table_remove t h = Inr (v, t1)"
  shows "table_get t1 h = None \<and> (\<exists>e. table_remove t1 h = Inl e)
         \<and> (\<exists>h' t2. table_insert t1 w = Some (h', t2) \<and> sid_index h' = sid_index h \<and> h' \<noteq> h
              \<and> table_get t2 h = None \<and> table_get t2 h' = Some w)
         \<and> (\<forall>es hs t2. insertions es < 2 ^ 32 - 1 \<and> table_run es t1 = Some (hs, t2) \<longrightarrow>
              h \<notin> set hs \<and> table_get t2 h = None \<and> (\<exists>e. table_remove t2 h = Inl e))
         \<and> (\<forall>es. length (tb_slots t1) + insertions es < 2 ^ 32 \<longrightarrow> table_run es t1 \<noteq> None)"
proof -
  note rc = table_remove_cases [OF assms(2)]
  have wf1: "table_wf t1" and dead: "table_get t1 h = None"
    using surfaces.rem_wf [OF assms] surfaces.rem_get [OF assms] by auto
  have room1: "table_has_room t1" by (simp add: rc(5) table_has_room_def)
  obtain h' t2 where ins: "table_insert t1 w = Some (h', t2)"
    using table_insert_returns [OF wf1 room1, of w] by auto
  have idx: "sid_index h' = sid_index h" and gen: "sid_generation h' \<noteq> sid_generation h"
    using ins rc(2,3) by (auto simp: table_insert_def rc(5) Let_def)
  have reused: "table_get t2 h = None" "table_get t2 h' = Some w"
    using surfaces.ins_get [OF wf1 room1 ins] dead gen by auto
  have "retired_slot h 0 t1" using rc(2,3) by (simp add: retired_slot_def rc(5))
  moreover have "sid_generation h \<noteq> 0" using rc(1) by (simp add: surface_is_valid_def)
  ultimately have "h \<notin> set hs \<and> table_get u h = None" if "insertions es < 2 ^ 32 - 1" "table_run es t1 = Some (hs, u)" for es hs u
    using retired_run [of h 0 t1 es hs u] that by simp
  then have later: "h \<notin> set hs \<and> table_get u h = None \<and> (\<exists>e. table_remove u h = Inl e)"
    if "insertions es < 2 ^ 32 - 1" "table_run es t1 = Some (hs, u)" for es hs u
    using that table_remove_fails by blast
  have "h' \<noteq> h" using gen by auto
  then show ?thesis
    using dead surfaces.remove_twice_fails [OF assms] ins idx reused later table_run_returns [OF wf1] by blast
qed

definition example_table :: "nat SurfaceTable" where
  "example_table = \<lparr>tb_slots = [\<lparr>sl_generation = 1, sl_value = Some 5\<rparr>], tb_free = []\<rparr>"

definition example_history :: "nat table_event list" where
  "example_history = [TInsert 9, TRemove (SurfaceId 0 2), TInsert 10, TUpdate (SurfaceId 0 1) Suc, TInsert 11]"

text \<open>The slot is reused twice, and the old handle still resolves to nothing.\<close>

theorem table_stale_handle_is_dead_witness:
  "\<exists>t1 t2. table_remove example_table (SurfaceId 0 1) = Inr (5, t1)
     \<and> table_run example_history t1 = Some ([SurfaceId 0 2, SurfaceId 0 3, SurfaceId 1 1], t2)
     \<and> table_get t2 (SurfaceId 0 1) = None \<and> table_get t2 (SurfaceId 0 3) = Some 10"
proof -
  let ?t1 = "\<lparr>tb_slots = [\<lparr>sl_generation = 1, sl_value = None\<rparr>], tb_free = [0]\<rparr> :: nat SurfaceTable"
  let ?t2 = "\<lparr>tb_slots = [\<lparr>sl_generation = 3, sl_value = Some 10\<rparr>, \<lparr>sl_generation = 1, sl_value = Some 11\<rparr>], tb_free = []\<rparr> :: nat SurfaceTable"
  have wf: "table_wf example_table" by (simp add: example_table_def table_wf_def)
  have rem: "table_remove example_table (SurfaceId 0 1) = Inr (5, ?t1)"
    by (simp add: example_table_def table_remove_def table_slot_def surface_is_valid_def word_max_def)
  have run: "table_run example_history ?t1 = Some ([SurfaceId 0 2, SurfaceId 0 3, SurfaceId 1 1], ?t2)"
    by (simp add: example_history_def table_insert_def table_remove_def table_get_mut_def table_slot_def surface_is_valid_def
        word_max_def next_generation_def Let_def)
  have "insertions example_history < 2 ^ 32 - 1" by (simp add: example_history_def)
  then have "table_get ?t2 (SurfaceId 0 1) = None"
    using table_stale_handle_is_dead [OF wf rem, of 0] run by blast
  moreover have "table_get ?t2 (SurfaceId 0 3) = Some 10"
    by (simp add: table_get_eq surface_is_valid_def word_max_def)
  ultimately show ?thesis using rem run by blast
qed

end
