(* ===== verification/Ipc_Cursor.thy ===== *)
theory Ipc_Cursor
  imports Protocol_Types
begin

text \<open>
  The byte layer of the IPC codec (\<^verbatim>\<open>crates/sophia-protocol/src/ipc/{types,cursor}.rs\<close>): error values,
  little-endian integers, the bounded read cursor, and the interface \<open>codec\<close> that every field,
  record and message codec of the later theories instantiates. An encoder \<open>f(.., out: &mut Vec<u8>)\<close>
  is modelled by the bytes it appends to \<open>out\<close>.
\<close>

section \<open>Types (ipc/types.rs)\<close>

definition SOPHIA_IPC_MAGIC :: u32 where "SOPHIA_IPC_MAGIC = 0x48504f53"
definition SOPHIA_IPC_VERSION :: u16 where "SOPHIA_IPC_VERSION = 1"
definition SOPHIA_IPC_HEADER_LEN :: nat where "SOPHIA_IPC_HEADER_LEN = 24"
definition SOPHIA_IPC_MAX_PAYLOAD_LEN :: nat where "SOPHIA_IPC_MAX_PAYLOAD_LEN = 64 * 1024"
definition SOPHIA_IPC_MAX_ITEMS :: nat where "SOPHIA_IPC_MAX_ITEMS = 1024"

datatype IpcMessageKind =
    WmRequestMsg | WmResponseMsg | BrokerHealthMsg | XAuthorityRequestMsg | XAuthorityResponseMsg
  | PortalBrokerRequestMsg | PortalBrokerResponseMsg | WmHelloMsg | WmSessionDescriptorMsg
  | PortalClipboardPayloadMsg

text \<open>The discriminants (\<open>message_kind as u16\<close>).\<close>

fun message_kind_code :: "IpcMessageKind \<Rightarrow> u16" where
  "message_kind_code WmRequestMsg = 1"
| "message_kind_code WmResponseMsg = 2"
| "message_kind_code BrokerHealthMsg = 3"
| "message_kind_code XAuthorityRequestMsg = 4"
| "message_kind_code XAuthorityResponseMsg = 5"
| "message_kind_code PortalBrokerRequestMsg = 6"
| "message_kind_code PortalBrokerResponseMsg = 7"
| "message_kind_code WmHelloMsg = 9"
| "message_kind_code WmSessionDescriptorMsg = 10"
| "message_kind_code PortalClipboardPayloadMsg = 8"

record IpcFrameHeader =
  fh_message_kind :: IpcMessageKind
  fh_transaction :: TransactionId
  fh_payload_len :: u32

datatype IpcCodecError =
    Truncated
  | BadMagic
  | UnsupportedVersion u16
  | UnknownMessageKind u16
  | PayloadTooLarge nat
  | ReservedNonZero u32
  | TrailingBytes nat
  | CountTooLarge nat nat
  | TextTooLarge string nat nat
  | InvalidUtf8 string
  | InvalidEnum string u32
  | InvalidBool string u8

section \<open>Little-endian integers (ipc/cursor.rs)\<close>

fun le_bytes :: "nat \<Rightarrow> nat \<Rightarrow> u8 list" where
  "le_bytes 0 x = []"
| "le_bytes (Suc n) x = word_of_nat (x mod 256) # le_bytes n (x div 256)"

fun le_nat :: "u8 list \<Rightarrow> nat" where
  "le_nat [] = 0"
| "le_nat (b # bs) = unat b + 256 * le_nat bs"

definition push_u8 :: "u8 \<Rightarrow> u8 list" where "push_u8 v = [v]"
definition push_u16 :: "u16 \<Rightarrow> u8 list" where "push_u16 v = le_bytes 2 (unat v)"
definition push_u32 :: "u32 \<Rightarrow> u8 list" where "push_u32 v = le_bytes 4 (unat v)"
definition push_u64 :: "u64 \<Rightarrow> u8 list" where "push_u64 v = le_bytes 8 (unat v)"
definition push_i32 :: "i32 \<Rightarrow> u8 list" where "push_i32 v = le_bytes 4 (unat v)"

section \<open>The cursor (ipc/cursor.rs)\<close>

record Cursor =
  cur_bytes :: "u8 list"
  cur_offset :: nat

type_synonym 'a decoder = "Cursor \<Rightarrow> IpcCodecError + ('a \<times> Cursor)"

definition dret :: "'a \<Rightarrow> 'a decoder" where
  "dret x = (\<lambda>c. Inr (x, c))"

definition dfail :: "IpcCodecError \<Rightarrow> 'a decoder" where
  "dfail e = (\<lambda>c. Inl e)"

definition dbind :: "'a decoder \<Rightarrow> ('a \<Rightarrow> 'b decoder) \<Rightarrow> 'b decoder" where
  "dbind d f = (\<lambda>c. bind_res (d c) (\<lambda>(x, c'). f x c'))"

definition dlift :: "IpcCodecError + 'a \<Rightarrow> 'a decoder" where
  "dlift r = (case r of Inl e \<Rightarrow> dfail e | Inr x \<Rightarrow> dret x)"

definition cursor_new :: "u8 list \<Rightarrow> Cursor" where
  "cursor_new bs = \<lparr>cur_bytes = bs, cur_offset = 0\<rparr>"

definition cursor_finish :: "Cursor \<Rightarrow> IpcCodecError + unit" where
  "cursor_finish c =
     (let remaining = length (cur_bytes c) - cur_offset c in
      if remaining = 0 then Inr () else Inl (TrailingBytes remaining))"

text \<open>\<open>take::<N>\<close> and \<open>slice\<close>: the bytes at the cursor, or \<open>Truncated\<close> when they run out.\<close>

definition cursor_slice :: "nat \<Rightarrow> u8 list decoder" where
  "cursor_slice n = (\<lambda>c.
     if cur_offset c + n \<le> length (cur_bytes c)
     then Inr (take n (drop (cur_offset c) (cur_bytes c)), c\<lparr>cur_offset := cur_offset c + n\<rparr>)
     else Inl Truncated)"

definition cursor_u8 :: "u8 decoder" where
  "cursor_u8 = dbind (cursor_slice 1) (\<lambda>bs. dret (word_of_nat (le_nat bs)))"

definition cursor_u16 :: "u16 decoder" where
  "cursor_u16 = dbind (cursor_slice 2) (\<lambda>bs. dret (word_of_nat (le_nat bs)))"

definition cursor_u32 :: "u32 decoder" where
  "cursor_u32 = dbind (cursor_slice 4) (\<lambda>bs. dret (word_of_nat (le_nat bs)))"

definition cursor_u64 :: "u64 decoder" where
  "cursor_u64 = dbind (cursor_slice 8) (\<lambda>bs. dret (word_of_nat (le_nat bs)))"

definition cursor_i32 :: "i32 decoder" where
  "cursor_i32 = dbind (cursor_slice 4) (\<lambda>bs. dret (word_of_nat (le_nat bs)))"

text \<open>\<open>for _ in 0..count { xs.push(decode(cursor)?) }\<close>\<close>

fun decode_repeat :: "nat \<Rightarrow> 'a decoder \<Rightarrow> 'a list decoder" where
  "decode_repeat 0 d = dret []"
| "decode_repeat (Suc n) d = dbind d (\<lambda>x. dbind (decode_repeat n d) (\<lambda>xs. dret (x # xs)))"

text \<open>Decoding a whole payload: run the decoder from the start, then \<open>finish\<close>.\<close>

definition decode_all :: "'a decoder \<Rightarrow> u8 list \<Rightarrow> IpcCodecError + 'a" where
  "decode_all d bs =
     bind_res (d (cursor_new bs)) (\<lambda>(x, c). bind_res (cursor_finish c) (\<lambda>_. Inr x))"

section \<open>Little-endian facts\<close>

lemma length_le_bytes [simp]: "length (le_bytes n x) = n"
  by (induction n arbitrary: x) auto

lemma le_bytes_numerals:
  "le_bytes 2 x = [word_of_nat (x mod 256), word_of_nat (x div 256 mod 256)]"
  "le_bytes 4 x = [word_of_nat (x mod 256), word_of_nat (x div 256 mod 256),
     word_of_nat (x div 256 div 256 mod 256), word_of_nat (x div 256 div 256 div 256 mod 256)]"
  "le_bytes 8 x = [word_of_nat (x mod 256), word_of_nat (x div 256 mod 256),
     word_of_nat (x div 256 div 256 mod 256), word_of_nat (x div 256 div 256 div 256 mod 256)]
     @ le_bytes 4 (x div 256 div 256 div 256 div 256)"
proof -
  have n: "(2::nat) = Suc (Suc 0)" "(4::nat) = Suc (Suc (Suc (Suc 0)))"
    "(8::nat) = Suc (Suc (Suc (Suc (Suc (Suc (Suc (Suc 0)))))))"
    by simp_all
  show "le_bytes 2 x = [word_of_nat (x mod 256), word_of_nat (x div 256 mod 256)]"
    by (simp only: n le_bytes.simps)
  show "le_bytes 4 x = [word_of_nat (x mod 256), word_of_nat (x div 256 mod 256),
     word_of_nat (x div 256 div 256 mod 256), word_of_nat (x div 256 div 256 div 256 mod 256)]"
    by (simp only: n le_bytes.simps)
  show "le_bytes 8 x = [word_of_nat (x mod 256), word_of_nat (x div 256 mod 256),
     word_of_nat (x div 256 div 256 mod 256), word_of_nat (x div 256 div 256 div 256 mod 256)]
     @ le_bytes 4 (x div 256 div 256 div 256 div 256)"
    by (simp only: n le_bytes.simps append.simps)
qed

lemma le_nat_le_bytes: "le_nat (le_bytes n x) = x mod 256 ^ n"
proof (induction n arbitrary: x)
  case (Suc n)
  have "unat (word_of_nat (x mod 256) :: u8) = x mod 256"
    by (simp add: unat_of_nat)
  then show ?case
    using Suc by (simp add: mod_mult2_eq)
qed simp

lemma le_bytes_le_nat: "le_bytes (length bs) (le_nat bs) = bs"
proof (induction bs)
  case (Cons b bs)
  have "unat b < 256" using unsigned_less [of b] by simp
  then show ?case using Cons by simp
qed simp

lemma le_nat_bound: "le_nat bs < 256 ^ length bs"
proof (induction bs)
  case (Cons b bs)
  have "unat b < 256" using unsigned_less [of b] by simp
  then show ?case using Cons by simp
qed simp

lemma word_le_roundtrip:
  "256 ^ n = (2::nat) ^ LENGTH('a) \<Longrightarrow> word_of_nat (le_nat (le_bytes n (unat x))) = x"
  for x :: "'a::len word"
  by (simp add: le_nat_le_bytes)

lemma push_lengths [simp]:
  "length (push_u8 a) = 1" "length (push_u16 b) = 2" "length (push_u32 c) = 4"
  "length (push_u64 d) = 8" "length (push_i32 e) = 4"
  by (simp_all add: push_u8_def push_u16_def push_u32_def push_u64_def push_i32_def)

section \<open>What it means to decode an encoding\<close>

named_theorems codec_intros \<open>rules that decode a field from its encoding\<close>

text \<open>
  \<open>decodes d bs x\<close>: wherever \<open>bs\<close> stands in a buffer, running \<open>d\<close> at its start returns \<open>x\<close> and
  leaves the cursor just after \<open>bs\<close>.
\<close>

definition decodes :: "'a decoder \<Rightarrow> u8 list \<Rightarrow> 'a \<Rightarrow> bool" where
  "decodes d bs x \<longleftrightarrow>
     (\<forall>pre post. d \<lparr>cur_bytes = pre @ bs @ post, cur_offset = length pre\<rparr>
        = Inr (x, \<lparr>cur_bytes = pre @ bs @ post, cur_offset = length pre + length bs\<rparr>))"

lemma decodesD:
  "decodes d bs x \<Longrightarrow>
     d \<lparr>cur_bytes = pre @ bs @ post, cur_offset = length pre\<rparr>
     = Inr (x, \<lparr>cur_bytes = pre @ bs @ post, cur_offset = length pre + length bs\<rparr>)"
  by (simp add: decodes_def)

lemma decodes_ret [codec_intros]: "decodes (dret x) [] x"
  by (simp add: decodes_def dret_def)

lemma decodes_bind:
  assumes "decodes d bs1 x" "decodes (f x) bs2 y"
  shows "decodes (dbind d f) (bs1 @ bs2) y"
  unfolding decodes_def
proof (intro allI)
  fix pre post
  have 1: "d \<lparr>cur_bytes = pre @ bs1 @ bs2 @ post, cur_offset = length pre\<rparr>
        = Inr (x, \<lparr>cur_bytes = pre @ bs1 @ bs2 @ post, cur_offset = length pre + length bs1\<rparr>)"
    using assms(1) by (simp add: decodes_def)
  have 2: "f x \<lparr>cur_bytes = (pre @ bs1) @ bs2 @ post, cur_offset = length (pre @ bs1)\<rparr>
        = Inr (y, \<lparr>cur_bytes = (pre @ bs1) @ bs2 @ post,
                   cur_offset = length (pre @ bs1) + length bs2\<rparr>)"
    using decodesD [OF assms(2), of "pre @ bs1" post] .
  show "dbind d f \<lparr>cur_bytes = pre @ (bs1 @ bs2) @ post, cur_offset = length pre\<rparr>
        = Inr (y, \<lparr>cur_bytes = pre @ (bs1 @ bs2) @ post,
                   cur_offset = length pre + length (bs1 @ bs2)\<rparr>)"
    using 1 2 by (simp add: dbind_def add.assoc)
qed

lemma decodes_bind_last:
  assumes "decodes d bs x" "f x = dret y"
  shows "decodes (dbind d f) bs y"
  using decodes_bind [OF assms(1), of f "[]" y] decodes_ret [of y] assms(2) by simp

lemma decodes_bind_pure:
  assumes "decodes (f x) bs y"
  shows "decodes (dbind (dret x) f) bs y"
  using decodes_bind [OF decodes_ret [of x], of f bs y] assms by simp

lemma decodes_all: "decodes d bs x \<Longrightarrow> decode_all d bs = Inr x"
  using decodesD [of d bs x "[]" "[]"]
  by (simp add: decode_all_def cursor_new_def cursor_finish_def)

lemma decodes_slice: "decodes (cursor_slice (length bs)) bs bs"
  by (simp add: decodes_def cursor_slice_def)

lemma decodes_slice' [codec_intros]: "n = length bs \<Longrightarrow> decodes (cursor_slice n) bs bs"
  by (simp add: decodes_slice)

lemma decodes_le:
  assumes "length bs = n" "word_of_nat (le_nat bs) = v"
  shows "decodes (dbind (cursor_slice n) (\<lambda>bs. dret (word_of_nat (le_nat bs)))) bs v"
  using assms by (auto intro!: decodes_bind_last decodes_slice')

section \<open>The codec interface\<close>

locale codec =
  fixes enc :: "'a \<Rightarrow> u8 list"
    and dec :: "'a decoder"
    and valid :: "'a \<Rightarrow> bool"
  assumes dec_enc: "valid x \<Longrightarrow> decodes dec (enc x) x"
begin

lemma dec_all_enc: "valid x \<Longrightarrow> decode_all dec (enc x) = Inr x"
  by (rule decodes_all [OF dec_enc])

lemma prefix_free:
  assumes "valid x" "valid y" "enc x @ r = enc y @ s"
  shows "x = y \<and> r = s"
proof -
  have x: "dec \<lparr>cur_bytes = enc x @ r, cur_offset = 0\<rparr>
        = Inr (x, \<lparr>cur_bytes = enc x @ r, cur_offset = length (enc x)\<rparr>)"
    using decodesD [OF dec_enc [OF assms(1)], of "[]" r] by simp
  have y: "dec \<lparr>cur_bytes = enc y @ s, cur_offset = 0\<rparr>
        = Inr (y, \<lparr>cur_bytes = enc y @ s, cur_offset = length (enc y)\<rparr>)"
    using decodesD [OF dec_enc [OF assms(2)], of "[]" s] by simp
  show ?thesis
    using x y assms(3) by simp
qed

lemma enc_inject: "valid x \<Longrightarrow> valid y \<Longrightarrow> enc x = enc y \<Longrightarrow> x = y"
  using prefix_free [of x y "[]" "[]"] by simp

lemma repeat_enc:
  "\<forall>x \<in> set xs. valid x \<Longrightarrow> decodes (decode_repeat (length xs) dec) (concat (map enc xs)) xs"
proof (induction xs)
  case Nil
  then show ?case by (simp add: decodes_ret)
next
  case (Cons x xs)
  then have "decodes dec (enc x) x"
    and "decodes (decode_repeat (length xs) dec) (concat (map enc xs)) xs"
    by (simp_all add: dec_enc)
  then show ?case
    by simp (erule decodes_bind, erule decodes_bind_last, simp)
qed

end

interpretation u8_codec: codec push_u8 cursor_u8 "\<lambda>_. True"
  by unfold_locales (auto simp: cursor_u8_def push_u8_def intro!: decodes_le)

interpretation u16_codec: codec push_u16 cursor_u16 "\<lambda>_. True"
  by unfold_locales
     (auto simp: cursor_u16_def push_u16_def intro!: decodes_le word_le_roundtrip)

interpretation u32_codec: codec push_u32 cursor_u32 "\<lambda>_. True"
  by unfold_locales
     (auto simp: cursor_u32_def push_u32_def intro!: decodes_le word_le_roundtrip)

interpretation u64_codec: codec push_u64 cursor_u64 "\<lambda>_. True"
  by unfold_locales
     (auto simp: cursor_u64_def push_u64_def intro!: decodes_le word_le_roundtrip)

interpretation i32_codec: codec push_i32 cursor_i32 "\<lambda>_. True"
  by unfold_locales
     (auto simp: cursor_i32_def push_i32_def intro!: decodes_le word_le_roundtrip)

lemmas int_codecs [codec_intros] =
  u8_codec.dec_enc [OF TrueI] u16_codec.dec_enc [OF TrueI] u32_codec.dec_enc [OF TrueI]
  u64_codec.dec_enc [OF TrueI] i32_codec.dec_enc [OF TrueI]

end
