(* ===== verification/Ipc_Frame.thy ===== *)
theory Ipc_Frame
  imports Ipc_Cursor
begin

text \<open>
  The frame layer (\<^verbatim>\<open>ipc/frame.rs\<close>): a 24-byte header with magic, version, message kind, transaction,
  payload length and a reserved word, followed by a payload of at most 64 KiB. Encoding and decoding
  are inverse in both directions, so each accepted frame has exactly one meaning and each message
  exactly one frame.
\<close>

section \<open>Model (ipc/frame.rs)\<close>

definition encode_frame ::
  "IpcMessageKind \<Rightarrow> TransactionId \<Rightarrow> u8 list \<Rightarrow> IpcCodecError + u8 list" where
  "encode_frame kind tx payload =
     (if SOPHIA_IPC_MAX_PAYLOAD_LEN < length payload then Inl (PayloadTooLarge (length payload))
      else Inr (push_u32 SOPHIA_IPC_MAGIC @ push_u16 SOPHIA_IPC_VERSION
                @ push_u16 (message_kind_code kind) @ push_u64 tx
                @ push_u32 (word_of_nat (length payload)) @ push_u32 0 @ payload))"

definition message_kind_of_code :: "u16 \<Rightarrow> IpcCodecError + IpcMessageKind" where
  "message_kind_of_code k =
     (if k = 1 then Inr WmRequestMsg
      else if k = 2 then Inr WmResponseMsg
      else if k = 3 then Inr BrokerHealthMsg
      else if k = 4 then Inr XAuthorityRequestMsg
      else if k = 5 then Inr XAuthorityResponseMsg
      else if k = 6 then Inr PortalBrokerRequestMsg
      else if k = 7 then Inr PortalBrokerResponseMsg
      else if k = 8 then Inr PortalClipboardPayloadMsg
      else if k = 9 then Inr WmHelloMsg
      else if k = 10 then Inr WmSessionDescriptorMsg
      else Inl (UnknownMessageKind k))"

text \<open>The reads of \<open>decode_frame\<close> up to the check of the reserved word.\<close>

definition decode_frame_header :: "(IpcMessageKind \<times> TransactionId \<times> u32) decoder" where
  "decode_frame_header =
     dbind cursor_u32 (\<lambda>magic.
       if magic \<noteq> SOPHIA_IPC_MAGIC then dfail BadMagic
       else dbind cursor_u16 (\<lambda>version.
         if version \<noteq> SOPHIA_IPC_VERSION then dfail (UnsupportedVersion version)
         else dbind cursor_u16 (\<lambda>k.
           dbind (dlift (message_kind_of_code k)) (\<lambda>kind.
             dbind cursor_u64 (\<lambda>tx.
               dbind cursor_u32 (\<lambda>payload_len.
                 dbind cursor_u32 (\<lambda>reserved.
                   if reserved \<noteq> 0 then dfail (ReservedNonZero reserved)
                   else dret (kind, tx, payload_len))))))))"

definition decode_frame :: "u8 list \<Rightarrow> IpcCodecError + (IpcFrameHeader \<times> u8 list)" where
  "decode_frame frame =
     (if length frame < SOPHIA_IPC_HEADER_LEN then Inl Truncated
      else bind_res (decode_frame_header (cursor_new frame)) (\<lambda>((kind, tx, payload_len), _).
        let n = unat payload_len; expected = SOPHIA_IPC_HEADER_LEN + n in
        if SOPHIA_IPC_MAX_PAYLOAD_LEN < n then Inl (PayloadTooLarge n)
        else if length frame < expected then Inl Truncated
        else if expected < length frame then Inl (TrailingBytes (length frame - expected))
        else Inr (\<lparr>fh_message_kind = kind, fh_transaction = tx, fh_payload_len = payload_len\<rparr>,
                  take n (drop SOPHIA_IPC_HEADER_LEN frame))))"

section \<open>Reading backwards: what a successful read says about the buffer\<close>

definition consumed :: "Cursor \<Rightarrow> u8 list \<Rightarrow> Cursor \<Rightarrow> bool" where
  "consumed c bs c' \<longleftrightarrow>
     cur_bytes c' = cur_bytes c \<and> cur_offset c' = cur_offset c + length bs
     \<and> drop (cur_offset c) (cur_bytes c) = bs @ drop (cur_offset c') (cur_bytes c')"

lemma consumed_refl: "consumed c [] c"
  by (simp add: consumed_def)

lemma consumed_trans: "consumed c bs c1 \<Longrightarrow> consumed c1 bs' c2 \<Longrightarrow> consumed c (bs @ bs') c2"
  by (auto simp: consumed_def)

lemma consumed_from_start:
  "consumed c bs c' \<Longrightarrow> cur_offset c = 0 \<Longrightarrow> bs @ drop (length bs) (cur_bytes c) = cur_bytes c"
  unfolding consumed_def by (metis add_0 drop_0)

lemma cursor_slice_consumed:
  assumes "cursor_slice n c = Inr (bs, c')"
  shows "consumed c bs c' \<and> length bs = n"
proof -
  have "cur_offset c + n \<le> length (cur_bytes c)" "bs = take n (drop (cur_offset c) (cur_bytes c))"
    "c' = c\<lparr>cur_offset := cur_offset c + n\<rparr>"
    using assms by (auto simp: cursor_slice_def split: if_splits)
  then show ?thesis
    by (simp add: consumed_def add.commute flip: drop_drop)
qed

lemma cursor_le_consumed:
  fixes v :: "'a::len word"
  assumes "dbind (cursor_slice n) (\<lambda>bs. dret (word_of_nat (le_nat bs))) c = Inr (v, c')"
    and "256 ^ n = (2::nat) ^ LENGTH('a)"
  shows "consumed c (le_bytes n (unat v)) c'"
proof -
  obtain bs where sl: "cursor_slice n c = Inr (bs, c')" and v: "v = word_of_nat (le_nat bs)"
    using assms(1) by (auto simp: dbind_def dret_def)
  have c: "consumed c bs c'" and len: "length bs = n"
    using cursor_slice_consumed [OF sl] by auto
  have "unat v = le_nat bs"
    using le_nat_bound [of bs] len assms(2) by (simp add: v unat_of_nat)
  then show ?thesis
    using c len le_bytes_le_nat [of bs] by simp
qed

lemma cursor_int_consumed:
  "cursor_u16 c = Inr (v16, c') \<Longrightarrow> consumed c (push_u16 v16) c'"
  "cursor_u32 c = Inr (v32, c') \<Longrightarrow> consumed c (push_u32 v32) c'"
  "cursor_u64 c = Inr (v64, c') \<Longrightarrow> consumed c (push_u64 v64) c'"
  by (simp_all add: cursor_u16_def cursor_u32_def cursor_u64_def push_u16_def push_u32_def
        push_u64_def cursor_le_consumed)

lemma dbind_eq_Inr:
  "dbind d f c = Inr (y, c') \<longleftrightarrow> (\<exists>x c1. d c = Inr (x, c1) \<and> f x c1 = Inr (y, c'))"
  by (auto simp: dbind_def)

lemma dret_eq_Inr [simp]: "dret x c = Inr (y, c') \<longleftrightarrow> y = x \<and> c' = c"
  by (auto simp: dret_def)

lemma dfail_neq_Inr [simp]: "dfail e c \<noteq> Inr p"
  by (simp add: dfail_def)

lemma dlift_eq_Inr [simp]: "dlift r c = Inr (y, c') \<longleftrightarrow> r = Inr y \<and> c' = c"
  by (cases r) (auto simp: dlift_def dret_def dfail_def)

lemma dlift_Inr [simp]: "dlift (Inr x) = dret x"
  by (simp add: dlift_def)

lemma message_kind_code_roundtrip [simp]: "message_kind_of_code (message_kind_code k) = Inr k"
  by (cases k) (simp_all add: message_kind_of_code_def)

lemma message_kind_of_codeD: "message_kind_of_code k = Inr m \<Longrightarrow> message_kind_code m = k"
  by (auto simp: message_kind_of_code_def split: if_splits)

definition header_bytes :: "IpcMessageKind \<Rightarrow> TransactionId \<Rightarrow> u32 \<Rightarrow> u8 list" where
  "header_bytes kind tx n =
     push_u32 SOPHIA_IPC_MAGIC @ push_u16 SOPHIA_IPC_VERSION @ push_u16 (message_kind_code kind)
     @ push_u64 tx @ push_u32 n @ push_u32 0"

lemma length_header_bytes [simp]: "length (header_bytes kind tx n) = 24"
  by (simp add: header_bytes_def)

lemma encode_frame_eq:
  "length payload \<le> SOPHIA_IPC_MAX_PAYLOAD_LEN \<Longrightarrow>
   encode_frame kind tx payload =
     Inr (header_bytes kind tx (word_of_nat (length payload)) @ payload)"
  by (simp add: encode_frame_def header_bytes_def)

lemma decodes_header:
  "decodes decode_frame_header (header_bytes kind tx n) (kind, tx, n)"
  unfolding decode_frame_header_def header_bytes_def
  by (rule decodes_bind, rule codec_intros, simp,
      rule decodes_bind, rule codec_intros, simp,
      rule decodes_bind, rule codec_intros, simp, rule decodes_bind_pure,
      rule decodes_bind, rule codec_intros,
      rule decodes_bind, rule codec_intros,
      rule decodes_bind_last, rule codec_intros, simp)

lemma header_consumed:
  assumes "decode_frame_header c = Inr ((kind, tx, n), c')"
  shows "consumed c (header_bytes kind tx n) c'"
proof -
  obtain c1 c2 c3 c4 c5 where
    r: "cursor_u32 c = Inr (SOPHIA_IPC_MAGIC, c1)" "cursor_u16 c1 = Inr (SOPHIA_IPC_VERSION, c2)"
       "cursor_u16 c2 = Inr (message_kind_code kind, c3)" "cursor_u64 c3 = Inr (tx, c4)"
       "cursor_u32 c4 = Inr (n, c5)" "cursor_u32 c5 = Inr (0, c')"
    using assms unfolding decode_frame_header_def
    by (auto simp: dbind_eq_Inr dest: message_kind_of_codeD split: if_splits)
  show ?thesis
    unfolding header_bytes_def
    using r by (intro consumed_trans cursor_int_consumed)
qed

lemma frame_encode_decode:
  assumes len: "length payload \<le> SOPHIA_IPC_MAX_PAYLOAD_LEN"
  shows "\<exists>f. encode_frame kind tx payload = Inr f
           \<and> decode_frame f = Inr (\<lparr>fh_message_kind = kind, fh_transaction = tx,
                                   fh_payload_len = word_of_nat (length payload)\<rparr>, payload)"
proof -
  let ?n = "word_of_nat (length payload) :: u32"
  let ?f = "header_bytes kind tx ?n @ payload"
  have n: "unat ?n = length payload"
    using len by (simp add: unat_of_nat SOPHIA_IPC_MAX_PAYLOAD_LEN_def)
  have "decode_frame_header (cursor_new ?f) = Inr ((kind, tx, ?n), \<lparr>cur_bytes = ?f, cur_offset = 24\<rparr>)"
    using decodesD [OF decodes_header [of kind tx ?n], of "[]" payload]
    by (simp add: cursor_new_def)
  then have "decode_frame ?f = Inr (\<lparr>fh_message_kind = kind, fh_transaction = tx,
      fh_payload_len = ?n\<rparr>, payload)"
    using len n by (simp add: decode_frame_def SOPHIA_IPC_HEADER_LEN_def)
  then show ?thesis
    using encode_frame_eq [OF len] by auto
qed

lemma frame_decode_encode:
  assumes "decode_frame f = Inr (h, p)"
  shows "encode_frame (fh_message_kind h) (fh_transaction h) p = Inr f
         \<and> unat (fh_payload_len h) = length p"
proof -
  obtain kind tx n c' where
    hd: "decode_frame_header (cursor_new f) = Inr ((kind, tx, n), c')"
    and n: "unat n \<le> SOPHIA_IPC_MAX_PAYLOAD_LEN" "length f = 24 + unat n"
    and h: "h = \<lparr>fh_message_kind = kind, fh_transaction = tx, fh_payload_len = n\<rparr>"
    and p: "p = take (unat n) (drop 24 f)"
    using assms
    by (auto simp: decode_frame_def Let_def SOPHIA_IPC_HEADER_LEN_def not_less
          split: if_splits prod.splits)
  have f: "header_bytes kind tx n @ drop 24 f = f"
    using consumed_from_start [OF header_consumed [OF hd]] by (simp add: cursor_new_def)
  have lp: "length p = unat n" and pd: "p = drop 24 f"
    using n p by simp_all
  have "encode_frame kind tx p = Inr (header_bytes kind tx (word_of_nat (length p)) @ p)"
    by (rule encode_frame_eq) (simp add: lp n)
  also have "word_of_nat (length p) = n"
    by (simp add: lp)
  also have "header_bytes kind tx n @ p = f"
    by (metis f pd)
  finally show ?thesis
    by (simp add: h lp)
qed

text \<open>From a frame that was encoded, \<open>decode_frame\<close> gives back kind, transaction and payload.\<close>

lemma encode_frame_decode:
  assumes "encode_frame kind tx payload = Inr f"
  shows "\<exists>h. decode_frame f = Inr (h, payload) \<and> fh_message_kind h = kind \<and> fh_transaction h = tx"
proof -
  have "length payload \<le> SOPHIA_IPC_MAX_PAYLOAD_LEN"
    using assms by (auto simp: encode_frame_def split: if_splits)
  then obtain g where "encode_frame kind tx payload = Inr g"
    "decode_frame g = Inr (\<lparr>fh_message_kind = kind, fh_transaction = tx,
                            fh_payload_len = word_of_nat (length payload)\<rparr>, payload)"
    using frame_encode_decode by blast
  then show ?thesis using assms by simp
qed

text \<open>A reader of a stream finds the payload length at offset 16 of the header.\<close>

lemma encode_frame_length_field:
  assumes "encode_frame kind tx payload = Inr f"
  shows "length f = SOPHIA_IPC_HEADER_LEN + length payload" "length payload \<le> SOPHIA_IPC_MAX_PAYLOAD_LEN"
    "le_nat (take 4 (drop 16 (take SOPHIA_IPC_HEADER_LEN f))) = length payload"
proof -
  let ?n = "word_of_nat (length payload) :: u32"
  show len: "length payload \<le> SOPHIA_IPC_MAX_PAYLOAD_LEN"
    using assms by (auto simp: encode_frame_def split: if_splits)
  have f: "f = header_bytes kind tx ?n @ payload" using encode_frame_eq [OF len] assms by simp
  then show "length f = SOPHIA_IPC_HEADER_LEN + length payload" by (simp add: SOPHIA_IPC_HEADER_LEN_def)
  have "take 4 (drop 16 (take 24 f)) = push_u32 ?n"
    by (simp add: f header_bytes_def push_u16_def push_u32_def push_u64_def le_bytes_numerals)
  moreover have "le_nat (push_u32 ?n) = length payload"
    using len by (simp add: push_u32_def le_nat_le_bytes SOPHIA_IPC_MAX_PAYLOAD_LEN_def unat_of_nat)
  ultimately show "le_nat (take 4 (drop 16 (take SOPHIA_IPC_HEADER_LEN f))) = length payload"
    by (simp add: SOPHIA_IPC_HEADER_LEN_def)
qed

section \<open>Properties\<close>

text \<open>
  Property C2. Framing is a bijection between messages with a payload of at most 64 KiB and accepted
  frames: every such message encodes, and its frame decodes to exactly the kind, transaction, length
  and payload that went in; every frame the decoder accepts is the encoding of what it returned.
\<close>

theorem frame_roundtrip:
  "(length payload \<le> SOPHIA_IPC_MAX_PAYLOAD_LEN \<longrightarrow>
      (\<exists>f. encode_frame kind tx payload = Inr f
        \<and> decode_frame f = Inr (\<lparr>fh_message_kind = kind, fh_transaction = tx,
                                fh_payload_len = word_of_nat (length payload)\<rparr>, payload)))
   \<and> (decode_frame g = Inr (h, p) \<longrightarrow>
      encode_frame (fh_message_kind h) (fh_transaction h) p = Inr g
      \<and> unat (fh_payload_len h) = length p)"
  using frame_encode_decode frame_decode_encode by blast

definition example_frame :: "u8 list" where
  "example_frame =
     [0x53, 0x4F, 0x50, 0x48, 1, 0, 1, 0, 7, 0, 0, 0, 0, 0, 0, 0, 2, 0, 0, 0, 0, 0, 0, 0, 10, 20]"

theorem frame_roundtrip_witness:
  "encode_frame WmRequestMsg 7 [10, 20] = Inr example_frame
   \<and> decode_frame example_frame
     = Inr (\<lparr>fh_message_kind = WmRequestMsg, fh_transaction = 7, fh_payload_len = 2\<rparr>, [10, 20])"
proof -
  have enc: "encode_frame WmRequestMsg 7 [10, 20] = Inr example_frame"
    by (simp add: encode_frame_def example_frame_def push_u16_def push_u32_def push_u64_def
        le_bytes_numerals SOPHIA_IPC_MAGIC_def SOPHIA_IPC_VERSION_def
        SOPHIA_IPC_MAX_PAYLOAD_LEN_def)
  have "\<exists>f. encode_frame WmRequestMsg 7 [10, 20] = Inr f
     \<and> decode_frame f = Inr (\<lparr>fh_message_kind = WmRequestMsg, fh_transaction = 7,
                             fh_payload_len = word_of_nat (length [10::u8, 20])\<rparr>, [10, 20])"
    using frame_roundtrip [of "[10, 20]" WmRequestMsg 7]
    by (simp add: SOPHIA_IPC_MAX_PAYLOAD_LEN_def)
  then show ?thesis using enc by auto
qed

end
