(* ===== verification/Protocol_Packets.thy ===== *)
theory Protocol_Packets
  imports Protocol_Types
begin

text \<open>
  The remaining packets of \<^verbatim>\<open>crates/sophia-protocol\<close>: window-manager requests and responses
  (\<^verbatim>\<open>packets/wm.rs\<close>, \<^verbatim>\<open>packets/surface/layout.rs\<close>), input (\<^verbatim>\<open>packets/input.rs\<close>), portal transfers
  (\<^verbatim>\<open>packets/portal.rs\<close>), chrome and broker health (\<^verbatim>\<open>packets/chrome.rs\<close>), output topology
  (\<^verbatim>\<open>packets/output.rs\<close>) and the cursor image (\<^verbatim>\<open>cursor.rs\<close>), with the constructors
  and validators the code gives them.
\<close>

section \<open>Layout nodes (packets/surface/layout.rs)\<close>

datatype LayoutNodeKind = Toplevel | Dialog | Utility | UnknownNode

record LayoutNodeCapabilities =
  lc_movable :: bool
  lc_resizable :: bool
  lc_focusable :: bool
  lc_closable :: bool
  lc_fullscreenable :: bool

definition STANDARD_TOPLEVEL :: LayoutNodeCapabilities where
  "STANDARD_TOPLEVEL =
     \<lparr>lc_movable = True, lc_resizable = True, lc_focusable = True, lc_closable = True,
      lc_fullscreenable = True\<rparr>"

record LayoutNodeState =
  lt_focused :: bool
  lt_urgent :: bool
  lt_fullscreen :: bool
  lt_floating :: bool
  lt_visible :: bool

definition node_state_NORMAL :: LayoutNodeState where
  "node_state_NORMAL =
     \<lparr>lt_focused = False, lt_urgent = False, lt_fullscreen = False, lt_floating = False,
      lt_visible = True\<rparr>"

record LayoutNodeSnapshot =
  ln_surface :: SurfaceId
  ln_workspace :: WorkspaceId
  ln_kind :: LayoutNodeKind
  ln_capabilities :: LayoutNodeCapabilities
  ln_state :: LayoutNodeState
  ln_constraints :: SurfaceConstraints
  ln_geometry :: Rect
  ln_generation :: u64

section \<open>Window manager (packets/wm.rs)\<close>

record SurfaceSizeRequest =
  zr_surface :: SurfaceId
  zr_size :: Size

record SurfacePlacement =
  sp_surface :: SurfaceId
  sp_geometry :: Rect
  sp_z_index :: i32
  sp_crop :: "Rect option"
  sp_transform :: Transform

record LayoutTransaction =
  lx_transaction :: TransactionId
  lx_requested_sizes :: "SurfaceSizeRequest list"
  lx_focus :: "SurfaceId option"
  lx_render_positions :: "SurfacePlacement list"
  lx_timeout_msec :: u32

definition WM_API_VERSION :: u16 where "WM_API_VERSION = 2"
definition WM_MAX_BINDINGS :: nat where "WM_MAX_BINDINGS = 256"

definition WMCAP_SUPPORTED :: u64 where
  "WMCAP_SUPPORTED = push_bit 0 1 OR push_bit 1 1 OR push_bit 2 1"

definition WMMOD_SHIFT :: u32 where "WMMOD_SHIFT = push_bit 0 1"
definition WMMOD_CONTROL :: u32 where "WMMOD_CONTROL = push_bit 1 1"
definition WMMOD_ALT :: u32 where "WMMOD_ALT = push_bit 2 1"
definition WMMOD_SUPER :: u32 where "WMMOD_SUPER = push_bit 3 1"
definition WMMOD_SUPPORTED :: u32 where
  "WMMOD_SUPPORTED = WMMOD_SHIFT OR WMMOD_CONTROL OR WMMOD_ALT OR WMMOD_SUPER"

record WmBindingRegistration =
  wb_action :: WmActionId
  wb_keycode :: u32
  wb_modifiers :: u32

record WmHello =
  wh_api_version :: u16
  wh_capabilities :: u64
  wh_bindings :: "WmBindingRegistration list"

record WmOutputWorkspace =
  ow_output :: OutputId
  ow_workspace :: WorkspaceId

datatype WmSessionAction =
  LaunchTerminal | LaunchApplicationMenu | LaunchFirefox | CloseFocused | Logout

record WmSessionDescriptor =
  wd_api_version :: u16
  wd_workspaces :: "WorkspaceId list"
  wd_active_workspaces :: "WmOutputWorkspace list"
  wd_session_actions :: "WmSessionAction list"

record WmActionActivation =
  wa_action :: WmActionId
  wa_output :: OutputId
  wa_workspace :: WorkspaceId
  wa_focused_surface :: "SurfaceId option"
  wa_nodes :: "LayoutNodeSnapshot list"

record WmManageSurface =
  ms_node :: LayoutNodeSnapshot
  ms_output :: OutputId
  ms_workspace :: WorkspaceId
  ms_bounds :: Rect

record WmRelayoutWorkspace =
  rw_output :: OutputId
  rw_workspace :: WorkspaceId
  rw_bounds :: Rect
  rw_nodes :: "LayoutNodeSnapshot list"

datatype WmRequestKind =
    ManageSurface WmManageSurface
  | RelayoutWorkspace WmRelayoutWorkspace
  | SurfaceRemoved SurfaceId WorkspaceId
  | ActionActivated WmActionActivation

record WmRequestPacket =
  wq_transaction :: TransactionId
  wq_kind :: WmRequestKind

datatype WmCommand =
    ConfigureSurface SurfaceSizeRequest
  | FocusSurface SurfaceId
  | AssignWorkspace SurfaceId WorkspaceId
  | RenderSurface SurfacePlacement
  | ActivateWorkspace OutputId WorkspaceId
  | RequestSessionAction WmSessionAction "SurfaceId option"

record WmResponsePacket =
  wr_transaction :: TransactionId
  wr_commands :: "WmCommand list"
  wr_timeout_msec :: u32

text \<open>One iteration of the loop of \<open>into_layout_transaction\<close>.\<close>

fun layout_add_command :: "LayoutTransaction \<Rightarrow> WmCommand \<Rightarrow> LayoutTransaction" where
  "layout_add_command t (ConfigureSurface q) =
     t\<lparr>lx_requested_sizes := lx_requested_sizes t @ [q]\<rparr>"
| "layout_add_command t (FocusSurface s) = t\<lparr>lx_focus := Some s\<rparr>"
| "layout_add_command t (AssignWorkspace s w) = t"
| "layout_add_command t (RenderSurface p) =
     t\<lparr>lx_render_positions := lx_render_positions t @ [p]\<rparr>"
| "layout_add_command t (ActivateWorkspace p w) = t"
| "layout_add_command t (RequestSessionAction a s) = t"

definition into_layout_transaction :: "WmResponsePacket \<Rightarrow> LayoutTransaction" where
  "into_layout_transaction r =
     foldl layout_add_command
       \<lparr>lx_transaction = wr_transaction r, lx_requested_sizes = [], lx_focus = None,
        lx_render_positions = [], lx_timeout_msec = wr_timeout_msec r\<rparr>
       (wr_commands r)"

datatype TransactionOutcome =
  Committed | RejectedStaleSurface | RejectedInvalidSurface | TimedOut

record TransactionCommit =
  tc_transaction :: TransactionId
  tc_outcome :: TransactionOutcome
  tc_applied_surfaces :: "SurfaceId list"

section \<open>Input (packets/input.rs)\<close>

datatype InputEventKind =
    PointerMotion
  | PointerButton u32 bool
  | Key u32 bool

record InputEventPacket =
  ie_serial :: u64
  ie_seat :: SeatId
  ie_device :: DeviceId
  ie_time_msec :: u64
  ie_kind :: InputEventKind
  ie_global_position :: "Point option"
  ie_target_surface :: "SurfaceId option"
  ie_local_position :: "Point option"

datatype InputRouteOutcome = Routed | NoTarget | StaleTarget | Denied

record InputRoute =
  ir_input_serial :: u64
  ir_target_surface :: "SurfaceId option"
  ir_global_position :: Point
  ir_local_position :: "Point option"
  ir_transform :: Transform
  ir_outcome :: InputRouteOutcome

record RoutedInputRequest =
  rr_serial :: u64
  rr_seat :: SeatId
  rr_device :: DeviceId
  rr_time_msec :: u64
  rr_target_surface :: SurfaceId
  rr_global_position :: Point
  rr_local_position :: Point
  rr_kind :: InputEventKind

section \<open>Portals (packets/portal.rs)\<close>

datatype PortalTransferKind =
    PkClipboard | PkDragAndDrop | PkFileHandoff | PkScreenCapture | PkScreenRecording
  | PkUriOpen | PkNotification

fun kind_capability :: "PortalTransferKind \<Rightarrow> NamespacePortalCapability" where
  "kind_capability PkClipboard = CapClipboard"
| "kind_capability PkDragAndDrop = CapDragAndDrop"
| "kind_capability PkFileHandoff = CapFileHandoff"
| "kind_capability PkScreenCapture = CapScreenCapture"
| "kind_capability PkScreenRecording = CapScreenRecording"
| "kind_capability PkUriOpen = CapUriOpen"
| "kind_capability PkNotification = CapNotification"

datatype PortalDecision = PdPending | PdAllowed | PdDenied | PdRevoked

record PortalTransfer =
  pt_transfer :: PortalTransferId
  pt_source_namespace :: NamespaceId
  pt_target_namespace :: NamespaceId
  pt_kind :: PortalTransferKind
  pt_mime_type :: "rust_string option"
  pt_byte_size :: u64
  pt_decision :: PortalDecision
  pt_generation :: u64

record PortalRequest =
  pr_transfer :: PortalTransfer
  pr_deadline_msec :: u64

datatype PortalGrantState = GrActive | GrCompleted | GrRevoked | GrExpired

record PortalGrant =
  pg_transfer :: PortalTransferId
  pg_source_namespace :: NamespaceId
  pg_target_namespace :: NamespaceId
  pg_kind :: PortalTransferKind
  pg_source_generation :: u64
  pg_broker_generation :: u64
  pg_deadline_msec :: u64
  pg_state :: PortalGrantState

record PortalBrokerRequestPacket =
  bq_request :: PortalRequest
  bq_source_may_publish :: bool
  bq_target_may_request :: bool

datatype PortalBrokerResponseDecision =
    RespAllowed PortalGrant
  | RespDenied

record PortalBrokerResponsePacket =
  bp_transfer :: PortalTransferId
  bp_decision :: PortalBrokerResponseDecision

definition SOPHIA_PORTAL_MAX_MIME_TYPE_LEN :: nat where
  "SOPHIA_PORTAL_MAX_MIME_TYPE_LEN = 255"

section \<open>Chrome and broker health (packets/chrome.rs)\<close>

record DisplayLabel =
  dl_text :: rust_string
  dl_redacted :: bool

datatype TrustLevel = TrustUnknown | Trusted | Untrusted | Isolated
datatype AttentionState = AttNone | AttNotice | AttCritical

record ChromeDescriptor =
  cd_surface :: SurfaceId
  cd_label :: "DisplayLabel option"
  cd_icon :: "IconTokenId option"
  cd_trust_level :: TrustLevel
  cd_attention :: AttentionState
  cd_generation :: u64

datatype BrokerKind = BkPortal | BkMetadata
datatype BrokerHealthState = BhStarting | BhReady | BhDegraded | BhStopped

definition SOPHIA_BROKER_HEALTH_MAX_MESSAGE_LEN :: nat where
  "SOPHIA_BROKER_HEALTH_MAX_MESSAGE_LEN = 128"

record BrokerHealthPacket =
  bh_broker :: BrokerKind
  bh_state :: BrokerHealthState
  bh_generation :: u64
  bh_message :: "rust_string option"

datatype BrokerHealthError = MessageTooLong nat nat

definition broker_health_validate :: "BrokerHealthPacket \<Rightarrow> BrokerHealthError + unit" where
  "broker_health_validate p =
     (case bh_message p of
        None \<Rightarrow> Inr ()
      | Some m \<Rightarrow>
          if SOPHIA_BROKER_HEALTH_MAX_MESSAGE_LEN < length m
          then Inl (MessageTooLong (length m) SOPHIA_BROKER_HEALTH_MAX_MESSAGE_LEN) else Inr ())"

definition broker_health_new ::
  "BrokerKind \<Rightarrow> BrokerHealthState \<Rightarrow> u64 \<Rightarrow> rust_string option
   \<Rightarrow> BrokerHealthError + BrokerHealthPacket" where
  "broker_health_new b s g m =
     (let p = \<lparr>bh_broker = b, bh_state = s, bh_generation = g, bh_message = m\<rparr> in
      bind_res (broker_health_validate p) (\<lambda>_. Inr p))"

datatype ChromeActionKind = CloseSurfaceRequested

record ChromeActionRequest =
  ca_surface :: SurfaceId
  ca_generation :: u64
  ca_kind :: ChromeActionKind

section \<open>Output topology (packets/output.rs)\<close>

definition MAX_OUTPUT_TOPOLOGY_ENTRIES :: nat where
  "MAX_OUTPUT_TOPOLOGY_ENTRIES = 16"

record OutputTopologyEntry =
  oe_output :: OutputId
  oe_logical :: Rect
  oe_pixel_size :: Size
  oe_scale :: u32
  oe_refresh_millihz :: u32

record OutputTopologySnapshot =
  ot_generation :: u64
  ot_primary :: OutputId
  ot_outputs :: "OutputTopologyEntry list"

datatype OutputTopologyError =
    InvalidGeneration | InvalidPrimary | EmptyTopology | CapacityExceeded | InvalidOutputId
  | DuplicateOutput | InvalidGeometry | InvalidMode | RootSizeExceeded

text \<open>The loop of \<open>validate\<close> carries the ids seen and the right and bottom edges.\<close>

fun topology_scan ::
  "OutputTopologyEntry list \<Rightarrow> OutputId list \<Rightarrow> i32 \<Rightarrow> i32
   \<Rightarrow> OutputTopologyError + (OutputId list \<times> i32 \<times> i32)" where
  "topology_scan [] ids right bottom = Inr (ids, right, bottom)"
| "topology_scan (e # es) ids right bottom =
     (if \<not> id_is_valid (oe_output e) then Inl InvalidOutputId
      else if oe_output e \<in> set ids then Inl DuplicateOutput
      else if rect_is_empty (oe_logical e) \<or> sint (rc_x (oe_logical e)) < 0
              \<or> sint (rc_y (oe_logical e)) < 0 then Inl InvalidGeometry
      else if sint (sz_width (oe_pixel_size e)) \<le> 0 \<or> sint (sz_height (oe_pixel_size e)) \<le> 0
              \<or> oe_scale e = 0 \<or> oe_refresh_millihz e = 0 then Inl InvalidMode
      else case i32_checked_add (rc_x (oe_logical e)) (rc_width (oe_logical e)) of
             None \<Rightarrow> Inl RootSizeExceeded
           | Some er \<Rightarrow>
               (case i32_checked_add (rc_y (oe_logical e)) (rc_height (oe_logical e)) of
                  None \<Rightarrow> Inl RootSizeExceeded
                | Some eb \<Rightarrow>
                    topology_scan es (bs_insert (oe_output e) ids)
                      (i32_max right er) (i32_max bottom eb)))"

definition topology_validate :: "OutputTopologySnapshot \<Rightarrow> OutputTopologyError + Size" where
  "topology_validate t =
     (if ot_generation t = 0 then Inl InvalidGeneration
      else if ot_outputs t = [] then Inl EmptyTopology
      else if MAX_OUTPUT_TOPOLOGY_ENTRIES < length (ot_outputs t) then Inl CapacityExceeded
      else bind_res (topology_scan (ot_outputs t) [] 0 0)
        (\<lambda>(ids, right, bottom).
          if ot_primary t \<notin> set ids then Inl InvalidPrimary
          else if sint right \<le> 0 \<or> sint bottom \<le> 0 \<or> 65535 < sint right \<or> 65535 < sint bottom
            then Inl RootSizeExceeded
          else Inr \<lparr>sz_width = right, sz_height = bottom\<rparr>))"

definition topology_root_size :: "OutputTopologySnapshot \<Rightarrow> OutputTopologyError + Size" where
  "topology_root_size t = topology_validate t"

definition topology_deterministic :: OutputTopologySnapshot where
  "topology_deterministic =
     \<lparr>ot_generation = 1, ot_primary = 1,
      ot_outputs = [\<lparr>oe_output = 1,
        oe_logical = \<lparr>rc_x = 0, rc_y = 0, rc_width = 1280, rc_height = 720\<rparr>,
        oe_pixel_size = \<lparr>sz_width = 1280, sz_height = 720\<rparr>,
        oe_scale = 1, oe_refresh_millihz = 60000\<rparr>]\<rparr>"

section \<open>Cursor (cursor.rs)\<close>

record CursorSnapshot =
  cu_visible :: bool
  cu_position :: Point
  cu_hotspot :: Point
  cu_image_size :: Size
  cu_argb8888 :: "u8 list"
  cu_generation :: u64

definition CURSOR_IMAGE_MAX_EDGE :: int where "CURSOR_IMAGE_MAX_EDGE = 256"

text \<open>
  The two \<open>checked_mul\<close> on \<open>usize\<close> cannot overflow below the edge bound, which the conjunction
  tests first.
\<close>

definition image_is_valid :: "CursorSnapshot \<Rightarrow> bool" where
  "image_is_valid c =
     (let w = sint (sz_width (cu_image_size c)); h = sint (sz_height (cu_image_size c)) in
      0 < w \<and> 0 < h \<and> w \<le> CURSOR_IMAGE_MAX_EDGE \<and> h \<le> CURSOR_IMAGE_MAX_EDGE
      \<and> nat w * nat h * 4 = length (cu_argb8888 c))"

end
