(* ===== verification/Ipc_Primitives.thy ===== *)
theory Ipc_Primitives
  imports Ipc_Frame Protocol_Packets
begin

text \<open>
  Field codecs of \<^verbatim>\<open>ipc/primitives/*.rs\<close>: counts, geometry, identifiers, layout nodes and optional
  text, each shown to be a \<open>codec\<close>.
\<close>

section \<open>Counts (primitives/count.rs)\<close>

definition check_count :: "nat \<Rightarrow> IpcCodecError + unit" where
  "check_count n =
     (if SOPHIA_IPC_MAX_ITEMS < n then Inl (CountTooLarge n SOPHIA_IPC_MAX_ITEMS) else Inr ())"

definition decode_count :: "nat decoder" where
  "decode_count =
     dbind cursor_u32 (\<lambda>n. dbind (dlift (check_count (unat n))) (\<lambda>_. dret (unat n)))"

section \<open>Geometry (primitives/geometry.rs)\<close>

definition encode_rect :: "Rect \<Rightarrow> u8 list" where
  "encode_rect r =
     push_i32 (rc_x r) @ push_i32 (rc_y r) @ push_i32 (rc_width r) @ push_i32 (rc_height r)"

definition decode_rect :: "Rect decoder" where
  "decode_rect =
     dbind cursor_i32 (\<lambda>x. dbind cursor_i32 (\<lambda>y. dbind cursor_i32 (\<lambda>w. dbind cursor_i32 (\<lambda>h.
       dret \<lparr>rc_x = x, rc_y = y, rc_width = w, rc_height = h\<rparr>))))"

definition encode_size :: "Size \<Rightarrow> u8 list" where
  "encode_size s = push_i32 (sz_width s) @ push_i32 (sz_height s)"

definition decode_size :: "Size decoder" where
  "decode_size =
     dbind cursor_i32 (\<lambda>w. dbind cursor_i32 (\<lambda>h. dret \<lparr>sz_width = w, sz_height = h\<rparr>))"

definition encode_option_size :: "Size option \<Rightarrow> u8 list" where
  "encode_option_size s =
     (case s of Some x \<Rightarrow> push_u8 1 @ encode_size x | None \<Rightarrow> push_u8 0)"

definition decode_option_size :: "Size option decoder" where
  "decode_option_size =
     dbind cursor_u8 (\<lambda>t.
       if t = 0 then dret None
       else if t = 1 then dbind decode_size (\<lambda>s. dret (Some s))
       else dfail (InvalidBool ''option_size'' t))"

definition encode_option_rect :: "Rect option \<Rightarrow> u8 list" where
  "encode_option_rect r =
     (case r of Some x \<Rightarrow> push_u8 1 @ encode_rect x | None \<Rightarrow> push_u8 0)"

definition decode_option_rect :: "Rect option decoder" where
  "decode_option_rect =
     dbind cursor_u8 (\<lambda>t.
       if t = 0 then dret None
       else if t = 1 then dbind decode_rect (\<lambda>r. dret (Some r))
       else dfail (InvalidBool ''option_rect'' t))"

definition encode_constraints :: "SurfaceConstraints \<Rightarrow> u8 list" where
  "encode_constraints c = encode_option_size (sc_min_size c) @ encode_option_size (sc_max_size c)"

definition decode_constraints :: "SurfaceConstraints decoder" where
  "decode_constraints =
     dbind decode_option_size (\<lambda>a. dbind decode_option_size (\<lambda>b.
       dret \<lparr>sc_min_size = a, sc_max_size = b\<rparr>))"

fun encode_transform :: "Transform \<Rightarrow> u8 list" where
  "encode_transform (Transform a b c d e f g h i) =
     push_u32 a @ push_u32 b @ push_u32 c @ push_u32 d @ push_u32 e @ push_u32 f @ push_u32 g
     @ push_u32 h @ push_u32 i"

definition decode_transform :: "Transform decoder" where
  "decode_transform =
     dbind cursor_u32 (\<lambda>a. dbind cursor_u32 (\<lambda>b. dbind cursor_u32 (\<lambda>c.
     dbind cursor_u32 (\<lambda>d. dbind cursor_u32 (\<lambda>e. dbind cursor_u32 (\<lambda>f.
     dbind cursor_u32 (\<lambda>g. dbind cursor_u32 (\<lambda>h. dbind cursor_u32 (\<lambda>i.
       dret (Transform a b c d e f g h i))))))))))"

section \<open>Identifiers (primitives/ids.rs)\<close>

definition encode_surface_id :: "SurfaceId \<Rightarrow> u8 list" where
  "encode_surface_id s = push_u32 (sid_index s) @ push_u32 (sid_generation s)"

definition decode_surface_id :: "SurfaceId decoder" where
  "decode_surface_id = dbind cursor_u32 (\<lambda>i. dbind cursor_u32 (\<lambda>g. dret (SurfaceId i g)))"

definition encode_workspace_id :: "WorkspaceId \<Rightarrow> u8 list" where
  "encode_workspace_id w = push_u64 w"

definition decode_workspace_id :: "WorkspaceId decoder" where
  "decode_workspace_id = cursor_u64"

definition encode_output_id :: "OutputId \<Rightarrow> u8 list" where
  "encode_output_id w = push_u64 w"

definition decode_output_id :: "OutputId decoder" where
  "decode_output_id = cursor_u64"

section \<open>Layout nodes (primitives/layout\_node.rs)\<close>

fun encode_layout_node_kind :: "LayoutNodeKind \<Rightarrow> u16" where
  "encode_layout_node_kind Toplevel = 1"
| "encode_layout_node_kind Dialog = 2"
| "encode_layout_node_kind Utility = 3"
| "encode_layout_node_kind UnknownNode = 4"

definition decode_layout_node_kind :: "u16 \<Rightarrow> IpcCodecError + LayoutNodeKind" where
  "decode_layout_node_kind v =
     (if v = 1 then Inr Toplevel else if v = 2 then Inr Dialog
      else if v = 3 then Inr Utility else if v = 4 then Inr UnknownNode
      else Inl (InvalidEnum ''layout_node_kind'' (ucast v)))"

definition u16_of_bool :: "bool \<Rightarrow> u16" where
  "u16_of_bool b = (if b then 1 else 0)"

definition encode_capabilities :: "LayoutNodeCapabilities \<Rightarrow> u16" where
  "encode_capabilities c =
     u16_of_bool (lc_movable c) OR push_bit 1 (u16_of_bool (lc_resizable c))
     OR push_bit 2 (u16_of_bool (lc_focusable c)) OR push_bit 3 (u16_of_bool (lc_closable c))
     OR push_bit 4 (u16_of_bool (lc_fullscreenable c))"

definition decode_capabilities :: "u16 \<Rightarrow> LayoutNodeCapabilities" where
  "decode_capabilities b =
     \<lparr>lc_movable = (b AND 1 \<noteq> 0), lc_resizable = (b AND push_bit 1 1 \<noteq> 0),
      lc_focusable = (b AND push_bit 2 1 \<noteq> 0), lc_closable = (b AND push_bit 3 1 \<noteq> 0),
      lc_fullscreenable = (b AND push_bit 4 1 \<noteq> 0)\<rparr>"

definition encode_node_state :: "LayoutNodeState \<Rightarrow> u16" where
  "encode_node_state s =
     u16_of_bool (lt_focused s) OR push_bit 1 (u16_of_bool (lt_urgent s))
     OR push_bit 2 (u16_of_bool (lt_fullscreen s)) OR push_bit 3 (u16_of_bool (lt_floating s))
     OR push_bit 4 (u16_of_bool (lt_visible s))"

definition decode_node_state :: "u16 \<Rightarrow> LayoutNodeState" where
  "decode_node_state b =
     \<lparr>lt_focused = (b AND 1 \<noteq> 0), lt_urgent = (b AND push_bit 1 1 \<noteq> 0),
      lt_fullscreen = (b AND push_bit 2 1 \<noteq> 0), lt_floating = (b AND push_bit 3 1 \<noteq> 0),
      lt_visible = (b AND push_bit 4 1 \<noteq> 0)\<rparr>"

definition encode_layout_node :: "LayoutNodeSnapshot \<Rightarrow> u8 list" where
  "encode_layout_node n =
     encode_surface_id (ln_surface n) @ encode_workspace_id (ln_workspace n)
     @ push_u16 (encode_layout_node_kind (ln_kind n))
     @ push_u16 (encode_capabilities (ln_capabilities n))
     @ push_u16 (encode_node_state (ln_state n))
     @ encode_constraints (ln_constraints n) @ encode_rect (ln_geometry n)
     @ push_u64 (ln_generation n)"

definition decode_layout_node :: "LayoutNodeSnapshot decoder" where
  "decode_layout_node =
     dbind decode_surface_id (\<lambda>s. dbind decode_workspace_id (\<lambda>w.
     dbind cursor_u16 (\<lambda>k. dbind (dlift (decode_layout_node_kind k)) (\<lambda>kind.
     dbind cursor_u16 (\<lambda>caps. dbind cursor_u16 (\<lambda>st.
     dbind decode_constraints (\<lambda>cs. dbind decode_rect (\<lambda>g. dbind cursor_u64 (\<lambda>gen.
       dret \<lparr>ln_surface = s, ln_workspace = w, ln_kind = kind,
             ln_capabilities = decode_capabilities caps, ln_state = decode_node_state st,
             ln_constraints = cs, ln_geometry = g, ln_generation = gen\<rparr>)))))))))"

section \<open>Optional text (primitives/text.rs)\<close>

definition encode_optional_text ::
  "string \<Rightarrow> rust_string option \<Rightarrow> nat \<Rightarrow> IpcCodecError + u8 list" where
  "encode_optional_text field v mx =
     (case v of
        Some s \<Rightarrow>
          if mx < length s then Inl (TextTooLarge field (length s) mx)
          else Inr (push_u8 1 @ push_u16 (word_of_nat (length s)) @ s)
      | None \<Rightarrow> Inr (push_u8 0))"

definition decode_optional_text :: "string \<Rightarrow> nat \<Rightarrow> rust_string option decoder" where
  "decode_optional_text field mx =
     dbind cursor_u8 (\<lambda>t.
       if t = 0 then dret None
       else if t = 1 then
         dbind cursor_u16 (\<lambda>n.
           if mx < unat n then dfail (TextTooLarge field (unat n) mx)
           else dbind (cursor_slice (unat n)) (\<lambda>bytes.
             if utf8_valid bytes then dret (Some bytes) else dfail (InvalidUtf8 field)))
       else dfail (InvalidBool field t))"

section \<open>The codecs\<close>

text \<open>A count is written as \<open>len() as u32\<close> and read back with its bound.\<close>

lemma decodes_count [codec_intros]:
  assumes "check_count n = Inr ()"
  shows "decodes decode_count (push_u32 (word_of_nat n)) n"
proof -
  have n: "unat (word_of_nat n :: u32) = n"
    using assms by (simp add: check_count_def SOPHIA_IPC_MAX_ITEMS_def unat_of_nat split: if_splits)
  show ?thesis
    unfolding decode_count_def
    by (rule decodes_bind_last, rule codec_intros)
       (simp add: n assms dbind_def dlift_def dret_def)
qed

lemma dret_cong: "x = y \<Longrightarrow> dret x = dret y"
  by simp

interpretation rect_codec: codec encode_rect decode_rect "\<lambda>_. True"
  by unfold_locales
     (simp only: encode_rect_def decode_rect_def,
      rule decodes_bind, rule codec_intros, rule decodes_bind, rule codec_intros,
      rule decodes_bind, rule codec_intros, rule decodes_bind_last, rule codec_intros, rule dret_cong,
      simp add: Rect.equality)

interpretation size_codec: codec encode_size decode_size "\<lambda>_. True"
  by unfold_locales
     (simp only: encode_size_def decode_size_def,
      rule decodes_bind, rule codec_intros, rule decodes_bind_last, rule codec_intros, rule dret_cong,
      simp add: Size.equality)

interpretation surface_id_codec: codec encode_surface_id decode_surface_id "\<lambda>_. True"
  by unfold_locales
     (simp only: encode_surface_id_def decode_surface_id_def,
      rule decodes_bind, rule codec_intros, rule decodes_bind_last, rule codec_intros, simp)

interpretation workspace_id_codec: codec encode_workspace_id decode_workspace_id "\<lambda>_. True"
  by unfold_locales (simp add: encode_workspace_id_def decode_workspace_id_def codec_intros)

interpretation output_id_codec: codec encode_output_id decode_output_id "\<lambda>_. True"
  by unfold_locales (simp add: encode_output_id_def decode_output_id_def codec_intros)

lemmas leaf_codecs [codec_intros] =
  rect_codec.dec_enc [OF TrueI] size_codec.dec_enc [OF TrueI]
  surface_id_codec.dec_enc [OF TrueI] workspace_id_codec.dec_enc [OF TrueI]
  output_id_codec.dec_enc [OF TrueI]

interpretation option_size_codec: codec encode_option_size decode_option_size "\<lambda>_. True"
proof unfold_locales
  fix s :: "Size option"
  show "decodes decode_option_size (encode_option_size s) s"
  proof (cases s)
    case None
    then show ?thesis
      unfolding decode_option_size_def encode_option_size_def
      by simp (rule decodes_bind_last, rule codec_intros, simp)
  next
    case (Some x)
    then show ?thesis
      unfolding decode_option_size_def encode_option_size_def
      by simp (rule decodes_bind, rule codec_intros, simp, rule decodes_bind_last,
               rule codec_intros, simp)
  qed
qed

interpretation option_rect_codec: codec encode_option_rect decode_option_rect "\<lambda>_. True"
proof unfold_locales
  fix s :: "Rect option"
  show "decodes decode_option_rect (encode_option_rect s) s"
  proof (cases s)
    case None
    then show ?thesis
      unfolding decode_option_rect_def encode_option_rect_def
      by simp (rule decodes_bind_last, rule codec_intros, simp)
  next
    case (Some x)
    then show ?thesis
      unfolding decode_option_rect_def encode_option_rect_def
      by simp (rule decodes_bind, rule codec_intros, simp, rule decodes_bind_last,
               rule codec_intros, simp)
  qed
qed

lemmas option_codecs [codec_intros] =
  option_size_codec.dec_enc [OF TrueI] option_rect_codec.dec_enc [OF TrueI]

interpretation constraints_codec: codec encode_constraints decode_constraints "\<lambda>_. True"
  by unfold_locales
     (simp only: encode_constraints_def decode_constraints_def,
      rule decodes_bind, rule codec_intros, rule decodes_bind_last, rule codec_intros, rule dret_cong,
      simp add: SurfaceConstraints.equality)

interpretation transform_codec: codec encode_transform decode_transform "\<lambda>_. True"
proof unfold_locales
  fix t
  show "decodes decode_transform (encode_transform t) t"
    unfolding decode_transform_def
    by (cases t)
       (simp only: encode_transform.simps,
        (rule decodes_bind, rule codec_intros)+, rule decodes_bind_last, rule codec_intros, simp)
qed

lemmas geometry_codecs [codec_intros] =
  constraints_codec.dec_enc [OF TrueI] transform_codec.dec_enc [OF TrueI]

lemma layout_node_kind_roundtrip [simp]:
  "decode_layout_node_kind (encode_layout_node_kind k) = Inr k"
  by (cases k) (simp_all add: decode_layout_node_kind_def)

lemma capabilities_roundtrip [simp]: "decode_capabilities (encode_capabilities c) = c"
  by (cases c) (simp add: decode_capabilities_def encode_capabilities_def u16_of_bool_def)

lemma node_state_roundtrip [simp]: "decode_node_state (encode_node_state s) = s"
  by (cases s) (simp add: decode_node_state_def encode_node_state_def u16_of_bool_def)

interpretation layout_node_codec: codec encode_layout_node decode_layout_node "\<lambda>_. True"
  by unfold_locales
     (simp only: encode_layout_node_def decode_layout_node_def,
      rule decodes_bind, rule codec_intros, rule decodes_bind, rule codec_intros,
      rule decodes_bind, rule codec_intros, simp only: layout_node_kind_roundtrip dlift_Inr,
      rule decodes_bind_pure,
      rule decodes_bind, rule codec_intros, rule decodes_bind, rule codec_intros,
      rule decodes_bind, rule codec_intros, rule decodes_bind, rule codec_intros,
      rule decodes_bind_last, rule codec_intros, rule dret_cong,
      simp add: LayoutNodeSnapshot.equality)

lemmas layout_node_codecs [codec_intros] = layout_node_codec.dec_enc [OF TrueI]

lemma decodes_optional_text:
  assumes enc: "encode_optional_text field v mx = Inr bs"
    and utf8: "\<And>s. v = Some s \<Longrightarrow> utf8_valid s" and mx: "mx < 65536"
  shows "decodes (decode_optional_text field mx) bs v"
proof (cases v)
  case None
  then have bs: "bs = push_u8 0" using enc by (simp add: encode_optional_text_def)
  show ?thesis
    unfolding decode_optional_text_def bs None
    by (rule decodes_bind_last, rule codec_intros, simp)
next
  case (Some s)
  then have bs: "bs = push_u8 1 @ push_u16 (word_of_nat (length s)) @ s" and len: "length s \<le> mx"
    using enc by (auto simp: encode_optional_text_def split: if_splits)
  have n: "unat (word_of_nat (length s) :: u16) = length s"
    using len mx by (simp add: unat_of_nat)
  show ?thesis
    unfolding decode_optional_text_def bs Some
    by (rule decodes_bind, rule codec_intros, simp, rule decodes_bind, rule codec_intros)
       (use len n utf8 [OF Some] in \<open>auto intro!: decodes_bind_last decodes_slice'\<close>)
qed

end
