(* ===== verification/Ipc_Wm.thy ===== *)
theory Ipc_Wm
  imports Ipc_Primitives
begin

text \<open>
  The window-manager messages (\<^verbatim>\<open>ipc/wm.rs\<close>): requests, responses, the hello packet and the session
  descriptor. For each, a frame that was encoded decodes to the packet it came from.
\<close>

section \<open>Model (ipc/wm.rs)\<close>

fun encode_session_action :: "WmSessionAction \<Rightarrow> u16" where
  "encode_session_action LaunchTerminal = 1"
| "encode_session_action LaunchApplicationMenu = 2"
| "encode_session_action LaunchFirefox = 3"
| "encode_session_action CloseFocused = 4"
| "encode_session_action Logout = 5"

definition decode_session_action :: "u16 \<Rightarrow> IpcCodecError + WmSessionAction" where
  "decode_session_action v =
     (if v = 1 then Inr LaunchTerminal else if v = 2 then Inr LaunchApplicationMenu
      else if v = 3 then Inr LaunchFirefox else if v = 4 then Inr CloseFocused
      else if v = 5 then Inr Logout
      else Inl (InvalidEnum ''wm_session_action'' (ucast v)))"

definition encode_option_surface :: "SurfaceId option \<Rightarrow> u8 list" where
  "encode_option_surface s =
     (case s of Some x \<Rightarrow> push_u16 1 @ encode_surface_id x | None \<Rightarrow> push_u16 0)"

definition decode_option_surface :: "SurfaceId option decoder" where
  "decode_option_surface =
     dbind cursor_u16 (\<lambda>t.
       if t = 0 then dret None
       else if t = 1 then dbind decode_surface_id (\<lambda>s. dret (Some s))
       else dfail (InvalidBool ''optional_surface'' (if t \<le> 255 then ucast t else 255)))"

definition expect_message_kind :: "IpcMessageKind \<Rightarrow> IpcMessageKind \<Rightarrow> IpcCodecError + unit" where
  "expect_message_kind actual expected =
     (if actual = expected then Inr ()
      else Inl (InvalidEnum ''message_kind'' (ucast (message_kind_code actual))))"

definition encode_manage :: "WmManageSurface \<Rightarrow> u8 list" where
  "encode_manage m =
     push_u16 1 @ encode_output_id (ms_output m) @ encode_workspace_id (ms_workspace m)
     @ encode_rect (ms_bounds m) @ encode_layout_node (ms_node m)"

definition encode_nodes :: "LayoutNodeSnapshot list \<Rightarrow> u8 list" where
  "encode_nodes ns = push_u32 (word_of_nat (length ns)) @ concat (map encode_layout_node ns)"

definition encode_relayout :: "WmRelayoutWorkspace \<Rightarrow> u8 list" where
  "encode_relayout r =
     push_u16 2 @ encode_output_id (rw_output r) @ encode_workspace_id (rw_workspace r)
     @ encode_rect (rw_bounds r) @ encode_nodes (rw_nodes r)"

definition encode_activation :: "WmActionActivation \<Rightarrow> u8 list" where
  "encode_activation a =
     push_u16 4 @ push_u64 (wa_action a) @ encode_output_id (wa_output a)
     @ encode_workspace_id (wa_workspace a) @ encode_option_surface (wa_focused_surface a)
     @ encode_nodes (wa_nodes a)"

fun encode_wm_request_kind :: "WmRequestKind \<Rightarrow> IpcCodecError + u8 list" where
  "encode_wm_request_kind (ManageSurface m) = Inr (encode_manage m)"
| "encode_wm_request_kind (RelayoutWorkspace r) =
     bind_res (check_count (length (rw_nodes r))) (\<lambda>_. Inr (encode_relayout r))"
| "encode_wm_request_kind (SurfaceRemoved s w) =
     Inr (push_u16 3 @ encode_surface_id s @ encode_workspace_id w)"
| "encode_wm_request_kind (ActionActivated a) =
     bind_res (check_count (length (wa_nodes a))) (\<lambda>_. Inr (encode_activation a))"

definition encode_wm_request_payload :: "WmRequestPacket \<Rightarrow> IpcCodecError + u8 list" where
  "encode_wm_request_payload q = encode_wm_request_kind (wq_kind q)"

definition decode_nodes :: "LayoutNodeSnapshot list decoder" where
  "decode_nodes = dbind decode_count (\<lambda>n. decode_repeat n decode_layout_node)"

definition decode_wm_request_payload :: "TransactionId \<Rightarrow> WmRequestPacket decoder" where
  "decode_wm_request_payload tx =
     dbind cursor_u16 (\<lambda>k.
       dbind
         (if k = 1 then
            dbind decode_output_id (\<lambda>p. dbind decode_workspace_id (\<lambda>w. dbind decode_rect (\<lambda>b.
            dbind decode_layout_node (\<lambda>n.
              dret (ManageSurface \<lparr>ms_node = n, ms_output = p, ms_workspace = w, ms_bounds = b\<rparr>)))))
          else if k = 2 then
            dbind decode_output_id (\<lambda>p. dbind decode_workspace_id (\<lambda>w. dbind decode_rect (\<lambda>b.
            dbind decode_nodes (\<lambda>ns.
              dret (RelayoutWorkspace
                \<lparr>rw_output = p, rw_workspace = w, rw_bounds = b, rw_nodes = ns\<rparr>)))))
          else if k = 3 then
            dbind decode_surface_id (\<lambda>s. dbind decode_workspace_id (\<lambda>w.
              dret (SurfaceRemoved s w)))
          else if k = 4 then
            dbind cursor_u64 (\<lambda>a. dbind decode_output_id (\<lambda>p. dbind decode_workspace_id (\<lambda>w.
            dbind decode_option_surface (\<lambda>f. dbind decode_nodes (\<lambda>ns.
              dret (ActionActivated
                \<lparr>wa_action = a, wa_output = p, wa_workspace = w, wa_focused_surface = f,
                 wa_nodes = ns\<rparr>))))))
          else dfail (InvalidEnum ''wm_request_kind'' (ucast k)))
         (\<lambda>kind. dret \<lparr>wq_transaction = tx, wq_kind = kind\<rparr>))"

definition encode_wm_request_frame :: "WmRequestPacket \<Rightarrow> IpcCodecError + u8 list" where
  "encode_wm_request_frame q =
     bind_res (encode_wm_request_payload q) (\<lambda>payload.
       encode_frame WmRequestMsg (wq_transaction q) payload)"

definition decode_wm_request_frame :: "u8 list \<Rightarrow> IpcCodecError + WmRequestPacket" where
  "decode_wm_request_frame frame =
     bind_res (decode_frame frame) (\<lambda>(h, payload).
       if fh_message_kind h \<noteq> WmRequestMsg
       then Inl (InvalidEnum ''message_kind'' (ucast (message_kind_code (fh_message_kind h))))
       else decode_all (decode_wm_request_payload (fh_transaction h)) payload)"

fun encode_wm_command :: "WmCommand \<Rightarrow> u8 list" where
  "encode_wm_command (ConfigureSurface q) =
     push_u16 1 @ encode_surface_id (zr_surface q) @ encode_size (zr_size q)"
| "encode_wm_command (FocusSurface s) = push_u16 2 @ encode_surface_id s"
| "encode_wm_command (AssignWorkspace s w) =
     push_u16 3 @ encode_surface_id s @ encode_workspace_id w"
| "encode_wm_command (RenderSurface p) =
     push_u16 4 @ encode_surface_id (sp_surface p) @ encode_rect (sp_geometry p)
     @ push_i32 (sp_z_index p) @ encode_option_rect (sp_crop p)
     @ encode_transform (sp_transform p)"
| "encode_wm_command (ActivateWorkspace p w) =
     push_u16 5 @ encode_output_id p @ encode_workspace_id w"
| "encode_wm_command (RequestSessionAction a t) =
     push_u16 6 @ push_u16 (encode_session_action a) @ encode_option_surface t"

definition decode_wm_command :: "WmCommand decoder" where
  "decode_wm_command =
     dbind cursor_u16 (\<lambda>k.
       if k = 1 then
         dbind decode_surface_id (\<lambda>s. dbind decode_size (\<lambda>z.
           dret (ConfigureSurface \<lparr>zr_surface = s, zr_size = z\<rparr>)))
       else if k = 2 then dbind decode_surface_id (\<lambda>s. dret (FocusSurface s))
       else if k = 3 then
         dbind decode_surface_id (\<lambda>s. dbind decode_workspace_id (\<lambda>w. dret (AssignWorkspace s w)))
       else if k = 4 then
         dbind decode_surface_id (\<lambda>s. dbind decode_rect (\<lambda>g. dbind cursor_i32 (\<lambda>z.
         dbind decode_option_rect (\<lambda>c. dbind decode_transform (\<lambda>t.
           dret (RenderSurface
             \<lparr>sp_surface = s, sp_geometry = g, sp_z_index = z, sp_crop = c, sp_transform = t\<rparr>))))))
       else if k = 5 then
         dbind decode_output_id (\<lambda>p. dbind decode_workspace_id (\<lambda>w. dret (ActivateWorkspace p w)))
       else if k = 6 then
         dbind cursor_u16 (\<lambda>a. dbind (dlift (decode_session_action a)) (\<lambda>action.
         dbind decode_option_surface (\<lambda>t. dret (RequestSessionAction action t))))
       else dfail (InvalidEnum ''wm_command'' (ucast k)))"

definition encode_wm_response_payload :: "WmResponsePacket \<Rightarrow> IpcCodecError + u8 list" where
  "encode_wm_response_payload r =
     bind_res (check_count (length (wr_commands r))) (\<lambda>_.
       Inr (push_u32 (wr_timeout_msec r) @ push_u32 (word_of_nat (length (wr_commands r)))
            @ concat (map encode_wm_command (wr_commands r))))"

definition decode_wm_response_payload :: "TransactionId \<Rightarrow> WmResponsePacket decoder" where
  "decode_wm_response_payload tx =
     dbind cursor_u32 (\<lambda>timeout. dbind decode_count (\<lambda>n.
     dbind (decode_repeat n decode_wm_command) (\<lambda>cs.
       dret \<lparr>wr_transaction = tx, wr_commands = cs, wr_timeout_msec = timeout\<rparr>)))"

definition encode_wm_response_frame :: "WmResponsePacket \<Rightarrow> IpcCodecError + u8 list" where
  "encode_wm_response_frame r =
     bind_res (encode_wm_response_payload r) (\<lambda>payload.
       encode_frame WmResponseMsg (wr_transaction r) payload)"

definition decode_wm_response_frame :: "u8 list \<Rightarrow> IpcCodecError + WmResponsePacket" where
  "decode_wm_response_frame frame =
     bind_res (decode_frame frame) (\<lambda>(h, payload).
       if fh_message_kind h \<noteq> WmResponseMsg
       then Inl (InvalidEnum ''message_kind'' (ucast (message_kind_code (fh_message_kind h))))
       else decode_all (decode_wm_response_payload (fh_transaction h)) payload)"

definition encode_binding :: "WmBindingRegistration \<Rightarrow> u8 list" where
  "encode_binding b = push_u64 (wb_action b) @ push_u32 (wb_keycode b) @ push_u32 (wb_modifiers b)"

definition decode_binding :: "WmBindingRegistration decoder" where
  "decode_binding =
     dbind cursor_u64 (\<lambda>a. dbind cursor_u32 (\<lambda>k. dbind cursor_u32 (\<lambda>m.
       dret \<lparr>wb_action = a, wb_keycode = k, wb_modifiers = m\<rparr>)))"

definition encode_wm_hello_frame :: "WmHello \<Rightarrow> IpcCodecError + u8 list" where
  "encode_wm_hello_frame h =
     bind_res (check_count (length (wh_bindings h))) (\<lambda>_.
       encode_frame WmHelloMsg id_INVALID
         (push_u16 (wh_api_version h) @ push_u64 (wh_capabilities h)
          @ push_u32 (word_of_nat (length (wh_bindings h)))
          @ concat (map encode_binding (wh_bindings h))))"

definition decode_wm_hello_payload :: "WmHello decoder" where
  "decode_wm_hello_payload =
     dbind cursor_u16 (\<lambda>v. dbind cursor_u64 (\<lambda>c. dbind decode_count (\<lambda>n.
     dbind (decode_repeat n decode_binding) (\<lambda>bs.
       dret \<lparr>wh_api_version = v, wh_capabilities = c, wh_bindings = bs\<rparr>))))"

definition decode_wm_hello_frame :: "u8 list \<Rightarrow> IpcCodecError + WmHello" where
  "decode_wm_hello_frame frame =
     bind_res (decode_frame frame) (\<lambda>(h, payload).
       bind_res (expect_message_kind (fh_message_kind h) WmHelloMsg) (\<lambda>_.
         decode_all decode_wm_hello_payload payload))"

definition encode_output_workspace :: "WmOutputWorkspace \<Rightarrow> u8 list" where
  "encode_output_workspace a = encode_output_id (ow_output a) @ encode_workspace_id (ow_workspace a)"

definition decode_output_workspace :: "WmOutputWorkspace decoder" where
  "decode_output_workspace =
     dbind decode_output_id (\<lambda>p. dbind decode_workspace_id (\<lambda>w.
       dret \<lparr>ow_output = p, ow_workspace = w\<rparr>))"

definition decode_action :: "WmSessionAction decoder" where
  "decode_action = dbind cursor_u16 (\<lambda>a. dlift (decode_session_action a))"

definition encode_wm_session_descriptor_frame ::
  "WmSessionDescriptor \<Rightarrow> IpcCodecError + u8 list" where
  "encode_wm_session_descriptor_frame d =
     bind_res (check_count (length (wd_workspaces d))) (\<lambda>_.
     bind_res (check_count (length (wd_active_workspaces d))) (\<lambda>_.
     bind_res (check_count (length (wd_session_actions d))) (\<lambda>_.
       encode_frame WmSessionDescriptorMsg id_INVALID
         (push_u16 (wd_api_version d)
          @ push_u32 (word_of_nat (length (wd_workspaces d)))
          @ concat (map encode_workspace_id (wd_workspaces d))
          @ push_u32 (word_of_nat (length (wd_active_workspaces d)))
          @ concat (map encode_output_workspace (wd_active_workspaces d))
          @ push_u32 (word_of_nat (length (wd_session_actions d)))
          @ concat (map (\<lambda>a. push_u16 (encode_session_action a)) (wd_session_actions d))))))"

definition decode_wm_session_descriptor_payload :: "WmSessionDescriptor decoder" where
  "decode_wm_session_descriptor_payload =
     dbind cursor_u16 (\<lambda>v.
     dbind decode_count (\<lambda>n. dbind (decode_repeat n decode_workspace_id) (\<lambda>ws.
     dbind decode_count (\<lambda>m. dbind (decode_repeat m decode_output_workspace) (\<lambda>actives.
     dbind decode_count (\<lambda>k. dbind (decode_repeat k decode_action) (\<lambda>acts.
       dret \<lparr>wd_api_version = v, wd_workspaces = ws, wd_active_workspaces = actives,
             wd_session_actions = acts\<rparr>)))))))"

definition decode_wm_session_descriptor_frame ::
  "u8 list \<Rightarrow> IpcCodecError + WmSessionDescriptor" where
  "decode_wm_session_descriptor_frame frame =
     bind_res (decode_frame frame) (\<lambda>(h, payload).
       bind_res (expect_message_kind (fh_message_kind h) WmSessionDescriptorMsg) (\<lambda>_.
         decode_all decode_wm_session_descriptor_payload payload))"

section \<open>Codecs\<close>

lemma session_action_roundtrip [simp]: "decode_session_action (encode_session_action a) = Inr a"
  by (cases a) (simp_all add: decode_session_action_def)

interpretation option_surface_codec: codec encode_option_surface decode_option_surface "\<lambda>_. True"
proof unfold_locales
  fix s :: "SurfaceId option"
  show "decodes decode_option_surface (encode_option_surface s) s"
  proof (cases s)
    case None
    then show ?thesis
      unfolding decode_option_surface_def encode_option_surface_def
      by simp (rule decodes_bind_last, rule codec_intros, simp)
  next
    case (Some x)
    then show ?thesis
      unfolding decode_option_surface_def encode_option_surface_def
      by simp (rule decodes_bind, rule codec_intros, simp, rule decodes_bind_last,
               rule codec_intros, simp)
  qed
qed

lemmas option_surface_codecs [codec_intros] = option_surface_codec.dec_enc [OF TrueI]

interpretation binding_codec: codec encode_binding decode_binding "\<lambda>_. True"
  by unfold_locales
     (simp only: encode_binding_def decode_binding_def,
      rule decodes_bind, rule codec_intros, rule decodes_bind, rule codec_intros,
      rule decodes_bind_last, rule codec_intros, rule dret_cong,
      simp add: WmBindingRegistration.equality)

interpretation output_workspace_codec: codec encode_output_workspace decode_output_workspace "\<lambda>_. True"
  by unfold_locales
     (simp only: encode_output_workspace_def decode_output_workspace_def,
      rule decodes_bind, rule codec_intros, rule decodes_bind_last, rule codec_intros,
      rule dret_cong, simp add: WmOutputWorkspace.equality)

interpretation action_codec:
  codec "\<lambda>a. push_u16 (encode_session_action a)" decode_action "\<lambda>_. True"
  by unfold_locales
     (simp only: decode_action_def, rule decodes_bind_last, rule codec_intros, simp)

interpretation wm_command_codec: codec encode_wm_command decode_wm_command "\<lambda>_. True"
proof unfold_locales
  fix c
  show "decodes decode_wm_command (encode_wm_command c) c"
  proof (cases c)
    case (ConfigureSurface q)
    show ?thesis
      unfolding ConfigureSurface encode_wm_command.simps decode_wm_command_def
      by (rule decodes_bind, rule codec_intros, simp, rule decodes_bind, rule codec_intros,
          rule decodes_bind_last, rule codec_intros, rule dret_cong)
         (simp add: SurfaceSizeRequest.equality)
  next
    case (FocusSurface s)
    show ?thesis
      unfolding FocusSurface encode_wm_command.simps decode_wm_command_def
      by (rule decodes_bind, rule codec_intros, simp, rule decodes_bind_last, rule codec_intros, simp)
  next
    case (AssignWorkspace s w)
    show ?thesis
      unfolding AssignWorkspace encode_wm_command.simps decode_wm_command_def
      by (rule decodes_bind, rule codec_intros, simp, rule decodes_bind, rule codec_intros,
          rule decodes_bind_last, rule codec_intros, simp)
  next
    case (RenderSurface p)
    show ?thesis
      unfolding RenderSurface encode_wm_command.simps decode_wm_command_def
      by (rule decodes_bind, rule codec_intros, simp, rule decodes_bind, rule codec_intros,
          rule decodes_bind, rule codec_intros, rule decodes_bind, rule codec_intros,
          rule decodes_bind, rule codec_intros, rule decodes_bind_last, rule codec_intros,
          rule dret_cong) (simp add: SurfacePlacement.equality)
  next
    case (ActivateWorkspace p w)
    show ?thesis
      unfolding ActivateWorkspace encode_wm_command.simps decode_wm_command_def
      by (rule decodes_bind, rule codec_intros, simp, rule decodes_bind, rule codec_intros,
          rule decodes_bind_last, rule codec_intros, simp)
  next
    case (RequestSessionAction a t)
    show ?thesis
      unfolding RequestSessionAction encode_wm_command.simps decode_wm_command_def
      by (rule decodes_bind, rule codec_intros, simp, rule decodes_bind, rule codec_intros,
          simp, rule decodes_bind_pure, rule decodes_bind_last, rule codec_intros, simp)
  qed
qed

lemma decodes_nodes [codec_intros]:
  assumes "check_count (length ns) = Inr ()"
  shows "decodes decode_nodes (encode_nodes ns) ns"
  unfolding decode_nodes_def encode_nodes_def
  by (rule decodes_bind, rule decodes_count [OF assms]) (simp add: layout_node_codec.repeat_enc)

lemma decodes_wm_request:
  assumes "encode_wm_request_payload q = Inr bs"
  shows "decodes (decode_wm_request_payload (wq_transaction q)) bs q"
proof (cases "wq_kind q")
  case (ManageSurface m)
  then have bs: "bs = encode_manage m"
    using assms by (simp add: encode_wm_request_payload_def)
  show ?thesis
    unfolding bs encode_manage_def decode_wm_request_payload_def
    by (rule decodes_bind, rule codec_intros, simp, rule decodes_bind_last,
        rule decodes_bind, rule codec_intros, rule decodes_bind, rule codec_intros,
        rule decodes_bind, rule codec_intros, rule decodes_bind_last, rule codec_intros,
        rule refl, rule dret_cong)
       (simp add: WmRequestPacket.equality WmManageSurface.equality ManageSurface)
next
  case (RelayoutWorkspace r)
  then have bs: "bs = encode_relayout r" and n: "check_count (length (rw_nodes r)) = Inr ()"
    using assms by (auto simp: encode_wm_request_payload_def)
  show ?thesis
    unfolding bs encode_relayout_def decode_wm_request_payload_def
    by (rule decodes_bind, rule codec_intros, simp, rule decodes_bind_last,
        rule decodes_bind, rule codec_intros, rule decodes_bind, rule codec_intros,
        rule decodes_bind, rule codec_intros, rule decodes_bind_last, rule decodes_nodes [OF n],
        rule refl, rule dret_cong)
       (simp add: WmRequestPacket.equality WmRelayoutWorkspace.equality RelayoutWorkspace)
next
  case (SurfaceRemoved s w)
  then have bs: "bs = push_u16 3 @ encode_surface_id s @ encode_workspace_id w"
    using assms by (simp add: encode_wm_request_payload_def)
  show ?thesis
    unfolding bs decode_wm_request_payload_def
    by (rule decodes_bind, rule codec_intros, simp, rule decodes_bind_last,
        rule decodes_bind, rule codec_intros, rule decodes_bind_last, rule codec_intros,
        rule refl, rule dret_cong)
       (simp add: WmRequestPacket.equality SurfaceRemoved)
next
  case (ActionActivated a)
  then have bs: "bs = encode_activation a" and n: "check_count (length (wa_nodes a)) = Inr ()"
    using assms by (auto simp: encode_wm_request_payload_def)
  show ?thesis
    unfolding bs encode_activation_def decode_wm_request_payload_def
    by (rule decodes_bind, rule codec_intros, simp, rule decodes_bind_last,
        rule decodes_bind, rule codec_intros, rule decodes_bind, rule codec_intros,
        rule decodes_bind, rule codec_intros, rule decodes_bind, rule codec_intros,
        rule decodes_bind_last, rule decodes_nodes [OF n], rule refl, rule dret_cong)
       (simp add: WmRequestPacket.equality WmActionActivation.equality ActionActivated)
qed

lemma decodes_wm_response:
  assumes "encode_wm_response_payload r = Inr bs"
  shows "decodes (decode_wm_response_payload (wr_transaction r)) bs r"
proof -
  have n: "check_count (length (wr_commands r)) = Inr ()"
    and bs: "bs = push_u32 (wr_timeout_msec r) @ push_u32 (word_of_nat (length (wr_commands r)))
            @ concat (map encode_wm_command (wr_commands r))"
    using assms by (auto simp: encode_wm_response_payload_def)
  show ?thesis
    unfolding bs decode_wm_response_payload_def
    by (rule decodes_bind, rule codec_intros, rule decodes_bind, rule decodes_count [OF n],
        rule decodes_bind_last, rule wm_command_codec.repeat_enc, simp, rule dret_cong)
       (simp add: WmResponsePacket.equality)
qed

lemma decodes_wm_hello:
  assumes "check_count (length (wh_bindings h)) = Inr ()"
  shows "decodes decode_wm_hello_payload
           (push_u16 (wh_api_version h) @ push_u64 (wh_capabilities h)
            @ push_u32 (word_of_nat (length (wh_bindings h)))
            @ concat (map encode_binding (wh_bindings h))) h"
  unfolding decode_wm_hello_payload_def
  by (rule decodes_bind, rule codec_intros, rule decodes_bind, rule codec_intros,
      rule decodes_bind, rule decodes_count [OF assms],
      rule decodes_bind_last, rule binding_codec.repeat_enc, simp, rule dret_cong)
     (simp add: WmHello.equality)

lemma decodes_wm_session_descriptor:
  assumes "check_count (length (wd_workspaces d)) = Inr ()"
    "check_count (length (wd_active_workspaces d)) = Inr ()"
    "check_count (length (wd_session_actions d)) = Inr ()"
  shows "decodes decode_wm_session_descriptor_payload
         (push_u16 (wd_api_version d)
          @ push_u32 (word_of_nat (length (wd_workspaces d)))
          @ concat (map encode_workspace_id (wd_workspaces d))
          @ push_u32 (word_of_nat (length (wd_active_workspaces d)))
          @ concat (map encode_output_workspace (wd_active_workspaces d))
          @ push_u32 (word_of_nat (length (wd_session_actions d)))
          @ concat (map (\<lambda>a. push_u16 (encode_session_action a)) (wd_session_actions d))) d"
  unfolding decode_wm_session_descriptor_payload_def
  by (rule decodes_bind, rule codec_intros,
      rule decodes_bind, rule decodes_count [OF assms(1)],
      rule decodes_bind, rule workspace_id_codec.repeat_enc, simp,
      rule decodes_bind, rule decodes_count [OF assms(2)],
      rule decodes_bind, rule output_workspace_codec.repeat_enc, simp,
      rule decodes_bind, rule decodes_count [OF assms(3)],
      rule decodes_bind_last, rule action_codec.repeat_enc, simp, rule dret_cong)
     (simp add: WmSessionDescriptor.equality)

text \<open>The frame of a response, by the round trips of the frame and of its payload.\<close>

lemma wm_response_frame_decodes:
  assumes "encode_wm_response_frame r = Inr f"
  shows "decode_wm_response_frame f = Inr r"
proof -
  obtain bs where "encode_wm_response_payload r = Inr bs"
    and "encode_frame WmResponseMsg (wr_transaction r) bs = Inr f"
    using assms by (auto simp: encode_wm_response_frame_def)
  then show ?thesis
    using encode_frame_decode decodes_all [OF decodes_wm_response]
    by (fastforce simp: decode_wm_response_frame_def)
qed

section \<open>Properties\<close>

text \<open>
  Property C3. The window-manager protocol is lossless: whatever request, response, hello or session
  descriptor is successfully encoded to a frame, the peer's decoder returns exactly that packet,
  with no field dropped, truncated or reinterpreted.
\<close>

theorem wm_messages_roundtrip:
  "(encode_wm_request_frame q = Inr f1 \<longrightarrow> decode_wm_request_frame f1 = Inr q)
   \<and> (encode_wm_response_frame r = Inr f2 \<longrightarrow> decode_wm_response_frame f2 = Inr r)
   \<and> (encode_wm_hello_frame h = Inr f3 \<longrightarrow> decode_wm_hello_frame f3 = Inr h)
   \<and> (encode_wm_session_descriptor_frame d = Inr f4 \<longrightarrow>
        decode_wm_session_descriptor_frame f4 = Inr d)"
proof (intro conjI impI)
  assume "encode_wm_request_frame q = Inr f1"
  then obtain bs where "encode_wm_request_payload q = Inr bs"
    and "encode_frame WmRequestMsg (wq_transaction q) bs = Inr f1"
    by (auto simp: encode_wm_request_frame_def)
  then show "decode_wm_request_frame f1 = Inr q"
    using encode_frame_decode decodes_all [OF decodes_wm_request]
    by (fastforce simp: decode_wm_request_frame_def)
next
  assume "encode_wm_response_frame r = Inr f2"
  then show "decode_wm_response_frame f2 = Inr r" by (rule wm_response_frame_decodes)
next
  assume e: "encode_wm_hello_frame h = Inr f3"
  then have n: "check_count (length (wh_bindings h)) = Inr ()"
    by (auto simp: encode_wm_hello_frame_def)
  show "decode_wm_hello_frame f3 = Inr h"
    using e encode_frame_decode decodes_all [OF decodes_wm_hello [OF n]] n
    by (fastforce simp: decode_wm_hello_frame_def encode_wm_hello_frame_def expect_message_kind_def)
next
  assume e: "encode_wm_session_descriptor_frame d = Inr f4"
  then have n: "check_count (length (wd_workspaces d)) = Inr ()"
    "check_count (length (wd_active_workspaces d)) = Inr ()"
    "check_count (length (wd_session_actions d)) = Inr ()"
    by (auto simp: encode_wm_session_descriptor_frame_def)
  show "decode_wm_session_descriptor_frame f4 = Inr d"
    using e encode_frame_decode decodes_all [OF decodes_wm_session_descriptor [OF n]] n
    by (fastforce simp: decode_wm_session_descriptor_frame_def
        encode_wm_session_descriptor_frame_def expect_message_kind_def)
qed

definition example_response :: WmResponsePacket where
  "example_response =
     \<lparr>wr_transaction = 9, wr_commands = [FocusSurface (SurfaceId 3 1), RequestSessionAction Logout None],
      wr_timeout_msec = 250\<rparr>"

theorem wm_messages_roundtrip_witness:
  "\<exists>f. encode_wm_response_frame example_response = Inr f
     \<and> decode_wm_response_frame f = Inr example_response"
proof -
  have "\<exists>f. encode_wm_response_frame example_response = Inr f"
    by (simp add: encode_wm_response_frame_def encode_wm_response_payload_def example_response_def
        check_count_def SOPHIA_IPC_MAX_ITEMS_def encode_frame_def SOPHIA_IPC_MAX_PAYLOAD_LEN_def
        encode_surface_id_def encode_option_surface_def)
  then show ?thesis
    using wm_messages_roundtrip [of _ _ example_response] by blast
qed

end
