(* ===== verification/Ipc_Portal.thy ===== *)
theory Ipc_Portal
  imports Ipc_Wm
begin

text \<open>
  The broker-side messages: broker health (\<^verbatim>\<open>ipc/broker.rs\<close>) and the portal request, response and
  clipboard payload frames (\<^verbatim>\<open>ipc/portal.rs\<close>), whose decoders insist that the ids inside the payload
  agree with the transaction of the frame header.
\<close>

section \<open>Broker health (ipc/broker.rs)\<close>

fun encode_broker_kind :: "BrokerKind \<Rightarrow> u16" where
  "encode_broker_kind BkPortal = 1"
| "encode_broker_kind BkMetadata = 2"

definition decode_broker_kind :: "u16 \<Rightarrow> IpcCodecError + BrokerKind" where
  "decode_broker_kind v =
     (if v = 1 then Inr BkPortal else if v = 2 then Inr BkMetadata
      else Inl (InvalidEnum ''broker_kind'' (ucast v)))"

fun encode_broker_health_state :: "BrokerHealthState \<Rightarrow> u16" where
  "encode_broker_health_state BhStarting = 1"
| "encode_broker_health_state BhReady = 2"
| "encode_broker_health_state BhDegraded = 3"
| "encode_broker_health_state BhStopped = 4"

definition decode_broker_health_state :: "u16 \<Rightarrow> IpcCodecError + BrokerHealthState" where
  "decode_broker_health_state v =
     (if v = 1 then Inr BhStarting else if v = 2 then Inr BhReady
      else if v = 3 then Inr BhDegraded else if v = 4 then Inr BhStopped
      else Inl (InvalidEnum ''broker_health_state'' (ucast v)))"

definition encode_broker_health_payload :: "BrokerHealthPacket \<Rightarrow> IpcCodecError + u8 list" where
  "encode_broker_health_payload p =
     bind_res (encode_optional_text ''broker_health_message'' (bh_message p)
                 SOPHIA_BROKER_HEALTH_MAX_MESSAGE_LEN)
       (\<lambda>text. Inr (push_u16 (encode_broker_kind (bh_broker p))
                     @ push_u16 (encode_broker_health_state (bh_state p)) @ text))"

definition decode_broker_health_payload :: "u64 \<Rightarrow> BrokerHealthPacket decoder" where
  "decode_broker_health_payload generation =
     dbind cursor_u16 (\<lambda>k. dbind (dlift (decode_broker_kind k)) (\<lambda>broker.
     dbind cursor_u16 (\<lambda>s. dbind (dlift (decode_broker_health_state s)) (\<lambda>state.
     dbind (decode_optional_text ''broker_health_message'' SOPHIA_BROKER_HEALTH_MAX_MESSAGE_LEN)
       (\<lambda>message.
         dret \<lparr>bh_broker = broker, bh_state = state, bh_generation = generation,
               bh_message = message\<rparr>)))))"

definition encode_broker_health_frame :: "BrokerHealthPacket \<Rightarrow> IpcCodecError + u8 list" where
  "encode_broker_health_frame p =
     bind_res (encode_broker_health_payload p)
       (\<lambda>payload. encode_frame BrokerHealthMsg (bh_generation p) payload)"

definition decode_broker_health_frame :: "u8 list \<Rightarrow> IpcCodecError + BrokerHealthPacket" where
  "decode_broker_health_frame frame =
     bind_res (decode_frame frame) (\<lambda>(header, payload).
       if fh_message_kind header \<noteq> BrokerHealthMsg
       then Inl (InvalidEnum ''message_kind'' (ucast (message_kind_code (fh_message_kind header))))
       else decode_all (decode_broker_health_payload (fh_transaction header)) payload)"

section \<open>Portal fields (ipc/portal.rs)\<close>

fun encode_kind :: "PortalTransferKind \<Rightarrow> u16" where
  "encode_kind PkClipboard = 1"
| "encode_kind PkDragAndDrop = 2"
| "encode_kind PkFileHandoff = 3"
| "encode_kind PkScreenCapture = 4"
| "encode_kind PkScreenRecording = 5"
| "encode_kind PkUriOpen = 6"
| "encode_kind PkNotification = 7"

definition decode_kind :: "u16 \<Rightarrow> IpcCodecError + PortalTransferKind" where
  "decode_kind v =
     (if v = 1 then Inr PkClipboard else if v = 2 then Inr PkDragAndDrop
      else if v = 3 then Inr PkFileHandoff else if v = 4 then Inr PkScreenCapture
      else if v = 5 then Inr PkScreenRecording else if v = 6 then Inr PkUriOpen
      else if v = 7 then Inr PkNotification
      else Inl (InvalidEnum ''portal_transfer_kind'' (ucast v)))"

fun encode_decision :: "PortalDecision \<Rightarrow> u8" where
  "encode_decision PdPending = 1"
| "encode_decision PdAllowed = 2"
| "encode_decision PdDenied = 3"
| "encode_decision PdRevoked = 4"

definition decode_decision :: "u8 \<Rightarrow> IpcCodecError + PortalDecision" where
  "decode_decision v =
     (if v = 1 then Inr PdPending else if v = 2 then Inr PdAllowed
      else if v = 3 then Inr PdDenied else if v = 4 then Inr PdRevoked
      else Inl (InvalidEnum ''portal_decision'' (ucast v)))"

fun encode_grant_state :: "PortalGrantState \<Rightarrow> u8" where
  "encode_grant_state GrActive = 1"
| "encode_grant_state GrCompleted = 2"
| "encode_grant_state GrRevoked = 3"
| "encode_grant_state GrExpired = 4"

definition decode_grant_state :: "u8 \<Rightarrow> IpcCodecError + PortalGrantState" where
  "decode_grant_state v =
     (if v = 1 then Inr GrActive else if v = 2 then Inr GrCompleted
      else if v = 3 then Inr GrRevoked else if v = 4 then Inr GrExpired
      else Inl (InvalidEnum ''portal_grant_state'' (ucast v)))"

definition u8_of_bool :: "bool \<Rightarrow> u8" where
  "u8_of_bool b = (if b then 1 else 0)"

definition portal_decode_bool :: "string \<Rightarrow> bool decoder" where
  "portal_decode_bool field =
     dbind cursor_u8 (\<lambda>v.
       if v = 0 then dret False else if v = 1 then dret True else dfail (InvalidBool field v))"

definition encode_transfer :: "PortalTransfer \<Rightarrow> IpcCodecError + u8 list" where
  "encode_transfer v =
     bind_res (encode_optional_text ''portal_mime_type'' (pt_mime_type v)
                 SOPHIA_PORTAL_MAX_MIME_TYPE_LEN)
       (\<lambda>mime. Inr (push_u64 (pt_transfer v) @ push_u64 (pt_source_namespace v)
          @ push_u64 (pt_target_namespace v) @ push_u16 (encode_kind (pt_kind v)) @ mime
          @ push_u64 (pt_byte_size v) @ push_u8 (encode_decision (pt_decision v))
          @ push_u64 (pt_generation v)))"

definition decode_transfer :: "PortalTransfer decoder" where
  "decode_transfer =
     dbind cursor_u64 (\<lambda>transfer. dbind cursor_u64 (\<lambda>source. dbind cursor_u64 (\<lambda>target.
     dbind cursor_u16 (\<lambda>k. dbind (dlift (decode_kind k)) (\<lambda>kind.
     dbind (decode_optional_text ''portal_mime_type'' SOPHIA_PORTAL_MAX_MIME_TYPE_LEN) (\<lambda>mime.
     dbind cursor_u64 (\<lambda>size. dbind cursor_u8 (\<lambda>d. dbind (dlift (decode_decision d)) (\<lambda>decision.
     dbind cursor_u64 (\<lambda>generation.
       dret \<lparr>pt_transfer = transfer, pt_source_namespace = source, pt_target_namespace = target,
             pt_kind = kind, pt_mime_type = mime, pt_byte_size = size, pt_decision = decision,
             pt_generation = generation\<rparr>))))))))))"

definition encode_grant :: "PortalGrant \<Rightarrow> u8 list" where
  "encode_grant g =
     push_u64 (pg_transfer g) @ push_u64 (pg_source_namespace g) @ push_u64 (pg_target_namespace g)
     @ push_u16 (encode_kind (pg_kind g)) @ push_u64 (pg_source_generation g)
     @ push_u64 (pg_broker_generation g) @ push_u64 (pg_deadline_msec g)
     @ push_u8 (encode_grant_state (pg_state g))"

definition decode_grant :: "PortalGrant decoder" where
  "decode_grant =
     dbind cursor_u64 (\<lambda>transfer. dbind cursor_u64 (\<lambda>source. dbind cursor_u64 (\<lambda>target.
     dbind cursor_u16 (\<lambda>k. dbind (dlift (decode_kind k)) (\<lambda>kind.
     dbind cursor_u64 (\<lambda>sg. dbind cursor_u64 (\<lambda>bg. dbind cursor_u64 (\<lambda>deadline.
     dbind cursor_u8 (\<lambda>s. dbind (dlift (decode_grant_state s)) (\<lambda>state.
       dret \<lparr>pg_transfer = transfer, pg_source_namespace = source, pg_target_namespace = target,
             pg_kind = kind, pg_source_generation = sg, pg_broker_generation = bg,
             pg_deadline_msec = deadline, pg_state = state\<rparr>))))))))))"

section \<open>Portal frames (ipc/portal.rs)\<close>

definition expect_kind :: "IpcMessageKind \<Rightarrow> IpcMessageKind \<Rightarrow> IpcCodecError + unit" where
  "expect_kind actual expected =
     (if actual = expected then Inr ()
      else Inl (InvalidEnum ''message_kind'' (ucast (message_kind_code actual))))"

definition encode_portal_broker_request_frame ::
  "PortalBrokerRequestPacket \<Rightarrow> IpcCodecError + u8 list" where
  "encode_portal_broker_request_frame p =
     bind_res (encode_transfer (pr_transfer (bq_request p))) (\<lambda>t.
       encode_frame PortalBrokerRequestMsg (pt_transfer (pr_transfer (bq_request p)))
         (t @ push_u64 (pr_deadline_msec (bq_request p)) @ push_u8 (u8_of_bool (bq_source_may_publish p))
          @ push_u8 (u8_of_bool (bq_target_may_request p))))"

definition decode_portal_broker_request_payload ::
  "TransactionId \<Rightarrow> PortalBrokerRequestPacket decoder" where
  "decode_portal_broker_request_payload tx =
     dbind decode_transfer (\<lambda>transfer.
       if pt_transfer transfer \<noteq> tx then dfail (InvalidEnum ''portal_transfer_correlation'' 0)
       else dbind cursor_u64 (\<lambda>deadline.
         dbind (portal_decode_bool ''source_may_publish'') (\<lambda>s.
         dbind (portal_decode_bool ''target_may_request'') (\<lambda>t.
           dret \<lparr>bq_request = \<lparr>pr_transfer = transfer, pr_deadline_msec = deadline\<rparr>,
                 bq_source_may_publish = s, bq_target_may_request = t\<rparr>))))"

definition decode_portal_broker_request_frame ::
  "u8 list \<Rightarrow> IpcCodecError + PortalBrokerRequestPacket" where
  "decode_portal_broker_request_frame frame =
     bind_res (decode_frame frame) (\<lambda>(header, payload).
       bind_res (expect_kind (fh_message_kind header) PortalBrokerRequestMsg) (\<lambda>_.
         decode_all (decode_portal_broker_request_payload (fh_transaction header)) payload))"

definition encode_portal_broker_response_frame ::
  "PortalBrokerResponsePacket \<Rightarrow> IpcCodecError + u8 list" where
  "encode_portal_broker_response_frame p =
     encode_frame PortalBrokerResponseMsg (bp_transfer p)
       (case bp_decision p of
          RespDenied \<Rightarrow> push_u8 1
        | RespAllowed g \<Rightarrow> push_u8 2 @ encode_grant g)"

definition decode_portal_broker_response_payload ::
  "PortalTransferId \<Rightarrow> PortalBrokerResponsePacket decoder" where
  "decode_portal_broker_response_payload transfer =
     dbind cursor_u8 (\<lambda>v.
       if v = 1 then dret \<lparr>bp_transfer = transfer, bp_decision = RespDenied\<rparr>
       else if v = 2 then dbind decode_grant (\<lambda>g.
         if pg_transfer g \<noteq> transfer then dfail (InvalidEnum ''portal_grant_correlation'' 0)
         else dret \<lparr>bp_transfer = transfer, bp_decision = RespAllowed g\<rparr>)
       else dfail (InvalidEnum ''portal_broker_decision'' (ucast v)))"

definition decode_portal_broker_response_frame ::
  "u8 list \<Rightarrow> IpcCodecError + PortalBrokerResponsePacket" where
  "decode_portal_broker_response_frame frame =
     bind_res (decode_frame frame) (\<lambda>(header, payload).
       bind_res (expect_kind (fh_message_kind header) PortalBrokerResponseMsg) (\<lambda>_.
         decode_all (decode_portal_broker_response_payload (fh_transaction header)) payload))"

definition encode_portal_clipboard_payload_frame ::
  "PortalTransferId \<Rightarrow> u8 list \<Rightarrow> IpcCodecError + u8 list" where
  "encode_portal_clipboard_payload_frame transfer payload =
     encode_frame PortalClipboardPayloadMsg transfer payload"

definition decode_portal_clipboard_payload_frame ::
  "u8 list \<Rightarrow> IpcCodecError + (PortalTransferId \<times> u8 list)" where
  "decode_portal_clipboard_payload_frame frame =
     bind_res (decode_frame frame) (\<lambda>(header, payload).
       bind_res (expect_kind (fh_message_kind header) PortalClipboardPayloadMsg) (\<lambda>_.
         if SOPHIA_IPC_MAX_PAYLOAD_LEN < length payload then Inl (PayloadTooLarge (length payload))
         else Inr (fh_transaction header, payload)))"

section \<open>Round trips\<close>

lemma portal_enum_roundtrips [simp]:
  "decode_broker_kind (encode_broker_kind b) = Inr b"
  "decode_broker_health_state (encode_broker_health_state h) = Inr h"
  "decode_kind (encode_kind k) = Inr k"
  "decode_decision (encode_decision d) = Inr d"
  "decode_grant_state (encode_grant_state g) = Inr g"
  by - ((cases b; simp add: decode_broker_kind_def),
        (cases h; simp add: decode_broker_health_state_def), (cases k; simp add: decode_kind_def),
        (cases d; simp add: decode_decision_def), (cases g; simp add: decode_grant_state_def))

text \<open>Reading an enum code back: the read, then the table lookup.\<close>

lemma decodes_code:
  assumes "decodes rd bs v" "lookup v = Inr x" "decodes (f x) bs' y"
  shows "decodes (dbind rd (\<lambda>k. dbind (dlift (lookup k)) f)) (bs @ bs') y"
  by (rule decodes_bind [OF assms(1)]) (simp add: assms(2) decodes_bind_pure assms(3))

lemma decodes_code_last:
  assumes "decodes rd bs v" "lookup v = Inr x" "f x = dret y"
  shows "decodes (dbind rd (\<lambda>k. dbind (dlift (lookup k)) f)) bs y"
  using decodes_code [where bs' = "[]" and lookup = lookup and f = f and x = x and y = y,
      OF assms(1,2)] decodes_ret [of y] assms(3) by simp

lemma decodes_portal_bool [codec_intros]:
  "decodes (portal_decode_bool field) (push_u8 (u8_of_bool b)) b"
  unfolding portal_decode_bool_def u8_of_bool_def
  by (rule decodes_bind_last, rule codec_intros) simp

definition text_ok :: "rust_string option \<Rightarrow> bool" where
  "text_ok v = (case v of None \<Rightarrow> True | Some s \<Rightarrow> utf8_valid s)"

lemma decodes_text:
  "encode_optional_text field v mx = Inr bs \<Longrightarrow> text_ok v \<Longrightarrow> mx < 65536
   \<Longrightarrow> decodes (decode_optional_text field mx) bs v"
  by (rule decodes_optional_text) (auto simp: text_ok_def)

lemma decodes_broker_health:
  assumes "encode_broker_health_payload p = Inr bs" "text_ok (bh_message p)"
  shows "decodes (decode_broker_health_payload (bh_generation p)) bs p"
proof -
  obtain msg where t: "encode_optional_text ''broker_health_message'' (bh_message p)
      SOPHIA_BROKER_HEALTH_MAX_MESSAGE_LEN = Inr msg"
    and bs: "bs = push_u16 (encode_broker_kind (bh_broker p))
                  @ push_u16 (encode_broker_health_state (bh_state p)) @ msg"
    using assms(1) by (auto simp: encode_broker_health_payload_def)
  show ?thesis
    unfolding bs decode_broker_health_payload_def
    by (rule decodes_code, rule codec_intros, rule portal_enum_roundtrips,
        rule decodes_code, rule codec_intros, rule portal_enum_roundtrips,
        rule decodes_bind_last, rule decodes_text [OF t assms(2)])
       (simp add: SOPHIA_BROKER_HEALTH_MAX_MESSAGE_LEN_def, rule dret_cong,
        simp add: BrokerHealthPacket.equality)
qed

lemma decodes_transfer:
  assumes "encode_transfer v = Inr bs" "text_ok (pt_mime_type v)"
  shows "decodes decode_transfer bs v"
proof -
  obtain mime where m: "encode_optional_text ''portal_mime_type'' (pt_mime_type v)
      SOPHIA_PORTAL_MAX_MIME_TYPE_LEN = Inr mime"
    and bs: "bs = push_u64 (pt_transfer v) @ push_u64 (pt_source_namespace v)
          @ push_u64 (pt_target_namespace v) @ push_u16 (encode_kind (pt_kind v)) @ mime
          @ push_u64 (pt_byte_size v) @ push_u8 (encode_decision (pt_decision v))
          @ push_u64 (pt_generation v)"
    using assms(1) by (auto simp: encode_transfer_def)
  have mx: "SOPHIA_PORTAL_MAX_MIME_TYPE_LEN < 65536"
    by (simp add: SOPHIA_PORTAL_MAX_MIME_TYPE_LEN_def)
  show ?thesis
    unfolding bs decode_transfer_def
    by (rule decodes_bind, rule codec_intros, rule decodes_bind, rule codec_intros,
        rule decodes_bind, rule codec_intros,
        rule decodes_code, rule codec_intros, rule portal_enum_roundtrips,
        rule decodes_bind, rule decodes_text [OF m assms(2) mx],
        rule decodes_bind, rule codec_intros,
        rule decodes_code, rule codec_intros, rule portal_enum_roundtrips,
        rule decodes_bind_last, rule codec_intros, rule dret_cong, simp add: PortalTransfer.equality)
qed

interpretation grant_codec: codec encode_grant decode_grant "\<lambda>_. True"
  by unfold_locales
     (simp only: encode_grant_def decode_grant_def,
      rule decodes_bind, rule codec_intros, rule decodes_bind, rule codec_intros,
      rule decodes_bind, rule codec_intros,
      rule decodes_code, rule codec_intros, rule portal_enum_roundtrips,
      rule decodes_bind, rule codec_intros, rule decodes_bind, rule codec_intros,
      rule decodes_bind, rule codec_intros,
      rule decodes_code_last, rule codec_intros, rule portal_enum_roundtrips, rule dret_cong,
      simp add: PortalGrant.equality)

lemma decodes_broker_request:
  assumes "encode_transfer (pr_transfer (bq_request p)) = Inr t"
    and "text_ok (pt_mime_type (pr_transfer (bq_request p)))"
  shows "decodes (decode_portal_broker_request_payload (pt_transfer (pr_transfer (bq_request p))))
    (t @ push_u64 (pr_deadline_msec (bq_request p)) @ push_u8 (u8_of_bool (bq_source_may_publish p))
       @ push_u8 (u8_of_bool (bq_target_may_request p))) p"
  unfolding decode_portal_broker_request_payload_def
  by (rule decodes_bind, rule decodes_transfer [OF assms], simp,
      rule decodes_bind, rule codec_intros, rule decodes_bind, rule codec_intros,
      rule decodes_bind_last, rule codec_intros, rule dret_cong,
      simp add: PortalBrokerRequestPacket.equality PortalRequest.equality)

definition response_correlated :: "PortalBrokerResponsePacket \<Rightarrow> bool" where
  "response_correlated p =
     (case bp_decision p of RespDenied \<Rightarrow> True | RespAllowed g \<Rightarrow> pg_transfer g = bp_transfer p)"

lemma decodes_broker_response:
  assumes "response_correlated p"
  shows "decodes (decode_portal_broker_response_payload (bp_transfer p))
    (case bp_decision p of RespDenied \<Rightarrow> push_u8 1 | RespAllowed g \<Rightarrow> push_u8 2 @ encode_grant g) p"
proof (cases "bp_decision p")
  case RespDenied
  then show ?thesis
    unfolding decode_portal_broker_response_payload_def
    by simp (rule decodes_bind_last, rule codec_intros, simp, rule dret_cong,
             simp add: PortalBrokerResponsePacket.equality)
next
  case (RespAllowed g)
  then show ?thesis
    using assms unfolding decode_portal_broker_response_payload_def
    by simp (rule decodes_bind, rule codec_intros, simp, rule decodes_bind_last,
             rule grant_codec.dec_enc, simp, simp add: response_correlated_def, rule dret_cong,
             simp add: PortalBrokerResponsePacket.equality)
qed

section \<open>Properties\<close>

text \<open>
  Property C4. The broker protocol is lossless and correlated: health reports and portal requests
  whose text is valid UTF-8 (every Rust string is), portal responses whose grant carries the id of
  the response, and clipboard payloads decode to exactly what was encoded; and whatever response
  frame the decoder accepts, a grant in it carries the transfer id of the response.
\<close>

theorem portal_messages_roundtrip:
  "(encode_broker_health_frame b = Inr f1 \<and> text_ok (bh_message b) \<longrightarrow>
      decode_broker_health_frame f1 = Inr b)
   \<and> (encode_portal_broker_request_frame q = Inr f2
        \<and> text_ok (pt_mime_type (pr_transfer (bq_request q))) \<longrightarrow>
      decode_portal_broker_request_frame f2 = Inr q)
   \<and> (encode_portal_broker_response_frame r = Inr f3 \<longrightarrow>
      (decode_portal_broker_response_frame f3 = Inr r \<longleftrightarrow> response_correlated r))
   \<and> (encode_portal_clipboard_payload_frame t bytes = Inr f4 \<longrightarrow>
      decode_portal_clipboard_payload_frame f4 = Inr (t, bytes))"
proof (intro conjI impI)
  assume e: "encode_broker_health_frame b = Inr f1 \<and> text_ok (bh_message b)"
  then obtain bs where "encode_broker_health_payload b = Inr bs"
    and "encode_frame BrokerHealthMsg (bh_generation b) bs = Inr f1"
    by (auto simp: encode_broker_health_frame_def)
  then show "decode_broker_health_frame f1 = Inr b"
    using e encode_frame_decode decodes_all [OF decodes_broker_health]
    by (fastforce simp: decode_broker_health_frame_def)
next
  assume e: "encode_portal_broker_request_frame q = Inr f2
        \<and> text_ok (pt_mime_type (pr_transfer (bq_request q)))"
  then obtain bs where "encode_transfer (pr_transfer (bq_request q)) = Inr bs"
    by (auto simp: encode_portal_broker_request_frame_def)
  with e show "decode_portal_broker_request_frame f2 = Inr q"
    using encode_frame_decode decodes_all [OF decodes_broker_request]
    by (fastforce simp: decode_portal_broker_request_frame_def
        encode_portal_broker_request_frame_def expect_kind_def)
next
  assume e: "encode_portal_broker_response_frame r = Inr f3"
  show "decode_portal_broker_response_frame f3 = Inr r \<longleftrightarrow> response_correlated r"
  proof
    assume "response_correlated r"
    then show "decode_portal_broker_response_frame f3 = Inr r"
      using e encode_frame_decode decodes_all [OF decodes_broker_response]
      by (fastforce simp: decode_portal_broker_response_frame_def
          encode_portal_broker_response_frame_def expect_kind_def)
  next
    assume "decode_portal_broker_response_frame f3 = Inr r"
    then show "response_correlated r"
      by (auto simp: decode_portal_broker_response_frame_def decode_all_def dbind_eq_Inr
          decode_portal_broker_response_payload_def response_correlated_def split: if_splits)
  qed
next
  assume e: "encode_portal_clipboard_payload_frame t bytes = Inr f4"
  then show "decode_portal_clipboard_payload_frame f4 = Inr (t, bytes)"
    using encode_frame_decode [of PortalClipboardPayloadMsg t bytes f4]
    by (auto simp: decode_portal_clipboard_payload_frame_def expect_kind_def
        encode_portal_clipboard_payload_frame_def encode_frame_def split: if_splits)
qed

definition example_grant_response :: PortalBrokerResponsePacket where
  "example_grant_response =
     \<lparr>bp_transfer = 5, bp_decision = RespAllowed
        \<lparr>pg_transfer = 5, pg_source_namespace = 1, pg_target_namespace = 2, pg_kind = PkClipboard,
         pg_source_generation = 3, pg_broker_generation = 1, pg_deadline_msec = 900,
         pg_state = GrActive\<rparr>\<rparr>"

theorem portal_messages_roundtrip_witness:
  "\<exists>f. encode_portal_broker_response_frame example_grant_response = Inr f
     \<and> decode_portal_broker_response_frame f = Inr example_grant_response"
proof -
  have "\<exists>f. encode_portal_broker_response_frame example_grant_response = Inr f"
    by (simp add: encode_portal_broker_response_frame_def example_grant_response_def
        encode_frame_def SOPHIA_IPC_MAX_PAYLOAD_LEN_def encode_grant_def)
  moreover have "response_correlated example_grant_response"
    by (simp add: response_correlated_def example_grant_response_def)
  ultimately show ?thesis
    using portal_messages_roundtrip by blast
qed

end
