(* ===== verification/Engine_Core.thy ===== *)
theory Engine_Core
  imports Ipc_Portal
begin

text \<open>
  What the engine's components share: its error type (\<^verbatim>\<open>error.rs\<close> with the error enums of \<^verbatim>\<open>wm.rs\<close> and
  the runtime's \<^verbatim>\<open>session/observation.rs\<close>), the output it drives (\<^verbatim>\<open>output.rs\<close>, \<^verbatim>\<open>engine/core.rs\<close>) and
  lists of records addressed by a key: \<open>Vec\<close>s of layers and of committed surface states that the code
  searches with \<open>iter().find\<close> and updates with \<open>iter().position\<close>.
\<close>

section \<open>Errors (error.rs, wm.rs, sophia-runtime/session/observation.rs)\<close>

datatype WmIpcError =
    Codec IpcCodecError
  | Io rust_string
  | TransactionMismatch TransactionId TransactionId
  | Negotiation string

datatype SessionRuntimeObservationError =
    TooManyObservations nat
  | BrokerStatusMessageTooLong nat nat

datatype EngineError =
    InvalidOutput
  | InvalidSurface
  | InvalidFrame
  | WmIpc WmIpcError
  | RuntimeObservation SessionRuntimeObservationError

section \<open>The headless engine (output.rs, engine/core.rs, frame/clock.rs)\<close>

record HeadlessOutput =
  ho_id :: OutputId
  ho_size :: Size
  ho_scale :: u32

definition headless_output_deterministic :: HeadlessOutput where
  "headless_output_deterministic =
     \<lparr>ho_id = 1, ho_size = \<lparr>sz_width = 1280, sz_height = 720\<rparr>, ho_scale = 1\<rparr>"

record HeadlessEngine =
  he_output :: HeadlessOutput

definition validate_output :: "HeadlessEngine \<Rightarrow> OutputId \<Rightarrow> EngineError + unit" where
  "validate_output e output =
     (if id_is_valid output \<and> output = ho_id (he_output e) then Inr () else Inl InvalidOutput)"

record FramePlanRequest =
  fq_output :: OutputId
  fq_frame_serial :: u64

section \<open>Vectors of keyed records\<close>

text \<open>
  \<open>iter().find(|x| key(x) == k)\<close>, and "replace the first element with the key, else push", the
  update of \<open>prepare_surface_transactions\<close> and \<open>apply_prepared_surface_commit\<close>.
\<close>

definition vec_find :: "('a \<Rightarrow> 'k) \<Rightarrow> 'a list \<Rightarrow> 'k \<Rightarrow> 'a option" where
  "vec_find key xs k = find (\<lambda>x. key x = k) xs"

fun vec_upsert :: "('a \<Rightarrow> 'k) \<Rightarrow> 'a \<Rightarrow> 'a list \<Rightarrow> 'a list" where
  "vec_upsert key n [] = [n]"
| "vec_upsert key n (x # xs) = (if key x = key n then n # xs else x # vec_upsert key n xs)"

lemma vec_find_simps [simp]:
  "vec_find key [] k = None"
  "vec_find key (x # xs) k = (if key x = k then Some x else vec_find key xs k)"
  by (simp_all add: vec_find_def)

lemma vec_find_upsert [simp]: "vec_find key (vec_upsert key n xs) = (vec_find key xs)(key n \<mapsto> n)"
  by (induction xs) (auto simp: fun_eq_iff)

lemma vec_find_key: "vec_find key xs k = Some x \<Longrightarrow> key x = k \<and> x \<in> set xs"
  by (induction xs) (auto split: if_splits)

lemma vec_find_None: "vec_find key xs k = None \<longleftrightarrow> k \<notin> key ` set xs"
  by (induction xs) auto

lemma vec_find_member: "distinct (map key xs) \<Longrightarrow> x \<in> set xs \<Longrightarrow> vec_find key xs (key x) = Some x"
  by (induction xs) auto

lemma set_vec_upsert: "set (vec_upsert key n xs) \<subseteq> insert n (set xs)"
  by (induction xs) auto

lemma keys_vec_upsert [simp]: "key ` set (vec_upsert key n xs) = insert (key n) (key ` set xs)"
  by (induction xs) auto

lemma distinct_vec_upsert [simp]:
  "distinct (map key xs) \<Longrightarrow> distinct (map key (vec_upsert key n xs))"
proof (induction xs)
  case (Cons x xs)
  have "key ` set (vec_upsert key n xs) = insert (key n) (key ` set xs)"
    by (rule keys_vec_upsert)
  then show ?case using Cons by (metis distinct.simps(2) insert_iff list.simps(9) set_map vec_upsert.simps(2))
qed simp

text \<open>A loop of such updates is the map override by the last value written for each key.\<close>

lemma vec_find_fold_upsert:
  "vec_find key (fold (vec_upsert key) ns xs)
   = vec_find key xs ++ map_of (rev (map (\<lambda>n. (key n, n)) ns))"
  by (induction ns arbitrary: xs) (simp_all add: map_add_upd_left map_add_def fun_eq_iff
        split: option.splits)

lemma distinct_fold_upsert [simp]:
  "distinct (map key xs) \<Longrightarrow> distinct (map key (fold (vec_upsert key) ns xs))"
  by (induction ns arbitrary: xs) simp_all

lemma set_fold_upsert: "set (fold (vec_upsert key) ns xs) \<subseteq> set ns \<union> set xs"
proof (induction ns arbitrary: xs)
  case (Cons n ns)
  then show ?case using set_vec_upsert [of key n xs] by fastforce
qed simp

end
