(* ===== verification/Visual_State.thy ===== *)
theory Visual_State
  imports Engine_Core
begin

text \<open>
  The authoritative visual state of surfaces (\<^verbatim>\<open>visual_state.rs\<close>) and the commit of authority
  transactions to it (\<^verbatim>\<open>engine/layout/authority_transaction.rs\<close>, \<^verbatim>\<open>projection.rs\<close>). A batch of surface
  transactions is checked as a whole against the committed baseline, prepared as a candidate, and
  applied once its page flip is visible, provided the baseline of the touched surfaces is still
  current. The abstract state is the finite map from surfaces to committed states
  (\<open>committed_of\<close>), and a commit refines one atomic map override.
\<close>

section \<open>Visual state table (visual\_state.rs)\<close>

record LastCommittedLayout =
  lcl_layers :: "LayerSnapshot list"

definition lcl_replace :: "LastCommittedLayout \<Rightarrow> LayerSnapshot list \<Rightarrow> LastCommittedLayout" where
  "lcl_replace l layers = l\<lparr>lcl_layers := layers\<rparr>"

definition lcl_restore_into :: "LastCommittedLayout \<Rightarrow> LayerSnapshot list" where
  "lcl_restore_into l = lcl_layers l"

definition lcl_is_empty :: "LastCommittedLayout \<Rightarrow> bool" where
  "lcl_is_empty l = (lcl_layers l = [])"

record SurfaceVisualStateEntry =
  ve_surface :: SurfaceId
  ve_committed :: "CommittedSurfaceState option"
  ve_pending :: "SurfaceTransaction option"

record SurfaceVisualStateTable =
  vt_entries :: "(SurfaceId, SurfaceVisualStateEntry) btree"

record PreparedSurfaceCommit =
  pc_commit :: TransactionCommit
  pc_baseline :: "CommittedSurfaceState list"
  pc_candidate :: "CommittedSurfaceState list"

definition prepared_is_ready :: "PreparedSurfaceCommit \<Rightarrow> bool" where
  "prepared_is_ready p = (tc_outcome (pc_commit p) = Committed)"

datatype SurfaceTransactionCommitReadiness =
    CrReady
  | CrInvalidSurface
  | CrEmptyGeometry
  | CrMissingBuffer
  | CrNotReady SurfaceTransactionReadiness
  | CrStaleGeneration u64 u64

datatype SurfaceTimeoutPolicy = PolPreserveCommitted | PolDegradeToPending

datatype SlowClientVisualDecision =
    ScPreserveCommitted SurfaceId "CommittedSurfaceState option"
  | ScDegradeToPending SurfaceId CommittedSurfaceState
  | ScNotTimedOut SurfaceId SurfaceTransactionCommitReadiness

definition vt_new :: SurfaceVisualStateTable where
  "vt_new = \<lparr>vt_entries = []\<rparr>"

definition vt_upsert_committed ::
  "CommittedSurfaceState \<Rightarrow> SurfaceVisualStateTable \<Rightarrow> SurfaceVisualStateTable" where
  "vt_upsert_committed c t =
     (case bt_get (vt_entries t) (cs_surface c) of
        Some e \<Rightarrow> t\<lparr>vt_entries := bt_insert (cs_surface c) (e\<lparr>ve_committed := Some c\<rparr>) (vt_entries t)\<rparr>
      | None \<Rightarrow> t\<lparr>vt_entries := bt_insert (cs_surface c)
            \<lparr>ve_surface = cs_surface c, ve_committed = Some c, ve_pending = None\<rparr> (vt_entries t)\<rparr>)"

definition from_committed_states :: "CommittedSurfaceState list \<Rightarrow> SurfaceVisualStateTable" where
  "from_committed_states cs = fold vt_upsert_committed cs vt_new"

definition vt_committed :: "SurfaceVisualStateTable \<Rightarrow> SurfaceId \<Rightarrow> CommittedSurfaceState option" where
  "vt_committed t s = Option.bind (bt_get (vt_entries t) s) ve_committed"

definition vt_pending :: "SurfaceVisualStateTable \<Rightarrow> SurfaceId \<Rightarrow> SurfaceTransaction option" where
  "vt_pending t s = Option.bind (bt_get (vt_entries t) s) ve_pending"

definition committed_states :: "SurfaceVisualStateTable \<Rightarrow> CommittedSurfaceState list" where
  "committed_states t = List.map_filter ve_committed (bt_values (vt_entries t))"

definition pending_transactions :: "SurfaceVisualStateTable \<Rightarrow> SurfaceTransaction list" where
  "pending_transactions t = List.map_filter ve_pending (bt_values (vt_entries t))"

definition transaction_commit_readiness ::
  "SurfaceVisualStateTable \<Rightarrow> SurfaceTransaction \<Rightarrow> SurfaceTransactionCommitReadiness" where
  "transaction_commit_readiness t x =
     (if \<not> surface_is_valid (st_surface x) then CrInvalidSurface
      else if rect_is_empty (st_target_geometry x) then CrEmptyGeometry
      else if st_target_buffer x = BufNone \<and> vt_committed t (st_surface x) = None
        then CrMissingBuffer
      else if st_readiness x \<noteq> TrReady then CrNotReady (st_readiness x)
      else
        let current = (case vt_committed t (st_surface x) of
                         None \<Rightarrow> 0 | Some c \<Rightarrow> cs_committed_generation c);
            expected = st_previous_committed_generation x in
        if current \<noteq> expected then CrStaleGeneration current expected else CrReady)"

text \<open>The committed state a transaction leads to, in both places that build it.\<close>

definition next_state :: "SurfaceTransaction \<Rightarrow> CommittedSurfaceState" where
  "next_state x =
     \<lparr>cs_surface = st_surface x,
      cs_committed_generation = sat_add (st_previous_committed_generation x) 1,
      cs_geometry = st_target_geometry x, cs_buffer = st_target_buffer x,
      cs_damage = st_damage x\<rparr>"

definition slow_client_timeout_decision ::
  "SurfaceVisualStateTable \<Rightarrow> SurfaceTransaction \<Rightarrow> SurfaceTimeoutPolicy \<Rightarrow> SlowClientVisualDecision"
  where
  "slow_client_timeout_decision t x policy =
     (let readiness = transaction_commit_readiness t x in
      if readiness \<noteq> CrNotReady TrTimedOut then ScNotTimedOut (st_surface x) readiness
      else case policy of
             PolPreserveCommitted \<Rightarrow>
               ScPreserveCommitted (st_surface x) (vt_committed t (st_surface x))
           | PolDegradeToPending \<Rightarrow> ScDegradeToPending (st_surface x) (next_state x))"

definition stage_pending ::
  "SurfaceTransaction \<Rightarrow> SurfaceVisualStateTable \<Rightarrow> EngineError + SurfaceVisualStateTable" where
  "stage_pending x t =
     (if \<not> surface_is_valid (st_surface x) then Inl InvalidSurface
      else Inr (case bt_get (vt_entries t) (st_surface x) of
        Some e \<Rightarrow> t\<lparr>vt_entries := bt_insert (st_surface x) (e\<lparr>ve_pending := Some x\<rparr>) (vt_entries t)\<rparr>
      | None \<Rightarrow> t\<lparr>vt_entries := bt_insert (st_surface x)
            \<lparr>ve_surface = st_surface x, ve_committed = None, ve_pending = Some x\<rparr> (vt_entries t)\<rparr>))"

definition clear_pending ::
  "SurfaceId \<Rightarrow> SurfaceVisualStateTable \<Rightarrow> SurfaceTransaction option \<times> SurfaceVisualStateTable" where
  "clear_pending s t =
     (vt_pending t s, t\<lparr>vt_entries := bt_update s (\<lambda>e. e\<lparr>ve_pending := None\<rparr>) (vt_entries t)\<rparr>)"

section \<open>Authority transactions (engine/layout/authority\_transaction.rs)\<close>

text \<open>The validation loop: the outcome of the first transaction that blocks the batch, if any.\<close>

fun check_batch ::
  "TransactionId \<Rightarrow> SurfaceVisualStateTable \<Rightarrow> SurfaceTransaction list \<Rightarrow> TransactionOutcome option" where
  "check_batch tx t [] = None"
| "check_batch tx t (x # xs) =
     (if st_transaction x \<noteq> tx then Some RejectedStaleSurface
      else case transaction_commit_readiness t x of
             CrReady \<Rightarrow> check_batch tx t xs
           | CrNotReady TrPending \<Rightarrow> Some TimedOut
           | CrNotReady TrTimedOut \<Rightarrow> Some TimedOut
           | CrNotReady TrFailed \<Rightarrow> Some RejectedStaleSurface
           | CrInvalidSurface \<Rightarrow> Some RejectedInvalidSurface
           | CrEmptyGeometry \<Rightarrow> Some RejectedInvalidSurface
           | CrMissingBuffer \<Rightarrow> Some RejectedInvalidSurface
           | CrNotReady TrReady \<Rightarrow> Some RejectedInvalidSurface
           | CrStaleGeneration current expected \<Rightarrow> Some RejectedStaleSurface)"

definition prepare_surface_transactions ::
  "TransactionId \<Rightarrow> SurfaceTransaction list \<Rightarrow> CommittedSurfaceState list \<Rightarrow> PreparedSurfaceCommit"
  where
  "prepare_surface_transactions tx xs committed =
     (case check_batch tx (from_committed_states committed) xs of
        Some outcome \<Rightarrow>
          \<lparr>pc_commit = \<lparr>tc_transaction = tx, tc_outcome = outcome, tc_applied_surfaces = []\<rparr>,
           pc_baseline = committed, pc_candidate = committed\<rparr>
      | None \<Rightarrow>
          \<lparr>pc_commit = \<lparr>tc_transaction = tx, tc_outcome = Committed,
                        tc_applied_surfaces = map st_surface xs\<rparr>,
           pc_baseline = committed,
           pc_candidate = fold (vec_upsert cs_surface) (map next_state xs) committed\<rparr>)"

text \<open>The loop that copies candidate states; \<open>None\<close> is the panic of its \<open>expect\<close>.\<close>

fun apply_candidates ::
  "CommittedSurfaceState list \<Rightarrow> SurfaceId list \<Rightarrow> CommittedSurfaceState list
   \<Rightarrow> CommittedSurfaceState list option" where
  "apply_candidates candidate [] committed = Some committed"
| "apply_candidates candidate (s # ss) committed =
     (case vec_find cs_surface candidate s of
        None \<Rightarrow> None
      | Some c \<Rightarrow> apply_candidates candidate ss (vec_upsert cs_surface c committed))"

definition apply_prepared_surface_commit ::
  "PreparedSurfaceCommit \<Rightarrow> CommittedSurfaceState list
   \<Rightarrow> (TransactionCommit \<times> CommittedSurfaceState list) option" where
  "apply_prepared_surface_commit p committed =
     (if \<not> prepared_is_ready p then Some (pc_commit p, committed)
      else if \<not> list_all (\<lambda>s. vec_find cs_surface (pc_baseline p) s = vec_find cs_surface committed s)
                (tc_applied_surfaces (pc_commit p))
        then Some (\<lparr>tc_transaction = tc_transaction (pc_commit p),
                    tc_outcome = RejectedStaleSurface, tc_applied_surfaces = []\<rparr>, committed)
      else map_option (\<lambda>committed'. (pc_commit p, committed'))
             (apply_candidates (pc_candidate p) (tc_applied_surfaces (pc_commit p)) committed))"

definition commit_surface_transactions ::
  "TransactionId \<Rightarrow> SurfaceTransaction list \<Rightarrow> CommittedSurfaceState list
   \<Rightarrow> (TransactionCommit \<times> CommittedSurfaceState list) option" where
  "commit_surface_transactions tx xs committed =
     apply_prepared_surface_commit (prepare_surface_transactions tx xs committed) committed"

section \<open>Projection (engine/layout/projection.rs)\<close>

definition project_committed_surface_state ::
  "CommittedSurfaceState \<Rightarrow> LayerSnapshot \<Rightarrow> EngineError + LayerSnapshot" where
  "project_committed_surface_state c template =
     (if \<not> surface_is_valid (cs_surface c) \<or> \<not> surface_is_valid (ls_surface template)
        then Inl InvalidSurface
      else if cs_surface c \<noteq> ls_surface template then Inl InvalidSurface
      else Inr (template\<lparr>ls_geometry := cs_geometry c, ls_source := cs_buffer c,
                         ls_damage := cs_damage c, ls_generation := cs_committed_generation c\<rparr>))"

definition project_committed_surface_states ::
  "CommittedSurfaceState list \<Rightarrow> LayerSnapshot list \<Rightarrow> EngineError + LayerSnapshot list" where
  "project_committed_surface_states committed templates =
     (let by_surface = bt_from_list (map (\<lambda>l. (ls_surface l, l)) templates) in
      map_res (\<lambda>c. case bt_get by_surface (cs_surface c) of
                     None \<Rightarrow> Inl InvalidSurface
                   | Some template \<Rightarrow> project_committed_surface_state c template) committed)"

section \<open>The abstract state and the abstract commit\<close>

text \<open>
  Abstractly the committed state is a map from surfaces; a batch is applicable when every
  transaction of it carries the batch's id and is ready against that map; committing it overrides
  the map at the batch's surfaces at once, the last transaction of a surface winning.
\<close>

definition committed_of :: "CommittedSurfaceState list \<Rightarrow> SurfaceId \<rightharpoonup> CommittedSurfaceState" where
  "committed_of cs = vec_find cs_surface cs"

definition committed_wf :: "CommittedSurfaceState list \<Rightarrow> bool" where
  "committed_wf cs = distinct (map cs_surface cs)"

definition spec_ready :: "(SurfaceId \<rightharpoonup> CommittedSurfaceState) \<Rightarrow> SurfaceTransaction \<Rightarrow> bool" where
  "spec_ready m x \<longleftrightarrow>
     surface_is_valid (st_surface x) \<and> \<not> rect_is_empty (st_target_geometry x)
     \<and> st_readiness x = TrReady
     \<and> (case m (st_surface x) of
          None \<Rightarrow> st_target_buffer x \<noteq> BufNone \<and> st_previous_committed_generation x = 0
        | Some c \<Rightarrow> st_previous_committed_generation x = cs_committed_generation c)"

definition spec_applicable ::
  "TransactionId \<Rightarrow> (SurfaceId \<rightharpoonup> CommittedSurfaceState) \<Rightarrow> SurfaceTransaction list \<Rightarrow> bool" where
  "spec_applicable tx m xs \<longleftrightarrow> (\<forall>x \<in> set xs. st_transaction x = tx \<and> spec_ready m x)"

definition spec_commit ::
  "SurfaceTransaction list \<Rightarrow> (SurfaceId \<rightharpoonup> CommittedSurfaceState) \<Rightarrow> SurfaceId \<rightharpoonup> CommittedSurfaceState"
  where
  "spec_commit xs m = m ++ map_of (rev (map (\<lambda>x. (st_surface x, next_state x)) xs))"

lemma spec_commit_other: "s \<notin> st_surface ` set xs \<Longrightarrow> spec_commit xs m s = m s"
  by (auto simp: spec_commit_def map_add_def map_of_eq_None_iff image_iff split: option.splits
        dest!: map_of_SomeD)

lemma spec_commit_at:
  assumes "s \<in> st_surface ` set xs"
  obtains y where "y \<in> set xs" "st_surface y = s" "\<And>m. spec_commit xs m s = Some (next_state y)"
proof -
  have "map_of (rev (map (\<lambda>x. (st_surface x, next_state x)) xs)) s \<noteq> None"
    using assms by (auto simp: map_of_eq_None_iff image_iff)
  then obtain c where c: "map_of (rev (map (\<lambda>x. (st_surface x, next_state x)) xs)) s = Some c"
    by auto
  then obtain y where "y \<in> set xs" "st_surface y = s" "c = next_state y"
    using map_of_SomeD [OF c] by auto
  with c that show ?thesis by (simp add: spec_commit_def map_add_def)
qed

lemma spec_commit_touched:
  "s \<in> st_surface ` set xs \<Longrightarrow> spec_commit xs m s = spec_commit xs m' s"
  by (metis spec_commit_at)

section \<open>Lemmas\<close>

lemma next_state_simps [simp]:
  "cs_surface (next_state x) = st_surface x" "cs_geometry (next_state x) = st_target_geometry x"
  "cs_buffer (next_state x) = st_target_buffer x"
  "cs_committed_generation (next_state x) = sat_add (st_previous_committed_generation x) 1"
  by (simp_all add: next_state_def)

lemma vt_committed_upsert:
  "vt_committed (vt_upsert_committed c t) = (vt_committed t)(cs_surface c \<mapsto> c)"
  by (auto simp: fun_eq_iff vt_committed_def vt_upsert_committed_def bt_get_insert
        split: option.splits)

lemma vt_committed_fold:
  "vt_committed (fold vt_upsert_committed cs t)
   = vt_committed t ++ map_of (rev (map (\<lambda>c. (cs_surface c, c)) cs))"
  by (induction cs arbitrary: t)
     (simp_all add: vt_committed_upsert map_add_def fun_eq_iff split: option.splits)

lemma vec_find_map_of: "vec_find key xs = map_of (map (\<lambda>x. (key x, x)) xs)"
  by (induction xs) (auto simp: fun_eq_iff)

lemma map_of_rev_distinct: "distinct (map fst xs) \<Longrightarrow> map_of (rev xs) = map_of xs"
  by (rule map_of_inject_set [THEN iffD2]) (simp_all add: rev_map [symmetric])

lemma vt_committed_from [simp]:
  "committed_wf cs \<Longrightarrow> vt_committed (from_committed_states cs) = committed_of cs"
  by (simp add: from_committed_states_def vt_committed_fold committed_of_def vec_find_map_of
        committed_wf_def map_of_rev_distinct comp_def vt_committed_def vt_new_def fun_eq_iff
        map_add_def split: option.splits)

lemma readiness_iff:
  "transaction_commit_readiness t x = CrReady \<longleftrightarrow> spec_ready (vt_committed t) x"
  by (auto simp: transaction_commit_readiness_def spec_ready_def Let_def split: option.splits)

lemma check_batch_None_iff:
  "check_batch tx t xs = None \<longleftrightarrow> spec_applicable tx (vt_committed t) xs"
proof (induction xs)
  case (Cons x xs)
  then show ?case
    using readiness_iff [of t x]
    by (auto simp: spec_applicable_def split: SurfaceTransactionCommitReadiness.splits
          SurfaceTransactionReadiness.splits)
qed (simp add: spec_applicable_def)

lemma check_batch_not_Committed: "check_batch tx t xs \<noteq> Some Committed"
  by (induction xs) (auto split: SurfaceTransactionCommitReadiness.splits
        SurfaceTransactionReadiness.splits)

text \<open>Preparing: the candidate is the abstract commit of the baseline.\<close>

lemma candidate_of:
  "committed_of (fold (vec_upsert cs_surface) (map next_state xs) cs) = spec_commit xs (committed_of cs)"
  by (simp add: committed_of_def vec_find_fold_upsert spec_commit_def comp_def)

text \<open>Applying: the touched surfaces take the candidate's state, all others keep theirs.\<close>

lemma apply_candidates_run:
  assumes "\<forall>s \<in> set ss. s \<in> dom (committed_of candidate)" "committed_wf cs"
  shows "\<exists>cs'. apply_candidates candidate ss cs = Some cs' \<and> committed_wf cs'
           \<and> (\<forall>s. committed_of cs' s =
                (if s \<in> set ss then committed_of candidate s else committed_of cs s))
           \<and> set cs' \<subseteq> set cs \<union> set candidate"
  using assms
proof (induction ss arbitrary: cs)
  case (Cons s ss)
  then obtain c where c: "vec_find cs_surface candidate s = Some c"
    by (auto simp: committed_of_def)
  then have k: "cs_surface c = s" "c \<in> set candidate"
    by (auto dest: vec_find_key)
  have "committed_wf (vec_upsert cs_surface c cs)"
    using Cons.prems by (simp add: committed_wf_def)
  with Cons.IH [of "vec_upsert cs_surface c cs"] Cons.prems obtain cs' where
    cs': "apply_candidates candidate ss (vec_upsert cs_surface c cs) = Some cs'" "committed_wf cs'"
      "\<forall>s. committed_of cs' s = (if s \<in> set ss then committed_of candidate s
             else committed_of (vec_upsert cs_surface c cs) s)"
      "set cs' \<subseteq> set (vec_upsert cs_surface c cs) \<union> set candidate"
    by auto
  moreover have "set cs' \<subseteq> set cs \<union> set candidate"
    using cs'(4) set_vec_upsert [of cs_surface c cs] k by blast
  ultimately show ?case
    using c k by (auto simp: committed_of_def)
qed auto

lemma spec_commit_dom: "dom (spec_commit xs m) = st_surface ` set xs \<union> dom m"
  by (auto simp: spec_commit_def dom_map_of_conv_image_fst image_image)

text \<open>
  Applying a batch prepared at \<open>base\<close> to a later state \<open>cs\<close>, in terms of the abstract maps: this is
  the one fact about the code that the properties below share.
\<close>

lemma apply_prepared_spec:
  assumes base: "committed_wf base" and cs: "committed_wf cs"
  shows "\<exists>c cs'. apply_prepared_surface_commit (prepare_surface_transactions tx xs base) cs = Some (c, cs')
    \<and> committed_wf cs' \<and> tc_transaction c = tx
    \<and> (if spec_applicable tx (committed_of base) xs
          \<and> (\<forall>x \<in> set xs. committed_of base (st_surface x) = committed_of cs (st_surface x))
       then tc_outcome c = Committed \<and> tc_applied_surfaces c = map st_surface xs
            \<and> committed_of cs' = spec_commit xs (committed_of cs)
       else tc_outcome c \<noteq> Committed \<and> tc_applied_surfaces c = [] \<and> cs' = cs)"
proof (cases "check_batch tx (from_committed_states base) xs")
  case (Some out)
  then have "out \<noteq> Committed" "\<not> spec_applicable tx (committed_of base) xs"
    using check_batch_not_Committed [of tx "from_committed_states base" xs]
      check_batch_None_iff [of tx "from_committed_states base" xs] base by auto
  then show ?thesis
    using Some cs by (simp add: prepare_surface_transactions_def apply_prepared_surface_commit_def
        prepared_is_ready_def)
next
  case None
  let ?cand = "fold (vec_upsert cs_surface) (map next_state xs) base"
  have app: "spec_applicable tx (committed_of base) xs"
    using None check_batch_None_iff [of tx "from_committed_states base" xs] base by simp
  obtain cs' where cs': "apply_candidates ?cand (map st_surface xs) cs = Some cs'" "committed_wf cs'"
    "\<forall>s. committed_of cs' s = (if s \<in> st_surface ` set xs then committed_of ?cand s else committed_of cs s)"
    using apply_candidates_run [of "map st_surface xs" ?cand cs] cs
    by (auto simp: candidate_of spec_commit_dom)
  have "committed_of cs' = spec_commit xs (committed_of cs)"
  proof
    fix s
    show "committed_of cs' s = spec_commit xs (committed_of cs) s"
      using cs'(3) candidate_of [of xs base] spec_commit_touched spec_commit_other by metis
  qed
  then show ?thesis
    using None app cs cs'(1,2)
    by (auto simp: prepare_surface_transactions_def apply_prepared_surface_commit_def
        prepared_is_ready_def list_all_iff committed_of_def)
qed


section \<open>Runs of commits\<close>

text \<open>
  Sessions commit one batch after another. What the commits keep: one state per surface, every
  state with a valid id, a non-empty geometry and a positive generation; and between two moments
  of a session no surface loses its state and no generation goes back.
\<close>

definition committed_inv :: "CommittedSurfaceState list \<Rightarrow> bool" where
  "committed_inv cs \<longleftrightarrow> committed_wf cs
     \<and> (\<forall>c \<in> set cs. surface_is_valid (cs_surface c) \<and> \<not> rect_is_empty (cs_geometry c)
          \<and> 0 < cs_committed_generation c)"

definition generation_le :: "CommittedSurfaceState list \<Rightarrow> CommittedSurfaceState list \<Rightarrow> bool" where
  "generation_le a b \<longleftrightarrow>
     (\<forall>s c. committed_of a s = Some c \<longrightarrow>
        (\<exists>d. committed_of b s = Some d \<and> cs_committed_generation c \<le> cs_committed_generation d))"

definition commit_step ::
  "CommittedSurfaceState list \<Rightarrow> TransactionId \<times> SurfaceTransaction list \<Rightarrow> CommittedSurfaceState list"
  where
  "commit_step cs batch =
     (case commit_surface_transactions (fst batch) (snd batch) cs of
        None \<Rightarrow> cs | Some (c, cs') \<Rightarrow> cs')"

lemma committed_of_member:
  "committed_wf cs \<Longrightarrow> c \<in> set cs \<longleftrightarrow> committed_of cs (cs_surface c) = Some c"
  by (auto simp: committed_wf_def committed_of_def vec_find_member dest: vec_find_key)

lemma committed_of_surface: "committed_of cs s = Some c \<Longrightarrow> cs_surface c = s \<and> c \<in> set cs"
  by (auto simp: committed_of_def dest: vec_find_key)

lemma sat_add_one_pos: "0 < sat_add g (1 :: u64)"
  by (simp add: word_less_nat_alt unat_sat_add)

lemma commit_step_spec:
  assumes "committed_wf cs"
  shows "committed_wf (commit_step cs (tx, xs))
    \<and> (if spec_applicable tx (committed_of cs) xs
       then committed_of (commit_step cs (tx, xs)) = spec_commit xs (committed_of cs)
       else commit_step cs (tx, xs) = cs)"
  using apply_prepared_spec [OF assms assms, of tx xs]
  by (auto simp: commit_step_def commit_surface_transactions_def split: if_splits)

lemma spec_commit_cases:
  assumes "spec_commit xs m s = Some c"
  obtains "m s = Some c" "s \<notin> st_surface ` set xs"
  | x where "x \<in> set xs" "st_surface x = s" "c = next_state x"
  using assms spec_commit_at [of s xs] spec_commit_other [of s xs m]
  by (cases "s \<in> st_surface ` set xs") (metis option.inject, simp)

lemma commit_step_inv: "committed_inv cs \<Longrightarrow> committed_inv (commit_step cs batch)"
proof -
  assume inv: "committed_inv cs"
  obtain tx xs where b: "batch = (tx, xs)" by force
  have wf: "committed_wf cs" using inv by (simp add: committed_inv_def)
  note sp = commit_step_spec [OF wf, of tx xs]
  show ?thesis
  proof (cases "spec_applicable tx (committed_of cs) xs")
    case True
    have "surface_is_valid (cs_surface c) \<and> \<not> rect_is_empty (cs_geometry c)
          \<and> 0 < cs_committed_generation c" if "c \<in> set (commit_step cs batch)" for c
    proof -
      have "spec_commit xs (committed_of cs) (cs_surface c) = Some c"
        using sp True that b by (simp add: committed_of_member)
      then show ?thesis
      proof (cases rule: spec_commit_cases)
        case 1
        then show ?thesis using inv by (auto simp: committed_inv_def dest: committed_of_surface)
      next
        case (2 x)
        then show ?thesis
          using True by (auto simp: spec_applicable_def spec_ready_def sat_add_one_pos)
      qed
    qed
    then show ?thesis using sp b by (simp add: committed_inv_def)
  next
    case False
    then show ?thesis using sp inv b by simp
  qed
qed

lemma commit_step_generation: "committed_inv cs \<Longrightarrow> generation_le cs (commit_step cs batch)"
proof -
  assume inv: "committed_inv cs"
  obtain tx xs where b: "batch = (tx, xs)" by force
  have wf: "committed_wf cs" using inv by (simp add: committed_inv_def)
  note sp = commit_step_spec [OF wf, of tx xs]
  have "\<exists>d. spec_commit xs (committed_of cs) s = Some d \<and> cs_committed_generation c \<le> cs_committed_generation d"
    if app: "spec_applicable tx (committed_of cs) xs" and c: "committed_of cs s = Some c" for s c
  proof (cases "s \<in> st_surface ` set xs")
    case True
    then obtain y where y: "y \<in> set xs" "st_surface y = s"
      "spec_commit xs (committed_of cs) s = Some (next_state y)"
      by (metis spec_commit_at)
    then have "st_previous_committed_generation y = cs_committed_generation c"
      using app c by (auto simp: spec_applicable_def spec_ready_def)
    then show ?thesis using y sat_add_ge [of "cs_committed_generation c" 1] by simp
  next
    case False
    then show ?thesis using c by (simp add: spec_commit_other)
  qed
  then show ?thesis
    using sp b by (auto simp: generation_le_def split: if_splits)
qed

interpretation commits: history_machine commit_step committed_inv generation_le
proof unfold_locales
  fix a b c
  show "generation_le a a" by (simp add: generation_le_def)
  show "generation_le a b \<Longrightarrow> generation_le b c \<Longrightarrow> generation_le a c"
    by (fastforce simp: generation_le_def intro: order_trans)
qed (simp_all add: commit_step_inv commit_step_generation)

section \<open>Projection lemmas\<close>

lemma templates_lookup:
  "bt_get (bt_from_list (map (\<lambda>l. (ls_surface l, l)) templates)) s = Some t
     \<Longrightarrow> t \<in> set templates \<and> ls_surface t = s"
  "bt_get (bt_from_list (map (\<lambda>l. (ls_surface l, l)) templates)) s = None
     \<longleftrightarrow> s \<notin> ls_surface ` set templates"
  by (auto simp: bt_get_from_list map_of_eq_None_iff image_iff dest!: map_of_SomeD)

definition projects_to :: "LayerSnapshot list \<Rightarrow> CommittedSurfaceState \<Rightarrow> LayerSnapshot \<Rightarrow> bool" where
  "projects_to templates c l \<longleftrightarrow> committed_from_layer_snapshot l = c
     \<and> (\<exists>t \<in> set templates. ls_surface l = ls_surface t \<and> ls_opacity l = ls_opacity t
          \<and> ls_crop l = ls_crop t \<and> ls_transform l = ls_transform t)"

lemma project_one:
  assumes "m = bt_from_list (map (\<lambda>l. (ls_surface l, l)) templates)"
  shows "case (case bt_get m (cs_surface c) of None \<Rightarrow> Inl InvalidSurface
               | Some template \<Rightarrow> project_committed_surface_state c template) of
      Inl e \<Rightarrow> e = InvalidSurface
        \<and> \<not> (surface_is_valid (cs_surface c) \<and> cs_surface c \<in> ls_surface ` set templates)
    | Inr l \<Rightarrow> projects_to templates c l
        \<and> surface_is_valid (cs_surface c) \<and> cs_surface c \<in> ls_surface ` set templates"
proof (cases "bt_get m (cs_surface c)")
  case None
  then show ?thesis using templates_lookup(2) [of templates "cs_surface c"] assms by simp
next
  case (Some t)
  then have t: "t \<in> set templates" "ls_surface t = cs_surface c"
    using templates_lookup(1) [of templates "cs_surface c" t] assms by simp_all
  then have "cs_surface c \<in> ls_surface ` set templates" by (metis image_eqI)
  with Some t show ?thesis
    by (cases c) (auto simp: project_committed_surface_state_def projects_to_def
          committed_from_layer_snapshot_def)
qed

lemma project_all:
  "case project_committed_surface_states committed templates of
      Inl e \<Rightarrow> e = InvalidSurface
        \<and> \<not> (\<forall>c \<in> set committed. surface_is_valid (cs_surface c) \<and> cs_surface c \<in> ls_surface ` set templates)
    | Inr layers \<Rightarrow> list_all2 (projects_to templates) committed layers
        \<and> (\<forall>c \<in> set committed. surface_is_valid (cs_surface c) \<and> cs_surface c \<in> ls_surface ` set templates)"
  unfolding project_committed_surface_states_def Let_def
  by (rule map_res_cases) (rule project_one [OF refl])

section \<open>Properties\<close>

text \<open>
  Property C5. Committing a batch of authority transactions is atomic and refines the abstract
  commit: it never panics; if every transaction of the batch carries the batch id and is ready
  (valid surface, non-empty geometry, pixels for a first commit, the generation it was built on
  still current), the committed map is overridden at exactly the batch's surfaces; otherwise the
  committed state is untouched and no surface is reported as applied.
\<close>

theorem commit_atomic:
  assumes "committed_wf committed"
  shows "\<exists>c committed'. commit_surface_transactions tx xs committed = Some (c, committed')
    \<and> committed_wf committed' \<and> tc_transaction c = tx
    \<and> (if spec_applicable tx (committed_of committed) xs
       then tc_outcome c = Committed \<and> tc_applied_surfaces c = map st_surface xs
            \<and> committed_of committed' = spec_commit xs (committed_of committed)
       else tc_outcome c \<noteq> Committed \<and> tc_applied_surfaces c = [] \<and> committed' = committed)"
  using apply_prepared_spec [OF assms assms, of tx xs]
  by (simp add: commit_surface_transactions_def)

definition example_geometry :: Rect where
  "example_geometry = \<lparr>rc_x = 0, rc_y = 0, rc_width = 64, rc_height = 48\<rparr>"

definition example_transaction :: SurfaceTransaction where
  "example_transaction =
     \<lparr>st_transaction = 7, st_authority = SophiaX, st_surface = SurfaceId 2 1, st_namespace = None,
      st_target_geometry = example_geometry, st_target_buffer = BufCpuBuffer 11,
      st_damage = region_empty, st_readiness = TrReady, st_timeout_msec = 16,
      st_previous_committed_generation = 0\<rparr>"

lemma example_applicable: "spec_applicable 7 (committed_of []) [example_transaction]"
  by (simp add: spec_applicable_def spec_ready_def example_transaction_def surface_is_valid_def
        rect_is_empty_def example_geometry_def committed_of_def word_max_def)

theorem commit_atomic_witness:
  "\<exists>c committed'. commit_surface_transactions 7 [example_transaction] [] = Some (c, committed')
    \<and> tc_outcome c = Committed \<and> tc_applied_surfaces c = [SurfaceId 2 1]
    \<and> committed_of committed' (SurfaceId 2 1) = Some (next_state example_transaction)"
proof -
  have "committed_wf []" by (simp add: committed_wf_def)
  then show ?thesis
    using commit_atomic [of "[]" 7 "[example_transaction]"] example_applicable
    by (auto simp: spec_commit_def example_transaction_def)
qed

text \<open>
  Property C6. A prepared commit may be retained across an asynchronous page flip and applied to
  whatever the committed state has become: it is applied exactly when every surface it touches
  still has its baseline state, and then commits that happened meanwhile to other surfaces are
  retained; otherwise it is discarded as stale and the newer state stays as it is.
\<close>

theorem prepared_commit_never_overwrites:
  assumes "committed_wf baseline" "committed_wf current"
    and "spec_applicable tx (committed_of baseline) xs"
  shows "\<exists>c current'. apply_prepared_surface_commit
             (prepare_surface_transactions tx xs baseline) current = Some (c, current')
    \<and> (if \<forall>x \<in> set xs. committed_of baseline (st_surface x) = committed_of current (st_surface x)
       then tc_outcome c = Committed
            \<and> (\<forall>s. committed_of current' s =
                 (if s \<in> st_surface ` set xs then spec_commit xs (committed_of baseline) s
                  else committed_of current s))
       else tc_outcome c \<noteq> Committed \<and> current' = current)"
proof -
  obtain c cs' where r: "apply_prepared_surface_commit
      (prepare_surface_transactions tx xs baseline) current = Some (c, cs')"
    and c: "if \<forall>x \<in> set xs. committed_of baseline (st_surface x) = committed_of current (st_surface x)
       then tc_outcome c = Committed \<and> committed_of cs' = spec_commit xs (committed_of current)
       else tc_outcome c \<noteq> Committed \<and> cs' = current"
    using apply_prepared_spec [OF assms(1,2), of tx xs] assms(3) by auto
  have "spec_commit xs (committed_of current) s = (if s \<in> st_surface ` set xs
      then spec_commit xs (committed_of baseline) s else committed_of current s)" for s
    using spec_commit_other [of s xs] spec_commit_touched [of s xs] by metis
  then show ?thesis using r c by (auto split: if_splits)
qed

definition example_other :: CommittedSurfaceState where
  "example_other =
     \<lparr>cs_surface = SurfaceId 5 1, cs_committed_generation = 4, cs_geometry = example_geometry,
      cs_buffer = BufCpuBuffer 3, cs_damage = region_empty\<rparr>"

theorem prepared_commit_never_overwrites_witness:
  "\<exists>c current'. apply_prepared_surface_commit
       (prepare_surface_transactions 7 [example_transaction] []) [example_other] = Some (c, current')
     \<and> tc_outcome c = Committed \<and> committed_of current' (SurfaceId 5 1) = Some example_other
     \<and> committed_of current' (SurfaceId 2 1) = Some (next_state example_transaction)"
proof -
  have wf: "committed_wf []" "committed_wf [example_other]"
    by (simp_all add: committed_wf_def)
  have "st_surface example_transaction = SurfaceId 2 1" "cs_surface example_other = SurfaceId 5 1"
    by (simp_all add: example_transaction_def example_other_def)
  then show ?thesis
    using prepared_commit_never_overwrites [OF wf example_applicable]
    by (auto simp: committed_of_def spec_commit_def)
qed

text \<open>
  Property C7. Over a whole session of commits, whatever batches arrive and whether they are
  accepted or rejected: there is never more than one state per surface, only valid surfaces with
  non-empty geometry are committed, no committed surface is forgotten and no committed generation
  ever goes back.
\<close>

theorem commits_keep_invariant:
  assumes "committed_inv committed"
  shows "committed_inv (foldl commit_step committed batches)
    \<and> generation_le committed (foldl commit_step committed batches)"
  using commits.run_inv [OF assms] commits.run_rel [OF assms] by blast

theorem commits_keep_invariant_witness:
  "committed_inv (foldl commit_step [example_other] [(7, [example_transaction])])
   \<and> generation_le [example_other] (foldl commit_step [example_other] [(7, [example_transaction])])"
proof -
  have "committed_inv [example_other]"
    by (simp add: committed_inv_def committed_wf_def example_other_def surface_is_valid_def
        word_max_def rect_is_empty_def example_geometry_def)
  then show ?thesis by (rule commits_keep_invariant)
qed

text \<open>
  Projecting committed states onto layer templates loses nothing and invents nothing:
  when it succeeds there is one layer per committed state, reading a committed state back from each
  layer gives the original, and each layer keeps its template's opacity, crop and transform; it
  fails exactly when some committed surface is invalid or has no template.
\<close>

theorem projection_roundtrip:
  "(case project_committed_surface_states committed templates of
      Inr layers \<Rightarrow>
        map committed_from_layer_snapshot layers = committed
        \<and> (\<forall>l \<in> set layers. \<exists>t \<in> set templates. ls_surface l = ls_surface t
             \<and> ls_opacity l = ls_opacity t \<and> ls_crop l = ls_crop t \<and> ls_transform l = ls_transform t)
    | Inl e \<Rightarrow> e = InvalidSurface)
   \<and> ((\<exists>layers. project_committed_surface_states committed templates = Inr layers) \<longleftrightarrow>
      (\<forall>c \<in> set committed. surface_is_valid (cs_surface c) \<and> cs_surface c \<in> ls_surface ` set templates))"
proof -
  have "map committed_from_layer_snapshot layers = committed
        \<and> (\<forall>l \<in> set layers. \<exists>t \<in> set templates. ls_surface l = ls_surface t
             \<and> ls_opacity l = ls_opacity t \<and> ls_crop l = ls_crop t \<and> ls_transform l = ls_transform t)"
    if "list_all2 (projects_to templates) committed layers" for layers
    using that by (induction rule: list_all2_induct) (auto simp: projects_to_def)
  then show ?thesis
    using project_all [of committed templates] by (auto split: sum.splits)
qed

definition example_template :: LayerSnapshot where
  "example_template =
     \<lparr>ls_surface = SurfaceId 5 1, ls_authority_local_id = None, ls_namespace = None,
      ls_stack_rank = 0, ls_geometry = example_geometry, ls_source = BufNone,
      ls_damage = region_empty, ls_opacity = 0x3F800000, ls_crop = None,
      ls_transform = transform_IDENTITY, ls_generation = 0, ls_resize_sync = ImplicitOnly\<rparr>"

theorem projection_roundtrip_witness:
  "\<exists>layers. project_committed_surface_states [example_other] [example_template] = Inr layers
     \<and> map committed_from_layer_snapshot layers = [example_other]"
proof -
  have "surface_is_valid (cs_surface example_other)"
    "cs_surface example_other \<in> ls_surface ` set [example_template]"
    by (simp_all add: example_other_def example_template_def surface_is_valid_def word_max_def)
  then obtain layers where
    "project_committed_surface_states [example_other] [example_template] = Inr layers"
    using projection_roundtrip [of "[example_other]" "[example_template]"] by auto
  then show ?thesis
    using projection_roundtrip [of "[example_other]" "[example_template]"] by simp
qed

end
