(* ===== verification/Output_Topology.thy ===== *)
theory Output_Topology
  imports Engine_Core
begin

text \<open>
  Outputs of the engine: the bounded registry of KMS outputs (\<^verbatim>\<open>drm.rs\<close>), the logical desktop laid out
  from it and the projection of desktop rectangles onto one output (\<^verbatim>\<open>output.rs\<close>), and the variable
  refresh decision. Reading connectors from sysfs is file I/O and is not modelled.
\<close>

section \<open>KMS output registry (drm.rs)\<close>

definition MAX_DRM_KMS_OUTPUTS :: nat where "MAX_DRM_KMS_OUTPUTS = 16"

record DrmKmsMode =
  dm_size :: Size
  dm_refresh_millihz :: u32

record DrmKmsOutputDescriptor =
  dd_output :: OutputId
  dd_connector_id :: u32
  dd_crtc_id :: u32
  dd_mode :: DrmKmsMode
  dd_scale :: u32

definition as_engine_output :: "DrmKmsOutputDescriptor \<Rightarrow> HeadlessOutput" where
  "as_engine_output d =
     \<lparr>ho_id = dd_output d, ho_size = dm_size (dd_mode d), ho_scale = dd_scale d\<rparr>"

record DrmKmsOutputRegistry =
  dr_outputs :: "(OutputId, DrmKmsOutputDescriptor) btree"

datatype DrmKmsOutputRegistryUpdate = Inserted | Replaced | RegistryCapacityExceeded

definition drm_registry_new :: DrmKmsOutputRegistry where
  "drm_registry_new = \<lparr>dr_outputs = []\<rparr>"

definition drm_upsert ::
  "DrmKmsOutputDescriptor \<Rightarrow> DrmKmsOutputRegistry
   \<Rightarrow> DrmKmsOutputRegistryUpdate \<times> DrmKmsOutputRegistry" where
  "drm_upsert d r =
     (if bt_contains (dr_outputs r) (dd_output d)
        then (Replaced, r\<lparr>dr_outputs := bt_insert (dd_output d) d (dr_outputs r)\<rparr>)
      else if MAX_DRM_KMS_OUTPUTS \<le> length (dr_outputs r) then (RegistryCapacityExceeded, r)
      else (Inserted, r\<lparr>dr_outputs := bt_insert (dd_output d) d (dr_outputs r)\<rparr>))"

definition drm_remove ::
  "OutputId \<Rightarrow> DrmKmsOutputRegistry \<Rightarrow> DrmKmsOutputDescriptor option \<times> DrmKmsOutputRegistry" where
  "drm_remove p r = (bt_get (dr_outputs r) p, r\<lparr>dr_outputs := bt_remove p (dr_outputs r)\<rparr>)"

definition drm_get :: "DrmKmsOutputRegistry \<Rightarrow> OutputId \<Rightarrow> DrmKmsOutputDescriptor option" where
  "drm_get r p = bt_get (dr_outputs r) p"

definition drm_outputs :: "DrmKmsOutputRegistry \<Rightarrow> DrmKmsOutputDescriptor list" where
  "drm_outputs r = bt_values (dr_outputs r)"

definition primary_engine_output :: "DrmKmsOutputRegistry \<Rightarrow> HeadlessOutput option" where
  "primary_engine_output r =
     (case bt_values (dr_outputs r) of [] \<Rightarrow> None | d # ds \<Rightarrow> Some (as_engine_output d))"

section \<open>Logical geometry (output.rs)\<close>

record OutputLogicalGeometry =
  og_output :: OutputId
  og_logical :: Rect
  og_pixel_size :: Size
  og_scale :: u32

definition project_rect :: "OutputLogicalGeometry \<Rightarrow> Rect \<Rightarrow> Rect option" where
  "project_rect g r =
     (let l = og_logical g;
          left = i32_max (rc_x r) (rc_x l);
          top = i32_max (rc_y r) (rc_y l);
          right = i32_min (i32_sat_add (rc_x r) (rc_width r)) (i32_sat_add (rc_x l) (rc_width l));
          bottom = i32_min (i32_sat_add (rc_y r) (rc_height r)) (i32_sat_add (rc_y l) (rc_height l));
          width = i32_sat_sub right left;
          height = i32_sat_sub bottom top in
      if 0 < sint width \<and> 0 < sint height
      then Some \<lparr>rc_x = i32_sat_sub left (rc_x l), rc_y = i32_sat_sub top (rc_y l),
                 rc_width = width, rc_height = height\<rparr>
      else None)"

definition project_damage :: "OutputLogicalGeometry \<Rightarrow> Region \<Rightarrow> Region" where
  "project_damage g damage = \<lparr>rg_rects = List.map_filter (project_rect g) (rg_rects damage)\<rparr>"

text \<open>\<open>i32::try_from(scale).unwrap_or(i32::MAX)\<close> and \<open>saturating_div\<close> (truncating).\<close>

definition i32_from_u32_or_max :: "u32 \<Rightarrow> i32" where
  "i32_from_u32_or_max s = (if unat s \<le> 2147483647 then s else 0x7FFFFFFF)"

definition u32_max :: "u32 \<Rightarrow> u32 \<Rightarrow> u32" where
  "u32_max a b = (if a \<le> b then b else a)"

definition i32_sat_div :: "i32 \<Rightarrow> i32 \<Rightarrow> i32" where
  "i32_sat_div a b =
     word_of_int (i32_clamp (sgn (sint a) * sgn (sint b) * (\<bar>sint a\<bar> div \<bar>sint b\<bar>)))"

definition project_rect_pixels :: "OutputLogicalGeometry \<Rightarrow> Rect \<Rightarrow> Rect option" where
  "project_rect_pixels g r =
     map_option (\<lambda>q.
       let scale = i32_from_u32_or_max (u32_max (og_scale g) 1) in
       \<lparr>rc_x = i32_sat_mul (rc_x q) scale, rc_y = i32_sat_mul (rc_y q) scale,
        rc_width = i32_min (i32_sat_mul (rc_width q) scale) (sz_width (og_pixel_size g)),
        rc_height = i32_min (i32_sat_mul (rc_height q) scale) (sz_height (og_pixel_size g))\<rparr>)
       (project_rect g r)"

definition project_damage_pixels :: "OutputLogicalGeometry \<Rightarrow> Region \<Rightarrow> Region" where
  "project_damage_pixels g damage =
     \<lparr>rg_rects = List.map_filter (project_rect_pixels g) (rg_rects damage)\<rparr>"

record ExtendedDesktopTopology =
  ed_outputs :: "(OutputId, OutputLogicalGeometry) btree"
  ed_logical_size :: Size

definition logical_size_of :: "DrmKmsOutputDescriptor \<Rightarrow> Size" where
  "logical_size_of d =
     (let scale = i32_from_u32_or_max (u32_max (dd_scale d) 1) in
      \<lparr>sz_width = i32_max (i32_sat_div (sz_width (dm_size (dd_mode d))) scale) 1,
       sz_height = i32_max (i32_sat_div (sz_height (dm_size (dd_mode d))) scale) 1\<rparr>)"

text \<open>One iteration of the loop of \<open>from_drm_outputs\<close>: the next x, the height so far, the outputs.\<close>

definition place_output ::
  "DrmKmsOutputDescriptor \<Rightarrow> i32 \<times> i32 \<times> (OutputId, OutputLogicalGeometry) btree
   \<Rightarrow> i32 \<times> i32 \<times> (OutputId, OutputLogicalGeometry) btree" where
  "place_output d = (\<lambda>(x, h, gs).
     let size = logical_size_of d in
     (i32_sat_add x (sz_width size), i32_max h (sz_height size),
      bt_insert (dd_output d)
        \<lparr>og_output = dd_output d,
         og_logical = \<lparr>rc_x = x, rc_y = 0, rc_width = sz_width size, rc_height = sz_height size\<rparr>,
         og_pixel_size = dm_size (dd_mode d), og_scale = u32_max (dd_scale d) 1\<rparr> gs))"

definition from_drm_outputs :: "DrmKmsOutputRegistry \<Rightarrow> ExtendedDesktopTopology" where
  "from_drm_outputs r =
     (let (x, h, gs) = fold place_output (drm_outputs r) (0, 0, []) in
      \<lparr>ed_outputs = gs, ed_logical_size = \<lparr>sz_width = x, sz_height = h\<rparr>\<rparr>)"

definition desktop_get :: "ExtendedDesktopTopology \<Rightarrow> OutputId \<Rightarrow> OutputLogicalGeometry option" where
  "desktop_get t p = bt_get (ed_outputs t) p"

section \<open>Variable refresh (output.rs)\<close>

record OutputVrrCapability =
  vc_capable :: bool

record OutputVrrEligibility =
  ve_opaque_fullscreen_surface_count :: u8
  ve_unoccluded :: bool
  ve_overlays_present :: bool
  ve_composition_required :: bool

definition fullscreen_eligible :: "OutputVrrEligibility \<Rightarrow> bool" where
  "fullscreen_eligible e =
     (ve_opaque_fullscreen_surface_count e = 1 \<and> ve_unoccluded e
      \<and> \<not> ve_overlays_present e \<and> \<not> ve_composition_required e)"

datatype OutputVrrDecision = VrrEnabled | VrrDisabledByPolicy | VrrUnsupported | VrrIneligible

definition decide_output_vrr ::
  "bool \<Rightarrow> OutputVrrCapability \<Rightarrow> OutputVrrEligibility \<Rightarrow> OutputVrrDecision" where
  "decide_output_vrr policy_enabled capability eligibility =
     (if \<not> policy_enabled then VrrDisabledByPolicy
      else if \<not> vc_capable capability then VrrUnsupported
      else if \<not> fullscreen_eligible eligibility then VrrIneligible
      else VrrEnabled)"

section \<open>Rectangles as sets of points\<close>

definition in_rect :: "int \<Rightarrow> int \<Rightarrow> Rect \<Rightarrow> bool" where
  "in_rect x y r \<longleftrightarrow>
     sint (rc_x r) \<le> x \<and> x < sint (rc_x r) + sint (rc_width r)
     \<and> sint (rc_y r) \<le> y \<and> y < sint (rc_y r) + sint (rc_height r)"

text \<open>A rectangle whose corner lies in the non-negative quadrant; its far edges may overflow 32 bits.\<close>

definition on_desktop :: "Rect \<Rightarrow> bool" where
  "on_desktop r \<longleftrightarrow> 0 \<le> sint (rc_x r) \<and> 0 \<le> sint (rc_y r)"

text \<open>One axis of the projection, over the integers: saturated far edges cut at the last coordinate.\<close>

lemma project_axis:
  fixes rx rw lx lw :: int
  assumes "i32_in_range rx" "i32_in_range lx" "0 \<le> lx"
  defines "left \<equiv> max rx lx"
  defines "right \<equiv> min (i32_clamp (rx + rw)) (i32_clamp (lx + lw))"
  shows "(rx \<le> x \<and> x < rx + rw) \<and> (lx \<le> x \<and> x < lx + lw) \<and> x < 2147483647 \<longleftrightarrow>
         i32_clamp (left - lx) \<le> x - lx
         \<and> x - lx < i32_clamp (left - lx) + i32_clamp (right - left)"
proof -
  have l: "lx \<le> left" "rx \<le> left" "left = rx \<or> left = lx" "0 \<le> left"
    using assms by (auto simp: left_def max_def)
  have r: "x < right \<longleftrightarrow> x < rx + rw \<and> x < lx + lw \<and> x < 2147483647" if "left \<le> x"
    using that l by (auto simp: right_def i32_clamp_def)
  have m: "right \<le> 2147483647" "left \<le> 2147483647"
    using assms by (auto simp: right_def left_def i32_clamp_def i32_in_range_def)
  have a: "i32_clamp (left - lx) = left - lx"
    using m l assms(3) by (intro i32_clamp_id) (auto simp: i32_in_range_def)
  have d: "x < left + i32_clamp (right - left) \<longleftrightarrow> x < right" if "left \<le> x"
    using that m l by (auto simp: i32_clamp_def)
  show ?thesis
    using a d r l by (auto simp: left_def)
qed

lemma in_range_sint [simp]: "i32_in_range (sint (a :: i32))"
  using sint_i32_bounds [of a] by (simp add: i32_in_range_def)

section \<open>Registry lemmas\<close>

definition drm_wf :: "DrmKmsOutputRegistry \<Rightarrow> bool" where
  "drm_wf r \<longleftrightarrow> bt_wf (dr_outputs r) \<and> length (dr_outputs r) \<le> MAX_DRM_KMS_OUTPUTS
     \<and> (\<forall>p d. bt_get (dr_outputs r) p = Some d \<longrightarrow> dd_output d = p)"

datatype drm_event = DrmUpsert DrmKmsOutputDescriptor | DrmRemove OutputId

fun drm_step :: "DrmKmsOutputRegistry \<Rightarrow> drm_event \<Rightarrow> DrmKmsOutputRegistry" where
  "drm_step r (DrmUpsert d) = snd (drm_upsert d r)"
| "drm_step r (DrmRemove p) = snd (drm_remove p r)"

lemma drm_upsert_wf: "drm_wf r \<Longrightarrow> drm_wf (snd (drm_upsert d r))"
proof -
  assume wf: "drm_wf r"
  have "length (bt_insert (dd_output d) d (dr_outputs r)) \<le> MAX_DRM_KMS_OUTPUTS"
    if "bt_contains (dr_outputs r) (dd_output d) \<or> length (dr_outputs r) < MAX_DRM_KMS_OUTPUTS"
    using that wf bt_length_insert [of "dr_outputs r" "dd_output d" d]
    by (auto simp: drm_wf_def split: if_splits)
  then show ?thesis
    using wf by (auto simp: drm_wf_def drm_upsert_def bt_get_insert)
qed

lemma drm_remove_wf: "drm_wf r \<Longrightarrow> drm_wf (snd (drm_remove p r))"
  using bt_length_remove [of p "dr_outputs r"]
  by (auto simp: drm_wf_def drm_remove_def bt_get_remove intro: order_trans)

interpretation drm: invariant_machine drm_step drm_wf
proof unfold_locales
  fix s e
  show "drm_wf s \<Longrightarrow> drm_wf (drm_step s e)"
    by (cases e) (simp_all add: drm_upsert_wf drm_remove_wf)
qed

section \<open>Desktop layout lemmas\<close>

text \<open>
  What the placing loop maintains, over the integers: the outputs placed so far tile the columns
  from 0 to the next x, side by side along the top edge.
\<close>

definition placed :: "int \<Rightarrow> int \<Rightarrow> OutputId \<Rightarrow> OutputLogicalGeometry \<Rightarrow> bool" where
  "placed w h p g \<longleftrightarrow> og_output g = p \<and> rc_y (og_logical g) = 0
     \<and> 0 \<le> sint (rc_x (og_logical g)) \<and> 0 < sint (rc_width (og_logical g))
     \<and> sint (rc_x (og_logical g)) + sint (rc_width (og_logical g)) \<le> w
     \<and> 0 < sint (rc_height (og_logical g)) \<and> sint (rc_height (og_logical g)) \<le> h"

definition in_column :: "int \<Rightarrow> OutputLogicalGeometry \<Rightarrow> bool" where
  "in_column c g \<longleftrightarrow> sint (rc_x (og_logical g)) \<le> c
     \<and> c < sint (rc_x (og_logical g)) + sint (rc_width (og_logical g))"

definition tiled :: "int \<Rightarrow> int \<Rightarrow> (OutputId \<rightharpoonup> OutputLogicalGeometry) \<Rightarrow> bool" where
  "tiled w h m \<longleftrightarrow> (\<forall>p g. m p = Some g \<longrightarrow> placed w h p g)
     \<and> (\<forall>c. 0 \<le> c \<and> c < w \<longrightarrow> (\<exists>!p. \<exists>g. m p = Some g \<and> in_column c g))"

lemma placed_mono: "placed w h p g \<Longrightarrow> w \<le> w' \<Longrightarrow> h \<le> h' \<Longrightarrow> placed w' h' p g"
  by (simp add: placed_def)

lemma placed_column: "placed w h p g \<Longrightarrow> in_column c g \<Longrightarrow> 0 \<le> c \<and> c < w"
  by (auto simp: placed_def in_column_def)

lemma logical_size_pos:
  "1 \<le> sint (sz_width (logical_size_of d))" "1 \<le> sint (sz_height (logical_size_of d))"
  by (simp_all add: logical_size_of_def Let_def sint_i32_minmax)

lemma tiled_insert:
  assumes t: "tiled w h m" and new: "m p = None" and g: "placed w' h' p g"
    and col: "\<And>c. in_column c g \<longleftrightarrow> w \<le> c \<and> c < w'" and mono: "w \<le> w'" "h \<le> h'"
  shows "tiled w' h' (m(p \<mapsto> g))"
  unfolding tiled_def
proof (intro conjI allI impI)
  fix q k
  assume "(m(p \<mapsto> g)) q = Some k"
  then show "placed w' h' q k"
    using t g mono by (auto simp: tiled_def intro: placed_mono split: if_splits)
next
  fix c :: int
  assume c: "0 \<le> c \<and> c < w'"
  have old: "0 \<le> c \<and> c < w" if "m q = Some k" "in_column c k" for q k
    using t that placed_column [of w h q k c] unfolding tiled_def by blast
  show "\<exists>!q. \<exists>k. (m(p \<mapsto> g)) q = Some k \<and> in_column c k"
  proof (cases "c < w")
    case True
    then obtain q k where q: "m q = Some k" "in_column c k"
      and u: "\<forall>q' k'. m q' = Some k' \<and> in_column c k' \<longrightarrow> q' = q"
      using t c unfolding tiled_def by blast
    show ?thesis
      using q u new col True by (intro ex1I [of _ q] exI [of _ k]) (auto split: if_splits)
  next
    case False
    then show ?thesis
      using old col c by (intro ex1I [of _ p] exI [of _ g]) (auto split: if_splits)
  qed
qed

lemma fold_place_output:
  assumes "tiled (sint x) (sint h) (bt_get gs)" "0 \<le> sint x" "0 \<le> sint h"
    and "distinct (map dd_output ds)" "\<forall>d \<in> set ds. bt_get gs (dd_output d) = None"
    and "sint x + (\<Sum>d\<leftarrow>ds. sint (sz_width (logical_size_of d))) \<le> 2147483647"
  shows "case fold place_output ds (x, h, gs) of (x', h', gs') \<Rightarrow>
     tiled (sint x') (sint h') (bt_get gs') \<and> 0 \<le> sint x'
     \<and> dom (bt_get gs') = dom (bt_get gs) \<union> dd_output ` set ds"
  using assms
proof (induction ds arbitrary: x h gs)
  case (Cons d ds)
  let ?s = "logical_size_of d"
  let ?x = "i32_sat_add x (sz_width ?s)" and ?h = "i32_max h (sz_height ?s)"
  let ?g = "\<lparr>og_output = dd_output d, og_logical = \<lparr>rc_x = x, rc_y = 0, rc_width = sz_width ?s,
      rc_height = sz_height ?s\<rparr>, og_pixel_size = dm_size (dd_mode d), og_scale = u32_max (dd_scale d) 1\<rparr>"
  have rest: "0 \<le> (\<Sum>d\<leftarrow>ds. sint (sz_width (logical_size_of d)))"
    by (rule sum_list_nonneg) (use logical_size_pos in \<open>auto intro: order_trans [of 0 1]\<close>)
  have x: "sint ?x = sint x + sint (sz_width ?s)"
    using Cons.prems rest logical_size_pos [of d]
    by (simp add: sint_i32_sat i32_clamp_def)
  have h: "sint ?h = max (sint h) (sint (sz_height ?s))"
    by (simp add: sint_i32_minmax)
  have "tiled (sint ?x) (sint ?h) ((bt_get gs)(dd_output d \<mapsto> ?g))"
    using Cons.prems(2,3,5) logical_size_pos [of d] x h
    by (intro tiled_insert [OF Cons.prems(1)]) (auto simp: placed_def in_column_def)
  then have t: "tiled (sint ?x) (sint ?h) (bt_get (bt_insert (dd_output d) ?g gs))"
    by (simp only: bt_get_insert)
  have "case fold place_output ds (?x, ?h, bt_insert (dd_output d) ?g gs) of (x', h', gs') \<Rightarrow>
     tiled (sint x') (sint h') (bt_get gs') \<and> 0 \<le> sint x'
     \<and> dom (bt_get gs') = dom (bt_get (bt_insert (dd_output d) ?g gs)) \<union> dd_output ` set ds"
    by (rule Cons.IH [OF t])
       (use Cons.prems x h logical_size_pos [of d] in \<open>auto simp: bt_get_insert image_iff\<close>)
  moreover have "dom (bt_get (bt_insert (dd_output d) ?g gs)) = insert (dd_output d) (dom (bt_get gs))"
    by (simp only: bt_get_insert dom_fun_upd) simp
  moreover have "fold place_output (d # ds) (x, h, gs)
      = fold place_output ds (?x, ?h, bt_insert (dd_output d) ?g gs)"
    by (simp add: place_output_def Let_def)
  ultimately show ?case
    by (auto simp only: list.set image_insert split: prod.splits)
qed auto

lemma drm_outputs_distinct: "drm_wf r \<Longrightarrow> distinct (map dd_output (drm_outputs r))"
proof -
  assume wf: "drm_wf r"
  have "dd_output (snd e) = fst e" if "e \<in> set (dr_outputs r)" for e
    using wf that by (cases e) (auto simp: drm_wf_def bt_wf_entry)
  then have "map dd_output (drm_outputs r) = map fst (dr_outputs r)"
    by (simp add: drm_outputs_def bt_values_def)
  then show ?thesis
    using wf by (simp add: drm_wf_def bt_wf_distinct)
qed

lemma drm_outputs_dom: "drm_wf r \<Longrightarrow> dd_output ` set (drm_outputs r) = dom (drm_get r)"
  by (force simp: drm_wf_def drm_get_def drm_outputs_def bt_values_ran image_iff)

section \<open>Properties\<close>

text \<open>
  Property C8. Projecting a rectangle onto an output whose corner lies in the non-negative quadrant, as the corner of
  every output of the desktop does (\<open>outputs_on_desktop\<close>), is exact clipping below the last coordinate: a point is in
  both the rectangle and the output's logical area, and neither of its coordinates is 2147483647 or more, if and only if
  the projection exists and contains the point in the output's coordinates. This holds for rectangles and outputs whose
  far edges overflow 32 bits too; of such a rectangle on such an output the projection loses the
  points beyond, including the representable column and row 2147483647.
\<close>

theorem project_rect_exact:
  assumes "on_desktop (og_logical g)"
  shows "in_rect x y r \<and> in_rect x y (og_logical g) \<and> x < 2147483647 \<and> y < 2147483647 \<longleftrightarrow>
    (\<exists>q. project_rect g r = Some q
       \<and> in_rect (x - sint (rc_x (og_logical g))) (y - sint (rc_y (og_logical g))) q)"
proof -
  let ?l = "og_logical g"
  note ax = project_axis [of "sint (rc_x r)" "sint (rc_x ?l)" x "sint (rc_width r)" "sint (rc_width ?l)"]
  note ay = project_axis [of "sint (rc_y r)" "sint (rc_y ?l)" y "sint (rc_height r)" "sint (rc_height ?l)"]
  show ?thesis
    using assms ax ay
    by (auto simp: project_rect_def Let_def in_rect_def on_desktop_def sint_i32_sat sint_i32_minmax)
qed

definition example_output_geometry :: "i32 \<Rightarrow> OutputLogicalGeometry" where
  "example_output_geometry x =
     \<lparr>og_output = 1, og_logical = \<lparr>rc_x = x, rc_y = 0, rc_width = 1280, rc_height = 720\<rparr>,
      og_pixel_size = \<lparr>sz_width = 1280, sz_height = 720\<rparr>, og_scale = 1\<rparr>"

text \<open>
  The rectangle starts at 200 and its right edge overflows. On the first output it is cut at the output's edge; the second
  output starts at 2147483637, so its own right edge overflows, and of its columns the ten below 2147483647 are left.
\<close>

theorem project_rect_exact_witness:
  "(\<exists>q. project_rect (example_output_geometry 100) \<lparr>rc_x = 200, rc_y = 5, rc_width = 0x7FFFFFFF, rc_height = 10\<rparr> = Some q
     \<and> in_rect 100 5 q \<and> in_rect 1279 5 q \<and> \<not> in_rect 99 5 q \<and> \<not> in_rect 1280 5 q)
   \<and> (\<exists>q. project_rect (example_output_geometry 0x7FFFFFF5) \<lparr>rc_x = 200, rc_y = 5, rc_width = 0x7FFFFFFF, rc_height = 10\<rparr> = Some q
     \<and> in_rect 0 5 q \<and> in_rect 9 5 q \<and> \<not> in_rect 10 5 q)"
proof -
  let ?r = "\<lparr>rc_x = 200, rc_y = 5, rc_width = 0x7FFFFFFF, rc_height = 10\<rparr>"
  let ?g = "example_output_geometry 100" and ?h = "example_output_geometry 0x7FFFFFF5"
  have d: "on_desktop (og_logical ?g)" "on_desktop (og_logical ?h)"
    by (simp_all add: on_desktop_def example_output_geometry_def)
  note g = project_rect_exact [OF d(1), of _ _ ?r] and h = project_rect_exact [OF d(2), of _ _ ?r]
  show ?thesis
    using g [of 200 5] g [of 1379 5] g [of 199 5] g [of 1380 5] h [of 2147483637 5] h [of 2147483646 5] h [of 2147483647 5]
    by (auto simp: in_rect_def example_output_geometry_def)
qed

lemma place_output_on_desktop:
  assumes "0 \<le> sint x" "\<And>p g. bt_get gs p = Some g \<Longrightarrow> on_desktop (og_logical g)"
    and "fold place_output ds (x, h, gs) = (x', h', gs')" "bt_get gs' p = Some g"
  shows "on_desktop (og_logical g)"
  using assms
proof (induction ds arbitrary: x h gs)
  case (Cons d ds)
  have "0 \<le> sint (i32_sat_add x (sz_width (logical_size_of d)))"
    using Cons.prems(1) logical_size_pos(1) [of d] by (simp add: sint_i32_sat i32_clamp_def)
  then show ?case
    by (rule Cons.IH) (use Cons.prems in \<open>auto simp: place_output_def Let_def bt_get_insert on_desktop_def split: if_splits\<close>)
qed auto

lemma outputs_on_desktop: "desktop_get (from_drm_outputs r) p = Some g \<Longrightarrow> on_desktop (og_logical g)"
  using place_output_on_desktop [of 0 "[]" "drm_outputs r" 0 _ _ _ p g]
  by (auto simp: desktop_get_def from_drm_outputs_def split: prod.splits)

text \<open>
  The extended desktop is a tiling: it has exactly the registered outputs, each with a
  non-empty area inside the desktop bounds, and every column of the desktop belongs to exactly one
  output, so pointer positions and damage are never ambiguous or lost between outputs (provided the
  logical widths sum to an \<open>i32\<close>).
\<close>

theorem desktop_is_tiled:
  assumes "drm_wf r"
    and "(\<Sum>d\<leftarrow>drm_outputs r. sint (sz_width (logical_size_of d))) \<le> 2147483647"
  shows "dom (desktop_get (from_drm_outputs r)) = dom (drm_get r)
    \<and> tiled (sint (sz_width (ed_logical_size (from_drm_outputs r))))
        (sint (sz_height (ed_logical_size (from_drm_outputs r))))
        (desktop_get (from_drm_outputs r))"
proof -
  have "tiled (sint (0 :: i32)) (sint (0 :: i32)) (bt_get [])"
    by (auto simp: tiled_def)
  from fold_place_output [OF this, of "drm_outputs r"] assms drm_outputs_distinct [OF assms(1)]
  show ?thesis
    by (auto simp: from_drm_outputs_def desktop_get_def [abs_def] drm_outputs_dom split: prod.splits)
qed

definition example_registry :: DrmKmsOutputRegistry where
  "example_registry =
     snd (drm_upsert \<lparr>dd_output = 1, dd_connector_id = 10, dd_crtc_id = 20,
            dd_mode = \<lparr>dm_size = \<lparr>sz_width = 1280, sz_height = 720\<rparr>, dm_refresh_millihz = 60000\<rparr>,
            dd_scale = 1\<rparr> drm_registry_new)"

lemma example_registry_wf: "drm_wf example_registry"
  unfolding example_registry_def
  by (rule drm_upsert_wf) (simp add: drm_wf_def drm_registry_new_def)

theorem desktop_is_tiled_witness:
  "drm_wf example_registry
   \<and> dom (desktop_get (from_drm_outputs example_registry)) = dom (drm_get example_registry)"
proof -
  have "(\<Sum>d\<leftarrow>drm_outputs example_registry. sint (sz_width (logical_size_of d))) \<le> 2147483647"
    using sint_i32_bounds
    by (simp add: example_registry_def drm_upsert_def drm_registry_new_def bt_contains_def
        MAX_DRM_KMS_OUTPUTS_def drm_outputs_def bt_values_def)
  then show ?thesis
    using desktop_is_tiled [OF example_registry_wf] example_registry_wf by simp
qed

text \<open>
  The output registry stays well-formed and bounded under every sequence of hotplug
  events: at most 16 outputs, each filed under its own id, and an update is refused only when it
  would add a seventeenth output; an accepted update is what a later lookup returns and leaves every
  other output alone.
\<close>

theorem drm_registry_bounded:
  assumes "drm_wf r"
  shows "drm_wf (foldl drm_step r events)
    \<and> (case drm_upsert d r of
         (RegistryCapacityExceeded, r') \<Rightarrow>
           r' = r \<and> drm_get r (dd_output d) = None \<and> length (dr_outputs r) = MAX_DRM_KMS_OUTPUTS
       | (Inserted, r') \<Rightarrow>
           drm_get r (dd_output d) = None \<and> drm_get r' = (drm_get r)(dd_output d \<mapsto> d)
       | (Replaced, r') \<Rightarrow>
           drm_get r (dd_output d) \<noteq> None \<and> drm_get r' = (drm_get r)(dd_output d \<mapsto> d))"
  using drm.run_inv [OF assms] assms
  by (auto simp: drm_upsert_def drm_get_def [abs_def] bt_contains_def bt_get_insert drm_wf_def)

theorem drm_registry_bounded_witness:
  "drm_wf (foldl drm_step drm_registry_new [DrmRemove 3])"
proof -
  have "drm_wf drm_registry_new" by (simp add: drm_wf_def drm_registry_new_def)
  then show ?thesis using drm_registry_bounded [of drm_registry_new "[DrmRemove 3]"] by blast
qed

end
