(* ===== verification/Frame_Scheduling.thy ===== *)
theory Frame_Scheduling
  imports Visual_State Output_Topology
begin

text \<open>
  When frames happen: the deterministic frame clocks (\<^verbatim>\<open>frame/clock.rs\<close>), layout epochs that hold a
  frame back until resized clients have produced new pixels (\<^verbatim>\<open>frame/epoch.rs\<close>), and the gate that
  commits a staged batch on its output's page flip (\<^verbatim>\<open>frame/page_flip.rs\<close>).
\<close>

section \<open>Clocks (frame/clock.rs)\<close>

record FrameClockTick =
  ct_output :: OutputId
  ct_frame_serial :: u64
  ct_target_msec :: u64

record DeterministicFrameClock =
  dc_next_serial :: u64
  dc_frame_interval_msec :: u64

definition frame_clock_default :: DeterministicFrameClock where
  "frame_clock_default = \<lparr>dc_next_serial = 1, dc_frame_interval_msec = 16\<rparr>"

definition det_next_frame ::
  "OutputId \<Rightarrow> DeterministicFrameClock \<Rightarrow> FrameClockTick \<times> DeterministicFrameClock" where
  "det_next_frame output c =
     (\<lparr>ct_output = output, ct_frame_serial = dc_next_serial c,
       ct_target_msec = sat_mul (dc_next_serial c) (dc_frame_interval_msec c)\<rparr>,
      c\<lparr>dc_next_serial := sat_add (dc_next_serial c) 1\<rparr>)"

record PerOutputFrameClock =
  po_clocks :: "(OutputId, DeterministicFrameClock) btree"
  po_fallback :: DeterministicFrameClock

definition u64_max :: "u64 \<Rightarrow> u64 \<Rightarrow> u64" where
  "u64_max a b = (if a \<le> b then b else a)"

definition clocks_from_outputs ::
  "DrmKmsOutputRegistry \<Rightarrow> DeterministicFrameClock \<Rightarrow> PerOutputFrameClock" where
  "clocks_from_outputs outputs fallback =
     \<lparr>po_clocks = bt_from_list (map (\<lambda>d.
        (dd_output d,
         \<lparr>dc_next_serial = dc_next_serial fallback,
          dc_frame_interval_msec =
            (if dm_refresh_millihz (dd_mode d) = 0 then dc_frame_interval_msec fallback
             else u64_max (1000000 div ucast (dm_refresh_millihz (dd_mode d))) 1)\<rparr>))
        (drm_outputs outputs)),
      po_fallback = fallback\<rparr>"

definition per_output_next_frame ::
  "OutputId \<Rightarrow> PerOutputFrameClock \<Rightarrow> FrameClockTick \<times> PerOutputFrameClock" where
  "per_output_next_frame output c =
     (case bt_get (po_clocks c) output of
        Some k \<Rightarrow> (let (tick, k') = det_next_frame output k in
                    (tick, c\<lparr>po_clocks := bt_insert output k' (po_clocks c)\<rparr>))
      | None \<Rightarrow> (let (tick, k') = det_next_frame output (po_fallback c) in
                  (tick, c\<lparr>po_fallback := k'\<rparr>)))"

section \<open>Layout epochs (frame/epoch.rs)\<close>

record LayoutEpochState =
  le_epoch :: u64
  le_started_msec :: u64
  le_timeout_msec :: u32
  le_pending_surfaces :: "SurfaceId list"

definition epoch_with_timing ::
  "u64 \<Rightarrow> SurfaceId list \<Rightarrow> u64 \<Rightarrow> u32 \<Rightarrow> LayoutEpochState" where
  "epoch_with_timing epoch pending started timeout =
     \<lparr>le_epoch = epoch, le_started_msec = started, le_timeout_msec = timeout,
      le_pending_surfaces = bs_from_list (filter surface_is_valid pending)\<rparr>"

definition epoch_new :: "u64 \<Rightarrow> SurfaceId list \<Rightarrow> LayoutEpochState" where
  "epoch_new epoch pending = epoch_with_timing epoch pending 0 300"

definition observe_damage :: "DamageFrame \<Rightarrow> LayoutEpochState \<Rightarrow> LayoutEpochState" where
  "observe_damage damage e =
     e\<lparr>le_pending_surfaces := fold bs_remove (df_affected_surfaces damage) (le_pending_surfaces e)\<rparr>"

definition epoch_is_complete :: "LayoutEpochState \<Rightarrow> bool" where
  "epoch_is_complete e = (le_pending_surfaces e = [])"

definition readiness_for_surface :: "LayoutEpochState \<Rightarrow> SurfaceId \<Rightarrow> SurfaceTransactionReadiness" where
  "readiness_for_surface e s = (if s \<in> set (le_pending_surfaces e) then TrPending else TrReady)"

definition elapsed_msec :: "LayoutEpochState \<Rightarrow> u64 \<Rightarrow> u64" where
  "elapsed_msec e now_msec = sat_sub now_msec (le_started_msec e)"

definition is_timed_out :: "LayoutEpochState \<Rightarrow> u64 \<Rightarrow> bool" where
  "is_timed_out e now_msec =
     (\<not> epoch_is_complete e \<and> ucast (le_timeout_msec e) \<le> elapsed_msec e now_msec)"

record LayoutEpochTimeout =
  lo_epoch :: u64
  lo_elapsed_msec :: u64
  lo_timeout_msec :: u32
  lo_pending_surfaces :: "SurfaceId list"

definition expire_if_timed_out ::
  "u64 \<Rightarrow> LayoutEpochState \<Rightarrow> LayoutEpochTimeout option \<times> LayoutEpochState" where
  "expire_if_timed_out now_msec e =
     (if \<not> is_timed_out e now_msec then (None, e)
      else (Some \<lparr>lo_epoch = le_epoch e, lo_elapsed_msec = elapsed_msec e now_msec,
                  lo_timeout_msec = le_timeout_msec e,
                  lo_pending_surfaces = le_pending_surfaces e\<rparr>,
            e\<lparr>le_pending_surfaces := []\<rparr>))"

record ResizeBehaviorSample =
  rb_epoch :: u64
  rb_elapsed_msec :: u64
  rb_timeout_msec :: u32
  rb_completed :: bool
  rb_timed_out :: bool
  rb_pending_surfaces :: "SurfaceId list"

definition measure_resize_behavior :: "LayoutEpochState \<Rightarrow> u64 \<Rightarrow> ResizeBehaviorSample" where
  "measure_resize_behavior e now_msec =
     \<lparr>rb_epoch = le_epoch e, rb_elapsed_msec = elapsed_msec e now_msec,
      rb_timeout_msec = le_timeout_msec e, rb_completed = epoch_is_complete e,
      rb_timed_out = is_timed_out e now_msec, rb_pending_surfaces = le_pending_surfaces e\<rparr>"

definition explicit_sync_surfaces :: "LayerSnapshot list \<Rightarrow> SurfaceId list" where
  "explicit_sync_surfaces layers =
     bs_from_list (filter surface_is_valid
       (map ls_surface (filter (\<lambda>l. ls_resize_sync l = ExplicitSync) layers)))"

definition layout_epoch_for_explicit_sync ::
  "u64 \<Rightarrow> u64 \<Rightarrow> u32 \<Rightarrow> LayerSnapshot list \<Rightarrow> LayoutEpochState option" where
  "layout_epoch_for_explicit_sync epoch started timeout layers =
     (let surfaces = explicit_sync_surfaces layers in
      if surfaces = [] then None else Some (epoch_with_timing epoch surfaces started timeout))"

definition surface_transaction_readiness_for_epoch ::
  "SurfaceId \<Rightarrow> LayoutEpochState option \<Rightarrow> SurfaceTransactionReadiness" where
  "surface_transaction_readiness_for_epoch s layout_epoch =
     (case layout_epoch of None \<Rightarrow> TrReady | Some e \<Rightarrow> readiness_for_surface e s)"

datatype FrameScheduleDecision =
    WaitForDamage
  | WaitForLayoutEpoch u64 "SurfaceId list"
  | RenderFrame OutputId u64 DamageFrame "u64 option"

definition schedule_frame_from_damage ::
  "FrameClockTick \<Rightarrow> DamageFrame option \<Rightarrow> LayoutEpochState option
   \<Rightarrow> FrameScheduleDecision \<times> LayoutEpochState option" where
  "schedule_frame_from_damage tick damage layout_epoch =
     (case damage of
        None \<Rightarrow>
          (case layout_epoch of
             Some e \<Rightarrow>
               (if \<not> epoch_is_complete e
                then (WaitForLayoutEpoch (le_epoch e) (le_pending_surfaces e), layout_epoch)
                else (WaitForDamage, layout_epoch))
           | None \<Rightarrow> (WaitForDamage, layout_epoch))
      | Some d \<Rightarrow>
          (if df_output d \<noteq> ct_output tick then (WaitForDamage, layout_epoch)
           else case layout_epoch of
             Some e \<Rightarrow>
               (let e' = observe_damage d e in
                if epoch_is_complete e'
                then (RenderFrame (ct_output tick) (ct_frame_serial tick) d (Some (le_epoch e')), Some e')
                else (WaitForLayoutEpoch (le_epoch e') (le_pending_surfaces e'), Some e'))
           | None \<Rightarrow>
               (if region_is_empty (df_damage d) \<and> df_affected_surfaces d = []
                then (WaitForDamage, None)
                else (RenderFrame (ct_output tick) (ct_frame_serial tick) d None, None))))"

section \<open>The page-flip gate (frame/page\_flip.rs)\<close>

record PageFlipTransactionBatch =
  pb_output :: OutputId
  pb_transaction :: TransactionId
  pb_transactions :: "SurfaceTransaction list"

datatype PageFlipCommitOutcome =
    PfIdle
  | PfWaitingForOutput OutputId OutputId TransactionId
  | PfWaitingForTransactionReadiness TransactionId "SurfaceId list"
  | PfCommitted u64 TransactionCommit
  | PfRejected u64 TransactionCommit

record PageFlipCommitGate =
  gt_staged :: "PageFlipTransactionBatch option"

definition gate_new :: PageFlipCommitGate where
  "gate_new = \<lparr>gt_staged = None\<rparr>"

definition gate_stage ::
  "OutputId \<Rightarrow> TransactionId \<Rightarrow> SurfaceTransaction list \<Rightarrow> PageFlipCommitGate \<Rightarrow> PageFlipCommitGate" where
  "gate_stage output tx xs g =
     g\<lparr>gt_staged := Some \<lparr>pb_output = output, pb_transaction = tx, pb_transactions = xs\<rparr>\<rparr>"

definition gate_clear ::
  "PageFlipCommitGate \<Rightarrow> PageFlipTransactionBatch option \<times> PageFlipCommitGate" where
  "gate_clear g = (gt_staged g, g\<lparr>gt_staged := None\<rparr>)"

definition batch_pending_surfaces ::
  "SurfaceVisualStateTable \<Rightarrow> SurfaceTransaction list \<Rightarrow> SurfaceId list" where
  "batch_pending_surfaces t xs =
     map st_surface (filter (\<lambda>x. transaction_commit_readiness t x = CrNotReady TrPending) xs)"

text \<open>\<open>None\<close> is a panic inside the commit, which the properties below exclude.\<close>

definition commit_on_page_flip ::
  "FrameClockTick \<Rightarrow> PageFlipCommitGate \<Rightarrow> CommittedSurfaceState list
   \<Rightarrow> (PageFlipCommitOutcome \<times> PageFlipCommitGate \<times> CommittedSurfaceState list) option" where
  "commit_on_page_flip tick g committed =
     (case gt_staged g of
        None \<Rightarrow> Some (PfIdle, g, committed)
      | Some b \<Rightarrow>
          if pb_output b \<noteq> ct_output tick
          then Some (PfWaitingForOutput (pb_output b) (ct_output tick) (pb_transaction b), g, committed)
          else
            let pending = batch_pending_surfaces (from_committed_states committed) (pb_transactions b) in
            if pending \<noteq> []
            then Some (PfWaitingForTransactionReadiness (pb_transaction b) pending, g, committed)
            else map_option (\<lambda>(commit, committed').
                   (if tc_outcome commit = Committed then PfCommitted (ct_frame_serial tick) commit
                    else PfRejected (ct_frame_serial tick) commit,
                    g\<lparr>gt_staged := None\<rparr>, committed'))
                   (commit_surface_transactions (pb_transaction b) (pb_transactions b) committed))"

section \<open>Epoch lemmas\<close>

lemma fold_bs_remove: "fold bs_remove xs s = filter (\<lambda>x. x \<notin> set xs) s"
  by (induction xs arbitrary: s) (auto simp: bs_remove_def intro: filter_cong)

lemma observe_damage_eq:
  "observe_damage d e = e\<lparr>le_pending_surfaces := filter (\<lambda>s. s \<notin> set (df_affected_surfaces d)) (le_pending_surfaces e)\<rparr>"
  by (simp add: observe_damage_def fold_bs_remove)

text \<open>The epoch after a sequence of ticks with their damage.\<close>

fun run_epoch ::
  "LayoutEpochState option \<Rightarrow> (FrameClockTick \<times> DamageFrame option) list \<Rightarrow> LayoutEpochState option" where
  "run_epoch e [] = e"
| "run_epoch e ((tick, damage) # es) =
     run_epoch (snd (schedule_frame_from_damage tick damage e)) es"

definition seen_surfaces :: "(FrameClockTick \<times> DamageFrame option) list \<Rightarrow> SurfaceId set" where
  "seen_surfaces es =
     (\<Union>(tick, damage) \<in> set es. case damage of None \<Rightarrow> {}
        | Some d \<Rightarrow> if df_output d = ct_output tick then set (df_affected_surfaces d) else {})"

definition missing_surfaces :: "LayoutEpochState \<Rightarrow> (FrameClockTick \<times> DamageFrame option) list \<Rightarrow> SurfaceId list" where
  "missing_surfaces e es = filter (\<lambda>s. s \<notin> seen_surfaces es) (le_pending_surfaces e)"

text \<open>An epoch of which the surfaces \<open>seen\<close> have produced damage.\<close>

definition epoch_after :: "SurfaceId set \<Rightarrow> LayoutEpochState \<Rightarrow> LayoutEpochState" where
  "epoch_after seen e = e\<lparr>le_pending_surfaces := filter (\<lambda>s. s \<notin> seen) (le_pending_surfaces e)\<rparr>"

lemma epoch_after_simps [simp]:
  "epoch_after {} e = e" "epoch_after b (epoch_after a e) = epoch_after (a \<union> b) e"
  "le_epoch (epoch_after a e) = le_epoch e" "le_started_msec (epoch_after a e) = le_started_msec e"
  "le_timeout_msec (epoch_after a e) = le_timeout_msec e"
  "le_pending_surfaces (epoch_after a e) = filter (\<lambda>s. s \<notin> a) (le_pending_surfaces e)"
  "epoch_is_complete (epoch_after a e) \<longleftrightarrow> set (le_pending_surfaces e) \<subseteq> a"
  by (auto simp: epoch_after_def epoch_is_complete_def filter_empty_conv intro: filter_cong)

lemma observe_damage_after: "observe_damage d e = epoch_after (set (df_affected_surfaces d)) e"
  by (simp add: observe_damage_eq epoch_after_def)

lemma schedule_epoch:
  "snd (schedule_frame_from_damage tick damage (Some e)) = Some (epoch_after (seen_surfaces [(tick, damage)]) e)"
  by (simp add: schedule_frame_from_damage_def seen_surfaces_def observe_damage_after Let_def split: option.split)

lemma seen_surfaces_simps [simp]:
  "seen_surfaces [] = {}" "seen_surfaces (xs @ ys) = seen_surfaces xs \<union> seen_surfaces ys"
  by (simp_all add: seen_surfaces_def)

lemma run_epoch_eq: "run_epoch (Some e) es = Some (epoch_after (seen_surfaces es) e)"
proof (induction es arbitrary: e)
  case (Cons x es)
  obtain tick damage where x: "x = (tick, damage)" by force
  show ?case
    using Cons.IH [of "epoch_after (seen_surfaces [x]) e"] seen_surfaces_simps(2) [of "[x]" es]
    by (simp add: x schedule_epoch)
qed simp

lemma schedule_decision:
  "fst (schedule_frame_from_damage tick damage (Some e)) =
     (case damage of
        None \<Rightarrow> if le_pending_surfaces e = [] then WaitForDamage else WaitForLayoutEpoch (le_epoch e) (le_pending_surfaces e)
      | Some d \<Rightarrow>
          if df_output d \<noteq> ct_output tick then WaitForDamage
          else if set (le_pending_surfaces e) \<subseteq> seen_surfaces [(tick, damage)]
          then RenderFrame (ct_output tick) (ct_frame_serial tick) d (Some (le_epoch e))
          else WaitForLayoutEpoch (le_epoch e) (filter (\<lambda>s. s \<notin> seen_surfaces [(tick, damage)]) (le_pending_surfaces e)))"
  by (simp add: schedule_frame_from_damage_def seen_surfaces_def observe_damage_after epoch_is_complete_def [of e] Let_def
      split: option.split)

lemma expire_decision:
  "expire_if_timed_out now e =
     (if le_pending_surfaces e \<noteq> [] \<and> unat (le_timeout_msec e) \<le> unat now - unat (le_started_msec e)
      then (Some \<lparr>lo_epoch = le_epoch e, lo_elapsed_msec = sat_sub now (le_started_msec e),
                  lo_timeout_msec = le_timeout_msec e, lo_pending_surfaces = le_pending_surfaces e\<rparr>,
            epoch_after UNIV e)
      else (None, e))"
proof -
  have "ucast (le_timeout_msec e) \<le> elapsed_msec e now \<longleftrightarrow> unat (le_timeout_msec e) \<le> unat now - unat (le_started_msec e)"
    by (simp add: word_le_nat_alt elapsed_msec_def unat_sat_sub)
  then show ?thesis
    by (simp add: expire_if_timed_out_def is_timed_out_def epoch_is_complete_def epoch_after_def elapsed_msec_def)
qed

section \<open>Properties\<close>

text \<open>
  Property C9. The page-flip gate commits a staged batch exactly once, on a flip of its own output
  and only when none of its transactions is still pending; until then the batch stays staged and the
  committed state does not move. When it does act the batch leaves the gate and the commit is the
  atomic one: the outcome says Committed exactly when the whole batch was applicable.
\<close>

theorem page_flip_gate_commits_once:
  assumes "committed_wf committed"
  shows "\<exists>outcome g' committed'.
    commit_on_page_flip tick g committed = Some (outcome, g', committed') \<and> committed_wf committed'
    \<and> (case gt_staged g of
         None \<Rightarrow> outcome = PfIdle \<and> g' = g \<and> committed' = committed
       | Some b \<Rightarrow>
           (let waiting = pb_output b \<noteq> ct_output tick \<or>
                  (\<exists>x \<in> set (pb_transactions b).
                     transaction_commit_readiness (from_committed_states committed) x = CrNotReady TrPending) in
            if waiting then g' = g \<and> committed' = committed
                 \<and> (\<forall>s c. outcome \<noteq> PfCommitted s c \<and> outcome \<noteq> PfRejected s c)
            else gt_staged g' = None
                 \<and> (if spec_applicable (pb_transaction b) (committed_of committed) (pb_transactions b)
                    then (\<exists>c. outcome = PfCommitted (ct_frame_serial tick) c
                            \<and> tc_applied_surfaces c = map st_surface (pb_transactions b))
                         \<and> committed_of committed' = spec_commit (pb_transactions b) (committed_of committed)
                    else (\<exists>c. outcome = PfRejected (ct_frame_serial tick) c
                            \<and> tc_applied_surfaces c = []) \<and> committed' = committed)))"
proof (cases "gt_staged g")
  case None
  then show ?thesis using assms by (simp add: commit_on_page_flip_def)
next
  case (Some b)
  have p: "batch_pending_surfaces t xs = [] \<longleftrightarrow>
      \<not> (\<exists>x \<in> set xs. transaction_commit_readiness t x = CrNotReady TrPending)" for t xs
    by (auto simp: batch_pending_surfaces_def filter_empty_conv)
  obtain c cs' where r: "commit_surface_transactions (pb_transaction b) (pb_transactions b) committed
      = Some (c, cs')" "committed_wf cs'"
    and sp: "if spec_applicable (pb_transaction b) (committed_of committed) (pb_transactions b)
       then tc_outcome c = Committed \<and> tc_applied_surfaces c = map st_surface (pb_transactions b)
            \<and> committed_of cs' = spec_commit (pb_transactions b) (committed_of committed)
       else tc_outcome c \<noteq> Committed \<and> tc_applied_surfaces c = [] \<and> cs' = committed"
    using apply_prepared_spec [OF assms assms, of "pb_transaction b" "pb_transactions b",
        folded commit_surface_transactions_def] by auto
  show ?thesis
  proof (cases "pb_output b \<noteq> ct_output tick \<or> (\<exists>x \<in> set (pb_transactions b).
      transaction_commit_readiness (from_committed_states committed) x = CrNotReady TrPending)")
    case True
    then show ?thesis using Some assms by (auto simp: commit_on_page_flip_def Let_def p)
  next
    case False
    then have "commit_on_page_flip tick g committed =
        Some (if tc_outcome c = Committed then PfCommitted (ct_frame_serial tick) c
              else PfRejected (ct_frame_serial tick) c, g\<lparr>gt_staged := None\<rparr>, cs')"
      using Some r by (auto simp: commit_on_page_flip_def Let_def p)
    then show ?thesis using Some False r sp by (simp split: if_splits)
  qed
qed

definition example_gate :: PageFlipCommitGate where
  "example_gate = gate_stage 1 7 [example_transaction] gate_new"

definition example_tick :: FrameClockTick where
  "example_tick = \<lparr>ct_output = 1, ct_frame_serial = 40, ct_target_msec = 640\<rparr>"

theorem page_flip_gate_commits_once_witness:
  "\<exists>c g' committed'. commit_on_page_flip example_tick example_gate []
       = Some (PfCommitted 40 c, g', committed') \<and> gt_staged g' = None
     \<and> committed_of committed' (SurfaceId 2 1) = Some (next_state example_transaction)"
proof -
  have wf: "committed_wf []" by (simp add: committed_wf_def)
  have r: "transaction_commit_readiness (from_committed_states []) example_transaction = CrReady"
    using example_applicable wf by (simp add: readiness_iff spec_applicable_def)
  have g: "gt_staged example_gate = Some \<lparr>pb_output = 1, pb_transaction = 7, pb_transactions = [example_transaction]\<rparr>"
    "ct_output example_tick = 1" "ct_frame_serial example_tick = 40"
    by (simp_all add: example_gate_def gate_stage_def example_tick_def)
  have "spec_commit [example_transaction] (committed_of []) (SurfaceId 2 1) = Some (next_state example_transaction)"
    by (simp add: spec_commit_def example_transaction_def)
  then show ?thesis
    using page_flip_gate_commits_once [OF wf, of example_tick example_gate] r g example_applicable
    by auto
qed

text \<open>
  Property C10. A layout epoch waits for exactly the damage it is missing. After any sequence of ticks with their
  damage the pending surfaces are the initial ones, in their order, without those that produced damage on the
  ticking output. On the next tick the decision is then: without damage, wait for the epoch as long as a surface is
  pending and for damage otherwise; with damage of another output, wait for damage; with damage of the ticking output,
  render a frame of that damage that names the epoch if now every surface has been seen, and otherwise wait for the
  epoch with exactly the surfaces still missing. A call of \<open>expire_if_timed_out\<close> ends the epoch exactly if a surface is
  pending and the timeout has elapsed since the start, reporting every surface still pending, and leaves the epoch alone
  otherwise; when it has ended it, damage of the ticking output is rendered at once.
\<close>

theorem layout_epoch_waits_for_damage:
  "\<exists>e'. run_epoch (Some e) es = Some e' \<and> le_pending_surfaces e' = missing_surfaces e es
    \<and> fst (schedule_frame_from_damage tick damage (Some e')) =
        (case damage of
           None \<Rightarrow> if missing_surfaces e es = [] then WaitForDamage else WaitForLayoutEpoch (le_epoch e) (missing_surfaces e es)
         | Some d \<Rightarrow>
             if df_output d \<noteq> ct_output tick then WaitForDamage
             else if missing_surfaces e (es @ [(tick, damage)]) = []
             then RenderFrame (ct_output tick) (ct_frame_serial tick) d (Some (le_epoch e))
             else WaitForLayoutEpoch (le_epoch e) (missing_surfaces e (es @ [(tick, damage)])))
    \<and> (if missing_surfaces e es \<noteq> [] \<and> unat (le_timeout_msec e) \<le> unat now - unat (le_started_msec e)
       then (\<exists>t e''. expire_if_timed_out now e' = (Some t, e'') \<and> lo_epoch t = le_epoch e
               \<and> lo_pending_surfaces t = missing_surfaces e es \<and> le_pending_surfaces e'' = []
               \<and> (\<forall>d. df_output d = ct_output tick \<longrightarrow>
                    fst (schedule_frame_from_damage tick (Some d) (Some e''))
                      = RenderFrame (ct_output tick) (ct_frame_serial tick) d (Some (le_epoch e))))
       else expire_if_timed_out now e' = (None, e'))"
proof (intro exI [of _ "epoch_after (seen_surfaces es) e"] conjI)
  show "run_epoch (Some e) es = Some (epoch_after (seen_surfaces es) e)" by (rule run_epoch_eq)
  show "le_pending_surfaces (epoch_after (seen_surfaces es) e) = missing_surfaces e es" by (simp add: missing_surfaces_def)
  show "fst (schedule_frame_from_damage tick damage (Some (epoch_after (seen_surfaces es) e))) =
        (case damage of
           None \<Rightarrow> if missing_surfaces e es = [] then WaitForDamage else WaitForLayoutEpoch (le_epoch e) (missing_surfaces e es)
         | Some d \<Rightarrow>
             if df_output d \<noteq> ct_output tick then WaitForDamage
             else if missing_surfaces e (es @ [(tick, damage)]) = []
             then RenderFrame (ct_output tick) (ct_frame_serial tick) d (Some (le_epoch e))
             else WaitForLayoutEpoch (le_epoch e) (missing_surfaces e (es @ [(tick, damage)])))"
    unfolding schedule_decision by (auto simp: missing_surfaces_def filter_empty_conv conj_commute split: option.split)
  show "if missing_surfaces e es \<noteq> [] \<and> unat (le_timeout_msec e) \<le> unat now - unat (le_started_msec e)
       then (\<exists>t e''. expire_if_timed_out now (epoch_after (seen_surfaces es) e) = (Some t, e'') \<and> lo_epoch t = le_epoch e
               \<and> lo_pending_surfaces t = missing_surfaces e es \<and> le_pending_surfaces e'' = []
               \<and> (\<forall>d. df_output d = ct_output tick \<longrightarrow>
                    fst (schedule_frame_from_damage tick (Some d) (Some e''))
                      = RenderFrame (ct_output tick) (ct_frame_serial tick) d (Some (le_epoch e))))
       else expire_if_timed_out now (epoch_after (seen_surfaces es) e) = (None, epoch_after (seen_surfaces es) e)"
    by (simp add: expire_decision missing_surfaces_def schedule_decision)
qed

definition example_epoch :: LayoutEpochState where
  "example_epoch = epoch_new 3 [SurfaceId 2 1]"

definition example_damage :: "SurfaceId list \<Rightarrow> DamageFrame" where
  "example_damage ss = \<lparr>df_output = 1, df_frame_serial = 0, df_buffer_age = 0, df_root_generation = 0,
     df_affected_surfaces = ss, df_damage = \<lparr>rg_rects = []\<rparr>\<rparr>"

theorem layout_epoch_waits_for_damage_witness:
  "fst (schedule_frame_from_damage example_tick (Some (example_damage [SurfaceId 3 1])) (Some example_epoch))
     = WaitForLayoutEpoch 3 [SurfaceId 2 1]
   \<and> fst (schedule_frame_from_damage example_tick (Some (example_damage [SurfaceId 2 1])) (Some example_epoch))
     = RenderFrame 1 40 (example_damage [SurfaceId 2 1]) (Some 3)
   \<and> snd (expire_if_timed_out 299 example_epoch) = example_epoch
   \<and> le_pending_surfaces (snd (expire_if_timed_out 300 example_epoch)) = []"
proof -
  have p: "le_pending_surfaces example_epoch = [SurfaceId 2 1]" "le_epoch example_epoch = 3"
    "le_started_msec example_epoch = 0" "le_timeout_msec example_epoch = 300"
    by (simp_all add: example_epoch_def epoch_new_def epoch_with_timing_def surface_is_valid_def word_max_def
        bs_from_list_def)
  have d: "df_output (example_damage ss) = 1" "df_affected_surfaces (example_damage ss) = ss" "ct_output example_tick = 1"
    "ct_frame_serial example_tick = 40" for ss
    by (simp_all add: example_damage_def example_tick_def)
  show ?thesis
    using layout_epoch_waits_for_damage [of example_epoch "[]" example_tick "Some (example_damage [SurfaceId 3 1])" 299]
      layout_epoch_waits_for_damage [of example_epoch "[]" example_tick "Some (example_damage [SurfaceId 2 1])" 300]
    by (auto simp: p d missing_surfaces_def seen_surfaces_def)
qed

end
