(* ===== verification/Presentation.thy ===== *)
theory Presentation
  imports Frame_Scheduling
begin

text \<open>
  Per-output presentation bookkeeping (\<^verbatim>\<open>frame/presentation.rs\<close>): damage is coalesced into at most one
  frame in flight per output, a frame retires only by its own serial, and page-flip feedback is
  accepted only if it moves forward.
\<close>

section \<open>Model (frame/presentation.rs)\<close>

record OutputPresentationState =
  os_output :: OutputId
  os_refresh_millihz :: u32
  os_damage_pending :: bool
  os_in_flight_frame :: "u64 option"
  os_last_retired_frame :: "u64 option"
  os_last_presented_sequence :: "u64 option"
  os_last_presented_msec :: "u64 option"
  os_next_target_msec :: "u64 option"
  os_submit_deferrals :: u64

datatype OutputPresentationSchedule =
    Scheduled FrameClockTick
  | WaitingForDamage
  | WaitingForRetirement u64
  | ScheduleUnknownOutput

datatype OutputPresentationRetire =
    Retired u64
  | NoSubmission
  | UnexpectedFrame u64 u64
  | RetireUnknownOutput

datatype OutputPresentationFeedback =
    Accepted u64 u64
  | NonMonotonicSequence u64 u64
  | NonMonotonicTimestamp u64 u64
  | FeedbackUnknownOutput

record OutputPresentationRegistry =
  op_states :: "(OutputId, OutputPresentationState) btree"
  op_clocks :: PerOutputFrameClock

definition initial_presentation_state :: "DrmKmsOutputDescriptor \<Rightarrow> OutputPresentationState" where
  "initial_presentation_state d =
     \<lparr>os_output = dd_output d, os_refresh_millihz = dm_refresh_millihz (dd_mode d),
      os_damage_pending = False, os_in_flight_frame = None, os_last_retired_frame = None,
      os_last_presented_sequence = None, os_last_presented_msec = None,
      os_next_target_msec = None, os_submit_deferrals = 0\<rparr>"

definition presentation_from_outputs :: "DrmKmsOutputRegistry \<Rightarrow> OutputPresentationRegistry" where
  "presentation_from_outputs outputs =
     \<lparr>op_states = bt_from_list (map (\<lambda>d. (dd_output d, initial_presentation_state d)) (drm_outputs outputs)),
      op_clocks = clocks_from_outputs outputs frame_clock_default\<rparr>"

definition put_presentation ::
  "OutputId \<Rightarrow> OutputPresentationState \<Rightarrow> OutputPresentationRegistry \<Rightarrow> OutputPresentationRegistry" where
  "put_presentation output s r = r\<lparr>op_states := bt_insert output s (op_states r)\<rparr>"

definition mark_damage ::
  "OutputId \<Rightarrow> OutputPresentationRegistry \<Rightarrow> bool \<times> OutputPresentationRegistry" where
  "mark_damage output r =
     (case bt_get (op_states r) output of
        None \<Rightarrow> (False, r)
      | Some s \<Rightarrow> (True, put_presentation output (s\<lparr>os_damage_pending := True\<rparr>) r))"

definition presentation_schedule ::
  "OutputId \<Rightarrow> OutputPresentationRegistry \<Rightarrow> OutputPresentationSchedule \<times> OutputPresentationRegistry" where
  "presentation_schedule output r =
     (case bt_get (op_states r) output of
        None \<Rightarrow> (ScheduleUnknownOutput, r)
      | Some s \<Rightarrow>
          (case os_in_flight_frame s of
             Some serial \<Rightarrow>
               (WaitingForRetirement serial,
                put_presentation output (s\<lparr>os_submit_deferrals := sat_add (os_submit_deferrals s) 1\<rparr>) r)
           | None \<Rightarrow>
               if \<not> os_damage_pending s then (WaitingForDamage, r)
               else
                 let (tick0, clocks) = per_output_next_frame output (op_clocks r);
                     tick = (case os_next_target_msec s of
                               None \<Rightarrow> tick0 | Some t \<Rightarrow> tick0\<lparr>ct_target_msec := t\<rparr>) in
                 (Scheduled tick,
                  put_presentation output
                    (s\<lparr>os_damage_pending := False, os_in_flight_frame := Some (ct_frame_serial tick)\<rparr>)
                    (r\<lparr>op_clocks := clocks\<rparr>))))"

definition presentation_retire ::
  "OutputId \<Rightarrow> u64 \<Rightarrow> OutputPresentationRegistry \<Rightarrow> OutputPresentationRetire \<times> OutputPresentationRegistry"
  where
  "presentation_retire output serial r =
     (case bt_get (op_states r) output of
        None \<Rightarrow> (RetireUnknownOutput, r)
      | Some s \<Rightarrow>
          (case os_in_flight_frame s of
             None \<Rightarrow> (NoSubmission, r)
           | Some expected \<Rightarrow>
               if expected \<noteq> serial then (UnexpectedFrame expected serial, r)
               else (Retired serial,
                     put_presentation output
                       (s\<lparr>os_in_flight_frame := None, os_last_retired_frame := Some serial\<rparr>) r)))"

definition observe_page_flip ::
  "OutputId \<Rightarrow> u64 \<Rightarrow> u64 \<Rightarrow> OutputPresentationRegistry
   \<Rightarrow> OutputPresentationFeedback \<times> OutputPresentationRegistry" where
  "observe_page_flip output sequence msec r =
     (case bt_get (op_states r) output of
        None \<Rightarrow> (FeedbackUnknownOutput, r)
      | Some s \<Rightarrow>
          if (case os_last_presented_sequence s of None \<Rightarrow> False | Some previous \<Rightarrow> sequence \<le> previous)
          then (NonMonotonicSequence (the (os_last_presented_sequence s)) sequence, r)
          else if (case os_last_presented_msec s of None \<Rightarrow> False | Some previous \<Rightarrow> msec < previous)
          then (NonMonotonicTimestamp (the (os_last_presented_msec s)) msec, r)
          else
            let interval = (if os_refresh_millihz s = 0 then 16
                            else u64_max (1000000 div ucast (os_refresh_millihz s)) 1) in
            (Accepted sequence msec,
             put_presentation output
               (s\<lparr>os_last_presented_sequence := Some sequence, os_last_presented_msec := Some msec,
                  os_next_target_msec := Some (sat_add msec interval)\<rparr>) r))"

section \<open>The registry as a machine\<close>

datatype presentation_event =
    EvDamage OutputId
  | EvSchedule OutputId
  | EvRetire OutputId u64
  | EvPageFlip OutputId u64 u64

fun presentation_step ::
  "OutputPresentationRegistry \<Rightarrow> presentation_event \<Rightarrow> OutputPresentationRegistry" where
  "presentation_step r (EvDamage p) = snd (mark_damage p r)"
| "presentation_step r (EvSchedule p) = snd (presentation_schedule p r)"
| "presentation_step r (EvRetire p n) = snd (presentation_retire p n r)"
| "presentation_step r (EvPageFlip p q m) = snd (observe_page_flip p q m r)"

text \<open>
  Every output has its clock, and the serials of an output were drawn from its clock: they lie below
  the next serial, and the frame in flight is newer than the last one retired. At the saturated
  serial \<open>u64::MAX\<close> the clock repeats itself; the bounds below are the ones that hold there too.
\<close>

definition serial_below :: "u64 option \<Rightarrow> u64 \<Rightarrow> bool" where
  "serial_below f n = (case f of None \<Rightarrow> True | Some k \<Rightarrow> k < n \<or> (k = n \<and> n = word_max))"

definition presentation_ok :: "OutputPresentationState \<Rightarrow> DeterministicFrameClock \<Rightarrow> bool" where
  "presentation_ok s c \<longleftrightarrow>
     serial_below (os_in_flight_frame s) (dc_next_serial c)
     \<and> serial_below (os_last_retired_frame s) (dc_next_serial c)
     \<and> (case os_in_flight_frame s of None \<Rightarrow> True
        | Some f \<Rightarrow> serial_below (os_last_retired_frame s) f)"

definition presentation_inv :: "OutputPresentationRegistry \<Rightarrow> bool" where
  "presentation_inv r \<longleftrightarrow>
     (\<forall>p s. bt_get (op_states r) p = Some s \<longrightarrow>
        (\<exists>c. bt_get (po_clocks (op_clocks r)) p = Some c \<and> presentation_ok s c))"

text \<open>What two moments of a session have in common.\<close>

definition opt_le :: "u64 option \<Rightarrow> u64 option \<Rightarrow> bool" where
  "opt_le a b = (case a of None \<Rightarrow> True | Some x \<Rightarrow> (case b of None \<Rightarrow> False | Some y \<Rightarrow> x \<le> y))"

definition output_progress :: "OutputPresentationState \<Rightarrow> OutputPresentationState \<Rightarrow> bool" where
  "output_progress a b \<longleftrightarrow>
     os_output b = os_output a \<and> os_refresh_millihz b = os_refresh_millihz a
     \<and> opt_le (os_last_presented_sequence a) (os_last_presented_sequence b)
     \<and> opt_le (os_last_presented_msec a) (os_last_presented_msec b)
     \<and> opt_le (os_last_retired_frame a) (os_last_retired_frame b)"

definition presentation_progress ::
  "OutputPresentationRegistry \<Rightarrow> OutputPresentationRegistry \<Rightarrow> bool" where
  "presentation_progress a b \<longleftrightarrow>
     dom (bt_get (op_states b)) = dom (bt_get (op_states a))
     \<and> (\<forall>p s. bt_get (op_states a) p = Some s \<longrightarrow>
          (\<exists>t. bt_get (op_states b) p = Some t \<and> output_progress s t))"

section \<open>Lemmas\<close>

lemma opt_le_refl [simp]: "opt_le a a"
  by (simp add: opt_le_def split: option.splits)

lemma opt_le_trans: "opt_le a b \<Longrightarrow> opt_le b c \<Longrightarrow> opt_le a c"
  by (auto simp: opt_le_def split: option.splits)

lemma output_progress_refl [simp]: "output_progress a a"
  by (simp add: output_progress_def)

lemma output_progress_trans: "output_progress a b \<Longrightarrow> output_progress b c \<Longrightarrow> output_progress a c"
  by (auto simp: output_progress_def intro: opt_le_trans)

lemma serial_below_None [simp]: "serial_below None n"
  by (simp add: serial_below_def)

lemma serial_below_next: "serial_below f n \<Longrightarrow> serial_below f (sat_add n 1)"
proof (cases f)
  case (Some k)
  assume "serial_below f n"
  then have "k < n \<or> k = n \<and> n = word_max" using Some by (simp add: serial_below_def)
  moreover have "n \<le> sat_add n 1" by (rule sat_add_ge)
  moreover have "sat_add word_max 1 = (word_max :: u64)"
    using sat_add_ge [of "word_max :: u64" 1] word_le_max [of "sat_add (word_max :: u64) 1"]
    by (metis order_antisym)
  ultimately show ?thesis using Some by (auto simp: serial_below_def)
qed (simp add: serial_below_def)

lemma serial_below_self: "serial_below (Some n) (sat_add n 1)"
  using sat_add_one_cases [of n] by (auto simp: serial_below_def)

lemma serial_below_retire:
  "serial_below (Some f) n \<Longrightarrow> serial_below g f \<Longrightarrow> opt_le g (Some f)"
  by (auto simp: serial_below_def opt_le_def split: option.splits)

text \<open>An update of one output that keeps its clock's bounds and makes progress is fine.\<close>

lemma put_presentation_ok:
  assumes inv: "presentation_inv r" and s: "bt_get (op_states r) p = Some s"
    and ok: "\<And>c. presentation_ok s c \<Longrightarrow> presentation_ok t c" and prog: "output_progress s t"
  shows "presentation_inv (put_presentation p t r) \<and> presentation_progress r (put_presentation p t r)"
proof -
  have g: "bt_get (op_states (put_presentation p t r)) = (bt_get (op_states r))(p \<mapsto> t)"
    "op_clocks (put_presentation p t r) = op_clocks r"
    by (simp_all add: put_presentation_def bt_get_insert del: fun_upd_apply)
  have "presentation_inv (put_presentation p t r)"
    using inv s ok unfolding presentation_inv_def g fun_upd_apply by (metis option.inject)
  moreover have "presentation_progress r (put_presentation p t r)"
    using s prog unfolding presentation_progress_def g by auto
  ultimately show ?thesis ..
qed

lemma presentation_progress_refl [simp]: "presentation_progress r r"
  by (simp add: presentation_progress_def)

lemma presentation_progress_trans:
  "presentation_progress a b \<Longrightarrow> presentation_progress b c \<Longrightarrow> presentation_progress a c"
  unfolding presentation_progress_def by (blast intro: output_progress_trans)

lemma mark_damage_ok:
  assumes inv: "presentation_inv r"
  shows "presentation_inv (snd (mark_damage p r)) \<and> presentation_progress r (snd (mark_damage p r))"
proof (cases "bt_get (op_states r) p")
  case (Some s)
  have "presentation_inv (put_presentation p (s\<lparr>os_damage_pending := True\<rparr>) r)
      \<and> presentation_progress r (put_presentation p (s\<lparr>os_damage_pending := True\<rparr>) r)"
    by (rule put_presentation_ok [OF inv Some]) (auto simp: presentation_ok_def output_progress_def split: option.splits)
  then show ?thesis using Some by (simp add: mark_damage_def)
qed (use inv in \<open>simp add: mark_damage_def\<close>)

lemma retire_ok:
  assumes inv: "presentation_inv r"
  shows "presentation_inv (snd (presentation_retire p n r))
       \<and> presentation_progress r (snd (presentation_retire p n r))"
proof -
  have "presentation_inv (put_presentation p (s\<lparr>os_in_flight_frame := None, os_last_retired_frame := Some n\<rparr>) r)
      \<and> presentation_progress r (put_presentation p (s\<lparr>os_in_flight_frame := None, os_last_retired_frame := Some n\<rparr>) r)"
    if s: "bt_get (op_states r) p = Some s" "os_in_flight_frame s = Some n" for s
  proof (rule put_presentation_ok [OF inv s(1)])
    obtain c where "presentation_ok s c" using inv s unfolding presentation_inv_def by blast
    then show "output_progress s (s\<lparr>os_in_flight_frame := None, os_last_retired_frame := Some n\<rparr>)"
      using s by (auto simp: presentation_ok_def output_progress_def intro: serial_below_retire)
  qed (use s in \<open>auto simp: presentation_ok_def\<close>)
  then show ?thesis
    using inv by (auto simp: presentation_retire_def split: option.splits)
qed

lemma page_flip_ok:
  assumes inv: "presentation_inv r"
  shows "presentation_inv (snd (observe_page_flip p q m r))
       \<and> presentation_progress r (snd (observe_page_flip p q m r))"
proof (cases "bt_get (op_states r) p")
  case (Some s)
  let ?seq = "case os_last_presented_sequence s of None \<Rightarrow> False | Some previous \<Rightarrow> q \<le> previous"
  let ?msec = "case os_last_presented_msec s of None \<Rightarrow> False | Some previous \<Rightarrow> m < previous"
  have le: "\<not> ?seq \<Longrightarrow> opt_le (os_last_presented_sequence s) (Some q)"
    "\<not> ?msec \<Longrightarrow> opt_le (os_last_presented_msec s) (Some m)"
    by (auto simp: opt_le_def split: option.splits)
  consider "snd (observe_page_flip p q m r) = r"
    | i where "opt_le (os_last_presented_sequence s) (Some q)" "opt_le (os_last_presented_msec s) (Some m)"
      "snd (observe_page_flip p q m r) = put_presentation p
         (s\<lparr>os_last_presented_sequence := Some q, os_last_presented_msec := Some m,
            os_next_target_msec := Some i\<rparr>) r"
    using Some le by (cases ?seq; cases ?msec) (simp_all add: observe_page_flip_def Let_def)
  then show ?thesis
  proof cases
    case 2
    show ?thesis
      unfolding 2(3)
      by (rule put_presentation_ok [OF inv Some])
         (use 2 in \<open>auto simp: presentation_ok_def output_progress_def split: option.splits\<close>)
  qed (use inv in simp)
qed (use inv in \<open>simp add: observe_page_flip_def\<close>)

text \<open>Scheduling draws a fresh serial from the output's clock.\<close>

lemma schedule_clock:
  assumes "bt_get (po_clocks c) p = Some k"
  shows "fst (per_output_next_frame p c) = fst (det_next_frame p k)
    \<and> bt_get (po_clocks (snd (per_output_next_frame p c)))
      = (bt_get (po_clocks c))(p \<mapsto> k\<lparr>dc_next_serial := sat_add (dc_next_serial k) 1\<rparr>)"
  using assms by (simp add: per_output_next_frame_def det_next_frame_def bt_get_insert del: fun_upd_apply)

lemma schedule_ok:
  assumes inv: "presentation_inv r"
  shows "presentation_inv (snd (presentation_schedule p r))
       \<and> presentation_progress r (snd (presentation_schedule p r))"
proof (cases "bt_get (op_states r) p")
  case (Some s)
  obtain k where k: "bt_get (po_clocks (op_clocks r)) p = Some k" "presentation_ok s k"
    using inv Some unfolding presentation_inv_def by blast
  let ?t = "s\<lparr>os_damage_pending := False, os_in_flight_frame := Some (dc_next_serial k)\<rparr>"
  let ?c = "snd (per_output_next_frame p (op_clocks r))"
  let ?r = "put_presentation p ?t (r\<lparr>op_clocks := ?c\<rparr>)"
  have serial: "ct_frame_serial (fst (per_output_next_frame p (op_clocks r))) = dc_next_serial k"
    using schedule_clock [OF k(1)] by (simp add: det_next_frame_def)
  consider (same) "snd (presentation_schedule p r) = r"
    | (busy) "snd (presentation_schedule p r) = put_presentation p
        (s\<lparr>os_submit_deferrals := sat_add (os_submit_deferrals s) 1\<rparr>) r"
    | (go) "os_in_flight_frame s = None" "snd (presentation_schedule p r) = ?r"
    using Some serial
    by (cases "os_in_flight_frame s"; cases "os_damage_pending s"; cases "os_next_target_msec s")
       (simp_all add: presentation_schedule_def Let_def case_prod_beta)
  then show ?thesis
  proof cases
    case busy
    show ?thesis unfolding busy
      by (rule put_presentation_ok [OF inv Some]) (auto simp: presentation_ok_def output_progress_def split: option.splits)
  next
    case go
    have states: "bt_get (op_states ?r) = (bt_get (op_states r))(p \<mapsto> ?t)" "op_clocks ?r = ?c"
      by (simp_all add: put_presentation_def bt_get_insert del: fun_upd_apply)
    have "presentation_ok ?t (k\<lparr>dc_next_serial := sat_add (dc_next_serial k) 1\<rparr>)"
      using k(2) go(1) by (simp add: presentation_ok_def serial_below_next serial_below_self)
    then have "presentation_inv ?r"
      using inv schedule_clock [OF k(1)] unfolding presentation_inv_def states
      by (auto split: if_splits)
    moreover have "presentation_progress r ?r"
      using Some unfolding presentation_progress_def states by (auto simp: output_progress_def)
    ultimately show ?thesis using go by simp
  qed (use inv in simp)
qed (use inv in \<open>simp add: presentation_schedule_def\<close>)

lemma step_ok:
  "presentation_inv r \<Longrightarrow>
     presentation_inv (presentation_step r e) \<and> presentation_progress r (presentation_step r e)"
  by (cases e) (simp_all add: mark_damage_ok schedule_ok retire_ok page_flip_ok)

interpretation presentation: history_machine presentation_step presentation_inv presentation_progress
  by unfold_locales (auto simp: step_ok intro: presentation_progress_trans)

lemma presentation_initial: "presentation_inv (presentation_from_outputs outputs)"
proof -
  have "map_of (rev (map (\<lambda>d. (dd_output d, initial_presentation_state d)) ds)) p = Some s \<Longrightarrow>
      \<exists>d \<in> set ds. p = dd_output d \<and> s = initial_presentation_state d" for ds p s
    by (auto dest!: map_of_SomeD)
  moreover have "\<exists>c. map_of (rev (map (\<lambda>d. (dd_output d, f d)) ds)) (dd_output d) = Some c"
    if "d \<in> set ds" for d ds and f :: "DrmKmsOutputDescriptor \<Rightarrow> DeterministicFrameClock"
    using that by (metis (no_types, lifting) image_eqI map_of_eq_None_iff not_Some_eq fst_conv set_map set_rev)
  ultimately show ?thesis
    unfolding presentation_inv_def presentation_from_outputs_def clocks_from_outputs_def
    by (fastforce simp: bt_get_from_list presentation_ok_def initial_presentation_state_def)
qed

section \<open>What an output sees\<close>

text \<open>The events with the answers the registry gives, in order.\<close>

datatype presentation_reply =
    RpDamage bool
  | RpSchedule OutputPresentationSchedule
  | RpRetire OutputPresentationRetire
  | RpPageFlip OutputPresentationFeedback

fun reply_to :: "OutputPresentationRegistry \<Rightarrow> presentation_event \<Rightarrow> presentation_reply" where
  "reply_to r (EvDamage p) = RpDamage (fst (mark_damage p r))"
| "reply_to r (EvSchedule p) = RpSchedule (fst (presentation_schedule p r))"
| "reply_to r (EvRetire p n) = RpRetire (fst (presentation_retire p n r))"
| "reply_to r (EvPageFlip p q m) = RpPageFlip (fst (observe_page_flip p q m r))"

fun presentation_trace ::
  "OutputPresentationRegistry \<Rightarrow> presentation_event list \<Rightarrow> (presentation_event \<times> presentation_reply) list" where
  "presentation_trace r [] = []"
| "presentation_trace r (e # es) = (e, reply_to r e) # presentation_trace (presentation_step r e) es"

fun event_output :: "presentation_event \<Rightarrow> OutputId" where
  "event_output (EvDamage p) = p"
| "event_output (EvSchedule p) = p"
| "event_output (EvRetire p n) = p"
| "event_output (EvPageFlip p q m) = p"

text \<open>
  An observer of one output, who sees the events and answers only: whether damage was reported since the last frame,
  which frame was scheduled and not retired yet, which one retired last, and the last accepted page flip.
\<close>

record output_view =
  vw_damage :: bool
  vw_flight :: "u64 option"
  vw_retired :: "u64 option"
  vw_shown :: "(u64 \<times> u64) option"

definition view_initial :: output_view where
  "view_initial = \<lparr>vw_damage = False, vw_flight = None, vw_retired = None, vw_shown = None\<rparr>"

text \<open>The answers the observer admits.\<close>

fun admits :: "output_view \<Rightarrow> presentation_event \<Rightarrow> presentation_reply \<Rightarrow> bool" where
  "admits v (EvDamage p) (RpDamage known) = known"
| "admits v (EvSchedule p) (RpSchedule reply) =
     (case reply of
        Scheduled tick \<Rightarrow> vw_flight v = None \<and> vw_damage v \<and> ct_output tick = p
          \<and> serial_below (vw_retired v) (ct_frame_serial tick)
      | WaitingForDamage \<Rightarrow> vw_flight v = None \<and> \<not> vw_damage v
      | WaitingForRetirement n \<Rightarrow> vw_flight v = Some n
      | ScheduleUnknownOutput \<Rightarrow> False)"
| "admits v (EvRetire p n) (RpRetire reply) =
     (case reply of
        Retired m \<Rightarrow> m = n \<and> vw_flight v = Some n
      | NoSubmission \<Rightarrow> vw_flight v = None
      | UnexpectedFrame expected actual \<Rightarrow> vw_flight v = Some expected \<and> actual = n \<and> expected \<noteq> n
      | RetireUnknownOutput \<Rightarrow> False)"
| "admits v (EvPageFlip p q m) (RpPageFlip reply) =
     (case reply of
        Accepted q' m' \<Rightarrow> q' = q \<and> m' = m
          \<and> (case vw_shown v of None \<Rightarrow> True | Some (q0, m0) \<Rightarrow> q0 < q \<and> m0 \<le> m)
      | NonMonotonicSequence q0 q' \<Rightarrow> q' = q \<and> q \<le> q0 \<and> map_option fst (vw_shown v) = Some q0
      | NonMonotonicTimestamp m0 m' \<Rightarrow> m' = m \<and> m < m0 \<and> map_option snd (vw_shown v) = Some m0
      | FeedbackUnknownOutput \<Rightarrow> False)"
| "admits v _ _ = False"

fun view_after :: "output_view \<Rightarrow> presentation_reply \<Rightarrow> output_view" where
  "view_after v (RpDamage known) = v\<lparr>vw_damage := True\<rparr>"
| "view_after v (RpSchedule (Scheduled tick)) = v\<lparr>vw_damage := False, vw_flight := Some (ct_frame_serial tick)\<rparr>"
| "view_after v (RpRetire (Retired n)) = v\<lparr>vw_flight := None, vw_retired := Some n\<rparr>"
| "view_after v (RpPageFlip (Accepted q m)) = v\<lparr>vw_shown := Some (q, m)\<rparr>"
| "view_after v _ = v"

fun output_unknown :: "presentation_reply \<Rightarrow> bool" where
  "output_unknown (RpDamage known) = (\<not> known)"
| "output_unknown (RpSchedule reply) = (reply = ScheduleUnknownOutput)"
| "output_unknown (RpRetire reply) = (reply = RetireUnknownOutput)"
| "output_unknown (RpPageFlip reply) = (reply = FeedbackUnknownOutput)"

text \<open>A trace the observer of \<open>p\<close> admits from beginning to end.\<close>

fun frames_ok :: "bool \<Rightarrow> OutputId \<Rightarrow> output_view \<Rightarrow> (presentation_event \<times> presentation_reply) list \<Rightarrow> bool" where
  "frames_ok known p v [] = True"
| "frames_ok known p v ((e, reply) # trace) =
     (if event_output e \<noteq> p then frames_ok known p v trace
      else if \<not> known then output_unknown reply \<and> frames_ok known p v trace
      else admits v e reply \<and> frames_ok known p (view_after v reply) trace)"

definition sees :: "OutputPresentationState \<Rightarrow> output_view \<Rightarrow> bool" where
  "sees s v \<longleftrightarrow> vw_damage v = os_damage_pending s \<and> vw_flight v = os_in_flight_frame s
     \<and> vw_retired v = os_last_retired_frame s \<and> os_last_presented_sequence s = map_option fst (vw_shown v)
     \<and> os_last_presented_msec s = map_option snd (vw_shown v)"

lemma get_put_presentation:
  "bt_get (op_states (put_presentation q t r)) p = (if p = q then Some t else bt_get (op_states r) p)"
  by (simp add: put_presentation_def bt_get_insert)

lemma step_other_output:
  assumes "event_output e \<noteq> p \<or> bt_get (op_states r) p = None"
  shows "bt_get (op_states (presentation_step r e)) p = bt_get (op_states r) p"
  using assms
  by (cases e) (auto simp: mark_damage_def presentation_schedule_def presentation_retire_def observe_page_flip_def
      get_put_presentation Let_def split: option.splits prod.splits)

lemma reply_unknown: "bt_get (op_states r) (event_output e) = None \<Longrightarrow> output_unknown (reply_to r e)"
  by (cases e) (simp_all add: mark_damage_def presentation_schedule_def presentation_retire_def observe_page_flip_def)

lemma schedule_seen:
  assumes "bt_get (op_states r) p = Some s" "sees s v" "presentation_inv r"
  shows "admits v (EvSchedule p) (reply_to r (EvSchedule p))
    \<and> (\<exists>s'. bt_get (op_states (presentation_step r (EvSchedule p))) p = Some s'
         \<and> sees s' (view_after v (reply_to r (EvSchedule p))))"
proof -
  obtain k where k: "bt_get (po_clocks (op_clocks r)) p = Some k" "presentation_ok s k"
    using assms(1,3) unfolding presentation_inv_def by blast
  have "ct_frame_serial (fst (per_output_next_frame p (op_clocks r))) = dc_next_serial k"
    "ct_output (fst (per_output_next_frame p (op_clocks r))) = p"
    using schedule_clock [OF k(1)] by (simp_all add: det_next_frame_def)
  moreover have "serial_below (os_last_retired_frame s) (dc_next_serial k)" using k(2) by (simp add: presentation_ok_def)
  ultimately show ?thesis
    using assms(1,2)
    by (cases "os_in_flight_frame s"; cases "os_damage_pending s"; cases "os_next_target_msec s")
       (auto simp: presentation_schedule_def sees_def get_put_presentation Let_def case_prod_beta)
qed

lemma page_flip_seen:
  assumes "bt_get (op_states r) p = Some s" "sees s v"
  shows "admits v (EvPageFlip p q m) (reply_to r (EvPageFlip p q m))
    \<and> (\<exists>s'. bt_get (op_states (presentation_step r (EvPageFlip p q m))) p = Some s'
         \<and> sees s' (view_after v (reply_to r (EvPageFlip p q m))))"
  using assms
  by (cases "vw_shown v") (auto simp: observe_page_flip_def sees_def get_put_presentation Let_def not_le not_less)

lemma event_seen:
  assumes "bt_get (op_states r) (event_output e) = Some s" "sees s v" "presentation_inv r"
  shows "admits v e (reply_to r e)
    \<and> (\<exists>s'. bt_get (op_states (presentation_step r e)) (event_output e) = Some s' \<and> sees s' (view_after v (reply_to r e)))"
proof (cases e)
  case (EvSchedule p)
  then show ?thesis using schedule_seen [of r p s v] assms by simp
next
  case (EvPageFlip p q m)
  then show ?thesis using page_flip_seen [of r p s v q m] assms by simp
qed (use assms in \<open>auto simp: mark_damage_def presentation_retire_def sees_def get_put_presentation split: option.splits\<close>)

lemma trace_unknown:
  "bt_get (op_states r) p = None \<Longrightarrow> frames_ok False p v (presentation_trace r es)"
  by (induction es arbitrary: r) (simp_all add: reply_unknown step_other_output)

lemma trace_seen:
  assumes "bt_get (op_states r) p = Some s" "sees s v" "presentation_inv r"
  shows "frames_ok True p v (presentation_trace r es)"
  using assms
proof (induction es arbitrary: r s v)
  case (Cons e es)
  have inv: "presentation_inv (presentation_step r e)" using step_ok Cons.prems(3) by blast
  show ?case
  proof (cases "event_output e = p")
    case True
    then show ?thesis using event_seen [of r e s v] Cons.IH [OF _ _ inv] Cons.prems by auto
  next
    case False
    then show ?thesis using Cons.IH [OF _ Cons.prems(2) inv] Cons.prems(1) step_other_output [of e p r] by auto
  qed
qed simp

lemma initial_seen:
  "case bt_get (op_states (presentation_from_outputs outputs)) p of
     None \<Rightarrow> p \<notin> dd_output ` set (drm_outputs outputs)
   | Some s \<Rightarrow> p \<in> dd_output ` set (drm_outputs outputs) \<and> sees s view_initial"
proof (cases "bt_get (op_states (presentation_from_outputs outputs)) p")
  case None
  then have "p \<notin> dd_output ` set (drm_outputs outputs)"
    by (auto simp: presentation_from_outputs_def bt_get_from_list map_of_eq_None_iff image_image)
  then show ?thesis using None by simp
next
  case (Some s)
  then have "\<exists>d\<in>set (drm_outputs outputs). p = dd_output d \<and> s = initial_presentation_state d"
    by (auto simp: presentation_from_outputs_def bt_get_from_list dest!: map_of_SomeD)
  then show ?thesis using Some by (auto simp: initial_presentation_state_def sees_def view_initial_def)
qed

lemma frames_scheduled_ok:
  "frames_ok (p \<in> dd_output ` set (drm_outputs outputs)) p view_initial
     (presentation_trace (presentation_from_outputs outputs) es)"
  using initial_seen [of p outputs] trace_unknown [of "presentation_from_outputs outputs" p view_initial es]
    trace_seen [of "presentation_from_outputs outputs" p _ view_initial es, OF _ _ presentation_initial]
  by (auto split: option.splits)

section \<open>Properties\<close>

text \<open>
  Property C11. Over every sequence of damage, schedule, retire and page-flip events, starting from
  the discovered outputs. An observer of an output who sees the events and the answers only finds: a frame is
  scheduled only if damage was reported since the last scheduled frame and every frame scheduled before has
  been retired, under a serial newer than the last retired one (or the saturated counter), and with nothing in flight
  scheduling waits only without damage; a frame in flight is reported as such until it is retired by exactly its own
  serial; page-flip feedback is accepted exactly if its sequence is newer and its time not older than the last accepted one;
  outputs that were not discovered are answered as unknown. The serials in flight and retired lie below the clock
  of their output, and between any two moments no output disappears and the presented sequence, the
  presentation time and the retired serial never move backwards.
\<close>

theorem presentation_monotone:
  "presentation_inv (foldl presentation_step (presentation_from_outputs outputs) (es @ fs))
   \<and> presentation_progress (foldl presentation_step (presentation_from_outputs outputs) es)
       (foldl presentation_step (presentation_from_outputs outputs) (es @ fs))
   \<and> frames_ok (p \<in> dd_output ` set (drm_outputs outputs)) p view_initial
       (presentation_trace (presentation_from_outputs outputs) (es @ fs))"
proof -
  have "presentation_inv (foldl presentation_step (presentation_from_outputs outputs) es)"
    by (rule presentation.run_inv [OF presentation_initial])
  from presentation.run_inv [OF this, of fs] presentation.run_rel [OF this, of fs]
  show ?thesis using frames_scheduled_ok by simp
qed

text \<open>
  A frame is scheduled only for pending damage on an output with nothing in flight; it
  consumes the damage, takes the clock's next serial and, once feedback has arrived, targets the
  predicted next refresh; the same frame is retired by exactly its own serial, after which the
  output can be scheduled again as soon as there is new damage.
\<close>

theorem schedule_retire_cycle:
  assumes "presentation_schedule p r = (Scheduled tick, r')"
  shows "\<exists>s s'. bt_get (op_states r) p = Some s \<and> os_damage_pending s \<and> os_in_flight_frame s = None
    \<and> bt_get (op_states r') p = Some s' \<and> \<not> os_damage_pending s'
    \<and> os_in_flight_frame s' = Some (ct_frame_serial tick) \<and> ct_output tick = p
    \<and> (\<forall>t. os_next_target_msec s = Some t \<longrightarrow> ct_target_msec tick = t)
    \<and> fst (presentation_schedule p r') = WaitingForRetirement (ct_frame_serial tick)
    \<and> (\<forall>n. fst (presentation_retire p n r')
          = (if n = ct_frame_serial tick then Retired n else UnexpectedFrame (ct_frame_serial tick) n))
    \<and> fst (presentation_schedule p (snd (mark_damage p
             (snd (presentation_retire p (ct_frame_serial tick) r'))))) \<notin>
        {WaitingForDamage, WaitingForRetirement (ct_frame_serial tick), ScheduleUnknownOutput}"
proof -
  obtain s where s: "bt_get (op_states r) p = Some s" "os_damage_pending s" "os_in_flight_frame s = None"
    using assms by (auto simp: presentation_schedule_def split: option.splits if_splits)
  have p: "ct_output (fst (per_output_next_frame p c)) = p" for c
    by (simp add: per_output_next_frame_def det_next_frame_def split: option.splits)
  let ?s = "s\<lparr>os_damage_pending := False, os_in_flight_frame := Some (ct_frame_serial tick)\<rparr>"
  have r': "bt_get (op_states r') = (bt_get (op_states r))(p \<mapsto> ?s)"
    and tick: "ct_output tick = p" "\<forall>t. os_next_target_msec s = Some t \<longrightarrow> ct_target_msec tick = t"
    using assms s p [of "op_clocks r"]
    by (auto simp: presentation_schedule_def put_presentation_def bt_get_insert Let_def
        split: prod.splits option.splits simp del: fun_upd_apply)
  show ?thesis
    using s r' tick
    by (auto simp: presentation_schedule_def presentation_retire_def mark_damage_def
        put_presentation_def bt_get_insert Let_def split: prod.splits)
qed

definition example_presentation :: OutputPresentationRegistry where
  "example_presentation =
     \<lparr>op_states = [(1, \<lparr>os_output = 1, os_refresh_millihz = 60000, os_damage_pending = True,
        os_in_flight_frame = None, os_last_retired_frame = None, os_last_presented_sequence = None,
        os_last_presented_msec = None, os_next_target_msec = None, os_submit_deferrals = 0\<rparr>)],
      op_clocks = \<lparr>po_clocks = [(1, frame_clock_default)], po_fallback = frame_clock_default\<rparr>\<rparr>"

theorem schedule_retire_cycle_witness:
  "\<exists>tick r'. presentation_schedule 1 example_presentation = (Scheduled tick, r')
     \<and> fst (presentation_retire 1 (ct_frame_serial tick) r') = Retired (ct_frame_serial tick)"
proof -
  obtain tick r' where "presentation_schedule 1 example_presentation = (Scheduled tick, r')"
    by (simp add: presentation_schedule_def example_presentation_def Let_def case_prod_beta)
  then show ?thesis using schedule_retire_cycle by fastforce
qed

end
