(* ===== verification/Portal_Lifecycle.thy ===== *)
theory Portal_Lifecycle
  imports Protocol_Packets
begin

text \<open>
  The portal broker's bookkeeping (\<^verbatim>\<open>sophia-portal/src/lifecycle.rs\<close>, \<^verbatim>\<open>broker.rs\<close>): requests wait for
  a policy decision, an allowed request owns a grant, and grants end by completion, revocation or
  expiry. Methods on \<open>&mut self\<close> return their result with the next state; an \<open>Err\<close> can come with a
  changed state (a late or stale decision revokes the request).
\<close>

section \<open>State (lifecycle.rs)\<close>

definition PORTAL_ACTIVE_TRANSFER_CAPACITY :: nat where
  "PORTAL_ACTIVE_TRANSFER_CAPACITY = 64"

datatype PortalPolicyDecision = PolicyAllow | PolicyDeny

datatype PortalLifecycleError =
    InvalidRequest | DeadlineElapsed | CapacityExceeded | DuplicateTransfer | UnknownTransfer
  | NotPending | GrantNotActive | StaleSourceGeneration | InvalidBrokerGeneration

record PortalRequestGrantLifecycle =
  pl_broker_generation :: u64
  pl_capacity :: nat
  pl_requests :: "(PortalTransferId, PortalRequest) btree"
  pl_grants :: "(PortalTransferId, PortalGrant) btree"

type_synonym 'a lifecycle_result = "(PortalLifecycleError + 'a) \<times> PortalRequestGrantLifecycle"

definition with_capacity ::
  "u64 \<Rightarrow> nat \<Rightarrow> PortalLifecycleError + PortalRequestGrantLifecycle" where
  "with_capacity broker_generation capacity =
     (if broker_generation = 0 \<or> capacity = 0 then Inl InvalidBrokerGeneration
      else Inr \<lparr>pl_broker_generation = broker_generation, pl_capacity = capacity,
                pl_requests = [], pl_grants = []\<rparr>)"

definition lifecycle_new :: "u64 \<Rightarrow> PortalLifecycleError + PortalRequestGrantLifecycle" where
  "lifecycle_new broker_generation = with_capacity broker_generation PORTAL_ACTIVE_TRANSFER_CAPACITY"

abbreviation request_decision :: "PortalRequest \<Rightarrow> PortalDecision" where
  "request_decision r \<equiv> pt_decision (pr_transfer r)"

definition set_decision :: "PortalDecision \<Rightarrow> PortalRequest \<Rightarrow> PortalRequest" where
  "set_decision d r = r\<lparr>pr_transfer := (pr_transfer r)\<lparr>pt_decision := d\<rparr>\<rparr>"

definition valid_request :: "PortalRequest \<Rightarrow> bool" where
  "valid_request r =
     (let t = pr_transfer r in
      id_is_valid (pt_transfer t) \<and> id_is_valid (pt_source_namespace t)
      \<and> id_is_valid (pt_target_namespace t) \<and> pt_source_namespace t \<noteq> pt_target_namespace t
      \<and> pt_decision t = PdPending \<and> pt_generation t \<noteq> 0 \<and> pr_deadline_msec r \<noteq> 0)"

definition pending_or_active_count :: "PortalRequestGrantLifecycle \<Rightarrow> nat" where
  "pending_or_active_count l =
     length (filter (\<lambda>r. request_decision r = PdPending) (bt_values (pl_requests l)))
     + length (filter (\<lambda>g. pg_state g = GrActive) (bt_values (pl_grants l)))"

section \<open>Operations (lifecycle.rs)\<close>

definition submit ::
  "PortalRequest \<Rightarrow> u64 \<Rightarrow> PortalRequestGrantLifecycle \<Rightarrow> unit lifecycle_result" where
  "submit request now_msec l =
     (if \<not> valid_request request then (Inl InvalidRequest, l)
      else if pr_deadline_msec request \<le> now_msec then (Inl DeadlineElapsed, l)
      else if bt_contains (pl_requests l) (pt_transfer (pr_transfer request))
        then (Inl DuplicateTransfer, l)
      else if pl_capacity l \<le> pending_or_active_count l then (Inl CapacityExceeded, l)
      else (Inr (), l\<lparr>pl_requests :=
              bt_insert (pt_transfer (pr_transfer request)) request (pl_requests l)\<rparr>))"

definition mark_request ::
  "PortalTransferId \<Rightarrow> PortalDecision \<Rightarrow> PortalRequestGrantLifecycle \<Rightarrow> PortalRequestGrantLifecycle" where
  "mark_request transfer d l = l\<lparr>pl_requests := bt_update transfer (set_decision d) (pl_requests l)\<rparr>"

definition mark_grant ::
  "PortalTransferId \<Rightarrow> PortalGrantState \<Rightarrow> PortalRequestGrantLifecycle \<Rightarrow> PortalRequestGrantLifecycle" where
  "mark_grant transfer s l =
     l\<lparr>pl_grants := bt_update transfer (\<lambda>g. g\<lparr>pg_state := s\<rparr>) (pl_grants l)\<rparr>"

definition decide ::
  "PortalTransferId \<Rightarrow> PortalPolicyDecision \<Rightarrow> u64 \<Rightarrow> u64 \<Rightarrow> PortalRequestGrantLifecycle
     \<Rightarrow> PortalGrant option lifecycle_result" where
  "decide transfer decision source_generation now_msec l =
     (case bt_get (pl_requests l) transfer of
        None \<Rightarrow> (Inl UnknownTransfer, l)
      | Some request \<Rightarrow>
          if request_decision request \<noteq> PdPending then (Inl NotPending, l)
          else if pr_deadline_msec request \<le> now_msec
            then (Inl DeadlineElapsed, mark_request transfer PdRevoked l)
          else if pt_generation (pr_transfer request) \<noteq> source_generation
            then (Inl StaleSourceGeneration, mark_request transfer PdRevoked l)
          else (case decision of
              PolicyDeny \<Rightarrow> (Inr None, mark_request transfer PdDenied l)
            | PolicyAllow \<Rightarrow>
                let l1 = mark_request transfer PdAllowed l;
                    grant = \<lparr>pg_transfer = transfer,
                             pg_source_namespace = pt_source_namespace (pr_transfer request),
                             pg_target_namespace = pt_target_namespace (pr_transfer request),
                             pg_kind = pt_kind (pr_transfer request),
                             pg_source_generation = source_generation,
                             pg_broker_generation = pl_broker_generation l,
                             pg_deadline_msec = pr_deadline_msec request,
                             pg_state = GrActive\<rparr>;
                    l2 = l1\<lparr>pl_grants := bt_insert transfer grant (pl_grants l1)\<rparr> in
                (Inr (bt_get (pl_grants l2) transfer), l2)))"

text \<open>\<open>active_grant_mut\<close> followed by the assignment both callers make through the reference.\<close>

definition end_active_grant ::
  "PortalGrantState \<Rightarrow> PortalTransferId \<Rightarrow> PortalRequestGrantLifecycle \<Rightarrow> unit lifecycle_result" where
  "end_active_grant s transfer l =
     (case bt_get (pl_grants l) transfer of
        None \<Rightarrow> (Inl UnknownTransfer, l)
      | Some grant \<Rightarrow>
          if pg_state grant \<noteq> GrActive then (Inl GrantNotActive, l)
          else (Inr (), mark_grant transfer s l))"

definition complete :: "PortalTransferId \<Rightarrow> PortalRequestGrantLifecycle \<Rightarrow> unit lifecycle_result" where
  "complete = end_active_grant GrCompleted"

definition executor_failed :: "PortalTransferId \<Rightarrow> PortalRequestGrantLifecycle \<Rightarrow> unit lifecycle_result" where
  "executor_failed = end_active_grant GrRevoked"

text \<open>
  The loop that \<open>expire\<close> and \<open>revoke_where\<close> share: for every request that satisfies the predicate,
  in key order, an active grant ends in the given state, and a pending request without a grant is
  revoked; the touched transfers are collected. The first argument are the requests still to visit.
\<close>

fun sweep ::
  "(PortalTransferId \<times> PortalRequest) list \<Rightarrow> (PortalRequest \<Rightarrow> bool) \<Rightarrow> PortalGrantState
     \<Rightarrow> PortalRequestGrantLifecycle \<Rightarrow> PortalTransferId list \<times> PortalRequestGrantLifecycle" where
  "sweep [] pred end_state l = ([], l)"
| "sweep ((transfer, request) # rest) pred end_state l =
     (let (changed, l1) =
        (if \<not> pred request then (False, l)
         else case bt_get (pl_grants l) transfer of
            Some grant \<Rightarrow>
              if pg_state grant = GrActive then (True, mark_grant transfer end_state l) else (False, l)
          | None \<Rightarrow>
              if request_decision request = PdPending then (True, mark_request transfer PdRevoked l)
              else (False, l));
        (out, l2) = sweep rest pred end_state l1 in
      (if changed then transfer # out else out, l2))"

definition expire ::
  "u64 \<Rightarrow> PortalRequestGrantLifecycle \<Rightarrow> PortalTransferId list \<times> PortalRequestGrantLifecycle" where
  "expire now_msec l = sweep (pl_requests l) (\<lambda>r. pr_deadline_msec r \<le> now_msec) GrExpired l"

definition revoke_where ::
  "(PortalRequest \<Rightarrow> bool) \<Rightarrow> PortalRequestGrantLifecycle
     \<Rightarrow> PortalTransferId list \<times> PortalRequestGrantLifecycle" where
  "revoke_where pred l = sweep (pl_requests l) pred GrRevoked l"

definition source_owner_changed ::
  "NamespaceId \<Rightarrow> u64 \<Rightarrow> PortalRequestGrantLifecycle
     \<Rightarrow> PortalTransferId list \<times> PortalRequestGrantLifecycle" where
  "source_owner_changed source_namespace generation =
     revoke_where (\<lambda>r. pt_source_namespace (pr_transfer r) = source_namespace
                       \<and> pt_generation (pr_transfer r) \<noteq> generation)"

definition namespace_disconnected ::
  "NamespaceId \<Rightarrow> PortalRequestGrantLifecycle
     \<Rightarrow> PortalTransferId list \<times> PortalRequestGrantLifecycle" where
  "namespace_disconnected namespace =
     revoke_where (\<lambda>r. pt_source_namespace (pr_transfer r) = namespace
                       \<or> pt_target_namespace (pr_transfer r) = namespace)"

definition broker_restarted ::
  "u64 \<Rightarrow> PortalRequestGrantLifecycle \<Rightarrow> PortalTransferId list lifecycle_result" where
  "broker_restarted broker_generation l =
     (if broker_generation \<le> pl_broker_generation l then (Inl InvalidBrokerGeneration, l)
      else let (revoked, l1) = revoke_where (\<lambda>_. True) l in
        (Inr revoked, l1\<lparr>pl_broker_generation := broker_generation\<rparr>))"

section \<open>Deterministic broker (broker.rs)\<close>

datatype HeadlessPortalPolicy = HeadlessDeny | HeadlessAllow

definition headless_policy_default :: HeadlessPortalPolicy where
  "headless_policy_default = HeadlessDeny"

record PortalCapabilityAdmission =
  ad_source_may_publish :: bool
  ad_target_may_request :: bool

definition admission_allowed :: "PortalCapabilityAdmission \<Rightarrow> bool" where
  "admission_allowed a \<longleftrightarrow> ad_source_may_publish a \<and> ad_target_may_request a"

datatype PortalBrokerDecision = BrokerAllowed PortalGrant | BrokerDenied

record DeterministicPortalBroker =
  db_policy :: HeadlessPortalPolicy
  db_lifecycle :: PortalRequestGrantLifecycle

definition broker_new ::
  "u64 \<Rightarrow> HeadlessPortalPolicy \<Rightarrow> PortalLifecycleError + DeterministicPortalBroker" where
  "broker_new broker_generation policy =
     bind_res (lifecycle_new broker_generation) (\<lambda>l. Inr \<lparr>db_policy = policy, db_lifecycle = l\<rparr>)"

definition broker_request ::
  "PortalRequest \<Rightarrow> PortalCapabilityAdmission \<Rightarrow> u64 \<Rightarrow> DeterministicPortalBroker
     \<Rightarrow> (PortalLifecycleError + PortalBrokerDecision) \<times> DeterministicPortalBroker" where
  "broker_request request admission now_msec b =
     (let transfer = pt_transfer (pr_transfer request);
          source_generation = pt_generation (pr_transfer request) in
      case submit request now_msec (db_lifecycle b) of
        (Inl e, l1) \<Rightarrow> (Inl e, b\<lparr>db_lifecycle := l1\<rparr>)
      | (Inr _, l1) \<Rightarrow>
          let allow = admission_allowed admission \<and> db_policy b = HeadlessAllow in
          (case decide transfer (if allow then PolicyAllow else PolicyDeny) source_generation now_msec l1 of
             (Inl e, l2) \<Rightarrow> (Inl e, b\<lparr>db_lifecycle := l2\<rparr>)
           | (Inr None, l2) \<Rightarrow> (Inr BrokerDenied, b\<lparr>db_lifecycle := l2\<rparr>)
           | (Inr (Some grant), l2) \<Rightarrow> (Inr (BrokerAllowed grant), b\<lparr>db_lifecycle := l2\<rparr>)))"

definition broker_complete ::
  "PortalTransferId \<Rightarrow> DeterministicPortalBroker
     \<Rightarrow> (PortalLifecycleError + unit) \<times> DeterministicPortalBroker" where
  "broker_complete transfer b =
     (let (r, l) = complete transfer (db_lifecycle b) in (r, b\<lparr>db_lifecycle := l\<rparr>))"

definition broker_executor_failed ::
  "PortalTransferId \<Rightarrow> DeterministicPortalBroker
     \<Rightarrow> (PortalLifecycleError + unit) \<times> DeterministicPortalBroker" where
  "broker_executor_failed transfer b =
     (let (r, l) = executor_failed transfer (db_lifecycle b) in (r, b\<lparr>db_lifecycle := l\<rparr>))"

section \<open>Invariant and history\<close>

text \<open>
  What is recorded under one transfer id: a request keyed by its own id, and a grant exactly when the
  request was allowed, copied from that request and issued by a broker generation that is not newer
  than the current one; an active grant is of the current generation.
\<close>

definition grant_matches :: "PortalTransferId \<Rightarrow> PortalRequest \<Rightarrow> PortalGrant \<Rightarrow> bool" where
  "grant_matches t r g \<longleftrightarrow>
     pg_transfer g = t \<and> pg_source_namespace g = pt_source_namespace (pr_transfer r)
     \<and> pg_target_namespace g = pt_target_namespace (pr_transfer r) \<and> pg_kind g = pt_kind (pr_transfer r)
     \<and> pg_source_generation g = pt_generation (pr_transfer r) \<and> pg_deadline_msec g = pr_deadline_msec r"

definition entry_ok ::
  "u64 \<Rightarrow> PortalTransferId \<Rightarrow> PortalRequest option \<Rightarrow> PortalGrant option \<Rightarrow> bool" where
  "entry_ok bg t req gr =
     (case req of
        None \<Rightarrow> gr = None
      | Some r \<Rightarrow> pt_transfer (pr_transfer r) = t \<and> valid_request (set_decision PdPending r)
          \<and> (case gr of
               None \<Rightarrow> request_decision r \<noteq> PdAllowed
             | Some g \<Rightarrow> request_decision r = PdAllowed \<and> grant_matches t r g
                 \<and> pg_broker_generation g \<le> bg \<and> (pg_state g = GrActive \<longrightarrow> pg_broker_generation g = bg)))"

definition entry_live :: "PortalRequest option \<Rightarrow> PortalGrant option \<Rightarrow> bool" where
  "entry_live req gr \<longleftrightarrow>
     (\<exists>r. req = Some r \<and> request_decision r = PdPending) \<or> (\<exists>g. gr = Some g \<and> pg_state g = GrActive)"

definition live :: "PortalRequestGrantLifecycle \<Rightarrow> PortalTransferId \<Rightarrow> bool" where
  "live l t = entry_live (bt_get (pl_requests l) t) (bt_get (pl_grants l) t)"

definition lifecycle_inv :: "PortalRequestGrantLifecycle \<Rightarrow> bool" where
  "lifecycle_inv l \<longleftrightarrow>
     bt_wf (pl_requests l) \<and> bt_wf (pl_grants l)
     \<and> (\<forall>t. entry_ok (pl_broker_generation l) t (bt_get (pl_requests l) t) (bt_get (pl_grants l) t))
     \<and> pending_or_active_count l \<le> pl_capacity l"

text \<open>
  History: a request keeps its content and its first decision, a grant keeps its content and its
  first final state, and a transfer decided without a grant never gets one.
\<close>

definition request_progress :: "PortalRequest \<Rightarrow> PortalRequest \<Rightarrow> bool" where
  "request_progress r r' \<longleftrightarrow>
     r' = set_decision (request_decision r') r \<and> (request_decision r \<noteq> PdPending \<longrightarrow> r' = r)"

definition grant_progress :: "PortalGrant \<Rightarrow> PortalGrant \<Rightarrow> bool" where
  "grant_progress g g' \<longleftrightarrow>
     g' = g\<lparr>pg_state := pg_state g'\<rparr> \<and> (pg_state g \<noteq> GrActive \<longrightarrow> g' = g)"

definition entry_progress ::
  "PortalRequest option \<Rightarrow> PortalGrant option \<Rightarrow> PortalRequest option \<Rightarrow> PortalGrant option \<Rightarrow> bool" where
  "entry_progress req gr req' gr' =
     (case req of
        None \<Rightarrow> True
      | Some r \<Rightarrow> (\<exists>r'. req' = Some r' \<and> request_progress r r')
          \<and> (case gr of
               None \<Rightarrow> request_decision r \<noteq> PdPending \<longrightarrow> gr' = None
             | Some g \<Rightarrow> \<exists>g'. gr' = Some g' \<and> grant_progress g g'))"

definition lifecycle_progress ::
  "PortalRequestGrantLifecycle \<Rightarrow> PortalRequestGrantLifecycle \<Rightarrow> bool" where
  "lifecycle_progress l l' \<longleftrightarrow>
     pl_capacity l' = pl_capacity l \<and> pl_broker_generation l \<le> pl_broker_generation l'
     \<and> (\<forall>t. entry_progress (bt_get (pl_requests l) t) (bt_get (pl_grants l) t)
                           (bt_get (pl_requests l') t) (bt_get (pl_grants l') t))"

lemma set_decision_simps [simp]:
  "request_decision (set_decision d r) = d"
  "set_decision d (set_decision d' r) = set_decision d r"
  "set_decision (request_decision r) r = r"
  "pt_transfer (pr_transfer (set_decision d r)) = pt_transfer (pr_transfer r)"
  "pr_deadline_msec (set_decision d r) = pr_deadline_msec r"
  "grant_matches t (set_decision d r) g = grant_matches t r g"
  by (simp_all add: set_decision_def grant_matches_def)

lemma entry_progress_refl [simp]: "entry_progress req gr req gr"
  by (auto simp: entry_progress_def request_progress_def grant_progress_def split: option.splits)

lemma request_progress_trans: "request_progress a b \<Longrightarrow> request_progress b c \<Longrightarrow> request_progress a c"
  by (metis request_progress_def set_decision_simps(2))

lemma grant_progress_trans: "grant_progress a b \<Longrightarrow> grant_progress b c \<Longrightarrow> grant_progress a c"
  unfolding grant_progress_def by (cases a; cases b; cases c) auto

lemma entry_progress_trans:
  "entry_progress a b c d \<Longrightarrow> entry_progress c d e f \<Longrightarrow> entry_progress a b e f"
  by (cases a; cases b; cases c; cases d)
     (auto simp: entry_progress_def request_progress_def
       intro: request_progress_trans grant_progress_trans)

lemma lifecycle_progress_refl: "lifecycle_progress l l"
  by (simp add: lifecycle_progress_def)

lemma lifecycle_progress_trans:
  "lifecycle_progress l m \<Longrightarrow> lifecycle_progress m n \<Longrightarrow> lifecycle_progress l n"
  unfolding lifecycle_progress_def by (auto intro: entry_progress_trans)

text \<open>Under the invariant, the two counters count each live transfer once.\<close>

lemma count_live:
  assumes "bt_wf (pl_requests l)" "bt_wf (pl_grants l)"
    and "\<And>t. entry_ok bg t (bt_get (pl_requests l) t) (bt_get (pl_grants l) t)"
  shows "pending_or_active_count l = card {t. live l t}"
proof -
  let ?P = "{t. \<exists>r. bt_get (pl_requests l) t = Some r \<and> request_decision r = PdPending}"
  let ?A = "{t. \<exists>g. bt_get (pl_grants l) t = Some g \<and> pg_state g = GrActive}"
  have "?P \<inter> ?A = {}"
    using assms(3) by (fastforce simp: entry_ok_def split: option.splits)
  then have "card (?P \<union> ?A) = card ?P + card ?A"
    by (simp add: card_Un_disjoint)
  moreover have "?P \<union> ?A = {t. live l t}"
    by (auto simp: live_def entry_live_def)
  ultimately show ?thesis
    using assms(1,2) by (simp add: pending_or_active_count_def bt_count)
qed

lemmas lifecycle_count = count_live [where bg = "pl_broker_generation l" for l]

text \<open>The shape of all operations but submission: per-transfer steps that make nothing live.\<close>

lemma local_step:
  assumes inv: "lifecycle_inv l"
    and wf: "bt_wf (pl_requests l')" "bt_wf (pl_grants l')" "pl_capacity l' = pl_capacity l"
    and gen: "pl_broker_generation l \<le> pl_broker_generation l'"
    and step: "\<And>t. entry_ok (pl_broker_generation l) t (bt_get (pl_requests l) t) (bt_get (pl_grants l) t) \<Longrightarrow>
        entry_ok (pl_broker_generation l') t (bt_get (pl_requests l') t) (bt_get (pl_grants l') t)
        \<and> entry_progress (bt_get (pl_requests l) t) (bt_get (pl_grants l) t)
                         (bt_get (pl_requests l') t) (bt_get (pl_grants l') t)
        \<and> (live l' t \<longrightarrow> live l t)"
  shows "lifecycle_inv l' \<and> lifecycle_progress l l'"
proof -
  have ok: "entry_ok (pl_broker_generation l) t (bt_get (pl_requests l) t) (bt_get (pl_grants l) t)" for t
    using inv by (simp add: lifecycle_inv_def)
  have "card {t. live l' t} \<le> card {t. live l t}"
    using step [OF ok] by (auto intro: card_mono)
  moreover have "pending_or_active_count l' = card {t. live l' t}"
    using wf step [OF ok] by (intro count_live) auto
  moreover have "pending_or_active_count l = card {t. live l t}"
    using inv by (intro lifecycle_count) (auto simp: lifecycle_inv_def)
  ultimately show ?thesis
    using inv wf gen step [OF ok] by (simp add: lifecycle_inv_def lifecycle_progress_def)
qed

section \<open>Every operation keeps the invariant and the history\<close>

lemmas entry_defs = entry_ok_def entry_progress_def entry_live_def live_def request_progress_def
  grant_progress_def

lemma submit_ok:
  assumes "lifecycle_inv l"
  shows "lifecycle_inv (snd (submit r now l)) \<and> lifecycle_progress l (snd (submit r now l))"
proof (cases "fst (submit r now l) = Inr ()")
  case False
  then have "snd (submit r now l) = l" by (auto simp: submit_def split: if_splits)
  then show ?thesis using assms by (simp add: lifecycle_progress_refl)
next
  case True
  let ?t = "pt_transfer (pr_transfer r)"
  have v: "valid_request r" and n: "bt_get (pl_requests l) ?t = None"
    and c: "pending_or_active_count l < pl_capacity l"
    and l': "snd (submit r now l) = l\<lparr>pl_requests := bt_insert ?t r (pl_requests l)\<rparr>"
    using True by (auto simp: submit_def bt_contains_def split: if_splits)
  have p: "request_decision r = PdPending" using v by (simp add: valid_request_def Let_def)
  have ok: "entry_ok (pl_broker_generation l) t (bt_get (pl_requests l) t) (bt_get (pl_grants l) t)" for t
    using assms by (simp add: lifecycle_inv_def)
  have g: "bt_get (pl_grants l) ?t = None" using ok [of ?t] n by (simp add: entry_ok_def)
  define l2 where "l2 = l\<lparr>pl_requests := bt_insert ?t r (pl_requests l)\<rparr>"
  have wf: "bt_wf (pl_requests l2)" "bt_wf (pl_grants l2)"
    using assms by (auto simp: l2_def lifecycle_inv_def)
  have v': "valid_request (set_decision PdPending r)"
    using v p by (metis set_decision_simps(3))
  have ok2: "entry_ok (pl_broker_generation l) t (bt_get (pl_requests l2) t) (bt_get (pl_grants l2) t)" for t
    using ok [of t] v' g p by (auto simp: l2_def bt_get_insert entry_ok_def)
  have "live l2 t \<Longrightarrow> t = ?t \<or> live l t" for t
    by (auto simp: live_def entry_live_def l2_def bt_get_insert split: if_splits)
  then have "card {t. live l2 t} \<le> card (insert ?t {t. live l t})"
    by (intro card_mono) auto
  also have "\<dots> \<le> Suc (card {t. live l t})" by (rule card_insert_le_m1) simp_all
  also have "card {t. live l t} = pending_or_active_count l"
    using assms ok by (intro count_live [symmetric]) (auto simp: lifecycle_inv_def)
  finally have "pending_or_active_count l2 \<le> pl_capacity l"
    using c count_live [OF wf ok2] by simp
  moreover have "entry_progress (bt_get (pl_requests l) t) (bt_get (pl_grants l) t)
       (bt_get (pl_requests l2) t) (bt_get (pl_grants l2) t)" for t
    using n by (cases "t = ?t") (simp_all add: l2_def bt_get_insert entry_progress_def [of None])
  ultimately show ?thesis
    using wf ok2 l' by (simp add: l2_def lifecycle_inv_def lifecycle_progress_def)
qed

lemma mark_request_ok:
  assumes "lifecycle_inv l" "bt_get (pl_requests l) t = Some r" "request_decision r = PdPending" "d \<noteq> PdAllowed"
  shows "lifecycle_inv (mark_request t d l) \<and> lifecycle_progress l (mark_request t d l)"
proof (rule local_step [OF assms(1)])
  fix t'
  assume "entry_ok (pl_broker_generation l) t' (bt_get (pl_requests l) t') (bt_get (pl_grants l) t')"
  then show "entry_ok (pl_broker_generation (mark_request t d l)) t' (bt_get (pl_requests (mark_request t d l)) t')
         (bt_get (pl_grants (mark_request t d l)) t')
      \<and> entry_progress (bt_get (pl_requests l) t') (bt_get (pl_grants l) t')
         (bt_get (pl_requests (mark_request t d l)) t') (bt_get (pl_grants (mark_request t d l)) t')
      \<and> (live (mark_request t d l) t' \<longrightarrow> live l t')"
    using assms(2-4) by (cases "t' = t") (auto simp: mark_request_def bt_get_update entry_defs split: option.splits)
qed (use assms(1) in \<open>auto simp: mark_request_def lifecycle_inv_def\<close>)

lemma mark_grant_ok:
  assumes "lifecycle_inv l" "bt_get (pl_grants l) t = Some g" "pg_state g = GrActive" "s \<noteq> GrActive"
  shows "lifecycle_inv (mark_grant t s l) \<and> lifecycle_progress l (mark_grant t s l)"
proof (rule local_step [OF assms(1)])
  fix t'
  assume "entry_ok (pl_broker_generation l) t' (bt_get (pl_requests l) t') (bt_get (pl_grants l) t')"
  then show "entry_ok (pl_broker_generation (mark_grant t s l)) t' (bt_get (pl_requests (mark_grant t s l)) t')
         (bt_get (pl_grants (mark_grant t s l)) t')
      \<and> entry_progress (bt_get (pl_requests l) t') (bt_get (pl_grants l) t')
         (bt_get (pl_requests (mark_grant t s l)) t') (bt_get (pl_grants (mark_grant t s l)) t')
      \<and> (live (mark_grant t s l) t' \<longrightarrow> live l t')"
    using assms(2-4)
    by (cases "t' = t") (auto simp: mark_grant_def bt_get_update entry_defs grant_matches_def split: option.splits)
qed (use assms(1) in \<open>auto simp: mark_grant_def lifecycle_inv_def\<close>)

lemma allow_ok:
  assumes "lifecycle_inv l" "bt_get (pl_requests l) t = Some r" "request_decision r = PdPending"
    and g: "grant_matches t r g" "pg_broker_generation g = pl_broker_generation l" "pg_state g = GrActive"
    and l': "l' = mark_request t PdAllowed l\<lparr>pl_grants := bt_insert t g (pl_grants l)\<rparr>"
  shows "lifecycle_inv l' \<and> lifecycle_progress l l'"
proof (rule local_step [OF assms(1)])
  fix t'
  assume "entry_ok (pl_broker_generation l) t' (bt_get (pl_requests l) t') (bt_get (pl_grants l) t')"
  then show "entry_ok (pl_broker_generation l') t' (bt_get (pl_requests l') t') (bt_get (pl_grants l') t')
      \<and> entry_progress (bt_get (pl_requests l) t') (bt_get (pl_grants l) t')
         (bt_get (pl_requests l') t') (bt_get (pl_grants l') t')
      \<and> (live l' t' \<longrightarrow> live l t')"
    using assms(2,3) g
    by (cases "t' = t") (auto simp: l' mark_request_def bt_get_update bt_get_insert entry_defs split: option.splits)
qed (use assms(1) in \<open>auto simp: l' mark_request_def lifecycle_inv_def\<close>)

lemma decide_ok:
  assumes "lifecycle_inv l"
  shows "lifecycle_inv (snd (decide t d g now l)) \<and> lifecycle_progress l (snd (decide t d g now l))"
proof (cases "bt_get (pl_requests l) t")
  case None
  then show ?thesis using assms by (simp add: decide_def lifecycle_progress_refl)
next
  case (Some r)
  show ?thesis
  proof (cases "request_decision r = PdPending")
    case True
    note m = mark_request_ok [OF assms Some True]
    have a: "lifecycle_inv l' \<and> lifecycle_progress l l'"
      if "\<not> pr_deadline_msec r \<le> now" "pt_generation (pr_transfer r) = g" "d = PolicyAllow"
        "l' = snd (decide t d g now l)" for l'
      using that Some True
      by (intro allow_ok [OF assms Some True, where g = "the (bt_get (pl_grants l') t)"])
         (auto simp: decide_def Let_def grant_matches_def bt_get_insert mark_request_def)
    show ?thesis
      using m [of PdRevoked] m [of PdDenied] a Some True
      by (cases d) (auto simp: decide_def split: if_splits)
  qed (use assms Some in \<open>simp add: decide_def lifecycle_progress_refl\<close>)
qed

lemma end_active_grant_ok:
  assumes "lifecycle_inv l" "s \<noteq> GrActive"
  shows "lifecycle_inv (snd (end_active_grant s t l)) \<and> lifecycle_progress l (snd (end_active_grant s t l))"
  using assms mark_grant_ok [OF assms(1) _ _ assms(2)]
  by (cases "bt_get (pl_grants l) t") (auto simp: end_active_grant_def lifecycle_progress_refl)

lemma sweep_ok:
  "lifecycle_inv l \<Longrightarrow> s \<noteq> GrActive \<Longrightarrow> distinct (map fst rest) \<Longrightarrow>
   (\<And>t r. (t, r) \<in> set rest \<Longrightarrow> bt_get (pl_requests l) t = Some r) \<Longrightarrow>
   lifecycle_inv (snd (sweep rest p s l)) \<and> lifecycle_progress l (snd (sweep rest p s l))"
proof (induction rest arbitrary: l)
  case (Cons e rest)
  obtain t r where e: "e = (t, r)" by force
  have r: "bt_get (pl_requests l) t = Some r" using Cons.prems(4) e by auto
  define l1 where "l1 = (if \<not> p r then l
      else case bt_get (pl_grants l) t of
         Some g \<Rightarrow> if pg_state g = GrActive then mark_grant t s l else l
       | None \<Rightarrow> if request_decision r = PdPending then mark_request t PdRevoked l else l)"
  have out: "snd (sweep (e # rest) p s l) = snd (sweep rest p s l1)"
    by (auto simp: e l1_def Let_def split: prod.splits option.splits)
  have 1: "lifecycle_inv l1 \<and> lifecycle_progress l l1"
    using Cons.prems(1,2) mark_request_ok [OF Cons.prems(1) r] mark_grant_ok [OF Cons.prems(1)]
    by (auto simp: l1_def lifecycle_progress_refl split: option.splits)
  have "bt_get (pl_requests l1) t' = Some r'" if "(t', r') \<in> set rest" for t' r'
    using Cons.prems(3,4) that
    by (force simp: e l1_def mark_grant_def mark_request_def bt_get_update split: option.splits)
  then have "lifecycle_inv (snd (sweep rest p s l1)) \<and> lifecycle_progress l1 (snd (sweep rest p s l1))"
    using Cons 1 by simp
  then show ?case using 1 out by (auto intro: lifecycle_progress_trans)
qed (simp add: lifecycle_progress_refl)

lemma sweep_all_ok:
  assumes "lifecycle_inv l" "s \<noteq> GrActive"
  shows "lifecycle_inv (snd (sweep (pl_requests l) p s l))
    \<and> lifecycle_progress l (snd (sweep (pl_requests l) p s l))"
  using assms by (intro sweep_ok) (auto simp: lifecycle_inv_def bt_wf_entry dest: bt_wf_distinct)

section \<open>What a sweep does\<close>

text \<open>The effect of a sweep on one transfer, and the transfers it reports.\<close>

definition swept ::
  "(PortalRequest \<Rightarrow> bool) \<Rightarrow> PortalGrantState \<Rightarrow> PortalRequest \<Rightarrow> PortalGrant option
     \<Rightarrow> PortalRequest \<times> PortalGrant option" where
  "swept p s r gr =
     (if p r \<and> entry_live (Some r) gr then
        (case gr of
           Some g \<Rightarrow> (r, Some (g\<lparr>pg_state := s\<rparr>))
         | None \<Rightarrow> (set_decision PdRevoked r, None))
      else (r, gr))"

lemma sweep_generation: "pl_broker_generation (snd (sweep rest p s l)) = pl_broker_generation l"
proof (induction rest p s l rule: sweep.induct)
  case (2 t r rest p s l)
  then show ?case
    by (cases "bt_get (pl_grants l) t")
       (auto simp: Let_def mark_request_def mark_grant_def split: prod.splits if_splits)
qed simp

lemma sweep_entries:
  assumes "distinct (map fst rest)"
    and "\<And>t r. (t, r) \<in> set rest \<Longrightarrow>
           bt_get (pl_requests l) t = Some r \<and> entry_ok bg t (Some r) (bt_get (pl_grants l) t)"
    and "sweep rest p s l = (out, l')"
  shows "(\<forall>t. (bt_get (pl_requests l') t, bt_get (pl_grants l') t) =
         (case map_of rest t of
            None \<Rightarrow> (bt_get (pl_requests l) t, bt_get (pl_grants l) t)
          | Some r \<Rightarrow> map_prod Some id (swept p s r (bt_get (pl_grants l) t))))
    \<and> out = map fst (filter (\<lambda>(t, r). p r \<and> entry_live (Some r) (bt_get (pl_grants l) t)) rest)"
  using assms
proof (induction rest arbitrary: l out)
  case (Cons e rest)
  obtain t r where e: "e = (t, r)" by force
  define go where "go \<longleftrightarrow> p r \<and> entry_live (Some r) (bt_get (pl_grants l) t)"
  have r: "bt_get (pl_requests l) t = Some r" "entry_ok bg t (Some r) (bt_get (pl_grants l) t)"
    using Cons.prems(2) e by auto
  define l1 where "l1 = (if \<not> go then l
      else if bt_get (pl_grants l) t = None then mark_request t PdRevoked l else mark_grant t s l)"
  obtain out1 where s1: "sweep rest p s l1 = (out1, l')" and out: "out = (if go then t # out1 else out1)"
    using Cons.prems(3) r(2)
    by (auto simp: e l1_def go_def entry_live_def entry_ok_def Let_def
        split: prod.splits option.splits if_splits)
  have t: "map_of rest t = None" using Cons.prems(1) by (simp add: e map_of_eq_None_iff)
  have same: "bt_get (pl_requests l1) t' = bt_get (pl_requests l) t'"
    "bt_get (pl_grants l1) t' = bt_get (pl_grants l) t'" if "t' \<noteq> t" for t'
    using that by (simp_all add: l1_def mark_request_def mark_grant_def bt_get_update)
  have here: "(bt_get (pl_requests l1) t, bt_get (pl_grants l1) t)
      = map_prod Some id (swept p s r (bt_get (pl_grants l) t))"
    using r(1) by (cases "bt_get (pl_grants l) t")
      (auto simp: l1_def go_def swept_def mark_request_def mark_grant_def bt_get_update)
  have rest: "t' \<noteq> t" if "(t', r') \<in> set rest" for t' r'
    using Cons.prems(1) that by (force simp: e)
  have "filter (\<lambda>(t', r'). p r' \<and> entry_live (Some r') (bt_get (pl_grants l1) t')) rest
      = filter (\<lambda>(t', r'). p r' \<and> entry_live (Some r') (bt_get (pl_grants l) t')) rest"
    using same(2) rest by (intro filter_cong) auto
  moreover have pr: "bt_get (pl_requests l1) t' = Some r' \<and> entry_ok bg t' (Some r') (bt_get (pl_grants l1) t')"
    if "(t', r') \<in> set rest" for t' r'
    using Cons.prems(2) [of t' r'] that rest [OF that] same [of t'] by simp
  ultimately show ?case
    using Cons.IH [OF _ pr s1] Cons.prems(1) same here t out
    by (auto simp: e go_def split: option.splits)
qed simp

definition selected :: "(PortalRequest \<Rightarrow> bool) \<Rightarrow> PortalRequestGrantLifecycle \<Rightarrow> PortalTransferId \<Rightarrow> bool" where
  "selected p l t \<longleftrightarrow> (\<exists>r. bt_get (pl_requests l) t = Some r \<and> p r)"

text \<open>
  A sweep ends exactly the live transfers that its predicate selects, reports them in ascending
  order, and leaves every other transfer alone.
\<close>

lemma sweep_exact:
  assumes inv: "lifecycle_inv l" and s: "s \<noteq> GrActive" "sweep (pl_requests l) p s l = (out, l')"
  shows "sorted_wrt (<) out"
    and "t \<in> set out \<longleftrightarrow> live l t \<and> selected p l t"
    and "live l' t \<longleftrightarrow> live l t \<and> \<not> selected p l t"
    and "t \<notin> set out \<Longrightarrow> bt_get (pl_requests l') t = bt_get (pl_requests l) t
                        \<and> bt_get (pl_grants l') t = bt_get (pl_grants l) t"
    and "t \<in> set out \<Longrightarrow> bt_get (pl_grants l) t = Some g \<Longrightarrow>
           bt_get (pl_grants l') t = Some (g\<lparr>pg_state := s\<rparr>)"
proof -
  let ?bg = "pl_broker_generation l"
  have wf: "bt_wf (pl_requests l)" and ok: "\<And>t. entry_ok ?bg t (bt_get (pl_requests l) t) (bt_get (pl_grants l) t)"
    using inv by (auto simp: lifecycle_inv_def)
  have "bt_get (pl_requests l) t = Some r \<and> entry_ok ?bg t (Some r) (bt_get (pl_grants l) t)"
    if "(t, r) \<in> set (pl_requests l)" for t r
    using that ok [of t] by (simp add: bt_wf_entry [OF wf])
  note sp = sweep_entries [OF bt_wf_distinct [OF wf] this s(2)]
  have out: "out = map fst (filter (\<lambda>(t, r). p r \<and> entry_live (Some r) (bt_get (pl_grants l) t)) (pl_requests l))"
    using sp by simp
  have "sorted_wrt (<) (map fst (filter q (pl_requests l)))" for q
    using wf by (simp add: bt_wf_def sorted_wrt_map sorted_wrt_filter)
  then show "sorted_wrt (<) out" by (simp add: out)
  have mem: "t \<in> set out \<longleftrightarrow> live l t \<and> selected p l t" for t
  proof -
    have "t \<in> set out \<longleftrightarrow> (\<exists>r. bt_get (pl_requests l) t = Some r \<and> p r \<and> entry_live (Some r) (bt_get (pl_grants l) t))"
      by (force simp: out simp flip: bt_wf_entry [OF wf])
    then show ?thesis by (auto simp: live_def selected_def)
  qed
  then show "t \<in> set out \<longleftrightarrow> live l t \<and> selected p l t" .
  have e: "(bt_get (pl_requests l') t, bt_get (pl_grants l') t) =
         (case bt_get (pl_requests l) t of
            None \<Rightarrow> (None, bt_get (pl_grants l) t)
          | Some r \<Rightarrow> map_prod Some id (swept p s r (bt_get (pl_grants l) t)))"
    using sp by (auto split: option.splits)
  show "live l' t \<longleftrightarrow> live l t \<and> \<not> selected p l t"
    using e s(1) ok [of t]
    by (cases "bt_get (pl_requests l) t"; cases "bt_get (pl_grants l) t")
       (auto simp: live_def selected_def swept_def entry_live_def entry_ok_def split: if_splits)
  show "t \<notin> set out \<Longrightarrow> bt_get (pl_requests l') t = bt_get (pl_requests l) t
                        \<and> bt_get (pl_grants l') t = bt_get (pl_grants l) t"
    using e unfolding mem by (auto simp: live_def selected_def swept_def split: option.splits)
  show "t \<in> set out \<Longrightarrow> bt_get (pl_grants l) t = Some g \<Longrightarrow>
           bt_get (pl_grants l') t = Some (g\<lparr>pg_state := s\<rparr>)"
    using e unfolding mem by (auto simp: live_def selected_def swept_def split: option.splits)
qed

lemma broker_restarted_ok:
  assumes "lifecycle_inv l"
  shows "lifecycle_inv (snd (broker_restarted g l)) \<and> lifecycle_progress l (snd (broker_restarted g l))"
proof (cases "g \<le> pl_broker_generation l")
  case True
  then show ?thesis using assms by (simp add: broker_restarted_def lifecycle_progress_refl)
next
  case False
  obtain out l1 where s: "sweep (pl_requests l) (\<lambda>_. True) GrRevoked l = (out, l1)" by force
  have 1: "lifecycle_inv l1 \<and> lifecycle_progress l l1"
    using sweep_all_ok [OF assms, of GrRevoked "\<lambda>_. True"] s by simp
  have gen: "pl_broker_generation l1 = pl_broker_generation l"
    using sweep_generation [of "pl_requests l" "\<lambda>_. True" GrRevoked l] s by simp
  have live1: "live l1 t \<longleftrightarrow> live l t \<and> \<not> selected (\<lambda>_. True) l t" for t
    by (rule sweep_exact(3) [OF assms _ s]) simp
  have ok0: "entry_ok (pl_broker_generation l) t (bt_get (pl_requests l) t) (bt_get (pl_grants l) t)" for t
    using assms by (simp add: lifecycle_inv_def)
  have dead: "\<not> live l1 t" for t
    using live1 [of t] ok0 [of t]
    by (cases "bt_get (pl_requests l) t") (auto simp: selected_def live_def entry_live_def entry_ok_def)
  have "lifecycle_inv (l1\<lparr>pl_broker_generation := g\<rparr>) \<and> lifecycle_progress l1 (l1\<lparr>pl_broker_generation := g\<rparr>)"
  proof (rule local_step)
    fix t
    assume "entry_ok (pl_broker_generation l1) t (bt_get (pl_requests l1) t) (bt_get (pl_grants l1) t)"
    then show "entry_ok (pl_broker_generation (l1\<lparr>pl_broker_generation := g\<rparr>)) t
          (bt_get (pl_requests (l1\<lparr>pl_broker_generation := g\<rparr>)) t) (bt_get (pl_grants (l1\<lparr>pl_broker_generation := g\<rparr>)) t)
        \<and> entry_progress (bt_get (pl_requests l1) t) (bt_get (pl_grants l1) t)
          (bt_get (pl_requests (l1\<lparr>pl_broker_generation := g\<rparr>)) t) (bt_get (pl_grants (l1\<lparr>pl_broker_generation := g\<rparr>)) t)
        \<and> (live (l1\<lparr>pl_broker_generation := g\<rparr>) t \<longrightarrow> live l1 t)"
      using dead [of t] gen False
      by (auto simp: entry_ok_def live_def entry_live_def split: option.splits)
  qed (use 1 gen False in \<open>auto simp: lifecycle_inv_def\<close>)
  then show ?thesis
    using 1 s False by (auto simp: broker_restarted_def revoke_where_def intro: lifecycle_progress_trans)
qed

section \<open>The lifecycle as a machine\<close>

datatype lifecycle_event =
    EvSubmit PortalRequest u64
  | EvDecide PortalTransferId PortalPolicyDecision u64 u64
  | EvComplete PortalTransferId
  | EvExecutorFailed PortalTransferId
  | EvExpire u64
  | EvSourceOwnerChanged NamespaceId u64
  | EvNamespaceDisconnected NamespaceId
  | EvBrokerRestarted u64

fun lifecycle_step :: "PortalRequestGrantLifecycle \<Rightarrow> lifecycle_event \<Rightarrow> PortalRequestGrantLifecycle" where
  "lifecycle_step l (EvSubmit r now) = snd (submit r now l)"
| "lifecycle_step l (EvDecide t d g now) = snd (decide t d g now l)"
| "lifecycle_step l (EvComplete t) = snd (complete t l)"
| "lifecycle_step l (EvExecutorFailed t) = snd (executor_failed t l)"
| "lifecycle_step l (EvExpire now) = snd (expire now l)"
| "lifecycle_step l (EvSourceOwnerChanged n g) = snd (source_owner_changed n g l)"
| "lifecycle_step l (EvNamespaceDisconnected n) = snd (namespace_disconnected n l)"
| "lifecycle_step l (EvBrokerRestarted g) = snd (broker_restarted g l)"

lemma lifecycle_step_ok:
  "lifecycle_inv l \<Longrightarrow> lifecycle_inv (lifecycle_step l e) \<and> lifecycle_progress l (lifecycle_step l e)"
  by (cases e)
     (simp_all add: submit_ok decide_ok end_active_grant_ok complete_def executor_failed_def sweep_all_ok
        expire_def source_owner_changed_def namespace_disconnected_def revoke_where_def broker_restarted_ok)

interpretation lifecycle: history_machine lifecycle_step lifecycle_inv lifecycle_progress
  by unfold_locales
     (auto simp: lifecycle_step_ok lifecycle_progress_refl intro: lifecycle_progress_trans)

lemma with_capacity_inv: "with_capacity g c = Inr l \<Longrightarrow> lifecycle_inv l \<and> pl_capacity l = c"
  by (auto simp: with_capacity_def lifecycle_inv_def entry_ok_def pending_or_active_count_def bt_values_def
      split: if_splits)

lemma reachable_inv: "with_capacity g c = Inr l0 \<Longrightarrow> lifecycle_inv (foldl lifecycle_step l0 es)"
  using with_capacity_inv lifecycle.run_inv by blast

lemma lifecycle_inv_entry:
  "lifecycle_inv l \<Longrightarrow> entry_ok (pl_broker_generation l) t (bt_get (pl_requests l) t) (bt_get (pl_grants l) t)"
  by (simp add: lifecycle_inv_def)

text \<open>An accepted submission is decided at once: the second half of a broker request cannot fail.\<close>

lemma submit_then_decide:
  assumes "fst (submit r now l) = Inr ()"
  shows "decide (pt_transfer (pr_transfer r)) PolicyDeny (pt_generation (pr_transfer r)) now (snd (submit r now l))
      = (Inr None, mark_request (pt_transfer (pr_transfer r)) PdDenied (snd (submit r now l)))"
    and "\<exists>g. fst (decide (pt_transfer (pr_transfer r)) PolicyAllow (pt_generation (pr_transfer r)) now (snd (submit r now l)))
        = Inr (Some g)
      \<and> bt_get (pl_grants (snd (decide (pt_transfer (pr_transfer r)) PolicyAllow (pt_generation (pr_transfer r)) now
          (snd (submit r now l))))) (pt_transfer (pr_transfer r)) = Some g
      \<and> grant_matches (pt_transfer (pr_transfer r)) r g \<and> pg_state g = GrActive
      \<and> pg_broker_generation g = pl_broker_generation l"
  using assms
  by (auto simp: submit_def decide_def bt_get_insert valid_request_def Let_def grant_matches_def
        mark_request_def split: if_splits)

section \<open>Properties\<close>

text \<open>
  Property C14. Authority only by decision: whatever sequence of submissions, decisions,
  completions, failures, expiries, owner changes, disconnects and broker restarts a lifecycle goes
  through, the number of pending requests and active grants never exceeds its capacity, and every
  grant belongs to an allowed request between two different namespaces, repeats that request's
  namespaces, kind, generation and deadline, and is active only under the current broker generation.
\<close>

theorem portal_grants_authorized:
  assumes "with_capacity g c = Inr l0" "l = foldl lifecycle_step l0 es"
  shows "pending_or_active_count l \<le> c
    \<and> (\<forall>t gr. bt_get (pl_grants l) t = Some gr \<longrightarrow>
         pg_source_namespace gr \<noteq> pg_target_namespace gr
         \<and> (pg_state gr = GrActive \<longrightarrow> pg_broker_generation gr = pl_broker_generation l)
         \<and> (\<exists>r. bt_get (pl_requests l) t = Some r \<and> request_decision r = PdAllowed \<and> grant_matches t r gr))"
proof -
  have inv: "lifecycle_inv l" and cap: "pl_capacity l = c"
    using reachable_inv [OF assms(1)] lifecycle.run_rel [of l0 es] with_capacity_inv [OF assms(1)] assms(2)
    by (auto simp: lifecycle_progress_def)
  have "pg_source_namespace gr \<noteq> pg_target_namespace gr
      \<and> (pg_state gr = GrActive \<longrightarrow> pg_broker_generation gr = pl_broker_generation l)
      \<and> (\<exists>r. bt_get (pl_requests l) t = Some r \<and> request_decision r = PdAllowed \<and> grant_matches t r gr)"
    if "bt_get (pl_grants l) t = Some gr" for t gr
    using lifecycle_inv_entry [OF inv, of t] that
    by (cases "bt_get (pl_requests l) t")
       (auto simp: entry_ok_def grant_matches_def valid_request_def set_decision_def Let_def)
  then show ?thesis using inv cap by (simp add: lifecycle_inv_def)
qed

definition example_request :: "u64 \<Rightarrow> PortalRequest" where
  "example_request t =
     \<lparr>pr_transfer = \<lparr>pt_transfer = t, pt_source_namespace = 1, pt_target_namespace = 2,
        pt_kind = PkClipboard, pt_mime_type = None, pt_byte_size = 10, pt_decision = PdPending,
        pt_generation = 5\<rparr>,
      pr_deadline_msec = 100\<rparr>"

definition example_lifecycle :: PortalRequestGrantLifecycle where
  "example_lifecycle = \<lparr>pl_broker_generation = 1, pl_capacity = 2, pl_requests = [], pl_grants = []\<rparr>"

lemmas lifecycle_exec = example_request_def example_lifecycle_def submit_def decide_def valid_request_def
  pending_or_active_count_def bt_values_def bt_contains_def mark_request_def mark_grant_def set_decision_def
  bt_update_def id_is_valid_def end_active_grant_def complete_def executor_failed_def

theorem portal_grants_authorized_witness:
  "\<exists>gr. bt_get (pl_grants (foldl lifecycle_step example_lifecycle
       [EvSubmit (example_request 7) 10, EvDecide 7 PolicyAllow 5 20])) 7 = Some gr
     \<and> pg_state gr = GrActive \<and> pg_source_namespace gr \<noteq> pg_target_namespace gr"
proof -
  let ?l = "foldl lifecycle_step example_lifecycle [EvSubmit (example_request 7) 10, EvDecide 7 PolicyAllow 5 20]"
  have w: "with_capacity 1 2 = Inr example_lifecycle"
    by (simp add: with_capacity_def example_lifecycle_def)
  obtain gr where "bt_get (pl_grants ?l) 7 = Some gr" "pg_state gr = GrActive"
    by (simp add: lifecycle_exec Let_def)
  then show ?thesis
    using portal_grants_authorized [OF w refl, of "[EvSubmit (example_request 7) 10, EvDecide 7 PolicyAllow 5 20]"]
    by blast
qed

text \<open>
  Property C15. Decisions and endings are final: a request that was allowed, denied or revoked keeps
  exactly its content and decision, a grant that was completed, revoked or expired keeps exactly its
  content and state, and a transfer that was decided without a grant never gets one, through every
  later sequence of operations, a broker restart included.
\<close>

theorem portal_decisions_final:
  assumes "with_capacity g c = Inr l0" "l = foldl lifecycle_step l0 es" "l' = foldl lifecycle_step l es'"
    and "bt_get (pl_requests l) t = Some r" "request_decision r \<noteq> PdPending"
  shows "bt_get (pl_requests l') t = Some r
    \<and> (bt_get (pl_grants l) t = None \<longrightarrow> bt_get (pl_grants l') t = None)
    \<and> (\<forall>gr. bt_get (pl_grants l) t = Some gr \<and> pg_state gr \<noteq> GrActive \<longrightarrow> bt_get (pl_grants l') t = Some gr)"
proof -
  have "lifecycle_progress l l'"
    using reachable_inv [OF assms(1), of es] lifecycle.run_rel assms(2,3) by simp
  then have "entry_progress (Some r) (bt_get (pl_grants l) t) (bt_get (pl_requests l') t) (bt_get (pl_grants l') t)"
    using assms(4) by (metis lifecycle_progress_def)
  then show ?thesis
    using assms(5) by (auto simp: entry_progress_def request_progress_def grant_progress_def split: option.splits)
qed

theorem portal_decisions_final_witness:
  "request_decision (the (bt_get (pl_requests (foldl lifecycle_step (foldl lifecycle_step example_lifecycle
       [EvSubmit (example_request 7) 10, EvDecide 7 PolicyDeny 5 20])
       [EvDecide 7 PolicyAllow 5 30, EvBrokerRestarted 2])) 7)) = PdDenied"
proof -
  have w: "with_capacity 1 2 = Inr example_lifecycle"
    by (simp add: with_capacity_def example_lifecycle_def)
  have "bt_get (pl_requests (foldl lifecycle_step example_lifecycle
       [EvSubmit (example_request 7) 10, EvDecide 7 PolicyDeny 5 20])) 7
     = Some (set_decision PdDenied (example_request 7))"
    by (simp add: lifecycle_exec)
  from portal_decisions_final [OF w refl refl this,
      where es' = "[EvDecide 7 PolicyAllow 5 30, EvBrokerRestarted 2]", THEN conjunct1]
  have "bt_get (pl_requests (foldl lifecycle_step (foldl lifecycle_step example_lifecycle
       [EvSubmit (example_request 7) 10, EvDecide 7 PolicyDeny 5 20])
       [EvDecide 7 PolicyAllow 5 30, EvBrokerRestarted 2])) 7 = Some (set_decision PdDenied (example_request 7))"
    by (simp only: set_decision_simps PortalDecision.distinct simp_thms)
  then show ?thesis by (simp only: option.sel set_decision_simps)
qed

text \<open>
  Sweeps are exact: expiring at a time ends every live transfer whose deadline has
  been reached and no other, reports exactly those in ascending order, and changes nothing else; a
  broker restart to a newer generation revokes everything live, so that no pending request or active
  grant survives it, and a restart that is not newer is refused without any change.
\<close>

theorem portal_sweeps_exact:
  assumes "with_capacity g c = Inr l0" "l = foldl lifecycle_step l0 es"
    and "expire now l = (out, l')"
  shows "sorted_wrt (<) out
    \<and> (\<forall>t. t \<in> set out \<longleftrightarrow> live l t \<and> selected (\<lambda>r. pr_deadline_msec r \<le> now) l t)
    \<and> (\<forall>t. live l' t \<longleftrightarrow> live l t \<and> \<not> selected (\<lambda>r. pr_deadline_msec r \<le> now) l t)
    \<and> (\<forall>t. t \<notin> set out \<longrightarrow> bt_get (pl_requests l') t = bt_get (pl_requests l) t
                            \<and> bt_get (pl_grants l') t = bt_get (pl_grants l) t)
    \<and> (\<forall>bg r l2. broker_restarted bg l = (r, l2) \<longrightarrow>
         (case r of
            Inl e \<Rightarrow> bg \<le> pl_broker_generation l \<and> l2 = l
          | Inr revoked \<Rightarrow> pl_broker_generation l < bg \<and> pl_broker_generation l2 = bg
              \<and> set revoked = {t. live l t} \<and> (\<forall>t. \<not> live l2 t)))"
proof -
  have inv: "lifecycle_inv l" using reachable_inv [OF assms(1)] assms(2) by simp
  have known: "live l t \<Longrightarrow> selected (\<lambda>_. True) l t" for t
    using lifecycle_inv_entry [OF inv, of t]
    by (cases "bt_get (pl_requests l) t") (auto simp: live_def entry_live_def entry_ok_def selected_def)
  have "case r of
            Inl e \<Rightarrow> bg \<le> pl_broker_generation l \<and> l2 = l
          | Inr revoked \<Rightarrow> pl_broker_generation l < bg \<and> pl_broker_generation l2 = bg
              \<and> set revoked = {t. live l t} \<and> (\<forall>t. \<not> live l2 t)"
    if b: "broker_restarted bg l = (r, l2)" for bg r l2
  proof (cases "bg \<le> pl_broker_generation l")
    case False
    obtain o1 l1 where s: "sweep (pl_requests l) (\<lambda>_. True) GrRevoked l = (o1, l1)" by force
    then have "r = Inr o1" "l2 = l1\<lparr>pl_broker_generation := bg\<rparr>"
      using b False by (auto simp: broker_restarted_def revoke_where_def)
    then show ?thesis
      using sweep_exact(2,3) [OF inv _ s] known False by (auto simp: live_def)
  qed (use b in \<open>auto simp: broker_restarted_def\<close>)
  then show ?thesis
    using sweep_exact [OF inv _ assms(3) [unfolded expire_def]] by simp
qed

theorem portal_sweeps_exact_witness:
  "\<forall>t. \<not> live (snd (expire 100 (foldl lifecycle_step example_lifecycle [EvSubmit (example_request 7) 10]))) t"
proof -
  have w: "with_capacity 1 2 = Inr example_lifecycle"
    by (simp add: with_capacity_def example_lifecycle_def)
  obtain out l' where e: "expire 100 (foldl lifecycle_step example_lifecycle [EvSubmit (example_request 7) 10]) = (out, l')"
    by force
  show ?thesis
    using portal_sweeps_exact [OF w refl e] e
    by (simp add: live_def entry_live_def selected_def lifecycle_exec)
qed

text \<open>
  Property C16. A broker request has exactly three outcomes: an error, which is one of the four
  submission errors and leaves the broker as it was; a grant, exactly when the request is accepted,
  both namespaces are admitted and the policy allows, and then the grant repeats the request, is
  active and recorded; or a denial in all other cases, recorded without a grant.
\<close>

theorem broker_request_outcomes:
  assumes "broker_request r a now b = (res, b')" "lifecycle_inv (db_lifecycle b)"
  shows "case res of
      Inl e \<Rightarrow> b' = b \<and> e \<in> {InvalidRequest, DeadlineElapsed, DuplicateTransfer, CapacityExceeded}
               \<and> fst (submit r now (db_lifecycle b)) = Inl e
    | Inr BrokerDenied \<Rightarrow> \<not> (admission_allowed a \<and> db_policy b = HeadlessAllow)
        \<and> bt_get (pl_requests (db_lifecycle b')) (pt_transfer (pr_transfer r)) = Some (set_decision PdDenied r)
        \<and> bt_get (pl_grants (db_lifecycle b')) (pt_transfer (pr_transfer r)) = None
    | Inr (BrokerAllowed g) \<Rightarrow> ad_source_may_publish a \<and> ad_target_may_request a \<and> db_policy b = HeadlessAllow
        \<and> grant_matches (pt_transfer (pr_transfer r)) r g \<and> pg_state g = GrActive
        \<and> bt_get (pl_grants (db_lifecycle b')) (pt_transfer (pr_transfer r)) = Some g"
proof (cases "fst (submit r now (db_lifecycle b)) = Inr ()")
  case False
  then show ?thesis
    using assms(1) by (auto simp: broker_request_def submit_def Let_def split: if_splits)
next
  case True
  let ?t = "pt_transfer (pr_transfer r)"
  obtain l1 where s: "submit r now (db_lifecycle b) = (Inr (), l1)"
    using True by (metis prod.collapse)
  have l1: "bt_get (pl_requests l1) ?t = Some r" "pl_grants l1 = pl_grants (db_lifecycle b)"
    "bt_get (pl_requests (db_lifecycle b)) ?t = None"
    using s by (auto simp: submit_def bt_get_insert bt_contains_def split: if_splits)
  have "bt_get (pl_grants (db_lifecycle b)) ?t = None"
    using lifecycle_inv_entry [OF assms(2), of ?t] l1(3) by (simp add: entry_ok_def)
  then show ?thesis
    using assms(1) submit_then_decide [OF True] s l1(1,2)
    by (auto simp: broker_request_def admission_allowed_def Let_def mark_request_def bt_get_update
        split: if_splits prod.splits)
qed

theorem broker_request_outcomes_witness:
  "\<exists>g b'. broker_request (example_request 7) \<lparr>ad_source_may_publish = True, ad_target_may_request = True\<rparr> 10
      \<lparr>db_policy = HeadlessAllow, db_lifecycle = example_lifecycle\<rparr> = (Inr (BrokerAllowed g), b')
    \<and> grant_matches 7 (example_request 7) g"
proof -
  let ?a = "\<lparr>ad_source_may_publish = True, ad_target_may_request = True\<rparr>"
  let ?b = "\<lparr>db_policy = HeadlessAllow, db_lifecycle = example_lifecycle\<rparr>"
  have "lifecycle_inv example_lifecycle"
    using with_capacity_inv [of 1 2] by (simp add: with_capacity_def example_lifecycle_def)
  moreover obtain g b' where "broker_request (example_request 7) ?a 10 ?b = (Inr (BrokerAllowed g), b')"
    by (simp add: broker_request_def admission_allowed_def lifecycle_exec Let_def)
  ultimately show ?thesis
    using broker_request_outcomes [of "example_request 7" ?a 10 ?b "Inr (BrokerAllowed g)" b']
    by (simp add: example_request_def)
qed

end
