(* ===== verification/Portal_Reducers.thy ===== *)
theory Portal_Reducers
  imports Protocol_Packets
begin

text \<open>
  The six portal policy reducers (\<^verbatim>\<open>sophia-portal/src/clipboard.rs\<close>, \<^verbatim>\<open>drag_and_drop.rs\<close>,
  \<^verbatim>\<open>file_handoff.rs\<close>, \<^verbatim>\<open>screen_capture.rs\<close>, \<^verbatim>\<open>uri_open.rs\<close>, \<^verbatim>\<open>notification.rs\<close>, \<^verbatim>\<open>types.rs\<close>). Each
  owns a map of transfers and turns requests and decisions into commands. The six files repeat one
  pattern that differs in the request validation and in three command constructors; the repeated
  parts are written once and instantiated per portal. Searches for ASCII characters in a string are
  searches in its UTF-8 bytes, which is the same.
\<close>

section \<open>Requests, commands and errors (types.rs)\<close>

datatype FileHandoffMode = FileOpen | FileSave
datatype ScreenCaptureMode = Screenshot | ScreenRecording
datatype ScreenCaptureScope = ScopeDesktop | ScopeOutput | ScopeSurface
datatype NotificationUrgency = UrgencyLow | UrgencyNormal | UrgencyCritical
datatype ClipboardTarget = TargetAtom rust_string | TargetMime rust_string

record ClipboardTransferRequest =
  cr_transfer :: PortalTransferId
  cr_source_namespace :: NamespaceId
  cr_target_namespace :: NamespaceId
  cr_target :: ClipboardTarget
  cr_byte_size :: u64
  cr_generation :: u64

record ClipboardSourceOwnerChanged =
  co_source_namespace :: NamespaceId
  co_generation :: u64

record DragAndDropTransferRequest =
  dr_transfer :: PortalTransferId
  dr_source_namespace :: NamespaceId
  dr_target_namespace :: NamespaceId
  dr_offered_types :: "rust_string list"
  dr_byte_size :: u64
  dr_generation :: u64

record FileHandoffRequest =
  fr_transfer :: PortalTransferId
  fr_source_namespace :: NamespaceId
  fr_target_namespace :: NamespaceId
  fr_mode :: FileHandoffMode
  fr_offered_types :: "rust_string list"
  fr_suggested_name :: "rust_string option"
  fr_byte_size :: u64
  fr_generation :: u64

record ScreenCaptureRequest =
  sr_transfer :: PortalTransferId
  sr_source_namespace :: NamespaceId
  sr_target_namespace :: NamespaceId
  sr_mode :: ScreenCaptureMode
  sr_scope :: ScreenCaptureScope
  sr_mime_type :: rust_string
  sr_byte_size :: u64
  sr_generation :: u64

record UriOpenRequest =
  ur_transfer :: PortalTransferId
  ur_source_namespace :: NamespaceId
  ur_target_namespace :: NamespaceId
  ur_uri :: rust_string
  ur_generation :: u64

record NotificationRequest =
  nr_transfer :: PortalTransferId
  nr_source_namespace :: NamespaceId
  nr_target_namespace :: NamespaceId
  nr_summary :: rust_string
  nr_body :: "rust_string option"
  nr_urgency :: NotificationUrgency
  nr_actions :: "rust_string list"
  nr_generation :: u64

datatype PortalCommand =
    PromptClipboardTransfer PortalTransfer | HandoffClipboard PortalTransferId | FailSelection PortalTransferId
  | PromptDragAndDropTransfer PortalTransfer | HandoffDragAndDrop PortalTransferId
  | CancelDragAndDrop PortalTransferId
  | PromptFileHandoff PortalTransfer | HandoffFile PortalTransferId | CancelFileHandoff PortalTransferId
  | PromptScreenCapture PortalTransfer | HandoffScreenCapture PortalTransferId
  | CancelScreenCapture PortalTransferId
  | PromptUriOpen PortalTransfer | HandoffUriOpen PortalTransferId | CancelUriOpen PortalTransferId
  | PromptNotification PortalTransfer | DeliverNotification PortalTransferId
  | DropNotification PortalTransferId

datatype PortalError =
    PeInvalidTransfer | PeInvalidNamespace | PeUnsupportedTarget | PeMissingTransferType
  | PeTooManyTransferTypes | PeInvalidSuggestedName | PeUnsupportedCaptureMimeType | PeInvalidUri
  | PeUnsupportedUriScheme | PeInvalidNotificationText | PeTooManyNotificationActions
  | PeUnknownTransfer | PeNotPending

definition MAX_DRAG_AND_DROP_TYPES :: nat where "MAX_DRAG_AND_DROP_TYPES = 16"
definition MAX_FILE_HANDOFF_TYPES :: nat where "MAX_FILE_HANDOFF_TYPES = 32"
definition MAX_SUGGESTED_FILE_NAME_LEN :: nat where "MAX_SUGGESTED_FILE_NAME_LEN = 255"
definition MAX_URI_LEN :: nat where "MAX_URI_LEN = 2048"
definition MAX_NOTIFICATION_SUMMARY_LEN :: nat where "MAX_NOTIFICATION_SUMMARY_LEN = 128"
definition MAX_NOTIFICATION_BODY_LEN :: nat where "MAX_NOTIFICATION_BODY_LEN = 1024"
definition MAX_NOTIFICATION_ACTIONS :: nat where "MAX_NOTIFICATION_ACTIONS = 4"
definition MAX_NOTIFICATION_ACTION_LEN :: nat where "MAX_NOTIFICATION_ACTION_LEN = 64"

fun target_as_str :: "ClipboardTarget \<Rightarrow> rust_string" where
  "target_as_str (TargetAtom t) = t"
| "target_as_str (TargetMime t) = t"

definition to_ascii_lowercase :: "rust_string \<Rightarrow> rust_string" where
  "to_ascii_lowercase = map (\<lambda>b. if 0x41 \<le> b \<and> b \<le> 0x5A then b + 0x20 else b)"

definition starts_with :: "rust_string \<Rightarrow> rust_string \<Rightarrow> bool" where
  "starts_with s prefix = (take (length prefix) s = prefix)"

definition target_is_text :: "ClipboardTarget \<Rightarrow> bool" where
  "target_is_text c =
     (let target = target_as_str c; lower = to_ascii_lowercase target in
      target \<in> {lit ''UTF8_STRING'', lit ''TEXT'', lit ''STRING''}
      \<or> lower = lit ''text/plain'' \<or> starts_with lower (lit ''text/plain;'')
      \<or> starts_with lower (lit ''text/''))"

section \<open>The repeated reducer core\<close>

type_synonym portal_transfers = "(PortalTransferId, PortalTransfer) btree"
type_synonym reducer_result = "(PortalError + PortalCommand) \<times> portal_transfers"

definition pending_transfer :: "PortalTransferId \<Rightarrow> portal_transfers \<Rightarrow> PortalError + PortalTransfer" where
  "pending_transfer transfer m =
     (case bt_get m transfer of
        None \<Rightarrow> Inl PeUnknownTransfer
      | Some state \<Rightarrow> if pt_decision state \<noteq> PdPending then Inl PeNotPending else Inr state)"

definition decide_transfer :: "PortalTransferId \<Rightarrow> PortalDecision \<Rightarrow> portal_transfers \<Rightarrow> portal_transfers" where
  "decide_transfer transfer d = bt_update transfer (\<lambda>s. s\<lparr>pt_decision := d\<rparr>)"

definition reducer_request ::
  "(PortalTransfer \<Rightarrow> PortalCommand) \<Rightarrow> PortalError + unit \<Rightarrow> PortalTransfer \<Rightarrow> portal_transfers \<Rightarrow> reducer_result" where
  "reducer_request prompt validated transfer m =
     (case validated of
        Inl e \<Rightarrow> (Inl e, m)
      | Inr _ \<Rightarrow> (Inr (prompt transfer), bt_insert (pt_transfer transfer) transfer m))"

definition reducer_deny ::
  "(PortalTransferId \<Rightarrow> PortalCommand) \<Rightarrow> PortalTransferId \<Rightarrow> portal_transfers \<Rightarrow> reducer_result" where
  "reducer_deny cancel transfer m =
     (case pending_transfer transfer m of
        Inl e \<Rightarrow> (Inl e, m)
      | Inr _ \<Rightarrow> (Inr (cancel transfer), decide_transfer transfer PdDenied m))"

definition reducer_approve ::
  "(PortalTransferId \<Rightarrow> PortalCommand) \<Rightarrow> (PortalTransferId \<Rightarrow> PortalCommand) \<Rightarrow> PortalTransferId \<Rightarrow> u64
     \<Rightarrow> portal_transfers \<Rightarrow> reducer_result" where
  "reducer_approve cancel handoff transfer generation m =
     (case pending_transfer transfer m of
        Inl e \<Rightarrow> (Inl e, m)
      | Inr state \<Rightarrow>
          if pt_generation state \<noteq> generation
          then (Inr (cancel transfer), decide_transfer transfer PdRevoked m)
          else (Inr (handoff transfer), decide_transfer transfer PdAllowed m))"

fun reducer_owner_changed ::
  "(PortalTransferId \<Rightarrow> PortalCommand) \<Rightarrow> NamespaceId \<Rightarrow> u64 \<Rightarrow> portal_transfers
     \<Rightarrow> PortalCommand list \<times> portal_transfers" where
  "reducer_owner_changed cancel ns generation [] = ([], [])"
| "reducer_owner_changed cancel ns generation ((k, s) # m) =
     (let (commands, m') = reducer_owner_changed cancel ns generation m in
      if pt_source_namespace s = ns \<and> pt_decision s = PdPending \<and> pt_generation s \<noteq> generation
      then (cancel (pt_transfer s) # commands, (k, s\<lparr>pt_decision := PdRevoked\<rparr>) # m')
      else (commands, (k, s) # m'))"

definition check_ids :: "u64 \<Rightarrow> u64 \<Rightarrow> u64 \<Rightarrow> PortalError + unit" where
  "check_ids transfer source target =
     (if \<not> id_is_valid transfer then Inl PeInvalidTransfer
      else if \<not> id_is_valid source \<or> \<not> id_is_valid target then Inl PeInvalidNamespace
      else Inr ())"

definition require :: "bool \<Rightarrow> 'e \<Rightarrow> 'e + unit" where
  "require c e = (if c then Inr () else Inl e)"

section \<open>Clipboard (clipboard.rs)\<close>

definition validate_request :: "ClipboardTransferRequest \<Rightarrow> PortalError + unit" where
  "validate_request request =
     bind_res (check_ids (cr_transfer request) (cr_source_namespace request) (cr_target_namespace request)) (\<lambda>_.
     require (target_as_str (cr_target request) = lit ''TARGETS'' \<or> target_is_text (cr_target request))
       PeUnsupportedTarget)"

definition clipboard_transfer_of :: "ClipboardTransferRequest \<Rightarrow> PortalTransfer" where
  "clipboard_transfer_of request =
     \<lparr>pt_transfer = cr_transfer request, pt_source_namespace = cr_source_namespace request,
      pt_target_namespace = cr_target_namespace request, pt_kind = PkClipboard,
      pt_mime_type = Some (target_as_str (cr_target request)), pt_byte_size = cr_byte_size request,
      pt_decision = PdPending, pt_generation = cr_generation request\<rparr>"

definition request_import :: "ClipboardTransferRequest \<Rightarrow> portal_transfers \<Rightarrow> reducer_result" where
  "request_import request =
     reducer_request PromptClipboardTransfer (validate_request request) (clipboard_transfer_of request)"

definition clipboard_deny :: "PortalTransferId \<Rightarrow> portal_transfers \<Rightarrow> reducer_result" where
  "clipboard_deny = reducer_deny FailSelection"

definition clipboard_approve_generation :: "PortalTransferId \<Rightarrow> u64 \<Rightarrow> portal_transfers \<Rightarrow> reducer_result" where
  "clipboard_approve_generation = reducer_approve FailSelection HandoffClipboard"

definition clipboard_source_owner_changed ::
  "NamespaceId \<Rightarrow> u64 \<Rightarrow> portal_transfers \<Rightarrow> PortalCommand list \<times> portal_transfers" where
  "clipboard_source_owner_changed = reducer_owner_changed FailSelection"

definition apply_owner_changed ::
  "ClipboardSourceOwnerChanged \<Rightarrow> portal_transfers \<Rightarrow> PortalCommand list \<times> portal_transfers" where
  "apply_owner_changed event = clipboard_source_owner_changed (co_source_namespace event) (co_generation event)"

section \<open>Drag and drop (drag_and_drop.rs)\<close>

definition validate_drag_and_drop_request :: "DragAndDropTransferRequest \<Rightarrow> PortalError + unit" where
  "validate_drag_and_drop_request request =
     bind_res (check_ids (dr_transfer request) (dr_source_namespace request) (dr_target_namespace request)) (\<lambda>_.
     bind_res (require (dr_offered_types request \<noteq> [] \<and> [] \<notin> set (dr_offered_types request))
       PeMissingTransferType) (\<lambda>_.
     require (length (dr_offered_types request) \<le> MAX_DRAG_AND_DROP_TYPES) PeTooManyTransferTypes))"

definition dnd_transfer_of :: "DragAndDropTransferRequest \<Rightarrow> PortalTransfer" where
  "dnd_transfer_of request =
     \<lparr>pt_transfer = dr_transfer request, pt_source_namespace = dr_source_namespace request,
      pt_target_namespace = dr_target_namespace request, pt_kind = PkDragAndDrop,
      pt_mime_type = (case dr_offered_types request of [] \<Rightarrow> None | t # _ \<Rightarrow> Some t), pt_byte_size = dr_byte_size request,
      pt_decision = PdPending, pt_generation = dr_generation request\<rparr>"

definition dnd_request_handoff :: "DragAndDropTransferRequest \<Rightarrow> portal_transfers \<Rightarrow> reducer_result" where
  "dnd_request_handoff request =
     reducer_request PromptDragAndDropTransfer (validate_drag_and_drop_request request) (dnd_transfer_of request)"

definition dnd_deny :: "PortalTransferId \<Rightarrow> portal_transfers \<Rightarrow> reducer_result" where
  "dnd_deny = reducer_deny CancelDragAndDrop"

definition dnd_approve_generation :: "PortalTransferId \<Rightarrow> u64 \<Rightarrow> portal_transfers \<Rightarrow> reducer_result" where
  "dnd_approve_generation = reducer_approve CancelDragAndDrop HandoffDragAndDrop"

definition dnd_source_owner_changed ::
  "NamespaceId \<Rightarrow> u64 \<Rightarrow> portal_transfers \<Rightarrow> PortalCommand list \<times> portal_transfers" where
  "dnd_source_owner_changed = reducer_owner_changed CancelDragAndDrop"

section \<open>File handoff (file_handoff.rs)\<close>

definition valid_suggested_file_name :: "rust_string \<Rightarrow> bool" where
  "valid_suggested_file_name name \<longleftrightarrow>
     name \<noteq> [] \<and> length name \<le> MAX_SUGGESTED_FILE_NAME_LEN \<and> 0x2F \<notin> set name \<and> 0x5C \<notin> set name
     \<and> name \<noteq> lit ''.'' \<and> name \<noteq> lit ''..''"

text \<open>\<open>request.offered_types[0]\<close> is read only after validation has rejected an empty list.\<close>

definition file_handoff_type_hint :: "FileHandoffRequest \<Rightarrow> rust_string" where
  "file_handoff_type_hint request =
     (case fr_mode request of FileOpen \<Rightarrow> lit ''open'' | FileSave \<Rightarrow> lit ''save'') @ lit '':''
     @ hd (fr_offered_types request)"

definition validate_file_handoff_request :: "FileHandoffRequest \<Rightarrow> PortalError + unit" where
  "validate_file_handoff_request request =
     bind_res (check_ids (fr_transfer request) (fr_source_namespace request) (fr_target_namespace request)) (\<lambda>_.
     bind_res (require (fr_offered_types request \<noteq> [] \<and> [] \<notin> set (fr_offered_types request))
       PeMissingTransferType) (\<lambda>_.
     bind_res (require (length (fr_offered_types request) \<le> MAX_FILE_HANDOFF_TYPES)
       PeTooManyTransferTypes) (\<lambda>_.
     require (case fr_suggested_name request of None \<Rightarrow> True | Some name \<Rightarrow> valid_suggested_file_name name)
       PeInvalidSuggestedName)))"

definition file_transfer_of :: "FileHandoffRequest \<Rightarrow> PortalTransfer" where
  "file_transfer_of request =
     \<lparr>pt_transfer = fr_transfer request, pt_source_namespace = fr_source_namespace request,
      pt_target_namespace = fr_target_namespace request, pt_kind = PkFileHandoff,
      pt_mime_type = Some (file_handoff_type_hint request), pt_byte_size = fr_byte_size request,
      pt_decision = PdPending, pt_generation = fr_generation request\<rparr>"

definition file_request_handoff :: "FileHandoffRequest \<Rightarrow> portal_transfers \<Rightarrow> reducer_result" where
  "file_request_handoff request =
     reducer_request PromptFileHandoff (validate_file_handoff_request request) (file_transfer_of request)"

definition file_deny :: "PortalTransferId \<Rightarrow> portal_transfers \<Rightarrow> reducer_result" where
  "file_deny = reducer_deny CancelFileHandoff"

definition file_approve_generation :: "PortalTransferId \<Rightarrow> u64 \<Rightarrow> portal_transfers \<Rightarrow> reducer_result" where
  "file_approve_generation = reducer_approve CancelFileHandoff HandoffFile"

definition file_source_owner_changed ::
  "NamespaceId \<Rightarrow> u64 \<Rightarrow> portal_transfers \<Rightarrow> PortalCommand list \<times> portal_transfers" where
  "file_source_owner_changed = reducer_owner_changed CancelFileHandoff"

section \<open>Screen capture (screen_capture.rs)\<close>

fun supported_screen_capture_mime :: "ScreenCaptureMode \<Rightarrow> rust_string \<Rightarrow> bool" where
  "supported_screen_capture_mime Screenshot mime = (mime \<in> {lit ''image/png'', lit ''image/jpeg''})"
| "supported_screen_capture_mime ScreenRecording mime = (mime \<in> {lit ''video/webm'', lit ''video/mp4''})"

definition screen_capture_type_hint :: "ScreenCaptureRequest \<Rightarrow> rust_string" where
  "screen_capture_type_hint request =
     (case sr_mode request of Screenshot \<Rightarrow> lit ''screenshot'' | ScreenRecording \<Rightarrow> lit ''screen-recording'')
     @ lit '':''
     @ (case sr_scope request of
          ScopeDesktop \<Rightarrow> lit ''desktop'' | ScopeOutput \<Rightarrow> lit ''output'' | ScopeSurface \<Rightarrow> lit ''surface'')
     @ lit '':'' @ sr_mime_type request"

definition validate_screen_capture_request :: "ScreenCaptureRequest \<Rightarrow> PortalError + unit" where
  "validate_screen_capture_request request =
     bind_res (check_ids (sr_transfer request) (sr_source_namespace request) (sr_target_namespace request)) (\<lambda>_.
     require (supported_screen_capture_mime (sr_mode request) (sr_mime_type request))
       PeUnsupportedCaptureMimeType)"

definition capture_transfer_of :: "ScreenCaptureRequest \<Rightarrow> PortalTransfer" where
  "capture_transfer_of request =
     \<lparr>pt_transfer = sr_transfer request, pt_source_namespace = sr_source_namespace request,
      pt_target_namespace = sr_target_namespace request, pt_kind = (case sr_mode request of Screenshot \<Rightarrow> PkScreenCapture | ScreenRecording \<Rightarrow> PkScreenRecording),
      pt_mime_type = Some (screen_capture_type_hint request), pt_byte_size = sr_byte_size request,
      pt_decision = PdPending, pt_generation = sr_generation request\<rparr>"

definition request_capture :: "ScreenCaptureRequest \<Rightarrow> portal_transfers \<Rightarrow> reducer_result" where
  "request_capture request =
     reducer_request PromptScreenCapture (validate_screen_capture_request request) (capture_transfer_of request)"

definition capture_deny :: "PortalTransferId \<Rightarrow> portal_transfers \<Rightarrow> reducer_result" where
  "capture_deny = reducer_deny CancelScreenCapture"

definition capture_approve_generation :: "PortalTransferId \<Rightarrow> u64 \<Rightarrow> portal_transfers \<Rightarrow> reducer_result" where
  "capture_approve_generation = reducer_approve CancelScreenCapture HandoffScreenCapture"

definition capture_source_owner_changed ::
  "NamespaceId \<Rightarrow> u64 \<Rightarrow> portal_transfers \<Rightarrow> PortalCommand list \<times> portal_transfers" where
  "capture_source_owner_changed = reducer_owner_changed CancelScreenCapture"

section \<open>URI opening (uri_open.rs)\<close>

definition is_ascii_alphanumeric :: "u8 \<Rightarrow> bool" where
  "is_ascii_alphanumeric b \<longleftrightarrow>
     (0x30 \<le> b \<and> b \<le> 0x39) \<or> (0x41 \<le> b \<and> b \<le> 0x5A) \<or> (0x61 \<le> b \<and> b \<le> 0x7A)"

text \<open>\<open>split_once(':')\<close>: the bytes before the first colon, if there is one.\<close>

definition uri_scheme :: "rust_string \<Rightarrow> rust_string option" where
  "uri_scheme uri =
     (if 0x3A \<notin> set uri then None
      else let scheme = takeWhile (\<lambda>b. b \<noteq> 0x3A) uri in
        if scheme = [] \<or> \<not> list_all (\<lambda>b. is_ascii_alphanumeric b \<or> b \<in> {0x2B, 0x2D, 0x2E}) scheme
        then None else Some scheme)"

definition supported_uri_scheme :: "rust_string \<Rightarrow> bool" where
  "supported_uri_scheme scheme \<longleftrightarrow>
     scheme \<in> {lit ''http'', lit ''https'', lit ''mailto'', lit ''tel''}"

definition uri_open_type_hint :: "rust_string \<Rightarrow> rust_string" where
  "uri_open_type_hint uri =
     lit ''uri-open:'' @ (case uri_scheme uri of None \<Rightarrow> lit ''unknown'' | Some scheme \<Rightarrow> scheme)"

definition validate_uri_open_request :: "UriOpenRequest \<Rightarrow> PortalError + unit" where
  "validate_uri_open_request request =
     bind_res (check_ids (ur_transfer request) (ur_source_namespace request) (ur_target_namespace request)) (\<lambda>_.
     bind_res (require (ur_uri request \<noteq> [] \<and> length (ur_uri request) \<le> MAX_URI_LEN
         \<and> \<not> list_ex (\<lambda>c. char_is_control c \<or> char_is_whitespace c) (str_chars (ur_uri request)))
       PeInvalidUri) (\<lambda>_.
     bind_res (ok_or (uri_scheme (ur_uri request)) PeInvalidUri) (\<lambda>scheme.
     require (supported_uri_scheme scheme) PeUnsupportedUriScheme)))"

definition uri_transfer_of :: "UriOpenRequest \<Rightarrow> PortalTransfer" where
  "uri_transfer_of request =
     \<lparr>pt_transfer = ur_transfer request, pt_source_namespace = ur_source_namespace request,
      pt_target_namespace = ur_target_namespace request, pt_kind = PkUriOpen,
      pt_mime_type = Some (uri_open_type_hint (ur_uri request)), pt_byte_size = word_of_nat (length (ur_uri request)),
      pt_decision = PdPending, pt_generation = ur_generation request\<rparr>"

definition request_open :: "UriOpenRequest \<Rightarrow> portal_transfers \<Rightarrow> reducer_result" where
  "request_open request =
     reducer_request PromptUriOpen (validate_uri_open_request request) (uri_transfer_of request)"

definition uri_deny :: "PortalTransferId \<Rightarrow> portal_transfers \<Rightarrow> reducer_result" where
  "uri_deny = reducer_deny CancelUriOpen"

definition uri_approve_generation :: "PortalTransferId \<Rightarrow> u64 \<Rightarrow> portal_transfers \<Rightarrow> reducer_result" where
  "uri_approve_generation = reducer_approve CancelUriOpen HandoffUriOpen"

definition uri_source_owner_changed ::
  "NamespaceId \<Rightarrow> u64 \<Rightarrow> portal_transfers \<Rightarrow> PortalCommand list \<times> portal_transfers" where
  "uri_source_owner_changed = reducer_owner_changed CancelUriOpen"

section \<open>Notifications (notification.rs)\<close>

definition valid_notification_text :: "rust_string \<Rightarrow> nat \<Rightarrow> bool" where
  "valid_notification_text s max_len \<longleftrightarrow>
     s \<noteq> [] \<and> length s \<le> max_len \<and> \<not> list_ex char_is_control (str_chars s)"

definition notification_byte_size :: "NotificationRequest \<Rightarrow> u64" where
  "notification_byte_size request =
     word_of_nat (length (nr_summary request)
       + (case nr_body request of None \<Rightarrow> 0 | Some body \<Rightarrow> length body)
       + sum_list (map length (nr_actions request)))"

definition notification_type_hint :: "NotificationUrgency \<Rightarrow> rust_string" where
  "notification_type_hint urgency =
     lit ''notification:''
     @ (case urgency of
          UrgencyLow \<Rightarrow> lit ''low'' | UrgencyNormal \<Rightarrow> lit ''normal'' | UrgencyCritical \<Rightarrow> lit ''critical'')"

definition validate_notification_request :: "NotificationRequest \<Rightarrow> PortalError + unit" where
  "validate_notification_request request =
     bind_res (check_ids (nr_transfer request) (nr_source_namespace request) (nr_target_namespace request)) (\<lambda>_.
     bind_res (require (valid_notification_text (nr_summary request) MAX_NOTIFICATION_SUMMARY_LEN
         \<and> (case nr_body request of None \<Rightarrow> True
            | Some body \<Rightarrow> valid_notification_text body MAX_NOTIFICATION_BODY_LEN)
         \<and> list_all (\<lambda>a. valid_notification_text a MAX_NOTIFICATION_ACTION_LEN) (nr_actions request))
       PeInvalidNotificationText) (\<lambda>_.
     require (length (nr_actions request) \<le> MAX_NOTIFICATION_ACTIONS) PeTooManyNotificationActions))"

definition notification_transfer_of :: "NotificationRequest \<Rightarrow> PortalTransfer" where
  "notification_transfer_of request =
     \<lparr>pt_transfer = nr_transfer request, pt_source_namespace = nr_source_namespace request,
      pt_target_namespace = nr_target_namespace request, pt_kind = PkNotification,
      pt_mime_type = Some (notification_type_hint (nr_urgency request)), pt_byte_size = notification_byte_size request,
      pt_decision = PdPending, pt_generation = nr_generation request\<rparr>"

definition request_display :: "NotificationRequest \<Rightarrow> portal_transfers \<Rightarrow> reducer_result" where
  "request_display request =
     reducer_request PromptNotification (validate_notification_request request) (notification_transfer_of request)"

definition notification_deny :: "PortalTransferId \<Rightarrow> portal_transfers \<Rightarrow> reducer_result" where
  "notification_deny = reducer_deny DropNotification"

definition notification_approve_generation :: "PortalTransferId \<Rightarrow> u64 \<Rightarrow> portal_transfers \<Rightarrow> reducer_result" where
  "notification_approve_generation = reducer_approve DropNotification DeliverNotification"

definition notification_source_owner_changed ::
  "NamespaceId \<Rightarrow> u64 \<Rightarrow> portal_transfers \<Rightarrow> PortalCommand list \<times> portal_transfers" where
  "notification_source_owner_changed = reducer_owner_changed DropNotification"

section \<open>Traces\<close>

text \<open>
  A portal is driven by requests, denials, approvals and owner changes; a run records the commands
  every event produced. Failed events produce none.
\<close>

datatype 'r reducer_event =
    EvRequest 'r
  | EvDeny PortalTransferId
  | EvApprove PortalTransferId u64
  | EvOwnerChanged NamespaceId u64

type_synonym 'r reducer_trace = "('r reducer_event \<times> PortalCommand list) list"

definition commands_of :: "reducer_result \<Rightarrow> PortalCommand list \<times> portal_transfers" where
  "commands_of r = (case r of (Inl _, m) \<Rightarrow> ([], m) | (Inr c, m) \<Rightarrow> ([c], m))"

fun reducer_run ::
  "(portal_transfers \<Rightarrow> 'r reducer_event \<Rightarrow> PortalCommand list \<times> portal_transfers) \<Rightarrow> portal_transfers
     \<Rightarrow> 'r reducer_event list \<Rightarrow> 'r reducer_trace \<times> portal_transfers" where
  "reducer_run step m [] = ([], m)"
| "reducer_run step m (e # es) =
     (let (cs, m1) = step m e; (tr, m2) = reducer_run step m1 es in ((e, cs) # tr, m2))"

fun clipboard_step :: "portal_transfers \<Rightarrow> ClipboardTransferRequest reducer_event \<Rightarrow> PortalCommand list \<times> portal_transfers" where
  "clipboard_step m (EvRequest r) = commands_of (request_import r m)"
| "clipboard_step m (EvDeny t) = commands_of (clipboard_deny t m)"
| "clipboard_step m (EvApprove t g) = commands_of (clipboard_approve_generation t g m)"
| "clipboard_step m (EvOwnerChanged n g) = clipboard_source_owner_changed n g m"

fun dnd_step :: "portal_transfers \<Rightarrow> DragAndDropTransferRequest reducer_event \<Rightarrow> PortalCommand list \<times> portal_transfers" where
  "dnd_step m (EvRequest r) = commands_of (dnd_request_handoff r m)"
| "dnd_step m (EvDeny t) = commands_of (dnd_deny t m)"
| "dnd_step m (EvApprove t g) = commands_of (dnd_approve_generation t g m)"
| "dnd_step m (EvOwnerChanged n g) = dnd_source_owner_changed n g m"

fun file_step :: "portal_transfers \<Rightarrow> FileHandoffRequest reducer_event \<Rightarrow> PortalCommand list \<times> portal_transfers" where
  "file_step m (EvRequest r) = commands_of (file_request_handoff r m)"
| "file_step m (EvDeny t) = commands_of (file_deny t m)"
| "file_step m (EvApprove t g) = commands_of (file_approve_generation t g m)"
| "file_step m (EvOwnerChanged n g) = file_source_owner_changed n g m"

fun capture_step :: "portal_transfers \<Rightarrow> ScreenCaptureRequest reducer_event \<Rightarrow> PortalCommand list \<times> portal_transfers" where
  "capture_step m (EvRequest r) = commands_of (request_capture r m)"
| "capture_step m (EvDeny t) = commands_of (capture_deny t m)"
| "capture_step m (EvApprove t g) = commands_of (capture_approve_generation t g m)"
| "capture_step m (EvOwnerChanged n g) = capture_source_owner_changed n g m"

fun uri_step :: "portal_transfers \<Rightarrow> UriOpenRequest reducer_event \<Rightarrow> PortalCommand list \<times> portal_transfers" where
  "uri_step m (EvRequest r) = commands_of (request_open r m)"
| "uri_step m (EvDeny t) = commands_of (uri_deny t m)"
| "uri_step m (EvApprove t g) = commands_of (uri_approve_generation t g m)"
| "uri_step m (EvOwnerChanged n g) = uri_source_owner_changed n g m"

fun notification_step :: "portal_transfers \<Rightarrow> NotificationRequest reducer_event \<Rightarrow> PortalCommand list \<times> portal_transfers" where
  "notification_step m (EvRequest r) = commands_of (request_display r m)"
| "notification_step m (EvDeny t) = commands_of (notification_deny t m)"
| "notification_step m (EvApprove t g) = commands_of (notification_approve_generation t g m)"
| "notification_step m (EvOwnerChanged n g) = notification_source_owner_changed n g m"

text \<open>
  The discipline a trace has to follow, independent of the portals' state: a prompt opens its
  transfer under a generation, a cancellation closes an open transfer, and a handoff closes an open
  transfer and is the answer to an approval of exactly that transfer and generation.
\<close>

datatype command_role = Prompted PortalTransfer | Handed PortalTransferId | Cancelled PortalTransferId

fun role :: "PortalCommand \<Rightarrow> command_role" where
  "role (PromptClipboardTransfer x) = Prompted x"
| "role (HandoffClipboard x) = Handed x"
| "role (FailSelection x) = Cancelled x"
| "role (PromptDragAndDropTransfer x) = Prompted x"
| "role (HandoffDragAndDrop x) = Handed x"
| "role (CancelDragAndDrop x) = Cancelled x"
| "role (PromptFileHandoff x) = Prompted x"
| "role (HandoffFile x) = Handed x"
| "role (CancelFileHandoff x) = Cancelled x"
| "role (PromptScreenCapture x) = Prompted x"
| "role (HandoffScreenCapture x) = Handed x"
| "role (CancelScreenCapture x) = Cancelled x"
| "role (PromptUriOpen x) = Prompted x"
| "role (HandoffUriOpen x) = Handed x"
| "role (CancelUriOpen x) = Cancelled x"
| "role (PromptNotification x) = Prompted x"
| "role (DeliverNotification x) = Handed x"
| "role (DropNotification x) = Cancelled x"

type_synonym open_transfers = "PortalTransferId \<rightharpoonup> u64"

definition answer :: "'r reducer_event \<Rightarrow> PortalCommand \<Rightarrow> open_transfers \<Rightarrow> open_transfers option" where
  "answer e c opened =
     (case role c of
        Prompted x \<Rightarrow> Some (opened(pt_transfer x \<mapsto> pt_generation x))
      | Cancelled t \<Rightarrow> if opened t \<noteq> None then Some (opened(t := None)) else None
      | Handed t \<Rightarrow>
          (case e of
             EvApprove t' g \<Rightarrow> if t' = t \<and> opened t = Some g then Some (opened(t := None)) else None
           | _ \<Rightarrow> None))"

fun answers :: "'r reducer_event \<Rightarrow> PortalCommand list \<Rightarrow> open_transfers \<Rightarrow> open_transfers option" where
  "answers e [] opened = Some opened"
| "answers e (c # cs) opened = Option.bind (answer e c opened) (answers e cs)"

fun disciplined :: "'r reducer_trace \<Rightarrow> open_transfers \<Rightarrow> open_transfers option" where
  "disciplined [] opened = Some opened"
| "disciplined ((e, cs) # tr) opened = Option.bind (answers e cs opened) (disciplined tr)"

definition pending_generations :: "portal_transfers \<Rightarrow> open_transfers" where
  "pending_generations m t =
     (case bt_get m t of
        None \<Rightarrow> None
      | Some x \<Rightarrow> if pt_decision x = PdPending then Some (pt_generation x) else None)"

definition transfers_wf :: "portal_transfers \<Rightarrow> bool" where
  "transfers_wf m \<longleftrightarrow> bt_wf m \<and> list_all (\<lambda>(k, x). pt_transfer x = k) m"

lemma transfers_wf_get: "transfers_wf m \<Longrightarrow> bt_get m t = Some x \<Longrightarrow> pt_transfer x = t"
  by (auto simp: transfers_wf_def list_all_iff dest: map_of_SomeD)

lemma transfers_wf_insert:
  assumes "transfers_wf m"
  shows "transfers_wf (bt_insert (pt_transfer x) x m)"
proof -
  have wf: "bt_wf (bt_insert (pt_transfer x) x m)" using assms by (simp add: transfers_wf_def)
  have "pt_transfer y = k" if "(k, y) \<in> set (bt_insert (pt_transfer x) x m)" for k y
  proof -
    have "bt_get (bt_insert (pt_transfer x) x m) k = Some y"
      using that bt_wf_entry [OF wf] by blast
    then show ?thesis
      using transfers_wf_get [OF assms] by (auto simp: bt_get_insert split: if_splits)
  qed
  then show ?thesis using wf by (auto simp: transfers_wf_def list_all_iff)
qed

lemma transfers_wf_decide: "transfers_wf m \<Longrightarrow> transfers_wf (decide_transfer t d m)"
  by (auto simp: transfers_wf_def decide_transfer_def list_all_iff bt_update_def bt_wf_def comp_def
      case_prod_beta')

lemma pending_generations_insert:
  "pt_decision x = PdPending \<Longrightarrow>
     pending_generations (bt_insert (pt_transfer x) x m) = (pending_generations m)(pt_transfer x \<mapsto> pt_generation x)"
  by (auto simp: pending_generations_def bt_get_insert fun_eq_iff)

lemma pending_generations_decide:
  "d \<noteq> PdPending \<Longrightarrow> pending_generations (decide_transfer t d m) = (pending_generations m)(t := None)"
  by (auto simp: pending_generations_def decide_transfer_def bt_get_update fun_eq_iff split: option.splits)

lemma pending_transfer_Inr:
  "pending_transfer t m = Inr x \<Longrightarrow> pending_generations m t = Some (pt_generation x)"
  by (auto simp: pending_transfer_def pending_generations_def split: option.splits if_splits)

lemma transfers_wf_Nil [simp]: "transfers_wf []"
  by (simp add: transfers_wf_def)

text \<open>An owner change revokes the stale pending transfers of its namespace, one command each.\<close>

lemma owner_changed_entries:
  assumes "reducer_owner_changed cancel ns g m = (cs, m')"
  shows "m' = map (\<lambda>(k, x). (k, if pt_source_namespace x = ns \<and> pt_decision x = PdPending \<and> pt_generation x \<noteq> g
                               then x\<lparr>pt_decision := PdRevoked\<rparr> else x)) m
    \<and> cs = map (\<lambda>(k, x). cancel (pt_transfer x)) (filter (\<lambda>(k, x). pt_source_namespace x = ns
             \<and> pt_decision x = PdPending \<and> pt_generation x \<noteq> g) m)"
  using assms by (induction m arbitrary: cs m') (auto split: prod.splits if_splits)

lemma answers_cancelled:
  assumes "\<And>t. role (cancel t) = Cancelled t" "distinct ts" "\<And>t. t \<in> set ts \<Longrightarrow> opened t \<noteq> None"
  shows "answers e (map cancel ts) opened = Some (\<lambda>t. if t \<in> set ts then None else opened t)"
  using assms(2,3)
proof (induction ts arbitrary: opened)
  case (Cons t ts)
  have "answers e (map cancel ts) (opened(t := None)) = Some (\<lambda>u. if u \<in> set ts then None else (opened(t := None)) u)"
    using Cons.prems by (intro Cons.IH) auto
  moreover have "opened t \<noteq> None" using Cons.prems by simp
  ultimately show ?case by (auto simp: answer_def assms(1) fun_eq_iff)
qed simp

lemma owner_changed_disciplined:
  assumes "transfers_wf m" "\<And>t. role (cancel t) = Cancelled t" "reducer_owner_changed cancel ns g m = (cs, m')"
  shows "transfers_wf m' \<and> answers e cs (pending_generations m) = Some (pending_generations m')"
proof -
  let ?sel = "\<lambda>(k, x). pt_source_namespace x = ns \<and> pt_decision x = PdPending \<and> pt_generation x \<noteq> g"
  let ?f = "\<lambda>x. if ?sel (0::u64, x) then x\<lparr>pt_decision := PdRevoked\<rparr> else x"
  let ?ts = "map fst (filter ?sel m)"
  note es = owner_changed_entries [OF assms(3)]
  have wf: "bt_wf m" and k: "\<And>k x. (k, x) \<in> set m \<Longrightarrow> pt_transfer x = k"
    using assms(1) by (auto simp: transfers_wf_def list_all_iff)
  have m': "m' = bt_map_values (\<lambda>_. ?f) m"
    using es by (auto simp: bt_map_values_def)
  have cs: "cs = map cancel ?ts"
    using es k by auto
  have sel: "t \<in> set ?ts \<longleftrightarrow> (\<exists>x. bt_get m t = Some x \<and> ?sel (t, x))" for t
    by (force simp flip: bt_wf_entry [OF wf])
  have "answers e cs (pending_generations m)
      = Some (\<lambda>t. if t \<in> set ?ts then None else pending_generations m t)"
    unfolding cs
  proof (rule answers_cancelled [OF assms(2)])
    show "distinct ?ts" using wf by (simp add: bt_wf_distinct distinct_map_filter)
    show "pending_generations m t \<noteq> None" if "t \<in> set ?ts" for t
      using that [unfolded sel] by (auto simp: pending_generations_def)
  qed
  moreover have "(\<lambda>t. if t \<in> set ?ts then None else pending_generations m t) = pending_generations m'"
  proof
    fix t
    show "(if t \<in> set ?ts then None else pending_generations m t) = pending_generations m' t"
      unfolding sel m' by (cases "bt_get m t") (auto simp: pending_generations_def bt_get_map_values)
  qed
  moreover have "transfers_wf m'"
    using wf k by (auto simp: m' transfers_wf_def list_all_iff bt_map_values_def comp_def case_prod_beta' bt_wf_def)
  ultimately show ?thesis by simp
qed

section \<open>The reducer interface\<close>

locale portal_reducer =
  fixes step :: "portal_transfers \<Rightarrow> 'r reducer_event \<Rightarrow> PortalCommand list \<times> portal_transfers"
    and validate :: "'r \<Rightarrow> PortalError + unit"
    and transfer_of :: "'r \<Rightarrow> PortalTransfer"
    and prompt :: "PortalTransfer \<Rightarrow> PortalCommand"
    and handoff cancel :: "PortalTransferId \<Rightarrow> PortalCommand"
  assumes fresh: "pt_decision (transfer_of r) = PdPending"
    and roles: "role (prompt x) = Prompted x" "role (handoff t) = Handed t" "role (cancel t) = Cancelled t"
    and request: "step m (EvRequest r) = commands_of (reducer_request prompt (validate r) (transfer_of r) m)"
    and deny: "step m (EvDeny t) = commands_of (reducer_deny cancel t m)"
    and approve: "step m (EvApprove t g) = commands_of (reducer_approve cancel handoff t g m)"
    and owner_changed: "step m (EvOwnerChanged n g) = reducer_owner_changed cancel n g m"
begin

lemma step_disciplined:
  assumes "transfers_wf m" "step m e = (cs, m')"
  shows "transfers_wf m' \<and> answers e cs (pending_generations m) = Some (pending_generations m')"
proof (cases e)
  case (EvRequest r)
  then show ?thesis
    using assms fresh [of r]
    by (auto simp: request commands_of_def reducer_request_def answer_def roles transfers_wf_insert
        pending_generations_insert split: sum.splits)
next
  case (EvDeny t)
  then show ?thesis
    using assms
    by (auto simp: deny commands_of_def reducer_deny_def answer_def roles transfers_wf_decide
        pending_generations_decide dest!: pending_transfer_Inr split: sum.splits)
next
  case (EvApprove t g)
  then show ?thesis
    using assms
    by (auto simp: approve commands_of_def reducer_approve_def answer_def roles transfers_wf_decide
        pending_generations_decide dest!: pending_transfer_Inr split: sum.splits if_splits)
next
  case (EvOwnerChanged n g)
  then show ?thesis
    using assms owner_changed_disciplined [OF _ roles(3)] by (simp add: owner_changed)
qed

lemma run_disciplined:
  "transfers_wf m \<Longrightarrow> reducer_run step m es = (tr, m') \<Longrightarrow>
     transfers_wf m' \<and> disciplined tr (pending_generations m) = Some (pending_generations m')"
proof (induction es arbitrary: m tr)
  case (Cons e es)
  obtain cs m1 tr1 where 1: "step m e = (cs, m1)" and 2: "reducer_run step m1 es = (tr1, m')"
    and tr: "tr = (e, cs) # tr1"
    using Cons.prems(2) by (auto split: prod.splits)
  show ?case
    using step_disciplined [OF Cons.prems(1) 1] Cons.IH [OF _ 2] tr by simp
qed simp

lemma trace_disciplined:
  "disciplined (fst (reducer_run step [] es)) Map.empty
     = Some (pending_generations (snd (reducer_run step [] es)))"
proof -
  have "pending_generations [] = Map.empty" by (simp add: pending_generations_def fun_eq_iff)
  then show ?thesis
    using run_disciplined [of "[]" es] by (cases "reducer_run step [] es") simp
qed

end

interpretation clipboard_portal: portal_reducer clipboard_step validate_request clipboard_transfer_of PromptClipboardTransfer HandoffClipboard FailSelection
  by unfold_locales
     (simp_all add: clipboard_transfer_of_def request_import_def clipboard_deny_def clipboard_approve_generation_def
        clipboard_source_owner_changed_def)

interpretation dnd_portal: portal_reducer dnd_step validate_drag_and_drop_request dnd_transfer_of PromptDragAndDropTransfer HandoffDragAndDrop CancelDragAndDrop
  by unfold_locales
     (simp_all add: dnd_transfer_of_def dnd_request_handoff_def dnd_deny_def dnd_approve_generation_def
        dnd_source_owner_changed_def)

interpretation file_portal: portal_reducer file_step validate_file_handoff_request file_transfer_of PromptFileHandoff HandoffFile CancelFileHandoff
  by unfold_locales
     (simp_all add: file_transfer_of_def file_request_handoff_def file_deny_def file_approve_generation_def
        file_source_owner_changed_def)

interpretation capture_portal: portal_reducer capture_step validate_screen_capture_request capture_transfer_of PromptScreenCapture HandoffScreenCapture CancelScreenCapture
  by unfold_locales
     (simp_all add: capture_transfer_of_def request_capture_def capture_deny_def capture_approve_generation_def
        capture_source_owner_changed_def)

interpretation uri_portal: portal_reducer uri_step validate_uri_open_request uri_transfer_of PromptUriOpen HandoffUriOpen CancelUriOpen
  by unfold_locales
     (simp_all add: uri_transfer_of_def request_open_def uri_deny_def uri_approve_generation_def
        uri_source_owner_changed_def)

interpretation notification_portal: portal_reducer notification_step validate_notification_request notification_transfer_of PromptNotification DeliverNotification DropNotification
  by unfold_locales
     (simp_all add: notification_transfer_of_def request_display_def notification_deny_def notification_approve_generation_def
        notification_source_owner_changed_def)

section \<open>Properties\<close>

text \<open>
  Property C17. Every portal answers each prompt at most once and hands nothing over without a
  matching approval: in the commands a clipboard, drag-and-drop, file, capture, URI or notification
  portal emits over any sequence of events, a cancellation or handoff always answers an open prompt,
  a handoff is the reaction to an approval of that transfer with the generation it was prompted
  under, and what is still open at the end are exactly the pending transfers with their generations.
\<close>

theorem portal_commands_disciplined:
  "disciplined (fst (reducer_run clipboard_step [] cs)) Map.empty
       = Some (pending_generations (snd (reducer_run clipboard_step [] cs)))
   \<and> disciplined (fst (reducer_run dnd_step [] ds)) Map.empty
       = Some (pending_generations (snd (reducer_run dnd_step [] ds)))
   \<and> disciplined (fst (reducer_run file_step [] fs)) Map.empty
       = Some (pending_generations (snd (reducer_run file_step [] fs)))
   \<and> disciplined (fst (reducer_run capture_step [] ss)) Map.empty
       = Some (pending_generations (snd (reducer_run capture_step [] ss)))
   \<and> disciplined (fst (reducer_run uri_step [] us)) Map.empty
       = Some (pending_generations (snd (reducer_run uri_step [] us)))
   \<and> disciplined (fst (reducer_run notification_step [] ns)) Map.empty
       = Some (pending_generations (snd (reducer_run notification_step [] ns)))"
  by (intro conjI clipboard_portal.trace_disciplined dnd_portal.trace_disciplined file_portal.trace_disciplined capture_portal.trace_disciplined uri_portal.trace_disciplined notification_portal.trace_disciplined)

lemma require_Inr [simp]: "require c e = Inr u \<longleftrightarrow> c"
  by (simp add: require_def)

lemma reducer_request_Inr:
  "fst (reducer_request prompt v x m) = Inr c \<Longrightarrow> v = Inr () \<and> c = prompt x"
  by (auto simp: reducer_request_def split: sum.splits)

lemma uri_scheme_split:
  assumes "uri_scheme uri = Some scheme"
  shows "\<exists>rest. uri = scheme @ 0x3A # rest \<and> 0x3A \<notin> set scheme"
proof -
  have c: "0x3A \<in> set uri" and s: "scheme = takeWhile (\<lambda>b. b \<noteq> 0x3A) uri"
    using assms by (auto simp: uri_scheme_def Let_def split: if_splits)
  obtain xs ys where "uri = xs @ 0x3A # ys" "0x3A \<notin> set xs"
    using split_list_first [OF c] by blast
  moreover have "0x3A \<notin> set xs \<Longrightarrow> takeWhile (\<lambda>b. b \<noteq> 0x3A) (xs @ 0x3A # ys) = xs" for xs ys :: rust_string
    by (induction xs) auto
  ultimately have "takeWhile (\<lambda>b. b \<noteq> 0x3A) uri = xs" by simp
  then show ?thesis using s \<open>uri = xs @ 0x3A # ys\<close> \<open>0x3A \<notin> set xs\<close> by blast
qed

lemma sum_list_le: "list_all (\<lambda>x. f x \<le> k) xs \<Longrightarrow> sum_list (map f xs) \<le> length xs * (k::nat)"
  by (induction xs) auto

lemma notification_size_bound:
  assumes "validate_notification_request r = Inr ()"
  shows "length (nr_summary r) + (case nr_body r of None \<Rightarrow> 0 | Some body \<Rightarrow> length body)
      + sum_list (map length (nr_actions r)) \<le> 1408"
proof -
  have "length (nr_summary r) \<le> 128" "(case nr_body r of None \<Rightarrow> 0 | Some body \<Rightarrow> length body) \<le> 1024"
    "length (nr_actions r) \<le> 4" "list_all (\<lambda>a. length a \<le> 64) (nr_actions r)"
    using assms
    by (auto simp: validate_notification_request_def valid_notification_text_def list_all_iff
        MAX_NOTIFICATION_SUMMARY_LEN_def MAX_NOTIFICATION_BODY_LEN_def MAX_NOTIFICATION_ACTIONS_def
        MAX_NOTIFICATION_ACTION_LEN_def split: option.splits)
  moreover from this have "sum_list (map length (nr_actions r)) \<le> 4 * 64"
    using sum_list_le [of length 64 "nr_actions r"] by (meson le_trans mult_le_mono1)
  ultimately show ?thesis by simp
qed

text \<open>
  What a portal puts before the user is bounded and cannot be forged by its strings: a
  prompted URI has at most 2048 bytes, no control or white-space character and one of four schemes,
  which is exactly what its type hint shows; a prompted notification states its exact size, at most
  1408 bytes; and a suggested file name of a prompted handoff names a single path component.
\<close>

theorem portal_prompts_bounded:
  "(fst (request_open u m) = Inr c \<longrightarrow>
      (\<exists>scheme rest. ur_uri u = scheme @ 0x3A # rest
         \<and> scheme \<in> {lit ''http'', lit ''https'', lit ''mailto'', lit ''tel''}
         \<and> length (ur_uri u) \<le> 2048
         \<and> list_all (\<lambda>ch. \<not> char_is_control ch \<and> \<not> char_is_whitespace ch) (str_chars (ur_uri u))
         \<and> c = PromptUriOpen (uri_transfer_of u)
         \<and> pt_mime_type (uri_transfer_of u) = Some (lit ''uri-open:'' @ scheme)))
   \<and> (fst (request_display n m) = Inr d \<longrightarrow>
        (\<exists>x. d = PromptNotification x \<and> unat (pt_byte_size x) \<le> 1408
           \<and> unat (pt_byte_size x) = length (nr_summary n)
               + (case nr_body n of None \<Rightarrow> 0 | Some body \<Rightarrow> length body) + sum_list (map length (nr_actions n))))
   \<and> (fst (file_request_handoff f m) = Inr e \<and> fr_suggested_name f = Some name \<longrightarrow>
        name \<noteq> [] \<and> length name \<le> 255 \<and> 0x2F \<notin> set name \<and> name \<noteq> lit ''.'' \<and> name \<noteq> lit ''..'')"
proof (intro conjI impI)
  assume "fst (request_open u m) = Inr c"
  then have v: "validate_uri_open_request u = Inr ()" and c: "c = PromptUriOpen (uri_transfer_of u)"
    by (auto simp: request_open_def dest: reducer_request_Inr)
  from v obtain scheme where s: "uri_scheme (ur_uri u) = Some scheme" "supported_uri_scheme scheme"
    and l: "length (ur_uri u) \<le> 2048"
    and t: "list_all (\<lambda>ch. \<not> char_is_control ch \<and> \<not> char_is_whitespace ch) (str_chars (ur_uri u))"
    by (auto simp: validate_uri_open_request_def MAX_URI_LEN_def list_ex_iff list_all_iff)
  show "\<exists>scheme rest. ur_uri u = scheme @ 0x3A # rest
         \<and> scheme \<in> {lit ''http'', lit ''https'', lit ''mailto'', lit ''tel''}
         \<and> length (ur_uri u) \<le> 2048
         \<and> list_all (\<lambda>ch. \<not> char_is_control ch \<and> \<not> char_is_whitespace ch) (str_chars (ur_uri u))
         \<and> c = PromptUriOpen (uri_transfer_of u)
         \<and> pt_mime_type (uri_transfer_of u) = Some (lit ''uri-open:'' @ scheme)"
    using uri_scheme_split [OF s(1)] s l t c
    by (auto simp: supported_uri_scheme_def uri_transfer_of_def uri_open_type_hint_def)
next
  assume "fst (request_display n m) = Inr d"
  then have v: "validate_notification_request n = Inr ()" and d: "d = PromptNotification (notification_transfer_of n)"
    by (auto simp: request_display_def dest: reducer_request_Inr)
  show "\<exists>x. d = PromptNotification x \<and> unat (pt_byte_size x) \<le> 1408
           \<and> unat (pt_byte_size x) = length (nr_summary n)
               + (case nr_body n of None \<Rightarrow> 0 | Some body \<Rightarrow> length body) + sum_list (map length (nr_actions n))"
    using notification_size_bound [OF v] d
    by (simp add: notification_transfer_of_def notification_byte_size_def unat_of_nat del: of_nat_add)
next
  assume "fst (file_request_handoff f m) = Inr e \<and> fr_suggested_name f = Some name"
  then have "valid_suggested_file_name name"
    by (auto simp: file_request_handoff_def validate_file_handoff_request_def dest!: reducer_request_Inr)
  then show "name \<noteq> []" "length name \<le> 255" "0x2F \<notin> set name" "name \<noteq> lit ''.''" "name \<noteq> lit ''..''"
    by (auto simp: valid_suggested_file_name_def MAX_SUGGESTED_FILE_NAME_LEN_def)
qed

definition example_uri_request :: UriOpenRequest where
  "example_uri_request =
     \<lparr>ur_transfer = 3, ur_source_namespace = 1, ur_target_namespace = 2, ur_uri = lit ''tel:112'', ur_generation = 1\<rparr>"

theorem portal_prompts_bounded_witness:
  "\<exists>c. fst (request_open example_uri_request []) = Inr c \<and> c = PromptUriOpen (uri_transfer_of example_uri_request)"
proof -
  have "fst (request_open example_uri_request []) = Inr (PromptUriOpen (uri_transfer_of example_uri_request))"
    by (simp add: request_open_def reducer_request_def validate_uri_open_request_def check_ids_def require_def
        uri_scheme_def supported_uri_scheme_def is_ascii_alphanumeric_def example_uri_request_def lit_def
        id_is_valid_def MAX_URI_LEN_def str_chars_def char_is_control_def char_is_whitespace_def)
  then show ?thesis
    using portal_prompts_bounded [of example_uri_request "[]" "PromptUriOpen (uri_transfer_of example_uri_request)"]
    by blast
qed

text \<open>
  A request under a known transfer id replaces the recorded transfer even when that one was already
  decided, which the request and grant lifecycle refuses as a duplicate.
\<close>

lemma rerequest_reopens:
  assumes "validate_request r = Inr ()"
  shows "pending_generations (snd (request_import r m)) (cr_transfer r) = Some (cr_generation r)"
  using assms
  by (simp add: request_import_def reducer_request_def pending_generations_def bt_get_insert clipboard_transfer_of_def)

end
