(* ===== verification/Wm_Policy.thy ===== *)
theory Wm_Policy
  imports Protocol_Packets
begin

text \<open>
  The engine's workspace policy (\<^verbatim>\<open>sophia-engine/src/wm_policy.rs\<close>): which workspace each output
  shows, which workspace each surface is on, which surface each output focuses, and the plan a
  window-manager response leads to. A response is checked against a candidate copy of the state, so
  a rejected response leaves nothing behind.
\<close>

section \<open>State\<close>

record WmOutputPolicyState =
  wo_bounds :: Rect
  wo_workspace :: WorkspaceId
  wo_focus :: "SurfaceId option"

record WmWorkspaceState =
  ws_workspaces :: "WorkspaceId list"
  ws_outputs :: "(OutputId, WmOutputPolicyState) btree"
  ws_surfaces :: "(SurfaceId, WorkspaceId) btree"

datatype WmPolicyError =
    WpInvalidWorkspaceCount | WpInvalidOutput | WpDuplicateOutput | WpInvalidOutputBounds
  | WpUnknownOutput | WpUnknownWorkspace | WpUnknownSurface | WpDuplicateSurfaceCommand
  | WpDuplicateOutputCommand | WpDuplicateFocusCommand | WpDuplicateSessionAction | WpHiddenFocus
  | WpUnadvertisedSessionAction | WpInvalidSessionActionTarget

record WmPolicyPlan =
  wp_transaction :: TransactionId
  wp_candidate :: WmWorkspaceState
  wp_layout :: LayoutTransaction
  wp_affected_outputs :: "OutputId list"
  wp_session_action :: "(WmSessionAction \<times> SurfaceId option) option"

section \<open>Operations\<close>

fun configure_outputs ::
  "WorkspaceId list \<Rightarrow> nat \<Rightarrow> (OutputId \<times> Rect) list \<Rightarrow> (OutputId, WmOutputPolicyState) btree
     \<Rightarrow> WmPolicyError + (OutputId, WmOutputPolicyState) btree" where
  "configure_outputs workspaces index [] configured = Inr configured"
| "configure_outputs workspaces index ((output, bounds) # rest) configured =
     (if \<not> id_is_valid output then Inl WpInvalidOutput
      else if rect_is_empty bounds then Inl WpInvalidOutputBounds
      else if length workspaces \<le> index then Inl WpInvalidWorkspaceCount
      else if bt_contains configured output then Inl WpDuplicateOutput
      else configure_outputs workspaces (index + 1) rest
             (bt_insert output \<lparr>wo_bounds = bounds, wo_workspace = workspaces ! index, wo_focus = None\<rparr>
                configured))"

definition workspace_state_new :: "(OutputId \<times> Rect) list \<Rightarrow> nat \<Rightarrow> WmPolicyError + WmWorkspaceState" where
  "workspace_state_new outputs workspace_count =
     (if workspace_count = 0 \<or> 64 < workspace_count then Inl WpInvalidWorkspaceCount
      else
        let workspaces = map word_of_nat [1 ..< workspace_count + 1] in
        bind_res (configure_outputs workspaces 0 outputs []) (\<lambda>configured.
        if configured = [] then Inl WpInvalidOutput
        else Inr \<lparr>ws_workspaces = workspaces, ws_outputs = configured, ws_surfaces = []\<rparr>))"

definition descriptor :: "WmSessionAction list \<Rightarrow> WmWorkspaceState \<Rightarrow> WmSessionDescriptor" where
  "descriptor session_actions s =
     \<lparr>wd_api_version = WM_API_VERSION, wd_workspaces = ws_workspaces s,
      wd_active_workspaces =
        map (\<lambda>(output, state). \<lparr>ow_output = output, ow_workspace = wo_workspace state\<rparr>) (ws_outputs s),
      wd_session_actions = session_actions\<rparr>"

definition require_workspace :: "WmWorkspaceState \<Rightarrow> WorkspaceId \<Rightarrow> WmPolicyError + unit" where
  "require_workspace s workspace =
     (if workspace \<in> set (ws_workspaces s) then Inr () else Inl WpUnknownWorkspace)"

definition require_surface :: "WmWorkspaceState \<Rightarrow> SurfaceId \<Rightarrow> WmPolicyError + unit" where
  "require_surface s surface =
     (if bt_contains (ws_surfaces s) surface then Inr () else Inl WpUnknownSurface)"

definition register_surface ::
  "SurfaceId \<Rightarrow> WorkspaceId \<Rightarrow> WmWorkspaceState \<Rightarrow> (WmPolicyError + unit) \<times> WmWorkspaceState" where
  "register_surface surface workspace s =
     (if \<not> surface_is_valid surface then (Inl WpUnknownSurface, s)
      else case require_workspace s workspace of
          Inl e \<Rightarrow> (Inl e, s)
        | Inr _ \<Rightarrow> (Inr (), s\<lparr>ws_surfaces := bt_insert surface workspace (ws_surfaces s)\<rparr>))"

definition remove_surface :: "SurfaceId \<Rightarrow> WmWorkspaceState \<Rightarrow> bool \<times> WmWorkspaceState" where
  "remove_surface surface s =
     (bt_contains (ws_surfaces s) surface,
      s\<lparr>ws_surfaces := bt_remove surface (ws_surfaces s),
        ws_outputs := bt_map_values (\<lambda>_ o'. if wo_focus o' = Some surface then o'\<lparr>wo_focus := None\<rparr> else o')
                        (ws_outputs s)\<rparr>)"

definition surface_workspace :: "WmWorkspaceState \<Rightarrow> SurfaceId \<Rightarrow> WorkspaceId option" where
  "surface_workspace s surface = bt_get (ws_surfaces s) surface"

definition output_for_workspace :: "WmWorkspaceState \<Rightarrow> WorkspaceId \<Rightarrow> OutputId option" where
  "output_for_workspace s workspace =
     map_option fst (find (\<lambda>(output, state). wo_workspace state = workspace) (ws_outputs s))"

definition visible_surfaces :: "WmWorkspaceState \<Rightarrow> OutputId \<Rightarrow> WmPolicyError + SurfaceId list" where
  "visible_surfaces s output =
     bind_res (ok_or (bt_get (ws_outputs s) output) WpUnknownOutput) (\<lambda>o'.
     Inr (map fst (filter (\<lambda>(surface, assigned). assigned = wo_workspace o') (ws_surfaces s))))"

definition set_workspace :: "OutputId \<Rightarrow> WorkspaceId \<Rightarrow> WmWorkspaceState \<Rightarrow> WmWorkspaceState" where
  "set_workspace output workspace s =
     s\<lparr>ws_outputs := bt_update output (\<lambda>o'. o'\<lparr>wo_workspace := workspace\<rparr>) (ws_outputs s)\<rparr>"

definition activate_workspace ::
  "OutputId \<Rightarrow> WorkspaceId \<Rightarrow> WmWorkspaceState \<Rightarrow> WmPolicyError + WmWorkspaceState" where
  "activate_workspace output workspace s =
     bind_res (ok_or (bt_get (ws_outputs s) output) WpUnknownOutput) (\<lambda>o'.
     let previous = wo_workspace o' in
     if previous = workspace then Inr s
     else
       let s1 = (case output_for_workspace s workspace of
                   None \<Rightarrow> s | Some other \<Rightarrow> set_workspace other previous s) in
       Inr (set_workspace output workspace s1))"

definition clear_hidden_focus :: "WmWorkspaceState \<Rightarrow> WmWorkspaceState" where
  "clear_hidden_focus s =
     s\<lparr>ws_outputs := bt_map_values
         (\<lambda>_ o'. case wo_focus o' of
             None \<Rightarrow> o'
           | Some surface \<Rightarrow>
               if bt_get (ws_surfaces s) surface \<noteq> Some (wo_workspace o') then o'\<lparr>wo_focus := None\<rparr> else o')
         (ws_outputs s)\<rparr>"

section \<open>Planning a response\<close>

text \<open>The local variables of \<open>plan_response\<close>.\<close>

record plan_locals =
  pv_candidate :: WmWorkspaceState
  pv_requested_sizes :: "SurfaceSizeRequest list"
  pv_render_positions :: "SurfacePlacement list"
  pv_focus :: "SurfaceId option"
  pv_session_action :: "(WmSessionAction \<times> SurfaceId option) option"
  pv_assigned :: "SurfaceId list"
  pv_activated :: "OutputId list"
  pv_configured :: "SurfaceId list"
  pv_rendered :: "SurfaceId list"

fun plan_command :: "WmSessionAction list \<Rightarrow> plan_locals \<Rightarrow> WmCommand \<Rightarrow> WmPolicyError + plan_locals" where
  "plan_command advertised v (ConfigureSurface request) =
     bind_res (require_surface (pv_candidate v) (zr_surface request)) (\<lambda>_.
     if zr_surface request \<in> set (pv_configured v) then Inl WpDuplicateSurfaceCommand
     else Inr (v\<lparr>pv_configured := bs_insert (zr_surface request) (pv_configured v),
                 pv_requested_sizes := pv_requested_sizes v @ [request]\<rparr>))"
| "plan_command advertised v (RenderSurface placement) =
     bind_res (require_surface (pv_candidate v) (sp_surface placement)) (\<lambda>_.
     if sp_surface placement \<in> set (pv_rendered v) then Inl WpDuplicateSurfaceCommand
     else Inr (v\<lparr>pv_rendered := bs_insert (sp_surface placement) (pv_rendered v),
                 pv_render_positions := pv_render_positions v @ [placement]\<rparr>))"
| "plan_command advertised v (AssignWorkspace surface workspace) =
     bind_res (require_surface (pv_candidate v) surface) (\<lambda>_.
     bind_res (require_workspace (pv_candidate v) workspace) (\<lambda>_.
     if surface \<in> set (pv_assigned v) then Inl WpDuplicateSurfaceCommand
     else Inr (v\<lparr>pv_assigned := bs_insert surface (pv_assigned v),
                 pv_candidate := (pv_candidate v)\<lparr>ws_surfaces :=
                   bt_insert surface workspace (ws_surfaces (pv_candidate v))\<rparr>\<rparr>)))"
| "plan_command advertised v (ActivateWorkspace output workspace) =
     bind_res (require_workspace (pv_candidate v) workspace) (\<lambda>_.
     if output \<in> set (pv_activated v) then Inl WpDuplicateOutputCommand
     else bind_res (activate_workspace output workspace (pv_candidate v)) (\<lambda>candidate.
       Inr (v\<lparr>pv_activated := bs_insert output (pv_activated v), pv_candidate := candidate\<rparr>)))"
| "plan_command advertised v (FocusSurface surface) =
     bind_res (require_surface (pv_candidate v) surface) (\<lambda>_.
     if pv_focus v \<noteq> None then Inl WpDuplicateFocusCommand
     else Inr (v\<lparr>pv_focus := Some surface\<rparr>))"
| "plan_command advertised v (RequestSessionAction action target) =
     (if pv_session_action v \<noteq> None then Inl WpDuplicateSessionAction
      else if action \<notin> set advertised then Inl WpUnadvertisedSessionAction
      else bind_res (case target of None \<Rightarrow> Inr () | Some surface \<Rightarrow> require_surface (pv_candidate v) surface) (\<lambda>_.
        if action \<noteq> CloseFocused \<and> target \<noteq> None then Inl WpInvalidSessionActionTarget
        else Inr (v\<lparr>pv_session_action := Some (action, target)\<rparr>)))"

fun plan_commands :: "WmSessionAction list \<Rightarrow> plan_locals \<Rightarrow> WmCommand list \<Rightarrow> WmPolicyError + plan_locals" where
  "plan_commands advertised v [] = Inr v"
| "plan_commands advertised v (c # cs) =
     bind_res (plan_command advertised v c) (\<lambda>v'. plan_commands advertised v' cs)"

definition apply_focus :: "SurfaceId option \<Rightarrow> WmWorkspaceState \<Rightarrow> WmPolicyError + WmWorkspaceState" where
  "apply_focus focus candidate =
     (case focus of
        None \<Rightarrow> Inr candidate
      | Some surface \<Rightarrow>
          bind_res (ok_or (surface_workspace candidate surface) WpUnknownSurface) (\<lambda>workspace.
          bind_res (ok_or (output_for_workspace candidate workspace) WpHiddenFocus) (\<lambda>output.
          Inr (candidate\<lparr>ws_outputs :=
                 bt_update output (\<lambda>o'. o'\<lparr>wo_focus := Some surface\<rparr>) (ws_outputs candidate)\<rparr>))))"

definition plan_start :: "WmWorkspaceState \<Rightarrow> plan_locals" where
  "plan_start s =
     \<lparr>pv_candidate = s, pv_requested_sizes = [], pv_render_positions = [], pv_focus = None,
      pv_session_action = None, pv_assigned = [], pv_activated = [], pv_configured = [], pv_rendered = []\<rparr>"

definition plan_response ::
  "WmWorkspaceState \<Rightarrow> WmResponsePacket \<Rightarrow> WmSessionAction list \<Rightarrow> WmPolicyError + WmPolicyPlan" where
  "plan_response s response advertised =
     bind_res (plan_commands advertised (plan_start s) (wr_commands response)) (\<lambda>v.
     bind_res (apply_focus (pv_focus v) (pv_candidate v)) (\<lambda>focused.
     let candidate = clear_hidden_focus focused in
     Inr \<lparr>wp_transaction = wr_transaction response, wp_candidate = candidate,
          wp_layout = \<lparr>lx_transaction = wr_transaction response,
                       lx_requested_sizes = pv_requested_sizes v, lx_focus = pv_focus v,
                       lx_render_positions = pv_render_positions v,
                       lx_timeout_msec = wr_timeout_msec response\<rparr>,
          wp_affected_outputs = map fst (filter (\<lambda>(output, state). bt_get (ws_outputs s) output \<noteq> Some state)
                                               (ws_outputs candidate)),
          wp_session_action = pv_session_action v\<rparr>))"

section \<open>Workspace invariant\<close>

text \<open>
  Every output shows a known workspace, no two outputs show the same one, and every surface is on a
  known workspace.
\<close>

definition shown :: "WmWorkspaceState \<Rightarrow> OutputId \<rightharpoonup> WorkspaceId" where
  "shown s p = map_option wo_workspace (bt_get (ws_outputs s) p)"

definition workspaces_ok :: "WmWorkspaceState \<Rightarrow> bool" where
  "workspaces_ok s \<longleftrightarrow>
     bt_wf (ws_outputs s) \<and> bt_wf (ws_surfaces s)
     \<and> ran (shown s) \<subseteq> set (ws_workspaces s) \<and> inj_on (shown s) (dom (shown s))
     \<and> ran (bt_get (ws_surfaces s)) \<subseteq> set (ws_workspaces s)"

definition focus_visible :: "WmWorkspaceState \<Rightarrow> bool" where
  "focus_visible s \<longleftrightarrow>
     (\<forall>p o' x. bt_get (ws_outputs s) p = Some o' \<and> wo_focus o' = Some x
        \<longrightarrow> bt_get (ws_surfaces s) x = Some (wo_workspace o'))"

lemma shown_unique: "inj_on m (dom m) \<Longrightarrow> m p = Some w \<Longrightarrow> m q = Some w \<Longrightarrow> p = q"
  by (metis domI inj_onD)

lemma workspaces_ok_shown:
  "workspaces_ok s \<Longrightarrow> shown t = shown s \<Longrightarrow> ws_workspaces t = ws_workspaces s \<Longrightarrow>
   ws_surfaces t = ws_surfaces s \<Longrightarrow> bt_wf (ws_outputs t) \<Longrightarrow> workspaces_ok t"
  by (simp add: workspaces_ok_def)

lemma surfaces_update_ok:
  assumes "workspaces_ok s" "w \<in> set (ws_workspaces s)"
  shows "workspaces_ok (s\<lparr>ws_surfaces := bt_insert x w (ws_surfaces s)\<rparr>)"
proof -
  have "shown (s\<lparr>ws_surfaces := m\<rparr>) = shown s" for m by (simp add: shown_def fun_eq_iff)
  then show ?thesis
    using assms by (auto simp: workspaces_ok_def bt_get_insert ran_def)
qed

lemma output_for_workspace_iff:
  assumes "workspaces_ok s"
  shows "output_for_workspace s w = Some p \<longleftrightarrow> shown s p = Some w"
proof -
  have wf: "bt_wf (ws_outputs s)" and inj: "inj_on (shown s) (dom (shown s))"
    using assms by (auto simp: workspaces_ok_def)
  have sh: "shown s q = Some w \<longleftrightarrow> (\<exists>a. (q, a) \<in> set (ws_outputs s) \<and> wo_workspace a = w)" for q
    by (simp add: shown_def bt_wf_entry [OF wf])
  show ?thesis
  proof (cases "find (\<lambda>(output, state). wo_workspace state = w) (ws_outputs s)")
    case None
    then have "\<not> (\<exists>e. e \<in> set (ws_outputs s) \<and> (case e of (output, state) \<Rightarrow> wo_workspace state = w))"
      by (simp add: find_None_iff)
    then show ?thesis using None sh [of p] by (auto simp: output_for_workspace_def)
  next
    case (Some e)
    obtain q a where e: "e = (q, a)" by force
    then have "(q, a) \<in> set (ws_outputs s) \<and> wo_workspace a = w"
      using Some by (auto simp: find_Some_iff in_set_conv_nth)
    then have q: "shown s q = Some w" using sh by blast
    have "shown s p = Some w \<Longrightarrow> p = q"
      using inj q by (metis domI inj_onD)
    then show ?thesis using Some e q by (auto simp: output_for_workspace_def)
  qed
qed

lemma shown_set_workspace:
  "shown (set_workspace p w s) = (if p \<in> dom (shown s) then (shown s)(p \<mapsto> w) else shown s)"
proof
  fix q
  show "shown (set_workspace p w s) q = (if p \<in> dom (shown s) then (shown s)(p \<mapsto> w) else shown s) q"
    by (cases "bt_get (ws_outputs s) p") (auto simp: shown_def set_workspace_def bt_get_update)
qed

text \<open>Activation shows the workspace, by a swap when another output shows it already.\<close>

lemma activate_workspace_shown:
  assumes ok: "workspaces_ok s" and a: "activate_workspace p w s = Inr t"
  shows "\<exists>prev. shown s p = Some prev
    \<and> shown t = (if \<exists>q. shown s q = Some w
                 then (shown s)((THE q. shown s q = Some w) \<mapsto> prev, p \<mapsto> w) else (shown s)(p \<mapsto> w))
    \<and> ws_surfaces t = ws_surfaces s \<and> ws_workspaces t = ws_workspaces s \<and> bt_wf (ws_outputs t)"
proof -
  have wf: "bt_wf (ws_outputs s)" and inj: "inj_on (shown s) (dom (shown s))"
    using ok by (auto simp: workspaces_ok_def)
  obtain o1 where o1: "bt_get (ws_outputs s) p = Some o1" using a by (auto simp: activate_workspace_def)
  then have sp: "shown s p = Some (wo_workspace o1)" by (simp add: shown_def)
  have the: "(THE q. shown s q = Some w) = q" if "shown s q = Some w" for q
    using inj that by (intro the_equality) (auto intro: shown_unique)
  show ?thesis
  proof (cases "wo_workspace o1 = w")
    case True
    then have "t = s" using a o1 by (simp add: activate_workspace_def)
    then show ?thesis using sp True the [of p] wf by (auto simp: fun_eq_iff)
  next
    case False
    show ?thesis
    proof (cases "output_for_workspace s w")
      case None
      then have "\<nexists>q. shown s q = Some w" using output_for_workspace_iff [OF ok] by (metis option.distinct(1))
      moreover have "t = set_workspace p w s" using a o1 False None by (simp add: activate_workspace_def)
      ultimately show ?thesis
        using sp wf by (auto simp: shown_set_workspace) (simp_all add: set_workspace_def)
    next
      case (Some q)
      then have q: "shown s q = Some w" using output_for_workspace_iff [OF ok] by blast
      have t: "t = set_workspace p w (set_workspace q (wo_workspace o1) s)"
        using a o1 False Some by (simp add: activate_workspace_def)
      have "shown t = (shown s)(q \<mapsto> wo_workspace o1, p \<mapsto> w)"
        using sp q by (simp add: t shown_set_workspace dom_def)
      moreover have "ws_surfaces t = ws_surfaces s \<and> ws_workspaces t = ws_workspaces s \<and> bt_wf (ws_outputs t)"
        using wf by (simp add: t set_workspace_def)
      ultimately show ?thesis using sp q the [OF q] by auto
    qed
  qed
qed

lemma activate_workspace_ok:
  assumes ok: "workspaces_ok s" and w: "w \<in> set (ws_workspaces s)" and a: "activate_workspace p w s = Inr t"
  shows "workspaces_ok t \<and> ws_surfaces t = ws_surfaces s \<and> ws_workspaces t = ws_workspaces s"
proof -
  have inj: "inj_on (shown s) (dom (shown s))" and r: "ran (shown s) \<subseteq> set (ws_workspaces s)"
    using ok by (auto simp: workspaces_ok_def)
  obtain prev where p: "shown s p = Some prev"
    and t: "shown t = (if \<exists>q. shown s q = Some w
                 then (shown s)((THE q. shown s q = Some w) \<mapsto> prev, p \<mapsto> w) else (shown s)(p \<mapsto> w))"
    and rest: "ws_surfaces t = ws_surfaces s" "ws_workspaces t = ws_workspaces s" "bt_wf (ws_outputs t)"
    using activate_workspace_shown [OF ok a] by blast
  have known: "prev \<in> set (ws_workspaces s)" using r p by (meson ranI subsetD)
  have "inj_on (shown t) (dom (shown t)) \<and> ran (shown t) \<subseteq> set (ws_workspaces s)"
  proof (cases "\<exists>q. shown s q = Some w")
    case True
    then obtain q where q: "shown s q = Some w" by blast
    have "(THE q. shown s q = Some w) = q"
      using inj q by (intro the_equality) (auto intro: shown_unique)
    then have t': "shown t = (shown s)(q \<mapsto> prev, p \<mapsto> w)" using t True by simp
    show ?thesis
    proof
      show "inj_on (shown t) (dom (shown t))"
        unfolding t' inj_on_def using p q by (auto split: if_splits dest: shown_unique [OF inj])
      show "ran (shown t) \<subseteq> set (ws_workspaces s)"
        unfolding t' ran_def using r known w by (auto simp: ran_def split: if_splits)
    qed
  next
    case False
    then have t': "shown t = (shown s)(p \<mapsto> w)" using t by simp
    show ?thesis
    proof
      show "inj_on (shown t) (dom (shown t))"
        unfolding t' inj_on_def using False by (auto split: if_splits dest: shown_unique [OF inj])
      show "ran (shown t) \<subseteq> set (ws_workspaces s)"
        unfolding t' ran_def using r w by (auto simp: ran_def split: if_splits)
    qed
  qed
  then show ?thesis using ok rest by (simp add: workspaces_ok_def)
qed

section \<open>What a planned response does\<close>

definition layout_of :: "WmResponsePacket \<Rightarrow> plan_locals \<Rightarrow> LayoutTransaction" where
  "layout_of r v =
     \<lparr>lx_transaction = wr_transaction r, lx_requested_sizes = pv_requested_sizes v, lx_focus = pv_focus v,
      lx_render_positions = pv_render_positions v, lx_timeout_msec = wr_timeout_msec r\<rparr>"

definition plan_ok :: "WmWorkspaceState \<Rightarrow> plan_locals \<Rightarrow> bool" where
  "plan_ok s v \<longleftrightarrow>
     workspaces_ok (pv_candidate v) \<and> ws_workspaces (pv_candidate v) = ws_workspaces s
     \<and> dom (bt_get (ws_surfaces (pv_candidate v))) = dom (bt_get (ws_surfaces s))
     \<and> dom (shown (pv_candidate v)) = dom (shown s)
     \<and> set (pv_configured v) = zr_surface ` set (pv_requested_sizes v) \<and> distinct (map zr_surface (pv_requested_sizes v))
     \<and> set (pv_rendered v) = sp_surface ` set (pv_render_positions v) \<and> distinct (map sp_surface (pv_render_positions v))
     \<and> (\<forall>q \<in> set (pv_requested_sizes v). zr_surface q \<in> dom (bt_get (ws_surfaces s)))
     \<and> (\<forall>q \<in> set (pv_render_positions v). sp_surface q \<in> dom (bt_get (ws_surfaces s)))
     \<and> (\<forall>x. pv_focus v = Some x \<longrightarrow> x \<in> dom (bt_get (ws_surfaces s)))"

lemma require_simps [simp]:
  "require_workspace s w = Inr u \<longleftrightarrow> w \<in> set (ws_workspaces s)"
  "require_surface s x = Inr u \<longleftrightarrow> x \<in> dom (bt_get (ws_surfaces s))"
  by (auto simp: require_workspace_def require_surface_def bt_contains_def)

lemma shown_surfaces [simp]: "shown (s\<lparr>ws_surfaces := m\<rparr>) = shown s"
  by (simp add: shown_def fun_eq_iff)

lemma activate_workspace_dom:
  assumes "workspaces_ok s" "activate_workspace p w s = Inr t"
  shows "dom (shown t) = dom (shown s)"
proof -
  have inj: "inj_on (shown s) (dom (shown s))" using assms(1) by (simp add: workspaces_ok_def)
  have "(THE q. shown s q = Some w) = q" if "shown s q = Some w" for q
    using that by (intro the_equality) (auto intro: shown_unique [OF inj])
  then have "shown s (THE q. shown s q = Some w) = Some w" if "\<exists>q. shown s q = Some w"
    using that by metis
  then have "(THE q. shown s q = Some w) \<in> dom (shown s)" if "\<exists>q. shown s q = Some w"
    using that by (simp add: domI)
  then show ?thesis
    using activate_workspace_shown [OF assms]
    by (cases "\<exists>q. shown s q = Some w") (force simp: insert_absorb)+
qed

lemma plan_command_ok:
  assumes "plan_ok s v" "plan_command adv v c = Inr v'"
  shows "plan_ok s v' \<and> layout_of r v' = layout_add_command (layout_of r v) c"
proof (cases c)
  case (AssignWorkspace x w)
  have d: "x \<in> dom (bt_get (ws_surfaces s))" using assms AssignWorkspace by (auto simp: plan_ok_def)
  then have "dom (bt_get (bt_insert x w (ws_surfaces (pv_candidate v)))) = dom (bt_get (ws_surfaces s))"
    using assms(1) by (simp only: plan_ok_def bt_get_insert dom_fun_upd) auto
  moreover have "w \<in> set (ws_workspaces (pv_candidate v))"
    "v' = v\<lparr>pv_assigned := bs_insert x (pv_assigned v), pv_candidate := (pv_candidate v)\<lparr>ws_surfaces :=
                   bt_insert x w (ws_surfaces (pv_candidate v))\<rparr>\<rparr>"
    using assms(2) AssignWorkspace by (simp_all split: if_splits)
  ultimately show ?thesis
    using assms(1) AssignWorkspace surfaces_update_ok [of "pv_candidate v" w x]
    by (simp add: plan_ok_def layout_of_def)
next
  case (ActivateWorkspace p w)
  then obtain t where "activate_workspace p w (pv_candidate v) = Inr t" "w \<in> set (ws_workspaces (pv_candidate v))"
    "v' = v\<lparr>pv_activated := bs_insert p (pv_activated v), pv_candidate := t\<rparr>"
    using assms(2) by (auto split: if_splits)
  then show ?thesis
    using assms(1) ActivateWorkspace activate_workspace_ok [of "pv_candidate v" w p t]
      activate_workspace_dom [of "pv_candidate v" p w t]
    by (auto simp: plan_ok_def layout_of_def)
next
  case (ConfigureSurface q)
  then have "zr_surface q \<in> dom (bt_get (ws_surfaces (pv_candidate v)))" "zr_surface q \<notin> set (pv_configured v)"
    "v' = v\<lparr>pv_configured := bs_insert (zr_surface q) (pv_configured v),
            pv_requested_sizes := pv_requested_sizes v @ [q]\<rparr>"
    using assms(2) by (simp_all split: if_splits)
  then show ?thesis using assms(1) ConfigureSurface by (simp add: plan_ok_def layout_of_def)
next
  case (RenderSurface q)
  then have "sp_surface q \<in> dom (bt_get (ws_surfaces (pv_candidate v)))" "sp_surface q \<notin> set (pv_rendered v)"
    "v' = v\<lparr>pv_rendered := bs_insert (sp_surface q) (pv_rendered v),
            pv_render_positions := pv_render_positions v @ [q]\<rparr>"
    using assms(2) by (simp_all split: if_splits)
  then show ?thesis using assms(1) RenderSurface by (simp add: plan_ok_def layout_of_def)
next
  case (FocusSurface x)
  then have "x \<in> dom (bt_get (ws_surfaces (pv_candidate v)))" "v' = v\<lparr>pv_focus := Some x\<rparr>"
    using assms(2) by (simp_all split: if_splits)
  then show ?thesis using assms(1) FocusSurface by (simp add: plan_ok_def layout_of_def)
next
  case (RequestSessionAction a t)
  then have "v' = v\<lparr>pv_session_action := Some (a, t)\<rparr>"
    using assms(2) by (simp split: if_splits)
  then show ?thesis using assms(1) RequestSessionAction by (simp add: plan_ok_def layout_of_def)
qed

lemma plan_commands_ok:
  "plan_ok s v \<Longrightarrow> plan_commands adv v cs = Inr v' \<Longrightarrow>
     plan_ok s v' \<and> layout_of r v' = foldl layout_add_command (layout_of r v) cs"
proof (induction cs arbitrary: v)
  case (Cons c cs)
  then obtain v1 where v1: "plan_command adv v c = Inr v1" "plan_commands adv v1 cs = Inr v'" by auto
  show ?case using plan_command_ok [OF Cons.prems(1) v1(1), of r] Cons.IH [OF _ v1(2)] by simp
qed simp

lemma plan_start_ok: "workspaces_ok s \<Longrightarrow> plan_ok s (plan_start s)"
  by (simp add: plan_ok_def plan_start_def)

lemma clear_hidden_focus_output:
  "bt_get (ws_outputs (clear_hidden_focus s)) p = map_option (\<lambda>o'.
     if \<exists>x. wo_focus o' = Some x \<and> bt_get (ws_surfaces s) x \<noteq> Some (wo_workspace o')
     then o'\<lparr>wo_focus := None\<rparr> else o') (bt_get (ws_outputs s) p)"
  by (cases "bt_get (ws_outputs s) p") (auto simp: clear_hidden_focus_def bt_get_map_values split: option.splits)

lemma clear_hidden_focus_same [simp]:
  "ws_surfaces (clear_hidden_focus s) = ws_surfaces s"
  "ws_workspaces (clear_hidden_focus s) = ws_workspaces s"
  "shown (clear_hidden_focus s) = shown s"
  "bt_wf (ws_outputs (clear_hidden_focus s)) = bt_wf (ws_outputs s)"
proof -
  show "shown (clear_hidden_focus s) = shown s"
  proof
    fix p show "shown (clear_hidden_focus s) p = shown s p"
      by (cases "bt_get (ws_outputs s) p") (auto simp: shown_def clear_hidden_focus_output)
  qed
qed (simp_all add: clear_hidden_focus_def)

lemma focus_cleared_iff [simp]: "o' = o'\<lparr>wo_focus := None\<rparr> \<longleftrightarrow> wo_focus o' = None"
  by (cases o') simp

lemma clear_hidden_focus_visible: "focus_visible (clear_hidden_focus s)"
  by (auto simp: focus_visible_def clear_hidden_focus_output split: if_splits)

lemma apply_focus_ok:
  assumes "workspaces_ok c" "apply_focus f c = Inr c'"
  shows "workspaces_ok c' \<and> ws_surfaces c' = ws_surfaces c \<and> ws_workspaces c' = ws_workspaces c \<and> shown c' = shown c
    \<and> (\<forall>x. f = Some x \<longrightarrow> (\<exists>p o' w. bt_get (ws_outputs c') p = Some o' \<and> wo_focus o' = Some x
           \<and> wo_workspace o' = w \<and> bt_get (ws_surfaces c) x = Some w))"
proof (cases f)
  case None
  then show ?thesis using assms by (simp add: apply_focus_def)
next
  case (Some x)
  then obtain w p where w: "bt_get (ws_surfaces c) x = Some w" and p: "output_for_workspace c w = Some p"
    and c': "c' = c\<lparr>ws_outputs := bt_update p (\<lambda>o'. o'\<lparr>wo_focus := Some x\<rparr>) (ws_outputs c)\<rparr>"
    using assms(2) by (auto simp: apply_focus_def surface_workspace_def)
  obtain o1 where o1: "bt_get (ws_outputs c) p = Some o1" "wo_workspace o1 = w"
    using p output_for_workspace_iff [OF assms(1)] by (auto simp: shown_def)
  have sh: "shown c' = shown c"
  proof
    fix q show "shown c' q = shown c q"
      by (cases "bt_get (ws_outputs c) q") (auto simp: c' shown_def bt_get_update)
  qed
  have "workspaces_ok c'"
    using assms(1) by (rule workspaces_ok_shown [OF _ sh]) (use assms(1) in \<open>simp_all add: c' workspaces_ok_def\<close>)
  moreover have "\<exists>p o' w. bt_get (ws_outputs c') p = Some o' \<and> wo_focus o' = Some x
      \<and> wo_workspace o' = w \<and> bt_get (ws_surfaces c) x = Some w"
    using o1 w by (intro exI [of _ p] exI [of _ "o1\<lparr>wo_focus := Some x\<rparr>"] exI [of _ w]) (simp add: c' bt_get_update)
  ultimately show ?thesis using sh Some by (simp add: c')
qed

lemma plan_response_ok:
  assumes ok: "workspaces_ok s" and pl: "plan_response s r adv = Inr plan"
  shows "workspaces_ok (wp_candidate plan)" "ws_workspaces (wp_candidate plan) = ws_workspaces s"
    "dom (shown (wp_candidate plan)) = dom (shown s)"
    "dom (bt_get (ws_surfaces (wp_candidate plan))) = dom (bt_get (ws_surfaces s))"
    "wp_layout plan = into_layout_transaction r" "focus_visible (wp_candidate plan)"
    "distinct (map zr_surface (lx_requested_sizes (wp_layout plan)))"
    "distinct (map sp_surface (lx_render_positions (wp_layout plan)))"
    "zr_surface ` set (lx_requested_sizes (wp_layout plan)) \<union> sp_surface ` set (lx_render_positions (wp_layout plan))
       \<subseteq> dom (bt_get (ws_surfaces s))"
    "lx_focus (wp_layout plan) = Some x \<Longrightarrow>
       \<exists>p o'. bt_get (ws_outputs (wp_candidate plan)) p = Some o' \<and> wo_focus o' = Some x
            \<and> bt_get (ws_surfaces (wp_candidate plan)) x = Some (wo_workspace o')"
proof -
  obtain v c where v: "plan_commands adv (plan_start s) (wr_commands r) = Inr v"
    and c: "apply_focus (pv_focus v) (pv_candidate v) = Inr c"
    and cand: "wp_candidate plan = clear_hidden_focus c" and lay: "wp_layout plan = layout_of r v"
    using pl by (auto simp: plan_response_def Let_def layout_of_def)
  have p: "plan_ok s v" "layout_of r v = foldl layout_add_command (layout_of r (plan_start s)) (wr_commands r)"
    using plan_commands_ok [OF plan_start_ok [OF ok] v, of r] by auto
  then have okv: "workspaces_ok (pv_candidate v)" by (simp add: plan_ok_def)
  note af = apply_focus_ok [OF okv c]
  show "workspaces_ok (wp_candidate plan)" "ws_workspaces (wp_candidate plan) = ws_workspaces s"
    "dom (shown (wp_candidate plan)) = dom (shown s)"
    "dom (bt_get (ws_surfaces (wp_candidate plan))) = dom (bt_get (ws_surfaces s))"
    "focus_visible (wp_candidate plan)"
    using af p(1) clear_hidden_focus_visible by (auto simp: cand plan_ok_def workspaces_ok_def)
  show "wp_layout plan = into_layout_transaction r"
    using p(2) by (simp add: lay into_layout_transaction_def layout_of_def plan_start_def)
  show "distinct (map zr_surface (lx_requested_sizes (wp_layout plan)))"
    "distinct (map sp_surface (lx_render_positions (wp_layout plan)))"
    "zr_surface ` set (lx_requested_sizes (wp_layout plan)) \<union> sp_surface ` set (lx_render_positions (wp_layout plan))
       \<subseteq> dom (bt_get (ws_surfaces s))"
    using p(1) by (auto simp: lay layout_of_def plan_ok_def)
  show "\<exists>p o'. bt_get (ws_outputs (wp_candidate plan)) p = Some o' \<and> wo_focus o' = Some x
            \<and> bt_get (ws_surfaces (wp_candidate plan)) x = Some (wo_workspace o')"
    if "lx_focus (wp_layout plan) = Some x"
    using that af by (force simp: lay layout_of_def cand clear_hidden_focus_output)
qed

section \<open>The policy as a machine\<close>

text \<open>A response whose plan is accepted makes the candidate the new state.\<close>

datatype policy_event =
    PeRegister SurfaceId WorkspaceId
  | PeRemove SurfaceId
  | PeRespond WmResponsePacket "WmSessionAction list"

fun policy_step :: "WmWorkspaceState \<Rightarrow> policy_event \<Rightarrow> WmWorkspaceState" where
  "policy_step s (PeRegister x w) = snd (register_surface x w s)"
| "policy_step s (PeRemove x) = snd (remove_surface x s)"
| "policy_step s (PeRespond r adv) =
     (case plan_response s r adv of Inl _ \<Rightarrow> s | Inr plan \<Rightarrow> wp_candidate plan)"

definition policy_fixed :: "WmWorkspaceState \<Rightarrow> WmWorkspaceState \<Rightarrow> bool" where
  "policy_fixed s t \<longleftrightarrow> ws_workspaces t = ws_workspaces s \<and> dom (shown t) = dom (shown s)"

lemma remove_surface_ok:
  assumes "workspaces_ok s"
  shows "workspaces_ok (snd (remove_surface x s)) \<and> policy_fixed s (snd (remove_surface x s))"
proof -
  have "shown (snd (remove_surface x s)) = shown s"
  proof
    fix p show "shown (snd (remove_surface x s)) p = shown s p"
      by (cases "bt_get (ws_outputs s) p") (auto simp: shown_def remove_surface_def bt_get_map_values)
  qed
  then show ?thesis
    using assms by (auto simp: workspaces_ok_def policy_fixed_def remove_surface_def bt_get_remove ran_def split: if_splits)
qed

lemma register_surface_ok:
  "workspaces_ok s \<Longrightarrow> workspaces_ok (snd (register_surface x w s)) \<and> policy_fixed s (snd (register_surface x w s))"
  using surfaces_update_ok [of s w x]
  by (simp add: register_surface_def policy_fixed_def require_workspace_def)

lemma policy_step_ok:
  assumes "workspaces_ok s"
  shows "workspaces_ok (policy_step s e) \<and> policy_fixed s (policy_step s e)"
proof (cases e)
  case (PeRespond r adv)
  then show ?thesis
    using assms plan_response_ok(1-3) [OF assms, of r adv]
    by (cases "plan_response s r adv") (auto simp: policy_fixed_def)
qed (use assms in \<open>simp_all add: register_surface_ok remove_surface_ok\<close>)

interpretation policy: history_machine policy_step workspaces_ok policy_fixed
  by unfold_locales (use policy_step_ok in \<open>auto simp: policy_fixed_def\<close>)

definition shows_from :: "WorkspaceId list \<Rightarrow> (OutputId, WmOutputPolicyState) btree \<Rightarrow> bool" where
  "shows_from ws m \<longleftrightarrow>
     bt_wf m \<and> (\<forall>p o'. bt_get m p = Some o' \<longrightarrow> wo_workspace o' \<in> set ws)
     \<and> (\<forall>p q a b. bt_get m p = Some a \<longrightarrow> bt_get m q = Some b \<longrightarrow> wo_workspace a = wo_workspace b \<longrightarrow> p = q)"

lemma configure_outputs_ok:
  "distinct ws \<Longrightarrow> shows_from (take i ws) m \<Longrightarrow> configure_outputs ws i outs m = Inr m' \<Longrightarrow>
     shows_from ws m' \<and> dom (bt_get m') = dom (bt_get m) \<union> fst ` set outs"
proof (induction outs arbitrary: i m)
  case Nil
  then show ?case using set_take_subset [of i ws] by (auto simp: shows_from_def)
next
  case (Cons e outs)
  obtain p b where e: "e = (p, b)" by force
  define st where "st = \<lparr>wo_bounds = b, wo_workspace = ws ! i, wo_focus = None\<rparr>"
  have i: "i < length ws" and new: "bt_get m p = None" and c: "configure_outputs ws (i + 1) outs (bt_insert p st m) = Inr m'"
    using Cons.prems(3) by (auto simp: e st_def bt_contains_def split: if_splits)
  have fresh: "ws ! i \<notin> set (take i ws)"
    using Cons.prems(1) i by (auto simp: in_set_conv_nth distinct_conv_nth)
  have "shows_from (take (i + 1) ws) (bt_insert p st m)"
    using Cons.prems(2) i fresh
    by (auto simp: shows_from_def bt_get_insert take_Suc_conv_app_nth st_def) metis+
  from Cons.IH [OF Cons.prems(1) this c] show ?case
    using e by (auto simp: bt_get_insert)
qed

lemma workspace_state_new_ok:
  assumes "workspace_state_new outs n = Inr s"
  shows "workspaces_ok s \<and> dom (shown s) = fst ` set outs \<and> length (ws_workspaces s) = n"
proof -
  let ?ws = "map word_of_nat [1 ..< n + 1] :: WorkspaceId list"
  obtain m where n: "n \<le> 64" and m: "configure_outputs ?ws 0 outs [] = Inr m"
    and s: "s = \<lparr>ws_workspaces = ?ws, ws_outputs = m, ws_surfaces = []\<rparr>"
    using assms by (auto simp: workspace_state_new_def Let_def split: if_splits)
  have "inj_on (word_of_nat :: nat \<Rightarrow> u64) {1 ..< n + 1}"
  proof (rule inj_onI)
    fix a b assume ab: "a \<in> {1 ..< n + 1}" "b \<in> {1 ..< n + 1}" "(word_of_nat a :: u64) = word_of_nat b"
    then have "unat (word_of_nat a :: u64) = unat (word_of_nat b :: u64)" by simp
    moreover have "a < 2 ^ 64" "b < 2 ^ 64" using ab n by auto
    ultimately show "a = b" by (simp add: unat_of_nat)
  qed
  then have "distinct ?ws" by (simp only: distinct_map set_upt distinct_upt simp_thms)
  from configure_outputs_ok [OF this _ m]
  have f: "shows_from ?ws m" and d: "dom (bt_get m) = fst ` set outs" by (auto simp: shows_from_def)
  have sh: "shown s p = map_option wo_workspace (bt_get m p)" for p by (simp add: s shown_def)
  have "inj_on (shown s) (dom (shown s))"
    using f unfolding shows_from_def inj_on_def sh dom_def by (auto simp: sh)
  moreover have "ran (shown s) \<subseteq> set ?ws" "dom (shown s) = dom (bt_get m)"
    using f unfolding shows_from_def ran_def dom_def by (auto simp: sh)
  ultimately show ?thesis
    using f d by (simp add: s workspaces_ok_def shows_from_def)
qed

section \<open>Properties\<close>

text \<open>
  Property C18. Workspaces stay apart: from any configured set of outputs, whatever surfaces are
  registered and removed and whatever responses the window manager sends, every output keeps
  showing exactly one known workspace, no workspace is shown on two outputs, outputs neither appear
  nor vanish, and every registered surface is on a known workspace.
\<close>

theorem workspaces_stay_apart:
  assumes "workspace_state_new outs n = Inr s0" "s = foldl policy_step s0 es"
  shows "dom (shown s) = fst ` set outs \<and> inj_on (shown s) (dom (shown s))
    \<and> ran (shown s) \<subseteq> set (ws_workspaces s0) \<and> ran (surface_workspace s) \<subseteq> set (ws_workspaces s0)"
proof -
  have ok0: "workspaces_ok s0" and dom0: "dom (shown s0) = fst ` set outs"
    using workspace_state_new_ok [OF assms(1)] by auto
  have "workspaces_ok s" "policy_fixed s0 s"
    using policy.run_inv [OF ok0] policy.run_rel [OF ok0] assms(2) by auto
  moreover have "surface_workspace s = bt_get (ws_surfaces s)"
    by (simp add: surface_workspace_def fun_eq_iff)
  ultimately show ?thesis
    using dom0 by (simp add: workspaces_ok_def policy_fixed_def)
qed

definition example_bounds :: Rect where
  "example_bounds = \<lparr>rc_x = 0, rc_y = 0, rc_width = 800, rc_height = 600\<rparr>"

definition policy_response :: "WmCommand list \<Rightarrow> WmResponsePacket" where
  "policy_response cs = \<lparr>wr_transaction = 9, wr_commands = cs, wr_timeout_msec = 50\<rparr>"

definition example_state :: WmWorkspaceState where
  "example_state =
     \<lparr>ws_workspaces = [1, 2, 3],
      ws_outputs = [(5, \<lparr>wo_bounds = example_bounds, wo_workspace = 1, wo_focus = None\<rparr>),
                    (6, \<lparr>wo_bounds = example_bounds, wo_workspace = 2, wo_focus = None\<rparr>)],
      ws_surfaces = []\<rparr>"

lemma example_state_new: "workspace_state_new [(5, example_bounds), (6, example_bounds)] 3 = Inr example_state"
  by (simp add: workspace_state_new_def Let_def example_state_def bt_contains_def id_is_valid_def
      rect_is_empty_def example_bounds_def upt_rec)

theorem workspaces_stay_apart_witness:
  "inj_on (shown (policy_step example_state (PeRespond (policy_response [ActivateWorkspace 5 2]) [])))
     {5, 6}"
proof -
  let ?s = "policy_step example_state (PeRespond (policy_response [ActivateWorkspace 5 2]) [])"
  have "?s = foldl policy_step example_state [PeRespond (policy_response [ActivateWorkspace 5 2]) []]" by simp
  note apart = workspaces_stay_apart [OF example_state_new this]
  have "dom (shown ?s) = {5, 6}" using conjunct1 [OF apart] by (simp del: policy_step.simps)
  then show ?thesis using apart by metis
qed

text \<open>
  Property C19. A planned response is the response: when the policy accepts one, the layout
  transaction of the plan is exactly the one the engine derives from the response directly, its size
  requests and placements name registered surfaces, each at most once, no output of the new state
  focuses a surface it does not show, and the surface the response focuses is focused on the output
  that shows its workspace.
\<close>

theorem plan_agrees_with_response:
  assumes "workspace_state_new outs n = Inr s0" "s = foldl policy_step s0 es"
    and "plan_response s r adv = Inr plan"
  shows "wp_layout plan = into_layout_transaction r
    \<and> distinct (map zr_surface (lx_requested_sizes (wp_layout plan)))
    \<and> distinct (map sp_surface (lx_render_positions (wp_layout plan)))
    \<and> (\<forall>x \<in> zr_surface ` set (lx_requested_sizes (wp_layout plan))
             \<union> sp_surface ` set (lx_render_positions (wp_layout plan)). surface_workspace s x \<noteq> None)
    \<and> focus_visible (wp_candidate plan)
    \<and> (\<forall>x. lx_focus (wp_layout plan) = Some x \<longrightarrow>
         (\<exists>p o'. bt_get (ws_outputs (wp_candidate plan)) p = Some o' \<and> wo_focus o' = Some x
            \<and> surface_workspace (wp_candidate plan) x = Some (wo_workspace o')))"
proof -
  have ok: "workspaces_ok s"
    using workspace_state_new_ok [OF assms(1)] policy.run_inv assms(2) by auto
  note pr = plan_response_ok [OF ok assms(3)]
  have "surface_workspace s x \<noteq> None"
    if "x \<in> zr_surface ` set (lx_requested_sizes (wp_layout plan))
             \<union> sp_surface ` set (lx_render_positions (wp_layout plan))" for x
    using subsetD [OF pr(9) that] by (auto simp: surface_workspace_def)
  then show ?thesis
    using pr by (simp add: surface_workspace_def)
qed

theorem plan_agrees_with_response_witness:
  "\<exists>plan. plan_response (foldl policy_step example_state [PeRegister (SurfaceId 0 1) 2])
      (policy_response [FocusSurface (SurfaceId 0 1)]) [] = Inr plan
    \<and> wp_layout plan = into_layout_transaction (policy_response [FocusSurface (SurfaceId 0 1)])
    \<and> focus_visible (wp_candidate plan)"
proof -
  have "\<exists>plan. plan_response (foldl policy_step example_state [PeRegister (SurfaceId 0 1) 2])
      (policy_response [FocusSurface (SurfaceId 0 1)]) [] = Inr plan"
    by (simp add: plan_response_def Let_def plan_start_def example_state_def register_surface_def surface_is_valid_def
        require_workspace_def require_surface_def apply_focus_def surface_workspace_def output_for_workspace_def
        policy_response_def word_max_def bt_contains_def)
  then show ?thesis
    using plan_agrees_with_response [OF example_state_new refl] by blast
qed

text \<open>
  Registering a surface that is registered already moves it to another workspace without looking at
  the focus, so an output can keep focusing a surface it no longer shows.
\<close>

lemma reregister_hides_focus:
  "\<not> focus_visible (snd (register_surface (SurfaceId 0 1) 2
      (foldl policy_step example_state [PeRegister (SurfaceId 0 1) 1,
         PeRespond (policy_response [FocusSurface (SurfaceId 0 1)]) []])))"
  by (auto simp: focus_visible_def plan_response_def Let_def plan_start_def example_state_def register_surface_def
      surface_is_valid_def require_workspace_def require_surface_def apply_focus_def surface_workspace_def
      output_for_workspace_def policy_response_def word_max_def bt_contains_def clear_hidden_focus_def
      bt_map_values_def bt_update_def intro!: exI [of _ 5])

end
