(* ===== verification/Layout_Render.thy ===== *)
theory Layout_Render
  imports Frame_Scheduling "HOL-Library.Multiset"
begin

text \<open>
  From layout to pixels: window-manager placements applied to the layer stack
  (\<^verbatim>\<open>engine/layout/wm_transaction.rs\<close>), frame planning and replay (\<^verbatim>\<open>engine/rendering.rs\<close>), buffer
  import of the renderers (\<^verbatim>\<open>render.rs\<close>), chrome actions and session events (\<^verbatim>\<open>chrome/action.rs\<close>,
  \<^verbatim>\<open>session.rs\<close>) and the session tick that ties them together (\<^verbatim>\<open>engine/session_tick.rs\<close>).
\<close>

section \<open>Layout transactions (engine/layout/wm\_transaction.rs)\<close>

definition moved_damage :: "Rect \<Rightarrow> Rect \<Rightarrow> Region" where
  "moved_damage old_geometry new_geometry =
     region_extend (region_single old_geometry) (region_single new_geometry)"

text \<open>The body of the placement loop; \<open>z_index.max(0)\<close> keeps its bits in the cast to \<open>u32\<close>.\<close>

definition place_layer :: "SurfacePlacement \<Rightarrow> LayerSnapshot \<Rightarrow> LayerSnapshot" where
  "place_layer p l =
     l\<lparr>ls_geometry := sp_geometry p, ls_stack_rank := i32_max (sp_z_index p) 0,
       ls_crop := sp_crop p, ls_transform := sp_transform p,
       ls_damage := moved_damage (ls_geometry l) (sp_geometry p),
       ls_generation := sat_add (ls_generation l) 1\<rparr>"

definition layer_indexes :: "LayerSnapshot list \<Rightarrow> (SurfaceId, nat) btree" where
  "layer_indexes layers = bt_from_list (map (\<lambda>(i, l). (ls_surface l, i)) (enumerate 0 layers))"

fun apply_placements ::
  "(SurfaceId, nat) btree \<Rightarrow> SurfacePlacement list \<Rightarrow> LayerSnapshot list \<Rightarrow> EngineError + LayerSnapshot list"
  where
  "apply_placements idx [] layers = Inr layers"
| "apply_placements idx (p # ps) layers =
     (if \<not> surface_is_valid (sp_surface p) then Inl InvalidSurface
      else case bt_get idx (sp_surface p) of
             None \<Rightarrow> Inl InvalidSurface
           | Some i \<Rightarrow> apply_placements idx ps (layers[i := place_layer p (layers ! i)]))"

definition apply_layout_transaction ::
  "LayoutTransaction \<Rightarrow> LayerSnapshot list \<Rightarrow> EngineError + LayerSnapshot list" where
  "apply_layout_transaction t layers =
     apply_placements (layer_indexes layers) (lx_render_positions t) layers"

definition commit_layout_transaction ::
  "LayoutTransaction \<Rightarrow> LayerSnapshot list \<Rightarrow> TransactionCommit \<times> LayerSnapshot list" where
  "commit_layout_transaction t layers =
     (case apply_layout_transaction t layers of
        Inr committed \<Rightarrow>
          (\<lparr>tc_transaction = lx_transaction t, tc_outcome = Committed,
            tc_applied_surfaces = map sp_surface (lx_render_positions t)\<rparr>, committed)
      | Inl e \<Rightarrow>
          (\<lparr>tc_transaction = lx_transaction t,
            tc_outcome = (if e = InvalidSurface then RejectedInvalidSurface else RejectedStaleSurface),
            tc_applied_surfaces = []\<rparr>, layers))"

section \<open>Planning and replay (engine/rendering.rs, render.rs)\<close>

record ReplayStep =
  rs_command_index :: nat
  rs_kind :: RenderCommandKind
  rs_source :: "SurfaceId option"
  rs_target :: Region
  rs_clip :: "Region option"
  rs_transform :: Transform
  rs_alpha :: f32

record ReplayReport =
  rp_output :: OutputId
  rp_output_size :: Size
  rp_output_scale :: u32
  rp_frame_serial :: u64
  rp_steps :: "ReplayStep list"
  rp_damage :: Region

definition should_render :: "LayerSnapshot \<Rightarrow> bool" where
  "should_render l =
     (f32_positive (ls_opacity l) \<and> \<not> rect_is_empty (ls_geometry l) \<and> ls_source l \<noteq> BufNone)"

definition layer_target :: "LayerSnapshot \<Rightarrow> Region" where
  "layer_target l = (case ls_crop l of None \<Rightarrow> region_single (ls_geometry l) | Some c \<Rightarrow> region_single c)"

definition layer_command :: "OutputId \<Rightarrow> LayerSnapshot \<Rightarrow> RenderCommand" where
  "layer_command output l =
     \<lparr>rn_kind = Blit, rn_source = Some (ls_surface l), rn_output = output, rn_target = layer_target l,
      rn_clip = map_option region_single (ls_crop l), rn_transform = ls_transform l,
      rn_alpha = ls_opacity l\<rparr>"

fun plan_layers ::
  "OutputId \<Rightarrow> LayerSnapshot list \<Rightarrow> RenderCommand list \<Rightarrow> Region
   \<Rightarrow> EngineError + (RenderCommand list \<times> Region)" where
  "plan_layers output [] commands damage = Inr (commands, damage)"
| "plan_layers output (l # ls) commands damage =
     (if \<not> surface_is_valid (ls_surface l) then Inl InvalidSurface
      else if \<not> should_render l then plan_layers output ls commands damage
      else if region_is_empty (layer_target l) then plan_layers output ls commands damage
      else plan_layers output ls (commands @ [layer_command output l])
             (region_extend damage (ls_damage l)))"

definition plan_frame ::
  "HeadlessEngine \<Rightarrow> FramePlanRequest \<Rightarrow> LayerSnapshot list \<Rightarrow> EngineError + FrameSnapshot" where
  "plan_frame e request layers =
     bind_res (validate_output e (fq_output request)) (\<lambda>_.
       let sorted = sort_key ls_stack_rank layers in
       bind_res (plan_layers (fq_output request) sorted [] region_empty) (\<lambda>(commands, damage).
         Inr \<lparr>fs_output = fq_output request, fs_output_size = ho_size (he_output e),
              fs_output_scale = ho_scale (he_output e), fs_frame_serial = fq_frame_serial request,
              fs_layers = sorted, fs_commands = commands, fs_damage = damage\<rparr>))"

definition replay_step :: "nat \<Rightarrow> RenderCommand \<Rightarrow> ReplayStep" where
  "replay_step i c =
     \<lparr>rs_command_index = i, rs_kind = rn_kind c, rs_source = rn_source c, rs_target = rn_target c,
      rs_clip = rn_clip c, rs_transform = rn_transform c, rs_alpha = rn_alpha c\<rparr>"

fun replay_commands ::
  "OutputId \<Rightarrow> SurfaceId list \<Rightarrow> nat \<Rightarrow> RenderCommand list \<Rightarrow> EngineError + ReplayStep list" where
  "replay_commands output surfaces i [] = Inr []"
| "replay_commands output surfaces i (c # cs) =
     (if rn_output c \<noteq> output then Inl InvalidOutput
      else if (case rn_source c of None \<Rightarrow> False
               | Some s \<Rightarrow> \<not> surface_is_valid s \<or> s \<notin> set surfaces)
        then Inl InvalidSurface
      else bind_res (replay_commands output surfaces (Suc i) cs) (\<lambda>steps. Inr (replay_step i c # steps)))"

definition replay_frame :: "HeadlessEngine \<Rightarrow> FrameSnapshot \<Rightarrow> EngineError + ReplayReport" where
  "replay_frame e frame =
     bind_res (validate_output e (fs_output frame)) (\<lambda>_.
       if fs_output_size frame \<noteq> ho_size (he_output e) \<or> fs_output_scale frame \<noteq> ho_scale (he_output e)
       then Inl InvalidFrame
       else bind_res (replay_commands (fs_output frame)
                (bs_from_list (map ls_surface (fs_layers frame))) 0 (fs_commands frame))
         (\<lambda>steps. Inr \<lparr>rp_output = fs_output frame, rp_output_size = fs_output_size frame,
                       rp_output_scale = fs_output_scale frame,
                       rp_frame_serial = fs_frame_serial frame, rp_steps = steps,
                       rp_damage = fs_damage frame\<rparr>))"

section \<open>Buffer import (render.rs)\<close>

datatype BufferImportPath = PathCpuReadback | PathXPixmap | PathDmaBuf

datatype ImportedBufferHandle =
    HandleCpuReadback BufferSource
  | HandleXPixmap u32
  | HandleDmaBuf u64

fun handle_path :: "ImportedBufferHandle \<Rightarrow> BufferImportPath" where
  "handle_path (HandleCpuReadback b) = PathCpuReadback"
| "handle_path (HandleXPixmap x) = PathXPixmap"
| "handle_path (HandleDmaBuf h) = PathDmaBuf"

record BufferImportReport =
  bi_surface :: SurfaceId
  bi_source :: BufferSource
  bi_requested :: BufferImportPath
  bi_used :: BufferImportPath
  bi_handle :: ImportedBufferHandle
  bi_used_fallback :: bool

record RenderFrameReport =
  rf_replay :: ReplayReport
  rf_imports :: "BufferImportReport list"

fun requested_path :: "BufferSource \<Rightarrow> BufferImportPath option" where
  "requested_path BufNone = None"
| "requested_path (BufCpuBuffer h) = Some PathCpuReadback"
| "requested_path (BufXPixmap p) = Some PathXPixmap"
| "requested_path (BufDmaBuf h) = Some PathDmaBuf"

definition buffer_import_report ::
  "(BufferSource \<Rightarrow> ImportedBufferHandle) \<Rightarrow> LayerSnapshot \<Rightarrow> BufferImportReport option" where
  "buffer_import_report import_source l =
     map_option (\<lambda>requested.
       let handle = import_source (ls_source l); used = handle_path handle in
       \<lparr>bi_surface = ls_surface l, bi_source = ls_source l, bi_requested = requested, bi_used = used,
        bi_handle = handle, bi_used_fallback = (requested \<noteq> used)\<rparr>)
       (requested_path (ls_source l))"

fun collect_imports ::
  "(BufferSource \<Rightarrow> ImportedBufferHandle) \<Rightarrow> (SurfaceId, LayerSnapshot) btree \<Rightarrow> SurfaceId list
   \<Rightarrow> RenderCommand list \<Rightarrow> BufferImportReport list" where
  "collect_imports import_source layers seen [] = []"
| "collect_imports import_source layers seen (c # cs) =
     (case rn_source c of
        None \<Rightarrow> collect_imports import_source layers seen cs
      | Some s \<Rightarrow>
          if s \<in> set seen then collect_imports import_source layers seen cs
          else
            (case Option.bind (bt_get layers s) (buffer_import_report import_source) of
               None \<Rightarrow> []
             | Some r \<Rightarrow> [r]) @ collect_imports import_source layers (bs_insert s seen) cs)"

definition collect_buffer_imports ::
  "(BufferSource \<Rightarrow> ImportedBufferHandle) \<Rightarrow> FrameSnapshot \<Rightarrow> BufferImportReport list" where
  "collect_buffer_imports import_source frame =
     collect_imports import_source
       (bt_from_list (map (\<lambda>l. (ls_surface l, l)) (fs_layers frame))) [] (fs_commands frame)"

definition cpu_render_frame :: "FrameSnapshot \<Rightarrow> ReplayReport \<Rightarrow> EngineError + RenderFrameReport" where
  "cpu_render_frame frame replay =
     Inr \<lparr>rf_replay = replay, rf_imports = collect_buffer_imports HandleCpuReadback frame\<rparr>"

record ImportCapableRenderer =
  ic_import_xpixmap :: bool
  ic_import_dmabuf :: bool

fun import_source :: "ImportCapableRenderer \<Rightarrow> BufferSource \<Rightarrow> ImportedBufferHandle" where
  "import_source r (BufXPixmap p) =
     (if ic_import_xpixmap r then HandleXPixmap p else HandleCpuReadback (BufXPixmap p))"
| "import_source r (BufDmaBuf h) =
     (if ic_import_dmabuf r then HandleDmaBuf h else HandleCpuReadback (BufDmaBuf h))"
| "import_source r b = HandleCpuReadback b"

definition import_render_frame ::
  "ImportCapableRenderer \<Rightarrow> FrameSnapshot \<Rightarrow> ReplayReport \<Rightarrow> EngineError + RenderFrameReport" where
  "import_render_frame r frame replay =
     Inr \<lparr>rf_replay = replay, rf_imports = collect_buffer_imports (import_source r) frame\<rparr>"

text \<open>A \<open>FrameRenderer\<close> is the function it implements.\<close>

definition render_frame_with ::
  "HeadlessEngine \<Rightarrow> (FrameSnapshot \<Rightarrow> ReplayReport \<Rightarrow> EngineError + RenderFrameReport)
   \<Rightarrow> FrameSnapshot \<Rightarrow> EngineError + RenderFrameReport" where
  "render_frame_with e renderer frame = bind_res (replay_frame e frame) (renderer frame)"

definition render_frame :: "HeadlessEngine \<Rightarrow> FrameSnapshot \<Rightarrow> EngineError + RenderFrameReport" where
  "render_frame e frame = render_frame_with e cpu_render_frame frame"

section \<open>Chrome actions and session events (chrome/action.rs, session.rs)\<close>

datatype ChromeActionRejectReason = UnknownSurface | StaleGeneration | NotClosable | UnsupportedAction

datatype ChromeActionDecision =
    CaRequestPoliteClose SurfaceId
  | CaRejected ChromeActionRejectReason

definition validate_chrome_action ::
  "ChromeActionRequest \<Rightarrow> LayoutNodeSnapshot list \<Rightarrow> ChromeActionDecision" where
  "validate_chrome_action request nodes =
     (case vec_find ln_surface nodes (ca_surface request) of
        None \<Rightarrow> CaRejected UnknownSurface
      | Some node \<Rightarrow>
          if ln_generation node \<noteq> ca_generation request then CaRejected StaleGeneration
          else case ca_kind request of
                 CloseSurfaceRequested \<Rightarrow>
                   if lc_closable (ln_capabilities node) then CaRequestPoliteClose (ca_surface request)
                   else CaRejected NotClosable)"

datatype SessionEvent =
    SeChromeAction ChromeActionRequest
  | SeSurfaceRemoved TransactionId SurfaceId WorkspaceId

datatype SessionCommand =
    ScRequestPoliteClose SurfaceId
  | ScSendWmRequest WmRequestPacket

record SessionUpdate =
  su_chrome_decision :: "ChromeActionDecision option"
  su_commands :: "SessionCommand list"

fun handle_session_event :: "SessionEvent \<Rightarrow> LayoutNodeSnapshot list \<Rightarrow> SessionUpdate" where
  "handle_session_event (SeChromeAction request) nodes =
     (let decision = validate_chrome_action request nodes in
      \<lparr>su_chrome_decision = Some decision,
       su_commands = (case decision of
                        CaRequestPoliteClose s \<Rightarrow> [ScRequestPoliteClose s]
                      | CaRejected r \<Rightarrow> [])\<rparr>)"
| "handle_session_event (SeSurfaceRemoved tx s w) nodes =
     \<lparr>su_chrome_decision = None,
      su_commands = [ScSendWmRequest \<lparr>wq_transaction = tx, wq_kind = SurfaceRemoved s w\<rparr>]\<rparr>"

section \<open>Session ticks (engine/session\_tick.rs)\<close>

datatype SessionLayerSource = Fresh "LayerSnapshot list" | RestoreLastCommitted

record SessionTickRequest =
  sq_output :: OutputId
  sq_frame_serial :: u64
  sq_layers :: SessionLayerSource

record SessionTickReport =
  sr_frame :: FrameSnapshot
  sr_replay :: ReplayReport
  sr_restored_last_committed :: bool

definition run_session_tick ::
  "HeadlessEngine \<Rightarrow> SessionTickRequest \<Rightarrow> LastCommittedLayout
   \<Rightarrow> (EngineError + SessionTickReport) \<times> LastCommittedLayout" where
  "run_session_tick e request last_committed =
     (let (layers, restored, last') =
            (case sq_layers request of
               Fresh layers \<Rightarrow> (layers, False, lcl_replace last_committed layers)
             | RestoreLastCommitted \<Rightarrow> (lcl_restore_into last_committed, True, last_committed)) in
      (bind_res (plan_frame e \<lparr>fq_output = sq_output request, fq_frame_serial = sq_frame_serial request\<rparr> layers)
         (\<lambda>frame. bind_res (replay_frame e frame) (\<lambda>replay.
            Inr \<lparr>sr_frame = frame, sr_replay = replay, sr_restored_last_committed = restored\<rparr>)),
       last'))"

text \<open>The clock is any \<open>FrameClock\<close>: a state and its \<open>next_frame\<close>.\<close>

definition run_clocked_session_tick ::
  "HeadlessEngine \<Rightarrow> (OutputId \<Rightarrow> 'c \<Rightarrow> FrameClockTick \<times> 'c) \<Rightarrow> 'c \<Rightarrow> SessionLayerSource
   \<Rightarrow> LastCommittedLayout \<Rightarrow> (EngineError + SessionTickReport) \<times> 'c \<times> LastCommittedLayout" where
  "run_clocked_session_tick e next_frame clock layers last_committed =
     (let (tick, clock') = next_frame (ho_id (he_output e)) clock;
          (result, last') = run_session_tick e
            \<lparr>sq_output = ct_output tick, sq_frame_serial = ct_frame_serial tick, sq_layers = layers\<rparr>
            last_committed in
      (result, clock', last'))"

section \<open>Layout lemmas\<close>

definition layers_wf :: "LayerSnapshot list \<Rightarrow> bool" where
  "layers_wf layers = distinct (map ls_surface layers)"

definition placement_ok :: "LayerSnapshot list \<Rightarrow> SurfacePlacement \<Rightarrow> bool" where
  "placement_ok layers p \<longleftrightarrow> surface_is_valid (sp_surface p) \<and> sp_surface p \<in> ls_surface ` set layers"

text \<open>The placements of a layer, applied in order: what a layout transaction means for it.\<close>

definition placed_layer :: "SurfacePlacement list \<Rightarrow> LayerSnapshot \<Rightarrow> LayerSnapshot" where
  "placed_layer ps l = foldl (\<lambda>l p. place_layer p l) l (filter (\<lambda>p. sp_surface p = ls_surface l) ps)"

lemma place_layer_surface [simp]: "ls_surface (place_layer p l) = ls_surface l"
  by (simp add: place_layer_def)

lemma placed_layer_surface [simp]: "ls_surface (placed_layer ps l) = ls_surface l"
proof -
  have "ls_surface (foldl (\<lambda>l p. place_layer p l) l qs) = ls_surface l" for qs
    by (induction qs arbitrary: l) simp_all
  then show ?thesis by (simp add: placed_layer_def)
qed

lemma placed_layer_simps:
  "placed_layer [] l = l"
  "placed_layer (p # ps) l =
     placed_layer ps (if sp_surface p = ls_surface l then place_layer p l else l)"
  by (simp_all add: placed_layer_def)

lemma layer_indexes_lookup:
  "bt_get (layer_indexes layers) s = Some i \<Longrightarrow> i < length layers \<and> ls_surface (layers ! i) = s"
  "bt_get (layer_indexes layers) s = None \<longleftrightarrow> s \<notin> ls_surface ` set layers"
proof -
  have e: "(s, i) \<in> set (map (\<lambda>(i, l). (ls_surface l, i)) (enumerate 0 layers)) \<longleftrightarrow>
      i < length layers \<and> ls_surface (layers ! i) = s" for s i
    by (auto simp: in_set_enumerate_eq image_iff split: prod.splits)
  show "bt_get (layer_indexes layers) s = Some i \<Longrightarrow> i < length layers \<and> ls_surface (layers ! i) = s"
    using e [of s i] map_of_SomeD [of "rev (map (\<lambda>(i, l). (ls_surface l, i)) (enumerate 0 layers))" s i]
    by (simp only: layer_indexes_def bt_get_from_list set_rev)
  show "bt_get (layer_indexes layers) s = None \<longleftrightarrow> s \<notin> ls_surface ` set layers"
  proof -
    have "map fst (map (\<lambda>(i, l). (ls_surface l, i)) (enumerate 0 layers)) = map ls_surface layers"
      by (rule nth_equalityI) (auto simp: nth_enumerate_eq)
    then have "fst ` set (map (\<lambda>(i, l). (ls_surface l, i)) (enumerate 0 layers)) = ls_surface ` set layers"
      by (metis set_map)
    then show ?thesis
      by (simp only: layer_indexes_def bt_get_from_list map_of_eq_None_iff set_rev)
  qed
qed

lemma update_unique_key:
  assumes "distinct (map key xs)" "i < length xs" "key (xs ! i) = k"
  shows "xs[i := f (xs ! i)] = map (\<lambda>x. if key x = k then f x else x) xs"
proof (rule nth_equalityI)
  fix j
  assume j: "j < length (xs[i := f (xs ! i)])"
  then have "key (xs ! j) = key (xs ! i) \<longleftrightarrow> j = i"
    using assms nth_eq_iff_index_eq [of "map key xs" j i] by simp
  then show "xs[i := f (xs ! i)] ! j = map (\<lambda>x. if key x = k then f x else x) xs ! j"
    using j assms by (auto simp: nth_list_update)
qed simp

lemma apply_placements_spec:
  assumes "layers_wf layers" and idx: "map ls_surface layers = map ls_surface base"
    and "idx = layer_indexes base"
  shows "apply_placements idx ps layers =
     (if \<forall>p \<in> set ps. placement_ok layers p then Inr (map (placed_layer ps) layers)
      else Inl InvalidSurface)"
  using assms(1,2)
proof (induction ps arbitrary: layers)
  case Nil
  then show ?case by (simp add: placed_layer_simps map_idI)
next
  case (Cons p ps)
  have keys: "ls_surface ` set layers = ls_surface ` set base"
    using Cons.prems(2) by (metis set_map)
  show ?case
  proof (cases "placement_ok layers p")
    case True
    then obtain i where i: "bt_get idx (sp_surface p) = Some i"
      using layer_indexes_lookup(2) [of base "sp_surface p"] keys assms(3)
      by (auto simp: placement_ok_def)
    then have il: "i < length layers" "ls_surface (layers ! i) = sp_surface p"
      using layer_indexes_lookup(1) [of base "sp_surface p" i] assms(3) Cons.prems(2)
      by (metis length_map, metis length_map nth_map)
    let ?layers = "map (\<lambda>l. if ls_surface l = sp_surface p then place_layer p l else l) layers"
    have up: "layers[i := place_layer p (layers ! i)] = ?layers"
      using update_unique_key [of ls_surface layers i "sp_surface p" "place_layer p"]
        il Cons.prems(1) by (simp add: layers_wf_def)
    have same: "map ls_surface ?layers = map ls_surface layers"
      by simp
    then have "placement_ok ?layers q = placement_ok layers q" for q
      unfolding placement_ok_def by (metis set_map)
    moreover have "layers_wf ?layers" "map ls_surface ?layers = map ls_surface base"
      using same Cons.prems by (simp_all only: layers_wf_def)
    ultimately have "apply_placements idx ps ?layers =
        (if \<forall>q \<in> set ps. placement_ok layers q then Inr (map (placed_layer ps) ?layers)
         else Inl InvalidSurface)"
      using Cons.IH [of ?layers] by simp
    moreover have "map (placed_layer ps) ?layers = map (placed_layer (p # ps)) layers"
      by (simp add: placed_layer_simps eq_commute)
    ultimately show ?thesis
      using True i up by (simp add: placement_ok_def)
  next
    case False
    then show ?thesis
      using layer_indexes_lookup(2) [of base "sp_surface p"] keys assms(3)
      by (auto simp: placement_ok_def split: option.splits)
  qed
qed

lemma commit_layout_spec:
  assumes "layers_wf layers"
  shows "commit_layout_transaction t layers =
    (if \<forall>p \<in> set (lx_render_positions t). placement_ok layers p
     then (\<lparr>tc_transaction = lx_transaction t, tc_outcome = Committed,
            tc_applied_surfaces = map sp_surface (lx_render_positions t)\<rparr>,
           map (placed_layer (lx_render_positions t)) layers)
     else (\<lparr>tc_transaction = lx_transaction t, tc_outcome = RejectedInvalidSurface,
            tc_applied_surfaces = []\<rparr>, layers))"
  using apply_placements_spec [OF assms refl refl]
  by (simp add: commit_layout_transaction_def apply_layout_transaction_def)

section \<open>Rendering lemmas\<close>

definition layer_visible :: "LayerSnapshot \<Rightarrow> bool" where
  "layer_visible l \<longleftrightarrow> should_render l \<and> \<not> region_is_empty (layer_target l)"

lemma plan_layers_spec:
  "plan_layers output ls commands damage =
     (if \<forall>l \<in> set ls. surface_is_valid (ls_surface l)
      then Inr (commands @ map (layer_command output) (filter layer_visible ls),
                foldl (\<lambda>d l. region_extend d (ls_damage l)) damage (filter layer_visible ls))
      else Inl InvalidSurface)"
  by (induction ls arbitrary: commands damage) (auto simp: layer_visible_def)

lemma replay_commands_ok:
  assumes "\<forall>c \<in> set cs. rn_output c = output
      \<and> (\<forall>s. rn_source c = Some s \<longrightarrow> surface_is_valid s \<and> s \<in> set surfaces)"
  shows "replay_commands output surfaces i cs = Inr (map (\<lambda>(j, c). replay_step j c) (enumerate i cs))"
  using assms by (induction cs arbitrary: i) (auto split: option.splits)

lemma replay_steps_fields:
  fixes i cs
  defines "steps \<equiv> map (\<lambda>(j, c). replay_step j c) (enumerate i cs)"
  shows "map rs_source steps = map rn_source cs" "map rs_target steps = map rn_target cs"
    "map rs_command_index steps = [i..<i + length cs]"
  unfolding steps_def
  by (intro nth_equalityI; simp add: nth_enumerate_eq replay_step_def)+

lemma plan_frame_spec:
  "plan_frame e q layers =
     (if \<not> (id_is_valid (fq_output q) \<and> fq_output q = ho_id (he_output e)) then Inl InvalidOutput
      else if \<exists>l \<in> set layers. \<not> surface_is_valid (ls_surface l) then Inl InvalidSurface
      else Inr \<lparr>fs_output = fq_output q, fs_output_size = ho_size (he_output e),
              fs_output_scale = ho_scale (he_output e), fs_frame_serial = fq_frame_serial q,
              fs_layers = sort_key ls_stack_rank layers,
              fs_commands = map (layer_command (fq_output q))
                (filter layer_visible (sort_key ls_stack_rank layers)),
              fs_damage = foldl (\<lambda>d l. region_extend d (ls_damage l)) region_empty
                (filter layer_visible (sort_key ls_stack_rank layers))\<rparr>)"
  by (auto simp: plan_frame_def validate_output_def Let_def plan_layers_spec)

lemma replay_planned:
  assumes "plan_frame e q layers = Inr f"
  shows "replay_frame e f = Inr \<lparr>rp_output = fs_output f, rp_output_size = fs_output_size f,
      rp_output_scale = fs_output_scale f, rp_frame_serial = fs_frame_serial f,
      rp_steps = map (\<lambda>(j, c). replay_step j c) (enumerate 0 (fs_commands f)),
      rp_damage = fs_damage f\<rparr>"
proof -
  note pf = assms [unfolded plan_frame_spec]
  have "replay_commands (fs_output f) (bs_from_list (map ls_surface (fs_layers f))) 0 (fs_commands f)
      = Inr (map (\<lambda>(j, c). replay_step j c) (enumerate 0 (fs_commands f)))"
    using pf by (intro replay_commands_ok) (auto simp: layer_command_def split: if_splits)
  then show ?thesis
    using pf by (auto simp: replay_frame_def validate_output_def split: if_splits)
qed

text \<open>On a frame whose commands draw each surface once, the imports follow the commands one by one.\<close>

lemma collect_imports_spec:
  assumes "\<forall>l \<in> set ls. bt_get m (ls_surface l) = Some l \<and> ls_source l \<noteq> BufNone"
    and "distinct (map ls_surface ls)" "set seen \<inter> ls_surface ` set ls = {}"
  shows "collect_imports f m seen (map (layer_command output) ls)
       = map (\<lambda>l. the (buffer_import_report f l)) ls"
  using assms
proof (induction ls arbitrary: seen)
  case (Cons l ls)
  have "collect_imports f m (bs_insert (ls_surface l) seen) (map (layer_command output) ls)
       = map (\<lambda>l. the (buffer_import_report f l)) ls"
    using Cons.prems by (intro Cons.IH) auto
  moreover have "\<exists>r. buffer_import_report f l = Some r"
    using Cons.prems by (cases "ls_source l") (auto simp: buffer_import_report_def)
  moreover have "rn_source (layer_command output l) = Some (ls_surface l)"
    by (simp add: layer_command_def)
  ultimately show ?case
    using Cons.prems by auto
qed simp

lemma layers_by_surface:
  assumes "layers_wf ls" "l \<in> set ls"
  shows "bt_get (bt_from_list (map (\<lambda>l. (ls_surface l, l)) ls)) (ls_surface l) = Some l"
proof -
  have "distinct (map fst (map (\<lambda>l. (ls_surface l, l)) ls))"
    using assms(1) by (simp add: layers_wf_def comp_def)
  then have "map_of (rev (map (\<lambda>l. (ls_surface l, l)) ls)) = map_of (map (\<lambda>l. (ls_surface l, l)) ls)"
    by (rule map_of_rev_distinct)
  moreover have "map_of (map (\<lambda>l. (ls_surface l, l)) ls) (ls_surface l) = Some l"
    using assms by (intro map_of_is_SomeI) (auto simp: layers_wf_def comp_def)
  ultimately show ?thesis by (simp add: bt_get_from_list)
qed

lemma layers_wf_sort [simp]: "layers_wf (sort_key f ls) = layers_wf ls"
proof -
  have "mset (map ls_surface (sort_key f ls)) = mset (map ls_surface ls)" by simp
  then show ?thesis unfolding layers_wf_def by (metis mset_eq_imp_distinct_iff)
qed

section \<open>Properties\<close>

text \<open>
  Property C12. A layout transaction of the window manager is applied as a whole or not at all: if
  every placement names a valid surface of the layer stack, each layer receives exactly its own
  placements in order (geometry, z-order, crop, transform, the damage of the move, one generation
  step each) and layers without a placement are untouched; otherwise nothing changes and no surface
  is reported as applied.
\<close>

theorem layout_commit_atomic:
  assumes "layers_wf layers"
  shows "(let ps = lx_render_positions t; (c, layers') = commit_layout_transaction t layers in
     tc_transaction c = lx_transaction t \<and> map ls_surface layers' = map ls_surface layers
     \<and> (if \<forall>p \<in> set ps. surface_is_valid (sp_surface p) \<and> sp_surface p \<in> ls_surface ` set layers
        then tc_outcome c = Committed \<and> tc_applied_surfaces c = map sp_surface ps
             \<and> (\<forall>i < length layers. layers' ! i = foldl (\<lambda>l p. place_layer p l) (layers ! i)
                   (filter (\<lambda>p. sp_surface p = ls_surface (layers ! i)) ps))
        else tc_outcome c = RejectedInvalidSurface \<and> tc_applied_surfaces c = [] \<and> layers' = layers))"
  using commit_layout_spec [OF assms, of t]
  by (auto simp: Let_def placement_ok_def placed_layer_def [symmetric])

definition example_layout :: LayoutTransaction where
  "example_layout =
     \<lparr>lx_transaction = 4, lx_requested_sizes = [], lx_focus = None,
      lx_render_positions = [\<lparr>sp_surface = SurfaceId 5 1,
        sp_geometry = \<lparr>rc_x = 10, rc_y = 20, rc_width = 300, rc_height = 200\<rparr>, sp_z_index = - 3,
        sp_crop = None, sp_transform = transform_IDENTITY\<rparr>],
      lx_timeout_msec = 250\<rparr>"

theorem layout_commit_atomic_witness:
  "tc_outcome (fst (commit_layout_transaction example_layout [example_template])) = Committed"
proof -
  have wf: "layers_wf [example_template]" by (simp add: layers_wf_def)
  have all: "(\<forall>p \<in> set (lx_render_positions example_layout). surface_is_valid (sp_surface p)
      \<and> sp_surface p \<in> ls_surface ` set [example_template]) = True"
    by (simp add: example_layout_def example_template_def surface_is_valid_def word_max_def)
  show ?thesis
    using layout_commit_atomic [OF wf, of example_layout]
    unfolding Let_def case_prod_beta all by simp
qed

text \<open>
  A planned frame always replays. Planning succeeds exactly for the engine's own
  output and valid surfaces; the frame keeps every layer, ordered by stack rank with equal ranks in
  their given order; it draws exactly the visible layers (opaque or translucent, non-empty, with a
  buffer), back to front; and replaying it on the same engine succeeds with one step per command in
  the same order.
\<close>

theorem planned_frame_replays:
  "(case plan_frame e q layers of
      Inl err \<Rightarrow> \<not> (id_is_valid (fq_output q) \<and> fq_output q = ho_id (he_output e))
        \<or> (\<exists>l \<in> set layers. \<not> surface_is_valid (ls_surface l))
    | Inr f \<Rightarrow>
        fs_layers f = sort_key ls_stack_rank layers \<and> sorted (map ls_stack_rank (fs_layers f))
        \<and> mset (fs_layers f) = mset layers
        \<and> map rn_source (fs_commands f) = map (\<lambda>l. Some (ls_surface l)) (filter layer_visible (fs_layers f))
        \<and> (\<exists>r. replay_frame e f = Inr r \<and> rp_frame_serial r = fq_frame_serial q
             \<and> map rs_source (rp_steps r) = map rn_source (fs_commands f)
             \<and> map rs_target (rp_steps r) = map rn_target (fs_commands f)
             \<and> map rs_command_index (rp_steps r) = [0..<length (fs_commands f)]))"
proof (cases "plan_frame e q layers")
  case (Inl err)
  then show ?thesis by (simp add: plan_frame_spec split: if_splits)
next
  case (Inr f)
  note pf = Inr [unfolded plan_frame_spec]
  have "map rn_source (fs_commands f) = map (\<lambda>l. Some (ls_surface l)) (filter layer_visible (fs_layers f))"
    using pf by (auto simp: layer_command_def split: if_splits)
  moreover have "fs_layers f = sort_key ls_stack_rank layers" "fs_frame_serial f = fq_frame_serial q"
    using pf by (auto split: if_splits)
  ultimately show ?thesis
    using Inr replay_planned [OF Inr] replay_steps_fields [of 0 "fs_commands f"] by simp
qed

definition example_layer :: LayerSnapshot where
  "example_layer = example_template\<lparr>ls_source := BufDmaBuf 9\<rparr>"

definition example_engine :: HeadlessEngine where
  "example_engine = \<lparr>he_output = headless_output_deterministic\<rparr>"

lemma example_frame_planned:
  "\<exists>f. plan_frame example_engine \<lparr>fq_output = 1, fq_frame_serial = 12\<rparr> [example_layer] = Inr f
     \<and> fs_layers f = [example_layer]"
  by (simp add: plan_frame_spec example_engine_def headless_output_deterministic_def id_is_valid_def
        example_layer_def example_template_def surface_is_valid_def word_max_def)

theorem planned_frame_replays_witness:
  "\<exists>f r. plan_frame example_engine \<lparr>fq_output = 1, fq_frame_serial = 12\<rparr> [example_layer] = Inr f
     \<and> replay_frame example_engine f = Inr r \<and> rp_frame_serial r = 12"
  using example_frame_planned
    planned_frame_replays [where e = example_engine and q = "\<lparr>fq_output = 1, fq_frame_serial = 12\<rparr>"
      and layers = "[example_layer]"]
  by auto

text \<open>
  Rendering a planned frame imports the buffer of every drawn layer exactly once, in
  drawing order, along the path its buffer asks for when the renderer supports it and along the CPU
  readback path otherwise, and the report flags a fallback exactly when the two differ.
\<close>

theorem renderer_imports_each_layer_once:
  assumes "layers_wf layers" "plan_frame e q layers = Inr f"
  shows "\<exists>r. render_frame_with e (import_render_frame rend) f = Inr r
    \<and> map bi_surface (rf_imports r) = map ls_surface (filter layer_visible (fs_layers f))
    \<and> distinct (map bi_surface (rf_imports r))
    \<and> (\<forall>b \<in> set (rf_imports r).
         bi_handle b = import_source rend (bi_source b)
         \<and> bi_used b = (if (bi_requested b = PathXPixmap \<and> ic_import_xpixmap rend)
                         \<or> (bi_requested b = PathDmaBuf \<and> ic_import_dmabuf rend)
                        then bi_requested b else PathCpuReadback)
         \<and> bi_used_fallback b = (bi_requested b \<noteq> bi_used b))"
proof -
  let ?vis = "filter layer_visible (fs_layers f)"
  let ?imports = "map (\<lambda>l. the (buffer_import_report (import_source rend) l)) ?vis"
  note pf = assms(2) [unfolded plan_frame_spec]
  have wf: "layers_wf (fs_layers f)" and cmds: "fs_commands f = map (layer_command (fs_output f)) ?vis"
    using pf assms(1) by (auto split: if_splits)
  have src: "ls_source l \<noteq> BufNone" if "l \<in> set ?vis" for l
    using that by (simp add: layer_visible_def should_render_def)
  have dist: "distinct (map ls_surface ?vis)"
    using wf by (simp add: layers_wf_def distinct_map_filter)
  have "collect_buffer_imports (import_source rend) f = ?imports"
    unfolding collect_buffer_imports_def cmds
    by (rule collect_imports_spec) (use wf src dist layers_by_surface in auto)
  then have r: "render_frame_with e (import_render_frame rend) f
      = Inr \<lparr>rf_replay = the_replay, rf_imports = ?imports\<rparr>" if "replay_frame e f = Inr the_replay" for the_replay
    using that by (simp add: render_frame_with_def import_render_frame_def)
  have b: "bi_surface (the (buffer_import_report (import_source rend) l)) = ls_surface l
      \<and> (let b = the (buffer_import_report (import_source rend) l) in
         bi_handle b = import_source rend (bi_source b)
         \<and> bi_used b = (if (bi_requested b = PathXPixmap \<and> ic_import_xpixmap rend)
                         \<or> (bi_requested b = PathDmaBuf \<and> ic_import_dmabuf rend)
                        then bi_requested b else PathCpuReadback)
         \<and> bi_used_fallback b = (bi_requested b \<noteq> bi_used b))" if "l \<in> set ?vis" for l
    using src [OF that] by (cases "ls_source l") (simp_all add: buffer_import_report_def Let_def)
  obtain R where R: "render_frame_with e (import_render_frame rend) f = Inr R" "rf_imports R = ?imports"
    using r [OF replay_planned [OF assms(2)]] by simp
  have surf: "map bi_surface (rf_imports R) = map ls_surface ?vis"
    using b by (simp add: R(2))
  have "\<forall>b \<in> set (rf_imports R). bi_handle b = import_source rend (bi_source b)
         \<and> bi_used b = (if (bi_requested b = PathXPixmap \<and> ic_import_xpixmap rend)
                         \<or> (bi_requested b = PathDmaBuf \<and> ic_import_dmabuf rend)
                        then bi_requested b else PathCpuReadback)
         \<and> bi_used_fallback b = (bi_requested b \<noteq> bi_used b)"
    using b unfolding R(2) Let_def set_map by blast
  then show ?thesis
    using R(1) surf dist by metis
qed

theorem renderer_imports_each_layer_once_witness:
  "\<exists>f r. plan_frame example_engine \<lparr>fq_output = 1, fq_frame_serial = 12\<rparr> [example_layer] = Inr f
     \<and> render_frame_with example_engine
          (import_render_frame \<lparr>ic_import_xpixmap = False, ic_import_dmabuf = True\<rparr>) f = Inr r
     \<and> map bi_surface (rf_imports r) = [SurfaceId 5 1]"
proof -
  let ?q = "\<lparr>fq_output = 1, fq_frame_serial = 12\<rparr>"
  have wf: "layers_wf [example_layer]" by (simp add: layers_wf_def)
  have s: "surface_is_valid (ls_surface example_layer)" "ls_surface example_layer = SurfaceId 5 1"
    by (simp_all add: example_layer_def example_template_def surface_is_valid_def word_max_def)
  have v: "layer_visible example_layer"
    by (simp add: layer_visible_def should_render_def example_layer_def example_template_def
        f32_positive_def rect_is_empty_def example_geometry_def layer_target_def region_single_def
        region_is_empty_def)
  obtain f where f: "plan_frame example_engine ?q [example_layer] = Inr f" "fs_layers f = [example_layer]"
    using example_frame_planned by blast
  then show ?thesis
    using renderer_imports_each_layer_once [OF wf f(1),
        of "\<lparr>ic_import_xpixmap = False, ic_import_dmabuf = True\<rparr>"] s(2) v by auto
qed

text \<open>
  A session tick draws from fresh layers, which become the last committed layout, or
  from the last committed layout, which it leaves alone; either way it can only fail as planning
  fails, never in replay, and a report says which of the two happened.
\<close>

theorem session_tick_result:
  "(let drawn = (case sq_layers q of Fresh ls \<Rightarrow> ls | RestoreLastCommitted \<Rightarrow> lcl_layers cached);
        (result, cached') = run_session_tick e q cached in
    lcl_layers cached' = drawn
    \<and> (case result of
         Inl err \<Rightarrow>
           plan_frame e \<lparr>fq_output = sq_output q, fq_frame_serial = sq_frame_serial q\<rparr> drawn = Inl err
       | Inr report \<Rightarrow>
           plan_frame e \<lparr>fq_output = sq_output q, fq_frame_serial = sq_frame_serial q\<rparr> drawn
             = Inr (sr_frame report)
           \<and> replay_frame e (sr_frame report) = Inr (sr_replay report)
           \<and> (sr_restored_last_committed report \<longleftrightarrow> sq_layers q = RestoreLastCommitted)))"
proof -
  let ?p = "\<lparr>fq_output = sq_output q, fq_frame_serial = sq_frame_serial q\<rparr>"
  have core: "(\<exists>err. plan_frame e ?p ls = Inl err) \<or>
      (\<exists>f r. plan_frame e ?p ls = Inr f \<and> replay_frame e f = Inr r)" for ls
    using replay_planned [of e ?p ls] by (cases "plan_frame e ?p ls") auto
  show ?thesis
  proof (cases "sq_layers q")
    case (Fresh ls)
    then show ?thesis
      using core [of ls] by (auto simp: run_session_tick_def lcl_replace_def)
  next
    case RestoreLastCommitted
    then show ?thesis
      using core [of "lcl_layers cached"] by (auto simp: run_session_tick_def lcl_restore_into_def)
  qed
qed

end
