(* ===== verification/Supervisor.thy ===== *)
theory Supervisor
  imports Sophia_Prelude
begin

text \<open>
  Restart supervision of the helper processes (\<^verbatim>\<open>sophia-runtime/src/supervisor/policy.rs\<close>): a pure state
  machine that turns process events into start and give-up commands with exponential backoff. A
  \<open>Duration\<close> is its number of nanoseconds, bounded by \<open>Duration::MAX\<close>.
\<close>

section \<open>Durations\<close>

type_synonym duration = nat

definition duration_max :: duration where
  "duration_max = (2 ^ 64 - 1) * 1000000000 + 999999999"

definition duration_millis :: "nat \<Rightarrow> duration" where
  "duration_millis n = n * 1000000"

definition duration_sat_mul :: "duration \<Rightarrow> u32 \<Rightarrow> duration" where
  "duration_sat_mul d k = min (d * unat k) duration_max"

section \<open>Policy (supervisor/policy.rs)\<close>

record RestartPolicy =
  rp_max_attempts :: u32
  rp_initial_backoff :: duration
  rp_max_backoff :: duration

definition restart_policy_default :: RestartPolicy where
  "restart_policy_default =
     \<lparr>rp_max_attempts = 3, rp_initial_backoff = 0, rp_max_backoff = duration_millis 1000\<rparr>"

datatype SupervisedProcessKind = WindowManager | PortalBroker | MetadataBroker | SophiaXAuthority

record SupervisorState =
  sv_process :: SupervisedProcessKind
  sv_running :: bool
  sv_restart_attempts :: u32

definition supervisor_new :: "SupervisedProcessKind \<Rightarrow> SupervisorState" where
  "supervisor_new p = \<lparr>sv_process = p, sv_running = False, sv_restart_attempts = 0\<rparr>"

datatype SupervisorEvent =
  StartRequested | RestartRequested | ProcessExited | ProcessStarted | ProcessHealthy

datatype SupervisorCommand =
    NoCommand
  | StartProcess SupervisedProcessKind duration
  | GiveUp SupervisedProcessKind

text \<open>\<open>1_u32.checked_shl(n).unwrap_or(u32::MAX)\<close>\<close>

definition shl_or_max :: "u32 \<Rightarrow> u32" where
  "shl_or_max n = (if unat n < 32 then push_bit (unat n) 1 else word_max)"

definition next_restart_delay :: "u32 \<Rightarrow> RestartPolicy \<Rightarrow> duration option" where
  "next_restart_delay attempts policy =
     (if rp_max_attempts policy \<le> attempts then None
      else if attempts = 0 \<or> rp_initial_backoff policy = 0 then Some 0
      else Some (min (duration_sat_mul (rp_initial_backoff policy) (shl_or_max (sat_sub attempts 1)))
                     (rp_max_backoff policy)))"

definition supervisor_restart ::
  "SupervisorState \<Rightarrow> RestartPolicy \<Rightarrow> SupervisorState \<times> SupervisorCommand" where
  "supervisor_restart s policy =
     (let s' = s\<lparr>sv_running := False\<rparr> in
      case next_restart_delay (sv_restart_attempts s') policy of
        Some delay \<Rightarrow> (s'\<lparr>sv_restart_attempts := sat_add (sv_restart_attempts s') 1\<rparr>,
                        StartProcess (sv_process s') delay)
      | None \<Rightarrow> (s', GiveUp (sv_process s')))"

fun update_supervisor ::
  "SupervisorState \<Rightarrow> SupervisorEvent \<Rightarrow> RestartPolicy \<Rightarrow> SupervisorState \<times> SupervisorCommand" where
  "update_supervisor s StartRequested policy =
     (s\<lparr>sv_running := False, sv_restart_attempts := 0\<rparr>, StartProcess (sv_process s) 0)"
| "update_supervisor s RestartRequested policy = supervisor_restart s policy"
| "update_supervisor s ProcessExited policy = supervisor_restart s policy"
| "update_supervisor s ProcessStarted policy = (s\<lparr>sv_running := True\<rparr>, NoCommand)"
| "update_supervisor s ProcessHealthy policy =
     (s\<lparr>sv_running := True, sv_restart_attempts := 0\<rparr>, NoCommand)"

section \<open>Crash loops\<close>

text \<open>
  A crash loop is a sequence of events in which the process is never reported healthy and nobody
  asks for a fresh start.
\<close>

definition crash_event :: "SupervisorEvent \<Rightarrow> bool" where
  "crash_event e \<longleftrightarrow> e \<noteq> ProcessHealthy \<and> e \<noteq> StartRequested"

definition failure_event :: "SupervisorEvent \<Rightarrow> bool" where
  "failure_event e \<longleftrightarrow> e = RestartRequested \<or> e = ProcessExited"

fun supervise ::
  "RestartPolicy \<Rightarrow> SupervisorState \<Rightarrow> SupervisorEvent list \<Rightarrow> SupervisorState \<times> SupervisorCommand list" where
  "supervise policy s [] = (s, [])"
| "supervise policy s (e # es) =
     (let (s1, c) = update_supervisor s e policy; (s2, cs) = supervise policy s1 es in (s2, c # cs))"

fun start_delays :: "SupervisorCommand list \<Rightarrow> duration list" where
  "start_delays [] = []"
| "start_delays (StartProcess p d # cs) = d # start_delays cs"
| "start_delays (NoCommand # cs) = start_delays cs"
| "start_delays (GiveUp p # cs) = start_delays cs"

text \<open>The delay sequence of a policy, from the attempt counter on.\<close>

fun delays_from :: "RestartPolicy \<Rightarrow> u32 \<Rightarrow> nat \<Rightarrow> duration list" where
  "delays_from policy a 0 = []"
| "delays_from policy a (Suc n) =
     (case next_restart_delay a policy of
        None \<Rightarrow> []
      | Some d \<Rightarrow> d # delays_from policy (sat_add a 1) n)"

lemma shl_or_max_mono: "unat a \<le> unat b \<Longrightarrow> unat (shl_or_max a) \<le> unat (shl_or_max b)"
proof -
  have v: "unat ((2::u32) ^ k) = 2 ^ k" if "k < 32" for k
  proof -
    have "(2::nat) ^ k < 2 ^ 32" using that by (rule power_strict_increasing) simp
    moreover have "(2::u32) ^ k = word_of_nat (2 ^ k)" by simp
    ultimately show ?thesis by (simp only: unat_of_nat) simp
  qed
  assume "unat a \<le> unat b"
  moreover have "2 ^ k \<le> (2::nat) ^ 32 - 1" if "k < 32" for k :: nat
  proof -
    have "(2::nat) ^ k \<le> 2 ^ 31" using that by (intro power_increasing) auto
    then show ?thesis by simp
  qed
  ultimately show ?thesis
    by (auto simp: shl_or_max_def v unat_word_max intro!: power_increasing)
qed

lemma next_delay_mono:
  assumes "next_restart_delay a policy = Some d" "next_restart_delay b policy = Some d'" "unat a \<le> unat b"
  shows "d \<le> d'"
proof (cases "a = 0 \<or> rp_initial_backoff policy = 0")
  case True
  then show ?thesis using assms by (auto simp: next_restart_delay_def split: if_splits)
next
  case False
  then have b: "b \<noteq> 0" using assms(3) by (auto simp: word_unat_eq_iff)
  have "unat (shl_or_max (sat_sub a 1)) \<le> unat (shl_or_max (sat_sub b 1))"
    using assms(3) by (intro shl_or_max_mono) (simp add: unat_sat_sub)
  then have "duration_sat_mul (rp_initial_backoff policy) (shl_or_max (sat_sub a 1))
      \<le> duration_sat_mul (rp_initial_backoff policy) (shl_or_max (sat_sub b 1))"
    by (simp add: duration_sat_mul_def min.coboundedI1)
  then show ?thesis
    using assms(1,2) False b by (auto simp: next_restart_delay_def split: if_splits)
qed

lemma next_delay_bound: "next_restart_delay a policy = Some d \<Longrightarrow> d \<le> rp_max_backoff policy"
  by (auto simp: next_restart_delay_def split: if_splits)

lemma next_delay_Some_iff:
  "(\<exists>d. next_restart_delay a policy = Some d) \<longleftrightarrow> unat a < unat (rp_max_attempts policy)"
  by (auto simp: next_restart_delay_def word_le_nat_alt)

lemma unat_attempts_next:
  "next_restart_delay a policy = Some d \<Longrightarrow> unat (sat_add a 1) = unat a + 1"
proof -
  assume "next_restart_delay a policy = Some d"
  then have "unat a < unat (rp_max_attempts policy)"
    using next_delay_Some_iff [of a policy] by auto
  moreover have "unat (rp_max_attempts policy) < 2 ^ LENGTH(32)"
    by (rule unsigned_less)
  ultimately show ?thesis by (simp add: unat_sat_add)
qed

lemma delays_from_member:
  "d' \<in> set (delays_from policy a n) \<Longrightarrow>
     \<exists>b. unat a \<le> unat b \<and> next_restart_delay b policy = Some d'"
proof (induction n arbitrary: a)
  case (Suc n)
  show ?case
  proof (cases "next_restart_delay a policy")
    case None
    then show ?thesis using Suc.prems by simp
  next
    case (Some d)
    then have "d' = d \<or> d' \<in> set (delays_from policy (sat_add a 1) n)" using Suc.prems by simp
    then show ?thesis
    proof
      assume "d' \<in> set (delays_from policy (sat_add a 1) n)"
      from Suc.IH [OF this] obtain b
        where b: "unat (sat_add a 1) \<le> unat b" "next_restart_delay b policy = Some d'" by blast
      then have "unat a \<le> unat b" using unat_attempts_next [OF Some] by simp
      then show ?thesis using b(2) by blast
    qed (use Some in blast)
  qed
qed simp

lemma delays_from_sorted:
  "sorted (delays_from policy a n) \<and> (\<forall>d \<in> set (delays_from policy a n). d \<le> rp_max_backoff policy)"
proof (induction n arbitrary: a)
  case (Suc n)
  show ?case
  proof (cases "next_restart_delay a policy")
    case (Some d)
    have "d \<le> d'" if "d' \<in> set (delays_from policy (sat_add a 1) n)" for d'
      using delays_from_member [OF that] next_delay_mono [OF Some] unat_attempts_next [OF Some] by auto
    then show ?thesis using Some Suc.IH [of "sat_add a 1"] next_delay_bound [OF Some] by simp
  qed simp
qed simp

lemma length_delays_from:
  "length (delays_from policy a n) = min n (unat (rp_max_attempts policy) - unat a)"
proof (induction n arbitrary: a)
  case (Suc n)
  show ?case
  proof (cases "next_restart_delay a policy")
    case None
    then show ?thesis using next_delay_Some_iff [of a policy] by auto
  next
    case (Some d)
    then show ?thesis
      using Suc.IH [of "sat_add a 1"] unat_attempts_next [OF Some] next_delay_Some_iff [of a policy] by auto
  qed
qed simp

text \<open>A crash loop issues exactly the policy's delays, and gives up on every failure after them.\<close>

lemma supervise_crash_loop:
  assumes "list_all crash_event es" "supervise policy s es = (s', cs)"
  shows "start_delays cs = delays_from policy (sv_restart_attempts s) (length (filter failure_event es))
    \<and> sv_process s' = sv_process s
    \<and> (unat (rp_max_attempts policy) - unat (sv_restart_attempts s) < length (filter failure_event es)
         \<longrightarrow> GiveUp (sv_process s) \<in> set cs)"
  using assms
proof (induction es arbitrary: s s' cs)
  case (Cons e es)
  obtain s1 c cs1 where u: "update_supervisor s e policy = (s1, c)"
    and r: "supervise policy s1 es = (s', cs1)" and cs: "cs = c # cs1"
    using Cons.prems(2) by (auto split: prod.splits)
  have ih: "start_delays cs1 = delays_from policy (sv_restart_attempts s1) (length (filter failure_event es))"
    "sv_process s' = sv_process s1"
    "unat (rp_max_attempts policy) - unat (sv_restart_attempts s1) < length (filter failure_event es)
         \<longrightarrow> GiveUp (sv_process s1) \<in> set cs1"
    using Cons.IH [OF _ r] Cons.prems(1) by auto
  show ?case
  proof (cases "failure_event e")
    case True
    then have u': "supervisor_restart s policy = (s1, c)"
      using u by (auto simp: failure_event_def)
    show ?thesis
    proof (cases "next_restart_delay (sv_restart_attempts s) policy")
      case None
      then have "c = GiveUp (sv_process s)" "sv_process s1 = sv_process s"
        "sv_restart_attempts s1 = sv_restart_attempts s"
        using u' None by (auto simp: supervisor_restart_def Let_def)
      moreover have "delays_from policy (sv_restart_attempts s) n = []" for n
        using None by (cases n) simp_all
      ultimately show ?thesis using True ih cs None by simp
    next
      case (Some d)
      then have s1: "c = StartProcess (sv_process s) d" "sv_process s1 = sv_process s"
        "sv_restart_attempts s1 = sat_add (sv_restart_attempts s) 1"
        using u' Some by (auto simp: supervisor_restart_def Let_def)
      then show ?thesis
        using True ih cs Some unat_attempts_next [OF Some]
          next_delay_Some_iff [of "sv_restart_attempts s" policy] by auto
    qed
  next
    case False
    then have "e = ProcessStarted"
      using Cons.prems(1) by (cases e) (auto simp: failure_event_def crash_event_def)
    then have "c = NoCommand" "sv_process s1 = sv_process s" "sv_restart_attempts s1 = sv_restart_attempts s"
      using u by auto
    then show ?thesis using False ih cs by simp
  qed
qed simp

section \<open>Properties\<close>

text \<open>
  Property C13. A crash loop is bounded and backs off: while a supervised process keeps failing
  without being reported healthy, it is restarted exactly as often as the policy still allows, with
  delays that never decrease and never exceed the maximal backoff, and every failure after that
  makes the supervisor give up on that process instead of restarting it.
\<close>

theorem crash_loop_bounded:
  assumes "list_all crash_event es" "supervise policy s es = (s', cs)"
  shows "length (start_delays cs) = min (length (filter failure_event es))
             (unat (rp_max_attempts policy) - unat (sv_restart_attempts s))
    \<and> sorted (start_delays cs) \<and> (\<forall>d \<in> set (start_delays cs). d \<le> rp_max_backoff policy)
    \<and> (unat (rp_max_attempts policy) - unat (sv_restart_attempts s) < length (filter failure_event es)
         \<longrightarrow> GiveUp (sv_process s) \<in> set cs)"
  using supervise_crash_loop [OF assms] delays_from_sorted length_delays_from by simp

theorem crash_loop_bounded_witness:
  "\<exists>s' cs. supervise restart_policy_default (supervisor_new PortalBroker) (replicate 4 ProcessExited) = (s', cs)
     \<and> length (start_delays cs) = 3 \<and> GiveUp PortalBroker \<in> set cs"
proof -
  have a: "list_all crash_event (replicate 4 ProcessExited)"
    by (simp add: crash_event_def list_all_length)
  obtain s' cs where r: "supervise restart_policy_default (supervisor_new PortalBroker)
      (replicate 4 ProcessExited) = (s', cs)"
    by force
  have "length (filter failure_event (replicate 4 ProcessExited)) = 4"
    by (simp add: failure_event_def numeral_eq_Suc)
  then show ?thesis
    using crash_loop_bounded [OF a r] r
    by (simp add: restart_policy_default_def supervisor_new_def)
qed

end
