(* ===== verification/Wm_Shortcuts.thy ===== *)
theory Wm_Shortcuts
  imports Engine_Core "HOL-Library.Product_Lexorder"
begin

text \<open>
  Shortcut negotiation and routing (\<^verbatim>\<open>sophia-engine/src/wm.rs\<close>): the bindings a window manager may
  register in its hello, the per-seat modifier state, and the decision whether a key event triggers
  an action and whether it is kept from the focused client.
\<close>

section \<open>Registry\<close>

record WmShortcutRegistry =
  sk_bindings :: "(u32 \<times> u32, WmActionId) btree"
  sk_held :: "(u32, WmActionId) btree"

record WmShortcutDecision =
  sd_action :: "WmActionId option"
  sd_consumed :: bool

definition binding_check :: "WmBindingRegistration \<Rightarrow> WmIpcError + unit" where
  "binding_check b =
     (if \<not> id_is_valid (wb_action b) \<or> wb_keycode b = 0 \<or> 0x2ff < wb_keycode b
        then Inl (Negotiation ''invalid WM binding'')
      else if wb_modifiers b AND NOT WMMOD_SUPPORTED \<noteq> 0 then Inl (Negotiation ''unsupported WM modifier'')
      else if wb_keycode b = 14
          \<and> wb_modifiers b AND (WMMOD_CONTROL OR WMMOD_ALT) = WMMOD_CONTROL OR WMMOD_ALT
        then Inl (Negotiation ''reserved emergency chord'')
      else Inr ())"

text \<open>The loop over the bindings with its two accumulators.\<close>

fun register_bindings ::
  "WmBindingRegistration list \<Rightarrow> (u32 \<times> u32, WmActionId) btree \<Rightarrow> WmActionId list
     \<Rightarrow> WmIpcError + (u32 \<times> u32, WmActionId) btree" where
  "register_bindings [] bindings actions = Inr bindings"
| "register_bindings (b # bs) bindings actions =
     bind_res (binding_check b) (\<lambda>_.
     if wb_action b \<in> set actions then Inl (Negotiation ''duplicate WM action'')
     else if bt_contains bindings (wb_keycode b, wb_modifiers b) then Inl (Negotiation ''duplicate WM chord'')
     else register_bindings bs (bt_insert (wb_keycode b, wb_modifiers b) (wb_action b) bindings)
            (bs_insert (wb_action b) actions))"

definition from_hello :: "WmHello \<Rightarrow> WmIpcError + WmShortcutRegistry" where
  "from_hello hello =
     (if wh_api_version hello \<noteq> WM_API_VERSION then Inl (Negotiation ''unsupported WM API version'')
      else if wh_capabilities hello AND NOT WMCAP_SUPPORTED \<noteq> 0
        then Inl (Negotiation ''unsupported WM capability'')
      else if WM_MAX_BINDINGS < length (wh_bindings hello) then Inl (Negotiation ''too many WM bindings'')
      else bind_res (register_bindings (wh_bindings hello) [] []) (\<lambda>bindings.
        Inr \<lparr>sk_bindings = bindings, sk_held = []\<rparr>))"

definition handle_key ::
  "u32 \<Rightarrow> u32 \<Rightarrow> bool \<Rightarrow> WmShortcutRegistry \<Rightarrow> WmShortcutDecision \<times> WmShortcutRegistry" where
  "handle_key keycode modifiers pressed r =
     (if \<not> pressed then
        (\<lparr>sd_action = None, sd_consumed = bt_contains (sk_held r) keycode\<rparr>,
         r\<lparr>sk_held := bt_remove keycode (sk_held r)\<rparr>)
      else case bt_get (sk_bindings r) (keycode, modifiers) of
          None \<Rightarrow> (\<lparr>sd_action = None, sd_consumed = False\<rparr>, r)
        | Some action \<Rightarrow>
            (\<lparr>sd_action = (if bt_contains (sk_held r) keycode then None else Some action), sd_consumed = True\<rparr>,
             r\<lparr>sk_held := bt_insert keycode action (sk_held r)\<rparr>))"

definition binding_count :: "WmShortcutRegistry \<Rightarrow> nat" where
  "binding_count r = length (sk_bindings r)"

section \<open>Router\<close>

definition WM_MAX_SHORTCUT_SEATS :: nat where "WM_MAX_SHORTCUT_SEATS = 16"

record WmPhysicalModifierState =
  ph_left_shift :: bool
  ph_right_shift :: bool
  ph_left_control :: bool
  ph_right_control :: bool
  ph_left_alt :: bool
  ph_right_alt :: bool
  ph_left_super :: bool
  ph_right_super :: bool

definition modifiers_default :: WmPhysicalModifierState where
  "modifiers_default =
     \<lparr>ph_left_shift = False, ph_right_shift = False, ph_left_control = False, ph_right_control = False,
      ph_left_alt = False, ph_right_alt = False, ph_left_super = False, ph_right_super = False\<rparr>"

definition modifier_mask :: "WmPhysicalModifierState \<Rightarrow> u32" where
  "modifier_mask m =
     (let b0 = 0;
          b1 = (if ph_left_shift m \<or> ph_right_shift m then b0 OR WMMOD_SHIFT else b0);
          b2 = (if ph_left_control m \<or> ph_right_control m then b1 OR WMMOD_CONTROL else b1);
          b3 = (if ph_left_alt m \<or> ph_right_alt m then b2 OR WMMOD_ALT else b2) in
      if ph_left_super m \<or> ph_right_super m then b3 OR WMMOD_SUPER else b3)"

definition modifier_update :: "u32 \<Rightarrow> bool \<Rightarrow> WmPhysicalModifierState \<Rightarrow> WmPhysicalModifierState" where
  "modifier_update keycode pressed m =
     (if keycode = 42 then m\<lparr>ph_left_shift := pressed\<rparr>
      else if keycode = 54 then m\<lparr>ph_right_shift := pressed\<rparr>
      else if keycode = 29 then m\<lparr>ph_left_control := pressed\<rparr>
      else if keycode = 97 then m\<lparr>ph_right_control := pressed\<rparr>
      else if keycode = 56 then m\<lparr>ph_left_alt := pressed\<rparr>
      else if keycode = 100 then m\<lparr>ph_right_alt := pressed\<rparr>
      else if keycode = 125 then m\<lparr>ph_left_super := pressed\<rparr>
      else if keycode = 126 then m\<lparr>ph_right_super := pressed\<rparr>
      else m)"

record WmSeatShortcutState =
  ss_shortcuts :: WmShortcutRegistry
  ss_modifiers :: WmPhysicalModifierState

record WmShortcutRouter =
  sx_registry :: WmShortcutRegistry
  sx_seats :: "(SeatId, WmSeatShortcutState) btree"

definition router_new :: "WmShortcutRegistry \<Rightarrow> WmShortcutRouter" where
  "router_new registry = \<lparr>sx_registry = registry, sx_seats = []\<rparr>"

definition replace_registry :: "WmShortcutRegistry \<Rightarrow> WmShortcutRouter \<Rightarrow> WmShortcutRouter" where
  "replace_registry registry r = r\<lparr>sx_registry := registry, sx_seats := []\<rparr>"

definition pass_through :: WmShortcutDecision where
  "pass_through = \<lparr>sd_action = None, sd_consumed = False\<rparr>"

definition seat_key ::
  "u32 \<Rightarrow> bool \<Rightarrow> WmSeatShortcutState \<Rightarrow> WmShortcutDecision \<times> WmSeatShortcutState" where
  "seat_key keycode pressed state =
     (let (decision, shortcuts) = handle_key keycode (modifier_mask (ss_modifiers state)) pressed (ss_shortcuts state) in
      (decision, \<lparr>ss_shortcuts = shortcuts,
                  ss_modifiers = modifier_update keycode pressed (ss_modifiers state)\<rparr>))"

definition route_key ::
  "SeatId \<Rightarrow> u32 \<Rightarrow> bool \<Rightarrow> WmShortcutRouter \<Rightarrow> WmShortcutDecision \<times> WmShortcutRouter" where
  "route_key seat keycode pressed r =
     (if \<not> id_is_valid seat then (pass_through, r)
      else if \<not> bt_contains (sx_seats r) seat \<and> WM_MAX_SHORTCUT_SEATS \<le> length (sx_seats r)
        then (pass_through, r)
      else
        let state = (case bt_get (sx_seats r) seat of
                       Some state \<Rightarrow> state
                     | None \<Rightarrow> \<lparr>ss_shortcuts = sx_registry r, ss_modifiers = modifiers_default\<rparr>);
            (decision, state') = seat_key keycode pressed state in
        (decision, r\<lparr>sx_seats := bt_insert seat state' (sx_seats r)\<rparr>))"

definition clear_seat :: "SeatId \<Rightarrow> WmShortcutRouter \<Rightarrow> bool \<times> WmShortcutRouter" where
  "clear_seat seat r = (bt_contains (sx_seats r) seat, r\<lparr>sx_seats := bt_remove seat (sx_seats r)\<rparr>)"

section \<open>What negotiation accepts\<close>

definition emergency_chord :: "u32 \<Rightarrow> u32 \<Rightarrow> bool" where
  "emergency_chord keycode modifiers \<longleftrightarrow>
     keycode = 14 \<and> modifiers AND (WMMOD_CONTROL OR WMMOD_ALT) = WMMOD_CONTROL OR WMMOD_ALT"

definition binding_ok :: "WmBindingRegistration \<Rightarrow> bool" where
  "binding_ok b \<longleftrightarrow>
     id_is_valid (wb_action b) \<and> wb_keycode b \<noteq> 0 \<and> wb_keycode b \<le> 0x2ff
     \<and> wb_modifiers b AND NOT WMMOD_SUPPORTED = 0 \<and> \<not> emergency_chord (wb_keycode b) (wb_modifiers b)"

abbreviation chord :: "WmBindingRegistration \<Rightarrow> u32 \<times> u32" where
  "chord b \<equiv> (wb_keycode b, wb_modifiers b)"

definition hello_bindings :: "WmHello \<Rightarrow> (u32 \<times> u32) \<rightharpoonup> WmActionId" where
  "hello_bindings h = map_of (map (\<lambda>b. (chord b, wb_action b)) (wh_bindings h))"

lemma binding_check_iff: "binding_check b = Inr u \<longleftrightarrow> binding_ok b"
  by (auto simp: binding_check_def binding_ok_def emergency_chord_def not_less)

lemma register_bindings_iff:
  "(\<exists>m'. register_bindings bs m acts = Inr m') \<longleftrightarrow>
     list_all binding_ok bs \<and> distinct (map wb_action bs) \<and> set (map wb_action bs) \<inter> set acts = {}
     \<and> distinct (map chord bs) \<and> set (map chord bs) \<inter> dom (bt_get m) = {}"
proof (induction bs arbitrary: m acts)
  case (Cons b bs)
  let ?m = "bt_insert (chord b) (wb_action b) m"
  have d: "dom (bt_get ?m) = insert (chord b) (dom (bt_get m))" by (simp only: bt_get_insert dom_fun_upd) auto
  show ?case
  proof (cases "binding_ok b \<and> wb_action b \<notin> set acts \<and> chord b \<notin> dom (bt_get m)")
    case True
    then have "register_bindings (b # bs) m acts = register_bindings bs ?m (bs_insert (wb_action b) acts)"
      using binding_check_iff [of b "()"] by (auto simp: bt_contains_def)
    then show ?thesis using Cons.IH [of ?m "bs_insert (wb_action b) acts"] True d by auto
  next
    case False
    then have "\<nexists>m'. register_bindings (b # bs) m acts = Inr m'"
      by (auto simp: binding_check_iff bt_contains_def split: if_splits)
    then show ?thesis using False by auto
  qed
qed simp

lemma register_bindings_get:
  "register_bindings bs m acts = Inr m' \<Longrightarrow> bt_get m' = bt_get m ++ map_of (map (\<lambda>b. (chord b, wb_action b)) bs)
     \<and> (bt_wf m \<longrightarrow> bt_wf m')"
proof (induction bs arbitrary: m acts)
  case (Cons b bs)
  then obtain acts' where r: "register_bindings bs (bt_insert (chord b) (wb_action b) m) acts' = Inr m'"
    and new: "chord b \<notin> chord ` set bs"
    using register_bindings_iff [of "b # bs" m acts] by (auto split: if_splits)
  have "map_of (map (\<lambda>b. (chord b, wb_action b)) bs) (chord b) = None"
    using new by (auto simp: map_of_eq_None_iff)
  then show ?case
    using Cons.IH [OF r] by (auto simp: bt_get_insert fun_eq_iff map_add_def split: option.splits)
qed simp

text \<open>
  A hello is accepted exactly when its version, capabilities and binding count are supported, every
  binding is well-formed and outside the reserved chord, and no action or chord repeats; the registry
  then binds exactly the chords of the hello.
\<close>

lemma from_hello_iff:
  "(\<exists>r. from_hello h = Inr r) \<longleftrightarrow>
     wh_api_version h = WM_API_VERSION \<and> wh_capabilities h AND NOT WMCAP_SUPPORTED = 0
     \<and> length (wh_bindings h) \<le> WM_MAX_BINDINGS \<and> list_all binding_ok (wh_bindings h)
     \<and> distinct (map wb_action (wh_bindings h)) \<and> distinct (map chord (wh_bindings h))"
  using register_bindings_iff [of "wh_bindings h" "[]" "[]"]
  by (auto simp: from_hello_def not_less split: if_splits)

lemma from_hello_registry:
  "from_hello h = Inr r \<Longrightarrow> sk_held r = [] \<and> bt_get (sk_bindings r) = hello_bindings h \<and> bt_wf (sk_bindings r)"
  using register_bindings_get [of "wh_bindings h" "[]" "[]"]
  by (auto simp: from_hello_def hello_bindings_def split: if_splits)

lemma negotiated_no_emergency:
  assumes "from_hello h = Inr r" "emergency_chord k m"
  shows "bt_get (sk_bindings r) (k, m) = None"
proof -
  have "list_all binding_ok (wh_bindings h)" using from_hello_iff assms(1) by blast
  then have "(k, m) \<notin> chord ` set (wh_bindings h)"
    using assms(2) by (auto simp: list_all_iff binding_ok_def)
  then have "hello_bindings h (k, m) = None"
    by (auto simp: hello_bindings_def map_of_eq_None_iff)
  then show ?thesis using from_hello_registry [OF assms(1)] by simp
qed

section \<open>Reference seat\<close>

text \<open>
  The seat in terms of physical keys: the set of keys that are down, and the set of keys whose press
  was kept for the window manager and that have not been released since.
\<close>

definition mask_of :: "u32 set \<Rightarrow> u32" where
  "mask_of keys =
     (if 42 \<in> keys \<or> 54 \<in> keys then WMMOD_SHIFT else 0) OR (if 29 \<in> keys \<or> 97 \<in> keys then WMMOD_CONTROL else 0)
     OR (if 56 \<in> keys \<or> 100 \<in> keys then WMMOD_ALT else 0) OR (if 125 \<in> keys \<or> 126 \<in> keys then WMMOD_SUPER else 0)"

fun seat_spec ::
  "((u32 \<times> u32) \<rightharpoonup> WmActionId) \<Rightarrow> u32 set \<Rightarrow> u32 set \<Rightarrow> (u32 \<times> bool) list \<Rightarrow> WmShortcutDecision list" where
  "seat_spec bound down captured [] = []"
| "seat_spec bound down captured ((k, False) # es) =
     \<lparr>sd_action = None, sd_consumed = (k \<in> captured)\<rparr> # seat_spec bound (down - {k}) (captured - {k}) es"
| "seat_spec bound down captured ((k, True) # es) =
     (case bound (k, mask_of down) of
        None \<Rightarrow> pass_through # seat_spec bound (insert k down) captured es
      | Some action \<Rightarrow>
          \<lparr>sd_action = (if k \<in> captured then None else Some action), sd_consumed = True\<rparr>
          # seat_spec bound (insert k down) (insert k captured) es)"

fun seat_run :: "WmSeatShortcutState \<Rightarrow> (u32 \<times> bool) list \<Rightarrow> WmShortcutDecision list" where
  "seat_run st [] = []"
| "seat_run st ((k, p) # es) = (let (d, st') = seat_key k p st in d # seat_run st' es)"

definition seat_rep :: "WmSeatShortcutState \<Rightarrow> u32 set \<Rightarrow> u32 set \<Rightarrow> bool" where
  "seat_rep st down captured \<longleftrightarrow>
     dom (bt_get (sk_held (ss_shortcuts st))) = captured
     \<and> (let m = ss_modifiers st in
        ph_left_shift m = (42 \<in> down) \<and> ph_right_shift m = (54 \<in> down)
        \<and> ph_left_control m = (29 \<in> down) \<and> ph_right_control m = (97 \<in> down)
        \<and> ph_left_alt m = (56 \<in> down) \<and> ph_right_alt m = (100 \<in> down)
        \<and> ph_left_super m = (125 \<in> down) \<and> ph_right_super m = (126 \<in> down))"

lemma seat_rep_mask: "seat_rep st down captured \<Longrightarrow> modifier_mask (ss_modifiers st) = mask_of down"
  by (simp add: seat_rep_def modifier_mask_def mask_of_def Let_def or.assoc)

lemma modifier_update_rep:
  "seat_rep st down captured \<Longrightarrow>
     seat_rep (st\<lparr>ss_modifiers := modifier_update k p (ss_modifiers st)\<rparr>)
       (if p then insert k down else down - {k}) captured"
  by (cases p) (auto simp: seat_rep_def modifier_update_def Let_def)

lemma seat_key_spec:
  assumes "seat_rep st down captured" "seat_key k p st = (d, st')"
  shows "sk_bindings (ss_shortcuts st') = sk_bindings (ss_shortcuts st)
    \<and> seat_run st ((k, p) # es) = d # seat_run st' es
    \<and> (\<exists>down' captured'. seat_rep st' down' captured'
         \<and> seat_spec (bt_get (sk_bindings (ss_shortcuts st))) down captured ((k, p) # es)
           = d # seat_spec (bt_get (sk_bindings (ss_shortcuts st))) down' captured' es)"
proof -
  have mask: "modifier_mask (ss_modifiers st) = mask_of down" by (rule seat_rep_mask [OF assms(1)])
  have held: "bt_contains (sk_held (ss_shortcuts st)) j \<longleftrightarrow> j \<in> captured" for j
    using assms(1) by (auto simp: seat_rep_def bt_contains_def)
  note mods = modifier_update_rep [OF assms(1), of k p]
  have upd: "seat_rep \<lparr>ss_shortcuts = r, ss_modifiers = modifier_update k p (ss_modifiers st)\<rparr>
      (if p then insert k down else down - {k}) c" if "dom (bt_get (sk_held r)) = c" for r c
    using mods that by (simp add: seat_rep_def)
  show ?thesis
  proof (cases p)
    case False
    have "dom (bt_get (bt_remove k (sk_held (ss_shortcuts st)))) = captured - {k}"
      using assms(1) by (simp only: bt_get_remove dom_fun_upd seat_rep_def) simp
    then show ?thesis
      using assms(2) False held upd [of "(ss_shortcuts st)\<lparr>sk_held := bt_remove k (sk_held (ss_shortcuts st))\<rparr>" "captured - {k}"]
      by (auto simp: seat_key_def handle_key_def)
  next
    case True
    show ?thesis
    proof (cases "bt_get (sk_bindings (ss_shortcuts st)) (k, mask_of down)")
      case None
      moreover have "dom (bt_get (sk_held (ss_shortcuts st))) = captured" using assms(1) by (simp add: seat_rep_def)
      ultimately show ?thesis
        using assms(2) True upd [of "ss_shortcuts st" captured]
        by (auto simp: seat_key_def handle_key_def mask pass_through_def)
    next
      case (Some a)
      have "dom (bt_get (bt_insert k a (sk_held (ss_shortcuts st)))) = insert k captured"
        using assms(1) by (simp only: bt_get_insert dom_fun_upd seat_rep_def) simp
      then show ?thesis
        using assms(2) True Some held mask
          upd [of "(ss_shortcuts st)\<lparr>sk_held := bt_insert k a (sk_held (ss_shortcuts st))\<rparr>" "insert k captured"]
        by (auto simp: seat_key_def handle_key_def)
    qed
  qed
qed

lemma seat_run_spec:
  "seat_rep st down captured \<Longrightarrow>
     seat_run st es = seat_spec (bt_get (sk_bindings (ss_shortcuts st))) down captured es"
proof (induction es arbitrary: st down captured)
  case (Cons e es)
  obtain k p where e: "e = (k, p)" by force
  obtain d st' where s: "seat_key k p st = (d, st')" by force
  show ?case using seat_key_spec [OF Cons.prems s, of es] Cons.IH e by auto
qed simp

section \<open>The router as a machine\<close>

datatype router_event =
    ReKey SeatId u32 bool
  | ReClearSeat SeatId
  | ReNegotiated WmHello

text \<open>A new window manager replaces the registry only if its hello is accepted.\<close>

fun router_step :: "WmShortcutRouter \<Rightarrow> router_event \<Rightarrow> WmShortcutRouter" where
  "router_step r (ReKey seat k p) = snd (route_key seat k p r)"
| "router_step r (ReClearSeat seat) = snd (clear_seat seat r)"
| "router_step r (ReNegotiated h) = (case from_hello h of Inl _ \<Rightarrow> r | Inr reg \<Rightarrow> replace_registry reg r)"

definition no_emergency :: "WmShortcutRegistry \<Rightarrow> bool" where
  "no_emergency r \<longleftrightarrow> (\<forall>k m. emergency_chord k m \<longrightarrow> bt_get (sk_bindings r) (k, m) = None)"

definition router_inv :: "WmShortcutRouter \<Rightarrow> bool" where
  "router_inv r \<longleftrightarrow>
     bt_wf (sx_seats r) \<and> length (sx_seats r) \<le> WM_MAX_SHORTCUT_SEATS \<and> no_emergency (sx_registry r)
     \<and> (\<forall>seat st. bt_get (sx_seats r) seat = Some st \<longrightarrow> no_emergency (ss_shortcuts st))"

lemma seat_key_bindings:
  "sk_bindings (ss_shortcuts (snd (seat_key k p st))) = sk_bindings (ss_shortcuts st)"
  by (auto simp: seat_key_def handle_key_def Let_def split: prod.splits option.splits if_splits)

lemma route_key_inv:
  assumes "router_inv r"
  shows "router_inv (snd (route_key seat k p r))"
proof (cases "\<not> id_is_valid seat \<or> (\<not> bt_contains (sx_seats r) seat \<and> WM_MAX_SHORTCUT_SEATS \<le> length (sx_seats r))")
  case True
  then show ?thesis using assms by (auto simp: route_key_def)
next
  case False
  define st where "st = (case bt_get (sx_seats r) seat of Some state \<Rightarrow> state
      | None \<Rightarrow> \<lparr>ss_shortcuts = sx_registry r, ss_modifiers = modifiers_default\<rparr>)"
  obtain d st' where sk: "seat_key k p st = (d, st')" by force
  have r': "snd (route_key seat k p r) = r\<lparr>sx_seats := bt_insert seat st' (sx_seats r)\<rparr>"
    using False sk by (auto simp: route_key_def st_def Let_def split: option.splits prod.splits)
  have "no_emergency (ss_shortcuts st)"
    using assms by (auto simp: st_def router_inv_def split: option.splits)
  then have n: "no_emergency (ss_shortcuts st')"
    using seat_key_bindings [of k p st] sk by (simp add: no_emergency_def)
  have wf: "bt_wf (sx_seats r)" using assms by (simp add: router_inv_def)
  have "length (bt_insert seat st' (sx_seats r)) \<le> WM_MAX_SHORTCUT_SEATS"
    using bt_length_insert [OF wf, of seat st'] False assms by (auto simp: router_inv_def split: if_splits)
  then show ?thesis
    using assms n by (auto simp: r' router_inv_def bt_get_insert)
qed

lemma router_step_inv: "router_inv r \<Longrightarrow> router_inv (router_step r e)"
proof (cases e)
  case (ReClearSeat seat)
  then show "router_inv r \<Longrightarrow> router_inv (router_step r e)"
    using bt_length_remove [of seat "sx_seats r"] by (auto simp: clear_seat_def router_inv_def bt_get_remove)
next
  case (ReNegotiated h)
  then show "router_inv r \<Longrightarrow> router_inv (router_step r e)"
    using negotiated_no_emergency [of h]
    by (cases "from_hello h") (auto simp: replace_registry_def router_inv_def no_emergency_def)
qed (simp add: route_key_inv)

interpretation router: invariant_machine router_step router_inv
  by unfold_locales (rule router_step_inv)

lemma router_new_inv: "from_hello h = Inr reg \<Longrightarrow> router_inv (router_new reg)"
  using negotiated_no_emergency [of h reg]
  by (auto simp: router_new_def router_inv_def no_emergency_def WM_MAX_SHORTCUT_SEATS_def)

lemma emergency_mask:
  assumes "ph_left_control m \<or> ph_right_control m" "ph_left_alt m \<or> ph_right_alt m"
  shows "emergency_chord 14 (modifier_mask m)"
proof -
  have "x AND (WMMOD_CONTROL OR WMMOD_ALT) = WMMOD_CONTROL OR WMMOD_ALT"
    if "x \<in> {6, 7, 14, 15}" for x :: u32
    using that by (auto simp: WMMOD_CONTROL_def WMMOD_ALT_def)
  moreover have "modifier_mask m \<in> {6, 7, 14, 15}"
    using assms
    by (auto simp: modifier_mask_def Let_def WMMOD_SHIFT_def WMMOD_CONTROL_def WMMOD_ALT_def WMMOD_SUPER_def)
  ultimately show ?thesis by (simp add: emergency_chord_def)
qed

section \<open>What the router knows of the keys\<close>

text \<open>
  The keys of a seat that are down, as far as its key events tell since the last time the router forgot seats: an
  accepted window manager makes it forget all of them, and a cleared seat makes room for another.
\<close>

fun key_step :: "SeatId \<Rightarrow> u32 set \<Rightarrow> router_event \<Rightarrow> u32 set" where
  "key_step seat down (ReKey s k p) = (if s \<noteq> seat then down else if p then insert k down else down - {k})"
| "key_step seat down (ReClearSeat s) = {}"
| "key_step seat down (ReNegotiated h) = (case from_hello h of Inl _ \<Rightarrow> down | Inr _ \<Rightarrow> {})"

definition keys_down :: "SeatId \<Rightarrow> router_event list \<Rightarrow> u32 set" where
  "keys_down seat es = foldl (key_step seat) {} es"

definition remembers :: "WmPhysicalModifierState \<Rightarrow> u32 set \<Rightarrow> bool" where
  "remembers m down \<longleftrightarrow> (29 \<in> down \<longrightarrow> ph_left_control m) \<and> (97 \<in> down \<longrightarrow> ph_right_control m)
     \<and> (56 \<in> down \<longrightarrow> ph_left_alt m) \<and> (100 \<in> down \<longrightarrow> ph_right_alt m)"

text \<open>A valid seat is tracked with its modifiers, or it has no key down, or there is no room for it.\<close>

definition router_knows :: "SeatId \<Rightarrow> WmShortcutRouter \<Rightarrow> u32 set \<Rightarrow> bool" where
  "router_knows seat r down \<longleftrightarrow> \<not> id_is_valid seat \<or>
     (case bt_get (sx_seats r) seat of
        Some st \<Rightarrow> remembers (ss_modifiers st) down
      | None \<Rightarrow> down = {} \<or> WM_MAX_SHORTCUT_SEATS \<le> length (sx_seats r))"

lemma bt_insert_length_ge: "length m \<le> length (bt_insert k v m)"
  by (induction m) auto

lemma remembers_update:
  "remembers m down \<Longrightarrow> remembers (modifier_update k p m) (if p then insert k down else down - {k})"
  by (auto simp: remembers_def modifier_update_def)

lemma seat_key_modifiers: "ss_modifiers (snd (seat_key k p st)) = modifier_update k p (ss_modifiers st)"
  by (simp add: seat_key_def split: prod.split)

lemma route_key_seats:
  assumes "id_is_valid seat" "bt_contains (sx_seats r) seat \<or> length (sx_seats r) < WM_MAX_SHORTCUT_SEATS"
  shows "\<exists>st'. sx_seats (snd (route_key seat k p r)) = bt_insert seat st' (sx_seats r)
    \<and> ss_modifiers st' = modifier_update k p (case bt_get (sx_seats r) seat of Some st \<Rightarrow> ss_modifiers st | None \<Rightarrow> modifiers_default)"
  using assms seat_key_modifiers [of k p]
  by (auto simp: route_key_def Let_def not_le [symmetric] split: option.splits prod.split)
    (metis WmSeatShortcutState.select_convs(2) snd_conv)+

lemma route_key_knows:
  assumes "router_inv r" "router_knows seat r down"
  shows "router_knows seat (snd (route_key s k p r)) (key_step seat down (ReKey s k p))"
proof (cases "id_is_valid s \<and> (bt_contains (sx_seats r) s \<or> length (sx_seats r) < WM_MAX_SHORTCUT_SEATS)")
  case False
  then have "snd (route_key s k p r) = r" by (auto simp: route_key_def)
  then show ?thesis using assms False by (auto simp: router_knows_def bt_contains_def split: option.splits)
next
  case True
  then obtain st' where st': "sx_seats (snd (route_key s k p r)) = bt_insert s st' (sx_seats r)"
      "ss_modifiers st' = modifier_update k p (case bt_get (sx_seats r) s of Some st \<Rightarrow> ss_modifiers st | None \<Rightarrow> modifiers_default)"
    using route_key_seats by blast
  have len: "length (sx_seats r) \<le> length (bt_insert s st' (sx_seats r))"
    by (rule bt_insert_length_ge)
  show ?thesis
  proof (cases "s = seat")
    case True
    have "remembers (case bt_get (sx_seats r) s of Some st \<Rightarrow> ss_modifiers st | None \<Rightarrow> modifiers_default) down"
      using assms(2) \<open>id_is_valid s \<and> _\<close> True
      by (auto simp: router_knows_def bt_contains_def remembers_def split: option.splits)
    then have "remembers (ss_modifiers st') (key_step seat down (ReKey s k p))"
      using remembers_update [of _ down k p] True by (simp add: st'(2))
    then show ?thesis using True unfolding router_knows_def st'(1) by (simp add: bt_get_insert)
  next
    case False
    then show ?thesis
      using assms(2) len unfolding router_knows_def st'(1) by (auto simp: bt_get_insert split: option.splits)
  qed
qed

lemma router_step_knows:
  assumes "router_inv r" "router_knows seat r down"
  shows "router_knows seat (router_step r e) (key_step seat down e)"
proof (cases e)
  case (ReClearSeat s)
  then show ?thesis by (auto simp: router_knows_def remembers_def split: option.splits)
next
  case (ReNegotiated h)
  then show ?thesis using assms(2) by (auto simp: router_knows_def replace_registry_def split: sum.splits)
qed (use route_key_knows [OF assms] in simp)

lemma router_run_knows:
  "router_inv r \<Longrightarrow> router_knows seat r down \<Longrightarrow> router_knows seat (foldl router_step r es) (foldl (key_step seat) down es)"
  by (induction es arbitrary: r down) (simp_all add: router_step_inv router_step_knows)

lemma remembered_chord_passes:
  assumes "router_inv r" "bt_get (sx_seats r) seat = Some st"
    and "ph_left_control (ss_modifiers st) \<or> ph_right_control (ss_modifiers st)"
    and "ph_left_alt (ss_modifiers st) \<or> ph_right_alt (ss_modifiers st)"
  shows "fst (route_key seat 14 True r) = pass_through"
proof -
  have "no_emergency (ss_shortcuts st)" using assms(1,2) by (auto simp: router_inv_def)
  then have "bt_get (sk_bindings (ss_shortcuts st)) (14, modifier_mask (ss_modifiers st)) = None"
    using emergency_mask [OF assms(3,4)] by (simp add: no_emergency_def)
  then show ?thesis
    using assms(2) by (simp add: route_key_def bt_contains_def seat_key_def handle_key_def pass_through_def)
qed

section \<open>Properties\<close>

text \<open>
  Property C20. A seat behaves as its reference: for every hello that negotiation accepts and every
  sequence of key events, the decisions of a fresh seat are those of the description by sets of
  physical keys. A press is kept from the client exactly when its key together with the modifiers
  held at that moment is a chord of the hello, it triggers the action only when the key is not
  captured already, and a release is kept from the client exactly when the press was.
\<close>

theorem shortcut_seat_refines:
  assumes "from_hello h = Inr reg"
  shows "seat_run \<lparr>ss_shortcuts = reg, ss_modifiers = modifiers_default\<rparr> es = seat_spec (hello_bindings h) {} {} es"
proof -
  have "seat_rep \<lparr>ss_shortcuts = reg, ss_modifiers = modifiers_default\<rparr> {} {}"
    using from_hello_registry [OF assms] by (simp add: seat_rep_def modifiers_default_def)
  from seat_run_spec [OF this] show ?thesis
    using from_hello_registry [OF assms] by simp
qed

definition example_hello :: WmHello where
  "example_hello = \<lparr>wh_api_version = 2, wh_capabilities = 0,
     wh_bindings = [\<lparr>wb_action = 7, wb_keycode = 28, wb_modifiers = 8\<rparr>]\<rparr>"

definition example_registry :: WmShortcutRegistry where
  "example_registry = \<lparr>sk_bindings = [((28, 8), 7)], sk_held = []\<rparr>"

lemma example_hello_accepted: "from_hello example_hello = Inr example_registry"
  by (simp add: from_hello_def example_hello_def example_registry_def WM_API_VERSION_def WM_MAX_BINDINGS_def
      binding_check_def id_is_valid_def WMMOD_SUPPORTED_def WMMOD_SHIFT_def WMMOD_CONTROL_def WMMOD_ALT_def
      WMMOD_SUPER_def bt_contains_def)

theorem shortcut_seat_refines_witness:
  "map sd_consumed (seat_run \<lparr>ss_shortcuts = example_registry, ss_modifiers = modifiers_default\<rparr>
      [(125, True), (28, True), (125, False), (28, False)]) = [False, True, False, True]"
  unfolding shortcut_seat_refines [OF example_hello_accepted]
  by (simp add: hello_bindings_def example_hello_def mask_of_def WMMOD_SUPER_def pass_through_def)

text \<open>
  Property C21. The emergency chord gets through, as long as the router has not forgotten the keys: after any sequence
  of key events on any seats, cleared seats and window managers negotiated or refused, if a Control and an
  Alt key of a seat were pressed since the last accepted window manager and the last cleared seat and not released
  since, then pressing Backspace on that seat is neither consumed nor does it trigger an action, also for a seat that
  the router has no room to track. The router never tracks more than 16 seats. The lemma
  \<open>renegotiation_forgets_modifiers\<close> shows that the restriction is needed.
\<close>

theorem emergency_chord_passes:
  assumes "from_hello h = Inr reg" "r = foldl router_step (router_new reg) es"
  shows "length (sx_seats r) \<le> 16
    \<and> (\<forall>seat. (29 \<in> keys_down seat es \<or> 97 \<in> keys_down seat es) \<and> (56 \<in> keys_down seat es \<or> 100 \<in> keys_down seat es)
         \<longrightarrow> fst (route_key seat 14 True r) = pass_through)"
proof -
  have inv: "router_inv r" using router.run_inv [OF router_new_inv [OF assms(1)]] assms(2) by simp
  have "fst (route_key seat 14 True r) = pass_through"
    if "29 \<in> keys_down seat es \<or> 97 \<in> keys_down seat es" "56 \<in> keys_down seat es \<or> 100 \<in> keys_down seat es" for seat
  proof -
    have "router_knows seat r (keys_down seat es)"
      unfolding assms(2) keys_down_def
      by (rule router_run_knows [OF router_new_inv [OF assms(1)]]) (simp add: router_knows_def router_new_def)
    then show ?thesis
      using that remembered_chord_passes [OF inv, of seat]
      by (cases "bt_get (sx_seats r) seat") (auto simp: router_knows_def remembers_def route_key_def bt_contains_def)
  qed
  then show ?thesis using inv by (auto simp: router_inv_def WM_MAX_SHORTCUT_SEATS_def)
qed

text \<open>Control before a refused window manager, Alt after it, and a key of another seat.\<close>

definition example_typed :: "router_event list" where
  "example_typed = [ReKey 1 29 True, ReNegotiated (example_hello\<lparr>wh_api_version := 1\<rparr>), ReKey 2 30 True, ReKey 1 56 True]"

theorem emergency_chord_passes_witness:
  "fst (route_key 1 14 True (foldl router_step (router_new example_registry) example_typed)) = pass_through"
proof -
  have "29 \<in> keys_down 1 example_typed \<and> 56 \<in> keys_down 1 example_typed"
    by (simp add: example_typed_def keys_down_def from_hello_def WM_API_VERSION_def example_hello_def)
  then show ?thesis
    using emergency_chord_passes [OF example_hello_accepted refl, of example_typed] by blast
qed

text \<open>
  An accepted window manager that binds plain Backspace takes the chord while Control and Alt are still held: the
  router has forgotten that they are down.
\<close>

definition backspace_hello :: WmHello where
  "backspace_hello = example_hello\<lparr>wh_bindings := [\<lparr>wb_action = 7, wb_keycode = 14, wb_modifiers = 0\<rparr>]\<rparr>"

lemma renegotiation_forgets_modifiers:
  "sd_consumed (fst (route_key 1 14 True (foldl router_step (router_new example_registry)
      [ReKey 1 29 True, ReKey 1 56 True, ReNegotiated backspace_hello])))"
proof -
  have "from_hello backspace_hello = Inr \<lparr>sk_bindings = [((14, 0), 7)], sk_held = []\<rparr>"
    by (simp add: from_hello_def backspace_hello_def example_hello_def WM_API_VERSION_def WM_MAX_BINDINGS_def
        binding_check_def id_is_valid_def WMMOD_SUPPORTED_def WMMOD_SHIFT_def WMMOD_CONTROL_def WMMOD_ALT_def
        WMMOD_SUPER_def bt_contains_def)
  then show ?thesis
    by (simp add: replace_registry_def route_key_def id_is_valid_def bt_contains_def WM_MAX_SHORTCUT_SEATS_def
        seat_key_def handle_key_def modifiers_default_def modifier_mask_def)
qed

end
