(* ===== verification/Wm_Transport.thy ===== *)
theory Wm_Transport
  imports Layout_Render Supervisor Wm_Shortcuts
begin

text \<open>
  Talking to the window manager over a byte stream (\<^verbatim>\<open>sophia-engine/src/wm.rs\<close>) and what the engine
  makes of the answer (\<^verbatim>\<open>engine/wm_transaction.rs\<close>). The stream (\<open>S: Read + Write\<close>) is a parameter: a
  record of its operations over an opaque stream state. Logging is left out.
\<close>

section \<open>Streams\<close>

type_synonym 'a io_result = "rust_string + 'a"

record 's stream_ops =
  so_write_all :: "u8 list \<Rightarrow> 's \<Rightarrow> unit io_result \<times> 's"
  so_flush :: "'s \<Rightarrow> unit io_result \<times> 's"
  so_read_exact :: "nat \<Rightarrow> 's \<Rightarrow> u8 list io_result \<times> 's"

text \<open>Sequencing of stream operations with \<open>?\<close>: an error returns early with the stream as it is.\<close>

type_synonym ('s, 'a) io = "'s \<Rightarrow> (WmIpcError + 'a) \<times> 's"

definition io_bind :: "('s, 'a) io \<Rightarrow> ('a \<Rightarrow> ('s, 'b) io) \<Rightarrow> ('s, 'b) io" where
  "io_bind m f st = (case m st of (Inl e, st1) \<Rightarrow> (Inl e, st1) | (Inr x, st1) \<Rightarrow> f x st1)"

definition io_result :: "WmIpcError + 'a \<Rightarrow> ('s, 'a) io" where
  "io_result r st = (r, st)"

definition map_io_err :: "'a io_result \<times> 's \<Rightarrow> (WmIpcError + 'a) \<times> 's" where
  "map_io_err r = (case r of (Inl e, st) \<Rightarrow> (Inl (Io e), st) | (Inr x, st) \<Rightarrow> (Inr x, st))"

definition map_codec_err :: "IpcCodecError + 'a \<Rightarrow> WmIpcError + 'a" where
  "map_codec_err r = (case r of Inl e \<Rightarrow> Inl (Codec e) | Inr x \<Rightarrow> Inr x)"

section \<open>Frames over a stream (wm.rs)\<close>

definition read_ipc_frame :: "'s stream_ops \<Rightarrow> ('s, u8 list) io" where
  "read_ipc_frame ops =
     io_bind (\<lambda>st. map_io_err (so_read_exact ops SOPHIA_IPC_HEADER_LEN st)) (\<lambda>header.
     let payload_len = le_nat (take 4 (drop 16 header)) in
     if SOPHIA_IPC_MAX_PAYLOAD_LEN < payload_len then io_result (Inl (Codec (PayloadTooLarge payload_len)))
     else io_bind (\<lambda>st. map_io_err (so_read_exact ops payload_len st)) (\<lambda>payload.
       io_result (Inr (header @ payload))))"

definition read_wm_response_frame :: "'s stream_ops \<Rightarrow> ('s, WmResponsePacket) io" where
  "read_wm_response_frame ops =
     io_bind (\<lambda>st. map_io_err (so_read_exact ops SOPHIA_IPC_HEADER_LEN st)) (\<lambda>header.
     let payload_len = le_nat (take 4 (drop 16 header)) in
     if SOPHIA_IPC_MAX_PAYLOAD_LEN < payload_len then io_result (Inl (Codec (PayloadTooLarge payload_len)))
     else io_bind (\<lambda>st. map_io_err (so_read_exact ops payload_len st)) (\<lambda>payload.
       io_result (map_codec_err (decode_wm_response_frame (header @ payload)))))"

definition request_wm_over_stream :: "'s stream_ops \<Rightarrow> WmRequestPacket \<Rightarrow> ('s, WmResponsePacket) io" where
  "request_wm_over_stream ops request =
     io_bind (io_result (map_codec_err (encode_wm_request_frame request))) (\<lambda>frame.
     io_bind (\<lambda>st. map_io_err (so_write_all ops frame st)) (\<lambda>_.
     io_bind (\<lambda>st. map_io_err (so_flush ops st)) (\<lambda>_.
     io_bind (read_wm_response_frame ops) (\<lambda>response.
     if wr_transaction response \<noteq> wq_transaction request
     then io_result (Inl (TransactionMismatch (wq_transaction request) (wr_transaction response)))
     else io_result (Inr response)))))"

text \<open>
  The socket transport: \<open>set_read_timeout\<close> of the socket is one more operation of the stream. Its
  configuration holds the timeout.
\<close>

record WmSocketTransportConfig =
  wc_response_timeout :: duration

definition transport_config_default :: WmSocketTransportConfig where
  "transport_config_default = \<lparr>wc_response_timeout = duration_millis 250\<rparr>"

record 's WmSocketTransport =
  wt_ops :: "'s stream_ops"
  wt_set_read_timeout :: "duration option \<Rightarrow> 's \<Rightarrow> unit io_result \<times> 's"
  wt_config :: WmSocketTransportConfig

definition negotiate :: "'s WmSocketTransport \<Rightarrow> WmSessionDescriptor \<Rightarrow> ('s, WmShortcutRegistry) io" where
  "negotiate t d =
     io_bind (\<lambda>st. map_io_err (wt_set_read_timeout t (Some (wc_response_timeout (wt_config t))) st)) (\<lambda>_.
     io_bind (read_ipc_frame (wt_ops t)) (\<lambda>frame.
     io_bind (io_result (map_codec_err (decode_wm_hello_frame frame))) (\<lambda>hello.
     io_bind (io_result (from_hello hello)) (\<lambda>registry.
     io_bind (io_result (map_codec_err (encode_wm_session_descriptor_frame d))) (\<lambda>frame.
     io_bind (\<lambda>st. map_io_err (so_write_all (wt_ops t) frame st)) (\<lambda>_.
     io_bind (\<lambda>st. map_io_err (so_flush (wt_ops t) st)) (\<lambda>_.
     io_result (Inr registry))))))))"

definition transport_request :: "'s WmSocketTransport \<Rightarrow> WmRequestPacket \<Rightarrow> ('s, WmResponsePacket) io" where
  "transport_request t request =
     io_bind (\<lambda>st. map_io_err (wt_set_read_timeout t (Some (wc_response_timeout (wt_config t))) st)) (\<lambda>_.
     request_wm_over_stream (wt_ops t) request)"

section \<open>Window-manager transactions (engine/wm_transaction.rs, visual_state.rs)\<close>

record WmTransactionUpdate =
  wu_commit :: TransactionCommit
  wu_ipc_error :: "WmIpcError option"

definition preserve_layout_on_wm_absent :: "TransactionId \<Rightarrow> LayerSnapshot list \<Rightarrow> TransactionCommit" where
  "preserve_layout_on_wm_absent transaction layers =
     \<lparr>tc_transaction = transaction, tc_outcome = TimedOut, tc_applied_surfaces = []\<rparr>"

definition request_and_commit_wm_transaction ::
  "'s stream_ops \<Rightarrow> WmRequestPacket \<Rightarrow> LayerSnapshot list \<Rightarrow> 's \<Rightarrow> WmTransactionUpdate \<times> LayerSnapshot list \<times> 's" where
  "request_and_commit_wm_transaction ops request layers st =
     (case request_wm_over_stream ops request st of
        (Inr response, st') \<Rightarrow>
          (let (commit, layers') = commit_layout_transaction (into_layout_transaction response) layers in
           (\<lparr>wu_commit = commit, wu_ipc_error = None\<rparr>, layers', st'))
      | (Inl error, st') \<Rightarrow>
          (\<lparr>wu_commit = preserve_layout_on_wm_absent (wq_transaction request) layers, wu_ipc_error = Some error\<rparr>,
           layers, st'))"

definition request_and_cache_wm_transaction ::
  "'s stream_ops \<Rightarrow> WmRequestPacket \<Rightarrow> LayerSnapshot list \<Rightarrow> LastCommittedLayout \<Rightarrow> 's
     \<Rightarrow> WmTransactionUpdate \<times> LayerSnapshot list \<times> LastCommittedLayout \<times> 's" where
  "request_and_cache_wm_transaction ops request layers last_committed st =
     (let (update, layers', st') = request_and_commit_wm_transaction ops request layers st in
      case tc_outcome (wu_commit update) of
        Committed \<Rightarrow> (update, layers', lcl_replace last_committed layers', st')
      | TimedOut \<Rightarrow>
          if \<not> lcl_is_empty last_committed
          then (update, lcl_restore_into last_committed, last_committed, st')
          else (update, layers', last_committed, st')
      | _ \<Rightarrow> (update, layers', last_committed, st'))"

section \<open>Supervision of the window manager (wm.rs)\<close>

datatype WmRestartReason = IpcFailure WmIpcError
datatype WmRuntimeAction = KeepRunning | RestartWm WmRestartReason

definition runtime_action :: "WmTransactionUpdate \<Rightarrow> WmRuntimeAction" where
  "runtime_action u =
     (case wu_ipc_error u of Some e \<Rightarrow> RestartWm (IpcFailure e) | None \<Rightarrow> KeepRunning)"

fun update_wm_supervisor_from_runtime_action ::
  "SupervisorState \<Rightarrow> WmRuntimeAction \<Rightarrow> RestartPolicy \<Rightarrow> SupervisorState \<times> SupervisorCommand" where
  "update_wm_supervisor_from_runtime_action s KeepRunning policy = (s, NoCommand)"
| "update_wm_supervisor_from_runtime_action s (RestartWm reason) policy =
     update_supervisor s RestartRequested policy"

section \<open>Facts\<close>

lemma io_simps [simp]:
  "io_bind m f st = (case m st of (Inl e, st1) \<Rightarrow> (Inl e, st1) | (Inr x, st1) \<Rightarrow> f x st1)"
  "io_result r st = (r, st)"
  "map_io_err (Inl e, st) = (Inl (Io e), st)" "map_io_err (Inr x, st) = (Inr x, st)"
  "map_codec_err (Inl c) = Inl (Codec c)" "map_codec_err (Inr x) = Inr x"
  by (simp_all add: io_bind_def io_result_def map_io_err_def map_codec_err_def)

text \<open>A response is handed out only for the transaction that was asked.\<close>

lemma request_wm_transaction:
  "request_wm_over_stream ops q st = (Inr r, st') \<Longrightarrow> wr_transaction r = wq_transaction q"
  by (auto simp: request_wm_over_stream_def split: sum.splits prod.splits if_splits)

lemma layout_add_transaction [simp]:
  "lx_transaction (layout_add_command t c) = lx_transaction t"
  by (cases c) simp_all

lemma into_layout_transaction_id: "lx_transaction (into_layout_transaction r) = wr_transaction r"
proof -
  have "lx_transaction (foldl layout_add_command t cs) = lx_transaction t" for t cs
    by (induction cs arbitrary: t) simp_all
  then show ?thesis by (simp add: into_layout_transaction_def)
qed

lemma commit_layout_cases:
  "commit_layout_transaction t layers = (c, layers') \<Longrightarrow>
     tc_transaction c = lx_transaction t \<and> tc_outcome c \<noteq> TimedOut \<and> (tc_outcome c \<noteq> Committed \<longrightarrow> layers' = layers)"
  by (auto simp: commit_layout_transaction_def split: sum.splits if_splits)

text \<open>
  The documented behaviour of a connected stream that reports no error: what is written arrives
  completely and in order, and \<open>read_exact\<close> takes exactly the bytes asked for from the front of what
  the peer has sent, when there are that many.
\<close>

definition connected_stream :: "'s stream_ops \<Rightarrow> ('s \<Rightarrow> u8 list) \<Rightarrow> ('s \<Rightarrow> u8 list) \<Rightarrow> bool" where
  "connected_stream ops incoming outgoing \<longleftrightarrow>
     (\<forall>bs st. \<exists>st'. so_write_all ops bs st = (Inr (), st') \<and> incoming st' = incoming st
                    \<and> outgoing st' = outgoing st @ bs)
     \<and> (\<forall>st. \<exists>st'. so_flush ops st = (Inr (), st') \<and> incoming st' = incoming st \<and> outgoing st' = outgoing st)
     \<and> (\<forall>n st. n \<le> length (incoming st) \<longrightarrow>
          (\<exists>st'. so_read_exact ops n st = (Inr (take n (incoming st)), st')
                 \<and> incoming st' = drop n (incoming st) \<and> outgoing st' = outgoing st))"

lemma read_response_from_stream:
  assumes "connected_stream ops incoming outgoing" "encode_wm_response_frame r = Inr g"
    and "incoming st = g @ rest"
  shows "\<exists>st'. read_wm_response_frame ops st = (Inr r, st') \<and> incoming st' = rest \<and> outgoing st' = outgoing st"
proof -
  obtain payload where "encode_frame WmResponseMsg (wr_transaction r) payload = Inr g"
    using assms(2) by (auto simp: encode_wm_response_frame_def)
  note len = encode_frame_length_field [OF this]
  obtain st1 where 1: "so_read_exact ops SOPHIA_IPC_HEADER_LEN st = (Inr (take SOPHIA_IPC_HEADER_LEN g), st1)"
    "incoming st1 = drop SOPHIA_IPC_HEADER_LEN g @ rest" "outgoing st1 = outgoing st"
    using assms(1,3) len(1) unfolding connected_stream_def
    by (auto dest!: spec [of _ SOPHIA_IPC_HEADER_LEN] spec [of _ st])
  have "length payload \<le> length (incoming st1)" using 1(2) len(1) by simp
  then obtain st2 where "so_read_exact ops (length payload) st1 = (Inr (take (length payload) (incoming st1)), st2)"
    "incoming st2 = drop (length payload) (incoming st1)" "outgoing st2 = outgoing st1"
    using assms(1) unfolding connected_stream_def by blast
  then have 2: "so_read_exact ops (length payload) st1 = (Inr (drop SOPHIA_IPC_HEADER_LEN g), st2)"
    "incoming st2 = rest" "outgoing st2 = outgoing st"
    using 1(2,3) len(1) by simp_all
  show ?thesis
    using 1 2 len wm_response_frame_decodes [OF assms(2)]
    by (simp add: read_wm_response_frame_def)
qed

section \<open>Properties\<close>

text \<open>
  Property C22. The window manager can only propose: whatever the stream does, an update belongs to
  the requested transaction; a failed exchange restores the last committed layout, or keeps the
  layers when there is none, leaves the cache and asks for a restart; an answered exchange applies
  exactly the layout of a response to that transaction, stores the result in the cache exactly when
  it was committed, and otherwise leaves layers and cache untouched.
\<close>

theorem wm_update_safe:
  assumes "request_and_cache_wm_transaction ops q layers cache st = (u, layers', cache', st')"
  shows "tc_transaction (wu_commit u) = wq_transaction q
    \<and> (case wu_ipc_error u of
         Some e \<Rightarrow> tc_outcome (wu_commit u) = TimedOut \<and> cache' = cache
             \<and> layers' = (if lcl_layers cache = [] then layers else lcl_layers cache)
             \<and> fst (request_wm_over_stream ops q st) = Inl e \<and> runtime_action u = RestartWm (IpcFailure e)
       | None \<Rightarrow> runtime_action u = KeepRunning
           \<and> (\<exists>r. fst (request_wm_over_stream ops q st) = Inr r \<and> wr_transaction r = wq_transaction q
                \<and> commit_layout_transaction (into_layout_transaction r) layers = (wu_commit u, layers'))
           \<and> (if tc_outcome (wu_commit u) = Committed then lcl_layers cache' = layers'
              else layers' = layers \<and> cache' = cache))"
proof (cases "request_wm_over_stream ops q st")
  case (Pair res st1)
  show ?thesis
  proof (cases res)
    case (Inl e)
    then show ?thesis
      using assms Pair
      by (auto simp: request_and_cache_wm_transaction_def request_and_commit_wm_transaction_def
          preserve_layout_on_wm_absent_def lcl_is_empty_def lcl_restore_into_def runtime_action_def split: if_splits)
  next
    case (Inr r)
    obtain c l where c: "commit_layout_transaction (into_layout_transaction r) layers = (c, l)" by force
    have tx: "wr_transaction r = wq_transaction q" using request_wm_transaction [of ops q st r st1] Pair Inr by simp
    have cc: "tc_transaction c = wq_transaction q" "tc_outcome c \<noteq> TimedOut" "tc_outcome c \<noteq> Committed \<longrightarrow> l = layers"
      using commit_layout_cases [OF c] tx by (simp_all add: into_layout_transaction_id)
    have "u = \<lparr>wu_commit = c, wu_ipc_error = None\<rparr> \<and> layers' = l
        \<and> cache' = (if tc_outcome c = Committed then lcl_replace cache l else cache)"
      using assms Pair Inr c cc(2)
      by (cases "tc_outcome c")
         (auto simp: request_and_cache_wm_transaction_def request_and_commit_wm_transaction_def)
    then show ?thesis
      using cc c tx Pair Inr by (simp add: runtime_action_def lcl_replace_def)
  qed
qed

text \<open>A stream over two byte queues, which the witnesses run on.\<close>

definition queue_ops :: "(u8 list \<times> u8 list) stream_ops" where
  "queue_ops =
     \<lparr>so_write_all = (\<lambda>bs (i, o'). (Inr (), (i, o' @ bs))), so_flush = (\<lambda>st. (Inr (), st)),
      so_read_exact = (\<lambda>n (i, o'). if n \<le> length i then (Inr (take n i), (drop n i, o'))
                                  else (Inl (lit ''failed to fill whole buffer''), ([], o')))\<rparr>"

definition example_wm_request :: WmRequestPacket where
  "example_wm_request = \<lparr>wq_transaction = 9, wq_kind = SurfaceRemoved (SurfaceId 5 1) 1\<rparr>"

definition example_wm_answer :: WmResponsePacket where
  "example_wm_answer = \<lparr>wr_transaction = 9, wr_commands = [], wr_timeout_msec = 50\<rparr>"

lemma example_wm_frames:
  "\<exists>f. encode_wm_request_frame example_wm_request = Inr f"
  "\<exists>g. encode_wm_response_frame example_wm_answer = Inr g"
  by (simp_all add: encode_wm_request_frame_def encode_wm_request_payload_def example_wm_request_def
      encode_wm_response_frame_def encode_wm_response_payload_def example_wm_answer_def check_count_def
      SOPHIA_IPC_MAX_ITEMS_def encode_frame_def SOPHIA_IPC_MAX_PAYLOAD_LEN_def encode_surface_id_def
      encode_workspace_id_def)

theorem wm_update_safe_witness:
  "\<exists>u layers' cache' st'. request_and_cache_wm_transaction queue_ops example_wm_request []
        \<lparr>lcl_layers = [example_template]\<rparr> ([], []) = (u, layers', cache', st')
     \<and> wu_ipc_error u \<noteq> None \<and> layers' = [example_template]"
proof -
  obtain u layers' cache' st' where r: "request_and_cache_wm_transaction queue_ops example_wm_request []
        \<lparr>lcl_layers = [example_template]\<rparr> ([], []) = (u, layers', cache', st')"
    by (metis prod_cases4)
  have "\<exists>e. fst (request_wm_over_stream queue_ops example_wm_request ([], [])) = Inl e"
    using example_wm_frames(1)
    by (auto simp: request_wm_over_stream_def queue_ops_def read_wm_response_frame_def SOPHIA_IPC_HEADER_LEN_def)
  then show ?thesis
    using wm_update_safe [OF r] r by (auto split: option.splits)
qed

text \<open>
  Requests and responses pair up on a connected stream: if the peer has sent the frame
  of a response, whatever follows it, then the request is written out as exactly its frame, the
  response comes back as it was sent when it answers the requested transaction and a mismatch error
  otherwise, and exactly the frame is taken from the stream, so that the next exchange starts at the
  next frame.
\<close>

theorem wm_exchange_roundtrip:
  assumes "connected_stream ops incoming outgoing"
    and "encode_wm_request_frame q = Inr f" "encode_wm_response_frame r = Inr g" "incoming st = g @ rest"
  shows "\<exists>st'. request_wm_over_stream ops q st
      = (if wr_transaction r = wq_transaction q then Inr r
         else Inl (TransactionMismatch (wq_transaction q) (wr_transaction r)), st')
    \<and> incoming st' = rest \<and> outgoing st' = outgoing st @ f"
proof -
  obtain st1 where 1: "so_write_all ops f st = (Inr (), st1)" "incoming st1 = g @ rest" "outgoing st1 = outgoing st @ f"
    using assms(1,4) unfolding connected_stream_def by metis
  obtain st2 where 2: "so_flush ops st1 = (Inr (), st2)" "incoming st2 = g @ rest" "outgoing st2 = outgoing st @ f"
    using assms(1) 1 unfolding connected_stream_def by metis
  obtain st3 where 3: "read_wm_response_frame ops st2 = (Inr r, st3)" "incoming st3 = rest" "outgoing st3 = outgoing st @ f"
    using read_response_from_stream [OF assms(1,3) 2(2)] 2(3) by auto
  show ?thesis
    using assms(2) 1(1) 2(1) 3 by (simp add: request_wm_over_stream_def)
qed

lemma queue_connected: "connected_stream queue_ops fst snd"
  by (auto simp: connected_stream_def queue_ops_def)

theorem wm_exchange_roundtrip_witness:
  "\<exists>g st'. encode_wm_response_frame example_wm_answer = Inr g
     \<and> request_wm_over_stream queue_ops example_wm_request (g @ [1, 2], []) = (Inr example_wm_answer, st')
     \<and> fst st' = [1, 2]"
proof -
  obtain f g where f: "encode_wm_request_frame example_wm_request = Inr f"
    and g: "encode_wm_response_frame example_wm_answer = Inr g"
    using example_wm_frames by blast
  have "fst (g @ [1, 2], [] :: u8 list) = g @ [1, 2]" by simp
  from wm_exchange_roundtrip [OF queue_connected f g this] g show ?thesis
    by (auto simp: example_wm_request_def example_wm_answer_def)
qed

end
