(* ===== verification/X_Resources.thy ===== *)
theory X_Resources
  imports Protocol_Packets
begin

text \<open>
  The tables of the X authority (\<^verbatim>\<open>sophia-x-authority\<close>): resources and who owns them
  (\<^verbatim>\<open>resource.rs\<close>), windows (\<^verbatim>\<open>window.rs\<close>), drawing updates (\<^verbatim>\<open>drawing.rs\<close>), event subscriptions
  (\<^verbatim>\<open>event.rs\<close>), graphics contexts (\<^verbatim>\<open>graphics_context.rs\<close>), shared-memory segments (\<^verbatim>\<open>shm.rs\<close>), the
  choice of a window to close (\<^verbatim>\<open>close_target.rs\<close>) and pointer buttons (\<^verbatim>\<open>pointer.rs\<close>). A method on
  \<open>&mut self\<close> takes the table and returns its result with the next table.
\<close>

section \<open>Resource ids (resource.rs)\<close>

text \<open>\<open>XResourceId\<close> wraps one \<open>AuthorityLocalId\<close>; the derived order compares raw id and generation.\<close>

type_synonym XResourceId = AuthorityLocalId

instantiation AuthorityLocalId :: linorder
begin

definition less_eq_AuthorityLocalId :: "AuthorityLocalId \<Rightarrow> AuthorityLocalId \<Rightarrow> bool" where
  "less_eq_AuthorityLocalId a b =
     (al_raw a < al_raw b \<or> (al_raw a = al_raw b \<and> al_generation a \<le> al_generation b))"

definition less_AuthorityLocalId :: "AuthorityLocalId \<Rightarrow> AuthorityLocalId \<Rightarrow> bool" where
  "less_AuthorityLocalId a b =
     (al_raw a < al_raw b \<or> (al_raw a = al_raw b \<and> al_generation a < al_generation b))"

instance
  by standard
     (auto simp: less_eq_AuthorityLocalId_def less_AuthorityLocalId_def intro: AuthorityLocalId.expand)

end

definition xresource_NONE :: XResourceId where
  "xresource_NONE = AuthorityLocalId 0 0"

definition xresource_is_valid :: "XResourceId \<Rightarrow> bool" where
  "xresource_is_valid i = local_id_is_valid i"

text \<open>The id range handed to one client at setup (\<^verbatim>\<open>wire.rs\<close>).\<close>

record XWireClientResourceRange =
  rg_base :: u32
  rg_mask :: u32

definition owns_new_resource :: "XWireClientResourceRange \<Rightarrow> u32 \<Rightarrow> bool" where
  "owns_new_resource rng resource_id \<longleftrightarrow>
     resource_id \<noteq> 0 \<and> resource_id AND NOT (rg_mask rng) = rg_base rng"

text \<open>\<open>u32::try_from(id.local.raw()).is_ok_and(|raw| range.owns_new_resource(raw))\<close>\<close>

definition range_owns_id :: "XWireClientResourceRange \<Rightarrow> XResourceId \<Rightarrow> bool" where
  "range_owns_id rng i \<longleftrightarrow> unat (al_raw i) < 2 ^ 32 \<and> owns_new_resource rng (ucast (al_raw i))"

section \<open>Resource table (resource.rs)\<close>

datatype XResourceKind =
    RkWindow | RkPixmap | RkAtom | RkProperty | RkGraphicsContext | RkFont | RkCursor | RkFence | RkRegion

datatype XMapState = Unmapped | Mapped

record XResourceRecord =
  xr_id :: XResourceId
  xr_kind :: XResourceKind
  xr_owner_namespace :: NamespaceId
  xr_generation :: u64

datatype XAuthorityAccessError =
    XaInvalidResource | XaInvalidNamespace | XaInvalidSurface | XaUnknownResource | XaWrongResourceKind
  | XaCrossNamespaceDenied | XaStaleGeneration

type_synonym XResourceTable = "(XResourceId, XResourceRecord) btree"

definition resource_insert ::
  "XResourceId \<Rightarrow> XResourceKind \<Rightarrow> NamespaceId \<Rightarrow> u64 \<Rightarrow> XResourceTable
     \<Rightarrow> XAuthorityAccessError + XResourceTable" where
  "resource_insert i kind owner_namespace generation t =
     (if \<not> xresource_is_valid i then Inl XaInvalidResource
      else if \<not> id_is_valid owner_namespace then Inl XaInvalidNamespace
      else Inr (bt_insert i \<lparr>xr_id = i, xr_kind = kind, xr_owner_namespace = owner_namespace,
                            xr_generation = generation\<rparr> t))"

definition resource_lookup ::
  "XResourceTable \<Rightarrow> NamespaceId \<Rightarrow> XResourceId \<Rightarrow> XResourceKind \<Rightarrow> XAuthorityAccessError + XResourceRecord" where
  "resource_lookup t requester_namespace i expected_kind =
     (if \<not> id_is_valid requester_namespace then Inl XaInvalidNamespace
      else case bt_get t i of
          None \<Rightarrow> Inl XaUnknownResource
        | Some record \<Rightarrow>
            if xr_kind record \<noteq> expected_kind then Inl XaWrongResourceKind
            else if xr_owner_namespace record \<noteq> requester_namespace then Inl XaCrossNamespaceDenied
            else Inr record)"

definition resource_remove :: "XResourceId \<Rightarrow> XResourceTable \<Rightarrow> XResourceRecord option \<times> XResourceTable" where
  "resource_remove i t = (bt_get t i, bt_remove i t)"

definition records_for_namespace_in_client_range ::
  "XResourceTable \<Rightarrow> NamespaceId \<Rightarrow> XWireClientResourceRange \<Rightarrow> XResourceRecord list" where
  "records_for_namespace_in_client_range t namespace rng =
     filter (\<lambda>r. xr_owner_namespace r = namespace \<and> range_owns_id rng (xr_id r)) (bt_values t)"

section \<open>Windows (window.rs)\<close>

type_synonym i16 = "16 word"

record XWindowRecord =
  xw_id :: XResourceId
  xw_surface :: SurfaceId
  xw_namespace :: NamespaceId
  xw_map_state :: XMapState
  xw_geometry :: Rect
  xw_constraints :: SurfaceConstraints
  xw_window_generation :: u64

definition authority_surface :: "XWindowRecord \<Rightarrow> AuthoritySurface" where
  "authority_surface w =
     \<lparr>as_authority = SophiaX, as_local_id = xw_id w, as_surface = xw_surface w,
      as_namespace = Some (xw_namespace w), as_mapped = (xw_map_state w = Mapped),
      as_geometry = xw_geometry w, as_constraints = xw_constraints w, as_generation = xw_window_generation w\<rparr>"

datatype XWindowLifecycleEvent =
    WlCreated XResourceId SurfaceId NamespaceId Rect SurfaceConstraints u64
  | WlMapped XResourceId u64
  | WlUnmapped XResourceId u64
  | WlConfigured XResourceId "i16 option" "i16 option" "u16 option" "u16 option" u64
  | WlDestroyed XResourceId

type_synonym XWindowTable = "(XResourceId, XWindowRecord) btree"
type_synonym window_result = "XAuthorityAccessError + (AuthoritySurface option \<times> XWindowTable)"

text \<open>\<open>get_mut\<close>, an assignment through the reference, and the surface of the changed record.\<close>

definition window_modify :: "XResourceId \<Rightarrow> (XWindowRecord \<Rightarrow> XWindowRecord) \<Rightarrow> XWindowTable \<Rightarrow> window_result" where
  "window_modify i f t =
     (case bt_get t i of
        None \<Rightarrow> Inl XaUnknownResource
      | Some w \<Rightarrow> Inr (Some (authority_surface (f w)), bt_update i f t))"

definition configure_rect :: "i16 option \<Rightarrow> i16 option \<Rightarrow> u16 option \<Rightarrow> u16 option \<Rightarrow> Rect \<Rightarrow> Rect" where
  "configure_rect x y w h r =
     (let r1 = (case x of None \<Rightarrow> r | Some v \<Rightarrow> r\<lparr>rc_x := scast v\<rparr>);
          r2 = (case y of None \<Rightarrow> r1 | Some v \<Rightarrow> r1\<lparr>rc_y := scast v\<rparr>);
          r3 = (case w of None \<Rightarrow> r2 | Some v \<Rightarrow> r2\<lparr>rc_width := ucast v\<rparr>) in
      case h of None \<Rightarrow> r3 | Some v \<Rightarrow> r3\<lparr>rc_height := ucast v\<rparr>)"

fun window_apply :: "XWindowLifecycleEvent \<Rightarrow> XWindowTable \<Rightarrow> window_result" where
  "window_apply (WlCreated i surface namespace geometry constraints generation) t =
     (if \<not> xresource_is_valid i then Inl XaInvalidResource
      else if \<not> surface_is_valid surface then Inl XaInvalidResource
      else if \<not> id_is_valid namespace then Inl XaInvalidNamespace
      else
        let record = \<lparr>xw_id = i, xw_surface = surface, xw_namespace = namespace, xw_map_state = Unmapped,
                      xw_geometry = geometry, xw_constraints = constraints, xw_window_generation = generation\<rparr> in
        Inr (Some (authority_surface record), bt_insert i record t))"
| "window_apply (WlMapped i _) t = window_modify i (\<lambda>w. w\<lparr>xw_map_state := Mapped\<rparr>) t"
| "window_apply (WlUnmapped i _) t = window_modify i (\<lambda>w. w\<lparr>xw_map_state := Unmapped\<rparr>) t"
| "window_apply (WlConfigured i x y w h _) t =
     window_modify i (\<lambda>r. r\<lparr>xw_geometry := configure_rect x y w h (xw_geometry r)\<rparr>) t"
| "window_apply (WlDestroyed i) t = Inr (None, bt_remove i t)"

definition advance_generation :: "XResourceId \<Rightarrow> u64 \<Rightarrow> XWindowTable \<Rightarrow> XAuthorityAccessError + (u64 \<times> XWindowTable)" where
  "advance_generation i expected t =
     (case bt_get t i of
        None \<Rightarrow> Inl XaUnknownResource
      | Some w \<Rightarrow>
          if xw_window_generation w \<noteq> expected then Inl XaStaleGeneration
          else case checked_add expected 1 of
              None \<Rightarrow> Inl XaInvalidResource
            | Some n \<Rightarrow> Inr (n, bt_update i (\<lambda>w. w\<lparr>xw_window_generation := n\<rparr>) t))"

definition ids_for_namespace :: "XWindowTable \<Rightarrow> NamespaceId \<Rightarrow> XResourceId list" where
  "ids_for_namespace t namespace = map xw_id (filter (\<lambda>w. xw_namespace w = namespace) (bt_values t))"

section \<open>Drawing updates (drawing.rs)\<close>

datatype XDrawingUpdateKind = PresentPixmapUpdate | ShmPutImage | CoreDraw

record XDrawingUpdate =
  du_transaction :: TransactionId
  du_requester_namespace :: NamespaceId
  du_target_window :: XResourceId
  du_kind :: XDrawingUpdateKind
  du_buffer :: BufferSource
  du_damage :: Region
  du_previous_committed_generation :: u64
  du_timeout_msec :: u32

definition drawing_update ::
  "XDrawingUpdateKind \<Rightarrow> BufferSource \<Rightarrow> TransactionId \<Rightarrow> NamespaceId \<Rightarrow> XResourceId \<Rightarrow> Region \<Rightarrow> u64 \<Rightarrow> u32
     \<Rightarrow> XDrawingUpdate" where
  "drawing_update kind buffer transaction namespace window damage previous timeout =
     \<lparr>du_transaction = transaction, du_requester_namespace = namespace, du_target_window = window, du_kind = kind,
      du_buffer = buffer, du_damage = damage, du_previous_committed_generation = previous,
      du_timeout_msec = timeout\<rparr>"

definition present_pixmap ::
  "TransactionId \<Rightarrow> NamespaceId \<Rightarrow> XResourceId \<Rightarrow> u32 \<Rightarrow> Region \<Rightarrow> u64 \<Rightarrow> u32 \<Rightarrow> XDrawingUpdate" where
  "present_pixmap tx ns window pixmap = drawing_update PresentPixmapUpdate (BufXPixmap pixmap) tx ns window"

definition present_buffer ::
  "TransactionId \<Rightarrow> NamespaceId \<Rightarrow> XResourceId \<Rightarrow> BufferSource \<Rightarrow> Region \<Rightarrow> u64 \<Rightarrow> u32 \<Rightarrow> XDrawingUpdate" where
  "present_buffer tx ns window buffer = drawing_update PresentPixmapUpdate buffer tx ns window"

definition shm_put_image ::
  "TransactionId \<Rightarrow> NamespaceId \<Rightarrow> XResourceId \<Rightarrow> u64 \<Rightarrow> Region \<Rightarrow> u64 \<Rightarrow> u32 \<Rightarrow> XDrawingUpdate" where
  "shm_put_image tx ns window handle = drawing_update ShmPutImage (BufCpuBuffer handle) tx ns window"

definition core_draw ::
  "TransactionId \<Rightarrow> NamespaceId \<Rightarrow> XResourceId \<Rightarrow> u64 \<Rightarrow> Region \<Rightarrow> u64 \<Rightarrow> u32 \<Rightarrow> XDrawingUpdate" where
  "core_draw tx ns window handle = drawing_update CoreDraw (BufCpuBuffer handle) tx ns window"

definition surface_transaction_from_drawing_update ::
  "XWindowTable \<Rightarrow> XDrawingUpdate \<Rightarrow> XAuthorityAccessError + SurfaceTransaction" where
  "surface_transaction_from_drawing_update windows u =
     (if \<not> id_is_valid (du_transaction u) then Inl XaInvalidResource
      else if \<not> id_is_valid (du_requester_namespace u) then Inl XaInvalidNamespace
      else if \<not> xresource_is_valid (du_target_window u) then Inl XaInvalidResource
      else if du_buffer u = BufNone then Inl XaInvalidResource
      else case bt_get windows (du_target_window u) of
          None \<Rightarrow> Inl XaUnknownResource
        | Some w \<Rightarrow>
            if xw_namespace w \<noteq> du_requester_namespace u then Inl XaCrossNamespaceDenied
            else if \<not> surface_is_valid (xw_surface w) then Inl XaInvalidSurface
            else Inr \<lparr>st_transaction = du_transaction u, st_authority = SophiaX, st_surface = xw_surface w,
                      st_namespace = Some (xw_namespace w), st_target_geometry = xw_geometry w,
                      st_target_buffer = du_buffer u, st_damage = du_damage u, st_readiness = TrReady,
                      st_timeout_msec = du_timeout_msec u,
                      st_previous_committed_generation = du_previous_committed_generation u\<rparr>)"

section \<open>Event subscriptions (event.rs)\<close>

datatype XEventClass = EcStructure | EcProperty | EcFocus | EcKeyboard | EcPointer

text \<open>\<open>BTreeMap<XResourceId, BTreeMap<NamespaceId, BTreeSet<XEventClass>>>\<close>; the order of a class set is not observed.\<close>

type_synonym XEventSubscriptionTable = "(XResourceId, (NamespaceId, XEventClass list) btree) btree"

definition or_default :: "'v \<Rightarrow> 'v option \<Rightarrow> 'v" where
  "or_default d v = (case v of None \<Rightarrow> d | Some x \<Rightarrow> x)"

definition subscribe ::
  "XResourceTable \<Rightarrow> NamespaceId \<Rightarrow> XResourceId \<Rightarrow> XEventClass \<Rightarrow> XEventSubscriptionTable
     \<Rightarrow> XAuthorityAccessError + XEventSubscriptionTable" where
  "subscribe resources requester target event_class t =
     bind_res (resource_lookup resources requester target RkWindow) (\<lambda>_.
     let by_namespace = or_default [] (bt_get t target);
         classes = or_default [] (bt_get by_namespace requester) in
     Inr (bt_insert target (bt_insert requester (List.insert event_class classes) by_namespace) t))"

definition subscribers ::
  "XEventSubscriptionTable \<Rightarrow> XResourceId \<Rightarrow> NamespaceId \<Rightarrow> XEventClass \<Rightarrow> NamespaceId list" where
  "subscribers t target owner_namespace event_class =
     map fst (filter (\<lambda>(namespace, classes). namespace = owner_namespace \<and> event_class \<in> set classes)
                (or_default [] (bt_get t target)))"

section \<open>Graphics contexts (graphics_context.rs)\<close>

definition X_GX_COPY :: u8 where "X_GX_COPY = 3"

record XPoint =
  xp_x :: i16
  xp_y :: i16

record XGraphicsContextValues =
  gv_function :: u8
  gv_plane_mask :: u32
  gv_foreground :: u32
  gv_background :: u32
  gv_line_width :: u16
  gv_fill_style :: u8
  gv_font :: "XResourceId option"
  gv_clip_x_origin :: i16
  gv_clip_y_origin :: i16
  gv_clip_rectangles :: "Rect list"

definition gc_values_default :: XGraphicsContextValues where
  "gc_values_default =
     \<lparr>gv_function = X_GX_COPY, gv_plane_mask = word_max, gv_foreground = 0, gv_background = 1, gv_line_width = 0,
      gv_fill_style = 0, gv_font = None, gv_clip_x_origin = 0, gv_clip_y_origin = 0, gv_clip_rectangles = []\<rparr>"

record XGraphicsContextRecord =
  gc_id :: XResourceId
  gc_drawable :: XResourceId
  gc_namespace :: NamespaceId
  gc_values :: XGraphicsContextValues

type_synonym XGraphicsContextTable = "(XResourceId, XGraphicsContextRecord) btree"

definition gc_create ::
  "NamespaceId \<Rightarrow> XResourceId \<Rightarrow> XResourceId \<Rightarrow> XGraphicsContextValues \<Rightarrow> XGraphicsContextTable
     \<Rightarrow> XAuthorityAccessError + XGraphicsContextTable" where
  "gc_create namespace i drawable values t =
     (if \<not> id_is_valid namespace then Inl XaInvalidNamespace
      else if \<not> xresource_is_valid i \<or> \<not> xresource_is_valid drawable then Inl XaInvalidResource
      else Inr (bt_insert i \<lparr>gc_id = i, gc_drawable = drawable, gc_namespace = namespace, gc_values = values\<rparr> t))"

definition gc_get ::
  "XGraphicsContextTable \<Rightarrow> NamespaceId \<Rightarrow> XResourceId \<Rightarrow> XAuthorityAccessError + XGraphicsContextRecord" where
  "gc_get t namespace i =
     (case bt_get t i of
        None \<Rightarrow> Inl XaUnknownResource
      | Some r \<Rightarrow> if gc_namespace r \<noteq> namespace then Inl XaCrossNamespaceDenied else Inr r)"

definition gc_merge :: "u32 \<Rightarrow> XGraphicsContextValues \<Rightarrow> XGraphicsContextValues \<Rightarrow> XGraphicsContextValues" where
  "gc_merge bits new old =
     (let v0 = (if bit bits 0 then old\<lparr>gv_function := gv_function new\<rparr> else old);
          v1 = (if bit bits 1 then v0\<lparr>gv_plane_mask := gv_plane_mask new\<rparr> else v0);
          v2 = (if bit bits 2 then v1\<lparr>gv_foreground := gv_foreground new\<rparr> else v1);
          v3 = (if bit bits 3 then v2\<lparr>gv_background := gv_background new\<rparr> else v2);
          v4 = (if bit bits 4 then v3\<lparr>gv_line_width := gv_line_width new\<rparr> else v3);
          v8 = (if bit bits 8 then v4\<lparr>gv_fill_style := gv_fill_style new\<rparr> else v4);
          v14 = (if bit bits 14 then v8\<lparr>gv_font := gv_font new\<rparr> else v8);
          v17 = (if bit bits 17 then v14\<lparr>gv_clip_x_origin := gv_clip_x_origin new\<rparr> else v14) in
      if bit bits 18 then v17\<lparr>gv_clip_y_origin := gv_clip_y_origin new\<rparr> else v17)"

definition gc_modify ::
  "(XGraphicsContextValues \<Rightarrow> XGraphicsContextValues) \<Rightarrow> NamespaceId \<Rightarrow> XResourceId \<Rightarrow> XGraphicsContextTable
     \<Rightarrow> XAuthorityAccessError + XGraphicsContextTable" where
  "gc_modify f namespace i t =
     (case bt_get t i of
        None \<Rightarrow> Inl XaUnknownResource
      | Some r \<Rightarrow>
          if gc_namespace r \<noteq> namespace then Inl XaCrossNamespaceDenied
          else Inr (bt_update i (\<lambda>r. r\<lparr>gc_values := f (gc_values r)\<rparr>) t))"

definition gc_change ::
  "NamespaceId \<Rightarrow> XResourceId \<Rightarrow> u32 \<Rightarrow> XGraphicsContextValues \<Rightarrow> XGraphicsContextTable
     \<Rightarrow> XAuthorityAccessError + XGraphicsContextTable" where
  "gc_change namespace i bits values = gc_modify (gc_merge bits values) namespace i"

definition set_clip_rectangles ::
  "NamespaceId \<Rightarrow> XResourceId \<Rightarrow> Rect list \<Rightarrow> XGraphicsContextTable \<Rightarrow> XAuthorityAccessError + XGraphicsContextTable" where
  "set_clip_rectangles namespace i rectangles =
     gc_modify (\<lambda>v. v\<lparr>gv_clip_rectangles := rectangles\<rparr>) namespace i"

definition gc_remove ::
  "NamespaceId \<Rightarrow> XResourceId \<Rightarrow> XGraphicsContextTable \<Rightarrow> XAuthorityAccessError + XGraphicsContextTable" where
  "gc_remove namespace i t = bind_res (gc_get t namespace i) (\<lambda>_. Inr (bt_remove i t))"

definition gc_ids_for_namespace_in_client_range ::
  "XGraphicsContextTable \<Rightarrow> NamespaceId \<Rightarrow> XWireClientResourceRange \<Rightarrow> XResourceId list" where
  "gc_ids_for_namespace_in_client_range t namespace rng =
     map gc_id (filter (\<lambda>r. gc_namespace r = namespace \<and> range_owns_id rng (gc_id r)) (bt_values t))"

section \<open>Shared-memory segments (shm.rs)\<close>

record XShmSegmentRecord =
  sm_id :: XResourceId
  sm_namespace :: NamespaceId
  sm_shmid :: u32
  sm_read_only :: bool
  sm_generation :: u64

type_synonym XShmSegmentTable = "(XResourceId, XShmSegmentRecord) btree"

definition shm_attach ::
  "NamespaceId \<Rightarrow> XResourceId \<Rightarrow> u32 \<Rightarrow> bool \<Rightarrow> u64 \<Rightarrow> XShmSegmentTable \<Rightarrow> XAuthorityAccessError + XShmSegmentTable" where
  "shm_attach namespace i shmid read_only generation t =
     (if \<not> id_is_valid namespace then Inl XaInvalidNamespace
      else if \<not> xresource_is_valid i then Inl XaInvalidResource
      else Inr (bt_insert i \<lparr>sm_id = i, sm_namespace = namespace, sm_shmid = shmid, sm_read_only = read_only,
                            sm_generation = generation\<rparr> t))"

definition shm_lookup ::
  "XShmSegmentTable \<Rightarrow> NamespaceId \<Rightarrow> XResourceId \<Rightarrow> XAuthorityAccessError + XShmSegmentRecord" where
  "shm_lookup t namespace i =
     (if \<not> id_is_valid namespace then Inl XaInvalidNamespace
      else if \<not> xresource_is_valid i then Inl XaInvalidResource
      else case bt_get t i of
          None \<Rightarrow> Inl XaUnknownResource
        | Some r \<Rightarrow> if sm_namespace r \<noteq> namespace then Inl XaCrossNamespaceDenied else Inr r)"

definition shm_detach ::
  "NamespaceId \<Rightarrow> XResourceId \<Rightarrow> XShmSegmentTable \<Rightarrow> XAuthorityAccessError + XShmSegmentTable" where
  "shm_detach namespace i t = bind_res (shm_lookup t namespace i) (\<lambda>_. Inr (bt_remove i t))"

definition shm_ids_for_namespace_in_client_range ::
  "XShmSegmentTable \<Rightarrow> NamespaceId \<Rightarrow> XWireClientResourceRange \<Rightarrow> XResourceId list" where
  "shm_ids_for_namespace_in_client_range t namespace rng =
     map sm_id (filter (\<lambda>r. sm_namespace r = namespace \<and> range_owns_id rng (sm_id r)) (bt_values t))"

section \<open>Close target and pointer buttons (close_target.rs, pointer.rs)\<close>

record XCloseTargetDecision =
  ct_window :: XResourceId
  ct_exact_advertises_delete :: bool
  ct_fallback_used :: bool
  ct_protocol_window_count :: nat

definition select_x_close_target ::
  "XResourceId \<Rightarrow> XResourceId list \<Rightarrow> (XResourceId \<times> bool) list \<Rightarrow> XCloseTargetDecision" where
  "select_x_close_target exact ancestors protocol_windows =
     (let eligible = map fst (filter snd protocol_windows);
          exact_ok = (exact \<in> set eligible);
          ancestor = (if exact_ok then None else find (\<lambda>w. w \<in> set eligible) ancestors);
          fallback = (case ancestor of
              Some w \<Rightarrow> Some w
            | None \<Rightarrow> if \<not> exact_ok \<and> length eligible = 1 then Some (hd eligible) else None) in
      \<lparr>ct_window = (case fallback of None \<Rightarrow> exact | Some w \<Rightarrow> w), ct_exact_advertises_delete = exact_ok,
       ct_fallback_used = (fallback \<noteq> None), ct_protocol_window_count = length eligible\<rparr>)"

record XCorePointerMapper =
  pm_button_state :: u16

definition evdev_button_mapping :: "u32 \<Rightarrow> (u8 \<times> u16) option" where
  "evdev_button_mapping b =
     (if b = 272 then Some (1, push_bit 8 1) else if b = 274 then Some (2, push_bit 9 1)
      else if b = 273 then Some (3, push_bit 10 1) else if b = 275 then Some (8, 0)
      else if b = 276 then Some (9, 0) else None)"

definition map_evdev_button :: "u32 \<Rightarrow> bool \<Rightarrow> XCorePointerMapper \<Rightarrow> (u8 \<times> u16) option \<times> XCorePointerMapper" where
  "map_evdev_button b pressed m =
     (case evdev_button_mapping b of
        None \<Rightarrow> (None, m)
      | Some (button, b_mask) \<Rightarrow>
          (Some (button, pm_button_state m),
           m\<lparr>pm_button_state := (if pressed then pm_button_state m OR b_mask else pm_button_state m AND NOT b_mask)\<rparr>))"

end
