(* ===== verification/X_Atoms.thy ===== *)
theory X_Atoms
  imports X_Resources "HOL-Library.List_Lexorder" "HOL-Library.Product_Lexorder"
begin

text \<open>
  Atoms (\<^verbatim>\<open>sophia-x-authority/src/atom.rs\<close>) and window properties (\<^verbatim>\<open>property.rs\<close>): names interned to
  numbers in both directions, and byte values attached to a window of a namespace under an atom,
  changed by replacing, prepending or appending and read in pieces. Lengths are \<open>usize\<close> values; the
  checked additions on them fail from \<open>2 ^ 64\<close> on.
\<close>

section \<open>Atoms (atom.rs)\<close>

type_synonym XAtom = u32

definition X_ATOM_MAX_NAME_LEN :: nat where "X_ATOM_MAX_NAME_LEN = 256"
definition X_ATOM_LAST_PREDEFINED :: XAtom where "X_ATOM_LAST_PREDEFINED = 68"

datatype XAtomError =
    AtomEmptyName
  | AtomNameTooLong nat nat
  | AtomInvalidName
  | AtomSpaceExhausted

record XAtomTable =
  at_names_by_atom :: "(XAtom, rust_string) btree"
  at_atoms_by_name :: "(rust_string, XAtom) btree"
  at_next_dynamic :: XAtom

definition X_PREDEFINED_ATOMS :: "(XAtom \<times> rust_string) list" where
  "X_PREDEFINED_ATOMS =
    [(1, lit ''PRIMARY''), (2, lit ''SECONDARY''), (3, lit ''ARC''), (4, lit ''ATOM''),
     (5, lit ''BITMAP''), (6, lit ''CARDINAL''), (7, lit ''COLORMAP''), (8, lit ''CURSOR''),
     (9, lit ''CUT_BUFFER0''), (10, lit ''CUT_BUFFER1''), (11, lit ''CUT_BUFFER2''),
     (12, lit ''CUT_BUFFER3''), (13, lit ''CUT_BUFFER4''), (14, lit ''CUT_BUFFER5''),
     (15, lit ''CUT_BUFFER6''), (16, lit ''CUT_BUFFER7''), (17, lit ''DRAWABLE''), (18, lit ''FONT''),
     (19, lit ''INTEGER''), (20, lit ''PIXMAP''), (21, lit ''POINT''), (22, lit ''RECTANGLE''),
     (23, lit ''RESOURCE_MANAGER''), (24, lit ''RGB_COLOR_MAP''), (25, lit ''RGB_BEST_MAP''),
     (26, lit ''RGB_BLUE_MAP''), (27, lit ''RGB_DEFAULT_MAP''), (28, lit ''RGB_GRAY_MAP''),
     (29, lit ''RGB_GREEN_MAP''), (30, lit ''RGB_RED_MAP''), (31, lit ''STRING''),
     (32, lit ''VISUALID''), (33, lit ''WINDOW''), (34, lit ''WM_COMMAND''), (35, lit ''WM_HINTS''),
     (36, lit ''WM_CLIENT_MACHINE''), (37, lit ''WM_ICON_NAME''), (38, lit ''WM_ICON_SIZE''),
     (39, lit ''WM_NAME''), (40, lit ''WM_NORMAL_HINTS''), (41, lit ''WM_SIZE_HINTS''),
     (42, lit ''WM_ZOOM_HINTS''), (43, lit ''MIN_SPACE''), (44, lit ''NORM_SPACE''),
     (45, lit ''MAX_SPACE''), (46, lit ''END_SPACE''), (47, lit ''SUPERSCRIPT_X''),
     (48, lit ''SUPERSCRIPT_Y''), (49, lit ''SUBSCRIPT_X''), (50, lit ''SUBSCRIPT_Y''),
     (51, lit ''UNDERLINE_POSITION''), (52, lit ''UNDERLINE_THICKNESS''),
     (53, lit ''STRIKEOUT_ASCENT''), (54, lit ''STRIKEOUT_DESCENT''), (55, lit ''ITALIC_ANGLE''),
     (56, lit ''X_HEIGHT''), (57, lit ''QUAD_WIDTH''), (58, lit ''WEIGHT''), (59, lit ''POINT_SIZE''),
     (60, lit ''RESOLUTION''), (61, lit ''COPYRIGHT''), (62, lit ''NOTICE''), (63, lit ''FONT_NAME''),
     (64, lit ''FAMILY_NAME''), (65, lit ''FULL_NAME''), (66, lit ''CAP_HEIGHT''),
     (67, lit ''WM_CLASS''), (68, lit ''WM_TRANSIENT_FOR'')]"

definition insert_predefined :: "XAtom \<Rightarrow> rust_string \<Rightarrow> XAtomTable \<Rightarrow> XAtomTable" where
  "insert_predefined atom name t =
     t\<lparr>at_names_by_atom := bt_insert atom name (at_names_by_atom t),
       at_atoms_by_name := bt_insert name atom (at_atoms_by_name t)\<rparr>"

definition atom_table_new :: XAtomTable where
  "atom_table_new =
     foldl (\<lambda>t (atom, name). insert_predefined atom name t)
       \<lparr>at_names_by_atom = [], at_atoms_by_name = [], at_next_dynamic = X_ATOM_LAST_PREDEFINED + 1\<rparr>
       X_PREDEFINED_ATOMS"

definition validated_atom_name :: "rust_string \<Rightarrow> XAtomError + rust_string" where
  "validated_atom_name name =
     (if name = [] then Inl AtomEmptyName
      else if X_ATOM_MAX_NAME_LEN < length name then Inl (AtomNameTooLong (length name) X_ATOM_MAX_NAME_LEN)
      else if \<not> list_all (\<lambda>b. b < 0x80 \<and> \<not> (b < 0x20 \<or> b = 0x7F)) name then Inl AtomInvalidName
      else Inr name)"

definition intern :: "rust_string \<Rightarrow> bool \<Rightarrow> XAtomTable \<Rightarrow> (XAtomError + XAtom option) \<times> XAtomTable" where
  "intern name only_if_exists t =
     (case validated_atom_name name of
        Inl e \<Rightarrow> (Inl e, t)
      | Inr name \<Rightarrow>
          (case bt_get (at_atoms_by_name t) name of
             Some atom \<Rightarrow> (Inr (Some atom), t)
           | None \<Rightarrow>
               if only_if_exists then (Inr None, t)
               else
                 let atom = at_next_dynamic t in
                 case checked_add (at_next_dynamic t) 1 of
                   None \<Rightarrow> (Inl AtomSpaceExhausted, t)
                 | Some n \<Rightarrow>
                     (Inr (Some atom),
                      t\<lparr>at_next_dynamic := n,
                        at_names_by_atom := bt_insert atom name (at_names_by_atom t),
                        at_atoms_by_name := bt_insert name atom (at_atoms_by_name t)\<rparr>)))"

definition atom_name :: "XAtomTable \<Rightarrow> XAtom \<Rightarrow> rust_string option" where
  "atom_name t atom = bt_get (at_names_by_atom t) atom"

definition name_atom :: "XAtomTable \<Rightarrow> rust_string \<Rightarrow> XAtom option" where
  "name_atom t name = bt_get (at_atoms_by_name t) name"

definition is_metadata_candidate_name :: "rust_string \<Rightarrow> bool" where
  "is_metadata_candidate_name name \<longleftrightarrow>
     name \<in> {lit ''WM_CLASS'', lit ''WM_NAME'', lit ''_NET_WM_NAME'', lit ''WM_PROTOCOLS''}"

definition is_metadata_candidate_atom :: "XAtomTable \<Rightarrow> XAtom \<Rightarrow> bool" where
  "is_metadata_candidate_atom t atom =
     (case atom_name t atom of None \<Rightarrow> False | Some name \<Rightarrow> is_metadata_candidate_name name)"

section \<open>Properties (property.rs)\<close>

definition X_PROPERTY_MAX_VALUE_BYTES :: nat where "X_PROPERTY_MAX_VALUE_BYTES = 256 * 1024"
definition X_PROPERTY_MAX_TABLE_BYTES :: nat where "X_PROPERTY_MAX_TABLE_BYTES = 4 * 1024 * 1024"
definition X_PROPERTY_ANY_TYPE :: XAtom where "X_PROPERTY_ANY_TYPE = 0"

datatype XPropertyMode = PropReplace | PropPrepend | PropAppend

record XPropertyChange =
  xc_mode :: XPropertyMode
  xc_window :: XResourceId
  xc_property :: XAtom
  xc_property_type :: XAtom
  xc_format :: u8
  xc_bytes :: "u8 list"

record XPropertyRead =
  xq_delete :: bool
  xq_window :: XResourceId
  xq_property :: XAtom
  xq_property_type :: XAtom
  xq_long_offset :: u32
  xq_long_length :: u32

record XPropertyReadReply =
  xy_property_type :: XAtom
  xy_format :: u8
  xy_bytes_after :: u32
  xy_item_count :: u32
  xy_bytes :: "u8 list"

record XPropertyRecord =
  xe_namespace :: NamespaceId
  xe_window :: XResourceId
  xe_property :: XAtom
  xe_property_type :: XAtom
  xe_format :: u8
  xe_bytes :: "u8 list"
  xe_generation :: u64

record XMetadataPropertyCandidate =
  mc_namespace :: NamespaceId
  mc_window :: XResourceId
  mc_property :: XAtom
  mc_property_name :: rust_string
  mc_property_type :: XAtom
  mc_property_type_name :: "rust_string option"
  mc_format :: u8
  mc_byte_len :: nat
  mc_generation :: u64

datatype XPropertyError =
    XpInvalidNamespace
  | XpInvalidWindow
  | XpInvalidFormat u8
  | XpValueTooLarge nat nat
  | XpTableTooLarge nat nat
  | XpTypeMismatch
  | XpInvalidOffset
  | XpReadTooLarge nat nat

definition metadata_property_candidate ::
  "XPropertyRecord \<Rightarrow> XAtomTable \<Rightarrow> XMetadataPropertyCandidate option" where
  "metadata_property_candidate r atoms =
     (case atom_name atoms (xe_property r) of
        None \<Rightarrow> None
      | Some property_name \<Rightarrow>
          if \<not> is_metadata_candidate_name property_name then None
          else Some \<lparr>mc_namespace = xe_namespace r, mc_window = xe_window r, mc_property = xe_property r,
                     mc_property_name = property_name, mc_property_type = xe_property_type r,
                     mc_property_type_name = atom_name atoms (xe_property_type r), mc_format = xe_format r,
                     mc_byte_len = length (xe_bytes r), mc_generation = xe_generation r\<rparr>)"

type_synonym property_key = "NamespaceId \<times> XResourceId \<times> XAtom"
type_synonym XPropertyTable = "(property_key, XPropertyRecord) btree"

definition usize_max :: nat where "usize_max = 2 ^ 64 - 1"

definition usize_checked_add :: "nat \<Rightarrow> nat \<Rightarrow> nat option" where
  "usize_checked_add a b = (if a + b \<le> usize_max then Some (a + b) else None)"

definition validate_property_format :: "u8 \<Rightarrow> XPropertyError + unit" where
  "validate_property_format format =
     (if format = 8 \<or> format = 16 \<or> format = 32 then Inr () else Inl (XpInvalidFormat format))"

definition ensure_same_property_shape :: "XPropertyRecord \<Rightarrow> XPropertyChange \<Rightarrow> XPropertyError + unit" where
  "ensure_same_property_shape r c =
     (if xe_property_type r \<noteq> xc_property_type c \<or> xe_format r \<noteq> xc_format c then Inl XpTypeMismatch else Inr ())"

definition joined_bytes :: "u8 list \<Rightarrow> u8 list \<Rightarrow> XPropertyError + u8 list" where
  "joined_bytes xs ys =
     (case usize_checked_add (length xs) (length ys) of
        None \<Rightarrow> Inl (XpValueTooLarge usize_max X_PROPERTY_MAX_VALUE_BYTES)
      | Some len \<Rightarrow>
          if X_PROPERTY_MAX_VALUE_BYTES < len then Inl (XpValueTooLarge len X_PROPERTY_MAX_VALUE_BYTES)
          else Inr (xs @ ys))"

fun sum_checked :: "nat \<Rightarrow> XPropertyRecord list \<Rightarrow> nat option" where
  "sum_checked acc [] = Some acc"
| "sum_checked acc (r # rs) =
     (case usize_checked_add acc (length (xe_bytes r)) of None \<Rightarrow> None | Some t \<Rightarrow> sum_checked t rs)"

definition changed_bytes :: "XPropertyChange \<Rightarrow> XPropertyRecord option \<Rightarrow> XPropertyError + u8 list" where
  "changed_bytes c previous =
     (case (xc_mode c, previous) of
        (PropReplace, _) \<Rightarrow> Inr (xc_bytes c)
      | (_, None) \<Rightarrow> Inr (xc_bytes c)
      | (PropAppend, Some r) \<Rightarrow> bind_res (ensure_same_property_shape r c) (\<lambda>_. joined_bytes (xe_bytes r) (xc_bytes c))
      | (PropPrepend, Some r) \<Rightarrow> bind_res (ensure_same_property_shape r c) (\<lambda>_. joined_bytes (xc_bytes c) (xe_bytes r)))"

definition apply_change ::
  "NamespaceId \<Rightarrow> XPropertyChange \<Rightarrow> XPropertyTable \<Rightarrow> XPropertyError + (XPropertyRecord \<times> XPropertyTable)" where
  "apply_change namespace c t =
     (if \<not> id_is_valid namespace then Inl XpInvalidNamespace
      else if \<not> xresource_is_valid (xc_window c) then Inl XpInvalidWindow
      else bind_res (validate_property_format (xc_format c)) (\<lambda>_.
      if X_PROPERTY_MAX_VALUE_BYTES < length (xc_bytes c)
        then Inl (XpValueTooLarge (length (xc_bytes c)) X_PROPERTY_MAX_VALUE_BYTES)
      else
        let key = (namespace, xc_window c, xc_property c);
            previous = bt_get t key;
            previous_len = (case previous of None \<Rightarrow> 0 | Some r \<Rightarrow> length (xe_bytes r));
            generation = (case previous of None \<Rightarrow> 1 | Some r \<Rightarrow> sat_add (xe_generation r) 1) in
        bind_res (changed_bytes c previous) (\<lambda>bytes.
        bind_res (ok_or (Option.bind (sum_checked 0 (bt_values t)) (\<lambda>acc.
            if acc < previous_len then None else usize_checked_add (acc - previous_len) (length bytes)))
          (XpTableTooLarge usize_max X_PROPERTY_MAX_TABLE_BYTES)) (\<lambda>table_len.
        if X_PROPERTY_MAX_TABLE_BYTES < table_len then Inl (XpTableTooLarge table_len X_PROPERTY_MAX_TABLE_BYTES)
        else
          let record = \<lparr>xe_namespace = namespace, xe_window = xc_window c, xe_property = xc_property c,
                        xe_property_type = xc_property_type c, xe_format = xc_format c, xe_bytes = bytes,
                        xe_generation = generation\<rparr> in
          Inr (record, bt_insert key record t)))))"

definition property_get :: "XPropertyTable \<Rightarrow> NamespaceId \<Rightarrow> XResourceId \<Rightarrow> XAtom \<Rightarrow> XPropertyRecord option" where
  "property_get t namespace window property = bt_get t (namespace, window, property)"

definition properties_for_window :: "XPropertyTable \<Rightarrow> NamespaceId \<Rightarrow> XResourceId \<Rightarrow> XAtom list" where
  "properties_for_window t namespace window =
     map (\<lambda>(n, w, p). p) (filter (\<lambda>(n, w, p). n = namespace \<and> w = window) (bt_keys t))"

definition windows_with_property :: "XPropertyTable \<Rightarrow> NamespaceId \<Rightarrow> XAtom \<Rightarrow> XResourceId list" where
  "windows_with_property t namespace property =
     map (\<lambda>(n, w, p). w) (filter (\<lambda>(n, w, p). n = namespace \<and> p = property) (bt_keys t))"

definition remove_window :: "NamespaceId \<Rightarrow> XResourceId \<Rightarrow> XPropertyTable \<Rightarrow> nat \<times> XPropertyTable" where
  "remove_window namespace window t =
     (let t' = filter (\<lambda>((n, w, p), r). n \<noteq> namespace \<or> w \<noteq> window) t in (length t - length t', t'))"

definition property_remove ::
  "NamespaceId \<Rightarrow> XResourceId \<Rightarrow> XAtom \<Rightarrow> XPropertyTable \<Rightarrow> XPropertyRecord option \<times> XPropertyTable" where
  "property_remove namespace window property t =
     (bt_get t (namespace, window, property), bt_remove (namespace, window, property) t)"

definition u32_of_len :: "nat \<Rightarrow> u32" where
  "u32_of_len n = (if n < 2 ^ 32 then word_of_nat n else word_max)"

text \<open>
  \<open>returned_len / item_width\<close> would panic for a width of zero; the formats a table holds are 8, 16 and
  32 (\<open>properties_ok\<close> below). The factor 4 does not overflow a \<open>usize\<close>.
\<close>

definition read_property ::
  "XPropertyTable \<Rightarrow> NamespaceId \<Rightarrow> XPropertyRead \<Rightarrow> XPropertyError + XPropertyReadReply" where
  "read_property t namespace q =
     (if \<not> id_is_valid namespace then Inl XpInvalidNamespace
      else if \<not> xresource_is_valid (xq_window q) then Inl XpInvalidWindow
      else case property_get t namespace (xq_window q) (xq_property q) of
          None \<Rightarrow> Inr \<lparr>xy_property_type = X_PROPERTY_ANY_TYPE, xy_format = 0, xy_bytes_after = 0, xy_item_count = 0,
                       xy_bytes = []\<rparr>
        | Some r \<Rightarrow>
            if xq_property_type q \<noteq> X_PROPERTY_ANY_TYPE \<and> xq_property_type q \<noteq> xe_property_type r
            then Inr \<lparr>xy_property_type = xe_property_type r, xy_format = xe_format r,
                      xy_bytes_after = u32_of_len (length (xe_bytes r)), xy_item_count = 0, xy_bytes = []\<rparr>
            else
              let offset = unat (xq_long_offset q) * 4; max_read = unat (xq_long_length q) * 4 in
              if length (xe_bytes r) < offset then Inl XpInvalidOffset
              else if X_PROPERTY_MAX_VALUE_BYTES < max_read then Inl (XpReadTooLarge max_read X_PROPERTY_MAX_VALUE_BYTES)
              else
                let remaining = length (xe_bytes r) - offset;
                    returned_len = min remaining max_read;
                    item_width = unat (xe_format r div 8) in
                Inr \<lparr>xy_property_type = xe_property_type r, xy_format = xe_format r,
                     xy_bytes_after = u32_of_len (remaining - returned_len),
                     xy_item_count = u32_of_len (returned_len div item_width),
                     xy_bytes = take returned_len (drop offset (xe_bytes r))\<rparr>)"

section \<open>Atoms are a bijection\<close>

definition atoms_ok :: "XAtomTable \<Rightarrow> bool" where
  "atoms_ok t \<longleftrightarrow>
     (\<forall>a n. bt_get (at_names_by_atom t) a = Some n \<longleftrightarrow> bt_get (at_atoms_by_name t) n = Some a)
     \<and> (\<forall>a n. bt_get (at_names_by_atom t) a = Some n \<longrightarrow>
          a \<noteq> 0 \<and> a < at_next_dynamic t \<and> validated_atom_name n = Inr n)"

definition atoms_kept :: "XAtomTable \<Rightarrow> XAtomTable \<Rightarrow> bool" where
  "atoms_kept t t' \<longleftrightarrow>
     (\<forall>a n. bt_get (at_names_by_atom t) a = Some n \<longrightarrow> bt_get (at_names_by_atom t') a = Some n)
     \<and> (\<forall>n a. bt_get (at_atoms_by_name t) n = Some a \<longrightarrow> bt_get (at_atoms_by_name t') n = Some a)"

text \<open>One event of an atom table: a name is interned, possibly only if it exists.\<close>

fun atom_step :: "XAtomTable \<Rightarrow> rust_string \<times> bool \<Rightarrow> XAtomTable" where
  "atom_step t (name, only_if_exists) = snd (intern name only_if_exists t)"

lemma validated_atom_name_Inr: "validated_atom_name n = Inr m \<Longrightarrow> m = n"
  by (auto simp: validated_atom_name_def split: if_splits)

lemma checked_add_one_less: "checked_add a 1 = Some b \<Longrightarrow> a < b"
  for a :: "'a::len word"
  using checked_add_unat [of a 1 b] by (simp add: word_less_nat_alt)

text \<open>A new pair under a fresh atom and a fresh name keeps the two directions inverse.\<close>

lemma atoms_ok_extend:
  assumes ok: "atoms_ok t" and v: "validated_atom_name n = Inr n" and fresh: "bt_get (at_atoms_by_name t) n = None"
    and a: "at_next_dynamic t < m" "at_next_dynamic t \<noteq> 0"
    and t': "t' = t\<lparr>at_next_dynamic := m,
                     at_names_by_atom := bt_insert (at_next_dynamic t) n (at_names_by_atom t),
                     at_atoms_by_name := bt_insert n (at_next_dynamic t) (at_atoms_by_name t)\<rparr>"
  shows "atoms_ok t' \<and> atoms_kept t t'"
proof -
  let ?a = "at_next_dynamic t"
  have fa: "bt_get (at_names_by_atom t) ?a = None"
    using ok unfolding atoms_ok_def by (metis less_irrefl not_None_eq)
  have no: "bt_get (at_names_by_atom t) x \<noteq> Some n" "bt_get (at_atoms_by_name t) y \<noteq> Some ?a" for x y
    using ok fresh fa unfolding atoms_ok_def by (metis option.distinct(1))+
  have "bt_get (at_names_by_atom t') x = (if x = ?a then Some n else bt_get (at_names_by_atom t) x)"
    "bt_get (at_atoms_by_name t') y = (if y = n then Some ?a else bt_get (at_atoms_by_name t) y)" for x y
    by (simp_all add: t' bt_get_insert)
  moreover have "at_next_dynamic t' = m" by (simp add: t')
  moreover have "x < m" if "x < ?a" for x using that a(1) by (rule less_trans)
  ultimately show ?thesis
    using ok v a no fa fresh unfolding atoms_ok_def atoms_kept_def by auto
qed

lemma intern_cases:
  assumes "atoms_ok t" "at_next_dynamic t \<noteq> 0" "intern n only t = (r, t')"
  shows "atoms_ok t' \<and> atoms_kept t t' \<and> at_next_dynamic t' \<noteq> 0
    \<and> (\<forall>a. r = Inr (Some a) \<longrightarrow> bt_get (at_atoms_by_name t') n = Some a)
    \<and> (r = Inr None \<longrightarrow> only \<and> bt_get (at_atoms_by_name t) n = None)
    \<and> ((\<forall>a. r \<noteq> Inr (Some a)) \<longrightarrow> t' = t)"
proof -
  have refl: "atoms_kept t t" by (simp add: atoms_kept_def)
  show ?thesis
  proof (cases "validated_atom_name n")
    case (Inl e)
    then show ?thesis using assms refl by (auto simp: intern_def)
  next
    case (Inr m)
    then have v: "validated_atom_name n = Inr n" using validated_atom_name_Inr by auto
    show ?thesis
    proof (cases "bt_get (at_atoms_by_name t) n")
      case (Some a)
      then show ?thesis using assms v refl by (auto simp: intern_def)
    next
      case None
      show ?thesis
      proof (cases "only \<or> checked_add (at_next_dynamic t) 1 = None")
        case True
        then show ?thesis using assms v None refl by (auto simp: intern_def Let_def split: if_splits)
      next
        case False
        then obtain k where k: "checked_add (at_next_dynamic t) 1 = Some k" by auto
        then have less: "at_next_dynamic t < k" by (rule checked_add_one_less)
        have t': "t' = t\<lparr>at_next_dynamic := k,
                     at_names_by_atom := bt_insert (at_next_dynamic t) n (at_names_by_atom t),
                     at_atoms_by_name := bt_insert n (at_next_dynamic t) (at_atoms_by_name t)\<rparr>"
          and r: "r = Inr (Some (at_next_dynamic t))"
          using assms(3) v None False k by (auto simp: intern_def Let_def)
        have "at_next_dynamic t' \<noteq> 0" using less by (auto simp: t')
        then show ?thesis
          using atoms_ok_extend [OF assms(1) v None less assms(2) t'] r by (simp add: t' bt_get_insert)
      qed
    qed
  qed
qed

definition atoms_inv :: "XAtomTable \<Rightarrow> bool" where
  "atoms_inv t \<longleftrightarrow> atoms_ok t \<and> at_next_dynamic t \<noteq> 0"

interpretation atoms: history_machine atom_step atoms_inv atoms_kept
proof
  fix t and e :: "rust_string \<times> bool"
  obtain n only where e: "e = (n, only)" by force
  obtain r t' where i: "intern n only t = (r, t')" by force
  assume "atoms_inv t"
  then show "atoms_inv (atom_step t e)" "atoms_kept t (atom_step t e)"
    using intern_cases [OF _ _ i] i e by (auto simp: atoms_inv_def)
qed (auto simp: atoms_kept_def)

lemma unat_char_byte: "unat (word_of_nat (of_char c) :: u8) = of_char c"
  using of_char_mod_256 [of c, where 'a = nat] by (simp add: unsigned_of_nat take_bit_eq_mod)

lemma lit_inject [simp]: "lit x = lit y \<longleftrightarrow> x = y"
proof -
  have "inj (\<lambda>c. word_of_nat (of_char c) :: u8)"
    by (rule injI) (metis of_char_eq_iff unat_char_byte)
  then show ?thesis by (simp add: lit_def inj_map_eq_map)
qed

lemma predefined_atoms_distinct:
  "distinct (map fst X_PREDEFINED_ATOMS)" "distinct (map snd X_PREDEFINED_ATOMS)"
  by (simp_all add: X_PREDEFINED_ATOMS_def)

text \<open>The table built from a list of distinct pairs has exactly those pairs, in both directions.\<close>

lemma insert_predefined_fold:
  assumes "t' = foldl (\<lambda>t (a, n). insert_predefined a n t) t xs"
  shows "bt_get (at_names_by_atom t') = bt_get (at_names_by_atom t) ++ map_of (rev xs)
    \<and> bt_get (at_atoms_by_name t') = bt_get (at_atoms_by_name t) ++ map_of (rev (map prod.swap xs))
    \<and> at_next_dynamic t' = at_next_dynamic t"
  using assms
proof (induction xs arbitrary: t)
  case (Cons x xs)
  then show ?case
    by (cases x) (simp add: insert_predefined_def bt_get_insert map_add_upd_left map_add_def fun_eq_iff split: option.split)
qed simp

lemma predefined_atoms:
  "bt_get (at_names_by_atom atom_table_new) a = Some n \<longleftrightarrow> (a, n) \<in> set X_PREDEFINED_ATOMS"
  "bt_get (at_atoms_by_name atom_table_new) n = Some a \<longleftrightarrow> (a, n) \<in> set X_PREDEFINED_ATOMS"
  "at_next_dynamic atom_table_new = 69"
proof -
  note f = insert_predefined_fold [OF atom_table_new_def]
  have "distinct (map fst (rev X_PREDEFINED_ATOMS))" "distinct (map fst (rev (map prod.swap X_PREDEFINED_ATOMS)))"
    using predefined_atoms_distinct by (simp_all flip: rev_map add: comp_def)
  then show "bt_get (at_names_by_atom atom_table_new) a = Some n \<longleftrightarrow> (a, n) \<in> set X_PREDEFINED_ATOMS"
    "bt_get (at_atoms_by_name atom_table_new) n = Some a \<longleftrightarrow> (a, n) \<in> set X_PREDEFINED_ATOMS"
    using f by (auto simp: map_of_eq_Some_iff)
  show "at_next_dynamic atom_table_new = 69" using f by (simp add: X_ATOM_LAST_PREDEFINED_def)
qed

lemma predefined_atoms_valid:
  "list_all (\<lambda>(a, n). a \<noteq> 0 \<and> a < 69 \<and> validated_atom_name n = Inr n) X_PREDEFINED_ATOMS"
  by (simp add: X_PREDEFINED_ATOMS_def validated_atom_name_def X_ATOM_MAX_NAME_LEN_def lit_def of_char_def)

lemma atom_table_new_inv: "atoms_inv atom_table_new"
  using predefined_atoms_valid by (auto simp: atoms_inv_def atoms_ok_def predefined_atoms list_all_iff)

text \<open>
  Property C23. In every table reached from the predefined one by interning names, the two directions are
  inverse to each other, every atom is nonzero and has an admissible name, every predefined atom has
  its name of the X11 protocol, and what is interned later never changes what an atom means; an
  interned name is found under the atom returned, and a request that adds nothing returns an error or
  an absent atom.
\<close>

theorem atoms_bijective:
  fixes es es' :: "(rust_string \<times> bool) list"
  defines "t \<equiv> foldl atom_step atom_table_new es"
  defines "t' \<equiv> foldl atom_step t es'"
  shows "(atom_name t a = Some n \<longleftrightarrow> name_atom t n = Some a)
    \<and> (atom_name t a = Some n \<longrightarrow> a \<noteq> 0 \<and> validated_atom_name n = Inr n \<and> atom_name t' a = Some n)
    \<and> ((a, n) \<in> set X_PREDEFINED_ATOMS \<longrightarrow> atom_name t a = Some n)
    \<and> (fst (intern n only t) = Inr (Some a) \<longrightarrow> name_atom (snd (intern n only t)) n = Some a)
    \<and> ((\<forall>b. fst (intern n only t) \<noteq> Inr (Some b)) \<longrightarrow> snd (intern n only t) = t)"
proof -
  have inv: "atoms_inv t" using atoms.run_inv [OF atom_table_new_inv] by (simp add: t_def)
  have "atoms_kept atom_table_new t" "atoms_kept t t'"
    using atoms.run_rel [OF atom_table_new_inv] atoms.run_rel [OF inv] by (simp_all add: t_def t'_def)
  moreover obtain r u where i: "intern n only t = (r, u)" by force
  moreover have "(\<forall>a. r = Inr (Some a) \<longrightarrow> bt_get (at_atoms_by_name u) n = Some a)
      \<and> ((\<forall>a. r \<noteq> Inr (Some a)) \<longrightarrow> u = t)"
    using intern_cases [OF _ _ i] inv by (auto simp: atoms_inv_def)
  ultimately show ?thesis
    using inv by (simp add: atoms_inv_def atoms_ok_def atoms_kept_def atom_name_def name_atom_def predefined_atoms)
qed

theorem atoms_bijective_witness:
  "let t = foldl atom_step atom_table_new [(lit ''UTF8_STRING'', False)];
       t' = foldl atom_step t [(lit ''_NET_WM_NAME'', False)] in
   atom_name t 39 = Some (lit ''WM_NAME'') \<and> atom_name t' 39 = Some (lit ''WM_NAME'')
   \<and> fst (intern (lit ''WM_NAME'') True t) = Inr (Some 39)"
proof -
  let ?n = "lit ''WM_NAME''" and ?es = "[(lit ''UTF8_STRING'', False)]" and ?es' = "[(lit ''_NET_WM_NAME'', False)]"
  have "(39, ?n) \<in> set X_PREDEFINED_ATOMS" by (simp add: X_PREDEFINED_ATOMS_def)
  note h = this atoms_bijective [where a = 39 and n = ?n and es = ?es and es' = ?es']
  define t where "t = foldl atom_step atom_table_new ?es"
  have "atom_name t 39 = Some ?n" "validated_atom_name ?n = Inr ?n" "name_atom t ?n = Some 39"
    "atom_name (foldl atom_step t ?es') 39 = Some ?n"
    using h unfolding t_def by metis+
  then show ?thesis unfolding t_def [symmetric] Let_def by (simp add: intern_def name_atom_def)
qed

section \<open>The property table\<close>

definition table_bytes :: "XPropertyTable \<Rightarrow> nat" where
  "table_bytes t = sum_list (map (\<lambda>r. length (xe_bytes r)) (bt_values t))"

definition property_ok :: "property_key \<Rightarrow> XPropertyRecord \<Rightarrow> bool" where
  "property_ok key r \<longleftrightarrow>
     key = (xe_namespace r, xe_window r, xe_property r) \<and> id_is_valid (xe_namespace r)
     \<and> xresource_is_valid (xe_window r) \<and> (xe_format r = 8 \<or> xe_format r = 16 \<or> xe_format r = 32)
     \<and> length (xe_bytes r) \<le> X_PROPERTY_MAX_VALUE_BYTES \<and> xe_generation r \<noteq> 0"

definition properties_ok :: "XPropertyTable \<Rightarrow> bool" where
  "properties_ok t \<longleftrightarrow>
     bt_wf t \<and> list_all (\<lambda>(key, r). property_ok key r) t \<and> table_bytes t \<le> X_PROPERTY_MAX_TABLE_BYTES"

text \<open>One event of a property table, as the authority runtime calls it.\<close>

datatype property_event =
    ChangeProperty NamespaceId XPropertyChange
  | DeleteProperty NamespaceId XResourceId XAtom
  | DestroyWindowProperties NamespaceId XResourceId

fun property_step :: "XPropertyTable \<Rightarrow> property_event \<Rightarrow> XPropertyTable" where
  "property_step t (ChangeProperty namespace c) =
     (case apply_change namespace c t of Inl e \<Rightarrow> t | Inr (r, t') \<Rightarrow> t')"
| "property_step t (DeleteProperty namespace w p) = snd (property_remove namespace w p t)"
| "property_step t (DestroyWindowProperties namespace w) = snd (remove_window namespace w t)"

lemma properties_ok_get:
  assumes "properties_ok t" "property_get t namespace w p = Some r"
  shows "property_ok (namespace, w, p) r"
proof -
  have "((namespace, w, p), r) \<in> set t"
    using assms by (simp add: properties_ok_def property_get_def map_of_SomeD)
  then show ?thesis using assms(1) by (auto simp: properties_ok_def list_all_iff)
qed

lemma set_bt_insert: "set (bt_insert k v m) \<subseteq> insert (k, v) (set m)"
  by (induction k v m rule: bt_insert.induct) auto

lemma bt_insert_sum:
  fixes f :: "'v \<Rightarrow> nat"
  assumes "bt_wf m"
  shows "sum_list (map f (bt_values (bt_insert k v m))) + (case bt_get m k of None \<Rightarrow> 0 | Some u \<Rightarrow> f u)
    = sum_list (map f (bt_values m)) + f v"
  using assms
proof (induction m)
  case (Cons x m)
  obtain k' v' where x: "x = (k', v')" by force
  have "bt_get m k = None" if "k < k' \<or> k = k'"
    using Cons.prems that by (auto simp: x bt_wf_def map_of_eq_None_iff)
  then show ?case using Cons by (auto simp: x bt_wf_def bt_values_def)
qed (simp add: bt_values_def)

lemma table_bytes_filter: "table_bytes (filter P t) \<le> table_bytes t"
  by (induction t) (auto simp: table_bytes_def bt_values_def)

lemma properties_ok_filter: "properties_ok t \<Longrightarrow> properties_ok (filter P t)"
  using table_bytes_filter [of P t]
  by (auto simp: properties_ok_def bt_wf_def list_all_iff sorted_wrt_map sorted_wrt_filter)

lemma sum_checked_table:
  assumes "table_bytes t \<le> X_PROPERTY_MAX_TABLE_BYTES"
  shows "sum_checked 0 (bt_values t) = Some (table_bytes t)"
proof -
  have "sum_checked n rs = Some (n + sum_list (map (\<lambda>r. length (xe_bytes r)) rs))"
    if "n + sum_list (map (\<lambda>r. length (xe_bytes r)) rs) \<le> usize_max" for n rs
    using that by (induction rs arbitrary: n) (auto simp: usize_checked_add_def)
  then show ?thesis
    using assms by (simp add: table_bytes_def X_PROPERTY_MAX_TABLE_BYTES_def usize_max_def)
qed

lemma sat_add_one_nonzero: "sat_add g 1 \<noteq> (0 :: u64)"
  using sat_add_one_cases [of g] by (auto simp: word_max_def)

text \<open>What a successful change stores, and where.\<close>

lemma apply_change_Inr:
  assumes ok: "properties_ok t" and h: "apply_change namespace c t = Inr (r, t')"
  shows "property_ok (namespace, xc_window c, xc_property c) r"
    and "t' = bt_insert (namespace, xc_window c, xc_property c) r t"
    and "table_bytes t' \<le> X_PROPERTY_MAX_TABLE_BYTES"
    and "changed_bytes c (property_get t namespace (xc_window c) (xc_property c)) = Inr (xe_bytes r)"
    and "xe_property_type r = xc_property_type c \<and> xe_format r = xc_format c"
proof -
  let ?key = "(namespace, xc_window c, xc_property c)"
  have wf: "bt_wf t" and tb: "table_bytes t \<le> X_PROPERTY_MAX_TABLE_BYTES" using ok by (simp_all add: properties_ok_def)
  from h obtain bytes n where v: "id_is_valid namespace" "xresource_is_valid (xc_window c)"
      "validate_property_format (xc_format c) = Inr ()" "length (xc_bytes c) \<le> X_PROPERTY_MAX_VALUE_BYTES"
    and b: "changed_bytes c (bt_get t ?key) = Inr bytes"
    and n: "usize_checked_add (table_bytes t - (case bt_get t ?key of None \<Rightarrow> 0 | Some r \<Rightarrow> length (xe_bytes r)))
        (length bytes) = Some n" "n \<le> X_PROPERTY_MAX_TABLE_BYTES"
    and r: "r = \<lparr>xe_namespace = namespace, xe_window = xc_window c, xe_property = xc_property c,
                        xe_property_type = xc_property_type c, xe_format = xc_format c, xe_bytes = bytes,
                        xe_generation = (case bt_get t ?key of None \<Rightarrow> 1 | Some r \<Rightarrow> sat_add (xe_generation r) 1)\<rparr>"
    and t': "t' = bt_insert ?key r t"
    by (auto simp: apply_change_def Let_def sum_checked_table [OF tb] ok_or_def
        split: if_splits option.splits prod.splits)
  have "length bytes \<le> X_PROPERTY_MAX_VALUE_BYTES"
    using b v(4) by (auto simp: changed_bytes_def joined_bytes_def usize_checked_add_def ensure_same_property_shape_def
        split: XPropertyMode.splits option.splits if_splits)
  then show "property_ok ?key r"
    using v sat_add_one_nonzero
    by (auto simp: property_ok_def r validate_property_format_def split: if_splits option.splits)
  show "t' = bt_insert ?key r t" by (fact t')
  show "changed_bytes c (property_get t namespace (xc_window c) (xc_property c)) = Inr (xe_bytes r)"
    using b by (simp add: property_get_def r)
  show "xe_property_type r = xc_property_type c \<and> xe_format r = xc_format c" by (simp add: r)
  show "table_bytes t' \<le> X_PROPERTY_MAX_TABLE_BYTES"
    using bt_insert_sum [OF wf, of "\<lambda>r. length (xe_bytes r)" ?key r] n
    by (auto simp: t' table_bytes_def usize_checked_add_def r split: option.splits if_splits)
qed

lemma apply_change_ok:
  assumes "properties_ok t" "apply_change namespace c t = Inr (r, t')"
  shows "properties_ok t'"
proof -
  have "list_all (\<lambda>(key, r). property_ok key r) t'"
    using assms(1) apply_change_Inr(1) [OF assms] set_bt_insert [of "(namespace, xc_window c, xc_property c)" r t]
    by (auto simp: apply_change_Inr(2) [OF assms] properties_ok_def list_all_iff)
  then show ?thesis
    using assms(1) apply_change_Inr(3) [OF assms]
    by (simp add: properties_ok_def apply_change_Inr(2) [OF assms])
qed

interpretation properties: invariant_machine property_step properties_ok
proof
  fix t e
  assume "properties_ok t"
  then show "properties_ok (property_step t e)"
    by (cases e)
      (auto simp: property_remove_def bt_remove_def remove_window_def Let_def properties_ok_filter
          split: sum.split prod.split intro: apply_change_ok)
qed

text \<open>
  Property C24. In every table reached from the empty one by changing, deleting and destroying, each record
  stands under its own namespace, window and atom, has one of the three formats and a value of at most
  256 KiB, and all values together stay within 4 MiB. A successful change leaves every other property
  alone and stores the new bytes: the given ones when replacing or when there was no value, and the
  old value before or after them when appending or prepending.
\<close>

theorem property_table_typed:
  fixes es :: "property_event list"
  defines "t \<equiv> foldl property_step [] es"
  assumes "apply_change namespace c t = Inr (r, t')"
  shows "properties_ok t \<and> properties_ok t'
    \<and> (\<forall>key. bt_get t' key = (if key = (namespace, xc_window c, xc_property c) then Some r else bt_get t key))
    \<and> xe_bytes r = (case property_get t namespace (xc_window c) (xc_property c) of
        None \<Rightarrow> xc_bytes c
      | Some old \<Rightarrow>
          (case xc_mode c of PropReplace \<Rightarrow> xc_bytes c | PropPrepend \<Rightarrow> xc_bytes c @ xe_bytes old
           | PropAppend \<Rightarrow> xe_bytes old @ xc_bytes c))"
proof -
  have "properties_ok []" by (simp add: properties_ok_def table_bytes_def bt_values_def)
  then have ok: "properties_ok t" by (simp add: t_def properties.run_inv)
  note a = apply_change_Inr [OF ok assms(2)]
  have "xe_bytes r = (case property_get t namespace (xc_window c) (xc_property c) of
        None \<Rightarrow> xc_bytes c
      | Some old \<Rightarrow>
          (case xc_mode c of PropReplace \<Rightarrow> xc_bytes c | PropPrepend \<Rightarrow> xc_bytes c @ xe_bytes old
           | PropAppend \<Rightarrow> xe_bytes old @ xc_bytes c))"
    using a(4) by (auto simp: changed_bytes_def joined_bytes_def split: XPropertyMode.splits option.splits if_splits)
  then show ?thesis
    using ok apply_change_ok [OF ok assms(2)] by (simp add: a(2) bt_get_insert)
qed

text \<open>
  A client's way to a long value: pieces of \<open>n\<close> four-byte units from an advancing offset until
  nothing is left. \<^const>\<open>None\<close> is an error reply or the end of the fuel.
\<close>

fun read_chunks ::
  "nat \<Rightarrow> XPropertyTable \<Rightarrow> NamespaceId \<Rightarrow> XResourceId \<Rightarrow> XAtom \<Rightarrow> u32 \<Rightarrow> u32 \<Rightarrow> u8 list option" where
  "read_chunks 0 t namespace w p n offset = None"
| "read_chunks (Suc fuel) t namespace w p n offset =
     (case read_property t namespace \<lparr>xq_delete = False, xq_window = w, xq_property = p,
          xq_property_type = X_PROPERTY_ANY_TYPE, xq_long_offset = offset, xq_long_length = n\<rparr> of
        Inl e \<Rightarrow> None
      | Inr y \<Rightarrow>
          if xy_bytes_after y = 0 then Some (xy_bytes y)
          else map_option (\<lambda>rest. xy_bytes y @ rest) (read_chunks fuel t namespace w p n (offset + n)))"

lemma u32_of_len_zero: "u32_of_len n = 0 \<longleftrightarrow> n = 0"
  by (auto simp: u32_of_len_def word_max_def word_of_nat_eq_0_iff dest: dvd_imp_le)

lemma read_piece:
  assumes "property_ok (namespace, w, p) r" "property_get t namespace w p = Some r"
    and "4 * unat offset \<le> length (xe_bytes r)" "4 * unat n \<le> X_PROPERTY_MAX_VALUE_BYTES"
  shows "\<exists>y. read_property t namespace \<lparr>xq_delete = False, xq_window = w, xq_property = p,
          xq_property_type = X_PROPERTY_ANY_TYPE, xq_long_offset = offset, xq_long_length = n\<rparr> = Inr y
      \<and> xy_bytes y = take (4 * unat n) (drop (4 * unat offset) (xe_bytes r))
      \<and> (xy_bytes_after y = 0 \<longleftrightarrow> length (xe_bytes r) \<le> 4 * unat offset + 4 * unat n)"
  using assms
  by (auto simp: read_property_def property_ok_def Let_def u32_of_len_zero mult.commute min_def)

lemma read_chunks_from:
  assumes "property_ok (namespace, w, p) r" "property_get t namespace w p = Some r"
    and "4 * unat offset \<le> length (xe_bytes r)" "n \<noteq> 0" "4 * unat n \<le> X_PROPERTY_MAX_VALUE_BYTES"
    and "length (xe_bytes r) < 4 * unat offset + fuel * (4 * unat n) + 1" "0 < fuel"
  shows "read_chunks fuel t namespace w p n offset = Some (drop (4 * unat offset) (xe_bytes r))"
  using assms(3,6,7)
proof (induction fuel arbitrary: offset)
  case (Suc fuel)
  let ?L = "length (xe_bytes r)"
  obtain y where y: "read_property t namespace \<lparr>xq_delete = False, xq_window = w, xq_property = p,
          xq_property_type = X_PROPERTY_ANY_TYPE, xq_long_offset = offset, xq_long_length = n\<rparr> = Inr y"
    "xy_bytes y = take (4 * unat n) (drop (4 * unat offset) (xe_bytes r))"
    "xy_bytes_after y = 0 \<longleftrightarrow> ?L \<le> 4 * unat offset + 4 * unat n"
    using read_piece [OF assms(1,2) Suc.prems(1) assms(5)] by blast
  show ?case
  proof (cases "?L \<le> 4 * unat offset + 4 * unat n")
    case True
    then show ?thesis using y by simp
  next
    case False
    have "?L \<le> X_PROPERTY_MAX_VALUE_BYTES" using assms(1) by (simp add: property_ok_def)
    then have sum: "unat (offset + n) = unat offset + unat n"
      using False by (subst unat_add_lem [THEN iffD1]) (auto simp: X_PROPERTY_MAX_VALUE_BYTES_def)
    have "0 < fuel" using False Suc.prems by (cases fuel) auto
    then have "read_chunks fuel t namespace w p n (offset + n) = Some (drop (4 * unat (offset + n)) (xe_bytes r))"
      using False Suc.prems by (intro Suc.IH) (auto simp: sum)
    moreover have "drop (4 * unat (offset + n)) (xe_bytes r) = drop (4 * unat n) (drop (4 * unat offset) (xe_bytes r))"
      unfolding sum by (simp add: add_mult_distrib2 add.commute)
    ultimately show ?thesis using y False by (simp del: drop_drop)
  qed
qed simp

text \<open>
  Reading a property in pieces ends and returns its value: with a piece size that the table
  admits, one more round than the number of whole pieces is enough, no round fails, and the pieces
  joined in order are the bytes stored.
\<close>

theorem chunked_read_complete:
  assumes "properties_ok t" "property_get t namespace w p = Some r"
    and "n \<noteq> 0" "4 * unat n \<le> X_PROPERTY_MAX_VALUE_BYTES"
  shows "read_chunks (length (xe_bytes r) div (4 * unat n) + 1) t namespace w p n 0 = Some (xe_bytes r)"
proof -
  have "0 < 4 * unat n" using assms(3) by (simp add: unat_gt_0)
  then have "length (xe_bytes r) < (length (xe_bytes r) div (4 * unat n) + 1) * (4 * unat n)"
    by (metis Suc_eq_plus1 dividend_less_div_times mult.commute mult_Suc)
  then show ?thesis
    using read_chunks_from [OF properties_ok_get [OF assms(1,2)] assms(2), of 0 n] assms(3,4)
    by (simp del: read_chunks.simps)
qed

text \<open>A concrete run: a name is set and extended.\<close>

definition example_change :: "string \<Rightarrow> XPropertyChange" where
  "example_change s = \<lparr>xc_mode = PropAppend, xc_window = AuthorityLocalId 0x200001 1, xc_property = 39,
     xc_property_type = 31, xc_format = 8, xc_bytes = lit s\<rparr>"

definition example_properties :: XPropertyTable where
  "example_properties = foldl property_step [] [ChangeProperty 1 (example_change ''sophia'')]"

lemma example_properties_eq:
  "example_properties = [((1, AuthorityLocalId 0x200001 1, 39),
     \<lparr>xe_namespace = 1, xe_window = AuthorityLocalId 0x200001 1, xe_property = 39, xe_property_type = 31,
      xe_format = 8, xe_bytes = lit ''sophia'', xe_generation = 1\<rparr>)]"
  by (simp add: example_properties_def example_change_def apply_change_def id_is_valid_def xresource_is_valid_def
      local_id_is_valid_def validate_property_format_def X_PROPERTY_MAX_VALUE_BYTES_def X_PROPERTY_MAX_TABLE_BYTES_def
      changed_bytes_def bt_values_def usize_checked_add_def usize_max_def lit_def Let_def)

theorem property_table_typed_witness:
  "\<exists>r t'. apply_change 1 (example_change '' wm'') example_properties = Inr (r, t')
     \<and> xe_bytes r = lit ''sophia wm'' \<and> properties_ok t'"
proof -
  obtain r t' where h: "apply_change 1 (example_change '' wm'') example_properties = Inr (r, t')"
    by (simp add: example_properties_eq example_change_def apply_change_def id_is_valid_def xresource_is_valid_def
      local_id_is_valid_def validate_property_format_def X_PROPERTY_MAX_VALUE_BYTES_def X_PROPERTY_MAX_TABLE_BYTES_def
      changed_bytes_def joined_bytes_def ensure_same_property_shape_def bt_values_def usize_checked_add_def
      usize_max_def lit_def Let_def)
  from property_table_typed [OF h [unfolded example_properties_def], folded example_properties_def] h show ?thesis
    unfolding property_get_def example_properties_eq by (simp add: example_change_def lit_def)
qed

theorem chunked_read_complete_witness:
  "read_chunks 2 example_properties 1 (AuthorityLocalId 0x200001 1) 39 1 0 = Some (lit ''sophia'')"
proof -
  have ok: "properties_ok example_properties"
    by (simp add: example_properties_eq properties_ok_def property_ok_def table_bytes_def bt_values_def bt_wf_def
        id_is_valid_def xresource_is_valid_def local_id_is_valid_def X_PROPERTY_MAX_VALUE_BYTES_def
        X_PROPERTY_MAX_TABLE_BYTES_def lit_def)
  show ?thesis
    using chunked_read_complete [OF ok, of 1 "AuthorityLocalId 0x200001 1" 39 _ 1]
    by (simp add: property_get_def example_properties_eq X_PROPERTY_MAX_VALUE_BYTES_def lit_def numeral_2_eq_2
        del: read_chunks.simps)
qed

end
