(* ===== verification/X_Software.thy ===== *)
theory X_Software
  imports X_Resources Ipc_Cursor
begin

text \<open>
  The software drawing surfaces of the X authority (\<^verbatim>\<open>sophia-x-authority/src/software.rs\<close>): one XRGB
  buffer per drawable, changed by filling, text, image upload, lines and copies, and handed to the
  engine as an immutable snapshot under a fresh handle. A buffer is its bytes as the code keeps them;
  \<open>usize\<close> values are natural numbers, with the saturating operations written out, and \<open>i32\<close> values
  are read as integers by \<^const>\<open>sint\<close>. \<open>get\<close> on a byte range that is not inside the buffer is \<^const>\<open>None\<close>.
\<close>

section \<open>Numbers and byte ranges\<close>

definition usize_sat :: "nat \<Rightarrow> nat" where
  "usize_sat n = min n (2 ^ 64 - 1)"

definition i32_of_usize :: "nat \<Rightarrow> i32" where
  "i32_of_usize n = (if n < 2 ^ 31 then word_of_nat n else 0x7FFFFFFF)"

definition get_range :: "nat \<Rightarrow> nat \<Rightarrow> 'a list \<Rightarrow> 'a list option" where
  "get_range off n bytes = (if off + n \<le> length bytes then Some (take n (drop off bytes)) else None)"

definition put_range :: "nat \<Rightarrow> 'a list \<Rightarrow> 'a list \<Rightarrow> 'a list" where
  "put_range off bs bytes = take off bytes @ bs @ drop (off + length bs) bytes"

text \<open>The index pairs of two nested loops, in the order the code visits them.\<close>

definition grid :: "nat \<Rightarrow> nat \<Rightarrow> nat \<Rightarrow> nat \<Rightarrow> (nat \<times> nat) list" where
  "grid left upper right lower = concat (map (\<lambda>y. map (\<lambda>x. (x, y)) [left..<right]) [upper..<lower])"

section \<open>Buffers and updates\<close>

definition X_AUTHORITY_CPU_BUFFER_FORMAT_XRGB8888 :: u32 where
  "X_AUTHORITY_CPU_BUFFER_FORMAT_XRGB8888 = 0x34325258"

definition X_AUTHORITY_SOFTWARE_BUFFER_MAX_BYTES :: nat where
  "X_AUTHORITY_SOFTWARE_BUFFER_MAX_BYTES = 64 * 1024 * 1024"

record XAuthorityCpuBufferSnapshot =
  xb_handle :: u64
  xb_drawable :: XResourceId
  xb_size :: Size
  xb_stride :: u32
  xb_format :: u32
  xb_generation :: u64
  xb_bytes :: "u8 list"

record XAuthorityCpuBufferPatch =
  xk_handle :: u64
  xk_drawable :: XResourceId
  xk_size :: Size
  xk_stride :: u32
  xk_format :: u32
  xk_generation :: u64
  xk_rect :: Rect
  xk_bytes :: "u8 list"

datatype XAuthorityCpuBufferUpdate =
    CbReplace XAuthorityCpuBufferSnapshot
  | CbPatch XAuthorityCpuBufferPatch

fun update_handle :: "XAuthorityCpuBufferUpdate \<Rightarrow> u64" where
  "update_handle (CbReplace b) = xb_handle b"
| "update_handle (CbPatch p) = xk_handle p"

fun update_generation :: "XAuthorityCpuBufferUpdate \<Rightarrow> u64" where
  "update_generation (CbReplace b) = xb_generation b"
| "update_generation (CbPatch p) = xk_generation p"

definition clipped_bounds :: "Size \<Rightarrow> Rect \<Rightarrow> (nat \<times> nat \<times> nat \<times> nat) option" where
  "clipped_bounds extent rect =
     (let w = sint (sz_width extent); h = sint (sz_height extent) in
      if w \<le> 0 \<or> h \<le> 0 \<or> sint (rc_width rect) \<le> 0 \<or> sint (rc_height rect) \<le> 0 then None
      else
        let left = min (max (sint (rc_x rect)) 0) w;
            upper = min (max (sint (rc_y rect)) 0) h;
            right = min (max (i32_clamp (sint (rc_x rect) + sint (rc_width rect))) 0) w;
            lower = min (max (i32_clamp (sint (rc_y rect) + sint (rc_height rect))) 0) h in
        if right \<le> left \<or> lower \<le> upper then None
        else Some (nat left, nat upper, nat right, nat lower))"

definition union_step :: "int \<times> int \<times> int \<times> int \<Rightarrow> Rect \<Rightarrow> int \<times> int \<times> int \<times> int" where
  "union_step b rect = (case b of (left, upper, right, lower) \<Rightarrow>
     (min left (sint (rc_x rect)), min upper (sint (rc_y rect)),
      max right (i32_clamp (sint (rc_x rect) + sint (rc_width rect))),
      max lower (i32_clamp (sint (rc_y rect) + sint (rc_height rect)))))"

definition rect_of_ints :: "int \<Rightarrow> int \<Rightarrow> int \<Rightarrow> int \<Rightarrow> Rect" where
  "rect_of_ints x y w h =
     \<lparr>rc_x = word_of_int x, rc_y = word_of_int y, rc_width = word_of_int w, rc_height = word_of_int h\<rparr>"

definition union_rects :: "Rect list \<Rightarrow> Rect option" where
  "union_rects rectangles =
     (case rectangles of
        [] \<Rightarrow> None
      | first # rest \<Rightarrow>
          (case foldl union_step
             (sint (rc_x first), sint (rc_y first), i32_clamp (sint (rc_x first) + sint (rc_width first)),
              i32_clamp (sint (rc_y first) + sint (rc_height first))) rest of
             (left, upper, right, lower) \<Rightarrow>
               Some (rect_of_ints left upper (i32_clamp (right - left)) (i32_clamp (lower - upper)))))"

definition pixel_in_clip :: "nat \<Rightarrow> nat \<Rightarrow> XGraphicsContextValues \<Rightarrow> bool" where
  "pixel_in_clip x y gc =
     (gv_clip_rectangles gc = [] \<or>
      (let px = sint (i32_of_usize x); py = sint (i32_of_usize y) in
       list_ex (\<lambda>rect.
         let left = i32_clamp (sint (rc_x rect) + sint (gv_clip_x_origin gc));
             upper = i32_clamp (sint (rc_y rect) + sint (gv_clip_y_origin gc)) in
         left \<le> px \<and> upper \<le> py \<and> px < i32_clamp (left + sint (rc_width rect))
         \<and> py < i32_clamp (upper + sint (rc_height rect)))
       (gv_clip_rectangles gc)))"

definition raster_result :: "u8 \<Rightarrow> u32 \<Rightarrow> u32 \<Rightarrow> u32" where
  "raster_result f s d =
     (if f = 0 then 0 else if f = 1 then s AND d else if f = 2 then s AND NOT d else if f = 3 then s
      else if f = 4 then NOT s AND d else if f = 5 then d else if f = 6 then s XOR d else if f = 7 then s OR d
      else if f = 8 then NOT (s OR d) else if f = 9 then NOT (s XOR d) else if f = 10 then NOT d
      else if f = 11 then s OR NOT d else if f = 12 then NOT s else if f = 13 then NOT s OR d
      else if f = 14 then NOT (s AND d) else if f = 15 then word_max else s)"

definition apply_raster_function :: "u32 \<Rightarrow> u32 \<Rightarrow> XGraphicsContextValues \<Rightarrow> u32" where
  "apply_raster_function source destination gc =
     (let s = source AND 0x00FFFFFF; d = destination AND 0x00FFFFFF;
          result = raster_result (gv_function gc) s d AND 0x00FFFFFF;
          planes = gv_plane_mask gc AND 0x00FFFFFF in
      ((result AND planes) OR (d AND NOT planes)) AND 0x00FFFFFF)"

definition pixel_offset :: "u32 \<Rightarrow> nat \<Rightarrow> nat \<Rightarrow> nat" where
  "pixel_offset stride x y = usize_sat (usize_sat (y * unat stride) + usize_sat (x * 4))"

text \<open>The body shared by the two pixel writers: the four bytes at an offset, if they are there, take the raster result.\<close>

definition blend_at :: "nat \<Rightarrow> u32 \<Rightarrow> XGraphicsContextValues \<Rightarrow> u8 list \<Rightarrow> u8 list" where
  "blend_at off pixel gc bytes =
     (case get_range off 4 bytes of
        None \<Rightarrow> bytes
      | Some target \<Rightarrow> put_range off (push_u32 (apply_raster_function pixel (word_of_nat (le_nat target)) gc)) bytes)"

definition fill_rect ::
  "XAuthorityCpuBufferSnapshot \<Rightarrow> Rect \<Rightarrow> u32 \<Rightarrow> XGraphicsContextValues \<Rightarrow> XAuthorityCpuBufferSnapshot" where
  "fill_rect buffer rect pixel gc =
     (case clipped_bounds (xb_size buffer) rect of
        None \<Rightarrow> buffer
      | Some (left, upper, right, lower) \<Rightarrow>
          buffer\<lparr>xb_bytes := foldl (\<lambda>bytes (x, y).
              if pixel_in_clip x y gc then blend_at (pixel_offset (xb_stride buffer) x y) pixel gc bytes else bytes)
            (xb_bytes buffer) (grid left upper right lower)\<rparr>)"

definition set_pixel ::
  "XAuthorityCpuBufferSnapshot \<Rightarrow> int \<Rightarrow> int \<Rightarrow> u32 \<Rightarrow> XGraphicsContextValues \<Rightarrow> XAuthorityCpuBufferSnapshot" where
  "set_pixel buffer x y pixel gc =
     (if x < 0 \<or> y < 0 \<or> sint (sz_width (xb_size buffer)) \<le> x \<or> sint (sz_height (xb_size buffer)) \<le> y then buffer
      else if \<not> pixel_in_clip (nat x) (nat y) gc then buffer
      else buffer\<lparr>xb_bytes := blend_at (pixel_offset (xb_stride buffer) (nat x) (nat y)) pixel gc (xb_bytes buffer)\<rparr>)"

section \<open>Lines\<close>

text \<open>
  The coordinates and the error of a line stay far inside \<open>i32\<close> (\<open>line_inv\<close> in \<^verbatim>\<open>X_Drawing\<close>), so the
  unchecked additions are those of the integers. The loop is given fuel; \<open>draw_line_ends\<close> there shows
  that the fuel of \<open>draw_line\<close> is enough, so that the second branch of its result is never taken.
\<close>

definition pen :: "int \<Rightarrow> XGraphicsContextValues \<Rightarrow> int \<Rightarrow> int \<Rightarrow> XAuthorityCpuBufferSnapshot \<Rightarrow> XAuthorityCpuBufferSnapshot" where
  "pen width gc x y buffer =
     fill_rect buffer (rect_of_ints (i32_clamp (x - width div 2)) (i32_clamp (y - width div 2)) width width)
       (gv_foreground gc) gc"

fun line_loop ::
  "nat \<Rightarrow> int \<Rightarrow> int \<Rightarrow> int \<Rightarrow> int \<Rightarrow> int \<Rightarrow> int \<Rightarrow> int \<Rightarrow> XGraphicsContextValues \<Rightarrow> int \<Rightarrow> int \<Rightarrow> int
     \<Rightarrow> XAuthorityCpuBufferSnapshot \<Rightarrow> XAuthorityCpuBufferSnapshot option" where
  "line_loop 0 target_x target_y dx dy sx sy width gc x y err buffer = None"
| "line_loop (Suc fuel) target_x target_y dx dy sx sy width gc x y err buffer =
     (let painted = pen width gc x y buffer in
      if x = target_x \<and> y = target_y then Some painted
      else
        let doubled = i32_clamp (err * 2);
            (err1, x1) = (if dy \<le> doubled then (err + dy, x + sx) else (err, x));
            (err2, y1) = (if doubled \<le> dx then (err1 + dx, y + sy) else (err1, y)) in
        line_loop fuel target_x target_y dx dy sx sy width gc x1 y1 err2 painted)"

definition draw_line ::
  "XAuthorityCpuBufferSnapshot \<Rightarrow> XPoint \<Rightarrow> XPoint \<Rightarrow> int \<Rightarrow> XGraphicsContextValues \<Rightarrow> XAuthorityCpuBufferSnapshot" where
  "draw_line buffer from to width gc =
     (let x = sint (xp_x from); y = sint (xp_y from); target_x = sint (xp_x to); target_y = sint (xp_y to);
          dx = \<bar>target_x - x\<bar>; sx = (if x < target_x then 1 else -1);
          dy = - \<bar>target_y - y\<bar>; sy = (if y < target_y then 1 else -1) in
      case line_loop (nat (dx - dy) + 1) target_x target_y dx dy sx sy width gc x y (dx + dy) buffer of
        Some painted \<Rightarrow> painted
      | None \<Rightarrow> buffer)"

definition line_pen_width :: "u16 \<Rightarrow> int" where
  "line_pen_width line_width = max (int (unat line_width)) 1"

definition point_bounds :: "XPoint list \<Rightarrow> u16 \<Rightarrow> Rect option" where
  "point_bounds points line_width =
     (case points of
        [] \<Rightarrow> None
      | first # rest \<Rightarrow>
          let xs = map (\<lambda>p. sint (xp_x p)) rest; ys = map (\<lambda>p. sint (xp_y p)) rest;
              left = fold min xs (sint (xp_x first)); upper = fold min ys (sint (xp_y first));
              right = fold max xs (sint (xp_x first)); lower = fold max ys (sint (xp_y first));
              width = line_pen_width line_width; half = width div 2 in
          Some (rect_of_ints (i32_clamp (left - half)) (i32_clamp (upper - half))
            (i32_clamp (i32_clamp (right - left) + width)) (i32_clamp (i32_clamp (lower - upper) + width))))"

section \<open>Images, text and patches\<close>

definition copy_row ::
  "XAuthorityCpuBufferSnapshot \<Rightarrow> Rect \<Rightarrow> u8 list \<Rightarrow> nat \<Rightarrow> nat \<Rightarrow> nat \<Rightarrow> nat \<Rightarrow> u8 list \<Rightarrow> u8 list" where
  "copy_row buffer rect data source_stride left right y bytes =
     (let source_y = y - nat (max (sint (rc_y rect)) 0);
          source_x = left - nat (max (sint (rc_x rect)) 0);
          width = right - left;
          source_offset = usize_sat (usize_sat (source_y * source_stride) + usize_sat (source_x * 4));
          target_offset = pixel_offset (xb_stride buffer) left y;
          byte_len = usize_sat (width * 4) in
      case get_range source_offset byte_len data of
        None \<Rightarrow> bytes
      | Some source \<Rightarrow>
          (case get_range target_offset byte_len bytes of
             None \<Rightarrow> bytes
           | Some target \<Rightarrow> put_range target_offset source bytes))"

definition copy_xrgb8888 ::
  "XAuthorityCpuBufferSnapshot \<Rightarrow> Rect \<Rightarrow> u8 list \<Rightarrow> XAuthorityCpuBufferSnapshot" where
  "copy_xrgb8888 buffer rect data =
     (case clipped_bounds (xb_size buffer) rect of
        None \<Rightarrow> buffer
      | Some (left, upper, right, lower) \<Rightarrow>
          let source_stride = nat (max (sint (rc_width rect)) 0) * 4;
              source_height = nat (max (sint (rc_height rect)) 0) in
          if length data < usize_sat (source_stride * source_height) then buffer
          else buffer\<lparr>xb_bytes :=
            foldl (\<lambda>bytes y. copy_row buffer rect data source_stride left right y bytes) (xb_bytes buffer) [upper..<lower]\<rparr>)"

definition X_FIXED_GLYPHS :: "(u8 \<times> u8 list) list" where
  "X_FIXED_GLYPHS =
    [(32, [0, 0, 0, 0, 0, 0, 0]), (65, [14, 17, 17, 31, 17, 17, 17]), (66, [30, 17, 17, 30, 17, 17, 30]),
     (67, [14, 17, 16, 16, 16, 17, 14]), (68, [30, 17, 17, 17, 17, 17, 30]),
     (69, [31, 16, 16, 30, 16, 16, 31]), (70, [31, 16, 16, 30, 16, 16, 16]),
     (71, [14, 17, 16, 23, 17, 17, 15]), (72, [17, 17, 17, 31, 17, 17, 17]), (73, [14, 4, 4, 4, 4, 4, 14]),
     (74, [7, 2, 2, 2, 18, 18, 12]), (75, [17, 18, 20, 24, 20, 18, 17]), (76, [16, 16, 16, 16, 16, 16, 31]),
     (77, [17, 27, 21, 21, 17, 17, 17]), (78, [17, 25, 21, 19, 17, 17, 17]),
     (79, [14, 17, 17, 17, 17, 17, 14]), (80, [30, 17, 17, 30, 16, 16, 16]),
     (81, [14, 17, 17, 17, 21, 18, 13]), (82, [30, 17, 17, 30, 20, 18, 17]),
     (83, [15, 16, 16, 14, 1, 1, 30]), (84, [31, 4, 4, 4, 4, 4, 4]), (85, [17, 17, 17, 17, 17, 17, 14]),
     (86, [17, 17, 17, 17, 17, 10, 4]), (87, [17, 17, 17, 21, 21, 21, 10]),
     (88, [17, 17, 10, 4, 10, 17, 17]), (89, [17, 17, 10, 4, 4, 4, 4]), (90, [31, 1, 2, 4, 8, 16, 31]),
     (48, [14, 17, 19, 21, 25, 17, 14]), (49, [4, 12, 4, 4, 4, 4, 14]), (50, [14, 17, 1, 2, 4, 8, 31]),
     (51, [30, 1, 1, 14, 1, 1, 30]), (52, [2, 6, 10, 18, 31, 2, 2]), (53, [31, 16, 16, 30, 1, 1, 30]),
     (54, [14, 16, 16, 30, 17, 17, 14]), (55, [31, 1, 2, 4, 8, 8, 8]), (56, [14, 17, 17, 14, 17, 17, 14]),
     (57, [14, 17, 17, 15, 1, 1, 14]), (45, [0, 0, 0, 31, 0, 0, 0]), (95, [0, 0, 0, 0, 0, 0, 31]),
     (46, [0, 0, 0, 0, 0, 12, 12]), (58, [0, 12, 12, 0, 12, 12, 0]), (47, [1, 2, 2, 4, 8, 8, 16]),
     (61, [0, 31, 0, 31, 0, 0, 0]), (33, [4, 4, 4, 4, 4, 0, 4]), (34, [10, 10, 10, 0, 0, 0, 0]),
     (35, [10, 31, 10, 10, 31, 10, 0]), (36, [4, 15, 20, 14, 5, 30, 4]), (37, [24, 25, 2, 4, 8, 19, 3]),
     (38, [12, 18, 20, 8, 21, 18, 13]), (39, [4, 4, 8, 0, 0, 0, 0]), (40, [2, 4, 8, 8, 8, 4, 2]),
     (41, [8, 4, 2, 2, 2, 4, 8]), (42, [0, 21, 14, 31, 14, 21, 0]), (43, [0, 4, 4, 31, 4, 4, 0]),
     (44, [0, 0, 0, 0, 4, 4, 8]), (59, [0, 4, 4, 0, 4, 4, 8]), (60, [2, 4, 8, 16, 8, 4, 2]),
     (62, [8, 4, 2, 1, 2, 4, 8]), (63, [14, 17, 1, 2, 4, 0, 4]), (64, [14, 17, 23, 21, 23, 16, 14]),
     (91, [14, 8, 8, 8, 8, 8, 14]), (92, [16, 8, 8, 4, 2, 2, 1]), (93, [14, 2, 2, 2, 2, 2, 14]),
     (94, [4, 10, 17, 0, 0, 0, 0]), (96, [8, 4, 2, 0, 0, 0, 0]), (123, [3, 4, 4, 8, 4, 4, 3]),
     (124, [4, 4, 4, 4, 4, 4, 4]), (125, [24, 4, 4, 2, 4, 4, 24]), (126, [0, 0, 9, 22, 0, 0, 0])]"

definition to_ascii_uppercase :: "u8 \<Rightarrow> u8" where
  "to_ascii_uppercase b = (if 97 \<le> b \<and> b \<le> 122 then b - 32 else b)"

definition x_fixed_glyph_rows :: "u8 \<Rightarrow> u8 list" where
  "x_fixed_glyph_rows byte =
     (case map_of X_FIXED_GLYPHS (to_ascii_uppercase byte) of
        Some rows \<Rightarrow> rows
      | None \<Rightarrow> [31, 17, 1, 2, 4, 0, 4])"

definition draw_fixed_glyph ::
  "XAuthorityCpuBufferSnapshot \<Rightarrow> i32 \<Rightarrow> i32 \<Rightarrow> u8 \<Rightarrow> u32 \<Rightarrow> XGraphicsContextValues \<Rightarrow> XAuthorityCpuBufferSnapshot" where
  "draw_fixed_glyph buffer cell_x cell_y byte pixel gc =
     foldl (\<lambda>b (column, row).
         if bit (x_fixed_glyph_rows byte ! row) (4 - column)
         then fill_rect b \<lparr>rc_x = i32_sat_add cell_x (word_of_nat (column + 1)),
                          rc_y = i32_sat_add cell_y (word_of_nat (row + 2)), rc_width = 1, rc_height = 1\<rparr> pixel gc
         else b)
       buffer (grid 0 0 5 7)"

definition text_cell ::
  "i32 \<Rightarrow> i32 \<Rightarrow> bool \<Rightarrow> XGraphicsContextValues \<Rightarrow> XAuthorityCpuBufferSnapshot \<Rightarrow> nat \<times> u8 \<Rightarrow> XAuthorityCpuBufferSnapshot" where
  "text_cell x upper opaque gc b cell =
     (case cell of (index, byte) \<Rightarrow>
      let cell_x = i32_sat_add x (i32_of_usize (usize_sat (index * 8)));
          b1 = (if opaque then fill_rect b \<lparr>rc_x = cell_x, rc_y = upper, rc_width = 8, rc_height = 12\<rparr> (gv_background gc) gc
                else b) in
      draw_fixed_glyph b1 cell_x upper byte (gv_foreground gc) gc)"

fun patch_rows :: "u8 list \<Rightarrow> nat \<Rightarrow> nat \<Rightarrow> nat list \<Rightarrow> u8 list option" where
  "patch_rows bytes first row_bytes [] = Some []"
| "patch_rows bytes first row_bytes (off # offs) =
     (case get_range (off + first) row_bytes bytes of
        None \<Rightarrow> None
      | Some row \<Rightarrow> map_option (\<lambda>rows. row @ rows) (patch_rows bytes first row_bytes offs))"

text \<open>The checked products and sums of \<open>packed_patch\<close> stay below \<open>2 ^ 64\<close>: a row index is below \<open>2 ^ 31\<close>, a stride below \<open>2 ^ 32\<close>.\<close>

definition packed_patch :: "XAuthorityCpuBufferSnapshot \<Rightarrow> Rect \<Rightarrow> XAuthorityCpuBufferPatch option" where
  "packed_patch buffer rect =
     (case clipped_bounds (xb_size buffer) rect of
        None \<Rightarrow> None
      | Some (left, upper, right, lower) \<Rightarrow>
          let width = right - left; height = lower - upper; row_bytes = width * 4 in
          map_option (\<lambda>bytes.
            \<lparr>xk_handle = xb_handle buffer, xk_drawable = xb_drawable buffer, xk_size = xb_size buffer,
             xk_stride = xb_stride buffer, xk_format = xb_format buffer, xk_generation = xb_generation buffer,
             xk_rect = \<lparr>rc_x = word_of_nat left, rc_y = word_of_nat upper, rc_width = word_of_nat width,
                        rc_height = word_of_nat height\<rparr>,
             xk_bytes = bytes\<rparr>)
          (patch_rows (xb_bytes buffer) (left * 4) row_bytes (map (\<lambda>y. y * unat (xb_stride buffer)) [upper..<lower])))"

fun patch_into ::
  "u8 list \<Rightarrow> nat \<Rightarrow> u32 \<Rightarrow> nat \<Rightarrow> (nat \<times> nat) list \<Rightarrow> u8 list \<Rightarrow> (string + unit) \<times> u8 list" where
  "patch_into source_bytes row_bytes stride left [] bytes = (Inr (), bytes)"
| "patch_into source_bytes row_bytes stride left ((row, y) # rows) bytes =
     (case get_range (usize_sat (row * row_bytes)) row_bytes source_bytes of
        None \<Rightarrow> (Inl ''CPU buffer patch source row is invalid'', bytes)
      | Some source \<Rightarrow>
          (case get_range (pixel_offset stride left y) row_bytes bytes of
             None \<Rightarrow> (Inl ''CPU buffer patch target row is invalid'', bytes)
           | Some target \<Rightarrow>
               patch_into source_bytes row_bytes stride left rows (put_range (pixel_offset stride left y) source bytes)))"

definition apply_packed_patch ::
  "XAuthorityCpuBufferPatch \<Rightarrow> XAuthorityCpuBufferSnapshot \<Rightarrow> (string + unit) \<times> XAuthorityCpuBufferSnapshot" where
  "apply_packed_patch patch buffer =
     (case clipped_bounds (xb_size buffer) (xk_rect patch) of
        None \<Rightarrow> (Inl ''CPU buffer patch is empty'', buffer)
      | Some (left, upper, right, lower) \<Rightarrow>
          if rc_x (xk_rect patch) \<noteq> i32_of_usize left \<or> rc_y (xk_rect patch) \<noteq> i32_of_usize upper
            \<or> rc_width (xk_rect patch) \<noteq> i32_of_usize (right - left)
            \<or> rc_height (xk_rect patch) \<noteq> i32_of_usize (lower - upper)
          then (Inl ''CPU buffer patch lies outside its buffer'', buffer)
          else
            let row_bytes = usize_sat ((right - left) * 4) in
            if length (xk_bytes patch) \<noteq> usize_sat (row_bytes * (lower - upper))
            then (Inl ''CPU buffer patch byte length is invalid'', buffer)
            else
              let (r, bytes) = patch_into (xk_bytes patch) row_bytes (xb_stride buffer) left
                    (enumerate 0 [upper..<lower]) (xb_bytes buffer) in
              (r, buffer\<lparr>xb_bytes := bytes\<rparr>))"

definition apply_to ::
  "XAuthorityCpuBufferUpdate \<Rightarrow> (u64, XAuthorityCpuBufferSnapshot) btree
     \<Rightarrow> (string + unit) \<times> (u64, XAuthorityCpuBufferSnapshot) btree" where
  "apply_to update buffers =
     (case update of
        CbReplace snapshot \<Rightarrow> (Inr (), bt_insert (xb_handle snapshot) snapshot buffers)
      | CbPatch patch \<Rightarrow>
          (case bt_get buffers (xk_handle patch) of
             None \<Rightarrow> (Inl ''CPU buffer patch has no replacement base'', buffers)
           | Some buffer \<Rightarrow>
               if xb_drawable buffer \<noteq> xk_drawable patch \<or> xb_size buffer \<noteq> xk_size patch
                 \<or> xb_stride buffer \<noteq> xk_stride patch \<or> xb_format buffer \<noteq> xk_format patch
                 \<or> xk_generation patch < xb_generation buffer
               then (Inl ''CPU buffer patch metadata does not match its base'', buffers)
               else
                 (case apply_packed_patch patch buffer of
                    (Inl e, b) \<Rightarrow> (Inl e, bt_insert (xk_handle patch) b buffers)
                  | (Inr _, b) \<Rightarrow>
                      (Inr (), bt_insert (xk_handle patch) (b\<lparr>xb_generation := xk_generation patch\<rparr>) buffers))))"

section \<open>The buffer store\<close>

record XSoftwareBufferStore =
  sb_next_handle :: u64
  sb_buffers :: "(XResourceId, XAuthorityCpuBufferSnapshot) btree"

definition store_empty :: XSoftwareBufferStore where
  "store_empty = \<lparr>sb_next_handle = 0, sb_buffers = []\<rparr>"

definition store_remove ::
  "XResourceId \<Rightarrow> XSoftwareBufferStore \<Rightarrow> XAuthorityCpuBufferSnapshot option \<times> XSoftwareBufferStore" where
  "store_remove drawable s = (bt_get (sb_buffers s) drawable, s\<lparr>sb_buffers := bt_remove drawable (sb_buffers s)\<rparr>)"

definition allocate_handle :: "XSoftwareBufferStore \<Rightarrow> u64 \<times> XSoftwareBufferStore" where
  "allocate_handle s =
     (let handle = max (sb_next_handle s) 1 in (handle, s\<lparr>sb_next_handle := max (sat_add handle 1) 1\<rparr>))"

definition fresh_buffer :: "XResourceId \<Rightarrow> Size \<Rightarrow> u64 \<Rightarrow> u64 \<Rightarrow> XAuthorityCpuBufferSnapshot" where
  "fresh_buffer drawable extent handle generation =
     (let stride = nat (sint (sz_width extent)) * 4 in
      \<lparr>xb_handle = handle, xb_drawable = drawable, xb_size = extent, xb_stride = word_of_nat stride,
       xb_format = X_AUTHORITY_CPU_BUFFER_FORMAT_XRGB8888, xb_generation = generation,
       xb_bytes = replicate (stride * nat (sint (sz_height extent))) 0\<rparr>)"

definition ensure ::
  "XResourceId \<Rightarrow> Size \<Rightarrow> u64 \<Rightarrow> XSoftwareBufferStore
     \<Rightarrow> (XAuthorityCpuBufferSnapshot \<times> bool) option \<times> XSoftwareBufferStore" where
  "ensure drawable extent handle s =
     (if sint (sz_width extent) \<le> 0 \<or> sint (sz_height extent) \<le> 0 then (None, s)
      else
        let stride = nat (sint (sz_width extent)) * 4; byte_len = stride * nat (sint (sz_height extent)) in
        if X_AUTHORITY_SOFTWARE_BUFFER_MAX_BYTES < byte_len then (None, s)
        else
          case bt_get (sb_buffers s) drawable of
            None \<Rightarrow>
              let fresh = fresh_buffer drawable extent handle 0 in
              (Some (fresh, True), s\<lparr>sb_buffers := bt_insert drawable fresh (sb_buffers s)\<rparr>)
          | Some b \<Rightarrow>
              if xb_size b \<noteq> extent then
                let fresh = fresh_buffer drawable extent handle (xb_generation b) in
                (Some (fresh, True), s\<lparr>sb_buffers := bt_insert drawable fresh (sb_buffers s)\<rparr>)
              else (Some (b, False), s))"

definition finish_immutable_update ::
  "XAuthorityCpuBufferSnapshot \<Rightarrow> u64 \<Rightarrow> bool \<Rightarrow> Rect option
     \<Rightarrow> XAuthorityCpuBufferUpdate option \<times> XAuthorityCpuBufferSnapshot" where
  "finish_immutable_update buffer handle replaced damage =
     (if \<not> replaced \<and> Option.bind damage (packed_patch buffer) = None then (None, buffer)
      else case checked_add (xb_generation buffer) 1 of
          None \<Rightarrow> (None, buffer)
        | Some g \<Rightarrow>
            let b = buffer\<lparr>xb_generation := g, xb_handle := handle\<rparr> in (Some (CbReplace b), b))"

text \<open>The frame shared by the drawing operations: a handle, the buffer, the painting through \<open>&mut\<close>, the update.\<close>

definition draw_with ::
  "XResourceId \<Rightarrow> Size \<Rightarrow> (XAuthorityCpuBufferSnapshot \<Rightarrow> XAuthorityCpuBufferSnapshot) \<Rightarrow> Rect option
     \<Rightarrow> XSoftwareBufferStore \<Rightarrow> XAuthorityCpuBufferUpdate option \<times> XSoftwareBufferStore" where
  "draw_with drawable extent paint damage s =
     (let (handle, s1) = allocate_handle s in
      case ensure drawable extent handle s1 of
        (None, s2) \<Rightarrow> (None, s2)
      | (Some (buffer, replaced), s2) \<Rightarrow>
          let (r, b) = finish_immutable_update (paint buffer) handle replaced damage in
          (r, s2\<lparr>sb_buffers := bt_insert drawable b (sb_buffers s2)\<rparr>))"

definition paint_damage ::
  "XResourceId \<Rightarrow> Size \<Rightarrow> Rect list \<Rightarrow> XGraphicsContextValues \<Rightarrow> XSoftwareBufferStore
     \<Rightarrow> XAuthorityCpuBufferUpdate option \<times> XSoftwareBufferStore" where
  "paint_damage drawable extent damage gc =
     draw_with drawable extent (\<lambda>b. foldl (\<lambda>b rect. fill_rect b rect (gv_foreground gc) gc) b damage) (union_rects damage)"

definition store_clear ::
  "XResourceId \<Rightarrow> Size \<Rightarrow> Rect \<Rightarrow> u32 \<Rightarrow> XSoftwareBufferStore
     \<Rightarrow> XAuthorityCpuBufferUpdate option \<times> XSoftwareBufferStore" where
  "store_clear drawable extent rect pixel =
     draw_with drawable extent (\<lambda>b. fill_rect b rect pixel gc_values_default) (Some rect)"

definition draw_text ::
  "XResourceId \<Rightarrow> Size \<Rightarrow> i16 \<Rightarrow> i16 \<Rightarrow> u8 list \<Rightarrow> bool \<Rightarrow> XGraphicsContextValues \<Rightarrow> XSoftwareBufferStore
     \<Rightarrow> XAuthorityCpuBufferUpdate option \<times> XSoftwareBufferStore" where
  "draw_text drawable extent x baseline chars opaque gc =
     (let upper = i32_sat_sub (scast baseline) 10 in
      draw_with drawable extent (\<lambda>b. foldl (text_cell (scast x) upper opaque gc) b (enumerate 0 chars))
        (Some \<lparr>rc_x = scast x, rc_y = upper, rc_width = i32_of_usize (usize_sat (length chars * 8)), rc_height = 12\<rparr>))"

definition put_image ::
  "XResourceId \<Rightarrow> Size \<Rightarrow> Rect \<Rightarrow> u8 list \<Rightarrow> XSoftwareBufferStore
     \<Rightarrow> XAuthorityCpuBufferUpdate option \<times> XSoftwareBufferStore" where
  "put_image drawable extent destination data =
     draw_with drawable extent (\<lambda>b. copy_xrgb8888 b destination data) (Some destination)"

definition draw_lines ::
  "XResourceId \<Rightarrow> Size \<Rightarrow> XPoint list \<Rightarrow> XGraphicsContextValues \<Rightarrow> XSoftwareBufferStore
     \<Rightarrow> XAuthorityCpuBufferUpdate option \<times> XSoftwareBufferStore" where
  "draw_lines drawable extent points gc s =
     (case point_bounds points (gv_line_width gc) of
        None \<Rightarrow> (None, s)
      | Some damage \<Rightarrow>
          draw_with drawable extent
            (\<lambda>b. foldl (\<lambda>b (from, to). draw_line b from to (line_pen_width (gv_line_width gc)) gc) b (zip points (tl points)))
            (Some damage) s)"

fun copy_pixels ::
  "XAuthorityCpuBufferSnapshot \<Rightarrow> nat \<Rightarrow> nat \<Rightarrow> i16 \<Rightarrow> i16 \<Rightarrow> XGraphicsContextValues \<Rightarrow> (nat \<times> nat) list
     \<Rightarrow> XAuthorityCpuBufferSnapshot \<Rightarrow> bool \<times> XAuthorityCpuBufferSnapshot" where
  "copy_pixels source left upper dst_x dst_y gc [] buffer = (True, buffer)"
| "copy_pixels source left upper dst_x dst_y gc ((source_x, source_y) # rest) buffer =
     (case get_range (pixel_offset (xb_stride source) source_x source_y) 4 (xb_bytes source) of
        None \<Rightarrow> (False, buffer)
      | Some bs \<Rightarrow>
          let target_x = i32_clamp (sint dst_x + sint (i32_of_usize (source_x - left)));
              target_y = i32_clamp (sint dst_y + sint (i32_of_usize (source_y - upper))) in
          copy_pixels source left upper dst_x dst_y gc rest
            (set_pixel buffer target_x target_y (word_of_nat (le_nat bs)) gc))"

definition copy_area ::
  "XResourceId \<Rightarrow> XResourceId \<Rightarrow> Size \<Rightarrow> Rect \<Rightarrow> i16 \<Rightarrow> i16 \<Rightarrow> XGraphicsContextValues \<Rightarrow> XSoftwareBufferStore
     \<Rightarrow> XAuthorityCpuBufferUpdate option \<times> XSoftwareBufferStore" where
  "copy_area source destination destination_size source_rect dst_x dst_y gc s =
     (case bt_get (sb_buffers s) source of
        None \<Rightarrow> (None, s)
      | Some src \<Rightarrow>
          let (handle, s1) = allocate_handle s in
          case ensure destination destination_size handle s1 of
            (None, s2) \<Rightarrow> (None, s2)
          | (Some (buffer, replaced), s2) \<Rightarrow>
              (case clipped_bounds (xb_size src) source_rect of
                 None \<Rightarrow> (None, s2)
               | Some (left, upper, right, lower) \<Rightarrow>
                   let (complete, painted) =
                         copy_pixels src left upper dst_x dst_y gc (grid left upper right lower) buffer;
                       (r, b) = (if complete
                         then finish_immutable_update painted handle replaced
                           (Some \<lparr>rc_x = scast dst_x, rc_y = scast dst_y, rc_width = word_of_nat (right - left),
                                 rc_height = word_of_nat (lower - upper)\<rparr>)
                         else (None, painted)) in
                   (r, s2\<lparr>sb_buffers := bt_insert destination b (sb_buffers s2)\<rparr>)))"

end
