(* ===== verification/X_Drawing.thy ===== *)
theory X_Drawing
  imports X_Software
begin

text \<open>
  Facts about the software drawing surfaces: the bytes of a buffer read as pixels, filling as a
  function of pixels, painters as an interface (a painter changes bytes only) with what every drawing
  operation does to the store, and the loop of a line as the path of points it visits.
\<close>

section \<open>Byte ranges\<close>

lemma put_range_nth:
  assumes "off + length bs \<le> length bytes" "i < length bytes"
  shows "put_range off bs bytes ! i = (if off \<le> i \<and> i < off + length bs then bs ! (i - off) else bytes ! i)"
  using assms by (auto simp: put_range_def nth_append min_def)

lemma length_put_range [simp]:
  "off + length bs \<le> length bytes \<Longrightarrow> length (put_range off bs bytes) = length bytes"
  by (simp add: put_range_def)

lemma range_of_put_same:
  "off + length bs \<le> length bytes \<Longrightarrow> take (length bs) (drop off (put_range off bs bytes)) = bs"
  by (simp add: put_range_def)

lemma range_of_put_other:
  assumes "off + length bs \<le> length bytes" "off' + n \<le> length bytes" "off' + n \<le> off \<or> off + length bs \<le> off'"
  shows "take n (drop off' (put_range off bs bytes)) = take n (drop off' bytes)"
  using assms by (auto intro!: nth_equalityI simp: put_range_nth)

lemma get_range_SomeD: "get_range off n bytes = Some bs \<Longrightarrow> length bs = n \<and> off + n \<le> length bytes"
  by (auto simp: get_range_def split: if_splits)

lemma length_blend_at [simp]: "length (blend_at off p gc bytes) = length bytes"
  by (auto simp: blend_at_def get_range_def push_u32_def split: option.split)

lemma set_grid [simp]: "set (grid left upper right lower) = {left..<right} \<times> {upper..<lower}"
  by (auto simp: grid_def)

lemma distinct_grid: "distinct (grid left upper right lower)"
proof -
  have "distinct (concat (map (\<lambda>y. map (\<lambda>x. (x, y)) [left..<right]) ys))" if "distinct ys" for ys :: "nat list"
    using that by (induction ys) (auto simp: distinct_map inj_on_def)
  then show ?thesis by (simp add: grid_def)
qed

section \<open>Pixels\<close>

abbreviation buffer_width :: "XAuthorityCpuBufferSnapshot \<Rightarrow> nat" where
  "buffer_width b \<equiv> nat (sint (sz_width (xb_size b)))"

abbreviation buffer_height :: "XAuthorityCpuBufferSnapshot \<Rightarrow> nat" where
  "buffer_height b \<equiv> nat (sint (sz_height (xb_size b)))"

definition buffer_ok :: "XAuthorityCpuBufferSnapshot \<Rightarrow> bool" where
  "buffer_ok b \<longleftrightarrow>
     0 < sint (sz_width (xb_size b)) \<and> 0 < sint (sz_height (xb_size b))
     \<and> unat (xb_stride b) = buffer_width b * 4 \<and> length (xb_bytes b) = buffer_width b * 4 * buffer_height b
     \<and> length (xb_bytes b) \<le> X_AUTHORITY_SOFTWARE_BUFFER_MAX_BYTES
     \<and> xb_format b = X_AUTHORITY_CPU_BUFFER_FORMAT_XRGB8888"

definition pixel_at :: "XAuthorityCpuBufferSnapshot \<Rightarrow> nat \<Rightarrow> nat \<Rightarrow> u32" where
  "pixel_at b x y = word_of_nat (le_nat (take 4 (drop (pixel_offset (xb_stride b) x y) (xb_bytes b))))"

lemma slot_inside: "x < w \<Longrightarrow> y < h \<Longrightarrow> 4 * (y * w + x) + 4 \<le> w * 4 * (h :: nat)"
proof -
  assume "x < w" "y < h"
  then have "y * w + x + 1 \<le> (y + 1) * w" "(y + 1) * w \<le> h * w"
    using mult_le_mono1 [of "y + 1" h w] by simp_all
  then show ?thesis by (simp add: algebra_simps)
qed

lemma slot_inject: "x < w \<Longrightarrow> x' < w \<Longrightarrow> y * w + x = y' * w + x' \<Longrightarrow> x = x' \<and> y = (y' :: nat)"
  by (metis add.commute add_cancel_right_left div_less div_mult_self3 mod_less mod_mult_self3 less_nat_zero_code)

lemma pixel_offset_eq:
  assumes "buffer_ok b" "x < buffer_width b" "y < buffer_height b"
  shows "pixel_offset (xb_stride b) x y = 4 * (y * buffer_width b + x)"
    and "pixel_offset (xb_stride b) x y + 4 \<le> length (xb_bytes b)"
proof -
  have s: "4 * (y * buffer_width b + x) + 4 \<le> length (xb_bytes b)"
    using assms slot_inside [of x "buffer_width b" y "buffer_height b"] by (simp add: buffer_ok_def)
  have "length (xb_bytes b) \<le> 67108864"
    using assms(1) unfolding buffer_ok_def X_AUTHORITY_SOFTWARE_BUFFER_MAX_BYTES_def by linarith
  then have "y * (buffer_width b * 4) + x * 4 \<le> 67108864" using s by (simp add: algebra_simps)
  moreover have "unat (xb_stride b) = buffer_width b * 4" using assms(1) by (simp add: buffer_ok_def)
  ultimately show e: "pixel_offset (xb_stride b) x y = 4 * (y * buffer_width b + x)"
    by (simp add: pixel_offset_def usize_sat_def)
  show "pixel_offset (xb_stride b) x y + 4 \<le> length (xb_bytes b)" using s e by simp
qed

lemma pixel_at_blend:
  assumes ok: "buffer_ok b" and p: "x < buffer_width b" "y < buffer_height b"
    and q: "x' < buffer_width b" "y' < buffer_height b"
  shows "pixel_at (b\<lparr>xb_bytes := blend_at (pixel_offset (xb_stride b) x y) pixel gc (xb_bytes b)\<rparr>) x' y'
    = (if x' = x \<and> y' = y then apply_raster_function pixel (pixel_at b x y) gc else pixel_at b x' y')"
proof -
  let ?o = "pixel_offset (xb_stride b) x y" and ?o' = "pixel_offset (xb_stride b) x' y'"
  let ?v = "apply_raster_function pixel (pixel_at b x y) gc"
  have l: "length (push_u32 ?v) = 4" by (simp add: push_u32_def)
  have o: "?o + length (push_u32 ?v) \<le> length (xb_bytes b)" using pixel_offset_eq(2) [OF ok p] l by simp
  have e: "blend_at ?o pixel gc (xb_bytes b) = put_range ?o (push_u32 ?v) (xb_bytes b)"
    using o l by (simp add: blend_at_def get_range_def pixel_at_def)
  show ?thesis
  proof (cases "x' = x \<and> y' = y")
    case True
    have "word_of_nat (le_nat (push_u32 ?v)) = ?v"
      unfolding push_u32_def by (rule word_le_roundtrip) simp
    then show ?thesis using True range_of_put_same [OF o] l by (simp add: pixel_at_def e)
  next
    case False
    then have "y * buffer_width b + x \<noteq> y' * buffer_width b + x'" using slot_inject p(1) q(1) by blast
    then have "?o' + 4 \<le> ?o \<or> ?o + length (push_u32 ?v) \<le> ?o'"
      unfolding pixel_offset_eq(1) [OF ok p] pixel_offset_eq(1) [OF ok q] l by presburger
    then show ?thesis
      using False range_of_put_other [OF o pixel_offset_eq(2) [OF ok q]] by (auto simp: pixel_at_def e)
  qed
qed

section \<open>Filling\<close>

definition covers :: "Rect \<Rightarrow> nat \<Rightarrow> nat \<Rightarrow> bool" where
  "covers r x y \<longleftrightarrow>
     sint (rc_x r) \<le> int x \<and> int x < sint (rc_x r) + sint (rc_width r)
     \<and> sint (rc_y r) \<le> int y \<and> int y < sint (rc_y r) + sint (rc_height r)"

text \<open>One side of the clipping: inside a range that starts at zero and ends inside \<open>i32\<close>, saturation is exact.\<close>

lemma clip_side:
  assumes "0 < e" "e \<le> 2147483647" "int x < e"
  shows "nat (min (max a 0) e) \<le> x \<longleftrightarrow> a \<le> int x"
    and "x < nat (min (max (i32_clamp c) 0) e) \<longleftrightarrow> int x < c"
  using assms by (auto simp: i32_clamp_def)

lemma clipped_bounds_eq:
  fixes rect e
  defines "l \<equiv> nat (min (max (sint (rc_x rect)) 0) (sint (sz_width e)))"
  defines "r \<equiv> nat (min (max (i32_clamp (sint (rc_x rect) + sint (rc_width rect))) 0) (sint (sz_width e)))"
  defines "u \<equiv> nat (min (max (sint (rc_y rect)) 0) (sint (sz_height e)))"
  defines "b \<equiv> nat (min (max (i32_clamp (sint (rc_y rect) + sint (rc_height rect))) 0) (sint (sz_height e)))"
  shows "clipped_bounds e rect
    = (if sint (sz_width e) \<le> 0 \<or> sint (sz_height e) \<le> 0 \<or> sint (rc_width rect) \<le> 0 \<or> sint (rc_height rect) \<le> 0
       then None else if r \<le> l \<or> b \<le> u then None else Some (l, u, r, b))"
proof (cases "sint (sz_width e) \<le> 0 \<or> sint (sz_height e) \<le> 0 \<or> sint (rc_width rect) \<le> 0 \<or> sint (rc_height rect) \<le> 0")
  case True
  then show ?thesis unfolding clipped_bounds_def Let_def by (simp only: if_True)
next
  case False
  have n: "nat c \<le> nat (min (max a 0) w) \<longleftrightarrow> c \<le> min (max a 0) w" if "\<not> w \<le> 0" for a c w :: int
    using that by (intro nat_le_eq_zle) simp
  have "\<not> sint (sz_width e) \<le> 0" "\<not> sint (sz_height e) \<le> 0" using False by simp_all
  then show ?thesis
    using False unfolding clipped_bounds_def Let_def l_def r_def u_def b_def by (simp only: n simp_thms if_False)
qed

lemma clipped_bounds_covers:
  assumes "0 < sint (sz_width e)" "0 < sint (sz_height e)"
    and "int x < sint (sz_width e)" "int y < sint (sz_height e)"
  shows "(\<exists>l u r b. clipped_bounds e rect = Some (l, u, r, b) \<and> x \<in> {l..<r} \<and> y \<in> {u..<b}) \<longleftrightarrow> covers rect x y"
proof -
  have m: "sint (sz_width e) \<le> 2147483647" "sint (sz_height e) \<le> 2147483647" by (simp_all add: sint_i32_bounds)
  note side = clip_side [OF assms(1) m(1) assms(3)] clip_side [OF assms(2) m(2) assms(4)]
  have pos: "\<not> (sint (sz_width e) \<le> 0 \<or> sint (sz_height e) \<le> 0 \<or> sint (rc_width rect) \<le> 0 \<or> sint (rc_height rect) \<le> 0)"
    if "covers rect x y" using that assms(1,2) by (auto simp: covers_def)
  define l r u b where "l = nat (min (max (sint (rc_x rect)) 0) (sint (sz_width e)))"
    and "r = nat (min (max (i32_clamp (sint (rc_x rect) + sint (rc_width rect))) 0) (sint (sz_width e)))"
    and "u = nat (min (max (sint (rc_y rect)) 0) (sint (sz_height e)))"
    and "b = nat (min (max (i32_clamp (sint (rc_y rect) + sint (rc_height rect))) 0) (sint (sz_height e)))"
  note eq = clipped_bounds_eq [of e rect, folded l_def r_def u_def b_def]
  have c: "covers rect x y \<longleftrightarrow> l \<le> x \<and> x < r \<and> u \<le> y \<and> y < b"
    unfolding covers_def l_def r_def u_def b_def side by (rule refl)
  show ?thesis
  proof (cases "covers rect x y")
    case True
    then have "clipped_bounds e rect = Some (l, u, r, b)" using pos c by (simp only: eq) auto
    then show ?thesis using True c by auto
  next
    case False
    then show ?thesis using c by (auto simp only: eq split: if_splits) auto
  qed
qed

lemma clipped_bounds_inside:
  assumes "clipped_bounds e rect = Some (l, u, r, b)"
  shows "l < r" "u < b" "int r \<le> sint (sz_width e)" "int b \<le> sint (sz_height e)"
proof -
  have "int (nat (min a w)) \<le> w" if "\<not> w \<le> 0" for a w :: int using that by simp
  then show "l < r" "u < b" "int r \<le> sint (sz_width e)" "int b \<le> sint (sz_height e)"
    using assms unfolding clipped_bounds_eq
    by (auto simp only: option.inject prod.inject option.distinct de_Morgan_disj not_le split: if_splits)
qed

text \<open>Changing bytes only, and as many as before.\<close>

definition same_frame :: "XAuthorityCpuBufferSnapshot \<Rightarrow> XAuthorityCpuBufferSnapshot \<Rightarrow> bool" where
  "same_frame b b' \<longleftrightarrow>
     xb_size b' = xb_size b \<and> xb_stride b' = xb_stride b \<and> xb_handle b' = xb_handle b
     \<and> xb_drawable b' = xb_drawable b \<and> xb_generation b' = xb_generation b \<and> xb_format b' = xb_format b
     \<and> length (xb_bytes b') = length (xb_bytes b)"

lemma same_frame_refl [simp]: "same_frame b b"
  by (simp add: same_frame_def)

lemma same_frame_trans: "same_frame a b \<Longrightarrow> same_frame b c \<Longrightarrow> same_frame a c"
  by (simp add: same_frame_def)

lemma same_frame_bytes: "length bytes = length (xb_bytes b) \<Longrightarrow> same_frame b (b\<lparr>xb_bytes := bytes\<rparr>)"
  by (simp add: same_frame_def)

lemma same_frame_ok: "same_frame b b' \<Longrightarrow> buffer_ok b \<Longrightarrow> buffer_ok b'"
  by (simp add: same_frame_def buffer_ok_def)

lemma same_frame_foldl:
  assumes "\<And>b x. same_frame b (f b x)"
  shows "same_frame b (foldl f b xs)"
proof (induction xs arbitrary: b)
  case (Cons x xs)
  then show ?case using assms same_frame_trans by (metis foldl_Cons)
qed simp

text \<open>A loop over distinct pixels of a buffer changes each of them once, where the clip admits it.\<close>

lemma pixel_at_points:
  assumes "buffer_ok b" "distinct ps" "\<forall>(x, y)\<in>set ps. x < buffer_width b \<and> y < buffer_height b"
    and "x < buffer_width b" "y < buffer_height b"
  shows "pixel_at (b\<lparr>xb_bytes := foldl (\<lambda>bytes (x, y).
        if pixel_in_clip x y gc then blend_at (pixel_offset (xb_stride b) x y) pixel gc bytes else bytes)
      (xb_bytes b) ps\<rparr>) x y
    = (if (x, y) \<in> set ps \<and> pixel_in_clip x y gc then apply_raster_function pixel (pixel_at b x y) gc else pixel_at b x y)"
  using assms
proof (induction ps arbitrary: b)
  case (Cons p ps)
  obtain px py where p: "p = (px, py)" by force
  define f where "f = (\<lambda>bytes (x, y).
    if pixel_in_clip x y gc then blend_at (pixel_offset (xb_stride b) x y) pixel gc bytes else bytes)"
  define b1 where "b1 = b\<lparr>xb_bytes := f (xb_bytes b) p\<rparr>"
  have sf: "same_frame b b1" by (simp add: b1_def f_def p same_frame_bytes)
  have sz: "xb_size b1 = xb_size b" "xb_stride b1 = xb_stride b" "xb_bytes b1 = f (xb_bytes b) p"
    by (simp_all add: b1_def)
  have one: "pixel_at b1 x y
      = (if (x, y) = p \<and> pixel_in_clip x y gc then apply_raster_function pixel (pixel_at b x y) gc else pixel_at b x y)"
    using Cons.prems by (auto simp: b1_def f_def p pixel_at_blend)
  have "pixel_at (b1\<lparr>xb_bytes := foldl f (xb_bytes b1) ps\<rparr>) x y
    = (if (x, y) \<in> set ps \<and> pixel_in_clip x y gc then apply_raster_function pixel (pixel_at b1 x y) gc else pixel_at b1 x y)"
    unfolding f_def sz(2) [symmetric]
    using Cons.prems sz by (intro Cons.IH same_frame_ok [OF sf]) auto
  moreover have "pixel_at (b1\<lparr>xb_bytes := bytes\<rparr>) x y = pixel_at (b\<lparr>xb_bytes := bytes\<rparr>) x y" for bytes
    by (simp add: pixel_at_def b1_def)
  ultimately have "pixel_at (b\<lparr>xb_bytes := foldl f (xb_bytes b) (p # ps)\<rparr>) x y
      = (if (x, y) \<in> set (p # ps) \<and> pixel_in_clip x y gc then apply_raster_function pixel (pixel_at b x y) gc else pixel_at b x y)"
    using one Cons.prems(2) sz(3) by auto
  then show ?case unfolding f_def .
qed simp

text \<open>Filling a rectangle touches exactly the pixels that the rectangle covers and the clip admits.\<close>

lemma fill_rect_frame: "same_frame b (fill_rect b rect pixel gc)"
proof -
  have "length (foldl (\<lambda>bytes (x, y). if pixel_in_clip x y gc then blend_at (o' x y) pixel gc bytes else bytes) bytes ps)
      = length bytes" for o' bytes ps
    by (induction ps arbitrary: bytes) auto
  then show ?thesis by (auto simp: fill_rect_def same_frame_bytes split: option.split)
qed

lemma fill_rect_pixel:
  assumes ok: "buffer_ok b" and p: "x < buffer_width b" "y < buffer_height b"
  shows "pixel_at (fill_rect b rect pixel gc) x y
    = (if covers rect x y \<and> pixel_in_clip x y gc then apply_raster_function pixel (pixel_at b x y) gc else pixel_at b x y)"
proof -
  have in_range: "int x < sint (sz_width (xb_size b))" "int y < sint (sz_height (xb_size b))"
    "0 < sint (sz_width (xb_size b))" "0 < sint (sz_height (xb_size b))"
    using p ok by (auto simp: buffer_ok_def)
  note cov = clipped_bounds_covers [OF in_range(3,4,1,2), of rect]
  show ?thesis
  proof (cases "clipped_bounds (xb_size b) rect")
    case None
    then show ?thesis using cov by (auto simp: fill_rect_def)
  next
    case (Some q)
    obtain l u r lo where q: "q = (l, u, r, lo)" by (cases q) auto
    have "\<forall>(x, y)\<in>set (grid l u r lo). x < buffer_width b \<and> y < buffer_height b"
      using clipped_bounds_inside [OF Some [unfolded q]] by auto
    then show ?thesis
      using pixel_at_points [OF ok distinct_grid _ p, of l u r lo gc pixel] cov
      by (auto simp: fill_rect_def Some q)
  qed
qed

section \<open>Painters\<close>

text \<open>
  A painter changes the bytes of a buffer and nothing else. The store's operations differ only in
  their painter, so what they do to the store is proved once.
\<close>

lemma length_copy_row [simp]: "length (copy_row buffer rect data st left right y bytes) = length bytes"
  by (auto simp: copy_row_def Let_def dest!: get_range_SomeD split: option.split)

lemma copy_xrgb8888_frame: "same_frame b (copy_xrgb8888 b rect data)"
proof -
  have "length (foldl (\<lambda>bytes y. copy_row b rect data st l r y bytes) bytes ys) = length bytes" for st l r bytes ys
    by (induction ys arbitrary: bytes) auto
  then show ?thesis by (auto simp: copy_xrgb8888_def Let_def same_frame_bytes split: option.split)
qed

lemma set_pixel_frame: "same_frame b (set_pixel b x y pixel gc)"
  by (simp add: set_pixel_def same_frame_bytes)

lemma draw_fixed_glyph_frame: "same_frame b (draw_fixed_glyph b x y byte pixel gc)"
  unfolding draw_fixed_glyph_def by (rule same_frame_foldl) (auto simp: fill_rect_frame split: prod.split)

lemma text_cell_frame: "same_frame b (text_cell x upper opaque gc b cell)"
  unfolding text_cell_def Let_def
  by (auto split: prod.split intro: same_frame_trans [OF fill_rect_frame draw_fixed_glyph_frame] draw_fixed_glyph_frame)

lemma line_loop_frame:
  "line_loop fuel tx ty dx dy sx sy w gc x y err b = Some b' \<Longrightarrow> same_frame b b'"
proof (induction fuel arbitrary: x y err b)
  case (Suc fuel)
  have "same_frame b (pen w gc x y b)" by (simp add: pen_def fill_rect_frame)
  then show ?case
    using Suc by (auto simp: Let_def split: if_splits prod.splits intro: same_frame_trans)
qed simp

lemma draw_line_frame: "same_frame b (draw_line b from to w gc)"
  unfolding draw_line_def Let_def
  by (split option.split) (blast intro: line_loop_frame same_frame_refl)

lemma copy_pixels_frame: "copy_pixels src left upper dx dy gc ps b = (c, b') \<Longrightarrow> same_frame b b'"
proof (induction ps arbitrary: b)
  case (Cons p ps)
  then show ?case
    by (cases p) (auto simp: Let_def split: option.splits intro: same_frame_trans [OF set_pixel_frame])
qed simp

definition store_ok :: "XSoftwareBufferStore \<Rightarrow> bool" where
  "store_ok s \<longleftrightarrow> (\<forall>d b. bt_get (sb_buffers s) d = Some b \<longrightarrow> buffer_ok b \<and> xb_drawable b = d)"

text \<open>What the buffer of a drawable holds before it is drawn on: its pixels, or black after a resize.\<close>

definition base_buffer :: "XResourceId \<Rightarrow> Size \<Rightarrow> XSoftwareBufferStore \<Rightarrow> XAuthorityCpuBufferSnapshot option" where
  "base_buffer drawable e s = map_option fst (fst (ensure drawable e (max (sb_next_handle s) 1) s))"

lemma allocate_handle_eq:
  "allocate_handle s = (max (sb_next_handle s) 1, s\<lparr>sb_next_handle := max (sat_add (max (sb_next_handle s) 1) 1) 1\<rparr>)"
  by (simp add: allocate_handle_def Let_def)

lemma fresh_buffer_ok:
  assumes "0 < sint (sz_width e)" "0 < sint (sz_height e)"
    and "nat (sint (sz_width e)) * 4 * nat (sint (sz_height e)) \<le> X_AUTHORITY_SOFTWARE_BUFFER_MAX_BYTES"
  shows "buffer_ok (fresh_buffer d e h g)"
proof -
  let ?w = "nat (sint (sz_width e))" and ?h = "nat (sint (sz_height e))"
  have "1 \<le> ?h" using assms(2) by linarith
  from mult_le_mono2 [OF this, of "?w * 4"] have "?w * 4 \<le> ?w * 4 * ?h" by (simp only: mult_1_right)
  also note assms(3)
  also have "X_AUTHORITY_SOFTWARE_BUFFER_MAX_BYTES < 2 ^ 32" by (simp add: X_AUTHORITY_SOFTWARE_BUFFER_MAX_BYTES_def)
  finally have "?w * 4 < 2 ^ 32" .
  then have "unat (word_of_nat (?w * 4) :: u32) = ?w * 4" 
    by (simp add: unsigned_of_nat take_bit_nat_eq_self del: of_nat_mult)
  then show ?thesis using assms unfolding buffer_ok_def fresh_buffer_def Let_def by (simp del: of_nat_mult)
qed

lemma fresh_buffer_simps [simp]:
  "xb_drawable (fresh_buffer d e h g) = d" "xb_size (fresh_buffer d e h g) = e"
  "xb_generation (fresh_buffer d e h g) = g" "xb_handle (fresh_buffer d e h g) = h"
  by (simp_all add: fresh_buffer_def Let_def)

lemma pixel_at_fresh: "pixel_at (fresh_buffer d e h g) x y = 0"
proof -
  have "le_nat (replicate n 0) = 0" for n by (induction n) auto
  then show ?thesis by (simp add: pixel_at_def fresh_buffer_def Let_def)
qed

lemma ensure_cases:
  assumes "store_ok s" "ensure d e h s = (r, s')"
  shows "r = None \<and> s' = s
    \<or> (\<exists>b. r = Some (b, True) \<and> buffer_ok b \<and> xb_drawable b = d \<and> xb_size b = e
        \<and> s' = s\<lparr>sb_buffers := bt_insert d b (sb_buffers s)\<rparr>)
    \<or> (\<exists>b. r = Some (b, False) \<and> buffer_ok b \<and> xb_drawable b = d \<and> xb_size b = e \<and> s' = s
        \<and> bt_get (sb_buffers s) d = Some b)"
  using assms
  by (auto simp: ensure_def Let_def not_less not_le fresh_buffer_ok store_ok_def split: if_splits option.splits)

lemma finish_update_cases:
  assumes "finish_immutable_update b h replaced damage = (r, b')"
  shows "r = None \<and> b' = b
    \<or> r = Some (CbReplace b') \<and> xb_handle b' = h \<and> unat (xb_generation b') = Suc (unat (xb_generation b))
       \<and> xb_bytes b' = xb_bytes b \<and> xb_size b' = xb_size b \<and> xb_stride b' = xb_stride b
       \<and> xb_drawable b' = xb_drawable b \<and> xb_format b' = xb_format b"
  using assms by (auto simp: finish_immutable_update_def Let_def checked_add_unat split: if_splits option.splits)

text \<open>The pixels of a buffer depend on its stride and bytes only.\<close>

lemma pixel_at_cong: "xb_bytes b' = xb_bytes b \<Longrightarrow> xb_stride b' = xb_stride b \<Longrightarrow> pixel_at b' x y = pixel_at b x y"
  by (simp add: pixel_at_def)

lemma buffer_ok_cong:
  "xb_bytes b' = xb_bytes b \<Longrightarrow> xb_stride b' = xb_stride b \<Longrightarrow> xb_size b' = xb_size b \<Longrightarrow> xb_format b' = xb_format b
    \<Longrightarrow> buffer_ok b \<Longrightarrow> buffer_ok b'"
  by (simp add: buffer_ok_def)

locale painter =
  fixes paint :: "XAuthorityCpuBufferSnapshot \<Rightarrow> XAuthorityCpuBufferSnapshot"
  assumes frame: "same_frame b (paint b)"
begin

lemma draw_with_result:
  assumes ok: "store_ok s" and h: "draw_with d e paint damage s = (r, s')"
  shows "store_ok s' \<and> (\<forall>d'. d' \<noteq> d \<longrightarrow> bt_get (sb_buffers s') d' = bt_get (sb_buffers s) d')
    \<and> (\<forall>u. r = Some u \<longrightarrow> (\<exists>b0 b. base_buffer d e s = Some b0 \<and> buffer_ok b0 \<and> xb_size b0 = e
        \<and> bt_get (sb_buffers s') d = Some b \<and> u = CbReplace b
        \<and> xb_handle b = max (sb_next_handle s) 1 \<and> xb_size b = e
        \<and> unat (xb_generation b) = Suc (unat (xb_generation b0))
        \<and> xb_bytes b = xb_bytes (paint b0) \<and> xb_stride b = xb_stride b0))"
proof -
  let ?h = "max (sb_next_handle s) 1" and ?s1 = "s\<lparr>sb_next_handle := max (sat_add (max (sb_next_handle s) 1) 1) 1\<rparr>"
  have ok1: "store_ok ?s1" using ok by (simp add: store_ok_def)
  obtain q s2 where q: "ensure d e ?h ?s1 = (q, s2)" by force
  have base: "base_buffer d e s = map_option fst q"
    using q by (auto simp: base_buffer_def ensure_def Let_def split: if_splits option.splits)
  show ?thesis
  proof (cases q)
    case None
    then have "r = None" "s' = s2" "s2 = ?s1"
      using h q ensure_cases [OF ok1 q] by (auto simp: draw_with_def allocate_handle_eq)
    then show ?thesis using ok1 by simp
  next
    case (Some p)
    then obtain b0 replaced where p: "q = Some (b0, replaced)" by (cases p) auto
    then have b0: "buffer_ok b0" "xb_drawable b0 = d" "xb_size b0 = e"
      and s2: "\<And>d'. d' \<noteq> d \<Longrightarrow> bt_get (sb_buffers s2) d' = bt_get (sb_buffers s) d'"
      using ensure_cases [OF ok1 q] by (auto simp: bt_get_insert)
    obtain r1 b where fin: "finish_immutable_update (paint b0) ?h replaced damage = (r1, b)" by force
    have rs: "r = r1" "s' = s2\<lparr>sb_buffers := bt_insert d b (sb_buffers s2)\<rparr>"
      using h q p fin by (simp_all add: draw_with_def allocate_handle_eq)
    have fr: "same_frame b0 (paint b0)" by (rule frame)
    have ok2: "buffer_ok (paint b0)" using fr b0(1) by (rule same_frame_ok)
    have okb: "buffer_ok b \<and> xb_drawable b = d"
      using finish_update_cases [OF fin] ok2 fr b0(2) by (auto simp: same_frame_def intro: buffer_ok_cong [OF _ _ _ _ ok2])
    have "store_ok s'" using okb s2 ok by (simp add: rs store_ok_def bt_get_insert)
    moreover have "\<forall>d'. d' \<noteq> d \<longrightarrow> bt_get (sb_buffers s') d' = bt_get (sb_buffers s) d'"
      using s2 by (simp add: rs bt_get_insert)
    moreover have "\<exists>b. bt_get (sb_buffers s') d = Some b \<and> u = CbReplace b
        \<and> xb_handle b = ?h \<and> xb_size b = e \<and> unat (xb_generation b) = Suc (unat (xb_generation b0))
        \<and> xb_bytes b = xb_bytes (paint b0) \<and> xb_stride b = xb_stride b0" if "r = Some u" for u
      using finish_update_cases [OF fin] that fr b0(3) by (auto simp: rs bt_get_insert same_frame_def)
    ultimately show ?thesis using base p b0 by auto
  qed
qed

text \<open>The first drawing on a drawable of an admissible size always gives an update.\<close>

lemma draw_with_first:
  assumes "bt_get (sb_buffers s) d = None" "0 < sint (sz_width e)" "0 < sint (sz_height e)"
    and "nat (sint (sz_width e)) * 4 * nat (sint (sz_height e)) \<le> X_AUTHORITY_SOFTWARE_BUFFER_MAX_BYTES"
  shows "fst (draw_with d e paint damage s) \<noteq> None"
proof -
  let ?h = "max (sb_next_handle s) 1"
  have "xb_generation (paint (fresh_buffer d e ?h 0)) = 0"
    using frame [of "fresh_buffer d e ?h 0"] by (simp add: same_frame_def)
  then have "fst (finish_immutable_update (paint (fresh_buffer d e ?h 0)) ?h True damage) \<noteq> None"
    by (simp add: finish_immutable_update_def checked_add_def Let_def)
  then show ?thesis
    using assms
    by (auto simp: draw_with_def allocate_handle_eq ensure_def Let_def not_le not_less split: prod.split)
qed

end

interpretation damage_painter: painter "\<lambda>b. foldl (\<lambda>b rect. fill_rect b rect pixel gc) b damage" for pixel gc damage
  by unfold_locales (rule same_frame_foldl, rule fill_rect_frame)

interpretation clear_painter: painter "\<lambda>b. fill_rect b rect pixel gc" for rect pixel gc
  by unfold_locales (rule fill_rect_frame)

interpretation text_painter: painter "\<lambda>b. foldl (text_cell x upper opaque gc) b cells" for x upper opaque gc cells
  by unfold_locales (rule same_frame_foldl, rule text_cell_frame)

interpretation image_painter: painter "\<lambda>b. copy_xrgb8888 b rect data" for rect data
  by unfold_locales (rule copy_xrgb8888_frame)

interpretation line_painter: painter "\<lambda>b. foldl (\<lambda>b (p, q). draw_line b p q w gc) b ps" for w gc ps
  by unfold_locales (rule same_frame_foldl, auto simp: draw_line_frame split: prod.split)

text \<open>What a pixel becomes when rectangles are filled one after the other.\<close>

definition painted_pixel :: "XGraphicsContextValues \<Rightarrow> nat \<Rightarrow> nat \<Rightarrow> u32 \<Rightarrow> Rect list \<Rightarrow> u32" where
  "painted_pixel gc x y =
     foldl (\<lambda>p rect. if covers rect x y \<and> pixel_in_clip x y gc then apply_raster_function (gv_foreground gc) p gc else p)"

lemma fill_rects_pixel:
  assumes "buffer_ok b" "x < buffer_width b" "y < buffer_height b"
  shows "pixel_at (foldl (\<lambda>b rect. fill_rect b rect (gv_foreground gc) gc) b damage) x y
    = painted_pixel gc x y (pixel_at b x y) damage"
  using assms
proof (induction damage arbitrary: b)
  case (Cons rect damage)
  have f: "same_frame b (fill_rect b rect (gv_foreground gc) gc)" by (rule fill_rect_frame)
  then have "xb_size (fill_rect b rect (gv_foreground gc) gc) = xb_size b" by (simp add: same_frame_def)
  then show ?case
    using Cons.IH [OF same_frame_ok [OF f Cons.prems(1)]] Cons.prems by (simp add: painted_pixel_def fill_rect_pixel)
qed (simp add: painted_pixel_def)

section \<open>Handles\<close>

text \<open>The calls that change the buffer store, each with the update it hands out.\<close>

datatype store_call =
    ScPaint XResourceId Size "Rect list" XGraphicsContextValues
  | ScClear XResourceId Size Rect u32
  | ScText XResourceId Size i16 i16 "u8 list" bool XGraphicsContextValues
  | ScImage XResourceId Size Rect "u8 list"
  | ScLines XResourceId Size "XPoint list" XGraphicsContextValues
  | ScCopy XResourceId XResourceId Size Rect i16 i16 XGraphicsContextValues
  | ScRemove XResourceId

fun store_step :: "store_call \<Rightarrow> XSoftwareBufferStore \<Rightarrow> XAuthorityCpuBufferUpdate option \<times> XSoftwareBufferStore" where
  "store_step (ScPaint d e damage gc) s = paint_damage d e damage gc s"
| "store_step (ScClear d e rect pixel) s = store_clear d e rect pixel s"
| "store_step (ScText d e x y chars opaque gc) s = draw_text d e x y chars opaque gc s"
| "store_step (ScImage d e rect data) s = put_image d e rect data s"
| "store_step (ScLines d e points gc) s = draw_lines d e points gc s"
| "store_step (ScCopy src d e rect x y gc) s = copy_area src d e rect x y gc s"
| "store_step (ScRemove d) s = (None, snd (store_remove d s))"

text \<open>The handles of the updates that a sequence of calls hands out.\<close>

fun store_handles :: "store_call list \<Rightarrow> XSoftwareBufferStore \<Rightarrow> u64 list" where
  "store_handles [] s = []"
| "store_handles (c # cs) s =
     (case store_step c s of
        (None, s') \<Rightarrow> store_handles cs s'
      | (Some u, s') \<Rightarrow> update_handle u # store_handles cs s')"

text \<open>The counter never goes back, and an update takes a handle from the counter on and moves it past that handle.\<close>

definition counter_advances :: "XAuthorityCpuBufferUpdate option \<Rightarrow> XSoftwareBufferStore \<Rightarrow> XSoftwareBufferStore \<Rightarrow> bool" where
  "counter_advances r s s' \<longleftrightarrow> sb_next_handle s \<le> sb_next_handle s'
     \<and> (\<forall>u. r = Some u \<longrightarrow> sb_next_handle s \<le> update_handle u
        \<and> (sb_next_handle s < word_max \<longrightarrow> update_handle u < sb_next_handle s'))"

lemma allocated_handle:
  fixes n :: u64
  shows "n \<le> max n 1" and "n \<le> max (sat_add (max n 1) 1) 1"
    and "n < word_max \<Longrightarrow> max n 1 < max (sat_add (max n 1) 1) 1"
proof -
  show "n \<le> max n 1" by simp
  then show "n \<le> max (sat_add (max n 1) 1) 1" using sat_add_ge [of "max n 1" 1] by simp
  assume "n < word_max"
  then have "max n 1 \<noteq> word_max" by (auto simp: max_def word_max_def)
  then show "max n 1 < max (sat_add (max n 1) 1) 1" using sat_add_one_cases [of "max n 1"] by (auto simp: max_def)
qed

lemma counter_advancesI:
  assumes "sb_next_handle s' = sb_next_handle (snd (allocate_handle s))"
    and "\<And>u. r = Some u \<Longrightarrow> update_handle u = fst (allocate_handle s)"
  shows "counter_advances r s s'"
  unfolding counter_advances_def using allocated_handle [of "sb_next_handle s"] assms by (auto simp: allocate_handle_eq)

lemma ensure_counter: "sb_next_handle (snd (ensure d e h s)) = sb_next_handle s"
  by (simp add: ensure_def Let_def split: option.split)

lemma finish_handle: "finish_immutable_update b h replaced damage = (Some u, b') \<Longrightarrow> update_handle u = h"
  by (auto simp: finish_immutable_update_def Let_def split: if_splits option.splits)

lemma draw_with_advances: "draw_with d e paint damage s = (r, s') \<Longrightarrow> counter_advances r s s'"
  using ensure_counter [of d e "fst (allocate_handle s)" "snd (allocate_handle s)"]
  by (intro counter_advancesI)
    (auto simp: draw_with_def split: prod.splits option.splits dest!: finish_handle)

lemma copy_area_advances: "copy_area src d e rect x y gc s = (r, s') \<Longrightarrow> counter_advances r s s'"
  using ensure_counter [of d e "fst (allocate_handle s)" "snd (allocate_handle s)"]
  by (cases "bt_get (sb_buffers s) src", simp add: copy_area_def counter_advances_def)
    (intro counter_advancesI, auto simp: copy_area_def split: prod.splits option.splits if_splits dest!: finish_handle)

lemma store_step_advances: "store_step c s = (r, s') \<Longrightarrow> counter_advances r s s'"
  by (cases c)
    (auto simp: paint_damage_def store_clear_def draw_text_def put_image_def draw_lines_def store_remove_def Let_def
      counter_advances_def [of None] intro: draw_with_advances copy_area_advances split: option.splits)

lemma store_handles_ge: "h \<in> set (store_handles cs s) \<Longrightarrow> sb_next_handle s \<le> h"
proof (induction cs arbitrary: s)
  case (Cons c cs)
  obtain r s' where st: "store_step c s = (r, s')" by force
  then show ?case
    using Cons.prems Cons.IH [of s'] store_step_advances [OF st]
    by (auto simp: counter_advances_def split: option.splits)
qed simp

text \<open>
  Property C25. Painting into the software buffer of a drawable keeps every buffer of the store
  well-formed and bounded and leaves the buffers of other drawables alone. The update handed out is
  the whole new buffer with the next generation, of the requested size, under a handle that is fresh: it is at
  or above the counter of the store, and as long as the counter has not reached the last 64-bit number no later
  call on the store (painting, clearing, text, images, lines, copies and removals in any order) hands it out
  again. Every pixel of the update is the previous pixel (black in a new or resized buffer) put through the raster
  function once for each damage rectangle that covers it, where the clip rectangles of the graphics context
  admit it. Rectangles that reach over the edges are cut off exactly, also where the far edge does not
  fit in 32 bits.
\<close>

theorem paint_damage_exact:
  assumes "store_ok s" "paint_damage d e damage gc s = (r, s')"
  shows "store_ok s' \<and> (\<forall>d'. d' \<noteq> d \<longrightarrow> bt_get (sb_buffers s') d' = bt_get (sb_buffers s) d')
    \<and> (\<forall>u. r = Some u \<longrightarrow> (\<exists>b0 b. base_buffer d e s = Some b0
        \<and> bt_get (sb_buffers s') d = Some b \<and> u = CbReplace b
        \<and> xb_handle b = max (sb_next_handle s) 1 \<and> xb_size b = e
        \<and> unat (xb_generation b) = Suc (unat (xb_generation b0))
        \<and> (\<forall>x y. x < buffer_width b \<longrightarrow> y < buffer_height b \<longrightarrow>
             pixel_at b x y = painted_pixel gc x y (pixel_at b0 x y) damage)))
    \<and> (\<forall>u later. r = Some u \<longrightarrow> sb_next_handle s < word_max \<longrightarrow> update_handle u \<notin> set (store_handles later s'))"
proof -
  let ?paint = "\<lambda>b. foldl (\<lambda>b rect. fill_rect b rect (gv_foreground gc) gc) b damage"
  note res = damage_painter.draw_with_result [OF assms(1) assms(2) [unfolded paint_damage_def]]
  have px: "pixel_at b x y = painted_pixel gc x y (pixel_at b0 x y) damage"
    if "buffer_ok b0" "xb_size b0 = e" "xb_size b = e" "xb_bytes b = xb_bytes (?paint b0)" "xb_stride b = xb_stride b0"
      "x < buffer_width b" "y < buffer_height b" for b b0 x y
  proof -
    have "xb_stride (?paint b0) = xb_stride b0" using damage_painter.frame by (simp add: same_frame_def)
    then have "pixel_at b x y = pixel_at (?paint b0) x y" using that by (intro pixel_at_cong) simp_all
    then show ?thesis using fill_rects_pixel [OF that(1), of x y gc damage] that by simp
  qed
  have "counter_advances r s s'" using assms(2) store_step_advances [of "ScPaint d e damage gc" s] by simp
  then have fresh: "update_handle u \<notin> set (store_handles later s')" if "r = Some u" "sb_next_handle s < word_max" for u later
    using that store_handles_ge [of "update_handle u" later s'] by (auto simp: counter_advances_def not_le [symmetric])
  have "store_ok s' \<and> (\<forall>d'. d' \<noteq> d \<longrightarrow> bt_get (sb_buffers s') d' = bt_get (sb_buffers s) d')
    \<and> (\<forall>u. r = Some u \<longrightarrow> (\<exists>b0 b. base_buffer d e s = Some b0
        \<and> bt_get (sb_buffers s') d = Some b \<and> u = CbReplace b
        \<and> xb_handle b = max (sb_next_handle s) 1 \<and> xb_size b = e
        \<and> unat (xb_generation b) = Suc (unat (xb_generation b0))
        \<and> (\<forall>x y. x < buffer_width b \<longrightarrow> y < buffer_height b \<longrightarrow>
             pixel_at b x y = painted_pixel gc x y (pixel_at b0 x y) damage)))"
    using res px by (auto 0 4)
  then show ?thesis using fresh by blast
qed

definition example_gc :: XGraphicsContextValues where
  "example_gc = gc_values_default\<lparr>gv_foreground := 0x112233\<rparr>"

theorem paint_damage_exact_witness:
  "\<exists>b s'. paint_damage (AuthorityLocalId 1 1) \<lparr>sz_width = 2, sz_height = 1\<rparr>
      [\<lparr>rc_x = 1, rc_y = 0, rc_width = 0x7FFFFFFF, rc_height = 1\<rparr>] example_gc store_empty = (Some (CbReplace b), s')
    \<and> pixel_at b 0 0 = 0 \<and> pixel_at b 1 0 = 0x112233
    \<and> xb_handle b \<notin> set (store_handles [ScPaint (AuthorityLocalId 2 1) \<lparr>sz_width = 2, sz_height = 1\<rparr> [] example_gc] s')"
proof -
  let ?d = "AuthorityLocalId 1 1" and ?e = "\<lparr>sz_width = 2, sz_height = 1\<rparr> :: Size"
  let ?damage = "[\<lparr>rc_x = 1, rc_y = 0, rc_width = 0x7FFFFFFF, rc_height = 1\<rparr>] :: Rect list"
  obtain r s' where p: "paint_damage ?d ?e ?damage example_gc store_empty = (r, s')" by force
  have ok: "store_ok store_empty" by (simp add: store_ok_def store_empty_def)
  have "fst (paint_damage ?d ?e ?damage example_gc store_empty) \<noteq> None"
    unfolding paint_damage_def
    by (rule damage_painter.draw_with_first) (simp_all add: store_empty_def X_AUTHORITY_SOFTWARE_BUFFER_MAX_BYTES_def)
  then have "r \<noteq> None" using p by simp
  then obtain u where u: "r = Some u" by auto
  from paint_damage_exact [OF ok p] u obtain b0 b where
    b0: "base_buffer ?d ?e store_empty = Some b0" and b: "u = CbReplace b" "xb_size b = ?e"
    and px: "\<And>x y. x < 2 \<Longrightarrow> y < 1 \<Longrightarrow> pixel_at b x y = painted_pixel example_gc x y (pixel_at b0 x y) ?damage"
    by auto
  have "sb_next_handle store_empty < word_max" by (simp add: store_empty_def word_less_nat_alt unat_word_max)
  then have fresh: "xb_handle b \<notin> set (store_handles later s')" for later
    using paint_damage_exact [OF ok p] u b(1) by auto
  have z: "b0 = fresh_buffer ?d ?e 1 0"
    using b0 by (simp add: base_buffer_def ensure_def store_empty_def X_AUTHORITY_SOFTWARE_BUFFER_MAX_BYTES_def Let_def)
  have "pixel_at b0 0 0 = 0" "pixel_at b0 1 0 = 0"
    by (simp_all add: z pixel_at_fresh)
  then show ?thesis
    using p u b px [of 0 0] px [of 1 0] fresh
    by (auto simp del: store_handles.simps simp: painted_pixel_def covers_def pixel_in_clip_def example_gc_def gc_values_default_def
        apply_raster_function_def raster_result_def X_GX_COPY_def word_max_def Let_def)
qed

section \<open>Lines end where they should\<close>

text \<open>
  The loop of a line, seen as the points it visits. \<open>i\<close> and \<open>j\<close> count the steps taken in each
  direction; the error is then determined by them.
\<close>

fun line_points :: "nat \<Rightarrow> int \<Rightarrow> int \<Rightarrow> int \<Rightarrow> int \<Rightarrow> int \<Rightarrow> int \<Rightarrow> int \<Rightarrow> int \<Rightarrow> int \<Rightarrow> (int \<times> int) list option" where
  "line_points 0 tx ty dx dy sx sy x y err = None"
| "line_points (Suc fuel) tx ty dx dy sx sy x y err =
     (if x = tx \<and> y = ty then Some [(x, y)]
      else
        let doubled = i32_clamp (err * 2);
            (err1, x1) = (if dy \<le> doubled then (err + dy, x + sx) else (err, x));
            (err2, y1) = (if doubled \<le> dx then (err1 + dx, y + sy) else (err1, y)) in
        map_option (\<lambda>ps. (x, y) # ps) (line_points fuel tx ty dx dy sx sy x1 y1 err2))"

lemma line_loop_points:
  "line_loop fuel tx ty dx dy sx sy w gc x y err b
    = map_option (foldl (\<lambda>b (x, y). pen w gc x y b) b) (line_points fuel tx ty dx dy sx sy x y err)"
proof (induction fuel arbitrary: x y err b)
  case (Suc fuel)
  show ?case
    by (auto simp: Suc Let_def option.map_comp comp_def split: if_splits)
qed simp

definition neighbours :: "int \<times> int \<Rightarrow> int \<times> int \<Rightarrow> bool" where
  "neighbours p q \<longleftrightarrow> p \<noteq> q \<and> \<bar>fst q - fst p\<bar> \<le> 1 \<and> \<bar>snd q - snd p\<bar> \<le> 1"

text \<open>
  The state of the loop after \<open>i\<close> and \<open>j\<close> steps of \<open>m\<close> and \<open>n\<close>: the error is \<open>(j + 1) m - (i + 1) n\<close>,
  and it stays between \<open>- 2 n\<close> and \<open>2 m\<close>, far inside \<open>i32\<close>.
\<close>

definition line_inv :: "int \<Rightarrow> int \<Rightarrow> int \<Rightarrow> int \<Rightarrow> int \<Rightarrow> bool" where
  "line_inv m n i j err \<longleftrightarrow>
     0 \<le> i \<and> i \<le> m \<and> 0 \<le> j \<and> j \<le> n \<and> err = (j + 1) * m - (i + 1) * n \<and> - (2 * n) \<le> err \<and> err \<le> 2 * m"

lemma line_step_x:
  assumes "line_inv m n i j err" "\<not> (i = m \<and> j = n)" "- n \<le> 2 * err"
  shows "i < m"
proof (rule ccontr)
  assume "\<not> i < m"
  then have i: "i = m" and j: "j + 1 \<le> n" using assms by (auto simp: line_inv_def)
  have "(j + 1) * m \<le> n * m" using j assms(1) by (intro mult_right_mono) (auto simp: line_inv_def)
  then have "err \<le> - n" using assms(1) by (simp add: line_inv_def i algebra_simps)
  then show False using assms j by (auto simp: line_inv_def)
qed

lemma line_step_y:
  assumes "line_inv m n i j err" "\<not> (i = m \<and> j = n)" "2 * err \<le> m"
  shows "j < n"
proof (rule ccontr)
  assume "\<not> j < n"
  then have j: "j = n" and i: "i + 1 \<le> m" using assms by (auto simp: line_inv_def)
  have "(i + 1) * n \<le> m * n" using i assms(1) by (intro mult_right_mono) (auto simp: line_inv_def)
  then have "m \<le> err" using assms(1) by (simp add: line_inv_def j algebra_simps)
  then show False using assms i by (auto simp: line_inv_def)
qed

lemma line_inv_step:
  assumes inv: "line_inv m n i j err" and more: "\<not> (i = m \<and> j = n)"
    and i': "i' = (if - n \<le> 2 * err then i + 1 else i)" and j': "j' = (if 2 * err \<le> m then j + 1 else j)"
    and err': "err' = err - (if - n \<le> 2 * err then n else 0) + (if 2 * err \<le> m then m else 0)"
  shows "line_inv m n i' j' err'" "i + j < i' + j'"
proof -
  have pos: "0 \<le> m" "0 \<le> n" using inv by (auto simp: line_inv_def)
  have x: "- n \<le> 2 * err \<Longrightarrow> i < m" and y: "2 * err \<le> m \<Longrightarrow> j < n"
    using line_step_x [OF inv more] line_step_y [OF inv more] by auto
  have "err' = (j' + 1) * m - (i' + 1) * n"
    using inv by (auto simp: line_inv_def i' j' err' algebra_simps)
  moreover have "- (2 * n) \<le> err'" "err' \<le> 2 * m"
    using inv pos by (auto simp: line_inv_def err')
  moreover have "0 \<le> i' \<and> i' \<le> m \<and> 0 \<le> j' \<and> j' \<le> n" using inv x y by (auto simp: line_inv_def i' j')
  ultimately show "line_inv m n i' j' err'" unfolding line_inv_def by blast
  show "i + j < i' + j'" using pos by (auto simp: i' j')
qed

lemma line_points_complete:
  assumes s: "\<bar>sx\<bar> = 1" "\<bar>sy\<bar> = 1" and b: "m \<le> 65535" "n \<le> 65535"
    and inv: "line_inv m n i j err" and fuel: "m - i + (n - j) < int fuel"
  shows "\<exists>ps. line_points fuel (x0 + sx * m) (y0 + sy * n) m (- n) sx sy (x0 + sx * i) (y0 + sy * j) err = Some ps
    \<and> ps \<noteq> [] \<and> hd ps = (x0 + sx * i, y0 + sy * j) \<and> last ps = (x0 + sx * m, y0 + sy * n)
    \<and> length ps \<le> fuel \<and> successively neighbours ps"
  using inv fuel
proof (induction fuel arbitrary: i j err)
  case 0
  then show ?case by (auto simp: line_inv_def)
next
  case (Suc fuel)
  have done_iff: "x0 + sx * i = x0 + sx * m \<and> y0 + sy * j = y0 + sy * n \<longleftrightarrow> i = m \<and> j = n" using s by auto
  show ?case
  proof (cases "i = m \<and> j = n")
    case True
    then show ?thesis by simp
  next
    case False
    define i' j' err' where d: "i' = (if - n \<le> 2 * err then i + 1 else i)" "j' = (if 2 * err \<le> m then j + 1 else j)"
      "err' = err - (if - n \<le> 2 * err then n else 0) + (if 2 * err \<le> m then m else 0)"
    note step = line_inv_step [OF Suc.prems(1) False d]
    have db: "i32_clamp (err * 2) = 2 * err"
      using Suc.prems(1) b by (subst i32_clamp_id) (auto simp: line_inv_def i32_in_range_def)
    have "m - i' + (n - j') < int fuel" using step(2) Suc.prems(2) by simp
    from Suc.IH [OF step(1) this] obtain ps where
      ps: "line_points fuel (x0 + sx * m) (y0 + sy * n) m (- n) sx sy (x0 + sx * i') (y0 + sy * j') err' = Some ps"
        "ps \<noteq> []" "hd ps = (x0 + sx * i', y0 + sy * j')" "last ps = (x0 + sx * m, y0 + sy * n)" "length ps \<le> fuel"
        "successively neighbours ps" by blast
    have "line_points (Suc fuel) (x0 + sx * m) (y0 + sy * n) m (- n) sx sy (x0 + sx * i) (y0 + sy * j) err
        = map_option (\<lambda>ps. (x0 + sx * i, y0 + sy * j) # ps)
            (line_points fuel (x0 + sx * m) (y0 + sy * n) m (- n) sx sy (x0 + sx * i') (y0 + sy * j') err')"
      using False done_iff by (auto simp: db d Let_def algebra_simps)
    moreover have "neighbours (x0 + sx * i, y0 + sy * j) (hd ps)"
      using step(2) s by (auto simp: ps(3) neighbours_def d algebra_simps split: if_splits)
    ultimately show ?thesis
      using ps by (auto simp: successively_Cons)
  qed
qed

text \<open>
  Property C26. Drawing a line ends: for any two end points and any pen, the loop reaches its end
  within one round per row and column between them. It paints with the pen at the start, at the end
  and along a path of neighbouring points between them, and nowhere else.
\<close>

theorem draw_line_ends:
  "\<exists>ps. draw_line b from to w gc = foldl (\<lambda>b (x, y). pen w gc x y b) b ps
    \<and> ps \<noteq> [] \<and> hd ps = (sint (xp_x from), sint (xp_y from)) \<and> last ps = (sint (xp_x to), sint (xp_y to))
    \<and> int (length ps) \<le> \<bar>sint (xp_x to) - sint (xp_x from)\<bar> + \<bar>sint (xp_y to) - sint (xp_y from)\<bar> + 1
    \<and> successively neighbours ps"
proof -
  define x y tx ty where c: "x = sint (xp_x from)" "y = sint (xp_y from)" "tx = sint (xp_x to)" "ty = sint (xp_y to)"
  define m n where mn: "m = \<bar>tx - x\<bar>" "n = \<bar>ty - y\<bar>"
  define sx sy :: int where sg: "sx = (if x < tx then 1 else -1)" "sy = (if y < ty then 1 else -1)"
  have r: "- 32768 \<le> sint (v :: 16 word) \<and> sint v \<le> 32767" for v
    using sint_greater_eq [of v] sint_lt [of v] by simp
  have b: "m \<le> 65535" "n \<le> 65535"
    using r [of "xp_x from"] r [of "xp_x to"] r [of "xp_y from"] r [of "xp_y to"] by (auto simp: mn c)
  have t: "x + sx * m = tx" "y + sy * n = ty" by (auto simp: mn sg)
  have inv: "line_inv m n 0 0 (m - n)" by (simp add: line_inv_def mn)
  have "m - 0 + (n - 0) < int (nat (m + n) + 1)" by (simp add: mn)
  have "\<bar>sx\<bar> = 1" "\<bar>sy\<bar> = 1" by (simp_all add: sg)
  note start = line_points_complete [OF this b inv \<open>m - 0 + (n - 0) < int (nat (m + n) + 1)\<close>, of x y]
  obtain ps where
    ps: "line_points (nat (m + n) + 1) tx ty m (- n) sx sy x y (m - n) = Some ps"
      "ps \<noteq> []" "hd ps = (x, y)" "last ps = (tx, ty)" "length ps \<le> nat (m + n) + 1" "successively neighbours ps"
    using start unfolding t mult_zero_right add_0_right by blast
  have "draw_line b from to w gc = foldl (\<lambda>b (x, y). pen w gc x y b) b ps"
    using ps(1) unfolding draw_line_def Let_def c [symmetric] mn [symmetric] sg [symmetric] line_loop_points
    by (simp del: line_points.simps)
  moreover have "int (length ps) \<le> m + n + 1" using ps(5) by (simp add: mn)
  ultimately show ?thesis using ps by (auto simp: c mn)
qed

section \<open>Two consequences for clients\<close>

text \<open>
  Once a drawable has a buffer, drawing that misses it entirely is reported as a failure, although
  the same request succeeds as the first one on the drawable (\<open>draw_with_first\<close>).
\<close>

lemma offscreen_paint_fails:
  assumes "store_ok s" "bt_get (sb_buffers s) d = Some b" "union_rects damage = Some rect"
    and "clipped_bounds (xb_size b) rect = None"
  shows "fst (paint_damage d (xb_size b) damage gc s) = None"
proof -
  let ?paint = "\<lambda>b. foldl (\<lambda>b rect. fill_rect b rect (gv_foreground gc) gc) b damage"
  have "xb_size (?paint b) = xb_size b" using damage_painter.frame by (simp add: same_frame_def)
  then have "packed_patch (?paint b) rect = None" using assms(4) by (simp add: packed_patch_def)
  then have fin: "finish_immutable_update (?paint b) h False (Some rect) = (None, ?paint b)" for h
    by (simp add: finish_immutable_update_def)
  have "buffer_ok b" using assms(1,2) by (simp add: store_ok_def)
  then have "ensure d (xb_size b) h (s\<lparr>sb_next_handle := n\<rparr>) = (Some (b, False), s\<lparr>sb_next_handle := n\<rparr>)" for h n
    using assms(2) by (auto simp: ensure_def buffer_ok_def Let_def)
  then show ?thesis
    by (simp add: paint_damage_def draw_with_def allocate_handle_eq assms(3) fin)
qed

text \<open>An image placed over the left edge shows its first column there, not the one that belongs there.\<close>

lemma image_over_left_edge:
  "xb_bytes (copy_xrgb8888 (fresh_buffer d \<lparr>sz_width = 2, sz_height = 1\<rparr> 1 0)
     \<lparr>rc_x = - 1, rc_y = 0, rc_width = 2, rc_height = 1\<rparr> [1, 1, 1, 0, 2, 2, 2, 0]) = [1, 1, 1, 0, 0, 0, 0, 0]"
proof -
  have c: "clipped_bounds \<lparr>sz_width = 2, sz_height = 1\<rparr> \<lparr>rc_x = - 1, rc_y = 0, rc_width = 2, rc_height = 1\<rparr>
      = Some (0, 0, 1, 1)"
    by (simp add: clipped_bounds_def i32_clamp_def)
  have r: "replicate 8 (0 :: u8) = [0, 0, 0, 0, 0, 0, 0, 0]" by (simp add: numeral_eq_Suc)
  show ?thesis
    by (simp add: copy_xrgb8888_def fresh_buffer_def c r copy_row_def pixel_offset_def usize_sat_def get_range_def
        put_range_def)
qed

end
