(* ===== verification/X_Selection.thy ===== *)
theory X_Selection
  imports X_Atoms Portal_Reducers "HOL-Library.Option_ord"
begin

text \<open>
  Selections of the X authority: who owns which selection (\<^verbatim>\<open>sophia-x-authority/src/selection.rs\<close>)
  and how a request for a selection is answered inside a namespace or turned into a portal request
  across namespaces (\<^verbatim>\<open>clipboard.rs\<close>). The clipboard portal is the reducer of \<^verbatim>\<open>Portal_Reducers\<close>.
\<close>

section \<open>Selection owners (selection.rs)\<close>

type_synonym XTimestamp = u32

definition X_ATOM_NONE :: XAtom where "X_ATOM_NONE = 0"

definition MAX_CLIPBOARD_TEXT_HANDOFF_BYTES :: nat where
  "MAX_CLIPBOARD_TEXT_HANDOFF_BYTES = 64 * 1024"

datatype XSelectionChangeKind =
    SetOwner | ClearOwner | SelectionWindowDestroyed | SelectionClientClosed | UnknownSelectionChange

record XSelectionEvent =
  sv_selection :: XAtom
  sv_owner :: "XResourceId option"
  sv_timestamp :: XTimestamp
  sv_selection_timestamp :: XTimestamp
  sv_kind :: XSelectionChangeKind

record XSelectionOwnerRecord =
  so_selection :: XAtom
  so_namespace :: "NamespaceId option"
  so_owner :: "XResourceId option"
  so_generation :: u64
  so_timestamp :: XTimestamp
  so_selection_timestamp :: XTimestamp

record XSelectionOwnerUpdate =
  su_previous :: "XSelectionOwnerRecord option"
  su_current :: XSelectionOwnerRecord
  su_kind :: XSelectionChangeKind

type_synonym XSelectionMonitor = "(XAtom \<times> NamespaceId option, XSelectionOwnerRecord) btree"

definition selection_owner :: "XSelectionMonitor \<Rightarrow> XAtom \<Rightarrow> NamespaceId option \<Rightarrow> XSelectionOwnerRecord option" where
  "selection_owner m selection namespace = bt_get m (selection, namespace)"

text \<open>\<open>max_by_key\<close>: of several greatest elements the last one.\<close>

definition last_max :: "('a \<Rightarrow> 'b::linorder) \<Rightarrow> 'a list \<Rightarrow> 'a option" where
  "last_max f =
     foldl (\<lambda>best x. case best of None \<Rightarrow> Some x | Some b \<Rightarrow> if f b \<le> f x then Some x else Some b) None"

definition current_owner_for_selection :: "XSelectionMonitor \<Rightarrow> XAtom \<Rightarrow> XSelectionOwnerRecord option" where
  "current_owner_for_selection m selection =
     last_max so_generation (filter (\<lambda>r. so_selection r = selection \<and> so_owner r \<noteq> None) (bt_values m))"

fun namespace_for_existing_selection :: "XSelectionMonitor \<Rightarrow> XAtom \<Rightarrow> NamespaceId option" where
  "namespace_for_existing_selection [] selection = None"
| "namespace_for_existing_selection (((sel, namespace), r) # m) selection =
     (if sel = selection \<and> so_owner r \<noteq> None \<and> namespace \<noteq> None then namespace
      else namespace_for_existing_selection m selection)"

definition event_namespace :: "XSelectionEvent \<Rightarrow> XWindowTable \<Rightarrow> XSelectionMonitor \<Rightarrow> NamespaceId option" where
  "event_namespace e windows m =
     (case Option.bind (sv_owner e) (\<lambda>owner. map_option xw_namespace (bt_get windows owner)) of
        Some namespace \<Rightarrow> Some namespace
      | None \<Rightarrow> namespace_for_existing_selection m (sv_selection e))"

definition apply_event ::
  "XSelectionEvent \<Rightarrow> XWindowTable \<Rightarrow> XSelectionMonitor \<Rightarrow> XSelectionOwnerUpdate \<times> XSelectionMonitor" where
  "apply_event e windows m =
     (let namespace = event_namespace e windows m;
          key = (sv_selection e, namespace);
          previous = bt_get m key;
          current = \<lparr>so_selection = sv_selection e, so_namespace = namespace, so_owner = sv_owner e,
                     so_generation = (case previous of None \<Rightarrow> 1 | Some r \<Rightarrow> sat_add (so_generation r) 1),
                     so_timestamp = sv_timestamp e, so_selection_timestamp = sv_selection_timestamp e\<rparr> in
      (\<lparr>su_previous = previous, su_current = current, su_kind = sv_kind e\<rparr>, bt_insert key current m))"

definition clear_event :: "XSelectionChangeKind \<Rightarrow> XSelectionOwnerRecord \<Rightarrow> XSelectionEvent" where
  "clear_event kind r =
     \<lparr>sv_selection = so_selection r, sv_owner = None, sv_timestamp = so_timestamp r,
      sv_selection_timestamp = so_selection_timestamp r, sv_kind = kind\<rparr>"

definition clear_window_owner ::
  "XResourceId \<Rightarrow> XWindowTable \<Rightarrow> XSelectionChangeKind \<Rightarrow> XSelectionMonitor \<Rightarrow> XSelectionMonitor" where
  "clear_window_owner window windows kind m =
     foldl (\<lambda>m r. snd (apply_event (clear_event kind r) windows m)) m
       (filter (\<lambda>r. so_owner r = Some window) (bt_values m))"

section \<open>Selection requests (clipboard.rs)\<close>

record XSelectionRequest =
  sq_requestor :: XResourceId
  sq_selection :: XAtom
  sq_target :: XAtom
  sq_target_name :: rust_string
  sq_property :: XAtom
  sq_time :: XTimestamp

record ClipboardSelectionFailureRequest =
  cf_transfer :: PortalTransferId
  cf_requestor :: XResourceId
  cf_selection :: XAtom
  cf_target :: XAtom
  cf_time :: XTimestamp

record ClipboardSelectionPortalRequest =
  cl_request :: ClipboardTransferRequest
  cl_failure :: ClipboardSelectionFailureRequest
  cl_property :: XAtom

datatype ClipboardSelectionRequestError =
    ClUnknownRequestorNamespace | ClUnknownSourceOwner | ClMissingSourceNamespace | ClSameNamespace
  | ClPortal PortalError

record ClipboardSelectionOwnerRequest =
  cw_owner :: XResourceId
  cw_requestor :: XResourceId
  cw_selection :: XAtom
  cw_target :: XAtom
  cw_property :: XAtom
  cw_time :: XTimestamp

datatype ClipboardSelectionDispatch =
    DispatchSameNamespace ClipboardSelectionOwnerRequest
  | DispatchCrossNamespace ClipboardSelectionPortalRequest PortalCommand

datatype XByteOrder = LittleEndian | BigEndian

record PendingClipboardSelection =
  pn_namespace :: NamespaceId
  pn_portal_request :: ClipboardSelectionPortalRequest
  pn_byte_order :: XByteOrder

record ClipboardSelectionProxy =
  px_transfer :: PortalTransferId
  px_namespace :: NamespaceId
  px_owner :: XResourceId
  px_requestor :: XResourceId
  px_selection :: XAtom
  px_target :: XAtom
  px_property :: XAtom
  px_time :: XTimestamp

record ClipboardSourcePayload =
  cy_transfer :: PortalTransferId
  cy_bytes :: "u8 list"

datatype ClipboardSelectionExecutionError =
    CxUnknownTransfer | CxDenied | CxExpired | CxDisconnected | CxExecutorFailure | CxStaleOwnerGeneration
  | CxUnsupportedTarget | CxInvalidUtf8 | CxMissingProperty | CxPayloadTooLarge | CxProperty

record ClipboardSelectionNotify =
  cn_time :: XTimestamp
  cn_requestor :: XResourceId
  cn_selection :: XAtom
  cn_target :: XAtom
  cn_property :: XAtom

record ClipboardSelectionFailure =
  cu_transfer :: PortalTransferId
  cu_notify :: ClipboardSelectionNotify

definition failed_normally :: "ClipboardSelectionFailure \<Rightarrow> bool" where
  "failed_normally f = (cn_property (cu_notify f) = X_ATOM_NONE)"

record ClipboardTextProperty =
  tp_requestor :: XResourceId
  tp_property :: XAtom
  tp_target :: XAtom
  tp_bytes :: "u8 list"

record ClipboardSelectionHandoff =
  ch_transfer :: PortalTransferId
  ch_property :: ClipboardTextProperty
  ch_notify :: ClipboardSelectionNotify

definition succeeded_normally :: "ClipboardSelectionHandoff \<Rightarrow> bool" where
  "succeeded_normally h \<longleftrightarrow>
     cn_property (ch_notify h) = tp_property (ch_property h) \<and> cn_property (ch_notify h) \<noteq> X_ATOM_NONE"

datatype ClipboardSelectionExecutionOutcome =
    CoHandoff ClipboardSelectionHandoff
  | CoFailed ClipboardSelectionExecutionError ClipboardSelectionNotify

definition failure_notify :: "ClipboardSelectionFailureRequest \<Rightarrow> ClipboardSelectionNotify" where
  "failure_notify f =
     \<lparr>cn_time = cf_time f, cn_requestor = cf_requestor f, cn_selection = cf_selection f, cn_target = cf_target f,
      cn_property = X_ATOM_NONE\<rparr>"

definition clipboard_selection_failure_notify :: "ClipboardSelectionFailureRequest \<Rightarrow> ClipboardSelectionFailure" where
  "clipboard_selection_failure_notify f = \<lparr>cu_transfer = cf_transfer f, cu_notify = failure_notify f\<rparr>"

text \<open>The two look-ups that both request functions start with: the requestor's and the source's namespace.\<close>

definition selection_source ::
  "XSelectionRequest \<Rightarrow> XSelectionMonitor \<Rightarrow> XWindowTable
     \<Rightarrow> ClipboardSelectionRequestError + (NamespaceId \<times> XSelectionOwnerRecord \<times> NamespaceId)" where
  "selection_source request m windows =
     bind_res (ok_or (bt_get windows (sq_requestor request)) ClUnknownRequestorNamespace) (\<lambda>requestor.
     bind_res (ok_or (current_owner_for_selection m (sq_selection request)) ClUnknownSourceOwner) (\<lambda>source.
     bind_res (ok_or (so_namespace source) ClMissingSourceNamespace) (\<lambda>source_namespace.
     Inr (xw_namespace requestor, source, source_namespace))))"

definition clipboard_portal_request_from_selection_request ::
  "XSelectionRequest \<Rightarrow> XSelectionMonitor \<Rightarrow> XWindowTable \<Rightarrow> PortalTransferId
     \<Rightarrow> ClipboardSelectionRequestError + ClipboardSelectionPortalRequest" where
  "clipboard_portal_request_from_selection_request request m windows transfer =
     bind_res (selection_source request m windows) (\<lambda>(requestor_namespace, source, source_namespace).
     if source_namespace = requestor_namespace then Inl ClSameNamespace
     else Inr
       \<lparr>cl_request = \<lparr>cr_transfer = transfer, cr_source_namespace = source_namespace,
                      cr_target_namespace = requestor_namespace, cr_target = TargetAtom (sq_target_name request),
                      cr_byte_size = 0, cr_generation = so_generation source\<rparr>,
        cl_failure = \<lparr>cf_transfer = transfer, cf_requestor = sq_requestor request, cf_selection = sq_selection request,
                      cf_target = sq_target request, cf_time = sq_time request\<rparr>,
        cl_property = sq_property request\<rparr>)"

definition dispatch_clipboard_selection_request ::
  "XSelectionRequest \<Rightarrow> XSelectionMonitor \<Rightarrow> XWindowTable \<Rightarrow> PortalTransferId \<Rightarrow> portal_transfers
     \<Rightarrow> (ClipboardSelectionRequestError + ClipboardSelectionDispatch) \<times> portal_transfers" where
  "dispatch_clipboard_selection_request request m windows transfer portal =
     (case selection_source request m windows of
        Inl e \<Rightarrow> (Inl e, portal)
      | Inr (requestor_namespace, source, source_namespace) \<Rightarrow>
          if source_namespace = requestor_namespace then
            (bind_res (ok_or (so_owner source) ClUnknownSourceOwner) (\<lambda>owner.
               Inr (DispatchSameNamespace
                 \<lparr>cw_owner = owner, cw_requestor = sq_requestor request, cw_selection = sq_selection request,
                  cw_target = sq_target request, cw_property = sq_property request, cw_time = sq_time request\<rparr>)), portal)
          else
            (case clipboard_portal_request_from_selection_request request m windows transfer of
               Inl e \<Rightarrow> (Inl e, portal)
             | Inr portal_request \<Rightarrow>
                 (case request_import (cl_request portal_request) portal of
                    (Inl e, portal') \<Rightarrow> (Inl (ClPortal e), portal')
                  | (Inr command, portal') \<Rightarrow> (Inr (DispatchCrossNamespace portal_request command), portal'))))"

datatype ClipboardSelectionHandoffError =
    NotHandoffCommand | ChTransferMismatch | ChMissingProperty | ChUnsupportedTarget | ChTextTooLarge nat nat

definition handoff_of :: "PortalTransferId \<Rightarrow> ClipboardSelectionPortalRequest \<Rightarrow> u8 list \<Rightarrow> ClipboardSelectionHandoff" where
  "handoff_of transfer request bytes =
     (let f = cl_failure request in
      \<lparr>ch_transfer = transfer,
       ch_property = \<lparr>tp_requestor = cf_requestor f, tp_property = cl_property request, tp_target = cf_target f,
                      tp_bytes = bytes\<rparr>,
       ch_notify = (failure_notify f)\<lparr>cn_property := cl_property request\<rparr>\<rparr>)"

definition clipboard_selection_text_handoff_artifact ::
  "PortalCommand \<Rightarrow> ClipboardSelectionPortalRequest \<Rightarrow> rust_string
     \<Rightarrow> ClipboardSelectionHandoffError + ClipboardSelectionHandoff" where
  "clipboard_selection_text_handoff_artifact command request bytes =
     (case command of
        HandoffClipboard transfer \<Rightarrow>
          if transfer \<noteq> cr_transfer (cl_request request) then Inl ChTransferMismatch
          else if cl_property request = X_ATOM_NONE then Inl ChMissingProperty
          else if \<not> target_is_text (cr_target (cl_request request)) then Inl ChUnsupportedTarget
          else if MAX_CLIPBOARD_TEXT_HANDOFF_BYTES < length bytes
            then Inl (ChTextTooLarge (length bytes) MAX_CLIPBOARD_TEXT_HANDOFF_BYTES)
          else Inr (handoff_of transfer request bytes)
      | _ \<Rightarrow> Inl NotHandoffCommand)"

section \<open>Two consequences of how owners are recorded\<close>

text \<open>
  Generations are counted per selection and namespace, but compared across namespaces: a namespace
  that took the selection once does not become the current owner while another one that took it
  twice before is still recorded.
\<close>

definition example_windows :: "SurfaceConstraints \<Rightarrow> XWindowTable" where
  "example_windows c = map (\<lambda>(i, n). (i, \<lparr>xw_id = i, xw_surface = SurfaceId 1 1, xw_namespace = n, xw_map_state = Mapped,
      xw_geometry = \<lparr>rc_x = 0, rc_y = 0, rc_width = 1, rc_height = 1\<rparr>, xw_constraints = c,
      xw_window_generation = 0\<rparr>)) [(AuthorityLocalId 10 1, 1), (AuthorityLocalId 20 1, 2)]"

definition take_selection :: "XResourceId \<Rightarrow> XTimestamp \<Rightarrow> XSelectionEvent" where
  "take_selection owner time =
     \<lparr>sv_selection = 1, sv_owner = Some owner, sv_timestamp = time, sv_selection_timestamp = time, sv_kind = SetOwner\<rparr>"

definition example_owners :: "SurfaceConstraints \<Rightarrow> XSelectionMonitor" where
  "example_owners c =
     foldl (\<lambda>m e. snd (apply_event e (example_windows c) m)) []
       [take_selection (AuthorityLocalId 10 1) 1, take_selection (AuthorityLocalId 10 1) 2,
        take_selection (AuthorityLocalId 20 1) 3]"

lemmas selection_example_defs =
  example_owners_def take_selection_def apply_event_def event_namespace_def example_windows_def Let_def sat_add_def

lemma latest_owner_not_current:
  "map_option so_timestamp (current_owner_for_selection (example_owners c) 1) = Some 2"
  by (simp add: selection_example_defs current_owner_for_selection_def last_max_def bt_values_def word_le_nat_alt)

text \<open>
  A cleared selection carries no owner to take the namespace from, so the first namespace that owns
  the selection is cleared instead of the one whose window is destroyed.
\<close>

lemma destroyed_owner_stays:
  fixes c
  defines "m \<equiv> clear_window_owner (AuthorityLocalId 20 1) (example_windows c) SelectionWindowDestroyed (example_owners c)"
  shows "map_option so_owner (selection_owner m 1 (Some 1)) = Some None"
    and "map_option so_owner (selection_owner m 1 (Some 2)) = Some (Some (AuthorityLocalId 20 1))"
  unfolding m_def
  by (simp_all add: selection_example_defs clear_window_owner_def clear_event_def selection_owner_def bt_values_def)

end
