(* ===== verification/X_Runtime.thy ===== *)
theory X_Runtime
  imports X_Selection X_Software Ipc_Portal
begin

text \<open>
  The runtime of the X authority: its request and response packets
  (\<^verbatim>\<open>sophia-x-authority/src/packet.rs\<close>) and the state that all requests of all clients share
  (\<^verbatim>\<open>runtime.rs\<close>). A method on \<open>&mut self\<close> returns its result with the next state, also when it fails;
  the frontend's atom and property tables are arguments where the code passes them by reference. The
  keymap and the input authority, which these methods only hand out, are left out of the state.
\<close>

section \<open>Packets (packet.rs)\<close>

definition X_AUTHORITY_MAX_TARGET_NAME_LEN :: nat where
  "X_AUTHORITY_MAX_TARGET_NAME_LEN = 256"

datatype XAuthorityRequestKind =
    CreateWindow XResourceId SurfaceId Rect SurfaceConstraints u64
  | MapWindow XResourceId u64
  | PresentPixmap XResourceId u32 Region u64 u32
  | SetSelectionOwner XAtom "XResourceId option" XTimestamp XTimestamp XSelectionChangeKind
  | RequestSelection XResourceId XAtom XAtom rust_string XAtom XTimestamp PortalTransferId

record XAuthorityRequestPacket =
  xq_transaction :: TransactionId
  xq_namespace :: NamespaceId
  xq_kind :: XAuthorityRequestKind

datatype XAuthorityRuntimeError =
    XrInvalidResource | XrInvalidNamespace | XrInvalidSurface | XrUnknownResource | XrWrongResourceKind
  | XrCrossNamespaceDenied | XrStaleGeneration | XrUnknownRequestorNamespace | XrUnknownSourceOwner
  | XrMissingSourceNamespace | XrSameNamespace | XrPortalRejected

datatype XAuthorityResponseOutcome = XoAccepted | XoRejected XAuthorityRuntimeError

fun from_access_error :: "XAuthorityAccessError \<Rightarrow> XAuthorityRuntimeError" where
  "from_access_error XaInvalidResource = XrInvalidResource"
| "from_access_error XaInvalidNamespace = XrInvalidNamespace"
| "from_access_error XaInvalidSurface = XrInvalidSurface"
| "from_access_error XaUnknownResource = XrUnknownResource"
| "from_access_error XaWrongResourceKind = XrWrongResourceKind"
| "from_access_error XaCrossNamespaceDenied = XrCrossNamespaceDenied"
| "from_access_error XaStaleGeneration = XrStaleGeneration"

fun from_request_error :: "ClipboardSelectionRequestError \<Rightarrow> XAuthorityRuntimeError" where
  "from_request_error ClUnknownRequestorNamespace = XrUnknownRequestorNamespace"
| "from_request_error ClUnknownSourceOwner = XrUnknownSourceOwner"
| "from_request_error ClMissingSourceNamespace = XrMissingSourceNamespace"
| "from_request_error ClSameNamespace = XrSameNamespace"
| "from_request_error (ClPortal _) = XrPortalRejected"

datatype XAuthorityPortalCommand =
    XcPromptClipboardTransfer PortalTransfer
  | XcFailSelection PortalTransferId
  | XcHandoffClipboard PortalTransferId

fun from_portal_command :: "PortalCommand \<Rightarrow> XAuthorityPortalCommand option" where
  "from_portal_command (PromptClipboardTransfer transfer) = Some (XcPromptClipboardTransfer transfer)"
| "from_portal_command (FailSelection transfer) = Some (XcFailSelection transfer)"
| "from_portal_command (HandoffClipboard transfer) = Some (XcHandoffClipboard transfer)"
| "from_portal_command _ = None"

datatype XAuthoritySelectionArtifact =
    ArtifactFailure ClipboardSelectionFailure
  | ArtifactRequest ClipboardSelectionOwnerRequest
  | ArtifactClear XResourceId XAtom XTimestamp

record XAuthorityResponsePacket =
  xs_transaction :: TransactionId
  xs_outcome :: XAuthorityResponseOutcome
  xs_surfaces :: "AuthoritySurface list"
  xs_removed_surfaces :: "SurfaceId list"
  xs_transactions :: "SurfaceTransaction list"
  xs_portal_commands :: "XAuthorityPortalCommand list"
  xs_selection_artifacts :: "XAuthoritySelectionArtifact list"

definition response_with :: "XAuthorityResponseOutcome \<Rightarrow> TransactionId \<Rightarrow> XAuthorityResponsePacket" where
  "response_with outcome transaction =
     \<lparr>xs_transaction = transaction, xs_outcome = outcome, xs_surfaces = [], xs_removed_surfaces = [],
      xs_transactions = [], xs_portal_commands = [], xs_selection_artifacts = []\<rparr>"

definition accepted :: "TransactionId \<Rightarrow> XAuthorityResponsePacket" where
  "accepted transaction = response_with XoAccepted transaction"

definition rejected :: "TransactionId \<Rightarrow> XAuthorityRuntimeError \<Rightarrow> XAuthorityResponsePacket" where
  "rejected transaction e = response_with (XoRejected e) transaction"

section \<open>State (runtime.rs)\<close>

record XAuthorityClientResourceRelease =
  rl_destroyed_windows :: "XResourceId list"
  rl_removed_surfaces :: "SurfaceId list"
  rl_released_pixmaps :: nat
  rl_released_fonts :: nat
  rl_released_cursors :: nat
  rl_released_graphics_contexts :: nat
  rl_released_shm_segments :: nat
  rl_released_glx_contexts :: nat
  rl_released_glx_windows :: nat
  rl_released_dma_bufs :: "BufferHandle list"
  rl_released_fences :: "FenceHandle list"

record XAuthorityRuntime =
  xt_resources :: XResourceTable
  xt_windows :: XWindowTable
  xt_shm_segments :: XShmSegmentTable
  xt_selections :: XSelectionMonitor
  xt_clipboard :: portal_transfers
  xt_pending_clipboard :: "(PortalTransferId, PendingClipboardSelection) btree"
  xt_clipboard_proxies :: "(XResourceId, ClipboardSelectionProxy) btree"
  xt_next_clipboard_proxy :: u32
  xt_software_buffers :: XSoftwareBufferStore
  xt_dri3_pixmaps :: "(XResourceId, DmaBufDescriptor) btree"
  xt_next_dma_buf_handle :: u64
  xt_dri3_fences :: "(XResourceId, FenceHandle) btree"
  xt_xfixes_regions :: "(XResourceId, Region) btree"
  xt_next_fence_handle :: u64
  xt_graphics_contexts :: XGraphicsContextTable
  xt_window_background_pixels :: "(XResourceId, u32) btree"
  xt_window_visuals :: "(XResourceId, u8 \<times> u32 \<times> XResourceId) btree"
  xt_glx_contexts :: "(XResourceId, NamespaceId \<times> u32 \<times> bool) btree"
  xt_glx_windows :: "(XResourceId, NamespaceId \<times> XResourceId \<times> u32) btree"
  xt_last_cpu_buffer_update :: "XAuthorityCpuBufferUpdate option"
  xt_output_topology :: OutputTopologySnapshot
  xt_input_focus :: "(NamespaceId, XResourceId \<times> u8) btree"

definition runtime_new :: XAuthorityRuntime where
  "runtime_new =
     \<lparr>xt_resources = [], xt_windows = [], xt_shm_segments = [], xt_selections = [], xt_clipboard = [],
      xt_pending_clipboard = [], xt_clipboard_proxies = [], xt_next_clipboard_proxy = 0,
      xt_software_buffers = store_empty, xt_dri3_pixmaps = [], xt_next_dma_buf_handle = 1, xt_dri3_fences = [],
      xt_xfixes_regions = [], xt_next_fence_handle = 1, xt_graphics_contexts = [], xt_window_background_pixels = [],
      xt_window_visuals = [], xt_glx_contexts = [], xt_glx_windows = [], xt_last_cpu_buffer_update = None,
      xt_output_topology = topology_deterministic, xt_input_focus = []\<rparr>"

type_synonym 'a runtime_result = "(XAuthorityRuntimeError + 'a) \<times> XAuthorityRuntime"

text \<open>\<open>?\<close> after a check that leaves the state alone: an error ends the method there.\<close>

definition check_then :: "XAuthorityRuntimeError + 'a \<Rightarrow> XAuthorityRuntime \<Rightarrow> ('a \<Rightarrow> 'b runtime_result) \<Rightarrow> 'b runtime_result" where
  "check_then r t k = (case r of Inl e \<Rightarrow> (Inl e, t) | Inr x \<Rightarrow> k x)"

definition access :: "XAuthorityAccessError + 'a \<Rightarrow> XAuthorityRuntimeError + 'a" where
  "access r = (case r of Inl e \<Rightarrow> Inl (from_access_error e) | Inr x \<Rightarrow> Inr x)"

text \<open>A method that only forwards to one table: the table's error, or the state with the next table.\<close>

definition update_then :: "(XAuthorityAccessError + 't) \<Rightarrow> ('t \<Rightarrow> XAuthorityRuntime) \<Rightarrow> XAuthorityRuntime \<Rightarrow> unit runtime_result" where
  "update_then r f t = (case access r of Inl e \<Rightarrow> (Inl e, t) | Inr x \<Rightarrow> (Inr (), f x))"

definition update_output_topology ::
  "OutputTopologySnapshot \<Rightarrow> XAuthorityRuntime \<Rightarrow> (OutputTopologyError + bool) \<times> XAuthorityRuntime" where
  "update_output_topology topology t =
     (case topology_validate topology of
        Inl e \<Rightarrow> (Inl e, t)
      | Inr _ \<Rightarrow>
          if ot_generation topology \<le> ot_generation (xt_output_topology t) then (Inr False, t)
          else (Inr True, t\<lparr>xt_output_topology := topology\<rparr>))"

definition X_SETUP_DEFAULT_ROOT :: u32 where "X_SETUP_DEFAULT_ROOT = 0x20"
definition X_SETUP_DEFAULT_COLORMAP :: u32 where "X_SETUP_DEFAULT_COLORMAP = 0x21"
definition X_SETUP_DEFAULT_VISUAL :: u32 where "X_SETUP_DEFAULT_VISUAL = 0x22"
definition X_SETUP_ARGB_VISUAL :: u32 where "X_SETUP_ARGB_VISUAL = 0x23"

definition is_clipboard_proxy :: "XAuthorityRuntime \<Rightarrow> NamespaceId \<Rightarrow> XResourceId \<Rightarrow> bool" where
  "is_clipboard_proxy t namespace window =
     (case bt_get (xt_clipboard_proxies t) window of None \<Rightarrow> False | Some p \<Rightarrow> px_namespace p = namespace)"

definition validate_access ::
  "XResourceKind \<Rightarrow> XAuthorityRuntime \<Rightarrow> NamespaceId \<Rightarrow> XResourceId \<Rightarrow> XAuthorityRuntimeError + unit" where
  "validate_access kind t namespace i =
     bind_res (access (resource_lookup (xt_resources t) namespace i kind)) (\<lambda>_. Inr ())"

definition validate_window_access :: "XAuthorityRuntime \<Rightarrow> NamespaceId \<Rightarrow> XResourceId \<Rightarrow> XAuthorityRuntimeError + unit" where
  "validate_window_access t namespace window =
     (if is_clipboard_proxy t namespace window then Inr () else validate_access RkWindow t namespace window)"

definition validate_pixmap_access :: "XAuthorityRuntime \<Rightarrow> NamespaceId \<Rightarrow> XResourceId \<Rightarrow> XAuthorityRuntimeError + unit" where
  "validate_pixmap_access = validate_access RkPixmap"

definition validate_xfixes_region_access ::
  "XAuthorityRuntime \<Rightarrow> NamespaceId \<Rightarrow> XResourceId \<Rightarrow> XAuthorityRuntimeError + unit" where
  "validate_xfixes_region_access = validate_access RkRegion"

definition validate_dri3_fence_access ::
  "XAuthorityRuntime \<Rightarrow> NamespaceId \<Rightarrow> XResourceId \<Rightarrow> XAuthorityRuntimeError + unit" where
  "validate_dri3_fence_access = validate_access RkFence"

definition validate_font_access :: "XAuthorityRuntime \<Rightarrow> NamespaceId \<Rightarrow> XResourceId \<Rightarrow> XAuthorityRuntimeError + unit" where
  "validate_font_access = validate_access RkFont"

definition validate_cursor_access :: "XAuthorityRuntime \<Rightarrow> NamespaceId \<Rightarrow> XResourceId \<Rightarrow> XAuthorityRuntimeError + unit" where
  "validate_cursor_access = validate_access RkCursor"

definition input_focus :: "XAuthorityRuntime \<Rightarrow> NamespaceId \<Rightarrow> XResourceId \<times> u8" where
  "input_focus t namespace =
     (case bt_get (xt_input_focus t) namespace of
        Some f \<Rightarrow> f | None \<Rightarrow> (AuthorityLocalId (ucast X_SETUP_DEFAULT_ROOT) 1, 1))"

definition set_input_focus :: "NamespaceId \<Rightarrow> XResourceId \<Rightarrow> u8 \<Rightarrow> XAuthorityRuntime \<Rightarrow> unit runtime_result" where
  "set_input_focus namespace focus revert_to t =
     (if 2 < revert_to then (Inl XrInvalidResource, t)
      else check_then
        (if al_raw focus \<noteq> 0 \<and> al_raw focus \<noteq> ucast X_SETUP_DEFAULT_ROOT
         then validate_window_access t namespace focus else Inr ()) t (\<lambda>_.
        (Inr (), t\<lparr>xt_input_focus := bt_insert namespace (focus, revert_to) (xt_input_focus t)\<rparr>)))"

definition begin_dispatch :: "XAuthorityRuntime \<Rightarrow> XAuthorityRuntime" where
  "begin_dispatch t = t\<lparr>xt_last_cpu_buffer_update := None\<rparr>"

definition take_cpu_buffer_update :: "XAuthorityRuntime \<Rightarrow> XAuthorityCpuBufferUpdate option \<times> XAuthorityRuntime" where
  "take_cpu_buffer_update t = (xt_last_cpu_buffer_update t, t\<lparr>xt_last_cpu_buffer_update := None\<rparr>)"

section \<open>Requests\<close>

text \<open>A window event of a checked request: the resulting surface goes into the response.\<close>

definition window_event ::
  "XWindowLifecycleEvent \<Rightarrow> XAuthorityResponsePacket \<Rightarrow> XAuthorityRuntime \<Rightarrow> XAuthorityResponsePacket runtime_result" where
  "window_event e response t =
     (case access (window_apply e (xt_windows t)) of
        Inl err \<Rightarrow> (Inl err, t)
      | Inr (surface, windows) \<Rightarrow>
          (Inr (response\<lparr>xs_surfaces := xs_surfaces response @ (case surface of None \<Rightarrow> [] | Some s \<Rightarrow> [s])\<rparr>),
           t\<lparr>xt_windows := windows\<rparr>))"

fun apply_kind ::
  "XAuthorityRequestKind \<Rightarrow> XAuthorityRequestPacket \<Rightarrow> XAuthorityRuntime \<Rightarrow> XAuthorityResponsePacket runtime_result" where
  "apply_kind (CreateWindow window surface geometry constraints generation) request t =
     check_then (access (resource_insert window RkWindow (xq_namespace request) generation (xt_resources t))) t (\<lambda>resources.
       window_event (WlCreated window surface (xq_namespace request) geometry constraints generation)
         (accepted (xq_transaction request)) (t\<lparr>xt_resources := resources\<rparr>))"
| "apply_kind (MapWindow window generation) request t =
     check_then (access (resource_lookup (xt_resources t) (xq_namespace request) window RkWindow)) t (\<lambda>_.
       window_event (WlMapped window generation) (accepted (xq_transaction request)) t)"
| "apply_kind (PresentPixmap window pixmap damage previous timeout) request t =
     check_then (access (surface_transaction_from_drawing_update (xt_windows t)
         (present_pixmap (xq_transaction request) (xq_namespace request) window pixmap damage previous timeout))) t
       (\<lambda>transaction.
     check_then (access (advance_generation window previous (xt_windows t))) t (\<lambda>(_, windows).
       (Inr ((accepted (xq_transaction request))\<lparr>xs_transactions := [transaction]\<rparr>), t\<lparr>xt_windows := windows\<rparr>)))"
| "apply_kind (SetSelectionOwner selection owner timestamp selection_timestamp kind) request t =
     check_then (case owner of
         None \<Rightarrow> Inr ()
       | Some owner \<Rightarrow> validate_access RkWindow t (xq_namespace request) owner) t (\<lambda>_.
       let (update, selections) = apply_event
             \<lparr>sv_selection = selection, sv_owner = owner, sv_timestamp = timestamp,
              sv_selection_timestamp = selection_timestamp, sv_kind = kind\<rparr> (xt_windows t) (xt_selections t);
           artifacts = (case Option.bind (su_previous update) so_owner of
               None \<Rightarrow> []
             | Some previous_owner \<Rightarrow>
                 if Some previous_owner \<noteq> owner then [ArtifactClear previous_owner selection timestamp] else []) in
       (Inr ((accepted (xq_transaction request))\<lparr>xs_selection_artifacts := artifacts\<rparr>),
        t\<lparr>xt_selections := selections\<rparr>))"
| "apply_kind (RequestSelection requestor selection target target_name property time transfer) request t =
     check_then (access (resource_lookup (xt_resources t) (xq_namespace request) requestor RkWindow)) t (\<lambda>_.
       case dispatch_clipboard_selection_request
              \<lparr>sq_requestor = requestor, sq_selection = selection, sq_target = target, sq_target_name = target_name,
               sq_property = property, sq_time = time\<rparr>
              (xt_selections t) (xt_windows t) transfer (xt_clipboard t) of
         (Inl e, clipboard) \<Rightarrow> (Inl (from_request_error e), t\<lparr>xt_clipboard := clipboard\<rparr>)
       | (Inr (DispatchSameNamespace q), clipboard) \<Rightarrow>
           (Inr ((accepted (xq_transaction request))\<lparr>xs_selection_artifacts := [ArtifactRequest q]\<rparr>),
            t\<lparr>xt_clipboard := clipboard\<rparr>)
       | (Inr (DispatchCrossNamespace portal_request command), clipboard) \<Rightarrow>
           (Inr ((accepted (xq_transaction request))\<lparr>xs_portal_commands :=
              (case from_portal_command command of None \<Rightarrow> [] | Some c \<Rightarrow> [c])\<rparr>),
            t\<lparr>xt_clipboard := clipboard,
              xt_pending_clipboard := bt_insert transfer
                \<lparr>pn_namespace = xq_namespace request, pn_portal_request = portal_request, pn_byte_order = LittleEndian\<rparr>
                (xt_pending_clipboard t)\<rparr>))"

definition apply_checked :: "XAuthorityRequestPacket \<Rightarrow> XAuthorityRuntime \<Rightarrow> XAuthorityResponsePacket runtime_result" where
  "apply_checked request t = apply_kind (xq_kind request) request t"

definition runtime_apply :: "XAuthorityRequestPacket \<Rightarrow> XAuthorityRuntime \<Rightarrow> XAuthorityResponsePacket \<times> XAuthorityRuntime" where
  "runtime_apply request t =
     (case apply_checked request t of
        (Inr response, t') \<Rightarrow> (response, t')
      | (Inl e, t') \<Rightarrow>
          (let response = rejected (xq_transaction request) e in
           case xq_kind request of
             RequestSelection requestor selection target target_name property time transfer \<Rightarrow>
               (response\<lparr>xs_selection_artifacts := [ArtifactFailure (clipboard_selection_failure_notify
                  \<lparr>cf_transfer = transfer, cf_requestor = requestor, cf_selection = selection, cf_target = target,
                   cf_time = time\<rparr>)]\<rparr>, t')
           | _ \<Rightarrow> (response, t')))"

section \<open>Clipboard transfers\<close>

definition set_pending_clipboard_byte_order :: "PortalTransferId \<Rightarrow> XByteOrder \<Rightarrow> XAuthorityRuntime \<Rightarrow> XAuthorityRuntime" where
  "set_pending_clipboard_byte_order transfer order t =
     t\<lparr>xt_pending_clipboard := bt_update transfer (\<lambda>p. p\<lparr>pn_byte_order := order\<rparr>) (xt_pending_clipboard t)\<rparr>"

text \<open>The grant is active and was given for the pending request.\<close>

definition clipboard_grant_matches :: "PortalGrant \<Rightarrow> ClipboardTransferRequest \<Rightarrow> bool" where
  "clipboard_grant_matches grant request \<longleftrightarrow>
     pg_state grant = GrActive \<and> pg_source_generation grant = cr_generation request
     \<and> pg_source_namespace grant = cr_source_namespace request \<and> pg_target_namespace grant = cr_target_namespace request"

definition begin_clipboard_source_request ::
  "PortalGrant \<Rightarrow> XAuthorityRuntime \<Rightarrow> (ClipboardSelectionExecutionError + ClipboardSelectionProxy) \<times> XAuthorityRuntime" where
  "begin_clipboard_source_request grant t =
     (case bt_get (xt_pending_clipboard t) (pg_transfer grant) of
        None \<Rightarrow> (Inl CxUnknownTransfer, t)
      | Some pending \<Rightarrow>
          if \<not> clipboard_grant_matches grant (cl_request (pn_portal_request pending)) then (Inl CxStaleOwnerGeneration, t)
          else
            let failure = cl_failure (pn_portal_request pending) in
            (case current_owner_for_selection (xt_selections t) (cf_selection failure) of
               None \<Rightarrow> (Inl CxStaleOwnerGeneration, t)
             | Some owner_record \<Rightarrow>
                 if so_generation owner_record \<noteq> pg_source_generation grant then (Inl CxStaleOwnerGeneration, t)
                 else (case so_owner owner_record of
                     None \<Rightarrow> (Inl CxStaleOwnerGeneration, t)
                   | Some owner \<Rightarrow>
                       (case Option.bind (checked_add 0x00010000 (xt_next_clipboard_proxy t))
                               (\<lambda>raw. if raw < 0x00200000 then Some raw else None) of
                          None \<Rightarrow> (Inl CxExecutorFailure, t)
                        | Some raw \<Rightarrow>
                            let proxy = \<lparr>px_transfer = pg_transfer grant, px_namespace = pg_source_namespace grant,
                                         px_owner = owner, px_requestor = AuthorityLocalId (ucast raw) 1,
                                         px_selection = cf_selection failure, px_target = cf_target failure,
                                         px_property = cf_target failure, px_time = cf_time failure\<rparr> in
                            (Inr proxy,
                             t\<lparr>xt_next_clipboard_proxy := sat_add (xt_next_clipboard_proxy t) 1,
                               xt_clipboard_proxies := bt_insert (px_requestor proxy) proxy (xt_clipboard_proxies t)\<rparr>)))))"

definition capture_clipboard_source_payload ::
  "XResourceId \<Rightarrow> XAtom \<Rightarrow> XPropertyTable \<Rightarrow> XAuthorityRuntime
     \<Rightarrow> (ClipboardSelectionExecutionError + ClipboardSourcePayload) \<times> XPropertyTable \<times> XAuthorityRuntime" where
  "capture_clipboard_source_payload requestor property properties t =
     (case bt_get (xt_clipboard_proxies t) requestor of
        None \<Rightarrow> (Inl CxUnknownTransfer, properties, t)
      | Some proxy \<Rightarrow>
          let t' = t\<lparr>xt_clipboard_proxies := bt_remove requestor (xt_clipboard_proxies t)\<rparr>;
              cleaned = snd (remove_window (px_namespace proxy) (px_requestor proxy) properties) in
          if property = X_ATOM_NONE \<or> property \<noteq> px_property proxy then (Inl CxExecutorFailure, cleaned, t')
          else (case property_get properties (px_namespace proxy) (px_requestor proxy) property of
              None \<Rightarrow> (Inl CxExecutorFailure, properties, t')
            | Some record \<Rightarrow>
                if MAX_CLIPBOARD_TEXT_HANDOFF_BYTES < length (xe_bytes record) then (Inl CxPayloadTooLarge, cleaned, t')
                else (Inr \<lparr>cy_transfer = px_transfer proxy, cy_bytes = xe_bytes record\<rparr>, cleaned, t')))"

definition discard_clipboard_proxies ::
  "PortalTransferId \<Rightarrow> XAuthorityRuntime \<Rightarrow> (NamespaceId \<times> XResourceId) list \<times> XAuthorityRuntime" where
  "discard_clipboard_proxies transfer t =
     (map (\<lambda>p. (px_namespace p, px_requestor p))
        (filter (\<lambda>p. px_transfer p = transfer) (bt_values (xt_clipboard_proxies t))),
      t\<lparr>xt_clipboard_proxies := filter (\<lambda>(_, p). px_transfer p \<noteq> transfer) (xt_clipboard_proxies t)\<rparr>)"

definition atom_bytes :: "XByteOrder \<Rightarrow> XAtom \<Rightarrow> u8 list" where
  "atom_bytes order atom = (case order of LittleEndian \<Rightarrow> push_u32 atom | BigEndian \<Rightarrow> rev (push_u32 atom))"

text \<open>\<open>intern\<close> with \<open>only_if_exists\<close> false never returns an absent atom (\<open>intern_cases\<close>), so the \<open>expect\<close> holds.\<close>

fun intern_targets :: "rust_string list \<Rightarrow> XByteOrder \<Rightarrow> XAtomTable \<Rightarrow> (XAtomError + u8 list) \<times> XAtomTable" where
  "intern_targets [] order atoms = (Inr [], atoms)"
| "intern_targets (name # names) order atoms =
     (case intern name False atoms of
        (Inl e, atoms') \<Rightarrow> (Inl e, atoms')
      | (Inr None, atoms') \<Rightarrow> (Inr [], atoms')
      | (Inr (Some atom), atoms') \<Rightarrow>
          (case intern_targets names order atoms' of
             (Inl e, atoms'') \<Rightarrow> (Inl e, atoms'')
           | (Inr bytes, atoms'') \<Rightarrow> (Inr (atom_bytes order atom @ bytes), atoms'')))"

datatype clipboard_value =
    ValueOf XAtom u8 "u8 list"
  | ValueFails ClipboardSelectionExecutionError
  | ValueAborts ClipboardSelectionExecutionError

text \<open>The property value of a payload: a list of targets, checked text, a failed transfer or an aborted one.\<close>

definition payload_value ::
  "PendingClipboardSelection \<Rightarrow> u8 list \<Rightarrow> XAtomTable \<Rightarrow> clipboard_value \<times> XAtomTable" where
  "payload_value pending payload atoms =
     (let name = target_as_str (cr_target (cl_request (pn_portal_request pending))) in
      if name = lit ''TARGETS'' then
        (case intern_targets [lit ''TARGETS'', lit ''UTF8_STRING'', lit ''text/plain;charset=utf-8'']
                (pn_byte_order pending) atoms of
           (Inl e, atoms') \<Rightarrow> (ValueAborts CxProperty, atoms')
         | (Inr bytes, atoms') \<Rightarrow> (ValueOf 4 32 bytes, atoms'))
      else if name = lit ''UTF8_STRING'' \<or> name = lit ''text/plain'' \<or> name = lit ''text/plain;charset=utf-8'' then
        (if utf8_chars payload = None then ValueFails CxInvalidUtf8
         else ValueOf (cf_target (cl_failure (pn_portal_request pending))) 8 payload, atoms)
      else (ValueFails CxUnsupportedTarget, atoms))"

definition execute_clipboard_payload ::
  "PortalTransferId \<Rightarrow> PortalGrant \<Rightarrow> u8 list \<Rightarrow> XAtomTable \<Rightarrow> XPropertyTable \<Rightarrow> XAuthorityRuntime
     \<Rightarrow> (ClipboardSelectionExecutionError + ClipboardSelectionExecutionOutcome)
        \<times> XAtomTable \<times> XPropertyTable \<times> XAuthorityRuntime" where
  "execute_clipboard_payload transfer grant payload atoms properties t =
     (case bt_get (xt_pending_clipboard t) transfer of
        None \<Rightarrow> (Inl CxUnknownTransfer, atoms, properties, t)
      | Some pending \<Rightarrow>
          let t' = t\<lparr>xt_pending_clipboard := bt_remove transfer (xt_pending_clipboard t)\<rparr>;
              request = pn_portal_request pending;
              failure = cl_failure request;
              fail = (\<lambda>e atoms. (Inr (CoFailed e (failure_notify failure)), atoms, properties, t')) in
          if pg_transfer grant \<noteq> transfer \<or> \<not> clipboard_grant_matches grant (cl_request request) then
            fail CxStaleOwnerGeneration atoms
          else (case current_owner_for_selection (xt_selections t) (cf_selection failure) of
              None \<Rightarrow> fail CxStaleOwnerGeneration atoms
            | Some owner \<Rightarrow>
                if so_generation owner \<noteq> cr_generation (cl_request request) then fail CxStaleOwnerGeneration atoms
                else if cl_property request = X_ATOM_NONE then fail CxMissingProperty atoms
                else if MAX_CLIPBOARD_TEXT_HANDOFF_BYTES < length payload then fail CxPayloadTooLarge atoms
                else if atom_name atoms (cf_selection failure) \<notin> {Some (lit ''PRIMARY''), Some (lit ''CLIPBOARD'')}
                  then fail CxUnsupportedTarget atoms
                else (case payload_value pending payload atoms of
                    (ValueAborts e, atoms') \<Rightarrow> (Inl e, atoms', properties, t')
                  | (ValueFails e, atoms') \<Rightarrow> fail e atoms'
                  | (ValueOf property_type format bytes, atoms') \<Rightarrow>
                      (case apply_change (pn_namespace pending)
                              \<lparr>xc_mode = PropReplace, xc_window = cf_requestor failure, xc_property = cl_property request,
                               xc_property_type = property_type, xc_format = format, xc_bytes = bytes\<rparr> properties of
                         Inl _ \<Rightarrow> fail CxProperty atoms'
                       | Inr (_, properties') \<Rightarrow>
                           (Inr (CoHandoff (handoff_of transfer request bytes)), atoms', properties', t')))))"

definition fail_clipboard_transfer ::
  "PortalTransferId \<Rightarrow> ClipboardSelectionExecutionError \<Rightarrow> XAuthorityRuntime
     \<Rightarrow> (ClipboardSelectionExecutionError + ClipboardSelectionExecutionOutcome) \<times> XAuthorityRuntime" where
  "fail_clipboard_transfer transfer e t =
     (case bt_get (xt_pending_clipboard t) transfer of
        None \<Rightarrow> (Inl CxUnknownTransfer, t)
      | Some pending \<Rightarrow>
          (Inr (CoFailed e (failure_notify (cl_failure (pn_portal_request pending)))),
           t\<lparr>xt_pending_clipboard := bt_remove transfer (xt_pending_clipboard t)\<rparr>))"

definition execute_clipboard_payload_frame ::
  "u8 list \<Rightarrow> PortalGrant \<Rightarrow> XAtomTable \<Rightarrow> XPropertyTable \<Rightarrow> XAuthorityRuntime
     \<Rightarrow> (ClipboardSelectionExecutionError + ClipboardSelectionExecutionOutcome)
        \<times> XAtomTable \<times> XPropertyTable \<times> XAuthorityRuntime" where
  "execute_clipboard_payload_frame frame grant atoms properties t =
     (case decode_portal_clipboard_payload_frame frame of
        Inl _ \<Rightarrow> (Inl CxExecutorFailure, atoms, properties, t)
      | Inr (transfer, payload) \<Rightarrow> execute_clipboard_payload transfer grant payload atoms properties t)"

section \<open>Resources\<close>

definition attach_shm_segment ::
  "NamespaceId \<Rightarrow> XResourceId \<Rightarrow> u32 \<Rightarrow> bool \<Rightarrow> u64 \<Rightarrow> XAuthorityRuntime \<Rightarrow> unit runtime_result" where
  "attach_shm_segment namespace segment shmid read_only generation t =
     update_then (shm_attach namespace segment shmid read_only generation (xt_shm_segments t))
       (\<lambda>s. t\<lparr>xt_shm_segments := s\<rparr>) t"

definition detach_shm_segment :: "NamespaceId \<Rightarrow> XResourceId \<Rightarrow> XAuthorityRuntime \<Rightarrow> unit runtime_result" where
  "detach_shm_segment namespace segment t =
     update_then (shm_detach namespace segment (xt_shm_segments t)) (\<lambda>s. t\<lparr>xt_shm_segments := s\<rparr>) t"

definition shm_segment_shmid :: "XAuthorityRuntime \<Rightarrow> NamespaceId \<Rightarrow> XResourceId \<Rightarrow> XAuthorityRuntimeError + u32" where
  "shm_segment_shmid t namespace segment =
     bind_res (access (shm_lookup (xt_shm_segments t) namespace segment)) (\<lambda>r. Inr (sm_shmid r))"

definition window_geometry :: "XAuthorityRuntime \<Rightarrow> NamespaceId \<Rightarrow> XResourceId \<Rightarrow> XAuthorityRuntimeError + Rect" where
  "window_geometry t namespace window =
     bind_res (validate_access RkWindow t namespace window) (\<lambda>_.
     ok_or (map_option xw_geometry (bt_get (xt_windows t) window)) XrUnknownResource)"

definition set_window_visual :: "XResourceId \<Rightarrow> u8 \<Rightarrow> u32 \<Rightarrow> XResourceId \<Rightarrow> XAuthorityRuntime \<Rightarrow> XAuthorityRuntime" where
  "set_window_visual window depth visual colormap t =
     t\<lparr>xt_window_visuals := bt_insert window (depth, visual, colormap) (xt_window_visuals t)\<rparr>"

definition window_visual :: "XAuthorityRuntime \<Rightarrow> XResourceId \<Rightarrow> u8 \<times> u32 \<times> XResourceId" where
  "window_visual t window =
     (case bt_get (xt_window_visuals t) window of
        Some v \<Rightarrow> v
      | None \<Rightarrow> (24, X_SETUP_DEFAULT_VISUAL, AuthorityLocalId (ucast X_SETUP_DEFAULT_COLORMAP) 1))"

text \<open>An id that is free for a new GLX object.\<close>

definition glx_id_taken :: "XAuthorityRuntime \<Rightarrow> XResourceId \<Rightarrow> bool" where
  "glx_id_taken t i \<longleftrightarrow>
     bt_contains (xt_resources t) i \<or> bt_contains (xt_glx_contexts t) i \<or> bt_contains (xt_glx_windows t) i"

definition create_glx_context :: "NamespaceId \<Rightarrow> XResourceId \<Rightarrow> u32 \<Rightarrow> bool \<Rightarrow> XAuthorityRuntime \<Rightarrow> unit runtime_result" where
  "create_glx_context namespace context_id fbconfig direct t =
     (if glx_id_taken t context_id then (Inl XrInvalidResource, t)
      else (Inr (), t\<lparr>xt_glx_contexts := bt_insert context_id (namespace, fbconfig, direct) (xt_glx_contexts t)\<rparr>))"

definition glx_context :: "XAuthorityRuntime \<Rightarrow> NamespaceId \<Rightarrow> XResourceId \<Rightarrow> XAuthorityRuntimeError + (u32 \<times> bool)" where
  "glx_context t namespace context_id =
     (case bt_get (xt_glx_contexts t) context_id of
        None \<Rightarrow> Inl XrUnknownResource
      | Some (owner, config, direct) \<Rightarrow> if owner = namespace then Inr (config, direct) else Inl XrUnknownResource)"

definition destroy_glx_context :: "NamespaceId \<Rightarrow> XResourceId \<Rightarrow> XAuthorityRuntime \<Rightarrow> unit runtime_result" where
  "destroy_glx_context namespace context_id t =
     check_then (glx_context t namespace context_id) t (\<lambda>_.
       (Inr (), t\<lparr>xt_glx_contexts := bt_remove context_id (xt_glx_contexts t)\<rparr>))"

definition create_glx_window ::
  "NamespaceId \<Rightarrow> XResourceId \<Rightarrow> XResourceId \<Rightarrow> u32 \<Rightarrow> XAuthorityRuntime \<Rightarrow> unit runtime_result" where
  "create_glx_window namespace glx_window window fbconfig t =
     check_then (validate_window_access t namespace window) t (\<lambda>_.
       if glx_id_taken t glx_window then (Inl XrInvalidResource, t)
       else (Inr (), t\<lparr>xt_glx_windows := bt_insert glx_window (namespace, window, fbconfig) (xt_glx_windows t)\<rparr>))"

definition glx_drawable ::
  "XAuthorityRuntime \<Rightarrow> NamespaceId \<Rightarrow> XResourceId \<Rightarrow> XAuthorityRuntimeError + (XResourceId \<times> u32)" where
  "glx_drawable t namespace drawable =
     (case bt_get (xt_glx_windows t) drawable of
        Some (owner, window, config) \<Rightarrow> if owner = namespace then Inr (window, config) else Inl XrUnknownResource
      | None \<Rightarrow>
          bind_res (validate_window_access t namespace drawable) (\<lambda>_.
          Inr (drawable, if fst (snd (window_visual t drawable)) = X_SETUP_ARGB_VISUAL then 3 else 1)))"

definition destroy_glx_window :: "NamespaceId \<Rightarrow> XResourceId \<Rightarrow> XAuthorityRuntime \<Rightarrow> unit runtime_result" where
  "destroy_glx_window namespace glx_window t =
     check_then (glx_drawable t namespace glx_window) t (\<lambda>_.
       (Inr (), t\<lparr>xt_glx_windows := bt_remove glx_window (xt_glx_windows t)\<rparr>))"

definition configure_window_geometry ::
  "NamespaceId \<Rightarrow> XResourceId \<Rightarrow> i16 option \<Rightarrow> i16 option \<Rightarrow> u16 option \<Rightarrow> u16 option \<Rightarrow> u64 \<Rightarrow> XAuthorityRuntime
     \<Rightarrow> unit runtime_result" where
  "configure_window_geometry namespace window x y width height generation t =
     check_then (validate_access RkWindow t namespace window) t (\<lambda>_.
       update_then (window_apply (WlConfigured window x y width height generation) (xt_windows t))
         (\<lambda>(_, windows). t\<lparr>xt_windows := windows\<rparr>) t)"

definition destroy_window :: "NamespaceId \<Rightarrow> XResourceId \<Rightarrow> XAuthorityRuntime \<Rightarrow> SurfaceId runtime_result" where
  "destroy_window namespace window t =
     check_then (validate_access RkWindow t namespace window) t (\<lambda>_.
     check_then (ok_or (bt_get (xt_windows t) window) XrUnknownResource) t (\<lambda>record.
       (Inr (xw_surface record),
        t\<lparr>xt_selections := clear_window_owner window (xt_windows t) SelectionWindowDestroyed (xt_selections t),
          xt_windows := bt_remove window (xt_windows t),
          xt_resources := bt_remove window (xt_resources t),
          xt_software_buffers := snd (store_remove window (xt_software_buffers t)),
          xt_window_background_pixels := bt_remove window (xt_window_background_pixels t),
          xt_window_visuals := bt_remove window (xt_window_visuals t),
          xt_glx_windows := filter (\<lambda>(_, (_, underlying, _)). underlying \<noteq> window) (xt_glx_windows t),
          xt_input_focus :=
            (case bt_get (xt_input_focus t) namespace of
               Some (focus, _) \<Rightarrow> if focus = window then bt_remove namespace (xt_input_focus t) else xt_input_focus t
             | None \<Rightarrow> xt_input_focus t)\<rparr>)))"

definition configure_window_size_from_engine ::
  "NamespaceId \<Rightarrow> XResourceId \<Rightarrow> Size \<Rightarrow> XAuthorityRuntime \<Rightarrow> Rect runtime_result" where
  "configure_window_size_from_engine namespace window extent t =
     (if sint (sz_width extent) \<le> 0 \<or> sint (sz_height extent) \<le> 0
        \<or> 65535 < sint (sz_width extent) \<or> 65535 < sint (sz_height extent) then (Inl XrInvalidResource, t)
      else check_then (window_geometry t namespace window) t (\<lambda>current.
      check_then (ok_or (map_option xw_window_generation (bt_get (xt_windows t) window)) XrUnknownResource) t (\<lambda>generation.
        case configure_window_geometry namespace window None None (Some (ucast (sz_width extent)))
               (Some (ucast (sz_height extent))) generation t of
          (Inl e, t') \<Rightarrow> (Inl e, t')
        | (Inr _, t') \<Rightarrow>
            (Inr (current\<lparr>rc_width := sz_width extent, rc_height := sz_height extent\<rparr>), t'))))"

fun map_windows :: "XResourceId list \<Rightarrow> u64 \<Rightarrow> XAuthorityRuntime \<Rightarrow> AuthoritySurface list runtime_result" where
  "map_windows [] generation t = (Inr [], t)"
| "map_windows (window # windows) generation t =
     (case access (window_apply (WlMapped window generation) (xt_windows t)) of
        Inl e \<Rightarrow> (Inl e, t)
      | Inr (surface, w) \<Rightarrow>
          (case map_windows windows generation (t\<lparr>xt_windows := w\<rparr>) of
             (Inl e, t') \<Rightarrow> (Inl e, t')
           | (Inr surfaces, t') \<Rightarrow> (Inr ((case surface of None \<Rightarrow> [] | Some s \<Rightarrow> [s]) @ surfaces), t')))"

definition map_namespace_windows :: "NamespaceId \<Rightarrow> u64 \<Rightarrow> XAuthorityRuntime \<Rightarrow> AuthoritySurface list runtime_result" where
  "map_namespace_windows namespace generation t =
     map_windows (ids_for_namespace (xt_windows t) namespace) generation t"

text \<open>A resource that is only an entry of the resource table.\<close>

definition insert_resource :: "XResourceKind \<Rightarrow> NamespaceId \<Rightarrow> XResourceId \<Rightarrow> u64 \<Rightarrow> XAuthorityRuntime \<Rightarrow> unit runtime_result" where
  "insert_resource kind namespace i generation t =
     update_then (resource_insert i kind namespace generation (xt_resources t)) (\<lambda>r. t\<lparr>xt_resources := r\<rparr>) t"

definition remove_resource :: "XResourceKind \<Rightarrow> NamespaceId \<Rightarrow> XResourceId \<Rightarrow> XAuthorityRuntime \<Rightarrow> unit runtime_result" where
  "remove_resource kind namespace i t =
     check_then (validate_access kind t namespace i) t (\<lambda>_.
       (Inr (), t\<lparr>xt_resources := bt_remove i (xt_resources t)\<rparr>))"

definition create_pixmap :: "NamespaceId \<Rightarrow> XResourceId \<Rightarrow> u64 \<Rightarrow> XAuthorityRuntime \<Rightarrow> unit runtime_result" where
  "create_pixmap = insert_resource RkPixmap"

definition free_pixmap :: "NamespaceId \<Rightarrow> XResourceId \<Rightarrow> XAuthorityRuntime \<Rightarrow> BufferHandle option runtime_result" where
  "free_pixmap namespace pixmap t =
     check_then (validate_access RkPixmap t namespace pixmap) t (\<lambda>_.
       (Inr (map_option db_handle (bt_get (xt_dri3_pixmaps t) pixmap)),
        t\<lparr>xt_resources := bt_remove pixmap (xt_resources t), xt_dri3_pixmaps := bt_remove pixmap (xt_dri3_pixmaps t)\<rparr>))"

definition DRM_FORMAT_MOD_INVALID :: u64 where "DRM_FORMAT_MOD_INVALID = word_max"

definition dri3_format :: "u8 \<Rightarrow> u8 \<Rightarrow> u32 option" where
  "dri3_format depth bits_per_pixel =
     (if depth = 24 \<and> bits_per_pixel = 32 then Some DRM_FORMAT_XRGB8888
      else if depth = 32 \<and> bits_per_pixel = 32 then Some DRM_FORMAT_ARGB8888 else None)"

text \<open>The end shared by the two DRI3 imports: a validated descriptor becomes a pixmap under the next handle.\<close>

definition register_dri3_pixmap ::
  "NamespaceId \<Rightarrow> XResourceId \<Rightarrow> u64 \<Rightarrow> DmaBufDescriptor \<Rightarrow> XAuthorityRuntime \<Rightarrow> DmaBufDescriptor runtime_result" where
  "register_dri3_pixmap namespace pixmap generation descriptor t =
     (case create_pixmap namespace pixmap generation t of
        (Inl e, t') \<Rightarrow> (Inl e, t')
      | (Inr _, t') \<Rightarrow>
          (Inr descriptor,
           t'\<lparr>xt_next_dma_buf_handle := max (sat_add (db_handle descriptor) 1) 1,
             xt_dri3_pixmaps := bt_insert pixmap descriptor (xt_dri3_pixmaps t')\<rparr>))"

definition create_dri3_pixmap ::
  "NamespaceId \<Rightarrow> XResourceId \<Rightarrow> u64 \<Rightarrow> u32 \<Rightarrow> u16 \<Rightarrow> u16 \<Rightarrow> u16 \<Rightarrow> u8 \<Rightarrow> u8 \<Rightarrow> XAuthorityRuntime
     \<Rightarrow> DmaBufDescriptor runtime_result" where
  "create_dri3_pixmap namespace pixmap generation size_bytes width height stride depth bits_per_pixel t =
     (case dri3_format depth bits_per_pixel of
        None \<Rightarrow> (Inl XrInvalidResource, t)
      | Some format \<Rightarrow>
          let descriptor = \<lparr>db_handle = max (xt_next_dma_buf_handle t) 1,
                            db_size = \<lparr>sz_width = ucast width, sz_height = ucast height\<rparr>, db_format = format,
                            db_modifier = DRM_FORMAT_MOD_INVALID, db_plane_count = 1,
                            db_planes = [Some \<lparr>dp_offset = 0, dp_stride = ucast stride\<rparr>, None, None, None]\<rparr> in
          if (case dmabuf_validate descriptor of Inl _ \<Rightarrow> True | Inr _ \<Rightarrow> False) then (Inl XrInvalidResource, t)
          else if unat size_bytes < unat stride * unat height then (Inl XrInvalidResource, t)
          else register_dri3_pixmap namespace pixmap generation descriptor t)"

definition create_dri3_pixmap_from_buffers ::
  "NamespaceId \<Rightarrow> XResourceId \<Rightarrow> u64 \<Rightarrow> u8 \<Rightarrow> u16 \<Rightarrow> u16 \<Rightarrow> u32 list \<Rightarrow> u32 list \<Rightarrow> u8 \<Rightarrow> u8 \<Rightarrow> u64 \<Rightarrow> XAuthorityRuntime
     \<Rightarrow> DmaBufDescriptor runtime_result" where
  "create_dri3_pixmap_from_buffers namespace pixmap generation num_buffers width height strides offsets depth
       bits_per_pixel modifier t =
     (case dri3_format depth bits_per_pixel of
        None \<Rightarrow> (Inl XrInvalidResource, t)
      | Some format \<Rightarrow>
          if num_buffers = 0 \<or> DMA_BUF_MAX_PLANES < unat num_buffers then (Inl XrInvalidResource, t)
          else
            let planes = map (\<lambda>index. if index < unat num_buffers
                   then Some \<lparr>dp_offset = offsets ! index, dp_stride = strides ! index\<rparr> else None) [0..<DMA_BUF_MAX_PLANES];
                descriptor = \<lparr>db_handle = max (xt_next_dma_buf_handle t) 1,
                            db_size = \<lparr>sz_width = ucast width, sz_height = ucast height\<rparr>, db_format = format,
                            db_modifier = modifier, db_plane_count = num_buffers, db_planes = planes\<rparr> in
            if (case dmabuf_validate descriptor of Inl _ \<Rightarrow> True | Inr _ \<Rightarrow> False) then (Inl XrInvalidResource, t)
            else register_dri3_pixmap namespace pixmap generation descriptor t)"

definition dri3_pixmap_descriptor ::
  "XAuthorityRuntime \<Rightarrow> NamespaceId \<Rightarrow> XResourceId \<Rightarrow> XAuthorityRuntimeError + DmaBufDescriptor" where
  "dri3_pixmap_descriptor t namespace pixmap =
     bind_res (validate_pixmap_access t namespace pixmap) (\<lambda>_.
     ok_or (bt_get (xt_dri3_pixmaps t) pixmap) XrUnknownResource)"

definition create_xfixes_region :: "NamespaceId \<Rightarrow> XResourceId \<Rightarrow> Rect list \<Rightarrow> u64 \<Rightarrow> XAuthorityRuntime \<Rightarrow> unit runtime_result" where
  "create_xfixes_region namespace region rectangles generation t =
     update_then (resource_insert region RkRegion namespace generation (xt_resources t))
       (\<lambda>r. t\<lparr>xt_resources := r,
              xt_xfixes_regions := bt_insert region \<lparr>rg_rects = rectangles\<rparr> (xt_xfixes_regions t)\<rparr>) t"

definition set_xfixes_region :: "NamespaceId \<Rightarrow> XResourceId \<Rightarrow> Rect list \<Rightarrow> XAuthorityRuntime \<Rightarrow> unit runtime_result" where
  "set_xfixes_region namespace region rectangles t =
     check_then (validate_xfixes_region_access t namespace region) t (\<lambda>_.
       (Inr (), t\<lparr>xt_xfixes_regions := bt_insert region \<lparr>rg_rects = rectangles\<rparr> (xt_xfixes_regions t)\<rparr>))"

definition destroy_xfixes_region :: "NamespaceId \<Rightarrow> XResourceId \<Rightarrow> XAuthorityRuntime \<Rightarrow> unit runtime_result" where
  "destroy_xfixes_region namespace region t =
     check_then (validate_xfixes_region_access t namespace region) t (\<lambda>_.
       (Inr (), t\<lparr>xt_resources := bt_remove region (xt_resources t),
                  xt_xfixes_regions := bt_remove region (xt_xfixes_regions t)\<rparr>))"

definition create_dri3_fence :: "NamespaceId \<Rightarrow> XResourceId \<Rightarrow> u64 \<Rightarrow> XAuthorityRuntime \<Rightarrow> FenceHandle runtime_result" where
  "create_dri3_fence namespace fence generation t =
     check_then (access (resource_insert fence RkFence namespace generation (xt_resources t))) t (\<lambda>resources.
       let handle = max (xt_next_fence_handle t) 1 in
       (Inr handle,
        t\<lparr>xt_resources := resources, xt_next_fence_handle := max (sat_add handle 1) 1,
          xt_dri3_fences := bt_insert fence handle (xt_dri3_fences t)\<rparr>))"

definition dri3_fence_handle :: "XAuthorityRuntime \<Rightarrow> NamespaceId \<Rightarrow> XResourceId \<Rightarrow> XAuthorityRuntimeError + FenceHandle" where
  "dri3_fence_handle t namespace fence =
     bind_res (validate_dri3_fence_access t namespace fence) (\<lambda>_.
     ok_or (bt_get (xt_dri3_fences t) fence) XrUnknownResource)"

definition destroy_dri3_fence :: "NamespaceId \<Rightarrow> XResourceId \<Rightarrow> XAuthorityRuntime \<Rightarrow> FenceHandle runtime_result" where
  "destroy_dri3_fence namespace fence t =
     check_then (validate_dri3_fence_access t namespace fence) t (\<lambda>_.
       (ok_or (bt_get (xt_dri3_fences t) fence) XrUnknownResource,
        t\<lparr>xt_resources := bt_remove fence (xt_resources t), xt_dri3_fences := bt_remove fence (xt_dri3_fences t)\<rparr>))"

definition open_font :: "NamespaceId \<Rightarrow> XResourceId \<Rightarrow> u64 \<Rightarrow> XAuthorityRuntime \<Rightarrow> unit runtime_result" where
  "open_font = insert_resource RkFont"

definition close_font :: "NamespaceId \<Rightarrow> XResourceId \<Rightarrow> XAuthorityRuntime \<Rightarrow> unit runtime_result" where
  "close_font = remove_resource RkFont"

definition create_cursor :: "NamespaceId \<Rightarrow> XResourceId \<Rightarrow> u64 \<Rightarrow> XAuthorityRuntime \<Rightarrow> unit runtime_result" where
  "create_cursor = insert_resource RkCursor"

definition free_cursor :: "NamespaceId \<Rightarrow> XResourceId \<Rightarrow> XAuthorityRuntime \<Rightarrow> unit runtime_result" where
  "free_cursor = remove_resource RkCursor"

definition validate_drawable_access :: "XAuthorityRuntime \<Rightarrow> NamespaceId \<Rightarrow> XResourceId \<Rightarrow> XAuthorityRuntimeError + unit" where
  "validate_drawable_access t namespace drawable =
     (if al_raw drawable = ucast X_SETUP_DEFAULT_ROOT then Inr ()
      else if \<not> id_is_valid namespace then Inl XrInvalidNamespace
      else case bt_get (xt_resources t) drawable of
          None \<Rightarrow> Inl XrUnknownResource
        | Some record \<Rightarrow>
            if xr_kind record \<noteq> RkWindow \<and> xr_kind record \<noteq> RkPixmap then Inl XrWrongResourceKind
            else if xr_owner_namespace record \<noteq> namespace then Inl XrCrossNamespaceDenied
            else Inr ())"

definition create_graphics_context ::
  "NamespaceId \<Rightarrow> XResourceId \<Rightarrow> XResourceId \<Rightarrow> XGraphicsContextValues \<Rightarrow> XAuthorityRuntime \<Rightarrow> unit runtime_result" where
  "create_graphics_context namespace gc drawable values t =
     check_then (validate_drawable_access t namespace drawable) t (\<lambda>_.
     check_then (case gv_font values of None \<Rightarrow> Inr () | Some font \<Rightarrow> validate_font_access t namespace font) t (\<lambda>_.
       update_then (gc_create namespace gc drawable values (xt_graphics_contexts t))
         (\<lambda>g. t\<lparr>xt_graphics_contexts := g\<rparr>) t))"

definition graphics_context_values ::
  "XAuthorityRuntime \<Rightarrow> NamespaceId \<Rightarrow> XResourceId \<Rightarrow> XAuthorityRuntimeError + XGraphicsContextValues" where
  "graphics_context_values t namespace gc =
     bind_res (access (gc_get (xt_graphics_contexts t) namespace gc)) (\<lambda>r. Inr (gc_values r))"

definition change_graphics_context ::
  "NamespaceId \<Rightarrow> XResourceId \<Rightarrow> u32 \<Rightarrow> XGraphicsContextValues \<Rightarrow> XAuthorityRuntime \<Rightarrow> unit runtime_result" where
  "change_graphics_context namespace gc bits values t =
     check_then (case gv_font values of
         Some font \<Rightarrow> if bit bits 14 then validate_font_access t namespace font else Inr ()
       | None \<Rightarrow> Inr ()) t (\<lambda>_.
       update_then (gc_change namespace gc bits values (xt_graphics_contexts t)) (\<lambda>g. t\<lparr>xt_graphics_contexts := g\<rparr>) t)"

definition set_graphics_context_clip_rectangles ::
  "NamespaceId \<Rightarrow> XResourceId \<Rightarrow> Rect list \<Rightarrow> XAuthorityRuntime \<Rightarrow> unit runtime_result" where
  "set_graphics_context_clip_rectangles namespace gc rectangles t =
     update_then (set_clip_rectangles namespace gc rectangles (xt_graphics_contexts t))
       (\<lambda>g. t\<lparr>xt_graphics_contexts := g\<rparr>) t"

definition free_graphics_context :: "NamespaceId \<Rightarrow> XResourceId \<Rightarrow> XAuthorityRuntime \<Rightarrow> unit runtime_result" where
  "free_graphics_context namespace gc t =
     update_then (gc_remove namespace gc (xt_graphics_contexts t)) (\<lambda>g. t\<lparr>xt_graphics_contexts := g\<rparr>) t"

definition window_background_pixel :: "XAuthorityRuntime \<Rightarrow> NamespaceId \<Rightarrow> XResourceId \<Rightarrow> XAuthorityRuntimeError + u32" where
  "window_background_pixel t namespace window =
     bind_res (validate_window_access t namespace window) (\<lambda>_.
     Inr (or_default 0 (bt_get (xt_window_background_pixels t) window)))"

definition set_window_background_pixel :: "NamespaceId \<Rightarrow> XResourceId \<Rightarrow> u32 \<Rightarrow> XAuthorityRuntime \<Rightarrow> unit runtime_result" where
  "set_window_background_pixel namespace window pixel t =
     check_then (validate_window_access t namespace window) t (\<lambda>_.
       (Inr (), t\<lparr>xt_window_background_pixels := bt_insert window pixel (xt_window_background_pixels t)\<rparr>))"

section \<open>Drawing\<close>

type_synonym runtime_response = "XAuthorityResponsePacket \<times> XAuthorityRuntime"

definition finish_drawing_update :: "XDrawingUpdate \<Rightarrow> XAuthorityRuntime \<Rightarrow> runtime_response" where
  "finish_drawing_update update t =
     (case access (surface_transaction_from_drawing_update (xt_windows t) update) of
        Inl e \<Rightarrow> (rejected (du_transaction update) e, t)
      | Inr transaction \<Rightarrow>
          (case access (advance_generation (du_target_window update) (du_previous_committed_generation update) (xt_windows t)) of
             Inl e \<Rightarrow> (rejected (du_transaction update) e, t)
           | Inr (_, windows) \<Rightarrow>
               ((accepted (du_transaction update))\<lparr>xs_transactions := [transaction]\<rparr>, t\<lparr>xt_windows := windows\<rparr>)))"

definition window_size :: "XWindowRecord \<Rightarrow> Size" where
  "window_size w = \<lparr>sz_width = rc_width (xw_geometry w), sz_height = rc_height (xw_geometry w)\<rparr>"

text \<open>The end shared by the drawing requests: the update becomes the last one and a transaction of the window.\<close>

definition publish ::
  "(TransactionId \<Rightarrow> NamespaceId \<Rightarrow> XResourceId \<Rightarrow> u64 \<Rightarrow> Region \<Rightarrow> u64 \<Rightarrow> u32 \<Rightarrow> XDrawingUpdate)
     \<Rightarrow> TransactionId \<Rightarrow> NamespaceId \<Rightarrow> XResourceId \<Rightarrow> Region \<Rightarrow> u64 \<Rightarrow> XAuthorityCpuBufferUpdate \<Rightarrow> XAuthorityRuntime
     \<Rightarrow> runtime_response" where
  "publish update_of transaction namespace window damage generation update t =
     finish_drawing_update (update_of transaction namespace window (update_handle update) damage generation 250)
       (t\<lparr>xt_last_cpu_buffer_update := Some update\<rparr>)"

definition present_standard_pixmap ::
  "TransactionId \<Rightarrow> NamespaceId \<Rightarrow> XResourceId \<Rightarrow> XResourceId \<Rightarrow> XAuthorityRuntime \<Rightarrow> runtime_response" where
  "present_standard_pixmap transaction namespace window pixmap t =
     (case bt_get (xt_windows t) window of
        None \<Rightarrow> (rejected transaction XrUnknownResource, t)
      | Some record \<Rightarrow>
          if xw_namespace record \<noteq> namespace then (rejected transaction XrUnknownResource, t)
          else (case validate_pixmap_access t namespace pixmap of
              Inl e \<Rightarrow> (rejected transaction e, t)
            | Inr _ \<Rightarrow>
                let buffer = (case bt_get (xt_dri3_pixmaps t) pixmap of
                      None \<Rightarrow> BufXPixmap (if unat (al_raw pixmap) < 2 ^ 32 then ucast (al_raw pixmap) else 0)
                    | Some d \<Rightarrow> BufDmaBuf (db_handle d)) in
                finish_drawing_update (present_buffer transaction namespace window buffer
                  (region_single \<lparr>rc_x = 0, rc_y = 0, rc_width = rc_width (xw_geometry record),
                                  rc_height = rc_height (xw_geometry record)\<rparr>)
                  (xw_window_generation record) 250) t))"

text \<open>A drawing on the buffer of a known window; what to do without an update is the caller's.\<close>

definition draw_on_window ::
  "TransactionId \<Rightarrow> XResourceId \<Rightarrow> XAuthorityRuntime
     \<Rightarrow> (XWindowRecord \<Rightarrow> XSoftwareBufferStore \<Rightarrow> XAuthorityCpuBufferUpdate option \<times> XSoftwareBufferStore)
     \<Rightarrow> (XAuthorityRuntime \<Rightarrow> runtime_response)
     \<Rightarrow> (XWindowRecord \<Rightarrow> XAuthorityCpuBufferUpdate \<Rightarrow> XAuthorityRuntime \<Rightarrow> runtime_response) \<Rightarrow> runtime_response" where
  "draw_on_window transaction window t draw otherwise finish =
     (case bt_get (xt_windows t) window of
        None \<Rightarrow> (rejected transaction XrUnknownResource, t)
      | Some record \<Rightarrow>
          (case draw record (xt_software_buffers t) of
             (None, s) \<Rightarrow> otherwise (t\<lparr>xt_software_buffers := s\<rparr>)
           | (Some update, s) \<Rightarrow> finish record update (t\<lparr>xt_software_buffers := s\<rparr>)))"

definition apply_core_draw_with_gc ::
  "TransactionId \<Rightarrow> NamespaceId \<Rightarrow> XResourceId \<Rightarrow> Region \<Rightarrow> XGraphicsContextValues \<Rightarrow> XAuthorityRuntime \<Rightarrow> runtime_response" where
  "apply_core_draw_with_gc transaction namespace window damage gc t =
     draw_on_window transaction window t
       (\<lambda>record. paint_damage window (window_size record) (rg_rects damage) gc)
       (\<lambda>t. (rejected transaction XrInvalidResource, t))
       (\<lambda>record. publish core_draw transaction namespace window damage (xw_window_generation record))"

definition apply_core_draw ::
  "TransactionId \<Rightarrow> NamespaceId \<Rightarrow> XResourceId \<Rightarrow> Region \<Rightarrow> XAuthorityRuntime \<Rightarrow> runtime_response" where
  "apply_core_draw transaction namespace window damage =
     apply_core_draw_with_gc transaction namespace window damage gc_values_default"

definition apply_copy_area ::
  "TransactionId \<Rightarrow> NamespaceId \<Rightarrow> XResourceId \<Rightarrow> XResourceId \<Rightarrow> Region \<Rightarrow> XAuthorityRuntime \<Rightarrow> runtime_response" where
  "apply_copy_area transaction namespace source destination damage t =
     (case validate_drawable_access t namespace source of
        Inl e \<Rightarrow> (rejected transaction e, t)
      | Inr _ \<Rightarrow>
          (case validate_pixmap_access t namespace destination of
             Inr _ \<Rightarrow> (accepted transaction, t)
           | Inl _ \<Rightarrow> apply_core_draw transaction namespace destination damage t))"

definition apply_copy_area_with_gc ::
  "TransactionId \<Rightarrow> NamespaceId \<Rightarrow> XResourceId \<Rightarrow> XResourceId \<Rightarrow> i16 \<Rightarrow> i16 \<Rightarrow> i16 \<Rightarrow> i16 \<Rightarrow> u16 \<Rightarrow> u16
     \<Rightarrow> XGraphicsContextValues \<Rightarrow> XAuthorityRuntime \<Rightarrow> runtime_response" where
  "apply_copy_area_with_gc transaction namespace source destination src_x src_y dst_x dst_y width height gc t =
     (case validate_drawable_access t namespace source of
        Inl e \<Rightarrow> (rejected transaction e, t)
      | Inr _ \<Rightarrow>
          (case validate_pixmap_access t namespace destination of
             Inr _ \<Rightarrow> (accepted transaction, t)
           | Inl _ \<Rightarrow>
               let damage = region_single \<lparr>rc_x = scast dst_x, rc_y = scast dst_y, rc_width = ucast width,
                                          rc_height = ucast height\<rparr> in
               draw_on_window transaction destination t
                 (\<lambda>record. copy_area source destination (window_size record)
                    \<lparr>rc_x = scast src_x, rc_y = scast src_y, rc_width = ucast width, rc_height = ucast height\<rparr>
                    dst_x dst_y gc)
                 (apply_core_draw_with_gc transaction namespace destination damage gc)
                 (\<lambda>record. publish core_draw transaction namespace destination damage (xw_window_generation record))))"

definition line_damage :: "XPoint list \<Rightarrow> u16 \<Rightarrow> Region" where
  "line_damage points line_width =
     (let xs = map (\<lambda>p. sint (xp_x p)) points; ys = map (\<lambda>p. sint (xp_y p)) points;
          least = (\<lambda>vs. case vs of [] \<Rightarrow> 0 | v # vs \<Rightarrow> fold min vs v);
          greatest = (\<lambda>vs. case vs of [] \<Rightarrow> 0 | v # vs \<Rightarrow> fold max vs v);
          width = max (int (unat line_width)) 1 in
      region_single (rect_of_ints (least xs) (least ys)
        (i32_clamp (i32_clamp (greatest xs - least xs) + width)) (i32_clamp (i32_clamp (greatest ys - least ys) + width))))"

definition apply_line_draw ::
  "TransactionId \<Rightarrow> NamespaceId \<Rightarrow> XResourceId \<Rightarrow> XPoint list \<Rightarrow> XGraphicsContextValues \<Rightarrow> XAuthorityRuntime
     \<Rightarrow> runtime_response" where
  "apply_line_draw transaction namespace window points gc t =
     draw_on_window transaction window t
       (\<lambda>record. draw_lines window (window_size record) points gc)
       (\<lambda>t. (accepted transaction, t))
       (\<lambda>record. publish core_draw transaction namespace window (line_damage points (gv_line_width gc))
          (xw_window_generation record))"

text \<open>An image, or a plain fill of the damage when there is no data or the image gives no update.\<close>

definition image_or_fill ::
  "XResourceId \<Rightarrow> Region \<Rightarrow> u8 list option \<Rightarrow> Size \<Rightarrow> XSoftwareBufferStore
     \<Rightarrow> XAuthorityCpuBufferUpdate option \<times> XSoftwareBufferStore" where
  "image_or_fill window damage data extent s =
     (let (r, s1) = (case (data, rg_rects damage) of
            (Some bytes, rect # _) \<Rightarrow> put_image window extent rect bytes s
          | _ \<Rightarrow> (None, s)) in
      case r of
        Some update \<Rightarrow> (Some update, s1)
      | None \<Rightarrow> paint_damage window extent (rg_rects damage) gc_values_default s1)"

definition apply_put_image ::
  "TransactionId \<Rightarrow> NamespaceId \<Rightarrow> XResourceId \<Rightarrow> Region \<Rightarrow> u8 list option \<Rightarrow> XAuthorityRuntime \<Rightarrow> runtime_response" where
  "apply_put_image transaction namespace window damage data t =
     draw_on_window transaction window t
       (\<lambda>record. image_or_fill window damage data (window_size record))
       (\<lambda>t. (rejected transaction XrInvalidResource, t))
       (\<lambda>record. publish shm_put_image transaction namespace window damage (xw_window_generation record))"

definition apply_text_draw ::
  "TransactionId \<Rightarrow> NamespaceId \<Rightarrow> XResourceId \<Rightarrow> i16 \<Rightarrow> i16 \<Rightarrow> u8 list \<Rightarrow> bool \<Rightarrow> XGraphicsContextValues
     \<Rightarrow> XAuthorityRuntime \<Rightarrow> runtime_response" where
  "apply_text_draw transaction namespace window x baseline chars opaque gc t =
     (let damage = region_single
            \<lparr>rc_x = scast x, rc_y = i32_sat_sub (scast baseline) 10,
             rc_width = i32_max (i32_of_usize (usize_sat (length chars * 8))) 1, rc_height = 12\<rparr> in
      draw_on_window transaction window t
       (\<lambda>record. draw_text window (window_size record) x baseline chars opaque gc)
       (\<lambda>t. (rejected transaction XrInvalidResource, t))
       (\<lambda>record. publish core_draw transaction namespace window damage (xw_window_generation record)))"

definition apply_clear_with_pixel ::
  "TransactionId \<Rightarrow> NamespaceId \<Rightarrow> XResourceId \<Rightarrow> Region \<Rightarrow> u32 \<Rightarrow> XAuthorityRuntime \<Rightarrow> runtime_response" where
  "apply_clear_with_pixel transaction namespace window damage pixel t =
     (case bt_get (xt_windows t) window of
        None \<Rightarrow> (rejected transaction XrUnknownResource, t)
      | Some _ \<Rightarrow>
          (case rg_rects damage of
             [] \<Rightarrow> (accepted transaction, t)
           | rect # _ \<Rightarrow>
               draw_on_window transaction window t
                 (\<lambda>record. store_clear window (window_size record) rect pixel)
                 (\<lambda>t. (rejected transaction XrInvalidResource, t))
                 (\<lambda>record. publish core_draw transaction namespace window damage (xw_window_generation record))))"

definition apply_clear :: "TransactionId \<Rightarrow> NamespaceId \<Rightarrow> XResourceId \<Rightarrow> Region \<Rightarrow> XAuthorityRuntime \<Rightarrow> runtime_response" where
  "apply_clear transaction namespace window damage = apply_clear_with_pixel transaction namespace window damage 0"

section \<open>Releasing a client\<close>

definition release_empty :: XAuthorityClientResourceRelease where
  "release_empty =
     \<lparr>rl_destroyed_windows = [], rl_removed_surfaces = [], rl_released_pixmaps = 0, rl_released_fonts = 0,
      rl_released_cursors = 0, rl_released_graphics_contexts = 0, rl_released_shm_segments = 0,
      rl_released_glx_contexts = 0, rl_released_glx_windows = 0, rl_released_dma_bufs = [], rl_released_fences = []\<rparr>"

fun free_graphics_contexts :: "NamespaceId \<Rightarrow> XResourceId list \<Rightarrow> XAuthorityRuntime \<Rightarrow> unit runtime_result" where
  "free_graphics_contexts namespace [] t = (Inr (), t)"
| "free_graphics_contexts namespace (gc # gcs) t =
     (case free_graphics_context namespace gc t of
        (Inl e, t') \<Rightarrow> (Inl e, t')
      | (Inr _, t') \<Rightarrow> free_graphics_contexts namespace gcs t')"

fun detach_shm_segments :: "NamespaceId \<Rightarrow> XResourceId list \<Rightarrow> XAuthorityRuntime \<Rightarrow> unit runtime_result" where
  "detach_shm_segments namespace [] t = (Inr (), t)"
| "detach_shm_segments namespace (segment # segments) t =
     (case detach_shm_segment namespace segment t of
        (Inl e, t') \<Rightarrow> (Inl e, t')
      | (Inr _, t') \<Rightarrow> detach_shm_segments namespace segments t')"

definition release_record ::
  "NamespaceId \<Rightarrow> XResourceRecord \<Rightarrow> XAuthorityClientResourceRelease \<Rightarrow> XAuthorityRuntime
     \<Rightarrow> XAuthorityClientResourceRelease runtime_result" where
  "release_record namespace record release t =
     (let i = xr_id record in
      case xr_kind record of
        RkWindow \<Rightarrow>
          (case destroy_window namespace i t of
             (Inl e, t') \<Rightarrow> (Inl e, t')
           | (Inr surface, t') \<Rightarrow>
               (Inr (release\<lparr>rl_destroyed_windows := rl_destroyed_windows release @ [i],
                             rl_removed_surfaces := rl_removed_surfaces release @ [surface]\<rparr>), t'))
      | RkPixmap \<Rightarrow>
          (case free_pixmap namespace i t of
             (Inl e, t') \<Rightarrow> (Inl e, t')
           | (Inr handle, t') \<Rightarrow>
               (Inr (release\<lparr>rl_released_dma_bufs := rl_released_dma_bufs release @
                               (case handle of None \<Rightarrow> [] | Some h \<Rightarrow> [h]),
                             rl_released_pixmaps := rl_released_pixmaps release + 1\<rparr>), t'))
      | RkFont \<Rightarrow>
          (case close_font namespace i t of
             (Inl e, t') \<Rightarrow> (Inl e, t')
           | (Inr _, t') \<Rightarrow> (Inr (release\<lparr>rl_released_fonts := rl_released_fonts release + 1\<rparr>), t'))
      | RkCursor \<Rightarrow>
          (case free_cursor namespace i t of
             (Inl e, t') \<Rightarrow> (Inl e, t')
           | (Inr _, t') \<Rightarrow> (Inr (release\<lparr>rl_released_cursors := rl_released_cursors release + 1\<rparr>), t'))
      | RkFence \<Rightarrow>
          (Inr (release\<lparr>rl_released_fences := rl_released_fences release @
                          (case bt_get (xt_dri3_fences t) i of None \<Rightarrow> [] | Some h \<Rightarrow> [h])\<rparr>),
           t\<lparr>xt_resources := bt_remove i (xt_resources t), xt_dri3_fences := bt_remove i (xt_dri3_fences t)\<rparr>)
      | RkRegion \<Rightarrow>
          (Inr release,
           t\<lparr>xt_resources := bt_remove i (xt_resources t), xt_xfixes_regions := bt_remove i (xt_xfixes_regions t)\<rparr>)
      | _ \<Rightarrow> (Inr release, t\<lparr>xt_resources := bt_remove i (xt_resources t)\<rparr>))"

fun release_records ::
  "NamespaceId \<Rightarrow> XResourceRecord list \<Rightarrow> XAuthorityClientResourceRelease \<Rightarrow> XAuthorityRuntime
     \<Rightarrow> XAuthorityClientResourceRelease runtime_result" where
  "release_records namespace [] release t = (Inr release, t)"
| "release_records namespace (record # records) release t =
     (case release_record namespace record release t of
        (Inl e, t') \<Rightarrow> (Inl e, t')
      | (Inr release', t') \<Rightarrow> release_records namespace records release' t')"

definition owned_by :: "NamespaceId \<Rightarrow> XWireClientResourceRange \<Rightarrow> XResourceId \<times> NamespaceId \<times> 'a \<Rightarrow> bool" where
  "owned_by namespace rng entry \<longleftrightarrow> fst (snd entry) = namespace \<and> range_owns_id rng (fst entry)"

definition release_client_resource_range ::
  "NamespaceId \<Rightarrow> XWireClientResourceRange \<Rightarrow> XAuthorityRuntime \<Rightarrow> XAuthorityClientResourceRelease runtime_result" where
  "release_client_resource_range namespace rng t =
     (if \<not> id_is_valid namespace then (Inl XrInvalidNamespace, t)
      else
        let gcs = gc_ids_for_namespace_in_client_range (xt_graphics_contexts t) namespace rng;
            segments = shm_ids_for_namespace_in_client_range (xt_shm_segments t) namespace rng;
            release = release_empty
              \<lparr>rl_released_glx_contexts := length (filter (owned_by namespace rng) (xt_glx_contexts t)),
               rl_released_glx_windows := length (filter (owned_by namespace rng) (xt_glx_windows t)),
               rl_released_graphics_contexts := length gcs, rl_released_shm_segments := length segments\<rparr>;
            t1 = t\<lparr>xt_glx_contexts := filter (\<lambda>e. \<not> owned_by namespace rng e) (xt_glx_contexts t),
                   xt_glx_windows := filter (\<lambda>e. \<not> owned_by namespace rng e) (xt_glx_windows t)\<rparr> in
        case free_graphics_contexts namespace gcs t1 of
          (Inl e, t2) \<Rightarrow> (Inl e, t2)
        | (Inr _, t2) \<Rightarrow>
            (case detach_shm_segments namespace segments t2 of
               (Inl e, t3) \<Rightarrow> (Inl e, t3)
             | (Inr _, t3) \<Rightarrow>
                 release_records namespace
                   (records_for_namespace_in_client_range (xt_resources t3) namespace rng) release t3))"

end
