(* ===== verification/X_Isolation.thy ===== *)
theory X_Isolation
  imports X_Runtime
begin

text \<open>
  What the X authority promises to its clients. Every resource id belongs to the setup range of one
  client, so to one namespace; the facts below take that assignment as \<open>alloc\<close> and assume of each call
  only that the ids it creates are the caller's own, which the wire decoder enforces
  (\<^verbatim>\<open>validate_new_resource_id\<close>). They show that no sequence of calls of other namespaces changes the
  resources, windows, graphics contexts, segments, contexts, regions, fences and imported buffers of
  a namespace; \<^verbatim>\<open>X_Release\<close> builds on them for the release of a client.
\<close>

section \<open>Tables whose entries have an owner\<close>

definition entries :: "('k \<Rightarrow> 'v \<Rightarrow> bool) \<Rightarrow> ('k, 'v) btree \<Rightarrow> bool" where
  "entries P m \<longleftrightarrow> (\<forall>k v. (k, v) \<in> set m \<longrightarrow> P k v)"

lemma entries_Nil [simp]: "entries P []"
  by (simp add: entries_def)

lemma entries_get: "entries P m \<Longrightarrow> bt_get m k = Some v \<Longrightarrow> P k v"
  using map_of_SomeD [of m k v] by (auto simp: entries_def)

lemma entries_insert [simp]: "entries P m \<Longrightarrow> P k v \<Longrightarrow> entries P (bt_insert k v m)"
  using set_bt_insert [of k v m] by (auto simp: entries_def)

lemma entries_filter [simp]: "entries P m \<Longrightarrow> entries P (filter Q m)"
  by (auto simp: entries_def)

lemma entries_remove [simp]: "entries P m \<Longrightarrow> entries P (bt_remove k m)"
  by (simp add: bt_remove_def)

lemma entries_update [simp]: "entries P m \<Longrightarrow> (\<And>v. P k v \<Longrightarrow> P k (f v)) \<Longrightarrow> entries P (bt_update k f m)"
  by (auto simp: entries_def bt_update_def)

lemma get_filter_all: "(\<And>v. (k, v) \<in> set m \<Longrightarrow> Q (k, v)) \<Longrightarrow> bt_get (filter Q m) k = bt_get m k"
  by (induction m) auto

lemma get_filter_keep: "bt_get m k = Some v \<Longrightarrow> Q (k, v) \<Longrightarrow> bt_get (filter Q m) k = Some v"
  by (induction m) (auto split: if_splits)

section \<open>Ownership\<close>

definition allocated :: "(XResourceId \<Rightarrow> NamespaceId) \<Rightarrow> XAuthorityRuntime \<Rightarrow> bool" where
  "allocated alloc t \<longleftrightarrow>
     entries (\<lambda>i r. xr_id r = i \<and> xr_owner_namespace r = alloc i) (xt_resources t)
     \<and> entries (\<lambda>i w. xw_id w = i \<and> xw_namespace w = alloc i) (xt_windows t)
     \<and> entries (\<lambda>i r. sm_id r = i \<and> sm_namespace r = alloc i \<and> xresource_is_valid i) (xt_shm_segments t)
     \<and> entries (\<lambda>i r. gc_id r = i \<and> gc_namespace r = alloc i) (xt_graphics_contexts t)
     \<and> entries (\<lambda>i c. fst c = alloc i) (xt_glx_contexts t)
     \<and> entries (\<lambda>i c. fst c = alloc i) (xt_glx_windows t)
     \<and> bt_wf (xt_resources t) \<and> bt_wf (xt_shm_segments t) \<and> bt_wf (xt_graphics_contexts t)"

text \<open>What two states have in common for the namespace \<open>n\<close>.\<close>

definition kept :: "(XResourceId \<Rightarrow> NamespaceId) \<Rightarrow> NamespaceId \<Rightarrow> XAuthorityRuntime \<Rightarrow> XAuthorityRuntime \<Rightarrow> bool" where
  "kept alloc n t t' \<longleftrightarrow>
     (\<forall>i. alloc i = n \<longrightarrow>
        bt_get (xt_resources t') i = bt_get (xt_resources t) i
        \<and> bt_get (xt_windows t') i = bt_get (xt_windows t) i
        \<and> bt_get (xt_shm_segments t') i = bt_get (xt_shm_segments t) i
        \<and> bt_get (xt_graphics_contexts t') i = bt_get (xt_graphics_contexts t) i
        \<and> bt_get (xt_dri3_pixmaps t') i = bt_get (xt_dri3_pixmaps t) i
        \<and> bt_get (xt_dri3_fences t') i = bt_get (xt_dri3_fences t) i
        \<and> bt_get (xt_xfixes_regions t') i = bt_get (xt_xfixes_regions t) i
        \<and> bt_get (xt_glx_contexts t') i = bt_get (xt_glx_contexts t) i
        \<and> (\<forall>e. alloc (fst (snd e)) = n \<longrightarrow> bt_get (xt_glx_windows t) i = Some e \<longrightarrow> bt_get (xt_glx_windows t') i = Some e))
     \<and> bt_get (xt_input_focus t') n = bt_get (xt_input_focus t) n"

lemma kept_refl [simp]: "kept alloc n t t"
  by (simp add: kept_def)

lemma kept_trans: "kept alloc n t u \<Longrightarrow> kept alloc n u v \<Longrightarrow> kept alloc n t v"
  by (simp add: kept_def)

text \<open>A step of namespace \<open>a\<close>: ownership stays right and every other namespace keeps what it has.\<close>

definition own_step :: "(XResourceId \<Rightarrow> NamespaceId) \<Rightarrow> NamespaceId \<Rightarrow> XAuthorityRuntime \<Rightarrow> XAuthorityRuntime \<Rightarrow> bool" where
  "own_step alloc a t t' \<longleftrightarrow> (allocated alloc t \<longrightarrow> allocated alloc t' \<and> (\<forall>n. n \<noteq> a \<longrightarrow> kept alloc n t t'))"

lemma own_step_refl [simp]: "own_step alloc a t t"
  by (simp add: own_step_def)

lemma own_step_trans: "own_step alloc a t u \<Longrightarrow> own_step alloc a u v \<Longrightarrow> own_step alloc a t v"
  by (auto simp: own_step_def intro: kept_trans)

text \<open>Fields outside the owned tables do not matter.\<close>

lemma own_step_other [simp]:
  "own_step alloc a t (t\<lparr>xt_selections := x1\<rparr>)" "own_step alloc a t (t\<lparr>xt_clipboard := x2\<rparr>)"
  "own_step alloc a t (t\<lparr>xt_pending_clipboard := x3\<rparr>)" "own_step alloc a t (t\<lparr>xt_clipboard_proxies := x4\<rparr>)"
  "own_step alloc a t (t\<lparr>xt_software_buffers := x5\<rparr>)" "own_step alloc a t (t\<lparr>xt_last_cpu_buffer_update := x6\<rparr>)"
  "own_step alloc a t (t\<lparr>xt_window_background_pixels := x7\<rparr>)"
  "own_step alloc a t (t\<lparr>xt_clipboard := x2, xt_pending_clipboard := x3\<rparr>)"
  "own_step alloc a t (t\<lparr>xt_next_clipboard_proxy := x8, xt_clipboard_proxies := x4\<rparr>)"
  by (simp_all add: own_step_def allocated_def kept_def)

section \<open>Access checks\<close>

lemma resource_lookup_Inr:
  "resource_lookup m n i k = Inr r \<Longrightarrow> bt_get m i = Some r \<and> xr_owner_namespace r = n \<and> xr_kind r = k"
  by (auto simp: resource_lookup_def split: if_splits option.splits)

lemma access_simps [simp]:
  "access (Inr x) = Inr x" "access (Inl e) = Inl (from_access_error e)" "access r = Inr x \<longleftrightarrow> r = Inr x"
  by (auto simp: access_def split: sum.splits)

lemma validate_access_owner:
  "validate_access k t n i = Inr u \<Longrightarrow> allocated alloc t \<Longrightarrow> alloc i = n"
  by (auto simp: validate_access_def allocated_def dest!: resource_lookup_Inr dest: entries_get)

lemmas validate_owner =
  validate_access_owner [where k = RkPixmap, folded validate_pixmap_access_def]
  validate_access_owner [where k = RkRegion, folded validate_xfixes_region_access_def]
  validate_access_owner [where k = RkFence, folded validate_dri3_fence_access_def]
  validate_access_owner

text \<open>A check that holds only for the caller's own ids guards the rest of a call.\<close>

lemma own_step_check:
  assumes "\<And>x. r = Inr x \<Longrightarrow> own_step alloc a t (snd (k x))"
  shows "own_step alloc a t (snd (check_then r t k))"
  using assms by (auto simp: check_then_def split: sum.split)

lemma own_step_update:
  assumes "\<And>x. r = Inr x \<Longrightarrow> own_step alloc a t (f x)"
  shows "own_step alloc a t (snd (update_then r f t))"
proof (cases "access r")
  case (Inr x)
  then have "own_step alloc a t (f x)" using assms by simp
  then show ?thesis using Inr by (simp add: update_then_def)
qed (simp add: update_then_def)

section \<open>One table at a time\<close>

lemma own_resources:
  "alloc i = a \<Longrightarrow> resource_insert i k a g (xt_resources t) = Inr m \<Longrightarrow> own_step alloc a t (t\<lparr>xt_resources := m\<rparr>)"
  "alloc i = a \<Longrightarrow> own_step alloc a t (t\<lparr>xt_resources := bt_remove i (xt_resources t)\<rparr>)"
  by (auto simp: own_step_def allocated_def kept_def resource_insert_def bt_get_insert bt_get_remove split: if_splits)

lemma own_shm:
  "alloc i = a \<Longrightarrow> shm_attach a i s ro g (xt_shm_segments t) = Inr m \<Longrightarrow> own_step alloc a t (t\<lparr>xt_shm_segments := m\<rparr>)"
  by (auto simp: own_step_def allocated_def kept_def shm_attach_def bt_get_insert split: if_splits)

lemma own_shm_detach:
  assumes "shm_detach a i (xt_shm_segments t) = Inr m"
  shows "own_step alloc a t (t\<lparr>xt_shm_segments := m\<rparr>)"
proof -
  obtain r where r: "bt_get (xt_shm_segments t) i = Some r" "sm_namespace r = a" and m: "m = bt_remove i (xt_shm_segments t)"
    using assms by (auto simp: shm_detach_def shm_lookup_def split: if_splits option.splits)
  have "allocated alloc t \<Longrightarrow> alloc i = a" using r by (auto simp: allocated_def dest: entries_get)
  then show ?thesis by (auto simp: own_step_def allocated_def kept_def m bt_get_remove)
qed

lemma own_gc_create:
  "alloc i = a \<Longrightarrow> gc_create a i d v (xt_graphics_contexts t) = Inr m \<Longrightarrow> own_step alloc a t (t\<lparr>xt_graphics_contexts := m\<rparr>)"
  by (auto simp: own_step_def allocated_def kept_def gc_create_def bt_get_insert split: if_splits)

lemma own_gc_modify:
  assumes "gc_modify f a i (xt_graphics_contexts t) = Inr m"
  shows "own_step alloc a t (t\<lparr>xt_graphics_contexts := m\<rparr>)"
proof -
  obtain r where r: "bt_get (xt_graphics_contexts t) i = Some r" "gc_namespace r = a"
    and m: "m = bt_update i (\<lambda>r. r\<lparr>gc_values := f (gc_values r)\<rparr>) (xt_graphics_contexts t)"
    using assms by (auto simp: gc_modify_def split: if_splits option.splits)
  have "allocated alloc t \<Longrightarrow> alloc i = a" using r by (auto simp: allocated_def dest: entries_get)
  then show ?thesis by (auto simp: own_step_def allocated_def kept_def m bt_get_update)
qed

lemma own_gc_remove:
  assumes "gc_remove a i (xt_graphics_contexts t) = Inr m"
  shows "own_step alloc a t (t\<lparr>xt_graphics_contexts := m\<rparr>)"
proof -
  obtain r where r: "bt_get (xt_graphics_contexts t) i = Some r" "gc_namespace r = a"
    and m: "m = bt_remove i (xt_graphics_contexts t)"
    using assms by (auto simp: gc_remove_def gc_get_def split: if_splits option.splits)
  have "allocated alloc t \<Longrightarrow> alloc i = a" using r by (auto simp: allocated_def dest: entries_get)
  then show ?thesis by (auto simp: own_step_def allocated_def kept_def m bt_get_remove)
qed

lemma own_window_created:
  "alloc i = a \<Longrightarrow> window_apply (WlCreated i s a g c n) (xt_windows t) = Inr (x, m) \<Longrightarrow> own_step alloc a t (t\<lparr>xt_windows := m\<rparr>)"
  by (auto simp: own_step_def allocated_def kept_def bt_get_insert Let_def split: if_splits)

lemma own_window_modify:
  assumes "window_modify i f (xt_windows t) = Inr (x, m)" "\<And>w. xw_id (f w) = xw_id w \<and> xw_namespace (f w) = xw_namespace w"
    and "allocated alloc t \<Longrightarrow> alloc i = a"
  shows "own_step alloc a t (t\<lparr>xt_windows := m\<rparr>)"
  using assms by (auto simp: own_step_def allocated_def kept_def window_modify_def bt_get_update split: option.splits)

lemma own_window_advance:
  assumes "advance_generation i g (xt_windows t) = Inr (x, m)" "bt_get (xt_windows t) i = Some w" "xw_namespace w = a"
  shows "own_step alloc a t (t\<lparr>xt_windows := m\<rparr>)"
proof -
  have "allocated alloc t \<Longrightarrow> alloc i = a" using assms(2,3) by (auto simp: allocated_def dest: entries_get)
  then show ?thesis
    using assms(1)
    by (auto simp: own_step_def allocated_def kept_def advance_generation_def bt_get_update split: option.splits if_splits)
qed

lemma own_focus: "own_step alloc a t (t\<lparr>xt_input_focus := bt_insert a f (xt_input_focus t)\<rparr>)"
  by (simp add: own_step_def allocated_def kept_def bt_get_insert)

lemma own_glx:
  "alloc i = a \<Longrightarrow> own_step alloc a t (t\<lparr>xt_glx_contexts := bt_insert i (a, x) (xt_glx_contexts t)\<rparr>)"
  "alloc i = a \<Longrightarrow> own_step alloc a t (t\<lparr>xt_glx_windows := bt_insert i (a, y) (xt_glx_windows t)\<rparr>)"
  by (auto simp: own_step_def allocated_def kept_def bt_get_insert)

lemma own_glx_remove:
  assumes "allocated alloc t \<Longrightarrow> alloc i = a \<or> bt_get (xt_glx_windows t) i = None"
  shows "own_step alloc a t (t\<lparr>xt_glx_windows := bt_remove i (xt_glx_windows t)\<rparr>)"
  using assms by (auto simp: own_step_def allocated_def kept_def bt_get_remove)

lemma own_glx_context_remove:
  assumes "glx_context t a i = Inr x"
  shows "own_step alloc a t (t\<lparr>xt_glx_contexts := bt_remove i (xt_glx_contexts t)\<rparr>)"
proof -
  obtain y where "bt_get (xt_glx_contexts t) i = Some (a, y)"
    using assms by (auto simp: glx_context_def split: option.splits if_splits prod.splits)
  then have "allocated alloc t \<Longrightarrow> alloc i = a" by (auto simp: allocated_def dest: entries_get)
  then show ?thesis by (auto simp: own_step_def allocated_def kept_def bt_get_remove)
qed

section \<open>Calls\<close>

lemma own_set_input_focus: "own_step alloc a t (snd (set_input_focus a f r t))"
  by (auto simp: set_input_focus_def own_focus intro!: own_step_check)

lemma own_window_event:
  assumes "\<And>s m. window_apply e (xt_windows t) = Inr (s, m) \<Longrightarrow> own_step alloc a t (t\<lparr>xt_windows := m\<rparr>)"
  shows "own_step alloc a t (snd (window_event e response t))"
  using assms by (auto simp: window_event_def access_def split: sum.split prod.split)

lemma own_window_mapped:
  assumes "window_apply (WlMapped i g) (xt_windows t) = Inr (x, m)" "allocated alloc t \<Longrightarrow> alloc i = a"
  shows "own_step alloc a t (t\<lparr>xt_windows := m\<rparr>)"
  using assms by (intro own_window_modify [where i = i and f = "\<lambda>w. w\<lparr>xw_map_state := Mapped\<rparr>"]) auto

lemma own_transaction:
  assumes "surface_transaction_from_drawing_update (xt_windows t) u = Inr s"
    and "advance_generation (du_target_window u) g (xt_windows t) = Inr (x, m)"
  shows "own_step alloc (du_requester_namespace u) t (t\<lparr>xt_windows := m\<rparr>)"
  using assms(1) own_window_advance [OF assms(2)]
  by (auto simp: surface_transaction_from_drawing_update_def split: if_splits option.splits)

lemma own_finish_drawing_update: "own_step alloc (du_requester_namespace u) t (snd (finish_drawing_update u t))"
  by (auto simp: finish_drawing_update_def access_def own_transaction split: sum.split prod.split)

text \<open>The ids that a request creates.\<close>

fun created_by_request :: "XAuthorityRequestKind \<Rightarrow> XResourceId list" where
  "created_by_request (CreateWindow window _ _ _ _) = [window]"
| "created_by_request _ = []"

lemma own_apply_kind:
  assumes "\<forall>i\<in>set (created_by_request k). alloc i = xq_namespace q"
  shows "own_step alloc (xq_namespace q) t (snd (apply_kind k q t))"
proof (cases k)
  case (CreateWindow w s g c n)
  show ?thesis unfolding CreateWindow apply_kind.simps
  proof (rule own_step_check)
    fix m
    assume "access (resource_insert w RkWindow (xq_namespace q) n (xt_resources t)) = Inr m"
    then have "own_step alloc (xq_namespace q) t (t\<lparr>xt_resources := m\<rparr>)"
      using assms CreateWindow by (intro own_resources(1)) auto
    moreover have "own_step alloc (xq_namespace q) (t\<lparr>xt_resources := m\<rparr>)
        (snd (window_event (WlCreated w s (xq_namespace q) g c n) (accepted (xq_transaction q)) (t\<lparr>xt_resources := m\<rparr>)))"
      using assms CreateWindow by (intro own_window_event own_window_created) auto
    ultimately show "own_step alloc (xq_namespace q) t
        (snd (window_event (WlCreated w s (xq_namespace q) g c n) (accepted (xq_transaction q)) (t\<lparr>xt_resources := m\<rparr>)))"
      by (rule own_step_trans)
  qed
next
  case (MapWindow w g)
  show ?thesis unfolding MapWindow apply_kind.simps
    by (rule own_step_check, rule own_window_event, erule own_window_mapped)
      (auto simp: allocated_def dest!: resource_lookup_Inr dest: entries_get)
next
  case (PresentPixmap w p d g n)
  let ?u = "present_pixmap (xq_transaction q) (xq_namespace q) w p d g n"
  have u: "du_requester_namespace ?u = xq_namespace q" "du_target_window ?u = w"
    by (simp_all add: present_pixmap_def drawing_update_def)
  show ?thesis unfolding PresentPixmap apply_kind.simps
    by (intro own_step_check) (auto intro: own_transaction [where u = ?u, unfolded u])
next
  case (SetSelectionOwner s o' tm st c)
  show ?thesis unfolding SetSelectionOwner apply_kind.simps
    by (intro own_step_check) (auto simp: Let_def split: prod.split)
next
  case (RequestSelection r s tg nm p tm tr)
  show ?thesis unfolding RequestSelection apply_kind.simps
    by (intro own_step_check) (auto split: prod.split sum.split ClipboardSelectionDispatch.split)
qed

lemma own_runtime_apply:
  assumes "\<forall>i\<in>set (created_by_request (xq_kind q)). alloc i = xq_namespace q"
  shows "own_step alloc (xq_namespace q) t (snd (runtime_apply q t))"
  using own_apply_kind [OF assms, of t]
  by (auto simp: runtime_apply_def apply_checked_def Let_def split: prod.split sum.split XAuthorityRequestKind.split)

lemma own_insert_resource: "alloc i = a \<Longrightarrow> own_step alloc a t (snd (insert_resource k a i g t))"
  unfolding insert_resource_def by (rule own_step_update) (rule own_resources(1))

lemma own_remove_resource: "own_step alloc a t (snd (remove_resource k a i t))"
  unfolding remove_resource_def
  by (rule own_step_check) (auto simp: own_step_def dest: validate_access_owner own_resources(2) [unfolded own_step_def])

lemma own_configure: "own_step alloc a t (snd (configure_window_geometry a i x y w h g t))"
  unfolding configure_window_geometry_def
proof (rule own_step_check, rule own_step_update)
  fix u v
  assume v: "validate_access RkWindow t a i = Inr u" and "window_apply (WlConfigured i x y w h g) (xt_windows t) = Inr v"
  then obtain s m where m: "v = (s, m)" "window_modify i (\<lambda>r. r\<lparr>xw_geometry := configure_rect x y w h (xw_geometry r)\<rparr>) (xt_windows t)
      = Inr (s, m)" by (cases v) auto
  show "own_step alloc a t (case v of (_, windows) \<Rightarrow> t\<lparr>xt_windows := windows\<rparr>)"
    using own_window_modify [OF m(2)] validate_access_owner [OF v] by (simp add: m(1))
qed

lemma own_configure_from_engine: "own_step alloc a t (snd (configure_window_size_from_engine a i e t))"
proof -
  have "own_step alloc a t t'" if "configure_window_geometry a i x y w h g t = (r, t')" for x y w h g r t'
    using own_configure [of alloc a t i x y w h g] that by simp
  then show ?thesis
    unfolding configure_window_size_from_engine_def
    by (auto intro!: own_step_check split: prod.split sum.split)
qed

lemma own_map_windows:
  assumes "\<And>i. i \<in> set is \<Longrightarrow> alloc i = a"
  shows "own_step alloc a t (snd (map_windows is g t))"
  using assms
proof (induction "is" arbitrary: t)
  case (Cons i "is")
  show ?case
  proof (cases "window_apply (WlMapped i g) (xt_windows t)")
    case (Inr p)
    obtain s m where p: "p = (s, m)" by force
    have "own_step alloc a t (t\<lparr>xt_windows := m\<rparr>)"
      using Cons.prems Inr by (intro own_window_mapped [where i = i]) (auto simp: p)
    moreover have "own_step alloc a (t\<lparr>xt_windows := m\<rparr>) (snd (map_windows is g (t\<lparr>xt_windows := m\<rparr>)))"
      using Cons by auto
    ultimately have "own_step alloc a t (snd (map_windows is g (t\<lparr>xt_windows := m\<rparr>)))" by (rule own_step_trans)
    then show ?thesis using Inr by (auto simp: p split: prod.split sum.split)
  qed simp
qed simp

lemma own_step_if_allocated: "(allocated alloc t \<Longrightarrow> own_step alloc a t t') \<Longrightarrow> own_step alloc a t t'"
  by (auto simp: own_step_def)

lemma own_map_namespace_windows: "own_step alloc a t (snd (map_namespace_windows a g t))"
proof (rule own_step_if_allocated)
  assume "allocated alloc t"
  then have "alloc i = a" if "i \<in> set (ids_for_namespace (xt_windows t) a)" for i
    using that by (auto simp: ids_for_namespace_def bt_values_def allocated_def entries_def)
  then show "own_step alloc a t (snd (map_namespace_windows a g t))"
    unfolding map_namespace_windows_def by (rule own_map_windows)
qed

lemma own_destroy_window: "own_step alloc a t (snd (destroy_window a i t))"
  unfolding destroy_window_def
proof (intro own_step_check)
  fix u w
  assume v: "validate_access RkWindow t a i = Inr u"
  show "own_step alloc a t (snd (Inr (xw_surface w),
        t\<lparr>xt_selections := clear_window_owner i (xt_windows t) SelectionWindowDestroyed (xt_selections t),
          xt_windows := bt_remove i (xt_windows t),
          xt_resources := bt_remove i (xt_resources t),
          xt_software_buffers := snd (store_remove i (xt_software_buffers t)),
          xt_window_background_pixels := bt_remove i (xt_window_background_pixels t),
          xt_window_visuals := bt_remove i (xt_window_visuals t),
          xt_glx_windows := filter (\<lambda>(_, (_, underlying, _)). underlying \<noteq> i) (xt_glx_windows t),
          xt_input_focus :=
            (case bt_get (xt_input_focus t) a of
               Some (focus, _) \<Rightarrow> if focus = i then bt_remove a (xt_input_focus t) else xt_input_focus t
             | None \<Rightarrow> xt_input_focus t)\<rparr>))" (is "own_step alloc a t (snd (_, ?t'))")
  proof (rule own_step_if_allocated)
    assume al: "allocated alloc t"
    then have i: "alloc i = a" using validate_access_owner [OF v] by simp
    have "allocated alloc ?t'" using al by (simp add: allocated_def)
    moreover have "kept alloc n t ?t'" if "n \<noteq> a" for n
      using that i by (auto simp: kept_def bt_get_remove split: option.split intro!: get_filter_keep)
    ultimately show "own_step alloc a t (snd (Inr (xw_surface w), ?t'))" by (simp add: own_step_def)
  qed
qed

lemma own_free_pixmap: "own_step alloc a t (snd (free_pixmap a i t))"
  unfolding free_pixmap_def
  by (rule own_step_check)
    (auto simp: own_step_def allocated_def kept_def bt_get_remove dest!: validate_access_owner [where alloc = alloc] cong: conj_cong)

lemma own_beside:
  "alloc i = a \<Longrightarrow> own_step alloc a t (t\<lparr>xt_dri3_pixmaps := bt_insert i d (xt_dri3_pixmaps t)\<rparr>)"
  "alloc i = a \<Longrightarrow> own_step alloc a t (t\<lparr>xt_next_dma_buf_handle := h, xt_dri3_pixmaps := bt_insert i d (xt_dri3_pixmaps t)\<rparr>)"
  "alloc i = a \<Longrightarrow> own_step alloc a t (t\<lparr>xt_next_fence_handle := h, xt_dri3_fences := bt_insert i f (xt_dri3_fences t)\<rparr>)"
  "alloc i = a \<Longrightarrow> own_step alloc a t (t\<lparr>xt_xfixes_regions := bt_insert i r (xt_xfixes_regions t)\<rparr>)"
  "alloc i = a \<Longrightarrow> own_step alloc a t (t\<lparr>xt_dri3_fences := bt_remove i (xt_dri3_fences t)\<rparr>)"
  "alloc i = a \<Longrightarrow> own_step alloc a t (t\<lparr>xt_xfixes_regions := bt_remove i (xt_xfixes_regions t)\<rparr>)"
  by (auto simp: own_step_def allocated_def kept_def bt_get_insert bt_get_remove)

text \<open>Removing a resource with what is kept beside it.\<close>

lemma own_remove_beside:
  assumes "alloc i = a"
  shows "own_step alloc a t (t\<lparr>xt_resources := bt_remove i (xt_resources t), xt_dri3_fences := bt_remove i (xt_dri3_fences t)\<rparr>)"
    and "own_step alloc a t
      (t\<lparr>xt_resources := bt_remove i (xt_resources t), xt_xfixes_regions := bt_remove i (xt_xfixes_regions t)\<rparr>)"
  using own_step_trans [OF own_resources(2) [where alloc = alloc, OF assms] own_beside(5) [where alloc = alloc, OF assms]]
    own_step_trans [OF own_resources(2) [where alloc = alloc, OF assms] own_beside(6) [where alloc = alloc, OF assms]] by simp_all

lemma own_register_dri3: "alloc i = a \<Longrightarrow> own_step alloc a t (snd (register_dri3_pixmap a i g d t))"
proof -
  assume i: "alloc i = a"
  have "own_step alloc a t t'" if "create_pixmap a i g t = (r, t')" for r t'
    using own_insert_resource [where alloc = alloc, OF i, of t RkPixmap g] that by (simp add: create_pixmap_def)
  then show ?thesis
    unfolding register_dri3_pixmap_def
    by (auto intro: own_step_trans [OF _ own_beside(2) [where alloc = alloc, OF i]] split: prod.split sum.split)
qed

lemma own_create_dri3:
  "alloc i = a \<Longrightarrow> own_step alloc a t (snd (create_dri3_pixmap a i g sz w h st dp bpp t))"
  "alloc i = a \<Longrightarrow> own_step alloc a t (snd (create_dri3_pixmap_from_buffers a i g nb w h sts os dp bpp md t))"
  by (auto simp: create_dri3_pixmap_def create_dri3_pixmap_from_buffers_def own_register_dri3 Let_def
      split: option.split)

lemma own_regions:
  "alloc i = a \<Longrightarrow> own_step alloc a t (snd (create_xfixes_region a i rs g t))"
  "own_step alloc a t (snd (set_xfixes_region a i rs t))"
  "own_step alloc a t (snd (destroy_xfixes_region a i t))"
proof -
  assume i: "alloc i = a"
  show "own_step alloc a t (snd (create_xfixes_region a i rs g t))"
    unfolding create_xfixes_region_def
  proof (rule own_step_update)
    fix m
    assume "resource_insert i RkRegion a g (xt_resources t) = Inr m"
    from own_step_trans [OF own_resources(1) [where alloc = alloc, OF i this] own_beside(4) [where alloc = alloc, OF i]]
    show "own_step alloc a t (t\<lparr>xt_resources := m, xt_xfixes_regions := bt_insert i \<lparr>rg_rects = rs\<rparr> (xt_xfixes_regions t)\<rparr>)"
      by simp
  qed
next
  show "own_step alloc a t (snd (set_xfixes_region a i rs t))"
    unfolding set_xfixes_region_def
    by (rule own_step_check, rule own_step_if_allocated) (simp add: own_beside validate_owner)
next
  show "own_step alloc a t (snd (destroy_xfixes_region a i t))"
    unfolding destroy_xfixes_region_def
    by (rule own_step_check, rule own_step_if_allocated) (simp add: own_remove_beside validate_owner)
qed

lemma own_fences:
  "alloc i = a \<Longrightarrow> own_step alloc a t (snd (create_dri3_fence a i g t))"
  "own_step alloc a t (snd (destroy_dri3_fence a i t))"
proof -
  assume i: "alloc i = a"
  show "own_step alloc a t (snd (create_dri3_fence a i g t))"
    unfolding create_dri3_fence_def Let_def
  proof (rule own_step_check)
    fix m
    assume "access (resource_insert i RkFence a g (xt_resources t)) = Inr m"
    then have "own_step alloc a t (t\<lparr>xt_resources := m\<rparr>)" by (intro own_resources(1) [where alloc = alloc, OF i]) simp
    from own_step_trans [OF this own_beside(3) [where alloc = alloc, OF i]]
    show "own_step alloc a t (snd (Inr (max (xt_next_fence_handle t) 1), t\<lparr>xt_resources := m,
        xt_next_fence_handle := max (sat_add (max (xt_next_fence_handle t) 1) 1) 1,
        xt_dri3_fences := bt_insert i (max (xt_next_fence_handle t) 1) (xt_dri3_fences t)\<rparr>))"
      by simp
  qed
next
  show "own_step alloc a t (snd (destroy_dri3_fence a i t))"
    unfolding destroy_dri3_fence_def
    by (rule own_step_check, rule own_step_if_allocated) (simp add: own_remove_beside validate_owner)
qed

lemma own_graphics_contexts:
  "alloc i = a \<Longrightarrow> own_step alloc a t (snd (create_graphics_context a i d v t))"
  "own_step alloc a t (snd (change_graphics_context a i bits v t))"
  "own_step alloc a t (snd (set_graphics_context_clip_rectangles a i rs t))"
  "own_step alloc a t (snd (free_graphics_context a i t))"
  unfolding create_graphics_context_def change_graphics_context_def set_graphics_context_clip_rectangles_def
    free_graphics_context_def gc_change_def set_clip_rectangles_def
  by (intro own_step_check own_step_update own_gc_create own_gc_modify own_gc_remove; assumption)+

lemma own_glx_calls:
  "alloc i = a \<Longrightarrow> own_step alloc a t (snd (create_glx_context a i c d t))"
  "own_step alloc a t (snd (destroy_glx_context a i t))"
  "alloc i = a \<Longrightarrow> own_step alloc a t (snd (create_glx_window a i w c t))"
  "own_step alloc a t (snd (destroy_glx_window a i t))"
proof -
  show "own_step alloc a t (snd (destroy_glx_context a i t))"
    unfolding destroy_glx_context_def by (rule own_step_check) (auto intro: own_glx_context_remove)
  show "own_step alloc a t (snd (destroy_glx_window a i t))"
    unfolding destroy_glx_window_def
  proof (rule own_step_check)
    fix p
    assume p: "glx_drawable t a i = Inr p"
    have "alloc i = a \<or> bt_get (xt_glx_windows t) i = None" if "allocated alloc t"
    proof (cases "bt_get (xt_glx_windows t) i")
      case (Some e)
      then have "fst e = a" using p by (auto simp: glx_drawable_def split: if_splits prod.splits)
      moreover have "fst e = alloc i"
        using that entries_get [where m = "xt_glx_windows t" and P = "\<lambda>i c. fst c = alloc i", OF _ Some]
        by (simp add: allocated_def)
      ultimately show ?thesis by simp
    qed simp
    then show "own_step alloc a t (snd (Inr (), t\<lparr>xt_glx_windows := bt_remove i (xt_glx_windows t)\<rparr>))"
      using own_glx_remove by simp
  qed
qed (auto simp: create_glx_context_def create_glx_window_def own_glx intro!: own_step_check)

section \<open>Drawing\<close>

lemma own_publish:
  assumes "\<And>tx n w h d g ms. du_requester_namespace (up tx n w h d g ms) = n"
  shows "own_step alloc a t (snd (publish up tx a w d g u t))"
proof -
  let ?t = "t\<lparr>xt_last_cpu_buffer_update := Some u\<rparr>" and ?u = "up tx a w (update_handle u) d g 250"
  have "own_step alloc a ?t (snd (finish_drawing_update ?u ?t))"
    using own_finish_drawing_update [of alloc ?u ?t] assms by simp
  then show ?thesis unfolding publish_def by (rule own_step_trans [OF own_step_other(6)])
qed

lemma requesters [simp]:
  "du_requester_namespace (core_draw tx n w h d g ms) = n" "du_requester_namespace (shm_put_image tx n w h d g ms) = n"
  "du_requester_namespace (present_buffer tx n w b d g ms) = n"
  by (simp_all add: core_draw_def shm_put_image_def present_buffer_def drawing_update_def)

lemma own_draw_on_window:
  assumes "\<And>t. own_step alloc a t (snd (otherwise t))" "\<And>w u t. own_step alloc a t (snd (finish w u t))"
  shows "own_step alloc a t (snd (draw_on_window tx i t draw otherwise finish))"
  unfolding draw_on_window_def
  by (auto split: option.split prod.split intro: own_step_trans [OF own_step_other(5)] assms)

lemmas own_draw_intros = own_draw_on_window own_publish requesters

lemma own_core_draw: "own_step alloc a t (snd (apply_core_draw_with_gc tx a w d gc t))"
  unfolding apply_core_draw_with_gc_def by (rule own_draw_on_window) (auto intro: own_publish)

lemma own_drawing:
  "own_step alloc a t (snd (apply_copy_area tx a src dst d t))"
  "own_step alloc a t (snd (apply_copy_area_with_gc tx a src dst sx sy dx dy w h gc t))"
  "own_step alloc a t (snd (apply_line_draw tx a win ps gc t))"
  "own_step alloc a t (snd (apply_put_image tx a win d data t))"
  "own_step alloc a t (snd (apply_text_draw tx a win x y cs op gc t))"
  "own_step alloc a t (snd (apply_clear_with_pixel tx a win d px t))"
  unfolding apply_copy_area_def apply_copy_area_with_gc_def apply_line_draw_def apply_put_image_def apply_text_draw_def
    apply_clear_with_pixel_def apply_core_draw_def Let_def
  by (auto split: sum.split option.split list.split intro!: own_draw_on_window own_publish own_core_draw)

lemma own_present_standard: "own_step alloc a t (snd (present_standard_pixmap tx a w p t))"
proof -
  have "own_step alloc a t (snd (finish_drawing_update (present_buffer tx a w b d g ms) t))" for b d g ms
    using own_finish_drawing_update [of alloc "present_buffer tx a w b d g ms" t] by simp
  then show ?thesis
    by (auto simp: present_standard_pixmap_def Let_def split: option.split sum.split)
qed

section \<open>Releasing a client\<close>

lemma own_free_graphics_contexts: "own_step alloc a t (snd (free_graphics_contexts a gcs t))"
proof (induction gcs arbitrary: t)
  case (Cons gc gcs)
  obtain r t' where r: "free_graphics_context a gc t = (r, t')" by force
  have "own_step alloc a t t'" using own_graphics_contexts(4) [of alloc a t gc] by (simp add: r)
  then show ?case using Cons [of t'] by (cases r) (auto simp: r intro: own_step_trans)
qed simp

lemma own_shm_calls:
  "alloc i = a \<Longrightarrow> own_step alloc a t (snd (attach_shm_segment a i s ro g t))"
  "own_step alloc a t (snd (detach_shm_segment a i t))"
  unfolding attach_shm_segment_def detach_shm_segment_def
  by (intro own_step_update own_shm own_shm_detach; assumption)+

lemma own_detach_shm_segments: "own_step alloc a t (snd (detach_shm_segments a segs t))"
proof (induction segs arbitrary: t)
  case (Cons seg segs)
  obtain r t' where r: "detach_shm_segment a seg t = (r, t')" by force
  have "own_step alloc a t t'" using own_shm_calls(2) [of alloc a t seg] by (simp add: r)
  then show ?case using Cons [of t'] by (cases r) (auto simp: r intro: own_step_trans)
qed simp

lemma own_release_record:
  assumes "alloc (xr_id record) = a"
  shows "own_step alloc a t (snd (release_record a record release t))"
proof (cases "xr_kind record")
  case RkWindow
  then show ?thesis
    using own_destroy_window [of alloc a t "xr_id record"] by (auto simp: release_record_def Let_def split: prod.split sum.split)
next
  case RkPixmap
  then show ?thesis
    using own_free_pixmap [of alloc a t "xr_id record"] by (auto simp: release_record_def Let_def split: prod.split sum.split)
next
  case RkFont
  then show ?thesis
    using own_remove_resource [of alloc a t RkFont "xr_id record"]
    by (auto simp: release_record_def close_font_def Let_def split: prod.split sum.split)
next
  case RkCursor
  then show ?thesis
    using own_remove_resource [of alloc a t RkCursor "xr_id record"]
    by (auto simp: release_record_def free_cursor_def Let_def split: prod.split sum.split)
qed (use assms in \<open>simp_all add: release_record_def Let_def own_resources own_remove_beside\<close>)

lemma own_release_records:
  assumes "\<And>r. r \<in> set records \<Longrightarrow> alloc (xr_id r) = a"
  shows "own_step alloc a t (snd (release_records a records release t))"
  using assms
proof (induction records arbitrary: t release)
  case (Cons x xs)
  obtain r t' where r: "release_record a x release t = (r, t')" by force
  have "own_step alloc a t t'" using own_release_record [of alloc x a t release] Cons.prems by (simp add: r)
  then show ?case using Cons by (cases r) (auto simp: r intro: own_step_trans)
qed simp

lemma get_unowned:
  assumes "entries (\<lambda>i c. fst c = alloc i) m" "alloc i \<noteq> a"
  shows "bt_get (filter (\<lambda>e. \<not> owned_by a rng e) m) i = bt_get m i"
proof (rule get_filter_all)
  fix v
  assume "(i, v) \<in> set m"
  then have "fst v = alloc i" using assms(1) unfolding entries_def by blast
  then show "\<not> owned_by a rng (i, v)" using assms(2) by (simp add: owned_by_def)
qed

lemma own_release_range: "own_step alloc a t (snd (release_client_resource_range a rng t))"
proof -
  let ?t1 = "t\<lparr>xt_glx_contexts := filter (\<lambda>e. \<not> owned_by a rng e) (xt_glx_contexts t),
    xt_glx_windows := filter (\<lambda>e. \<not> owned_by a rng e) (xt_glx_windows t)\<rparr>"
  have glx: "own_step alloc a t ?t1"
    by (auto simp: own_step_def allocated_def kept_def get_unowned)
  have gcs: "own_step alloc a t t2" if "free_graphics_contexts a gcs ?t1 = (r, t2)" for gcs r t2
    using own_step_trans [OF glx own_free_graphics_contexts [of alloc a ?t1 gcs]] that by simp
  have shm: "own_step alloc a t t3"
    if "free_graphics_contexts a gcs ?t1 = (r, t2)" "detach_shm_segments a segs t2 = (r', t3)" for gcs segs r r' t2 t3
    using own_step_trans [OF gcs [OF that(1)] own_detach_shm_segments [of alloc a t2 segs]] that by simp
  have rest: "own_step alloc a u (snd (release_records a (records_for_namespace_in_client_range (xt_resources u) a rng) rl u))"
    for u rl
    by (rule own_step_if_allocated, rule own_release_records)
      (auto simp: records_for_namespace_in_client_range_def bt_values_def allocated_def entries_def)
  show ?thesis
    unfolding release_client_resource_range_def Let_def
    by (auto split: prod.split sum.split intro: gcs shm intro!: own_step_trans [OF shm rest])
qed

section \<open>Sequences of calls\<close>

text \<open>
  The calls that change the runtime, each made for a namespace. A call that reads the state only is
  no event here.
\<close>

datatype runtime_call =
    CallApply TransactionId XAuthorityRequestKind
  | CallSetInputFocus XResourceId u8
  | CallAttachShm XResourceId u32 bool u64
  | CallDetachShm XResourceId
  | CallSetWindowBackground XResourceId u32
  | CallConfigure XResourceId "i16 option" "i16 option" "u16 option" "u16 option" u64
  | CallConfigureFromEngine XResourceId Size
  | CallMapNamespaceWindows u64
  | CallDestroyWindow XResourceId
  | CallCreatePixmap XResourceId u64
  | CallFreePixmap XResourceId
  | CallCreateDri3Pixmap XResourceId u64 u32 u16 u16 u16 u8 u8
  | CallCreateDri3PixmapFromBuffers XResourceId u64 u8 u16 u16 "u32 list" "u32 list" u8 u8 u64
  | CallCreateRegion XResourceId "Rect list" u64
  | CallSetRegion XResourceId "Rect list"
  | CallDestroyRegion XResourceId
  | CallCreateFence XResourceId u64
  | CallDestroyFence XResourceId
  | CallOpenFont XResourceId u64
  | CallCloseFont XResourceId
  | CallCreateCursor XResourceId u64
  | CallFreeCursor XResourceId
  | CallCreateGlxContext XResourceId u32 bool
  | CallDestroyGlxContext XResourceId
  | CallCreateGlxWindow XResourceId XResourceId u32
  | CallDestroyGlxWindow XResourceId
  | CallCreateGraphicsContext XResourceId XResourceId XGraphicsContextValues
  | CallChangeGraphicsContext XResourceId u32 XGraphicsContextValues
  | CallSetClipRectangles XResourceId "Rect list"
  | CallFreeGraphicsContext XResourceId
  | CallCoreDraw TransactionId XResourceId Region XGraphicsContextValues
  | CallCopyArea TransactionId XResourceId XResourceId i16 i16 i16 i16 u16 u16 XGraphicsContextValues
  | CallLineDraw TransactionId XResourceId "XPoint list" XGraphicsContextValues
  | CallPutImage TransactionId XResourceId Region "u8 list option"
  | CallTextDraw TransactionId XResourceId i16 i16 "u8 list" bool XGraphicsContextValues
  | CallClear TransactionId XResourceId Region u32
  | CallPresentPixmap TransactionId XResourceId XResourceId
  | CallRelease XWireClientResourceRange

fun runtime_call_step :: "NamespaceId \<Rightarrow> runtime_call \<Rightarrow> XAuthorityRuntime \<Rightarrow> XAuthorityRuntime" where
  "runtime_call_step a (CallApply tx k) t = snd (runtime_apply \<lparr>xq_transaction = tx, xq_namespace = a, xq_kind = k\<rparr> t)"
| "runtime_call_step a (CallSetInputFocus f r) t = snd (set_input_focus a f r t)"
| "runtime_call_step a (CallAttachShm i s ro g) t = snd (attach_shm_segment a i s ro g t)"
| "runtime_call_step a (CallDetachShm i) t = snd (detach_shm_segment a i t)"
| "runtime_call_step a (CallSetWindowBackground i p) t = snd (set_window_background_pixel a i p t)"
| "runtime_call_step a (CallConfigure i x y w h g) t = snd (configure_window_geometry a i x y w h g t)"
| "runtime_call_step a (CallConfigureFromEngine i e) t = snd (configure_window_size_from_engine a i e t)"
| "runtime_call_step a (CallMapNamespaceWindows g) t = snd (map_namespace_windows a g t)"
| "runtime_call_step a (CallDestroyWindow i) t = snd (destroy_window a i t)"
| "runtime_call_step a (CallCreatePixmap i g) t = snd (create_pixmap a i g t)"
| "runtime_call_step a (CallFreePixmap i) t = snd (free_pixmap a i t)"
| "runtime_call_step a (CallCreateDri3Pixmap i g sz w h st d b) t = snd (create_dri3_pixmap a i g sz w h st d b t)"
| "runtime_call_step a (CallCreateDri3PixmapFromBuffers i g n w h ss os d b m) t =
     snd (create_dri3_pixmap_from_buffers a i g n w h ss os d b m t)"
| "runtime_call_step a (CallCreateRegion i rs g) t = snd (create_xfixes_region a i rs g t)"
| "runtime_call_step a (CallSetRegion i rs) t = snd (set_xfixes_region a i rs t)"
| "runtime_call_step a (CallDestroyRegion i) t = snd (destroy_xfixes_region a i t)"
| "runtime_call_step a (CallCreateFence i g) t = snd (create_dri3_fence a i g t)"
| "runtime_call_step a (CallDestroyFence i) t = snd (destroy_dri3_fence a i t)"
| "runtime_call_step a (CallOpenFont i g) t = snd (open_font a i g t)"
| "runtime_call_step a (CallCloseFont i) t = snd (close_font a i t)"
| "runtime_call_step a (CallCreateCursor i g) t = snd (create_cursor a i g t)"
| "runtime_call_step a (CallFreeCursor i) t = snd (free_cursor a i t)"
| "runtime_call_step a (CallCreateGlxContext i c d) t = snd (create_glx_context a i c d t)"
| "runtime_call_step a (CallDestroyGlxContext i) t = snd (destroy_glx_context a i t)"
| "runtime_call_step a (CallCreateGlxWindow i w c) t = snd (create_glx_window a i w c t)"
| "runtime_call_step a (CallDestroyGlxWindow i) t = snd (destroy_glx_window a i t)"
| "runtime_call_step a (CallCreateGraphicsContext i d v) t = snd (create_graphics_context a i d v t)"
| "runtime_call_step a (CallChangeGraphicsContext i b v) t = snd (change_graphics_context a i b v t)"
| "runtime_call_step a (CallSetClipRectangles i rs) t = snd (set_graphics_context_clip_rectangles a i rs t)"
| "runtime_call_step a (CallFreeGraphicsContext i) t = snd (free_graphics_context a i t)"
| "runtime_call_step a (CallCoreDraw tx i d gc) t = snd (apply_core_draw_with_gc tx a i d gc t)"
| "runtime_call_step a (CallCopyArea tx s d sx sy dx dy w h gc) t =
     snd (apply_copy_area_with_gc tx a s d sx sy dx dy w h gc t)"
| "runtime_call_step a (CallLineDraw tx i ps gc) t = snd (apply_line_draw tx a i ps gc t)"
| "runtime_call_step a (CallPutImage tx i d bs) t = snd (apply_put_image tx a i d bs t)"
| "runtime_call_step a (CallTextDraw tx i x y cs op gc) t = snd (apply_text_draw tx a i x y cs op gc t)"
| "runtime_call_step a (CallClear tx i d p) t = snd (apply_clear_with_pixel tx a i d p t)"
| "runtime_call_step a (CallPresentPixmap tx i p) t = snd (present_standard_pixmap tx a i p t)"
| "runtime_call_step a (CallRelease rng) t = snd (release_client_resource_range a rng t)"

text \<open>The ids that a call creates; the wire decoder takes only ids of the client's own range for them.\<close>

fun created_by :: "runtime_call \<Rightarrow> XResourceId list" where
  "created_by (CallApply _ k) = created_by_request k"
| "created_by (CallAttachShm i _ _ _) = [i]"
| "created_by (CallCreatePixmap i _) = [i]"
| "created_by (CallCreateDri3Pixmap i _ _ _ _ _ _ _) = [i]"
| "created_by (CallCreateDri3PixmapFromBuffers i _ _ _ _ _ _ _ _ _) = [i]"
| "created_by (CallCreateRegion i _ _) = [i]"
| "created_by (CallCreateFence i _) = [i]"
| "created_by (CallOpenFont i _) = [i]"
| "created_by (CallCreateCursor i _) = [i]"
| "created_by (CallCreateGlxContext i _ _) = [i]"
| "created_by (CallCreateGlxWindow i _ _) = [i]"
| "created_by (CallCreateGraphicsContext i _ _) = [i]"
| "created_by _ = []"

lemma own_window_background: "own_step alloc a t (snd (set_window_background_pixel a i p t))"
  unfolding set_window_background_pixel_def by (intro own_step_check) simp

lemmas own_calls =
  own_set_input_focus own_shm_calls own_window_background own_configure own_configure_from_engine
  own_map_namespace_windows own_destroy_window own_insert_resource own_remove_resource own_free_pixmap own_create_dri3
  own_regions own_fences own_glx_calls own_graphics_contexts own_core_draw own_drawing own_present_standard own_release_range

lemma own_runtime_call:
  assumes "\<forall>i\<in>set (created_by c). alloc i = a"
  shows "own_step alloc a t (runtime_call_step a c t)"
proof (cases c)
  case (CallApply tx k)
  show ?thesis
    using own_runtime_apply [of "\<lparr>xq_transaction = tx, xq_namespace = a, xq_kind = k\<rparr>" alloc t] assms
    by (simp add: CallApply)
qed (use assms in \<open>simp_all add: own_calls create_pixmap_def open_font_def close_font_def create_cursor_def free_cursor_def\<close>)

text \<open>
  Machines whose events have an owner: when every allowed event keeps the invariant and leaves alone
  what is not its owner's, so does every history of allowed events.
\<close>

locale owned_machine =
  fixes step :: "'e \<Rightarrow> 's \<Rightarrow> 's" and owner :: "'e \<Rightarrow> 'n" and allowed :: "'e \<Rightarrow> bool"
    and inv :: "'s \<Rightarrow> bool" and same :: "'n \<Rightarrow> 's \<Rightarrow> 's \<Rightarrow> bool"
  assumes same_refl: "same n s s"
    and same_trans: "same n s u \<Longrightarrow> same n u v \<Longrightarrow> same n s v"
    and step_inv: "inv s \<Longrightarrow> allowed e \<Longrightarrow> inv (step e s)"
    and step_same: "inv s \<Longrightarrow> allowed e \<Longrightarrow> owner e \<noteq> n \<Longrightarrow> same n s (step e s)"
begin

lemma run_inv: "inv s \<Longrightarrow> \<forall>e\<in>set es. allowed e \<Longrightarrow> inv (fold step es s)"
  by (induction es arbitrary: s) (simp_all add: step_inv)

lemma run_same:
  assumes "inv s" "\<forall>e\<in>set es. allowed e \<and> owner e \<noteq> n"
  shows "same n s (fold step es s)"
  using assms
proof (induction es arbitrary: s)
  case (Cons e es)
  then show ?case using same_trans [OF step_same [of s e n] Cons.IH [of "step e s"]] by (simp add: step_inv)
qed (simp add: same_refl)

end

definition runtime_step :: "NamespaceId \<times> runtime_call \<Rightarrow> XAuthorityRuntime \<Rightarrow> XAuthorityRuntime" where
  "runtime_step e t = runtime_call_step (fst e) (snd e) t"

definition well_allocated :: "(XResourceId \<Rightarrow> NamespaceId) \<Rightarrow> NamespaceId \<times> runtime_call \<Rightarrow> bool" where
  "well_allocated alloc e \<longleftrightarrow> (\<forall>i\<in>set (created_by (snd e)). alloc i = fst e)"

lemma runtime_step_owned:
  assumes "allocated alloc t" "well_allocated alloc e"
  shows "allocated alloc (runtime_step e t)" and "fst e \<noteq> n \<Longrightarrow> kept alloc n t (runtime_step e t)"
  using own_runtime_call [of "snd e" alloc "fst e" t] assms
  by (auto simp: well_allocated_def runtime_step_def own_step_def)

interpretation xr: owned_machine runtime_step fst "well_allocated alloc" "allocated alloc" "kept alloc" for alloc
  by unfold_locales (auto intro: kept_trans runtime_step_owned)

lemma allocated_new [simp]: "allocated alloc runtime_new"
  by (simp add: allocated_def runtime_new_def)

section \<open>Clients\<close>

text \<open>
  A client is a namespace with the id range of its connection. Clients of different namespaces have ranges without a
  common id, as the setup of connections hands them out, and a call of a client creates ids of its own range only,
  which the wire decoder enforces (\<^verbatim>\<open>validate_new_resource_id\<close>).
\<close>

type_synonym client = "NamespaceId \<times> XWireClientResourceRange"

definition clients_apart :: "client list \<Rightarrow> bool" where
  "clients_apart cs \<longleftrightarrow> (\<forall>c\<in>set cs. \<forall>d\<in>set cs. fst c \<noteq> fst d \<longrightarrow>
     (\<forall>i. \<not> (range_owns_id (snd c) i \<and> range_owns_id (snd d) i)))"

definition client_call :: "client list \<Rightarrow> client \<times> runtime_call \<Rightarrow> bool" where
  "client_call cs e \<longleftrightarrow> fst e \<in> set cs \<and> list_all (range_owns_id (snd (fst e))) (created_by (snd e))"

definition client_step :: "client \<times> runtime_call \<Rightarrow> XAuthorityRuntime \<Rightarrow> XAuthorityRuntime" where
  "client_step e = runtime_step (fst (fst e), snd e)"

definition client_run :: "(client \<times> runtime_call) list \<Rightarrow> XAuthorityRuntime" where
  "client_run es = fold client_step es runtime_new"

text \<open>The namespace an id belongs to: that of the first client whose range has it.\<close>

definition namespace_of :: "client list \<Rightarrow> XResourceId \<Rightarrow> NamespaceId" where
  "namespace_of cs i = (case find (\<lambda>c. range_owns_id (snd c) i) cs of None \<Rightarrow> 0 | Some c \<Rightarrow> fst c)"

lemma namespace_of_client:
  assumes "clients_apart cs" "c \<in> set cs" "range_owns_id (snd c) i"
  shows "namespace_of cs i = fst c"
proof -
  obtain d where d: "find (\<lambda>c. range_owns_id (snd c) i) cs = Some d"
    using assms(2,3) by (metis find_None_iff option.exhaust)
  then have "d \<in> set cs" "range_owns_id (snd d) i" by (auto simp: find_Some_iff)
  then show ?thesis using assms d unfolding clients_apart_def namespace_of_def by (metis option.simps(5))
qed

lemma same_mask_apart:
  assumes "\<forall>c\<in>set cs. rg_mask (snd c) = m"
    and "\<forall>c\<in>set cs. \<forall>d\<in>set cs. fst c \<noteq> fst d \<longrightarrow> rg_base (snd c) \<noteq> rg_base (snd d)"
  shows "clients_apart cs"
  using assms by (fastforce simp: clients_apart_def range_owns_id_def owns_new_resource_def)

lemma client_call_allocated:
  "clients_apart cs \<Longrightarrow> client_call cs e \<Longrightarrow> well_allocated (namespace_of cs) (fst (fst e), snd e)"
  using namespace_of_client [of cs "fst e"] by (auto simp: client_call_def well_allocated_def list_all_iff)

lemma fold_client_step: "fold client_step es t = fold runtime_step (map (\<lambda>e. (fst (fst e), snd e)) es) t"
  by (induction es arbitrary: t) (simp_all add: client_step_def)

lemma client_run_allocated:
  assumes "clients_apart cs" "\<forall>e\<in>set es. client_call cs e"
  shows "allocated (namespace_of cs) (client_run es)"
  unfolding client_run_def fold_client_step
  by (rule xr.run_inv [OF allocated_new]) (use assms client_call_allocated in auto)

text \<open>
  Property C27. Namespaces are isolated, on two conditions on the clients: ranges of clients of different namespaces have
  no id in common, and a call creates ids of its client's own range only, as the wire decoder enforces.
  Then, from the start of the authority and whatever has happened so far, no further calls of clients of other namespaces
  (creating, drawing, destroying, mapping, configuring, releasing clients, failed calls included) change a resource,
  window, shared-memory segment, graphics context, imported buffer, fence, region or GLX context under the ids of
  the namespace, its GLX windows over its own windows, or its focus. The pixels of software buffers are not included
  (see \<open>foreign_drawing_paints\<close>).
\<close>

theorem namespace_isolated:
  assumes "clients_apart cs" "\<forall>e\<in>set before. client_call cs e"
    and "\<forall>e\<in>set others. client_call cs e \<and> fst (fst e) \<noteq> n"
  shows "kept (namespace_of cs) n (client_run before) (client_run (before @ others))"
  using xr.run_same [OF client_run_allocated [OF assms(1,2)], of "map (\<lambda>e. (fst (fst e), snd e)) others" n]
    client_call_allocated [OF assms(1)] assms(3)
  by (auto simp: client_run_def fold_client_step)

text \<open>A client of namespace 1 and one of namespace 2, which tries to free what the first created.\<close>

definition example_clients :: "client list" where
  "example_clients = [(1, \<lparr>rg_base = 0x200000, rg_mask = 0x1FFFFF\<rparr>), (2, \<lparr>rg_base = 0x400000, rg_mask = 0x1FFFFF\<rparr>)]"

definition example_before :: "(client \<times> runtime_call) list" where
  "example_before = [(example_clients ! 0, CallCreatePixmap (AuthorityLocalId 0x200005 1) 1)]"

definition example_others :: "(client \<times> runtime_call) list" where
  "example_others = [(example_clients ! 1, CallFreePixmap (AuthorityLocalId 0x200005 1)),
     (example_clients ! 1, CallCreatePixmap (AuthorityLocalId 0x400001 1) 1)]"

lemma example_clients_apart: "clients_apart example_clients"
  by (rule same_mask_apart [where m = "0x1FFFFF"]) (simp_all add: example_clients_def)

theorem namespace_isolated_witness:
  "bt_get (xt_resources (client_run example_before)) (AuthorityLocalId 0x200005 1)
     = Some \<lparr>xr_id = AuthorityLocalId 0x200005 1, xr_kind = RkPixmap, xr_owner_namespace = 1, xr_generation = 1\<rparr>
   \<and> kept (namespace_of example_clients) 1 (client_run example_before) (client_run (example_before @ example_others))"
proof
  show "bt_get (xt_resources (client_run example_before)) (AuthorityLocalId 0x200005 1)
     = Some \<lparr>xr_id = AuthorityLocalId 0x200005 1, xr_kind = RkPixmap, xr_owner_namespace = 1, xr_generation = 1\<rparr>"
    by (simp add: client_run_def client_step_def example_before_def example_clients_def runtime_step_def create_pixmap_def
        insert_resource_def update_then_def resource_insert_def runtime_new_def xresource_is_valid_def local_id_is_valid_def
        id_is_valid_def)
next
  have "\<forall>e\<in>set example_before. client_call example_clients e"
    "\<forall>e\<in>set example_others. client_call example_clients e \<and> fst (fst e) \<noteq> 1"
    by (simp_all add: example_before_def example_others_def client_call_def example_clients_def range_owns_id_def
        owns_new_resource_def)
  then show "kept (namespace_of example_clients) 1 (client_run example_before) (client_run (example_before @ example_others))"
    by (rule namespace_isolated [OF example_clients_apart])
qed

text \<open>
  The condition on created ids is needed: the tables replace a record under an id in use, so a pixmap created by
  namespace 2 under an id of namespace 1 takes over the record.
\<close>

lemma foreign_id_overwrites:
  assumes "xresource_is_valid i" "id_is_valid a"
  shows "bt_get (xt_resources (runtime_step (a, CallCreatePixmap i g) t)) i
     = Some \<lparr>xr_id = i, xr_kind = RkPixmap, xr_owner_namespace = a, xr_generation = g\<rparr>"
  using assms
  by (simp add: runtime_step_def create_pixmap_def insert_resource_def update_then_def resource_insert_def bt_get_insert)

end
