(* ===== verification/Namespace_Registry.thy ===== *)
theory Namespace_Registry
  imports Protocol_Packets
begin

text \<open>
  The session's registry of namespaces and admitted clients
  (\<^verbatim>\<open>sophia-runtime/src/session/namespace.rs\<close>). Ids come from the counting allocators of
  \<^verbatim>\<open>ids.rs\<close>; an operation that would exhaust a counter panics, which is \<open>None\<close> here. The lemmas show that
  admissions belong to registered namespaces, that ids are never given twice and that what was revoked
  never becomes current again.
\<close>

section \<open>Registry (session/namespace.rs)\<close>

datatype NamespaceRegistryError =
    InvalidSessionGeneration
  | UnknownNamespace NamespaceId
  | UnknownAdmission ClientAdmissionId

record NamespaceRegistry =
  ng_session_generation :: u64
  ng_namespace_ids :: IdAllocator
  ng_admission_ids :: IdAllocator
  ng_namespaces :: "(NamespaceId, NamespaceContext) btree"
  ng_admissions :: "(ClientAdmissionId, ClientAdmissionContext) btree"

record NamespaceRevocation =
  nv_namespace :: NamespaceContext
  nv_admissions :: "ClientAdmissionContext list"

definition registry_new :: "u64 \<Rightarrow> NamespaceRegistryError + NamespaceRegistry" where
  "registry_new session_generation =
     (if session_generation = 0 then Inl InvalidSessionGeneration
      else Inr \<lparr>ng_session_generation = session_generation, ng_namespace_ids = id_allocator_new,
                ng_admission_ids = id_allocator_new, ng_namespaces = [], ng_admissions = []\<rparr>)"

definition create_namespace ::
  "NamespaceProfile \<Rightarrow> NamespaceCapabilities \<Rightarrow> NamespaceRegistry \<Rightarrow> (NamespaceContext \<times> NamespaceRegistry) option" where
  "create_namespace profile capabilities r =
     (case next_raw (ng_namespace_ids r) of
        None \<Rightarrow> None
      | Some (i, ids) \<Rightarrow>
          (case namespace_context_new i profile capabilities of
             None \<Rightarrow> None
           | Some ctx \<Rightarrow>
               Some (ctx, r\<lparr>ng_namespace_ids := ids,
                            ng_namespaces := bt_insert (nx_id ctx) ctx (ng_namespaces r)\<rparr>)))"

definition registry_namespace :: "NamespaceRegistry \<Rightarrow> NamespaceId \<Rightarrow> NamespaceContext option" where
  "registry_namespace r namespace = bt_get (ng_namespaces r) namespace"

definition admit ::
  "NamespaceId \<Rightarrow> ClientAuthenticationMethod \<Rightarrow> NamespaceRegistry
     \<Rightarrow> ((NamespaceRegistryError + ClientAdmissionContext) \<times> NamespaceRegistry) option" where
  "admit namespace auth r =
     (case registry_namespace r namespace of
        None \<Rightarrow> Some (Inl (UnknownNamespace namespace), r)
      | Some nctx \<Rightarrow>
          (case auth_provenance_new auth (ng_session_generation r) of
             None \<Rightarrow> None
           | Some provenance \<Rightarrow>
               (case next_raw (ng_admission_ids r) of
                  None \<Rightarrow> None
                | Some (i, ids) \<Rightarrow>
                    (case admission_context_new i nctx provenance of
                       None \<Rightarrow> None
                     | Some ctx \<Rightarrow>
                         Some (Inr ctx, r\<lparr>ng_admission_ids := ids,
                                          ng_admissions := bt_insert (ac_client_id ctx) ctx (ng_admissions r)\<rparr>)))))"

definition admission :: "NamespaceRegistry \<Rightarrow> ClientAdmissionId \<Rightarrow> ClientAdmissionContext option" where
  "admission r client = bt_get (ng_admissions r) client"

definition is_current_admission :: "NamespaceRegistry \<Rightarrow> ClientAdmissionContext \<Rightarrow> bool" where
  "is_current_admission r ctx \<longleftrightarrow>
     ap_session_generation (ac_auth_provenance ctx) = ng_session_generation r
     \<and> admission r (ac_client_id ctx) = Some ctx
     \<and> registry_namespace r (nx_id (ac_namespace ctx)) = Some (ac_namespace ctx)"

definition revoke_admission ::
  "ClientAdmissionId \<Rightarrow> NamespaceRegistry \<Rightarrow> (NamespaceRegistryError + ClientAdmissionContext) \<times> NamespaceRegistry" where
  "revoke_admission client r =
     (case bt_get (ng_admissions r) client of
        None \<Rightarrow> (Inl (UnknownAdmission client), r)
      | Some ctx \<Rightarrow> (Inr ctx, r\<lparr>ng_admissions := bt_remove client (ng_admissions r)\<rparr>))"

text \<open>The clients of the namespace are collected first and then removed one by one.\<close>

definition revoke_namespace ::
  "NamespaceId \<Rightarrow> NamespaceRegistry \<Rightarrow> (NamespaceRegistryError + NamespaceRevocation) \<times> NamespaceRegistry" where
  "revoke_namespace namespace r =
     (case bt_get (ng_namespaces r) namespace of
        None \<Rightarrow> (Inl (UnknownNamespace namespace), r)
      | Some ctx \<Rightarrow>
          let clients = map fst (filter (\<lambda>(_, a). nx_id (ac_namespace a) = namespace) (ng_admissions r));
              (removed, rest) = foldl (\<lambda>(xs, m) c.
                 ((case bt_get m c of None \<Rightarrow> xs | Some a \<Rightarrow> xs @ [a]), bt_remove c m)) ([], ng_admissions r) clients in
          (Inr \<lparr>nv_namespace = ctx, nv_admissions = removed\<rparr>,
           r\<lparr>ng_namespaces := bt_remove namespace (ng_namespaces r), ng_admissions := rest\<rparr>))"

definition namespace_count :: "NamespaceRegistry \<Rightarrow> nat" where
  "namespace_count r = length (ng_namespaces r)"

definition admission_count :: "NamespaceRegistry \<Rightarrow> nat" where
  "admission_count r = length (ng_admissions r)"

section \<open>Revoking a namespace\<close>

lemma fold_remove:
  assumes "distinct (map fst m)" "distinct cs" "set cs \<subseteq> set (map fst m)"
  shows "foldl (\<lambda>(xs, m) c. ((case bt_get m c of None \<Rightarrow> xs | Some a \<Rightarrow> xs @ [a]), bt_remove c m)) (xs, m) cs
    = (xs @ map (\<lambda>c. the (bt_get m c)) cs, filter (\<lambda>(k, _). k \<notin> set cs) m)"
  using assms
proof (induction cs arbitrary: xs m)
  case Nil
  then show ?case by (simp add: case_prod_beta)
next
  case (Cons c cs)
  let ?m = "bt_remove c m"
  obtain a where a: "bt_get m c = Some a" using Cons.prems(3) by (auto dest: weak_map_of_SomeI)
  have "set (map fst ?m) = set (map fst m) - {c}" by (force simp: bt_remove_def)
  then have "distinct (map fst ?m)" "set cs \<subseteq> set (map fst ?m)"
    using Cons.prems by (auto simp: bt_remove_def distinct_map_filter)
  then have IH: "foldl (\<lambda>(xs, m) c. ((case bt_get m c of None \<Rightarrow> xs | Some a \<Rightarrow> xs @ [a]), bt_remove c m)) (xs @ [a], ?m) cs
      = ((xs @ [a]) @ map (\<lambda>c. the (bt_get ?m c)) cs, filter (\<lambda>(k, _). k \<notin> set cs) ?m)"
    using Cons by simp
  have "map (\<lambda>c. the (bt_get ?m c)) cs = map (\<lambda>c. the (bt_get m c)) cs"
    using Cons.prems(2) by (auto simp: bt_get_remove)
  moreover have "filter (\<lambda>(k, _). k \<notin> set cs) ?m = filter (\<lambda>(k, _). k \<notin> set (c # cs)) m"
    by (auto simp: bt_remove_def intro!: filter_cong)
  ultimately show ?case using IH by (simp add: a)
qed

section \<open>Reachable registries\<close>

text \<open>
  The calls of a session, in any order, with the contexts each one hands out; a call that panics ends the session. The
  log of a session collects what was handed out.
\<close>

datatype handed_out = Created NamespaceContext | Admitted ClientAdmissionContext

inductive registry_step :: "NamespaceRegistry \<Rightarrow> handed_out list \<Rightarrow> NamespaceRegistry \<Rightarrow> bool" where
  create: "create_namespace profile capabilities r = Some (ctx, r') \<Longrightarrow> registry_step r [Created ctx] r'"
| admit: "admit namespace auth r = Some (Inr c, r') \<Longrightarrow> registry_step r [Admitted c] r'"
| refuse: "admit namespace auth r = Some (Inl e, r') \<Longrightarrow> registry_step r [] r'"
| revoke_admission: "revoke_admission client r = (res, r') \<Longrightarrow> registry_step r [] r'"
| revoke_namespace: "revoke_namespace namespace r = (res, r') \<Longrightarrow> registry_step r [] r'"

inductive session :: "NamespaceRegistry \<Rightarrow> handed_out list \<Rightarrow> NamespaceRegistry \<Rightarrow> bool" where
  start: "session r [] r"
| call: "session r given r' \<Longrightarrow> registry_step r' new r'' \<Longrightarrow> session r (given @ new) r''"

definition registry_inv :: "NamespaceRegistry \<Rightarrow> bool" where
  "registry_inv r \<longleftrightarrow>
     ng_session_generation r \<noteq> 0 \<and> bt_wf (ng_namespaces r) \<and> bt_wf (ng_admissions r)
     \<and> ia_next (ng_namespace_ids r) \<noteq> 0 \<and> ia_next (ng_admission_ids r) \<noteq> 0
     \<and> (\<forall>i ctx. bt_get (ng_namespaces r) i = Some ctx \<longrightarrow> nx_id ctx = i \<and> i < ia_next (ng_namespace_ids r))
     \<and> (\<forall>i ctx. bt_get (ng_admissions r) i = Some ctx \<longrightarrow>
          ac_client_id ctx = i \<and> i < ia_next (ng_admission_ids r)
          \<and> ap_session_generation (ac_auth_provenance ctx) = ng_session_generation r
          \<and> bt_get (ng_namespaces r) (nx_id (ac_namespace ctx)) = Some (ac_namespace ctx))"

lemma next_raw_Some:
  "next_raw a = Some (i, b) \<longleftrightarrow> i = ia_next a \<and> (\<exists>j. checked_add (ia_next a) 1 = Some j \<and> b = a\<lparr>ia_next := j\<rparr>)"
  by (auto simp: next_raw_def split: option.splits)

lemma next_counts: "checked_add (i::u64) 1 = Some j \<Longrightarrow> i < j \<and> j \<noteq> 0"
  using checked_add_unat [of i 1 j] by (auto simp: word_less_nat_alt)

lemma registry_new_inv: "registry_new g = Inr r \<Longrightarrow> registry_inv r"
  by (auto simp: registry_new_def registry_inv_def id_allocator_new_def split: if_splits)

lemma create_namespace_Some:
  assumes "create_namespace p c r = Some (ctx, r')"
  obtains j where "checked_add (ia_next (ng_namespace_ids r)) 1 = Some j"
    "ctx = \<lparr>nx_id = ia_next (ng_namespace_ids r), nx_profile = p, nx_capabilities = c\<rparr>"
    "r' = r\<lparr>ng_namespace_ids := ng_namespace_ids r\<lparr>ia_next := j\<rparr>,
            ng_namespaces := bt_insert (ia_next (ng_namespace_ids r)) ctx (ng_namespaces r)\<rparr>"
  using assms by (auto simp: create_namespace_def next_raw_Some namespace_context_new_def split: option.splits if_splits prod.splits)

lemma admit_Some:
  assumes "admit n m r = Some (res, r')" "registry_inv r"
  obtains (unknown) "bt_get (ng_namespaces r) n = None" "res = Inl (UnknownNamespace n)" "r' = r"
  | (admitted) nctx j ctx where "bt_get (ng_namespaces r) n = Some nctx"
    "checked_add (ia_next (ng_admission_ids r)) 1 = Some j"
    "ctx = \<lparr>ac_client_id = ia_next (ng_admission_ids r), ac_namespace = nctx,
       ac_auth_provenance = \<lparr>ap_method = m, ap_session_generation = ng_session_generation r\<rparr>\<rparr>"
    "res = Inr ctx"
    "r' = r\<lparr>ng_admission_ids := ng_admission_ids r\<lparr>ia_next := j\<rparr>,
            ng_admissions := bt_insert (ia_next (ng_admission_ids r)) ctx (ng_admissions r)\<rparr>"
  using assms
  by (auto simp: admit_def registry_namespace_def next_raw_Some admission_context_new_def auth_provenance_new_def
      split: option.splits if_splits prod.splits)

lemma revoke_namespace_cases:
  assumes "revoke_namespace n r = (res, r')" "registry_inv r"
  obtains (unknown) "bt_get (ng_namespaces r) n = None" "res = Inl (UnknownNamespace n)" "r' = r"
  | (revoked) nctx where "bt_get (ng_namespaces r) n = Some nctx"
    "res = Inr \<lparr>nv_namespace = nctx, nv_admissions = filter (\<lambda>a. nx_id (ac_namespace a) = n) (bt_values (ng_admissions r))\<rparr>"
    "r' = r\<lparr>ng_namespaces := bt_remove n (ng_namespaces r),
            ng_admissions := filter (\<lambda>(_, a). nx_id (ac_namespace a) \<noteq> n) (ng_admissions r)\<rparr>"
proof (cases "bt_get (ng_namespaces r) n")
  case None
  then show ?thesis using assms(1) by (intro unknown) (simp_all add: revoke_namespace_def)
next
  case (Some nctx)
  let ?m = "ng_admissions r"
  let ?cs = "map fst (filter (\<lambda>(_, a). nx_id (ac_namespace a) = n) ?m)"
  have d: "distinct (map fst ?m)" using assms(2) by (simp add: registry_inv_def bt_wf_distinct)
  then have cs: "distinct ?cs" "set ?cs \<subseteq> set (map fst ?m)" by (auto simp: distinct_map_filter)
  have get: "(k, a) \<in> set ?m \<Longrightarrow> bt_get ?m k = Some a" for k a using d by simp
  have vals: "map (\<lambda>c. the (bt_get ?m c)) ?cs = filter (\<lambda>a. nx_id (ac_namespace a) = n) (bt_values ?m)"
    by (auto simp: bt_values_def filter_map comp_def case_prod_beta' dest!: get)
  have rest: "filter (\<lambda>(k, _). k \<notin> set ?cs) ?m = filter (\<lambda>(_, a). nx_id (ac_namespace a) \<noteq> n) ?m"
    using get by (intro filter_cong) (force dest: get)+
  have "revoke_namespace n r =
      (Inr \<lparr>nv_namespace = nctx, nv_admissions = filter (\<lambda>a. nx_id (ac_namespace a) = n) (bt_values ?m)\<rparr>,
       r\<lparr>ng_namespaces := bt_remove n (ng_namespaces r),
         ng_admissions := filter (\<lambda>(_, a). nx_id (ac_namespace a) \<noteq> n) ?m\<rparr>)"
    unfolding revoke_namespace_def Some Let_def fold_remove [OF d cs, of "[]", unfolded vals rest] by simp
  then show ?thesis using assms(1) by (intro revoked [OF Some]) simp_all
qed

lemma get_filter_values: "bt_wf m \<Longrightarrow> bt_get (filter (\<lambda>(_, v). P v) m) k = Some v \<longleftrightarrow> bt_get m k = Some v \<and> P v"
proof -
  assume wf: "bt_wf m"
  then have "distinct (map fst (filter (\<lambda>(_, v). P v) m))" by (simp add: bt_wf_distinct distinct_map_filter)
  then show ?thesis using wf by (simp flip: bt_wf_entry add: map_of_eq_Some_iff)
qed

lemma bt_wf_filter: "bt_wf m \<Longrightarrow> bt_wf (filter P m)"
  by (induction m) (auto simp: bt_wf_def)

lemma registry_ids:
  assumes "registry_inv r"
  shows "bt_get (ng_namespaces r) i = Some x \<Longrightarrow> i < ia_next (ng_namespace_ids r)"
    and "bt_get (ng_admissions r) k = Some a \<Longrightarrow> k < ia_next (ng_admission_ids r)"
    and "bt_get (ng_admissions r) k = Some a \<Longrightarrow> nx_id (ac_namespace a) < ia_next (ng_namespace_ids r)"
  using assms by (auto simp: registry_inv_def)

lemma create_namespace_inv:
  assumes "create_namespace p c r = Some (ctx, r')" "registry_inv r"
  shows "registry_inv r'"
  using assms(1)
proof (cases rule: create_namespace_Some)
  case (1 j)
  have "i < j" if "bt_get (ng_namespaces r) i = Some x" for i x
    using registry_ids [OF assms(2)] that next_counts [OF 1(1)] by (meson less_trans)
  moreover have "nx_id (ac_namespace a) \<noteq> ia_next (ng_namespace_ids r)" if "bt_get (ng_admissions r) i = Some a" for i a
    using registry_ids [OF assms(2)] that by fastforce
  ultimately show ?thesis using 1 assms(2) next_counts [OF 1(1)] by (auto simp: registry_inv_def bt_get_insert)
qed

lemma admit_inv:
  assumes "admit n m r = Some (res, r')" "registry_inv r"
  shows "registry_inv r'"
  using assms
proof (cases rule: admit_Some)
  case unknown
  then show ?thesis using assms(2) by simp
next
  case (admitted nctx j ctx)
  have "i < j" if "bt_get (ng_admissions r) i = Some a" for i a
    using registry_ids [OF assms(2)] that next_counts [OF admitted(2)] by (meson less_trans)
  then show ?thesis using admitted assms(2) next_counts [OF admitted(2)] by (auto simp: registry_inv_def bt_get_insert)
qed

lemma revoke_admission_inv: "revoke_admission c r = (res, r') \<Longrightarrow> registry_inv r \<Longrightarrow> registry_inv r'"
  by (auto simp: revoke_admission_def registry_inv_def bt_get_remove split: option.splits if_splits)

lemma revoke_namespace_inv:
  assumes "revoke_namespace n r = (res, r')" "registry_inv r"
  shows "registry_inv r'"
  using assms
proof (cases rule: revoke_namespace_cases)
  case unknown
  then show ?thesis using assms(2) by simp
next
  case (revoked nctx)
  then show ?thesis
    using assms(2) by (auto simp: registry_inv_def bt_get_remove bt_wf_filter get_filter_values [where P = "\<lambda>a. nx_id (ac_namespace a) \<noteq> n"])
qed

lemma registry_step_inv: "registry_step r new r' \<Longrightarrow> registry_inv r \<Longrightarrow> registry_inv r'"
  by (induction rule: registry_step.induct)
    (auto intro: create_namespace_inv admit_inv revoke_admission_inv revoke_namespace_inv)

text \<open>An issued client id stays issued, and an admission once gone stays gone.\<close>

definition issued :: "NamespaceRegistry \<Rightarrow> ClientAdmissionId \<Rightarrow> bool" where
  "issued r i \<longleftrightarrow> i < ia_next (ng_admission_ids r)"

definition no_resurrection :: "NamespaceRegistry \<Rightarrow> NamespaceRegistry \<Rightarrow> bool" where
  "no_resurrection r r' \<longleftrightarrow>
     ng_session_generation r' = ng_session_generation r
     \<and> (\<forall>i. issued r i \<longrightarrow> issued r' i)
     \<and> (\<forall>c. issued r (ac_client_id c) \<longrightarrow> is_current_admission r' c \<longrightarrow> is_current_admission r c)"

lemma current_iff: "registry_inv r \<Longrightarrow> is_current_admission r c \<longleftrightarrow> bt_get (ng_admissions r) (ac_client_id c) = Some c"
  by (auto simp: is_current_admission_def registry_inv_def admission_def registry_namespace_def)

lemma no_resurrectionI:
  assumes "registry_inv r" "registry_inv r'" "ng_session_generation r' = ng_session_generation r"
    and "ia_next (ng_admission_ids r) \<le> ia_next (ng_admission_ids r')"
    and "\<And>c. issued r (ac_client_id c) \<Longrightarrow> bt_get (ng_admissions r') (ac_client_id c) = Some c
      \<Longrightarrow> bt_get (ng_admissions r) (ac_client_id c) = Some c"
  shows "no_resurrection r r'"
  using assms by (auto simp: no_resurrection_def issued_def current_iff)

lemma admit_dead:
  assumes "admit n m r = Some (res, r')" "registry_inv r"
  shows "no_resurrection r r'"
  using assms
proof (cases rule: admit_Some)
  case (admitted nctx j ctx)
  then show ?thesis
    using assms(2) admit_inv [OF assms] next_counts [OF admitted(2)]
    by (intro no_resurrectionI) (auto simp: issued_def bt_get_insert split: if_splits)
qed (use assms(2) in \<open>auto intro!: no_resurrectionI\<close>)

lemma registry_step_dead:
  assumes "registry_step r new r'" "registry_inv r"
  shows "no_resurrection r r'"
  using assms(1)
proof cases
  case (create p c ctx)
  from create(2) show ?thesis
    using assms create_namespace_inv [OF create(2) assms(2)] by (cases rule: create_namespace_Some) (auto intro!: no_resurrectionI)
next
  case (revoke_admission c res)
  from revoke_admission(2) show ?thesis
    using assms(2) revoke_admission_inv [OF revoke_admission(2) assms(2)]
    by (intro no_resurrectionI) (auto simp: revoke_admission_def bt_get_remove split: option.splits if_splits)
next
  case (revoke_namespace n res)
  note inv = revoke_namespace_inv [OF revoke_namespace(2) assms(2)]
  from revoke_namespace(2) assms(2) show ?thesis
  proof (cases rule: revoke_namespace_cases)
    case (revoked nctx)
    moreover have "bt_wf (ng_admissions r)" using assms(2) by (simp add: registry_inv_def)
    ultimately show ?thesis
      using assms(2) inv
      by (intro no_resurrectionI) (auto simp: get_filter_values [where P = "\<lambda>a. nx_id (ac_namespace a) \<noteq> n"])
  qed (use assms(2) in \<open>auto intro!: no_resurrectionI\<close>)
qed (use admit_dead assms(2) in blast)+

lemma session_steps:
  assumes "session r given r'" "registry_inv r"
  shows "registry_inv r'" and "no_resurrection r r'"
proof -
  have "registry_inv r' \<and> no_resurrection r r'"
    using assms
  proof (induction rule: session.induct)
    case (start r)
    then show ?case by (simp add: no_resurrection_def)
  next
    case (call r given u new v)
    then have "registry_inv u" "no_resurrection r u" "registry_inv v" "no_resurrection u v"
      by (auto intro: registry_step_inv registry_step_dead)
    then show ?case unfolding no_resurrection_def by metis
  qed
  then show "registry_inv r'" and "no_resurrection r r'" by simp_all
qed

section \<open>What was handed out\<close>

text \<open>The ids in the log lie below the counters, and only admissions of the log are current.\<close>

definition logged :: "handed_out list \<Rightarrow> NamespaceRegistry \<Rightarrow> bool" where
  "logged given r \<longleftrightarrow>
     (\<forall>x. Created x \<in> set given \<longrightarrow> nx_id x < ia_next (ng_namespace_ids r))
     \<and> (\<forall>c. Admitted c \<in> set given \<longrightarrow> issued r (ac_client_id c))
     \<and> (\<forall>i c. bt_get (ng_admissions r) i = Some c \<longrightarrow> Admitted c \<in> set given)"

lemma revoke_keeps_log:
  assumes "registry_inv r" "logged given r" "revoke_admission i r = (res, r') \<or> revoke_namespace n r = (res', r')"
  shows "logged given r'"
  using assms(3)
proof
  assume "revoke_admission i r = (res, r')"
  then show ?thesis using assms(2)
    by (auto simp: revoke_admission_def logged_def issued_def bt_get_remove split: option.splits if_splits)
next
  assume rev: "revoke_namespace n r = (res', r')"
  have "bt_wf (ng_admissions r)" using assms(1) by (simp add: registry_inv_def)
  with rev assms(1) show ?thesis using assms(2)
    by (cases rule: revoke_namespace_cases)
       (auto simp: logged_def issued_def get_filter_values [where P = "\<lambda>a. nx_id (ac_namespace a) \<noteq> n"])
qed

lemma create_keeps_log:
  assumes "logged given r" "create_namespace p k r = Some (x, r')"
  shows "logged (given @ [Created x]) r'"
  using assms(2)
proof (cases rule: create_namespace_Some)
  case (1 j)
  then show ?thesis using assms(1) next_counts [OF 1(1)] by (auto simp: logged_def issued_def)
qed

lemma admit_keeps_log:
  assumes "registry_inv r" "logged given r" "admit n m r = Some (res, r')"
  shows "logged (given @ (case res of Inl e \<Rightarrow> [] | Inr c \<Rightarrow> [Admitted c])) r'"
  using assms(3,1)
proof (cases rule: admit_Some)
  case (admitted nctx j ctx)
  then show ?thesis
    using assms(2) next_counts [OF admitted(2)]
    by (auto simp: logged_def issued_def bt_get_insert split: if_splits intro: less_trans)
qed (use assms(2) in simp)

lemma session_logged:
  assumes "registry_new g = Inr r0" "session r0 given r"
  shows "registry_inv r" "logged given r"
proof -
  have "registry_inv r0 \<Longrightarrow> logged [] r0 \<Longrightarrow> registry_inv r \<and> logged given r"
    using assms(2)
  proof (induction rule: session.induct)
    case (call r given u new v)
    then have u: "registry_inv u" "logged given u" by auto
    have "registry_inv v" using registry_step_inv call.hyps(2) u(1) by blast
    moreover from call.hyps(2) have "logged (given @ new) v"
    proof cases
      case (create p k ctx)
      then show ?thesis using create_keeps_log [OF u(2)] by simp
    next
      case (admit n m c)
      then show ?thesis using admit_keeps_log [OF u admit(2)] by simp
    next
      case (refuse n m e)
      then show ?thesis using admit_keeps_log [OF u refuse(2)] by simp
    next
      case (revoke_admission i res)
      then show ?thesis using revoke_keeps_log [OF u disjI1] by simp
    next
      case (revoke_namespace n res)
      then show ?thesis using revoke_keeps_log [OF u disjI2] by simp
    qed
    ultimately show ?case ..
  qed simp
  moreover have "registry_inv r0" using assms(1) by (rule registry_new_inv)
  moreover have "logged [] r0" using assms(1) by (auto simp: registry_new_def logged_def split: if_splits)
  ultimately show "registry_inv r" "logged given r" by simp_all
qed

section \<open>Admissions are revocable for good\<close>

text \<open>What each call does to the current admissions, in terms of a log of what was handed out before.\<close>

definition admits_fresh :: "handed_out list \<Rightarrow> NamespaceRegistry \<Rightarrow> bool" where
  "admits_fresh given r \<longleftrightarrow> (\<forall>n m c r1. admit n m r = Some (Inr c, r1) \<longrightarrow>
     nx_id (ac_namespace c) = n \<and> (\<forall>d. Admitted d \<in> set given \<longrightarrow> ac_client_id d \<noteq> ac_client_id c)
     \<and> (\<forall>d. is_current_admission r1 d \<longleftrightarrow> d = c \<or> is_current_admission r d))"

definition creates_fresh :: "handed_out list \<Rightarrow> NamespaceRegistry \<Rightarrow> bool" where
  "creates_fresh given r \<longleftrightarrow> (\<forall>p k x r1. create_namespace p k r = Some (x, r1) \<longrightarrow>
     registry_namespace r1 (nx_id x) = Some x \<and> (\<forall>y. Created y \<in> set given \<longrightarrow> nx_id y \<noteq> nx_id x))"

definition revokes_client :: "NamespaceRegistry \<Rightarrow> bool" where
  "revokes_client r \<longleftrightarrow> (\<forall>i. case revoke_admission i r of
       (Inl e, r1) \<Rightarrow> r1 = r \<and> (\<forall>c. is_current_admission r c \<longrightarrow> ac_client_id c \<noteq> i)
     | (Inr c, r1) \<Rightarrow> is_current_admission r c \<and> ac_client_id c = i
         \<and> (\<forall>d. is_current_admission r1 d \<longleftrightarrow> is_current_admission r d \<and> d \<noteq> c))"

definition revokes_namespace :: "NamespaceRegistry \<Rightarrow> bool" where
  "revokes_namespace r \<longleftrightarrow> (\<forall>n. case revoke_namespace n r of
       (Inl e, r1) \<Rightarrow> r1 = r \<and> registry_namespace r n = None
     | (Inr v, r1) \<Rightarrow> registry_namespace r n = Some (nv_namespace v) \<and> registry_namespace r1 n = None
         \<and> set (nv_admissions v) = {c. is_current_admission r c \<and> nx_id (ac_namespace c) = n}
         \<and> (\<forall>c. is_current_admission r1 c \<longleftrightarrow> is_current_admission r c \<and> nx_id (ac_namespace c) \<noteq> n))"

lemma admits_freshI:
  assumes inv: "registry_inv r" and log: "logged given r"
  shows "admits_fresh given r"
  unfolding admits_fresh_def
proof (intro allI impI)
  fix n m c r1
  assume a: "admit n m r = Some (Inr c, r1)"
  note inv1 = admit_inv [OF a inv]
  have ids: "bt_get (ng_admissions r) (ac_client_id d) = Some d \<Longrightarrow> ac_client_id d \<noteq> ia_next (ng_admission_ids r)" for d
    using registry_ids(2) [OF inv, of "ac_client_id d" d] by auto
  from a inv show "nx_id (ac_namespace c) = n \<and> (\<forall>d. Admitted d \<in> set given \<longrightarrow> ac_client_id d \<noteq> ac_client_id c)
     \<and> (\<forall>d. is_current_admission r1 d \<longleftrightarrow> d = c \<or> is_current_admission r d)"
  proof (cases rule: admit_Some)
    case (admitted nctx j ctx)
    then have c: "c = ctx" "ac_client_id c = ia_next (ng_admission_ids r)" by simp_all
    have "is_current_admission r1 d \<longleftrightarrow> d = c \<or> is_current_admission r d" for d
      unfolding current_iff [OF inv] current_iff [OF inv1] using ids [of d] admitted(5) c by (auto simp: bt_get_insert)
    moreover have "nx_id (ac_namespace c) = n" using inv admitted(1,3) c(1) by (simp add: registry_inv_def)
    moreover have "ac_client_id d \<noteq> ac_client_id c" if "Admitted d \<in> set given" for d
      using log that c(2) by (auto simp: logged_def issued_def)
    ultimately show ?thesis by blast
  qed simp
qed

lemma creates_freshI: "logged given r \<Longrightarrow> creates_fresh given r"
  unfolding creates_fresh_def
  by (auto elim!: create_namespace_Some simp: registry_namespace_def bt_get_insert logged_def)

lemma revokes_clientI:
  assumes inv: "registry_inv r"
  shows "revokes_client r"
proof -
  have ids: "bt_get (ng_admissions r) i = Some c \<Longrightarrow> ac_client_id c = i" for i c using inv by (auto simp: registry_inv_def)
  have "case revoke_admission i r of
       (Inl e, r1) \<Rightarrow> r1 = r \<and> (\<forall>c. is_current_admission r c \<longrightarrow> ac_client_id c \<noteq> i)
     | (Inr c, r1) \<Rightarrow> is_current_admission r c \<and> ac_client_id c = i
         \<and> (\<forall>d. is_current_admission r1 d \<longleftrightarrow> is_current_admission r d \<and> d \<noteq> c)" for i
  proof (cases "bt_get (ng_admissions r) i")
    case (Some c)
    let ?r = "r\<lparr>ng_admissions := bt_remove i (ng_admissions r)\<rparr>"
    have rev: "revoke_admission i r = (Inr c, ?r)" using Some by (simp add: revoke_admission_def)
    have inv1: "registry_inv ?r" by (rule revoke_admission_inv [OF rev inv])
    have "bt_get (bt_remove i (ng_admissions r)) (ac_client_id d) = Some d \<longleftrightarrow>
        bt_get (ng_admissions r) (ac_client_id d) = Some d \<and> d \<noteq> c" for d
      using Some ids [OF Some] by (cases "ac_client_id d = i") (auto simp: bt_get_remove)
    then show ?thesis using Some ids [OF Some] by (simp add: rev current_iff [OF inv] current_iff [OF inv1])
  qed (auto simp: revoke_admission_def current_iff [OF inv])
  then show ?thesis unfolding revokes_client_def by blast
qed

lemma revokes_namespaceI:
  assumes inv: "registry_inv r"
  shows "revokes_namespace r"
proof -
  have wf: "bt_wf (ng_admissions r)" using inv by (simp add: registry_inv_def)
  have vals: "c \<in> set (bt_values (ng_admissions r)) \<longleftrightarrow> is_current_admission r c" for c
    using inv unfolding current_iff [OF inv] bt_values_ran [OF wf] by (auto simp: registry_inv_def)
  have "case revoke_namespace n r of
       (Inl e, r1) \<Rightarrow> r1 = r \<and> registry_namespace r n = None
     | (Inr v, r1) \<Rightarrow> registry_namespace r n = Some (nv_namespace v) \<and> registry_namespace r1 n = None
         \<and> set (nv_admissions v) = {c. is_current_admission r c \<and> nx_id (ac_namespace c) = n}
         \<and> (\<forall>c. is_current_admission r1 c \<longleftrightarrow> is_current_admission r c \<and> nx_id (ac_namespace c) \<noteq> n)" for n
  proof -
    obtain res r1 where rev: "revoke_namespace n r = (res, r1)" by force
    note inv1 = revoke_namespace_inv [OF rev inv]
    from rev inv show ?thesis
    proof (cases rule: revoke_namespace_cases)
      case (revoked nctx)
      have "is_current_admission r1 c \<longleftrightarrow> is_current_admission r c \<and> nx_id (ac_namespace c) \<noteq> n" for c
        using get_filter_values [OF wf, of "\<lambda>a. nx_id (ac_namespace a) \<noteq> n" "ac_client_id c" c] revoked(3)
        unfolding current_iff [OF inv] current_iff [OF inv1] by simp
      then show ?thesis using rev revoked vals by (auto simp: registry_namespace_def bt_get_remove)
    qed (use rev in \<open>simp add: registry_namespace_def\<close>)
  qed
  then show ?thesis unfolding revokes_namespace_def by blast
qed

text \<open>
  Property C29. In every registry that a session reaches, with the log of the contexts it handed out: a new namespace and
  a new client get ids that no context of the log has, and the new admission is current, in the namespace asked for,
  beside those that were current before. Revoking a client returns its admission, which was current, and exactly this one
  stops being current; it fails, without effect, exactly when no current admission has the id. Revoking a namespace
  reports exactly its current admissions, exactly these stop being current and the namespace is gone; it fails only for a
  namespace that is not registered. Every current admission is in the log, and one of the log that is not current never
  becomes current again, whatever the session does.
\<close>

theorem admissions_revocable:
  assumes "registry_new g = Inr r0" "session r0 given r"
  shows "creates_fresh given r \<and> admits_fresh given r \<and> revokes_client r \<and> revokes_namespace r
     \<and> (\<forall>c. is_current_admission r c \<longrightarrow> Admitted c \<in> set given)
     \<and> (\<forall>c more r1. Admitted c \<in> set given \<longrightarrow> \<not> is_current_admission r c \<longrightarrow> session r more r1
            \<longrightarrow> \<not> is_current_admission r1 c)"
proof -
  note inv = session_logged(1) [OF assms] and log = session_logged(2) [OF assms]
  have "\<not> is_current_admission r1 c"
    if "Admitted c \<in> set given" "\<not> is_current_admission r c" "session r more r1" for c more r1
    using session_steps(2) [OF that(3) inv] that(1,2) log by (auto simp: no_resurrection_def logged_def)
  moreover have "Admitted c \<in> set given" if "is_current_admission r c" for c
    using that log unfolding current_iff [OF inv] by (auto simp: logged_def)
  ultimately show ?thesis
    using creates_freshI [OF log] admits_freshI [OF inv log] revokes_clientI [OF inv] revokes_namespaceI [OF inv] by blast
qed

text \<open>A session with one namespace and one trusted client of it.\<close>

definition example_namespace :: NamespaceContext where
  "example_namespace = \<lparr>nx_id = 1, nx_profile = Confined, nx_capabilities = capabilities_NONE\<rparr>"

definition example_admission :: ClientAdmissionContext where
  "example_admission = \<lparr>ac_client_id = 1, ac_namespace = example_namespace,
     ac_auth_provenance = \<lparr>ap_method = TrustedLocal, ap_session_generation = 1\<rparr>\<rparr>"

definition example_session :: "nat \<Rightarrow> NamespaceRegistry" where
  "example_session n =
     \<lparr>ng_session_generation = 1, ng_namespace_ids = \<lparr>ia_next = (if n = 0 then 1 else 2)\<rparr>,
      ng_admission_ids = \<lparr>ia_next = (if n = 2 then 2 else 1)\<rparr>,
      ng_namespaces = (if n = 0 then [] else [(1, example_namespace)]),
      ng_admissions = (if n = 2 then [(1, example_admission)] else [])\<rparr>"

lemma example_session_reached: "session (example_session 0) [Created example_namespace, Admitted example_admission] (example_session 2)"
proof -
  have "create_namespace Confined capabilities_NONE (example_session 0) = Some (example_namespace, example_session 1)"
    by (simp add: create_namespace_def next_raw_def checked_add_def example_session_def example_namespace_def
        namespace_context_new_def id_is_valid_def)
  then have "registry_step (example_session 0) [Created example_namespace] (example_session 1)" by (rule registry_step.create)
  from session.call [OF session.start this]
  have 1: "session (example_session 0) [Created example_namespace] (example_session 1)" by simp
  have "admit 1 TrustedLocal (example_session 1) = Some (Inr example_admission, example_session 2)"
    by (simp add: admit_def next_raw_def checked_add_def example_session_def example_namespace_def example_admission_def
        registry_namespace_def auth_provenance_new_def admission_context_new_def namespace_context_is_valid_def
        auth_provenance_is_valid_def id_is_valid_def)
  then have "registry_step (example_session 1) [Admitted example_admission] (example_session 2)" by (rule registry_step.admit)
  from session.call [OF 1 this] show ?thesis by simp
qed

theorem admissions_revocable_witness:
  "is_current_admission (example_session 2) example_admission
   \<and> fst (revoke_admission 1 (example_session 2)) = Inr example_admission
   \<and> \<not> is_current_admission (snd (revoke_admission 1 (example_session 2))) example_admission
   \<and> \<not> is_current_admission (snd (revoke_namespace 1 (example_session 2))) example_admission"
proof -
  have current: "is_current_admission (example_session 2) example_admission"
    by (simp add: is_current_admission_def example_session_def example_admission_def admission_def registry_namespace_def
        example_namespace_def)
  have "registry_new 1 = Inr (example_session 0)"
    by (simp add: registry_new_def example_session_def id_allocator_new_def)
  from admissions_revocable [OF this example_session_reached]
  have c: "revokes_client (example_session 2)" and n: "revokes_namespace (example_session 2)" by simp_all
  have "fst (revoke_admission 1 (example_session 2)) = Inr example_admission"
    by (simp add: revoke_admission_def example_session_def)
  moreover then have "\<not> is_current_admission (snd (revoke_admission 1 (example_session 2))) example_admission"
    using c [unfolded revokes_client_def, rule_format, of 1] by (cases "revoke_admission 1 (example_session 2)") auto
  moreover have "nx_id (ac_namespace example_admission) = 1" "fst (revoke_namespace 1 (example_session 2)) \<noteq> Inl e" for e
    by (simp_all add: example_admission_def example_namespace_def revoke_namespace_def example_session_def)
  then have "\<not> is_current_admission (snd (revoke_namespace 1 (example_session 2))) example_admission"
    using n [unfolded revokes_namespace_def, rule_format, of 1]
    by (cases "revoke_namespace 1 (example_session 2)"; cases "fst (revoke_namespace 1 (example_session 2))") auto
  ultimately show ?thesis using current by blast
qed

end
