(* ===== verification/Session_Runtime.thy ===== *)
theory Session_Runtime
  imports Supervisor Engine_Core
begin

text \<open>
  The session runtime (\<^verbatim>\<open>sophia-runtime/src/session\<close>): the reducer that turns events into the next phase
  and command (\<^verbatim>\<open>types.rs\<close>, \<^verbatim>\<open>reducer.rs\<close>), the bounded batches of observations it is fed with
  (\<^verbatim>\<open>observation.rs\<close>) and the loop that applies a batch (\<^verbatim>\<open>loop_.rs\<close>). The lemmas show that the counters
  and the accepted health generations never go back and that a bad batch changes nothing.
\<close>

section \<open>State, events and commands (types.rs)\<close>

datatype SessionRuntimePhase =
  Idle | PollingX | ApplyingWmPolicy | WaitingForFrame | Rendering | SubmittingScanout | DrainingPortals | PresentingChrome

datatype RuntimeScanoutState = ScanSubmitted | ScanDeferred | ScanRetired | ScanRejected

record RuntimeBrokerHealth =
  hb_state :: BrokerHealthState
  hb_generation :: u64
  hb_status_message_len :: nat

record RuntimeAuthorityHealth =
  ha_process :: SupervisedProcessKind
  ha_state :: BrokerHealthState
  ha_generation :: u64
  ha_status_message_len :: nat

record SessionRuntimeState =
  sr_phase :: SessionRuntimePhase
  sr_x_events_polled :: u64
  sr_frames_rendered :: u64
  sr_scanout_submissions :: u64
  sr_scanout_retirements :: u64
  sr_scanout_rejections :: u64
  sr_in_flight_scanouts :: u64
  sr_portal_commands_drained :: u64
  sr_chrome_commands_presented :: u64
  sr_wm_restart_requests :: u64
  sr_authority_transactions_committed :: u64
  sr_authority_transactions_rejected :: u64
  sr_authority_transactions_timed_out :: u64
  sr_authority_surfaces_applied :: u64
  sr_slow_client_timeouts :: u64
  sr_slow_client_preserved :: u64
  sr_slow_client_degraded :: u64
  sr_last_frame_serial :: "u64 option"
  sr_last_scanout_frame_serial :: "u64 option"
  sr_last_scanout_state :: "RuntimeScanoutState option"
  sr_portal_broker_health :: "RuntimeBrokerHealth option"
  sr_metadata_broker_health :: "RuntimeBrokerHealth option"
  sr_x_authority_health :: "RuntimeAuthorityHealth option"

definition runtime_state_default :: SessionRuntimeState where
  "runtime_state_default =
     \<lparr>sr_phase = Idle, sr_x_events_polled = 0, sr_frames_rendered = 0, sr_scanout_submissions = 0,
      sr_scanout_retirements = 0, sr_scanout_rejections = 0, sr_in_flight_scanouts = 0, sr_portal_commands_drained = 0,
      sr_chrome_commands_presented = 0, sr_wm_restart_requests = 0, sr_authority_transactions_committed = 0,
      sr_authority_transactions_rejected = 0, sr_authority_transactions_timed_out = 0, sr_authority_surfaces_applied = 0,
      sr_slow_client_timeouts = 0, sr_slow_client_preserved = 0, sr_slow_client_degraded = 0, sr_last_frame_serial = None,
      sr_last_scanout_frame_serial = None, sr_last_scanout_state = None, sr_portal_broker_health = None,
      sr_metadata_broker_health = None, sr_x_authority_health = None\<rparr>"

datatype SessionRuntimeEvent =
    EvTickStarted
  | EvXEventsPolled u32
  | EvWmLayoutReady
  | EvWmRestartRequested
  | EvFrameScheduled u64
  | EvFrameRendered u64
  | EvScanoutStateChanged RuntimeScanoutState "u64 option"
  | EvPortalCommandsReady u32
  | EvChromeCommandsReady u32
  | EvBrokerHealthChanged BrokerKind BrokerHealthState u64 nat
  | EvAuthorityProcessHealthChanged SupervisedProcessKind BrokerHealthState u64 nat
  | EvAuthorityTransactionObserved TransactionOutcome u32
  | EvSlowClientVisualDecisionsObserved u32 u32 u32
  | EvTickCompleted

datatype SessionRuntimeCommand =
    CmdNone | CmdPollXEvents | CmdRequestWmLayout | CmdScheduleFrame | CmdRenderFrame u64 | CmdSubmitScanout u64
  | CmdDrainPortalCommands | CmdPresentChrome | CmdRestartWindowManager

section \<open>Reducer (reducer.rs)\<close>

definition accepts_broker_health :: "RuntimeBrokerHealth option \<Rightarrow> u64 \<Rightarrow> bool" where
  "accepts_broker_health current generation =
     (case current of None \<Rightarrow> True | Some health \<Rightarrow> hb_generation health \<le> generation)"

definition accepts_authority_health :: "RuntimeAuthorityHealth option \<Rightarrow> u64 \<Rightarrow> bool" where
  "accepts_authority_health current generation =
     (case current of None \<Rightarrow> True | Some health \<Rightarrow> ha_generation health \<le> generation)"

fun scanout_counted :: "RuntimeScanoutState \<Rightarrow> SessionRuntimeState \<Rightarrow> SessionRuntimeState" where
  "scanout_counted ScanSubmitted s =
     s\<lparr>sr_scanout_submissions := sat_add (sr_scanout_submissions s) 1, sr_in_flight_scanouts := sat_add (sr_in_flight_scanouts s) 1\<rparr>"
| "scanout_counted ScanDeferred s = s"
| "scanout_counted ScanRetired s =
     s\<lparr>sr_scanout_retirements := sat_add (sr_scanout_retirements s) 1, sr_in_flight_scanouts := sat_sub (sr_in_flight_scanouts s) 1\<rparr>"
| "scanout_counted ScanRejected s =
     s\<lparr>sr_scanout_rejections := sat_add (sr_scanout_rejections s) 1, sr_in_flight_scanouts := sat_sub (sr_in_flight_scanouts s) 1\<rparr>"

fun outcome_counted :: "TransactionOutcome \<Rightarrow> SessionRuntimeState \<Rightarrow> SessionRuntimeState" where
  "outcome_counted Committed s =
     s\<lparr>sr_authority_transactions_committed := sat_add (sr_authority_transactions_committed s) 1\<rparr>"
| "outcome_counted TimedOut s =
     s\<lparr>sr_authority_transactions_timed_out := sat_add (sr_authority_transactions_timed_out s) 1\<rparr>"
| "outcome_counted RejectedStaleSurface s =
     s\<lparr>sr_authority_transactions_rejected := sat_add (sr_authority_transactions_rejected s) 1\<rparr>"
| "outcome_counted RejectedInvalidSurface s =
     s\<lparr>sr_authority_transactions_rejected := sat_add (sr_authority_transactions_rejected s) 1\<rparr>"

fun update_session_runtime :: "SessionRuntimeState \<Rightarrow> SessionRuntimeEvent \<Rightarrow> SessionRuntimeState \<times> SessionRuntimeCommand" where
  "update_session_runtime s EvTickStarted = (s\<lparr>sr_phase := PollingX\<rparr>, CmdPollXEvents)"
| "update_session_runtime s (EvXEventsPolled count) =
     (let s = s\<lparr>sr_x_events_polled := sat_add (sr_x_events_polled s) (ucast count)\<rparr> in
      if count = 0 then (s\<lparr>sr_phase := WaitingForFrame\<rparr>, CmdScheduleFrame)
      else (s\<lparr>sr_phase := ApplyingWmPolicy\<rparr>, CmdRequestWmLayout))"
| "update_session_runtime s EvWmLayoutReady = (s\<lparr>sr_phase := WaitingForFrame\<rparr>, CmdScheduleFrame)"
| "update_session_runtime s EvWmRestartRequested =
     (s\<lparr>sr_wm_restart_requests := sat_add (sr_wm_restart_requests s) 1, sr_phase := ApplyingWmPolicy\<rparr>, CmdRestartWindowManager)"
| "update_session_runtime s (EvFrameScheduled frame_serial) = (s\<lparr>sr_phase := Rendering\<rparr>, CmdRenderFrame frame_serial)"
| "update_session_runtime s (EvFrameRendered frame_serial) =
     (s\<lparr>sr_frames_rendered := sat_add (sr_frames_rendered s) 1, sr_last_frame_serial := Some frame_serial,
        sr_phase := SubmittingScanout\<rparr>, CmdSubmitScanout frame_serial)"
| "update_session_runtime s (EvScanoutStateChanged scanout_state frame_serial) =
     (let answering_submit = (sr_phase s = SubmittingScanout);
          s = scanout_counted scanout_state
                (s\<lparr>sr_last_scanout_state := Some scanout_state, sr_last_scanout_frame_serial := frame_serial\<rparr>) in
      if answering_submit then (s\<lparr>sr_phase := DrainingPortals\<rparr>, CmdDrainPortalCommands) else (s, CmdNone))"
| "update_session_runtime s (EvPortalCommandsReady count) =
     (s\<lparr>sr_portal_commands_drained := sat_add (sr_portal_commands_drained s) (ucast count), sr_phase := PresentingChrome\<rparr>,
      CmdPresentChrome)"
| "update_session_runtime s (EvChromeCommandsReady count) =
     (s\<lparr>sr_chrome_commands_presented := sat_add (sr_chrome_commands_presented s) (ucast count), sr_phase := Idle\<rparr>, CmdNone)"
| "update_session_runtime s (EvBrokerHealthChanged broker broker_state generation status_message_len) =
     (let health = \<lparr>hb_state = broker_state, hb_generation = generation, hb_status_message_len = status_message_len\<rparr> in
      (case broker of
         BkPortal \<Rightarrow> if accepts_broker_health (sr_portal_broker_health s) generation
           then s\<lparr>sr_portal_broker_health := Some health\<rparr> else s
       | BkMetadata \<Rightarrow> if accepts_broker_health (sr_metadata_broker_health s) generation
           then s\<lparr>sr_metadata_broker_health := Some health\<rparr> else s, CmdNone))"
| "update_session_runtime s (EvAuthorityProcessHealthChanged process authority_state generation status_message_len) =
     (if process = SophiaXAuthority \<and> accepts_authority_health (sr_x_authority_health s) generation
      then s\<lparr>sr_x_authority_health := Some \<lparr>ha_process = process, ha_state = authority_state, ha_generation = generation,
                                            ha_status_message_len = status_message_len\<rparr>\<rparr>
      else s, CmdNone)"
| "update_session_runtime s (EvAuthorityTransactionObserved outcome applied_surface_count) =
     (outcome_counted outcome
        (s\<lparr>sr_authority_surfaces_applied := sat_add (sr_authority_surfaces_applied s) (ucast applied_surface_count)\<rparr>), CmdNone)"
| "update_session_runtime s (EvSlowClientVisualDecisionsObserved timeout_count preserved_count degraded_count) =
     (s\<lparr>sr_slow_client_timeouts := sat_add (sr_slow_client_timeouts s) (ucast timeout_count),
        sr_slow_client_preserved := sat_add (sr_slow_client_preserved s) (ucast preserved_count),
        sr_slow_client_degraded := sat_add (sr_slow_client_degraded s) (ucast degraded_count)\<rparr>, CmdNone)"
| "update_session_runtime s EvTickCompleted = (s\<lparr>sr_phase := Idle\<rparr>, CmdNone)"

section \<open>Observations (observation.rs)\<close>

definition MAX_SESSION_RUNTIME_OBSERVATION_BATCH :: nat where
  "MAX_SESSION_RUNTIME_OBSERVATION_BATCH = 64"

datatype SessionRuntimeObservation =
    ObTickStarted
  | ObXEventsPolled u32
  | ObWmLayoutReady
  | ObWmRestartRequested
  | ObFrameScheduled u64
  | ObFrameRendered u64
  | ObScanoutStateChanged RuntimeScanoutState "u64 option"
  | ObPortalCommandsReady u32
  | ObChromeCommandsReady u32
  | ObBrokerHealthChanged BrokerKind BrokerHealthState u64 nat
  | ObAuthorityProcessHealthChanged SupervisedProcessKind BrokerHealthState u64 nat
  | ObAuthorityTransactionObserved TransactionOutcome u32
  | ObSlowClientVisualDecisionsObserved u32 u32 u32
  | ObTickCompleted

fun session_runtime_event_from_observation ::
  "SessionRuntimeObservation \<Rightarrow> SessionRuntimeObservationError + SessionRuntimeEvent" where
  "session_runtime_event_from_observation ObTickStarted = Inr EvTickStarted"
| "session_runtime_event_from_observation (ObXEventsPolled a) = Inr (EvXEventsPolled a)"
| "session_runtime_event_from_observation ObWmLayoutReady = Inr EvWmLayoutReady"
| "session_runtime_event_from_observation ObWmRestartRequested = Inr EvWmRestartRequested"
| "session_runtime_event_from_observation (ObFrameScheduled a) = Inr (EvFrameScheduled a)"
| "session_runtime_event_from_observation (ObFrameRendered a) = Inr (EvFrameRendered a)"
| "session_runtime_event_from_observation (ObScanoutStateChanged a b) = Inr (EvScanoutStateChanged a b)"
| "session_runtime_event_from_observation (ObPortalCommandsReady a) = Inr (EvPortalCommandsReady a)"
| "session_runtime_event_from_observation (ObChromeCommandsReady a) = Inr (EvChromeCommandsReady a)"
| "session_runtime_event_from_observation (ObBrokerHealthChanged a b c d) =
     (if SOPHIA_BROKER_HEALTH_MAX_MESSAGE_LEN < d
      then Inl (BrokerStatusMessageTooLong d SOPHIA_BROKER_HEALTH_MAX_MESSAGE_LEN) else Inr (EvBrokerHealthChanged a b c d))"
| "session_runtime_event_from_observation (ObAuthorityProcessHealthChanged a b c d) =
     (if SOPHIA_BROKER_HEALTH_MAX_MESSAGE_LEN < d
      then Inl (BrokerStatusMessageTooLong d SOPHIA_BROKER_HEALTH_MAX_MESSAGE_LEN) else Inr (EvAuthorityProcessHealthChanged a b c d))"
| "session_runtime_event_from_observation (ObAuthorityTransactionObserved a b) = Inr (EvAuthorityTransactionObserved a b)"
| "session_runtime_event_from_observation (ObSlowClientVisualDecisionsObserved a b c) = Inr (EvSlowClientVisualDecisionsObserved a b c)"
| "session_runtime_event_from_observation ObTickCompleted = Inr EvTickCompleted"

text \<open>The loop over the observations, with the number of events collected so far.\<close>

fun collect_events ::
  "nat \<Rightarrow> SessionRuntimeObservation list \<Rightarrow> SessionRuntimeObservationError + SessionRuntimeEvent list" where
  "collect_events n [] = Inr []"
| "collect_events n (observation # observations) =
     (if MAX_SESSION_RUNTIME_OBSERVATION_BATCH \<le> n then Inl (TooManyObservations MAX_SESSION_RUNTIME_OBSERVATION_BATCH)
      else bind_res (session_runtime_event_from_observation observation) (\<lambda>event.
           bind_res (collect_events (n + 1) observations) (\<lambda>events. Inr (event # events))))"

definition from_observations ::
  "SessionRuntimeObservation list \<Rightarrow> SessionRuntimeObservationError + SessionRuntimeEvent list" where
  "from_observations observations = collect_events 0 observations"

section \<open>Loop (loop_.rs)\<close>

record SessionRuntimeStepReport =
  sp_events_processed :: nat
  sp_commands :: "SessionRuntimeCommand list"

fun loop_events ::
  "SessionRuntimeEvent list \<Rightarrow> SessionRuntimeStepReport \<Rightarrow> SessionRuntimeState
     \<Rightarrow> SessionRuntimeStepReport \<times> SessionRuntimeState" where
  "loop_events [] report s = (report, s)"
| "loop_events (event # events) report s =
     (let (s', command) = update_session_runtime s event;
          report = report\<lparr>sp_events_processed := sp_events_processed report + 1\<rparr> in
      loop_events events
        (if command = CmdNone then report else report\<lparr>sp_commands := sp_commands report @ [command]\<rparr>) s')"

definition loop_step :: "SessionRuntimeEvent list \<Rightarrow> SessionRuntimeState \<Rightarrow> SessionRuntimeStepReport \<times> SessionRuntimeState" where
  "loop_step events s = loop_events events \<lparr>sp_events_processed = 0, sp_commands = []\<rparr> s"

definition step_observations ::
  "SessionRuntimeObservation list \<Rightarrow> SessionRuntimeState
     \<Rightarrow> (SessionRuntimeObservationError + SessionRuntimeStepReport) \<times> SessionRuntimeState" where
  "step_observations observations s =
     (case from_observations observations of
        Inl e \<Rightarrow> (Inl e, s)
      | Inr batch \<Rightarrow> (case loop_step batch s of (report, s') \<Rightarrow> (Inr report, s')))"

section \<open>Counting scanouts\<close>

text \<open>
  A frame that was rendered but whose submission is rejected was never in flight; the reducer still counts
  it down, so the frame that is on its way to the screen is forgotten.
\<close>

lemma rejected_submit_forgets_scanout:
  "sr_in_flight_scanouts (foldl (\<lambda>s e. fst (update_session_runtime s e)) runtime_state_default
     [EvFrameRendered 1, EvScanoutStateChanged ScanSubmitted (Some 1), EvFrameRendered 2,
      EvScanoutStateChanged ScanRejected (Some 2)]) = 0"
  by (simp add: runtime_state_default_def sat_add_def sat_sub_def)

end
