(* ===== verification/Session_Driver.thy ===== *)
theory Session_Driver
  imports Session_Runtime Wm_Transport Portal_Reducers
begin

text \<open>
  The driver that runs one session tick (\<^verbatim>\<open>sophia-engine/src/runtime_driver\<close>): observations made from
  engine reports (\<^verbatim>\<open>observation.rs\<close>), the adapters that answer runtime commands (\<^verbatim>\<open>adapter.rs\<close> and
  \<^verbatim>\<open>live_adapter\<close>), and the executor that pops commands until none is left (\<^verbatim>\<open>driver.rs\<close>). An adapter is a
  record of its trait methods over its own state. The executor's loop has no bound of its own, so it takes
  fuel; eight rounds are enough for the adapters of the engine.
\<close>

section \<open>Observations (observation.rs)\<close>

definition u32_of_count :: "nat \<Rightarrow> u32" where
  "u32_of_count n = (if n < 2 ^ 32 then of_nat n else word_max)"

definition runtime_observation_from_wm_transaction_update :: "WmTransactionUpdate \<Rightarrow> SessionRuntimeObservation" where
  "runtime_observation_from_wm_transaction_update update =
     (case runtime_action update of KeepRunning \<Rightarrow> ObWmLayoutReady | RestartWm _ \<Rightarrow> ObWmRestartRequested)"

definition runtime_observation_from_authority_transaction_commit :: "TransactionCommit \<Rightarrow> SessionRuntimeObservation" where
  "runtime_observation_from_authority_transaction_commit commit =
     ObAuthorityTransactionObserved (tc_outcome commit) (u32_of_count (length (tc_applied_surfaces commit)))"

definition runtime_observation_from_slow_client_visual_decisions ::
  "SlowClientVisualDecision list \<Rightarrow> SessionRuntimeObservation" where
  "runtime_observation_from_slow_client_visual_decisions decisions =
     (let preserved = length (filter (\<lambda>d. case d of ScPreserveCommitted _ _ \<Rightarrow> True | _ \<Rightarrow> False) decisions);
          degraded = length (filter (\<lambda>d. case d of ScDegradeToPending _ _ \<Rightarrow> True | _ \<Rightarrow> False) decisions) in
      ObSlowClientVisualDecisionsObserved (u32_of_count (preserved + degraded)) (u32_of_count preserved)
        (u32_of_count degraded))"

definition runtime_observation_from_session_tick_report :: "SessionTickReport \<Rightarrow> SessionRuntimeObservation" where
  "runtime_observation_from_session_tick_report report = ObFrameRendered (fs_frame_serial (sr_frame report))"

definition runtime_observation_from_render_frame_report :: "RenderFrameReport \<Rightarrow> SessionRuntimeObservation" where
  "runtime_observation_from_render_frame_report report = ObFrameRendered (rp_frame_serial (rf_replay report))"

definition runtime_observation_from_portal_commands :: "PortalCommand list \<Rightarrow> SessionRuntimeObservation" where
  "runtime_observation_from_portal_commands commands = ObPortalCommandsReady (u32_of_count (length commands))"

section \<open>Adapters (adapter.rs)\<close>

type_synonym 'a reply = "(EngineError + SessionRuntimeObservation) \<times> 'a"

record 'a RuntimeDriverAdapter =
  ad_poll_x_observations :: "'a \<Rightarrow> (EngineError + SessionRuntimeObservation list) \<times> 'a"
  ad_request_wm_layout :: "'a \<Rightarrow> 'a reply"
  ad_schedule_frame :: "u64 \<Rightarrow> 'a \<Rightarrow> 'a reply"
  ad_render_frame :: "HeadlessEngine \<Rightarrow> OutputId \<Rightarrow> u64 \<Rightarrow> LastCommittedLayout \<Rightarrow> 'a
    \<Rightarrow> (EngineError + SessionTickReport) \<times> LastCommittedLayout \<times> 'a"
  ad_submit_scanout :: "u64 \<Rightarrow> 'a \<Rightarrow> 'a reply"
  ad_drain_portal_commands :: "'a \<Rightarrow> 'a reply"
  ad_present_chrome :: "'a \<Rightarrow> 'a reply"

text \<open>The default methods of the trait.\<close>

definition default_schedule_frame :: "u64 \<Rightarrow> 'a \<Rightarrow> 'a reply" where
  "default_schedule_frame frame_serial a = (Inr (ObFrameScheduled frame_serial), a)"

definition default_submit_scanout :: "u64 \<Rightarrow> 'a \<Rightarrow> 'a reply" where
  "default_submit_scanout frame_serial a = (Inr (ObScanoutStateChanged ScanSubmitted (Some frame_serial)), a)"

record HeadlessSessionDriverTick =
  dt_output :: OutputId
  dt_frame_serial :: u64
  dt_x_event_count :: u32
  dt_layers :: "LayerSnapshot list"
  dt_wm_update :: "WmTransactionUpdate option"
  dt_portal_commands :: "PortalCommand list"
  dt_chrome_command_count :: u32

record HeadlessRuntimeAdapter =
  hr_x_event_count :: u32
  hr_layers :: "LayerSnapshot list"
  hr_wm_update :: "WmTransactionUpdate option"
  hr_portal_commands :: "PortalCommand list"
  hr_chrome_command_count :: u32

definition headless_adapter_new :: "HeadlessSessionDriverTick \<Rightarrow> HeadlessRuntimeAdapter" where
  "headless_adapter_new tick =
     \<lparr>hr_x_event_count = dt_x_event_count tick, hr_layers = dt_layers tick, hr_wm_update = dt_wm_update tick,
      hr_portal_commands = dt_portal_commands tick, hr_chrome_command_count = dt_chrome_command_count tick\<rparr>"

definition wm_layout_observation :: "WmTransactionUpdate option \<Rightarrow> SessionRuntimeObservation" where
  "wm_layout_observation update =
     (case update of None \<Rightarrow> ObWmLayoutReady | Some u \<Rightarrow> runtime_observation_from_wm_transaction_update u)"

definition headless_adapter :: "HeadlessRuntimeAdapter RuntimeDriverAdapter" where
  "headless_adapter =
     \<lparr>ad_poll_x_observations = (\<lambda>a. (Inr [ObXEventsPolled (hr_x_event_count a)], a)),
      ad_request_wm_layout = (\<lambda>a. (Inr (wm_layout_observation (hr_wm_update a)), a)),
      ad_schedule_frame = default_schedule_frame,
      ad_render_frame = (\<lambda>engine output frame_serial last_committed a.
        case run_session_tick engine
               \<lparr>sq_output = output, sq_frame_serial = frame_serial, sq_layers = Fresh (hr_layers a)\<rparr> last_committed of
          (r, last') \<Rightarrow> (r, last', a)),
      ad_submit_scanout = default_submit_scanout,
      ad_drain_portal_commands = (\<lambda>a. (Inr (runtime_observation_from_portal_commands (hr_portal_commands a)), a)),
      ad_present_chrome = (\<lambda>a. (Inr (ObChromeCommandsReady (hr_chrome_command_count a)), a))\<rparr>"

section \<open>Live adapter (live_adapter)\<close>

record LiveXRuntimeAdapter =
  lx_pending_event_count :: u32
  lx_authority_commits :: "TransactionCommit list"

definition poll_observations :: "LiveXRuntimeAdapter \<Rightarrow> SessionRuntimeObservation list" where
  "poll_observations x =
     ObXEventsPolled (lx_pending_event_count x)
       # map runtime_observation_from_authority_transaction_commit (lx_authority_commits x)"

record LiveRendererRuntimeAdapter =
  lr_layers :: "LayerSnapshot list"
  lr_committed_surfaces :: "CommittedSurfaceState list"

definition live_render_frame ::
  "HeadlessEngine \<Rightarrow> OutputId \<Rightarrow> u64 \<Rightarrow> LastCommittedLayout \<Rightarrow> LiveRendererRuntimeAdapter
     \<Rightarrow> (EngineError + SessionTickReport) \<times> LastCommittedLayout" where
  "live_render_frame engine output frame_serial last_committed r =
     (case (if lr_committed_surfaces r = [] then Inr (lr_layers r)
            else project_committed_surface_states (lr_committed_surfaces r) (lr_layers r)) of
        Inl e \<Rightarrow> (Inl e, last_committed)
      | Inr layers \<Rightarrow>
          run_session_tick engine \<lparr>sq_output = output, sq_frame_serial = frame_serial, sq_layers = Fresh layers\<rparr>
            last_committed)"

record LiveScanoutRuntimeAdapter =
  lo_submit_state :: RuntimeScanoutState
  lo_lifecycle_states :: "RuntimeScanoutState list"

definition submit_observation :: "LiveScanoutRuntimeAdapter \<Rightarrow> u64 \<Rightarrow> SessionRuntimeObservation" where
  "submit_observation o' frame_serial = ObScanoutStateChanged (lo_submit_state o') (Some frame_serial)"

definition lifecycle_observations :: "LiveScanoutRuntimeAdapter \<Rightarrow> SessionRuntimeObservation list" where
  "lifecycle_observations o' = map (\<lambda>state. ObScanoutStateChanged state None) (lo_lifecycle_states o')"

record LiveRuntimeDriverAdapter =
  la_x :: LiveXRuntimeAdapter
  la_wm :: "WmTransactionUpdate option"
  la_portal :: "PortalCommand list"
  la_chrome :: u32
  la_renderer :: LiveRendererRuntimeAdapter
  la_scanout :: LiveScanoutRuntimeAdapter

definition live_adapter :: "LiveRuntimeDriverAdapter RuntimeDriverAdapter" where
  "live_adapter =
     \<lparr>ad_poll_x_observations = (\<lambda>a. (Inr (poll_observations (la_x a) @ lifecycle_observations (la_scanout a)), a)),
      ad_request_wm_layout = (\<lambda>a. (Inr (wm_layout_observation (la_wm a)), a)),
      ad_schedule_frame = default_schedule_frame,
      ad_render_frame = (\<lambda>engine output frame_serial last_committed a.
        case live_render_frame engine output frame_serial last_committed (la_renderer a) of (r, last') \<Rightarrow> (r, last', a)),
      ad_submit_scanout = (\<lambda>frame_serial a. (Inr (submit_observation (la_scanout a) frame_serial), a)),
      ad_drain_portal_commands = (\<lambda>a. (Inr (runtime_observation_from_portal_commands (la_portal a)), a)),
      ad_present_chrome = (\<lambda>a. (Inr (ObChromeCommandsReady (la_chrome a)), a))\<rparr>"

record AuthorityTransactionIntake =
  ai_transaction :: TransactionId
  ai_transactions :: "SurfaceTransaction list"
  ai_removed_surfaces :: "SurfaceId list"

definition intake_commit ::
  "AuthorityTransactionIntake \<Rightarrow> CommittedSurfaceState list \<Rightarrow> (TransactionCommit \<times> CommittedSurfaceState list) option" where
  "intake_commit batch committed =
     map_option (\<lambda>(commit, committed').
         (commit, if tc_outcome commit = Committed
                  then filter (\<lambda>state. cs_surface state \<notin> set (ai_removed_surfaces batch)) committed' else committed'))
       (commit_surface_transactions (ai_transaction batch) (ai_transactions batch) committed)"

fun intake_commits ::
  "AuthorityTransactionIntake list \<Rightarrow> CommittedSurfaceState list
     \<Rightarrow> (TransactionCommit list \<times> CommittedSurfaceState list) option" where
  "intake_commits [] committed = Some ([], committed)"
| "intake_commits (batch # batches) committed =
     Option.bind (intake_commit batch committed) (\<lambda>(commit, committed').
     map_option (\<lambda>(commits, committed''). (commit # commits, committed'')) (intake_commits batches committed'))"

record LiveRuntimeDriverIntake =
  li_x_event_count :: u32
  li_authority_commits :: "TransactionCommit list"
  li_authority_batches :: "AuthorityTransactionIntake list"
  li_wm_update :: "WmTransactionUpdate option"
  li_portal_commands :: "PortalCommand list"
  li_chrome_command_count :: u32
  li_layers :: "LayerSnapshot list"
  li_committed_surfaces :: "CommittedSurfaceState list"
  li_scanout_submit_state :: "RuntimeScanoutState option"
  li_scanout_lifecycle_states :: "RuntimeScanoutState list"

definition from_intake :: "LiveRuntimeDriverIntake \<Rightarrow> LiveRuntimeDriverAdapter" where
  "from_intake intake =
     \<lparr>la_x = \<lparr>lx_pending_event_count = li_x_event_count intake, lx_authority_commits = li_authority_commits intake\<rparr>,
      la_wm = li_wm_update intake, la_portal = li_portal_commands intake, la_chrome = li_chrome_command_count intake,
      la_renderer = \<lparr>lr_layers = li_layers intake, lr_committed_surfaces = li_committed_surfaces intake\<rparr>,
      la_scanout = \<lparr>lo_submit_state = (case li_scanout_submit_state intake of None \<Rightarrow> ScanSubmitted | Some s \<Rightarrow> s),
                    lo_lifecycle_states = li_scanout_lifecycle_states intake\<rparr>\<rparr>"

definition from_authority_batches :: "LiveRuntimeDriverIntake \<Rightarrow> LiveRuntimeDriverAdapter option" where
  "from_authority_batches intake =
     map_option (\<lambda>(commits, committed).
         from_intake (intake\<lparr>li_authority_commits := li_authority_commits intake @ commits, li_committed_surfaces := committed\<rparr>))
       (intake_commits (li_authority_batches intake) (li_committed_surfaces intake))"

section \<open>Driver (driver.rs)\<close>

record HeadlessSessionDriverReport =
  dr_runtime_state :: SessionRuntimeState
  dr_runtime_commands :: "SessionRuntimeCommand list"
  dr_session_tick :: "SessionTickReport option"
  dr_cached_layers :: nat

record HeadlessSessionDriver =
  hd_engine :: HeadlessEngine
  hd_runtime :: SessionRuntimeState
  hd_last_committed :: LastCommittedLayout

definition driver_new :: "HeadlessEngine \<Rightarrow> HeadlessSessionDriver" where
  "driver_new engine = \<lparr>hd_engine = engine, hd_runtime = runtime_state_default, hd_last_committed = \<lparr>lcl_layers = []\<rparr>\<rparr>"

record 'a HeadlessSessionCommandExecutor =
  ex_runtime :: SessionRuntimeState
  ex_last_committed :: LastCommittedLayout
  ex_adapter :: 'a
  ex_runtime_commands :: "SessionRuntimeCommand list"
  ex_pending_commands :: "SessionRuntimeCommand list"
  ex_session_tick :: "SessionTickReport option"

type_synonym 'a executor_result = "(EngineError + unit) \<times> 'a HeadlessSessionCommandExecutor"

definition observe ::
  "SessionRuntimeObservation list \<Rightarrow> 'a HeadlessSessionCommandExecutor \<Rightarrow> 'a executor_result" where
  "observe observations ex =
     (case step_observations observations (ex_runtime ex) of
        (Inl e, s) \<Rightarrow> (Inl (RuntimeObservation e), ex\<lparr>ex_runtime := s\<rparr>)
      | (Inr report, s) \<Rightarrow>
          (Inr (), ex\<lparr>ex_runtime := s, ex_runtime_commands := ex_runtime_commands ex @ sp_commands report,
                      ex_pending_commands := ex_pending_commands ex @ rev (sp_commands report)\<rparr>))"

definition observe_answer ::
  "(EngineError + SessionRuntimeObservation) \<times> 'a \<Rightarrow> 'a HeadlessSessionCommandExecutor \<Rightarrow> 'a executor_result" where
  "observe_answer reply ex =
     (case reply of
        (Inl e, a) \<Rightarrow> (Inl e, ex\<lparr>ex_adapter := a\<rparr>)
      | (Inr observation, a) \<Rightarrow> observe [observation] (ex\<lparr>ex_adapter := a\<rparr>))"

text \<open>One round of the loop, on a popped command other than \<open>RestartWindowManager\<close>.\<close>

fun execute ::
  "'a RuntimeDriverAdapter \<Rightarrow> HeadlessEngine \<Rightarrow> OutputId \<Rightarrow> u64 \<Rightarrow> SessionRuntimeCommand
     \<Rightarrow> 'a HeadlessSessionCommandExecutor \<Rightarrow> 'a executor_result" where
  "execute ops engine output frame_serial CmdPollXEvents ex =
     (case ad_poll_x_observations ops (ex_adapter ex) of
        (Inl e, a) \<Rightarrow> (Inl e, ex\<lparr>ex_adapter := a\<rparr>)
      | (Inr observations, a) \<Rightarrow> observe observations (ex\<lparr>ex_adapter := a\<rparr>))"
| "execute ops engine output frame_serial CmdRequestWmLayout ex =
     observe_answer (ad_request_wm_layout ops (ex_adapter ex)) ex"
| "execute ops engine output frame_serial CmdScheduleFrame ex =
     observe_answer (ad_schedule_frame ops frame_serial (ex_adapter ex)) ex"
| "execute ops engine output frame_serial (CmdRenderFrame serial) ex =
     (case ad_render_frame ops engine output serial (ex_last_committed ex) (ex_adapter ex) of
        (Inl e, last', a) \<Rightarrow> (Inl e, ex\<lparr>ex_last_committed := last', ex_adapter := a\<rparr>)
      | (Inr report, last', a) \<Rightarrow>
          observe [runtime_observation_from_session_tick_report report]
            (ex\<lparr>ex_last_committed := last', ex_adapter := a, ex_session_tick := Some report\<rparr>))"
| "execute ops engine output frame_serial (CmdSubmitScanout serial) ex =
     observe_answer (ad_submit_scanout ops serial (ex_adapter ex)) ex"
| "execute ops engine output frame_serial CmdDrainPortalCommands ex =
     observe_answer (ad_drain_portal_commands ops (ex_adapter ex)) ex"
| "execute ops engine output frame_serial CmdPresentChrome ex =
     observe_answer (ad_present_chrome ops (ex_adapter ex)) ex"
| "execute ops engine output frame_serial _ ex = (Inr (), ex)"

fun executor_loop ::
  "nat \<Rightarrow> 'a RuntimeDriverAdapter \<Rightarrow> HeadlessEngine \<Rightarrow> OutputId \<Rightarrow> u64
     \<Rightarrow> 'a HeadlessSessionCommandExecutor \<Rightarrow> 'a executor_result option" where
  "executor_loop fuel ops engine output frame_serial ex =
     (if ex_pending_commands ex = [] then Some (Inr (), ex)
      else case fuel of
          0 \<Rightarrow> None
        | Suc fuel \<Rightarrow>
            let command = last (ex_pending_commands ex);
                ex = ex\<lparr>ex_pending_commands := butlast (ex_pending_commands ex)\<rparr> in
            if command = CmdRestartWindowManager then Some (Inr (), ex)
            else case execute ops engine output frame_serial command ex of
                (Inl e, ex') \<Rightarrow> Some (Inl e, ex')
              | (Inr _, ex') \<Rightarrow> executor_loop fuel ops engine output frame_serial ex')"

declare executor_loop.simps [simp del]

definition executor_run ::
  "nat \<Rightarrow> 'a RuntimeDriverAdapter \<Rightarrow> HeadlessEngine \<Rightarrow> OutputId \<Rightarrow> u64
     \<Rightarrow> 'a HeadlessSessionCommandExecutor \<Rightarrow> 'a executor_result option" where
  "executor_run fuel ops engine output frame_serial ex =
     (case observe [ObTickStarted] ex of
        (Inl e, ex') \<Rightarrow> Some (Inl e, ex')
      | (Inr _, ex') \<Rightarrow> executor_loop fuel ops engine output frame_serial ex')"

definition run_with_adapter ::
  "nat \<Rightarrow> 'a RuntimeDriverAdapter \<Rightarrow> OutputId \<Rightarrow> u64 \<Rightarrow> 'a \<Rightarrow> HeadlessSessionDriver
     \<Rightarrow> ((EngineError + HeadlessSessionDriverReport) \<times> 'a \<times> HeadlessSessionDriver) option" where
  "run_with_adapter fuel ops output frame_serial adapter d =
     map_option (\<lambda>(r, ex).
         (case r of
            Inl e \<Rightarrow> Inl e
          | Inr _ \<Rightarrow> Inr \<lparr>dr_runtime_state = ex_runtime ex, dr_runtime_commands = ex_runtime_commands ex,
                           dr_session_tick = ex_session_tick ex, dr_cached_layers = length (lcl_layers (ex_last_committed ex))\<rparr>,
          ex_adapter ex, d\<lparr>hd_runtime := ex_runtime ex, hd_last_committed := ex_last_committed ex\<rparr>))
       (executor_run fuel ops (hd_engine d) output frame_serial
          \<lparr>ex_runtime = hd_runtime d, ex_last_committed = hd_last_committed d, ex_adapter = adapter,
           ex_runtime_commands = [], ex_pending_commands = [], ex_session_tick = None\<rparr>)"

definition run_tick ::
  "nat \<Rightarrow> HeadlessSessionDriverTick \<Rightarrow> HeadlessSessionDriver
     \<Rightarrow> ((EngineError + HeadlessSessionDriverReport) \<times> HeadlessRuntimeAdapter \<times> HeadlessSessionDriver) option" where
  "run_tick fuel request d =
     run_with_adapter fuel headless_adapter (dt_output request) (dt_frame_serial request) (headless_adapter_new request) d"

section \<open>Rounds\<close>

text \<open>What the events beside the phase machine leave alone.\<close>

definition same_tick :: "SessionRuntimeState \<Rightarrow> SessionRuntimeState \<Rightarrow> bool" where
  "same_tick s s' \<longleftrightarrow> sr_phase s' = sr_phase s \<and> sr_frames_rendered s' = sr_frames_rendered s
     \<and> sr_last_frame_serial s' = sr_last_frame_serial s \<and> sr_wm_restart_requests s' = sr_wm_restart_requests s"

fun quiet :: "SessionRuntimeEvent \<Rightarrow> bool" where
  "quiet (EvAuthorityTransactionObserved _ _) = True"
| "quiet (EvScanoutStateChanged _ _) = True"
| "quiet _ = False"

lemma quiet_update:
  assumes "quiet e" "sr_phase s \<noteq> SubmittingScanout"
  shows "snd (update_session_runtime s e) = CmdNone" and "same_tick s (fst (update_session_runtime s e))"
proof -
  have count: "same_tick s (scanout_counted st s)" "same_tick s (outcome_counted oc s)" for st oc s
    by (cases st; simp add: same_tick_def) (cases oc; simp add: same_tick_def)
  have "snd (update_session_runtime s e) = CmdNone \<and> same_tick s (fst (update_session_runtime s e))"
  proof (cases e)
    case (EvScanoutStateChanged st f)
    then show ?thesis using assms(2) count(1) [of "s\<lparr>sr_last_scanout_state := Some st, sr_last_scanout_frame_serial := f\<rparr>" st]
      by (simp add: same_tick_def Let_def)
  next
    case (EvAuthorityTransactionObserved oc k)
    then show ?thesis
      using count(2) [of "s\<lparr>sr_authority_surfaces_applied := sat_add (sr_authority_surfaces_applied s) (ucast k)\<rparr>" oc]
      by (simp add: same_tick_def)
  qed (use assms(1) in auto)
  then show "snd (update_session_runtime s e) = CmdNone" and "same_tick s (fst (update_session_runtime s e))" by simp_all
qed

lemma same_tick_trans: "same_tick s t \<Longrightarrow> same_tick t u \<Longrightarrow> same_tick s u"
  by (simp add: same_tick_def)

lemma quiet_events:
  assumes "\<forall>e\<in>set es. quiet e" "sr_phase s \<noteq> SubmittingScanout"
  shows "sp_commands (fst (loop_events es rep s)) = sp_commands rep \<and> same_tick s (snd (loop_events es rep s))"
  using assms
proof (induction es arbitrary: rep s)
  case Nil
  then show ?case by (simp add: same_tick_def)
next
  case (Cons e es)
  obtain s' c where u: "update_session_runtime s e = (s', c)" by force
  have "c = CmdNone" "same_tick s s'" using quiet_update [of e s] Cons.prems by (simp_all add: u)
  moreover from this have "sr_phase s' \<noteq> SubmittingScanout" using Cons.prems by (simp add: same_tick_def)
  ultimately show ?case
    using Cons.IH [of s' "rep\<lparr>sp_events_processed := sp_events_processed rep + 1\<rparr>"] Cons.prems
    by (auto simp: u intro: same_tick_trans)
qed

lemma observe_one:
  assumes "session_runtime_event_from_observation ob = Inr e" "update_session_runtime (ex_runtime ex) e = (s, c)"
  shows "observe [ob] ex = (Inr (), ex\<lparr>ex_runtime := s,
     ex_runtime_commands := ex_runtime_commands ex @ (if c = CmdNone then [] else [c]),
     ex_pending_commands := ex_pending_commands ex @ (if c = CmdNone then [] else [c])\<rparr>)"
  using assms
  by (simp add: observe_def step_observations_def from_observations_def MAX_SESSION_RUNTIME_OBSERVATION_BATCH_def loop_step_def)

lemma executor_done: "ex_pending_commands ex = [] \<Longrightarrow> executor_loop fuel ops en out n ex = Some (Inr (), ex)"
  by (subst executor_loop.simps) simp

lemma executor_round:
  assumes "ex_pending_commands ex = [c]" "c \<noteq> CmdRestartWindowManager"
  shows "executor_loop (Suc fuel) ops en out n ex =
    (case execute ops en out n c (ex\<lparr>ex_pending_commands := []\<rparr>) of
       (Inl e, ex') \<Rightarrow> Some (Inl e, ex')
     | (Inr _, ex') \<Rightarrow> executor_loop fuel ops en out n ex')"
  using assms by (subst executor_loop.simps) simp

lemma executor_restart:
  assumes "ex_pending_commands ex = [CmdRestartWindowManager]"
  shows "executor_loop (Suc fuel) ops en out n ex = Some (Inr (), ex\<lparr>ex_pending_commands := []\<rparr>)"
  using assms by (subst executor_loop.simps) simp

lemma collect_events_map:
  assumes "\<forall>ob\<in>set obs. session_runtime_event_from_observation ob = Inr (f ob)" "n \<le> 64"
  shows "collect_events n obs = (if n + length obs \<le> 64 then Inr (map f obs) else Inl (TooManyObservations 64))"
  using assms
proof (induction obs arbitrary: n)
  case (Cons ob obs)
  then show ?case by (cases "n = 64") (auto simp: MAX_SESSION_RUNTIME_OBSERVATION_BATCH_def)
qed simp

section \<open>A whole tick of the live adapter\<close>

definition event_of :: "SessionRuntimeObservation \<Rightarrow> SessionRuntimeEvent" where
  "event_of ob = (case session_runtime_event_from_observation ob of Inr e \<Rightarrow> e | Inl _ \<Rightarrow> EvTickCompleted)"

lemma live_poll:
  fixes a :: LiveRuntimeDriverAdapter
  defines "obs \<equiv> poll_observations (la_x a) @ lifecycle_observations (la_scanout a)"
    and "c \<equiv> lx_pending_event_count (la_x a)"
  shows "if length obs \<le> 64
     then \<exists>rep s'. step_observations obs s = (Inr rep, s')
       \<and> sp_commands rep = [if c = 0 then CmdScheduleFrame else CmdRequestWmLayout]
       \<and> sr_phase s' = (if c = 0 then WaitingForFrame else ApplyingWmPolicy)
       \<and> sr_frames_rendered s' = sr_frames_rendered s \<and> sr_wm_restart_requests s' = sr_wm_restart_requests s
     else step_observations obs s = (Inl (TooManyObservations 64), s)"
proof -
  have ev: "\<forall>ob\<in>set obs. session_runtime_event_from_observation ob = Inr (event_of ob)"
    by (auto simp: obs_def poll_observations_def lifecycle_observations_def event_of_def
        runtime_observation_from_authority_transaction_commit_def)
  let ?es = "map event_of (tl obs)"
  let ?s = "fst (update_session_runtime s (EvXEventsPolled c))" and ?c = "snd (update_session_runtime s (EvXEventsPolled c))"
  let ?rep = "\<lparr>sp_events_processed = 1, sp_commands = [?c]\<rparr>"
  have obs: "map event_of obs = EvXEventsPolled c # ?es"
    by (simp add: obs_def poll_observations_def event_of_def c_def)
  have quiet: "\<forall>e\<in>set ?es. quiet e"
    by (auto simp: obs_def poll_observations_def lifecycle_observations_def event_of_def
        runtime_observation_from_authority_transaction_commit_def)
  have "sr_phase ?s \<noteq> SubmittingScanout" "?c \<noteq> CmdNone" by (simp_all add: Let_def)
  note q = quiet_events [OF quiet this(1), of ?rep] and nc = this(2)
  have loop: "loop_step (map event_of obs) s = loop_events ?es ?rep ?s"
    using nc unfolding loop_step_def obs by (simp add: case_prod_beta Let_def)
  show ?thesis
  proof (cases "length obs \<le> 64")
    case True
    then have "step_observations obs s = (Inr (fst (loop_events ?es ?rep ?s)), snd (loop_events ?es ?rep ?s))"
      using collect_events_map [OF ev, of 0] loop by (simp add: step_observations_def from_observations_def case_prod_beta)
    then show ?thesis using True q by (auto simp: same_tick_def Let_def)
  next
    case False
    then show ?thesis using collect_events_map [OF ev, of 0] by (simp add: step_observations_def from_observations_def)
  qed
qed

lemma live_render_serial:
  assumes "live_render_frame en out n l r = (Inr report, l')"
  shows "fs_frame_serial (sr_frame report) = n"
  using assms
  by (auto simp: live_render_frame_def run_session_tick_def plan_frame_def Let_def bind_res_eq_Inr
      split: sum.splits if_splits prod.splits)

text \<open>The commands of a tick that renders a frame, with or without a new layout.\<close>

definition tick_commands :: "bool \<Rightarrow> u64 \<Rightarrow> SessionRuntimeCommand list" where
  "tick_commands relayout n =
     CmdPollXEvents # (if relayout then [CmdRequestWmLayout] else [])
       @ [CmdScheduleFrame, CmdRenderFrame n, CmdSubmitScanout n, CmdDrainPortalCommands, CmdPresentChrome]"

lemma live_frame_rounds:
  assumes "ex_pending_commands ex = [CmdScheduleFrame]"
  shows "\<exists>ex'. executor_loop (5 + fuel) live_adapter en out n ex =
      Some (map_sum id (\<lambda>_. ()) (fst (live_render_frame en out n (ex_last_committed ex) (la_renderer (ex_adapter ex)))), ex')
    \<and> ex_last_committed ex' = snd (live_render_frame en out n (ex_last_committed ex) (la_renderer (ex_adapter ex)))
    \<and> ex_adapter ex' = ex_adapter ex
    \<and> (case fst (live_render_frame en out n (ex_last_committed ex) (la_renderer (ex_adapter ex))) of
         Inl _ \<Rightarrow> True
       | Inr report \<Rightarrow>
           ex_session_tick ex' = Some report
           \<and> ex_runtime_commands ex' = ex_runtime_commands ex
               @ [CmdRenderFrame n, CmdSubmitScanout n, CmdDrainPortalCommands, CmdPresentChrome]
           \<and> sr_phase (ex_runtime ex') = Idle \<and> sr_last_frame_serial (ex_runtime ex') = Some n
           \<and> sr_frames_rendered (ex_runtime ex') = sat_add (sr_frames_rendered (ex_runtime ex)) 1)"
proof -
  obtain r l' where f: "live_render_frame en out n (ex_last_committed ex) (la_renderer (ex_adapter ex)) = (r, l')" by force
  have five: "5 + fuel = Suc (Suc (Suc (Suc (Suc fuel))))" by simp
  note rounds = executor_round executor_done observe_answer_def live_adapter_def default_schedule_frame_def observe_one
    runtime_observation_from_session_tick_report_def submit_observation_def runtime_observation_from_portal_commands_def
  show ?thesis
  proof (cases r)
    case (Inl e)
    then show ?thesis using assms f unfolding five by (simp add: rounds)
  next
    case (Inr report)
    then have "fs_frame_serial (sr_frame report) = n" using live_render_serial f by simp
    then show ?thesis using assms f Inr unfolding five
      by (cases "lo_submit_state (la_scanout (ex_adapter ex))") (simp_all add: rounds Let_def)
  qed
qed

definition wants_restart :: "LiveRuntimeDriverAdapter \<Rightarrow> bool" where
  "wants_restart a \<longleftrightarrow> wm_layout_observation (la_wm a) = ObWmRestartRequested"

lemma wm_layout_cases: "wm_layout_observation u = ObWmRestartRequested \<or> wm_layout_observation u = ObWmLayoutReady"
  by (auto simp: wm_layout_observation_def runtime_observation_from_wm_transaction_update_def
      split: option.split WmRuntimeAction.split)

lemma execute_poll:
  "execute live_adapter en out n CmdPollXEvents ex
    = observe (poll_observations (la_x (ex_adapter ex)) @ lifecycle_observations (la_scanout (ex_adapter ex))) ex"
  by (simp add: live_adapter_def)

lemma execute_layout:
  "execute live_adapter en out n CmdRequestWmLayout ex = observe [wm_layout_observation (la_wm (ex_adapter ex))] ex"
  by (simp add: live_adapter_def observe_answer_def)

text \<open>The part of a tick up to the frame: at most two rounds.\<close>

lemma live_first_rounds:
  fixes a :: LiveRuntimeDriverAdapter
  defines "c \<equiv> lx_pending_event_count (la_x a)"
  assumes ex: "ex_pending_commands ex = [CmdPollXEvents]" "ex_adapter ex = a" "ex_session_tick ex = None"
    and few: "length (poll_observations (la_x a) @ lifecycle_observations (la_scanout a)) \<le> 64"
  shows "\<exists>ex'. ex_last_committed ex' = ex_last_committed ex \<and> ex_adapter ex' = a \<and> ex_session_tick ex' = None
    \<and> sr_frames_rendered (ex_runtime ex') = sr_frames_rendered (ex_runtime ex)
    \<and> (if c \<noteq> 0 \<and> wants_restart a
       then executor_loop (2 + Suc fuel) live_adapter en out n ex = Some (Inr (), ex')
         \<and> ex_runtime_commands ex' = ex_runtime_commands ex @ [CmdRequestWmLayout, CmdRestartWindowManager]
         \<and> sr_phase (ex_runtime ex') = ApplyingWmPolicy
         \<and> sr_wm_restart_requests (ex_runtime ex') = sat_add (sr_wm_restart_requests (ex_runtime ex)) 1
       else (\<exists>k\<ge>fuel. executor_loop (2 + Suc fuel) live_adapter en out n ex = executor_loop (Suc k) live_adapter en out n ex')
         \<and> ex_pending_commands ex' = [CmdScheduleFrame]
         \<and> ex_runtime_commands ex' = ex_runtime_commands ex @ (if c = 0 then [] else [CmdRequestWmLayout]) @ [CmdScheduleFrame])"
proof -
  have two: "2 + Suc fuel = Suc (Suc (Suc fuel))" by simp
  note rounds = executor_round executor_restart execute_layout observe_one
  obtain rep s' where p: "step_observations (poll_observations (la_x a) @ lifecycle_observations (la_scanout a)) (ex_runtime ex)
      = (Inr rep, s')" "sp_commands rep = [if c = 0 then CmdScheduleFrame else CmdRequestWmLayout]"
    "sr_frames_rendered s' = sr_frames_rendered (ex_runtime ex)" "sr_wm_restart_requests s' = sr_wm_restart_requests (ex_runtime ex)"
    using live_poll [of a "ex_runtime ex"] few unfolding c_def by auto
  let ?ex = "snd (observe (poll_observations (la_x a) @ lifecycle_observations (la_scanout a)) (ex\<lparr>ex_pending_commands := []\<rparr>))"
  have ex': "ex_pending_commands ?ex = sp_commands rep" "ex_runtime ?ex = s'" "ex_adapter ?ex = a" "ex_session_tick ?ex = None"
    "ex_runtime_commands ?ex = ex_runtime_commands ex @ sp_commands rep" "ex_last_committed ?ex = ex_last_committed ex"
    using p(1,2) ex by (simp_all add: observe_def)
  have first: "executor_loop (2 + Suc fuel) live_adapter en out n ex = executor_loop (Suc (Suc fuel)) live_adapter en out n ?ex"
    unfolding two by (subst executor_round [OF ex(1)]) (simp_all add: execute_poll ex(2) observe_def p(1) del: execute.simps)
  show ?thesis
  proof (cases "c = 0")
    case True
    then show ?thesis using first ex' p(2,3) by (intro exI [of _ ?ex]) (auto intro!: exI [of _ "Suc fuel"])
  next
    case c: False
    show ?thesis
    proof (cases "wants_restart a")
      case True
      then show ?thesis using c first ex' p(2-4) by (auto simp: rounds wants_restart_def simp del: execute.simps)
    next
      case False
      then have "wm_layout_observation (la_wm a) = ObWmLayoutReady" using wm_layout_cases by (auto simp: wants_restart_def)
      then have second: "executor_loop (Suc (Suc fuel)) live_adapter en out n ?ex
          = executor_loop (Suc fuel) live_adapter en out n (snd (observe [ObWmLayoutReady] (?ex\<lparr>ex_pending_commands := []\<rparr>)))"
        using c ex' p(2)
        by (subst executor_round [where c = CmdRequestWmLayout], simp, simp, subst execute_layout) (simp add: observe_one)
      show ?thesis
        by (rule exI [of _ "snd (observe [ObWmLayoutReady] (?ex\<lparr>ex_pending_commands := []\<rparr>))"])
          (use c False first second ex' p(2,3) in \<open>auto simp: observe_one\<close>)
    qed
  qed
qed

lemma live_tick_ends:
  "\<exists>r d'. run_with_adapter (7 + fuel) live_adapter out n a d = Some (r, a, d') \<and> hd_engine d' = hd_engine d
    \<and> (if 64 < length (poll_observations (la_x a) @ lifecycle_observations (la_scanout a))
       then r = Inl (RuntimeObservation (TooManyObservations 64)) \<and> hd_last_committed d' = hd_last_committed d
       else if lx_pending_event_count (la_x a) \<noteq> 0 \<and> wants_restart a
       then hd_last_committed d' = hd_last_committed d
         \<and> sr_frames_rendered (hd_runtime d') = sr_frames_rendered (hd_runtime d)
         \<and> (\<exists>rep. r = Inr rep \<and> dr_session_tick rep = None
              \<and> dr_runtime_commands rep = [CmdPollXEvents, CmdRequestWmLayout, CmdRestartWindowManager])
       else (case live_render_frame (hd_engine d) out n (hd_last_committed d) (la_renderer a) of
           (Inl e, last') \<Rightarrow> r = Inl e \<and> hd_last_committed d' = last'
         | (Inr report, last') \<Rightarrow> hd_last_committed d' = last'
             \<and> (\<exists>rep. r = Inr rep \<and> dr_session_tick rep = Some report
                  \<and> dr_runtime_commands rep = tick_commands (lx_pending_event_count (la_x a) \<noteq> 0) n)
             \<and> sr_phase (hd_runtime d') = Idle \<and> sr_last_frame_serial (hd_runtime d') = Some n
             \<and> sr_frames_rendered (hd_runtime d') = sat_add (sr_frames_rendered (hd_runtime d)) 1))"
proof -
  let ?obs = "poll_observations (la_x a) @ lifecycle_observations (la_scanout a)"
  let ?ex = "\<lparr>ex_runtime = (hd_runtime d)\<lparr>sr_phase := PollingX\<rparr>, ex_last_committed = hd_last_committed d, ex_adapter = a,
    ex_runtime_commands = [CmdPollXEvents], ex_pending_commands = [CmdPollXEvents], ex_session_tick = None\<rparr>"
  have start: "executor_run (7 + fuel) live_adapter (hd_engine d) out n
      \<lparr>ex_runtime = hd_runtime d, ex_last_committed = hd_last_committed d, ex_adapter = a, ex_runtime_commands = [],
       ex_pending_commands = [], ex_session_tick = None\<rparr> = executor_loop (7 + fuel) live_adapter (hd_engine d) out n ?ex"
    by (simp add: executor_run_def observe_one)
  show ?thesis
  proof (cases "64 < length ?obs")
    case True
    then have "executor_loop (Suc (6 + fuel)) live_adapter (hd_engine d) out n ?ex
        = Some (Inl (RuntimeObservation (TooManyObservations 64)), ?ex\<lparr>ex_pending_commands := []\<rparr>)"
      using live_poll [of a "(hd_runtime d)\<lparr>sr_phase := PollingX\<rparr>"]
      by (subst executor_round) (auto simp: live_adapter_def observe_def)
    then show ?thesis using True by (simp add: run_with_adapter_def start)
  next
    case few: False
    have fuel: "2 + Suc (4 + fuel) = 7 + fuel" by simp
    note first = live_first_rounds [of ?ex a "4 + fuel" "hd_engine d" out n, unfolded fuel]
    show ?thesis
    proof (cases "lx_pending_event_count (la_x a) \<noteq> 0 \<and> wants_restart a")
      case True
      obtain ex' where "executor_loop (7 + fuel) live_adapter (hd_engine d) out n ?ex = Some (Inr (), ex')"
        "ex_last_committed ex' = hd_last_committed d" "ex_adapter ex' = a" "ex_session_tick ex' = None"
        "sr_frames_rendered (ex_runtime ex') = sr_frames_rendered (hd_runtime d)"
        "ex_runtime_commands ex' = [CmdPollXEvents, CmdRequestWmLayout, CmdRestartWindowManager]"
        using first few True by auto
      then show ?thesis using few True by (simp add: run_with_adapter_def start)
    next
      case False
      obtain ex' k where ex': "executor_loop (7 + fuel) live_adapter (hd_engine d) out n ?ex
          = executor_loop (Suc k) live_adapter (hd_engine d) out n ex'" "4 + fuel \<le> k"
        "ex_last_committed ex' = hd_last_committed d" "ex_adapter ex' = a"
        "sr_frames_rendered (ex_runtime ex') = sr_frames_rendered (hd_runtime d)" "ex_pending_commands ex' = [CmdScheduleFrame]"
        "ex_runtime_commands ex' = CmdPollXEvents # (if lx_pending_event_count (la_x a) = 0 then [] else [CmdRequestWmLayout])
            @ [CmdScheduleFrame]"
        using first few False by auto
      have "Suc k = 5 + (k - 4)" using ex'(2) by simp
      with ex'(1) have loop: "executor_loop (7 + fuel) live_adapter (hd_engine d) out n ?ex
          = executor_loop (5 + (k - 4)) live_adapter (hd_engine d) out n ex'" by metis
      obtain rr last' where f: "live_render_frame (hd_engine d) out n (hd_last_committed d) (la_renderer a) = (rr, last')"
        by force
      note frame = live_frame_rounds [of ex' "k - 4" "hd_engine d" out n, OF ex'(6), unfolded ex'(3,4) f fst_conv snd_conv]
      show ?thesis
      proof (cases rr)
        case (Inl e)
        obtain ex2 where "executor_loop (5 + (k - 4)) live_adapter (hd_engine d) out n ex' = Some (Inl e, ex2)"
          "ex_last_committed ex2 = last'" "ex_adapter ex2 = a"
          using frame Inl by auto
        then show ?thesis using few False f Inl by (simp add: run_with_adapter_def start loop)
      next
        case (Inr report)
        obtain ex2 where "executor_loop (5 + (k - 4)) live_adapter (hd_engine d) out n ex' = Some (Inr (), ex2)"
          "ex_last_committed ex2 = last'" "ex_adapter ex2 = a" "ex_session_tick ex2 = Some report"
          "ex_runtime_commands ex2 = tick_commands (lx_pending_event_count (la_x a) \<noteq> 0) n"
          "sr_phase (ex_runtime ex2) = Idle" "sr_last_frame_serial (ex_runtime ex2) = Some n"
          "sr_frames_rendered (ex_runtime ex2) = sat_add (sr_frames_rendered (hd_runtime d)) 1"
          using frame Inr ex'(5,7) by (auto simp: tick_commands_def)
        then show ?thesis using few False f Inr by (simp add: run_with_adapter_def start loop)
      qed
    qed
  qed
qed

text \<open>
  Property C30. A session tick with the live adapter always ends, within seven rounds of the executor's
  loop: it fails with the batch limit when more than 64 observations are ready, it stops to restart the
  window manager without touching the last committed layout, or it renders. A rendering tick reports the
  renderer's error, or it went through polling, layout (when events were polled), scheduling, rendering,
  scanout, portals and chrome in this order, rendered exactly this frame and ends idle.
\<close>

theorem live_tick_completes:
  "\<exists>r d'. run_with_adapter (7 + fuel) live_adapter out n a d = Some (r, a, d') \<and> hd_engine d' = hd_engine d
    \<and> (if 64 < length (poll_observations (la_x a) @ lifecycle_observations (la_scanout a))
       then r = Inl (RuntimeObservation (TooManyObservations 64)) \<and> hd_last_committed d' = hd_last_committed d
       else if lx_pending_event_count (la_x a) \<noteq> 0 \<and> wants_restart a
       then hd_last_committed d' = hd_last_committed d
         \<and> sr_frames_rendered (hd_runtime d') = sr_frames_rendered (hd_runtime d)
         \<and> (\<exists>rep. r = Inr rep \<and> dr_session_tick rep = None
              \<and> dr_runtime_commands rep = [CmdPollXEvents, CmdRequestWmLayout, CmdRestartWindowManager])
       else (case live_render_frame (hd_engine d) out n (hd_last_committed d) (la_renderer a) of
           (Inl e, last') \<Rightarrow> r = Inl e \<and> hd_last_committed d' = last'
         | (Inr report, last') \<Rightarrow> hd_last_committed d' = last'
             \<and> (\<exists>rep. r = Inr rep \<and> dr_session_tick rep = Some report
                  \<and> dr_runtime_commands rep = tick_commands (lx_pending_event_count (la_x a) \<noteq> 0) n)
             \<and> sr_phase (hd_runtime d') = Idle \<and> sr_last_frame_serial (hd_runtime d') = Some n
             \<and> sr_frames_rendered (hd_runtime d') = sat_add (sr_frames_rendered (hd_runtime d)) 1))"
  by (rule live_tick_ends)

end
