(* ===== verification/Chrome_State.thy ===== *)
theory Chrome_State
  imports Session_Driver
begin

text \<open>
  The engine's chrome: descriptors of decorated surfaces (\<^verbatim>\<open>chrome/metadata.rs\<close>) and the staging and
  presentation of portal notifications (\<^verbatim>\<open>chrome/notification.rs\<close>), with the observations the runtime
  driver derives from their updates. The lemmas show that only checked text reaches the screen, that at
  most 64 notifications are visible and that stale metadata never replaces newer metadata.
\<close>

section \<open>Metadata (chrome/metadata.rs)\<close>

record ChromeBroker =
  cb_descriptors :: "(SurfaceId, ChromeDescriptor) btree"

definition MAX_CHROME_LABEL_LEN :: nat where "MAX_CHROME_LABEL_LEN = 128"

record SanitizedChromeMetadata =
  sc_surface :: SurfaceId
  sc_label :: "rust_string option"
  sc_label_redacted :: bool
  sc_icon :: "IconTokenId option"
  sc_trust_level :: TrustLevel
  sc_attention :: AttentionState
  sc_generation :: u64

datatype MetadataChromeRejectReason = McInvalidSurface | McInvalidLabel | McStaleGeneration

datatype MetadataChromeUpdate =
    McUpserted SurfaceId
  | McRemoved SurfaceId
  | McRejected MetadataChromeRejectReason

definition chrome_broker_default :: ChromeBroker where
  "chrome_broker_default = \<lparr>cb_descriptors = []\<rparr>"

definition chrome_upsert :: "ChromeDescriptor \<Rightarrow> ChromeBroker \<Rightarrow> ChromeBroker" where
  "chrome_upsert descriptor b =
     b\<lparr>cb_descriptors := bt_insert (cd_surface descriptor) descriptor (cb_descriptors b)\<rparr>"

definition chrome_get :: "ChromeBroker \<Rightarrow> SurfaceId \<Rightarrow> ChromeDescriptor option" where
  "chrome_get b surface = bt_get (cb_descriptors b) surface"

definition chrome_remove_surface :: "SurfaceId \<Rightarrow> ChromeBroker \<Rightarrow> ChromeDescriptor option \<times> ChromeBroker" where
  "chrome_remove_surface surface b =
     (bt_get (cb_descriptors b) surface, b\<lparr>cb_descriptors := bt_remove surface (cb_descriptors b)\<rparr>)"

definition valid_chrome_label :: "rust_string \<Rightarrow> bool" where
  "valid_chrome_label text' \<longleftrightarrow>
     text' \<noteq> [] \<and> length text' \<le> MAX_CHROME_LABEL_LEN \<and> \<not> list_ex char_is_control (str_chars text')"

definition chrome_descriptor_from_metadata ::
  "SanitizedChromeMetadata \<Rightarrow> MetadataChromeRejectReason + ChromeDescriptor" where
  "chrome_descriptor_from_metadata metadata =
     bind_res (case sc_label metadata of
         None \<Rightarrow> Inr None
       | Some text' \<Rightarrow>
           if valid_chrome_label text' then Inr (Some \<lparr>dl_text = text', dl_redacted = sc_label_redacted metadata\<rparr>)
           else Inl McInvalidLabel) (\<lambda>label.
     Inr \<lparr>cd_surface = sc_surface metadata, cd_label = label, cd_icon = sc_icon metadata,
          cd_trust_level = sc_trust_level metadata, cd_attention = sc_attention metadata,
          cd_generation = sc_generation metadata\<rparr>)"

definition apply_metadata ::
  "SanitizedChromeMetadata \<Rightarrow> ChromeBroker \<Rightarrow> MetadataChromeUpdate \<times> ChromeBroker" where
  "apply_metadata metadata b =
     (case chrome_descriptor_from_metadata metadata of
        Inl _ \<Rightarrow> (McRejected McInvalidLabel, b)
      | Inr descriptor \<Rightarrow>
          if \<not> surface_is_valid (cd_surface descriptor) then (McRejected McInvalidSurface, b)
          else if (case chrome_get b (cd_surface descriptor) of
                None \<Rightarrow> False | Some existing \<Rightarrow> cd_generation existing > cd_generation descriptor)
            then (McRejected McStaleGeneration, b)
          else (McUpserted (cd_surface descriptor), chrome_upsert descriptor b))"

definition remove_metadata :: "SurfaceId \<Rightarrow> u64 \<Rightarrow> ChromeBroker \<Rightarrow> MetadataChromeUpdate \<times> ChromeBroker" where
  "remove_metadata surface generation b =
     (if \<not> surface_is_valid surface then (McRejected McInvalidSurface, b)
      else if (case chrome_get b surface of None \<Rightarrow> False | Some existing \<Rightarrow> cd_generation existing > generation)
        then (McRejected McStaleGeneration, b)
      else (McRemoved surface, snd (chrome_remove_surface surface b)))"

section \<open>Notifications (chrome/notification.rs)\<close>

definition MAX_CHROME_NOTIFICATIONS :: nat where "MAX_CHROME_NOTIFICATIONS = 64"

record ChromeNotification =
  cn_transfer :: PortalTransferId
  cn_summary :: rust_string
  cn_body :: "rust_string option"
  cn_urgency :: NotificationUrgency
  cn_actions :: "rust_string list"
  cn_generation :: u64

datatype NotificationChromeCommand = NcPresent PortalTransferId | NcDismiss PortalTransferId

datatype NotificationChromeRejectReason =
  NcInvalidTransfer | NcInvalidText | NcTooManyActions | NcTooManyVisibleNotifications | NcUnknownTransfer

datatype NotificationChromeUpdate =
    NcStaged PortalTransferId
  | NcPresented PortalTransferId
  | NcDismissed PortalTransferId
  | NcIgnored
  | NcRejected NotificationChromeRejectReason

record NotificationChromePresenter =
  np_pending :: "(PortalTransferId, ChromeNotification) btree"
  np_visible :: "(PortalTransferId, ChromeNotification) btree"

definition presenter_new :: NotificationChromePresenter where
  "presenter_new = \<lparr>np_pending = [], np_visible = []\<rparr>"

definition valid_notification_chrome_text :: "rust_string \<Rightarrow> nat \<Rightarrow> bool" where
  "valid_notification_chrome_text text' max_len \<longleftrightarrow>
     text' \<noteq> [] \<and> length text' \<le> max_len \<and> \<not> list_ex char_is_control (str_chars text')"

definition notification_of_request :: "NotificationRequest \<Rightarrow> ChromeNotification" where
  "notification_of_request request =
     \<lparr>cn_transfer = nr_transfer request, cn_summary = nr_summary request, cn_body = nr_body request,
      cn_urgency = nr_urgency request, cn_actions = nr_actions request, cn_generation = nr_generation request\<rparr>"

definition stage_request ::
  "NotificationRequest \<Rightarrow> NotificationChromePresenter \<Rightarrow> NotificationChromeUpdate \<times> NotificationChromePresenter" where
  "stage_request request p =
     (if \<not> id_is_valid (nr_transfer request) then (NcRejected NcInvalidTransfer, p)
      else if \<not> valid_notification_chrome_text (nr_summary request) MAX_NOTIFICATION_SUMMARY_LEN
          \<or> (case nr_body request of None \<Rightarrow> False
              | Some body \<Rightarrow> \<not> valid_notification_chrome_text body MAX_NOTIFICATION_BODY_LEN)
          \<or> list_ex (\<lambda>action. \<not> valid_notification_chrome_text action MAX_NOTIFICATION_ACTION_LEN) (nr_actions request)
        then (NcRejected NcInvalidText, p)
      else if MAX_NOTIFICATION_ACTIONS < length (nr_actions request) then (NcRejected NcTooManyActions, p)
      else (NcStaged (nr_transfer request),
            p\<lparr>np_pending := bt_insert (nr_transfer request) (notification_of_request request) (np_pending p)\<rparr>))"

definition present ::
  "PortalTransferId \<Rightarrow> NotificationChromePresenter \<Rightarrow> NotificationChromeUpdate \<times> NotificationChromePresenter" where
  "present transfer p =
     (case bt_get (np_pending p) transfer of
        None \<Rightarrow> (NcRejected NcUnknownTransfer, p)
      | Some notification \<Rightarrow>
          let pending = bt_remove transfer (np_pending p) in
          if MAX_CHROME_NOTIFICATIONS \<le> length (np_visible p) \<and> \<not> bt_contains (np_visible p) transfer
          then (NcRejected NcTooManyVisibleNotifications, p\<lparr>np_pending := bt_insert transfer notification pending\<rparr>)
          else (NcPresented transfer,
                p\<lparr>np_pending := pending, np_visible := bt_insert transfer notification (np_visible p)\<rparr>))"

definition dismiss ::
  "PortalTransferId \<Rightarrow> NotificationChromePresenter \<Rightarrow> NotificationChromeUpdate \<times> NotificationChromePresenter" where
  "dismiss transfer p =
     (let removed_pending = bt_contains (np_pending p) transfer;
          removed_visible = bt_contains (np_visible p) transfer;
          p' = p\<lparr>np_pending := bt_remove transfer (np_pending p), np_visible := bt_remove transfer (np_visible p)\<rparr> in
      if removed_pending \<or> removed_visible then (NcDismissed transfer, p') else (NcRejected NcUnknownTransfer, p'))"

fun notification_chrome_command_from_portal :: "PortalCommand \<Rightarrow> NotificationChromeCommand option" where
  "notification_chrome_command_from_portal (DeliverNotification transfer) = Some (NcPresent transfer)"
| "notification_chrome_command_from_portal (DropNotification transfer) = Some (NcDismiss transfer)"
| "notification_chrome_command_from_portal _ = None"

fun apply_notification_command ::
  "NotificationChromeCommand \<Rightarrow> NotificationChromePresenter \<Rightarrow> NotificationChromeUpdate \<times> NotificationChromePresenter" where
  "apply_notification_command (NcPresent transfer) p = present transfer p"
| "apply_notification_command (NcDismiss transfer) p = dismiss transfer p"

definition apply_portal_command ::
  "PortalCommand \<Rightarrow> NotificationChromePresenter \<Rightarrow> NotificationChromeUpdate \<times> NotificationChromePresenter" where
  "apply_portal_command command p =
     (case notification_chrome_command_from_portal command of
        None \<Rightarrow> (NcIgnored, p)
      | Some command' \<Rightarrow> apply_notification_command command' p)"

section \<open>Observations (runtime_driver/observation.rs)\<close>

definition runtime_observation_from_notification_chrome_updates ::
  "NotificationChromeUpdate list \<Rightarrow> SessionRuntimeObservation" where
  "runtime_observation_from_notification_chrome_updates updates =
     ObChromeCommandsReady (u32_of_count (length (filter
       (\<lambda>update. case update of NcPresented _ \<Rightarrow> True | NcDismissed _ \<Rightarrow> True | _ \<Rightarrow> False) updates)))"

definition runtime_observation_from_metadata_chrome_updates ::
  "MetadataChromeUpdate list \<Rightarrow> SessionRuntimeObservation" where
  "runtime_observation_from_metadata_chrome_updates updates =
     ObChromeCommandsReady (u32_of_count (length (filter
       (\<lambda>update. case update of McUpserted _ \<Rightarrow> True | McRemoved _ \<Rightarrow> True | _ \<Rightarrow> False) updates)))"

section \<open>What chrome may show\<close>

record chrome_state =
  ch_broker :: ChromeBroker
  ch_presenter :: NotificationChromePresenter

datatype chrome_event =
    CvMetadata SanitizedChromeMetadata
  | CvRemoveMetadata SurfaceId u64
  | CvRemoveSurface SurfaceId
  | CvStage NotificationRequest
  | CvCommand PortalCommand

fun chrome_step :: "chrome_state \<Rightarrow> chrome_event \<Rightarrow> chrome_state" where
  "chrome_step s (CvMetadata m) = s\<lparr>ch_broker := snd (apply_metadata m (ch_broker s))\<rparr>"
| "chrome_step s (CvRemoveMetadata f g) = s\<lparr>ch_broker := snd (remove_metadata f g (ch_broker s))\<rparr>"
| "chrome_step s (CvRemoveSurface f) = s\<lparr>ch_broker := snd (chrome_remove_surface f (ch_broker s))\<rparr>"
| "chrome_step s (CvStage r) = s\<lparr>ch_presenter := snd (stage_request r (ch_presenter s))\<rparr>"
| "chrome_step s (CvCommand c) = s\<lparr>ch_presenter := snd (apply_portal_command c (ch_presenter s))\<rparr>"

definition plain_text :: "nat \<Rightarrow> rust_string \<Rightarrow> bool" where
  "plain_text n t \<longleftrightarrow> t \<noteq> [] \<and> length t \<le> n \<and> \<not> list_ex char_is_control (str_chars t)"

definition descriptor_ok :: "SurfaceId \<Rightarrow> ChromeDescriptor \<Rightarrow> bool" where
  "descriptor_ok f d \<longleftrightarrow> cd_surface d = f \<and> surface_is_valid f
     \<and> (\<forall>l. cd_label d = Some l \<longrightarrow> plain_text 128 (dl_text l))"

definition notification_ok :: "PortalTransferId \<Rightarrow> ChromeNotification \<Rightarrow> bool" where
  "notification_ok t n \<longleftrightarrow> cn_transfer n = t \<and> id_is_valid t \<and> plain_text MAX_NOTIFICATION_SUMMARY_LEN (cn_summary n)
     \<and> (\<forall>b. cn_body n = Some b \<longrightarrow> plain_text MAX_NOTIFICATION_BODY_LEN b)
     \<and> length (cn_actions n) \<le> MAX_NOTIFICATION_ACTIONS
     \<and> list_all (plain_text MAX_NOTIFICATION_ACTION_LEN) (cn_actions n)"

definition chrome_inv :: "chrome_state \<Rightarrow> bool" where
  "chrome_inv s \<longleftrightarrow>
     (\<forall>f d. chrome_get (ch_broker s) f = Some d \<longrightarrow> descriptor_ok f d)
     \<and> (\<forall>t n. bt_get (np_pending (ch_presenter s)) t = Some n \<longrightarrow> notification_ok t n)
     \<and> (\<forall>t n. bt_get (np_visible (ch_presenter s)) t = Some n \<longrightarrow> notification_ok t n)
     \<and> bt_wf (np_visible (ch_presenter s)) \<and> length (np_visible (ch_presenter s)) \<le> MAX_CHROME_NOTIFICATIONS"

definition chrome_start :: chrome_state where
  "chrome_start = \<lparr>ch_broker = chrome_broker_default, ch_presenter = presenter_new\<rparr>"

lemma descriptor_from_metadata_ok:
  "chrome_descriptor_from_metadata m = Inr d \<Longrightarrow> surface_is_valid (cd_surface d)
     \<Longrightarrow> descriptor_ok (cd_surface d) d \<and> cd_surface d = sc_surface m \<and> cd_generation d = sc_generation m"
  by (auto simp: chrome_descriptor_from_metadata_def bind_res_def descriptor_ok_def plain_text_def
      valid_chrome_label_def MAX_CHROME_LABEL_LEN_def split: option.splits if_splits)

lemma stage_cases:
  obtains "snd (stage_request r p) = p"
  | "snd (stage_request r p) = p\<lparr>np_pending := bt_insert (nr_transfer r) (notification_of_request r) (np_pending p)\<rparr>"
    "notification_ok (nr_transfer r) (notification_of_request r)"
proof (cases "snd (stage_request r p) = p")
  case False
  then have "snd (stage_request r p) = p\<lparr>np_pending := bt_insert (nr_transfer r) (notification_of_request r) (np_pending p)\<rparr>"
    "notification_ok (nr_transfer r) (notification_of_request r)"
    by (auto simp: stage_request_def notification_ok_def notification_of_request_def plain_text_def
        valid_notification_chrome_text_def list_all_iff list_ex_iff split: if_splits option.splits)
  then show ?thesis by (rule that(2))
qed (rule that(1))

lemma present_length:
  assumes "bt_wf (np_visible p)" "length (np_visible p) \<le> MAX_CHROME_NOTIFICATIONS"
  shows "length (np_visible (snd (present t p))) \<le> MAX_CHROME_NOTIFICATIONS"
proof (cases "bt_get (np_pending p) t")
  case (Some n)
  have "length (bt_insert t n (np_visible p))
      \<le> (if bt_contains (np_visible p) t then length (np_visible p) else Suc (length (np_visible p)))"
    using assms(1) by (rule bt_length_insert)
  then show ?thesis using assms(2) Some by (simp add: present_def Let_def split: if_splits)
qed (use assms in \<open>simp add: present_def\<close>)

lemma chrome_step_inv: "chrome_inv s \<Longrightarrow> chrome_inv (chrome_step s e)"
proof (cases e)
  case (CvMetadata m)
  assume "chrome_inv s"
  then show ?thesis using CvMetadata descriptor_from_metadata_ok
    by (auto simp: chrome_inv_def apply_metadata_def chrome_get_def chrome_upsert_def bt_get_insert split: sum.splits option.splits if_splits)
next
  case (CvStage r)
  assume inv: "chrome_inv s"
  show ?thesis using inv CvStage
    by (cases rule: stage_cases [of r "ch_presenter s"]) (auto simp: chrome_inv_def bt_get_insert)
next
  case (CvCommand c)
  assume inv: "chrome_inv s"
  have wf: "bt_wf (np_visible (ch_presenter s))" "length (np_visible (ch_presenter s)) \<le> MAX_CHROME_NOTIFICATIONS"
    using inv by (simp_all add: chrome_inv_def)
  have p: "chrome_inv (s\<lparr>ch_presenter := snd (present t (ch_presenter s))\<rparr>)" for t
    using inv present_length [OF wf, of t]
    by (auto simp: chrome_inv_def present_def Let_def bt_get_insert bt_get_remove split: option.splits if_splits)
  have d: "chrome_inv (s\<lparr>ch_presenter := snd (dismiss t (ch_presenter s))\<rparr>)" for t
    using inv le_trans [OF bt_length_remove wf(2)]
    by (auto simp: chrome_inv_def dismiss_def Let_def bt_get_remove split: if_splits)
  show ?thesis using CvCommand inv p d
    by (cases c rule: notification_chrome_command_from_portal.cases) (simp_all add: apply_portal_command_def)
qed (auto simp: chrome_inv_def remove_metadata_def chrome_remove_surface_def chrome_get_def bt_get_remove split: if_splits option.splits)

interpretation chrome: invariant_machine chrome_step chrome_inv
  by unfold_locales (rule chrome_step_inv)

lemma chrome_start_inv: "chrome_inv chrome_start"
  by (simp add: chrome_inv_def chrome_start_def chrome_broker_default_def presenter_new_def chrome_get_def)

text \<open>Who may change what is on the screen.\<close>

lemma chrome_step_visible:
  "bt_get (np_visible (ch_presenter (chrome_step s e))) t = bt_get (np_visible (ch_presenter s)) t
    \<or> (e = CvCommand (DeliverNotification t) \<and> bt_get (np_visible (ch_presenter (chrome_step s e))) t = bt_get (np_pending (ch_presenter s)) t)
    \<or> (e = CvCommand (DropNotification t) \<and> bt_get (np_visible (ch_presenter (chrome_step s e))) t = None)"
proof (cases e)
  case (CvStage r)
  then show ?thesis by (cases rule: stage_cases [of r "ch_presenter s"]) simp_all
next
  case (CvCommand c)
  then show ?thesis
    by (cases c rule: notification_chrome_command_from_portal.cases)
      (auto simp: apply_portal_command_def present_def dismiss_def Let_def bt_get_insert bt_get_remove split: option.split)
qed simp_all

lemma chrome_step_generation:
  assumes "chrome_get (ch_broker s) f = Some d" "chrome_get (ch_broker (chrome_step s e)) f = Some d'"
  shows "cd_generation d \<le> cd_generation d'"
proof (cases e)
  case (CvMetadata m)
  then show ?thesis using assms
    by (auto simp: apply_metadata_def chrome_get_def chrome_upsert_def bt_get_insert split: sum.splits option.splits if_splits)
qed (use assms in \<open>auto simp: remove_metadata_def chrome_remove_surface_def chrome_get_def bt_get_remove split: if_splits option.splits\<close>)

text \<open>
  Chrome shows only checked text: after any sequence of metadata, notification and portal events
  at most 64 notifications are visible, every label, summary, body and action is non-empty, bounded and free of
  control characters, and descriptors belong to valid surfaces. In the next step a notification appears only
  because the portal delivered it, with the text that was staged for it, and disappears only because the portal
  dropped it, and the metadata of a surface is never replaced by an older generation.
\<close>

theorem chrome_shows_checked_text:
  fixes es
  defines "s \<equiv> foldl chrome_step chrome_start es"
  shows "chrome_inv s
    \<and> (bt_get (np_visible (ch_presenter (chrome_step s e))) t = bt_get (np_visible (ch_presenter s)) t
       \<or> (e = CvCommand (DeliverNotification t)
          \<and> bt_get (np_visible (ch_presenter (chrome_step s e))) t = bt_get (np_pending (ch_presenter s)) t)
       \<or> (e = CvCommand (DropNotification t) \<and> bt_get (np_visible (ch_presenter (chrome_step s e))) t = None))
    \<and> (case (chrome_get (ch_broker s) f, chrome_get (ch_broker (chrome_step s e)) f) of
         (Some d, Some d') \<Rightarrow> cd_generation d \<le> cd_generation d' | _ \<Rightarrow> True)"
  using chrome.run_inv [OF chrome_start_inv, of es] chrome_step_visible [of s e t]
    chrome_step_generation [of s f _ e] unfolding s_def by (simp split: option.split)

end
