(* ===== verification/Float64.thy ===== *)
theory Float64
  imports Sophia_Prelude
begin

text \<open>
  Double-precision arithmetic as Rust's \<open>f64\<close> has it: IEEE 754 binary64 on bit patterns, rounding to
  nearest with ties to even. A finite number is an integer multiple of \<open>2 ^ -1074\<close>; \<open>f64_fixed\<close> reads
  it as that integer, so that exactness and order are statements about integers. A NaN is always the
  quiet one with an empty payload, which no modelled code can observe.
\<close>

section \<open>Bit patterns\<close>

definition f64_sign :: "f64 \<Rightarrow> bool" where
  "f64_sign x \<longleftrightarrow> 2 ^ 63 \<le> unat x"

definition f64_exponent :: "f64 \<Rightarrow> nat" where
  "f64_exponent x = unat x div 2 ^ 52 mod 2048"

definition f64_fraction :: "f64 \<Rightarrow> nat" where
  "f64_fraction x = unat x mod 2 ^ 52"

definition f64_is_finite :: "f64 \<Rightarrow> bool" where
  "f64_is_finite x \<longleftrightarrow> f64_exponent x \<noteq> 2047"

definition f64_is_nan :: "f64 \<Rightarrow> bool" where
  "f64_is_nan x \<longleftrightarrow> f64_exponent x = 2047 \<and> f64_fraction x \<noteq> 0"

definition f64_mant :: "f64 \<Rightarrow> nat" where
  "f64_mant x = (if f64_exponent x = 0 then f64_fraction x else 2 ^ 52 + f64_fraction x)"

definition f64_exp :: "f64 \<Rightarrow> int" where
  "f64_exp x = (if f64_exponent x = 0 then - 1074 else int (f64_exponent x) - 1075)"

definition f64_smant :: "f64 \<Rightarrow> int" where
  "f64_smant x = (if f64_sign x then - int (f64_mant x) else int (f64_mant x))"

definition f64_fixed :: "f64 \<Rightarrow> int" where
  "f64_fixed x = f64_smant x * 2 ^ nat (f64_exp x + 1074)"

definition f64_NAN :: f64 where "f64_NAN = 0x7FF8000000000000"

definition f64_EPSILON :: f64 where "f64_EPSILON = 0x3CB0000000000000"

definition f64_signed :: "bool \<Rightarrow> nat \<Rightarrow> f64" where
  "f64_signed s n = word_of_nat ((if s then 2 ^ 63 else 0) + n)"

definition f64_infinity :: "bool \<Rightarrow> f64" where
  "f64_infinity s = f64_signed s (2047 * 2 ^ 52)"

section \<open>Rounding\<close>

fun bit_count :: "nat \<Rightarrow> nat" where
  "bit_count n = (if n = 0 then 0 else Suc (bit_count (n div 2)))"

declare bit_count.simps [simp del]

definition div_even :: "nat \<Rightarrow> nat \<Rightarrow> nat" where
  "div_even m d =
     (let q = m div d; r = m mod d in if 2 * r < d \<or> (2 * r = d \<and> even q) then q else Suc q)"

text \<open>The double nearest to \<open>m * 2 ^ e\<close>.\<close>

definition f64_pack :: "bool \<Rightarrow> nat \<Rightarrow> int \<Rightarrow> f64" where
  "f64_pack s m e =
     (if m = 0 then f64_signed s 0
      else let q = max (e + int (bit_count m) - 53) (- 1074);
               r = (if q \<le> e then m * 2 ^ nat (e - q) else div_even m (2 ^ nat (q - e)));
               n = nat (q + 1074) * 2 ^ 52 + r
           in if n < 2047 * 2 ^ 52 then f64_signed s n else f64_infinity s)"

section \<open>Arithmetic\<close>

definition f64_neg :: "f64 \<Rightarrow> f64" where
  "f64_neg x = f64_signed (\<not> f64_sign x) (unat x mod 2 ^ 63)"

definition f64_abs :: "f64 \<Rightarrow> f64" where
  "f64_abs x = f64_signed False (unat x mod 2 ^ 63)"

definition f64_add :: "f64 \<Rightarrow> f64 \<Rightarrow> f64" where
  "f64_add x y =
     (if f64_is_nan x \<or> f64_is_nan y then f64_NAN
      else if \<not> f64_is_finite x then (if \<not> f64_is_finite y \<and> f64_sign x \<noteq> f64_sign y then f64_NAN else x)
      else if \<not> f64_is_finite y then y
      else let e = min (f64_exp x) (f64_exp y);
               s = f64_smant x * 2 ^ nat (f64_exp x - e) + f64_smant y * 2 ^ nat (f64_exp y - e)
           in if s = 0 then f64_signed (f64_sign x \<and> f64_sign y) 0 else f64_pack (s < 0) (nat \<bar>s\<bar>) e)"

definition f64_sub :: "f64 \<Rightarrow> f64 \<Rightarrow> f64" where
  "f64_sub x y = f64_add x (f64_neg y)"

definition f64_mul :: "f64 \<Rightarrow> f64 \<Rightarrow> f64" where
  "f64_mul x y =
     (let s = (f64_sign x \<noteq> f64_sign y) in
      if f64_is_nan x \<or> f64_is_nan y then f64_NAN
      else if \<not> f64_is_finite x \<or> \<not> f64_is_finite y
        then (if f64_mant x = 0 \<or> f64_mant y = 0 then f64_NAN else f64_infinity s)
      else f64_pack s (f64_mant x * f64_mant y) (f64_exp x + f64_exp y))"

text \<open>The quotient keeps more bits than a double has, the last one set when the division left a rest.\<close>

definition f64_div :: "f64 \<Rightarrow> f64 \<Rightarrow> f64" where
  "f64_div x y =
     (let s = (f64_sign x \<noteq> f64_sign y) in
      if f64_is_nan x \<or> f64_is_nan y then f64_NAN
      else if \<not> f64_is_finite x then (if f64_is_finite y then f64_infinity s else f64_NAN)
      else if \<not> f64_is_finite y then f64_signed s 0
      else if f64_mant y = 0 then (if f64_mant x = 0 then f64_NAN else f64_infinity s)
      else let n = f64_mant x * 2 ^ 108 in
           f64_pack s (2 * (n div f64_mant y) + (if n mod f64_mant y = 0 then 0 else 1))
             (f64_exp x - f64_exp y - 109))"

definition f64_key :: "f64 \<Rightarrow> int" where
  "f64_key x = (if f64_sign x then - int (unat x mod 2 ^ 63) else int (unat x mod 2 ^ 63))"

definition f64_lt :: "f64 \<Rightarrow> f64 \<Rightarrow> bool" where
  "f64_lt x y \<longleftrightarrow> \<not> f64_is_nan x \<and> \<not> f64_is_nan y \<and> f64_key x < f64_key y"

definition f64_ge :: "f64 \<Rightarrow> f64 \<Rightarrow> bool" where
  "f64_ge x y \<longleftrightarrow> \<not> f64_is_nan x \<and> \<not> f64_is_nan y \<and> f64_key y \<le> f64_key x"

definition f64_of_i32 :: "i32 \<Rightarrow> f64" where
  "f64_of_i32 i = f64_pack (sint i < 0) (nat \<bar>sint i\<bar>) 0"

definition f64_of_f32 :: "f32 \<Rightarrow> f64" where
  "f64_of_f32 x =
     (let s = (2 ^ 31 \<le> unat x); exponent = unat x div 2 ^ 23 mod 256; fraction = unat x mod 2 ^ 23 in
      if exponent = 255 then (if fraction = 0 then f64_infinity s else f64_NAN)
      else f64_pack s (if exponent = 0 then fraction else 2 ^ 23 + fraction)
             (if exponent = 0 then - 149 else int exponent - 150))"

definition f64_unit :: int where "f64_unit = 2 ^ 1074"

section \<open>Exactness\<close>

lemma bit_count_le: "bit_count n \<le> k \<longleftrightarrow> n < 2 ^ k"
proof (induction n arbitrary: k rule: bit_count.induct)
  case (1 n)
  show ?case
  proof (cases "n = 0")
    case n: False
    show ?thesis
    proof (cases k)
      case (Suc j)
      have "bit_count n \<le> k \<longleftrightarrow> bit_count (n div 2) \<le> j" by (subst bit_count.simps) (simp add: n Suc)
      also have "\<dots> \<longleftrightarrow> n div 2 < 2 ^ j" by (rule 1 [OF n])
      also have "\<dots> \<longleftrightarrow> n < 2 ^ k" by (simp add: div_less_iff_less_mult Suc mult.commute)
      finally show ?thesis .
    qed (subst bit_count.simps, simp add: n)
  qed (simp add: bit_count.simps)
qed

lemma bit_count_ge: "0 < n \<Longrightarrow> 2 ^ (bit_count n - 1) \<le> n"
  using bit_count_le [of n "bit_count n - 1"] bit_count_le [of n 0]
  by (metis One_nat_def Suc_pred le_refl less_one linorder_not_less not_less_eq_eq power_0)

lemma bit_count_shift: "0 < m \<Longrightarrow> bit_count (m * 2 ^ j) = bit_count m + j"
proof (induction j)
  case (Suc j)
  have "m * 2 ^ Suc j div 2 = m * 2 ^ j" by simp
  then show ?case using Suc by (subst bit_count.simps) simp
qed simp

lemma div_even_exact: "0 < d \<Longrightarrow> div_even (m * d) d = m"
  by (simp add: div_even_def)

lemma unat_of_small: "n < 2 ^ 64 \<Longrightarrow> unat (word_of_nat n :: 64 word) = n"
  by (simp add: unsigned_of_nat take_bit_nat_eq_self)

lemma unat_signed: "n < 2 ^ 63 \<Longrightarrow> unat (f64_signed s n) = (if s then 2 ^ 63 else 0) + n"
  unfolding f64_signed_def using unat_of_small [of "(if s then 2 ^ 63 else 0) + n"] by (cases s) simp_all

lemma top_bit_parts:
  fixes B :: nat
  assumes "0 < B" "n < 2048 * B"
  shows "(2048 * B + n) div B mod 2048 = n div B" "(2048 * B + n) mod B = n mod B" "n div B mod 2048 = n div B"
proof -
  have n: "n div B < 2048" using assms by (simp add: div_less_iff_less_mult)
  show "(2048 * B + n) div B mod 2048 = n div B" using assms(1) n by simp
  show "n div B mod 2048 = n div B" using n by simp
qed simp

lemma signed_parts:
  assumes "n < 2048 * 2 ^ 52"
  shows "f64_sign (f64_signed s n) = s" "f64_exponent (f64_signed s n) = n div 2 ^ 52"
    "f64_fraction (f64_signed s n) = n mod 2 ^ 52"
proof -
  have sixty_three: "(2 :: nat) ^ 63 = 2048 * 2 ^ 52" by simp
  have u: "unat (f64_signed s n) = (if s then 2048 * 2 ^ 52 else 0) + n"
    using unat_signed [of n s] assms unfolding sixty_three by blast
  note parts = top_bit_parts [of "2 ^ 52" n, OF _ assms]
  show "f64_exponent (f64_signed s n) = n div 2 ^ 52"
    unfolding f64_exponent_def u using parts(1,3) by (cases s) simp_all
  show "f64_fraction (f64_signed s n) = n mod 2 ^ 52"
    unfolding f64_fraction_def u using parts(2) by (cases s) simp_all
  show "f64_sign (f64_signed s n) = s"
    unfolding f64_sign_def u sixty_three using assms by (cases s) simp_all
qed

text \<open>Reading a packed number back: a significand below \<open>2 ^ 53\<close> at its exponent.\<close>

lemma signed_value:
  assumes "r < 2 ^ 53" "2 ^ 52 \<le> r \<or> k = 0" "k \<le> 2045"
  shows "f64_is_finite (f64_signed s (k * 2 ^ 52 + r))"
    "f64_fixed (f64_signed s (k * 2 ^ 52 + r)) = (if s then - 1 else 1) * int r * 2 ^ k"
    "f64_sign (f64_signed s (k * 2 ^ 52 + r)) = s"
proof -
  have "k * 2 ^ 52 + r < 2045 * 2 ^ 52 + 2 ^ 53"
    by (rule add_le_less_mono) (use assms in simp_all)
  also have "\<dots> = 2047 * 2 ^ 52" by simp
  finally have n: "k * 2 ^ 52 + r < 2048 * 2 ^ 52" by simp
  note p = signed_parts [OF n, of s]
  show "f64_sign (f64_signed s (k * 2 ^ 52 + r)) = s" by (rule p(1))
  have d: "(k * 2 ^ 52 + r) div 2 ^ 52 = k + r div 2 ^ 52" "(k * 2 ^ 52 + r) mod 2 ^ 52 = r mod 2 ^ 52"
    by (subst div_mult_self3, simp_all)
  have "f64_is_finite (f64_signed s (k * 2 ^ 52 + r))
    \<and> f64_fixed (f64_signed s (k * 2 ^ 52 + r)) = (if s then - 1 else 1) * int r * 2 ^ k"
  proof (cases "r < 2 ^ 52")
    case True
    then have k: "k = 0" using assms(2) by simp
    have e: "f64_exponent (f64_signed s (k * 2 ^ 52 + r)) = 0" "f64_fraction (f64_signed s (k * 2 ^ 52 + r)) = r"
      using p(2,3) d True k by simp_all
    show ?thesis using e p(1) k
      by (cases s) (simp_all add: f64_is_finite_def f64_fixed_def f64_smant_def f64_mant_def f64_exp_def)
  next
    case False
    have r: "r div 2 ^ 52 = 1" "r mod 2 ^ 52 = r - 2 ^ 52"
      using False assms(1) by (simp_all add: div_nat_eqI mod_nat_eqI)
    have e: "f64_exponent (f64_signed s (k * 2 ^ 52 + r)) = k + 1"
      "f64_fraction (f64_signed s (k * 2 ^ 52 + r)) = r - 2 ^ 52"
      using p(2,3) d r by simp_all
    have "2 ^ 52 + (r - 2 ^ 52) = r" using False by simp
    then show ?thesis using e p(1) assms(3)
      by (cases s) (simp_all add: f64_is_finite_def f64_fixed_def f64_smant_def f64_mant_def f64_exp_def)
  qed
  then show "f64_is_finite (f64_signed s (k * 2 ^ 52 + r))"
    "f64_fixed (f64_signed s (k * 2 ^ 52 + r)) = (if s then - 1 else 1) * int r * 2 ^ k"
    by simp_all
qed

text \<open>Packing is exact when the number needs no more than 53 bits and lies in the range.\<close>

lemma pack_exact:
  assumes m: "0 < m" "m < 2 ^ 53" and t: "- 1074 \<le> e + int j" "e + int j \<le> 971"
  shows "f64_is_finite (f64_pack s (m * 2 ^ j) e)"
    "f64_fixed (f64_pack s (m * 2 ^ j) e) = (if s then - 1 else 1) * int m * 2 ^ nat (e + int j + 1074)"
    "f64_sign (f64_pack s (m * 2 ^ j) e) = s"
proof -
  let ?t = "e + int j"
  define q where "q = max (e + int (bit_count (m * 2 ^ j)) - 53) (- 1074)"
  let ?d = "nat (?t - q)" and ?k = "nat (q + 1074)"
  have b: "bit_count m \<le> 53" "bit_count (m * 2 ^ j) = bit_count m + j"
    using m by (simp_all add: bit_count_le bit_count_shift)
  have q: "q \<le> ?t" "- 1074 \<le> q" "?t + int (bit_count m) - 53 \<le> q"
    "q = - 1074 \<or> q = ?t + int (bit_count m) - 53"
    using b t by (auto simp: q_def)
  have r: "(if q \<le> e then m * 2 ^ j * 2 ^ nat (e - q) else div_even (m * 2 ^ j) (2 ^ nat (q - e))) = m * 2 ^ ?d"
  proof (cases "q \<le> e")
    case True
    then have "?d = j + nat (e - q)" by arith
    then show ?thesis using True by (simp add: power_add)
  next
    case False
    then have "j = ?d + nat (q - e)" using q(1) by arith
    then have "(2 :: nat) ^ j = 2 ^ ?d * 2 ^ nat (q - e)" unfolding power_add [symmetric] by (rule arg_cong)
    then have shift: "m * 2 ^ j = m * 2 ^ ?d * 2 ^ nat (q - e)" by simp
    have "div_even (m * 2 ^ j) (2 ^ nat (q - e)) = m * 2 ^ ?d" unfolding shift by (rule div_even_exact) simp
    then show ?thesis using False by simp
  qed
  have rb: "bit_count (m * 2 ^ ?d) = bit_count m + ?d" using m by (simp add: bit_count_shift)
  have r53: "m * 2 ^ ?d < 2 ^ 53" unfolding bit_count_le [symmetric] rb using b(1) q(1,3) by arith
  have r52: "2 ^ 52 \<le> m * 2 ^ ?d \<or> ?k = 0"
  proof (cases "q = - 1074")
    case False
    then have "bit_count (m * 2 ^ ?d) = 53" unfolding rb using b(1) q(1,4) by arith
    then show ?thesis using bit_count_ge [of "m * 2 ^ ?d"] m by simp
  qed simp
  have k: "?k \<le> 2045" using q(1) t by arith
  have "?k * 2 ^ 52 + m * 2 ^ ?d < 2045 * 2 ^ 52 + 2 ^ 53" by (rule add_le_less_mono) (use k r53 in simp_all)
  then have n: "?k * 2 ^ 52 + m * 2 ^ ?d < 2047 * 2 ^ 52" by simp
  have pack: "f64_pack s (m * 2 ^ j) e = f64_signed s (?k * 2 ^ 52 + m * 2 ^ ?d)"
    unfolding f64_pack_def Let_def q_def [symmetric] r using m n by simp
  have "?d + ?k = nat (?t + 1074)" using q(1,2) by arith
  then have v: "int (m * 2 ^ ?d) * 2 ^ ?k = int m * 2 ^ nat (?t + 1074)"
    by (simp add: mult.assoc flip: power_add)
  show "f64_is_finite (f64_pack s (m * 2 ^ j) e)" "f64_sign (f64_pack s (m * 2 ^ j) e) = s"
    unfolding pack by (rule signed_value [OF r53 r52 k])+
  show "f64_fixed (f64_pack s (m * 2 ^ j) e) = (if s then - 1 else 1) * int m * 2 ^ nat (?t + 1074)"
    unfolding pack signed_value(2) [OF r53 r52 k] mult.assoc v ..
qed

text \<open>The parts of a finite number.\<close>

lemma exponent_less: "f64_exponent x < 2048"
  by (simp add: f64_exponent_def)

lemma finite_parts:
  assumes "f64_is_finite x"
  shows "f64_mant x < 2 ^ 53" "- 1074 \<le> f64_exp x" "f64_exp x \<le> 971" "\<not> f64_is_nan x"
  using assms exponent_less [of x]
  by (auto simp: f64_mant_def f64_exp_def f64_fraction_def f64_is_finite_def f64_is_nan_def
      intro: order_less_trans [OF mod_less_divisor])

lemma fixed_smant: "f64_fixed x = (if f64_sign x then - 1 else 1) * int (f64_mant x) * 2 ^ nat (f64_exp x + 1074)"
  by (simp add: f64_fixed_def f64_smant_def)

lemma fixed_0_iff: "f64_fixed x = 0 \<longleftrightarrow> f64_mant x = 0"
  by (simp add: fixed_smant)

lemma signed_0 [simp]: "f64_is_finite (f64_signed s 0)" "f64_fixed (f64_signed s 0) = 0" "f64_sign (f64_signed s 0) = s"
  using signed_value [of 0 0 s] by simp_all

lemma pack_value:
  assumes "f64_is_finite x" "m = f64_mant x * 2 ^ j" "e = f64_exp x - int j"
  shows "f64_is_finite (f64_pack (f64_sign x) m e)" "f64_fixed (f64_pack (f64_sign x) m e) = f64_fixed x"
    "f64_sign (f64_pack (f64_sign x) m e) = f64_sign x"
proof -
  note f = finite_parts [OF assms(1)]
  have "f64_is_finite (f64_pack (f64_sign x) m e) \<and> f64_fixed (f64_pack (f64_sign x) m e) = f64_fixed x
    \<and> f64_sign (f64_pack (f64_sign x) m e) = f64_sign x"
  proof (cases "f64_mant x = 0")
    case True
    then show ?thesis using assms(2) fixed_0_iff [of x] by (simp add: f64_pack_def)
  next
    case False
    have "- 1074 \<le> e + int j" "e + int j \<le> 971" "e + int j = f64_exp x" using f assms(3) by simp_all
    then show ?thesis
      using pack_exact [of "f64_mant x" e j "f64_sign x"] f(1) False unfolding assms(2) fixed_smant [of x] by simp
  qed
  then show "f64_is_finite (f64_pack (f64_sign x) m e)" "f64_fixed (f64_pack (f64_sign x) m e) = f64_fixed x"
    "f64_sign (f64_pack (f64_sign x) m e) = f64_sign x" by simp_all
qed

section \<open>Identities\<close>

lemma one_parts: "f64_is_finite 0x3FF0000000000000" "f64_mant 0x3FF0000000000000 = 2 ^ 52"
  "f64_exp 0x3FF0000000000000 = - 52" "\<not> f64_sign 0x3FF0000000000000"
  by (simp_all add: f64_is_finite_def f64_exponent_def f64_mant_def f64_fraction_def f64_exp_def f64_sign_def)

lemma zero_parts: "f64_is_finite 0" "f64_mant 0 = 0" "f64_exp 0 = - 1074" "\<not> f64_sign 0"
  by (simp_all add: f64_is_finite_def f64_exponent_def f64_mant_def f64_fraction_def f64_exp_def f64_sign_def)

lemma mul_one:
  assumes "f64_is_finite x"
  shows "f64_is_finite (f64_mul 0x3FF0000000000000 x)" "f64_fixed (f64_mul 0x3FF0000000000000 x) = f64_fixed x"
proof -
  have "f64_mul 0x3FF0000000000000 x = f64_pack (f64_sign x) (f64_mant x * 2 ^ 52) (f64_exp x - int 52)"
    using finite_parts(4) [OF assms] finite_parts(4) [OF one_parts(1)] assms
    by (simp add: f64_mul_def Let_def one_parts mult.commute)
  then show "f64_is_finite (f64_mul 0x3FF0000000000000 x)" "f64_fixed (f64_mul 0x3FF0000000000000 x) = f64_fixed x"
    by (simp_all only: pack_value [OF assms refl refl])
qed

lemma mul_zero: "f64_is_finite x \<Longrightarrow> f64_mul 0 x = f64_signed (f64_sign x) 0"
  by (simp add: f64_mul_def zero_parts finite_parts(4) f64_pack_def)

lemma div_one:
  assumes "f64_is_finite x"
  shows "f64_is_finite (f64_div x 0x3FF0000000000000)" "f64_fixed (f64_div x 0x3FF0000000000000) = f64_fixed x"
proof -
  have shift: "f64_mant x * 2 ^ 108 = f64_mant x * 2 ^ 56 * 2 ^ 52" by simp
  have q: "f64_mant x * 2 ^ 108 div 2 ^ 52 = f64_mant x * 2 ^ 56" "f64_mant x * 2 ^ 108 mod 2 ^ 52 = 0"
    unfolding shift by (rule nonzero_mult_div_cancel_right, simp) (rule mod_mult_self2_is_0)
  have n: "2 * (f64_mant x * 2 ^ 56) + 0 = f64_mant x * 2 ^ 57" by simp
  have "f64_div x 0x3FF0000000000000 = f64_pack (f64_sign x) (f64_mant x * 2 ^ 57) (f64_exp x - int 57)"
    using assms one_parts finite_parts(4) [OF assms] finite_parts(4) [OF one_parts(1)]
    unfolding f64_div_def Let_def one_parts q n by (simp add: mult.commute)
  then show "f64_is_finite (f64_div x 0x3FF0000000000000)" "f64_fixed (f64_div x 0x3FF0000000000000) = f64_fixed x"
    by (simp_all only: pack_value [OF assms refl refl])
qed

lemma add_zero:
  assumes "f64_is_finite x" "f64_is_finite z" "f64_fixed z = 0"
  shows "f64_is_finite (f64_add x z)" "f64_fixed (f64_add x z) = f64_fixed x"
proof -
  have "f64_mant z = 0" using assms(3) fixed_0_iff by simp
  then have z: "f64_smant z = 0" by (simp add: f64_smant_def)
  define e where "e = min (f64_exp x) (f64_exp z)"
  define t where "t = f64_smant x * 2 ^ nat (f64_exp x - e)"
  have e: "e = f64_exp x - int (nat (f64_exp x - e))" by (simp add: e_def)
  have m: "nat \<bar>t\<bar> = f64_mant x * 2 ^ nat (f64_exp x - e)" "t = 0 \<longleftrightarrow> f64_mant x = 0"
    "t \<noteq> 0 \<Longrightarrow> t < 0 \<longleftrightarrow> f64_sign x"
    by (auto simp: t_def f64_smant_def abs_mult nat_mult_distrib nat_power_eq mult_less_0_iff)
  have nan: "\<not> f64_is_nan x" "\<not> f64_is_nan z" using assms finite_parts(4) by blast+
  have sum: "f64_add x z = (if t = 0 then f64_signed (f64_sign x \<and> f64_sign z) 0 else f64_pack (t < 0) (nat \<bar>t\<bar>) e)"
    unfolding f64_add_def Let_def z e_def [symmetric] mult_zero_left add_0_right t_def [symmetric]
    using nan assms by simp
  show "f64_is_finite (f64_add x z)" "f64_fixed (f64_add x z) = f64_fixed x"
    unfolding sum using pack_value [OF assms(1) m(1) e] m(2,3) fixed_0_iff [of x] by (cases "t = 0"; simp)+
qed

text \<open>Adding whole numbers.\<close>

lemma smant_fixed:
  assumes "f64_is_finite x" "- 1074 \<le> e" "e \<le> f64_exp x"
  shows "f64_smant x * 2 ^ nat (f64_exp x - e) * 2 ^ nat (e + 1074) = f64_fixed x"
proof -
  have "nat (f64_exp x - e) + nat (e + 1074) = nat (f64_exp x + 1074)" using assms by simp
  then show ?thesis unfolding f64_fixed_def mult.assoc power_add [symmetric] by simp
qed

lemma shifted_whole:
  fixes t c :: int
  assumes "t * 2 ^ nat (e + 1074) = c * f64_unit" "- 1074 \<le> e"
  shows "if e \<le> 0 then t = c * 2 ^ nat (- e) else t * 2 ^ nat e = c"
proof (cases "e \<le> 0")
  case True
  then have "1074 = nat (- e) + nat (e + 1074)" using assms(2) by simp
  then have "f64_unit = 2 ^ nat (- e) * 2 ^ nat (e + 1074)"
    unfolding f64_unit_def power_add [symmetric] by (rule arg_cong)
  then have "t * 2 ^ nat (e + 1074) = c * 2 ^ nat (- e) * 2 ^ nat (e + 1074)" using assms(1) by simp
  then show ?thesis using True by simp
next
  case False
  then have "nat (e + 1074) = nat e + 1074" by simp
  then have "(2 :: int) ^ nat (e + 1074) = 2 ^ nat e * f64_unit" by (simp only: f64_unit_def power_add)
  then have "t * 2 ^ nat e * f64_unit = c * f64_unit" using assms(1) by simp
  then show ?thesis using False by (simp add: f64_unit_def)
qed

lemma add_whole:
  assumes x: "f64_is_finite x" "f64_fixed x = a * f64_unit" and y: "f64_is_finite y" "f64_fixed y = b * f64_unit"
    and small: "\<bar>a + b\<bar> < 2 ^ 53"
  shows "f64_is_finite (f64_add x y)" "f64_fixed (f64_add x y) = (a + b) * f64_unit"
proof -
  define e where "e = min (f64_exp x) (f64_exp y)"
  define t where "t = f64_smant x * 2 ^ nat (f64_exp x - e) + f64_smant y * 2 ^ nat (f64_exp y - e)"
  have e: "- 1074 \<le> e" "e \<le> f64_exp x" "e \<le> f64_exp y" "e \<le> 971"
    using finite_parts [OF x(1)] finite_parts [OF y(1)] by (auto simp: e_def)
  have t: "t * 2 ^ nat (e + 1074) = (a + b) * f64_unit"
    using smant_fixed [OF x(1) e(1,2)] smant_fixed [OF y(1) e(1,3)] x(2) y(2) by (simp add: t_def distrib_right)
  have sum: "f64_add x y = (if t = 0 then f64_signed (f64_sign x \<and> f64_sign y) 0 else f64_pack (t < 0) (nat \<bar>t\<bar>) e)"
    unfolding f64_add_def Let_def e_def [symmetric] t_def [symmetric]
    using x y finite_parts(4) by auto
  have "f64_is_finite (f64_add x y) \<and> f64_fixed (f64_add x y) = (a + b) * f64_unit"
  proof (cases "t = 0")
    case True
    then show ?thesis unfolding sum using t by simp
  next
    case False
    define m where "m = (if e \<le> 0 then nat \<bar>a + b\<bar> else nat \<bar>t\<bar>)"
    define j where "j = (if e \<le> 0 then nat (- e) else 0)"
    have w: "if e \<le> 0 then t = (a + b) * 2 ^ nat (- e) else t * 2 ^ nat e = a + b" by (rule shifted_whole [OF t e(1)])
    have m: "nat \<bar>t\<bar> = m * 2 ^ j"
      using w by (auto simp: m_def j_def abs_mult nat_mult_distrib nat_power_eq split: if_splits)
    have "\<bar>t\<bar> * 1 \<le> \<bar>t\<bar> * 2 ^ nat e" by (rule mult_left_mono) simp_all
    then have "m < 2 ^ 53" using small w by (auto simp: m_def abs_mult split: if_splits)
    moreover have "0 < m" using m False by (cases "m = 0") auto
    moreover have "- 1074 \<le> e + int j" "e + int j \<le> 971" using e by (auto simp: j_def)
    ultimately have p: "f64_is_finite (f64_pack (t < 0) (nat \<bar>t\<bar>) e)"
      "f64_fixed (f64_pack (t < 0) (nat \<bar>t\<bar>) e) = (if t < 0 then - 1 else 1) * int m * 2 ^ nat (e + int j + 1074)"
      unfolding m by (simp_all only: pack_exact)
    have "nat (e + int j + 1074) = j + nat (e + 1074)" using e(1) by (auto simp: j_def)
    then have "int m * 2 ^ nat (e + int j + 1074) = int (nat \<bar>t\<bar>) * 2 ^ nat (e + 1074)"
      unfolding m by (simp add: power_add mult.assoc)
    then have "f64_fixed (f64_pack (t < 0) (nat \<bar>t\<bar>) e) = t * 2 ^ nat (e + 1074)"
      unfolding p(2) mult.assoc by (cases "t < 0") simp_all
    then show ?thesis unfolding sum using False p(1) t by simp
  qed
  then show "f64_is_finite (f64_add x y)" "f64_fixed (f64_add x y) = (a + b) * f64_unit" by simp_all
qed

lemma of_i32_value: "f64_is_finite (f64_of_i32 i)" "f64_fixed (f64_of_i32 i) = sint i * f64_unit"
proof -
  have "f64_is_finite (f64_of_i32 i) \<and> f64_fixed (f64_of_i32 i) = sint i * f64_unit"
  proof (cases "sint i = 0")
    case False
    have "nat \<bar>sint i\<bar> < 2 ^ 53" using sint_greater_eq [of i] sint_less [of i] by simp
    then show ?thesis using pack_exact [of "nat \<bar>sint i\<bar>" 0 0 "sint i < 0"] False by (simp add: f64_of_i32_def f64_unit_def)
  qed (simp add: f64_of_i32_def f64_pack_def)
  then show "f64_is_finite (f64_of_i32 i)" "f64_fixed (f64_of_i32 i) = sint i * f64_unit" by simp_all
qed

section \<open>Sign and order\<close>

definition f64_mag :: "f64 \<Rightarrow> nat" where
  "f64_mag x = unat x mod 2 ^ 63"

lemma mag_parts: "f64_mag x = f64_exponent x * 2 ^ 52 + f64_fraction x" "unat x = (if f64_sign x then 2 ^ 63 else 0) + f64_mag x"
proof -
  have "(2 :: nat) ^ 63 = 2 ^ 52 * 2048" by simp
  then show "f64_mag x = f64_exponent x * 2 ^ 52 + f64_fraction x"
    unfolding f64_mag_def f64_exponent_def f64_fraction_def by (simp only: mod_mult2_eq mult.commute)
  have u: "unat x < 2 * 2 ^ 63" using unsigned_less [of x] by simp
  show "unat x = (if f64_sign x then 2 ^ 63 else 0) + f64_mag x"
  proof (cases "f64_sign x")
    case True
    then have "unat x mod 2 ^ 63 = unat x - 2 ^ 63" using u by (intro mod_nat_eqI) (simp_all add: f64_sign_def)
    then show ?thesis using True by (simp add: f64_mag_def f64_sign_def)
  qed (simp add: f64_mag_def f64_sign_def)
qed

lemma finite_mag: "f64_is_finite x \<Longrightarrow> f64_mag x < 2047 * 2 ^ 52"
proof -
  assume "f64_is_finite x"
  then have "f64_exponent x \<le> 2046" using exponent_less [of x] by (simp add: f64_is_finite_def)
  moreover have "f64_fraction x < 2 ^ 52" by (simp add: f64_fraction_def)
  ultimately have "f64_exponent x * 2 ^ 52 + f64_fraction x < 2046 * 2 ^ 52 + 2 ^ 52"
    by (intro add_le_less_mono mult_le_mono1)
  then show ?thesis unfolding mag_parts(1) by simp
qed

lemma signed_mag: "f64_signed (f64_sign x) (f64_mag x) = x"
  unfolding f64_signed_def mag_parts(2) [symmetric] by simp

lemma abs_fixed: "\<bar>f64_fixed x\<bar> = int (f64_mant x) * 2 ^ nat (f64_exp x + 1074)"
  by (simp add: fixed_smant abs_mult)

lemma neg_value:
  assumes "f64_is_finite x"
  shows "f64_is_finite (f64_neg x)" "f64_fixed (f64_neg x) = - f64_fixed x"
proof -
  have m: "f64_mag x < 2048 * 2 ^ 52" using finite_mag [OF assms] by simp
  note p = signed_parts [OF m]
  have "f64_exponent (f64_neg x) = f64_exponent x" "f64_fraction (f64_neg x) = f64_fraction x"
    "f64_sign (f64_neg x) = (\<not> f64_sign x)"
    using p [of "f64_sign x"] p [of "\<not> f64_sign x"] unfolding signed_mag
    by (simp_all only: f64_neg_def f64_mag_def [symmetric])
  then show "f64_is_finite (f64_neg x)" "f64_fixed (f64_neg x) = - f64_fixed x"
    using assms by (auto simp: f64_is_finite_def fixed_smant f64_mant_def f64_exp_def)
qed

lemma mant_scaled:
  "int (f64_mant x) * 2 ^ nat (f64_exp x + 1074)
   = int (if f64_exponent x = 0 then f64_fraction x else (2 ^ 52 + f64_fraction x) * 2 ^ (f64_exponent x - 1))"
proof (cases "f64_exponent x = 0")
  case False
  then have "nat (int (f64_exponent x) - 1075 + 1074) = f64_exponent x - 1" by simp
  then show ?thesis using False by (simp add: f64_mant_def f64_exp_def)
qed (simp add: f64_mant_def f64_exp_def)

lemma mag_less:
  assumes "f64_mag x < f64_mag y"
  shows "\<bar>f64_fixed x\<bar> < \<bar>f64_fixed y\<bar>"
proof -
  let ?v = "\<lambda>x. if f64_exponent x = 0 then f64_fraction x else (2 ^ 52 + f64_fraction x) * 2 ^ (f64_exponent x - 1)"
  have f: "f64_fraction x < 2 ^ 52" "f64_fraction y < 2 ^ 52" by (simp_all add: f64_fraction_def)
  have le: "f64_exponent x \<le> f64_exponent y"
  proof (rule ccontr)
    assume "\<not> ?thesis"
    then have "(f64_exponent y + 1) * 2 ^ 52 \<le> f64_exponent x * 2 ^ 52" by (intro mult_le_mono1) simp
    then show False using assms f(2) unfolding mag_parts(1) by (simp add: distrib_right)
  qed
  have "?v x < ?v y"
  proof (cases "f64_exponent x = f64_exponent y")
    case True
    then have "f64_fraction x < f64_fraction y" using assms unfolding mag_parts(1) by simp
    then show ?thesis using True by simp
  next
    case False
    define k where "k = f64_exponent y - 1"
    have y: "f64_exponent y = Suc k" and x: "f64_exponent x \<le> k" using False le by (simp_all add: k_def)
    have "?v x < 2 ^ 52 * 2 ^ k"
    proof (cases "f64_exponent x")
      case 0
      have "f64_fraction x < 2 ^ 52 * 2 ^ k" by (rule order_less_le_trans [OF f(1)]) simp
      then show ?thesis using 0 by simp
    next
      case (Suc n)
      have "(2 ^ 52 + f64_fraction x) * 2 ^ n < (2 ^ 52 + 2 ^ 52) * 2 ^ n" using f(1) by simp
      also have "\<dots> = 2 ^ 52 * 2 ^ Suc n" by simp
      also have "\<dots> \<le> 2 ^ 52 * 2 ^ k" using x Suc by (intro mult_le_mono2 power_increasing) simp_all
      finally show ?thesis using Suc by simp
    qed
    also have "\<dots> \<le> ?v y" using y by simp
    finally show ?thesis .
  qed
  then show ?thesis unfolding abs_fixed mant_scaled by (simp only: of_nat_less_iff)
qed

lemma key_less:
  assumes "f64_is_finite x" "f64_is_finite y"
  shows "f64_key x < f64_key y \<longleftrightarrow> f64_fixed x < f64_fixed y"
proof -
  have abs: "f64_mag x < f64_mag y \<longleftrightarrow> \<bar>f64_fixed x\<bar> < \<bar>f64_fixed y\<bar>" for x y
  proof -
    have "\<bar>f64_fixed x\<bar> = \<bar>f64_fixed y\<bar>" if "f64_mag x = f64_mag y"
    proof -
      have "f64_exponent x = f64_mag x div 2 ^ 52" "f64_fraction x = f64_mag x mod 2 ^ 52"
        "f64_exponent y = f64_mag y div 2 ^ 52" "f64_fraction y = f64_mag y mod 2 ^ 52"
        unfolding mag_parts(1) by (simp_all add: f64_fraction_def)
      then show ?thesis using that unfolding abs_fixed mant_scaled by simp
    qed
    then show ?thesis using mag_less [of x y] mag_less [of y x] by (cases "f64_mag x" "f64_mag y" rule: linorder_cases) auto
  qed
  have sgn: "f64_key x = (if f64_sign x then - int (f64_mag x) else int (f64_mag x))"
    "f64_fixed x = (if f64_sign x then - \<bar>f64_fixed x\<bar> else \<bar>f64_fixed x\<bar>)" for x
    unfolding f64_key_def f64_mag_def [symmetric] abs_fixed by (simp_all add: fixed_smant)
  have nil: "f64_mag x = 0 \<longleftrightarrow> f64_fixed x = 0" for x
    using abs [of 0 x] unfolding fixed_0_iff [of 0, THEN iffD2, OF zero_parts(2)]
    by (simp add: f64_mag_def) (metis not_gr_zero)
  have nat: "int a < int b \<longleftrightarrow> a < b" for a b by simp
  show ?thesis
    using abs [of x y] abs [of y x] nil [of x] nil [of y] sgn [of x] sgn [of y] by (auto split: if_splits)
qed

lemma lt_fixed: "f64_is_finite x \<Longrightarrow> f64_is_finite y \<Longrightarrow> f64_lt x y \<longleftrightarrow> f64_fixed x < f64_fixed y"
  by (simp add: f64_lt_def key_less finite_parts(4))

lemma ge_fixed: "f64_is_finite x \<Longrightarrow> f64_is_finite y \<Longrightarrow> f64_ge x y \<longleftrightarrow> f64_fixed y \<le> f64_fixed x"
  using key_less [of x y] by (simp add: f64_ge_def finite_parts(4) linorder_not_less [symmetric])

lemma fixed_inj:
  assumes "f64_is_finite x" "f64_is_finite y" "f64_fixed x = f64_fixed y" "f64_fixed x \<noteq> 0"
  shows "x = y"
proof -
  have sign: "f64_sign x \<longleftrightarrow> f64_fixed x < 0" if "f64_fixed x \<noteq> 0" for x
  proof -
    have "f64_fixed x = (if f64_sign x then - \<bar>f64_fixed x\<bar> else \<bar>f64_fixed x\<bar>)"
      unfolding abs_fixed by (simp add: fixed_smant)
    then show ?thesis using that by (cases "f64_sign x") auto
  qed
  have "f64_key x = f64_key y"
    using key_less [OF assms(1,2)] key_less [OF assms(2,1)] assms(3) by (metis less_irrefl linorder_cases)
  moreover have "f64_sign x = f64_sign y" using sign [of x] sign [of y] assms by simp
  ultimately have "f64_mag x = f64_mag y"
    unfolding f64_key_def f64_mag_def [symmetric] by (simp split: if_splits)
  then have "f64_signed (f64_sign x) (f64_mag x) = f64_signed (f64_sign y) (f64_mag y)"
    using \<open>f64_sign x = f64_sign y\<close> by (simp only:)
  then show ?thesis unfolding signed_mag .
qed

lemma f64_add_commute: "f64_is_finite x \<and> f64_is_finite y \<Longrightarrow> f64_add x y = f64_add y x"
  by (simp add: f64_add_def min.commute add.commute finite_parts(4) conj_commute Let_def)

section \<open>Constants\<close>

abbreviation f64_one :: f64 where "f64_one \<equiv> 0x3FF0000000000000"

lemmas f64_eval = f64_pack_def bit_count.simps f64_signed_def div_even_def f64_is_nan_def f64_is_finite_def
  f64_exponent_def f64_fraction_def f64_mant_def f64_exp_def f64_smant_def f64_sign_def Let_def

lemma one_value: "f64_is_finite f64_one" "f64_fixed f64_one = f64_unit"
proof -
  show "f64_is_finite f64_one" by (rule one_parts(1))
  have "(2 :: int) ^ 52 * 2 ^ 1022 = 2 ^ 1074" by simp
  then show "f64_fixed f64_one = f64_unit"
    unfolding fixed_smant one_parts f64_unit_def by (simp only: one_parts if_False) simp
qed

lemma one_plus_zero:
  assumes "f64_is_finite z" "f64_fixed z = 0"
  shows "f64_add f64_one z = f64_one"
  using add_zero [OF one_value(1) assms] one_value fixed_inj by (simp add: f64_unit_def)

lemma neg_0: "f64_is_finite (f64_neg 0)" "f64_fixed (f64_neg 0) = 0"
  using neg_value [OF zero_parts(1)] by (simp_all add: fixed_0_iff [THEN iffD2] zero_parts)

lemma f64_consts:
  "f64_of_f32 0 = 0" "f64_of_f32 0x3F800000 = f64_one"
  "f64_mul f64_one f64_one = f64_one" "f64_mul f64_one 0 = 0" "f64_mul 0 f64_one = 0" "f64_mul 0 0 = 0"
  "f64_sub 0 0 = 0" "f64_div f64_one f64_one = f64_one"
  "f64_abs f64_one = f64_one" "\<not> f64_lt f64_one f64_EPSILON"
  by (simp_all add: f64_of_f32_def f64_mul_def f64_sub_def f64_neg_def f64_add_def f64_div_def f64_abs_def f64_lt_def
      f64_key_def f64_EPSILON_def f64_eval)

lemma f64_one_zero: "f64_sub f64_one 0 = f64_one" "f64_add f64_one 0 = f64_one"
  using one_plus_zero [OF neg_0] one_plus_zero [OF zero_parts(1)]
  by (simp_all add: f64_sub_def fixed_0_iff [THEN iffD2] zero_parts)

section \<open>Exact arithmetic on dyadic numbers\<close>

text \<open>A double that is the number \<open>k * 2 ^ e\<close>.\<close>

definition f64_is :: "f64 \<Rightarrow> int \<Rightarrow> int \<Rightarrow> bool" where
  "f64_is x k e \<longleftrightarrow> f64_is_finite x \<and> - 1074 \<le> e \<and> f64_fixed x = k * 2 ^ nat (e + 1074)"

lemma power_compare:
  fixes m k :: nat
  assumes "m * 2 ^ a = k * 2 ^ b"
  shows "if a \<le> b then m = k * 2 ^ (b - a) else k = m * 2 ^ (a - b)"
proof (cases "a \<le> b")
  case True
  then have "(2 :: nat) ^ b = 2 ^ (b - a) * 2 ^ a" by (simp flip: power_add)
  then have "m * 2 ^ a = k * 2 ^ (b - a) * 2 ^ a" using assms by simp
  then show ?thesis using True by simp
next
  case False
  then have "(2 :: nat) ^ a = 2 ^ (a - b) * 2 ^ b" by (simp flip: power_add)
  then have "k * 2 ^ b = m * 2 ^ (a - b) * 2 ^ b" using assms by simp
  then show ?thesis using False by simp
qed

text \<open>Packing \<open>n * 2 ^ d\<close> when it is the number \<open>k * 2 ^ e\<close> of at most 53 bits.\<close>

lemma pack_dyadic:
  assumes eq: "n * 2 ^ nat (d + c) = k * 2 ^ nat (e + c)" and c: "0 \<le> d + c" "0 \<le> e + c"
    and k: "0 < k" "k < 2 ^ 53" and e: "- 1074 \<le> e" "e \<le> 900"
  shows "f64_is (f64_pack s n d) (if s then - int k else int k) e" "f64_sign (f64_pack s n d) = s"
proof -
  have "f64_is (f64_pack s n d) (if s then - int k else int k) e \<and> f64_sign (f64_pack s n d) = s"
  proof (cases "d \<le> e")
    case True
    then have le: "nat (d + c) \<le> nat (e + c)" "nat (e + c) - nat (d + c) = nat (e - d)" using c by auto
    then have n: "n = k * 2 ^ nat (e - d)" using power_compare [OF eq] by simp
    have "- 1074 \<le> d + int (nat (e - d))" "d + int (nat (e - d)) \<le> 971" using True e by simp_all
    from pack_exact [OF k this, of s] show ?thesis unfolding n using True e by (auto simp: f64_is_def)
  next
    case False
    then have le: "\<not> nat (d + c) \<le> nat (e + c)" "nat (d + c) - nat (e + c) = nat (d - e)" using c by auto
    then have kn: "k = n * 2 ^ nat (d - e)" using power_compare [OF eq] by simp
    have n: "0 < n" "n < 2 ^ 53" using k kn by (auto intro: order_le_less_trans [of n k])
    have "(2 :: nat) ^ nat (d - e) \<le> k" using n(1) kn by simp
    then have "(2 :: nat) ^ nat (d - e) < 2 ^ 53" using k(2) by simp
    then have "nat (d - e) < 53" by (rule power_less_imp_less_exp [rotated]) simp
    then have "- 1074 \<le> d + int 0" "d + int 0 \<le> 971" using False e by simp_all
    note p = pack_exact [OF n this, of s]
    have "nat (d + 1074) = nat (d - e) + nat (e + 1074)" using False e by simp
    then have "int n * 2 ^ nat (d + 1074) = int k * 2 ^ nat (e + 1074)" unfolding kn by (simp add: power_add mult.assoc)
    then show ?thesis using p e by (auto simp: f64_is_def)
  qed
  then show "f64_is (f64_pack s n d) (if s then - int k else int k) e" "f64_sign (f64_pack s n d) = s" by simp_all
qed

lemma is_zero: "f64_is x 0 e \<longleftrightarrow> f64_is_finite x \<and> - 1074 \<le> e \<and> f64_fixed x = 0"
  by (simp add: f64_is_def)

lemma is_rescale: "f64_is x k e \<Longrightarrow> - 1074 \<le> d \<Longrightarrow> d \<le> e \<Longrightarrow> k' = k * 2 ^ nat (e - d) \<Longrightarrow> f64_is x k' d"
proof -
  assume a: "f64_is x k e" "- 1074 \<le> d" "d \<le> e" "k' = k * 2 ^ nat (e - d)"
  then have "nat (e + 1074) = nat (e - d) + nat (d + 1074)" by (simp add: f64_is_def)
  then show ?thesis using a by (simp add: f64_is_def power_add mult.assoc)
qed

lemma sign_of_product:
  fixes v p k :: int
  assumes "v < 0 \<longleftrightarrow> k < 0" "v \<noteq> 0" "0 \<le> p" "v = (if s then - p else p)"
  shows "s \<longleftrightarrow> k < 0"
  using assms by (cases s) auto

lemma is_mant:
  assumes "f64_is x k e"
  shows "f64_mant x * 2 ^ nat (f64_exp x + 1074) = nat \<bar>k\<bar> * 2 ^ nat (e + 1074)"
    "k \<noteq> 0 \<Longrightarrow> f64_sign x \<longleftrightarrow> k < 0" "f64_is_finite x" "- 1074 \<le> e"
proof -
  have f: "(if f64_sign x then - 1 else 1) * int (f64_mant x) * 2 ^ nat (f64_exp x + 1074) = k * 2 ^ nat (e + 1074)"
    using assms by (simp add: f64_is_def fixed_smant)
  have "\<bar>f64_fixed x\<bar> = \<bar>k\<bar> * 2 ^ nat (e + 1074)" using assms by (simp add: f64_is_def abs_mult)
  then have "int (f64_mant x * 2 ^ nat (f64_exp x + 1074)) = int (nat \<bar>k\<bar> * 2 ^ nat (e + 1074))"
    unfolding abs_fixed by simp
  then show "f64_mant x * 2 ^ nat (f64_exp x + 1074) = nat \<bar>k\<bar> * 2 ^ nat (e + 1074)" by (simp only: of_nat_eq_iff)
  assume k: "k \<noteq> 0"
  have "k * 2 ^ nat (e + 1074) < 0 \<longleftrightarrow> k < 0" "k * 2 ^ nat (e + 1074) \<noteq> 0"
    using k by (simp_all add: mult_less_0_iff)
  moreover have "0 \<le> int (f64_mant x) * 2 ^ nat (f64_exp x + 1074)" by simp
  moreover have "k * 2 ^ nat (e + 1074) = (if f64_sign x then - (int (f64_mant x) * 2 ^ nat (f64_exp x + 1074))
      else int (f64_mant x) * 2 ^ nat (f64_exp x + 1074))"
    unfolding f [symmetric] by simp
  ultimately show "f64_sign x \<longleftrightarrow> k < 0" by (rule sign_of_product)
qed (use assms in \<open>simp_all add: f64_is_def\<close>)

lemma add_is:
  assumes "f64_is x a e" "f64_is y b e" "\<bar>a + b\<bar> < 2 ^ 53" "e \<le> 900"
  shows "f64_is (f64_add x y) (a + b) e"
proof -
  define d where "d = min (f64_exp x) (f64_exp y)"
  define t where "t = f64_smant x * 2 ^ nat (f64_exp x - d) + f64_smant y * 2 ^ nat (f64_exp y - d)"
  note x = is_mant(3,4) [OF assms(1)] and y = is_mant(3) [OF assms(2)]
  have d: "- 1074 \<le> d" "d \<le> f64_exp x" "d \<le> f64_exp y"
    using finite_parts [OF x(1)] finite_parts [OF y] by (auto simp: d_def)
  have t: "t * 2 ^ nat (d + 1074) = (a + b) * 2 ^ nat (e + 1074)"
    using smant_fixed [OF x(1) d(1,2)] smant_fixed [OF y d(1,3)] assms(1,2) by (simp add: t_def f64_is_def distrib_right)
  have sum: "f64_add x y = (if t = 0 then f64_signed (f64_sign x \<and> f64_sign y) 0 else f64_pack (t < 0) (nat \<bar>t\<bar>) d)"
    unfolding f64_add_def Let_def d_def [symmetric] t_def [symmetric]
    using x y finite_parts(4) by auto
  show ?thesis
  proof (cases "t = 0")
    case True
    then have "a + b = 0" using t by simp
    then show ?thesis unfolding sum using True x(2) by (simp add: is_zero)
  next
    case False
    have "int (nat \<bar>t\<bar> * 2 ^ nat (d + 1074)) = int (nat \<bar>a + b\<bar> * 2 ^ nat (e + 1074))"
      using arg_cong [OF t, of abs] by (simp add: abs_mult)
    then have m: "nat \<bar>t\<bar> * 2 ^ nat (d + 1074) = nat \<bar>a + b\<bar> * 2 ^ nat (e + 1074)" by (simp only: of_nat_eq_iff)
    have nz: "a + b \<noteq> 0" using t False by auto
    have sg: "t < 0 \<longleftrightarrow> a + b < 0"
      using t by (metis mult_less_0_iff zero_less_power zero_less_numeral not_less_iff_gr_or_eq)
    have "f64_is (f64_pack (t < 0) (nat \<bar>t\<bar>) d) (if t < 0 then - int (nat \<bar>a + b\<bar>) else int (nat \<bar>a + b\<bar>)) e"
      by (rule pack_dyadic(1) [OF m]) (use d x(2) assms(3,4) nz in auto)
    then show ?thesis unfolding sum using False sg by (auto simp: add.commute split: if_splits)
  qed
qed

lemma mul_is:
  assumes "f64_is x a e" "f64_is y b f" "\<bar>a * b\<bar> < 2 ^ 53" "- 1074 \<le> e + f" "e + f \<le> 900"
  shows "f64_is (f64_mul x y) (a * b) (e + f)"
proof -
  note x = is_mant [OF assms(1)] and y = is_mant [OF assms(2)]
  note fx = finite_parts [OF x(3)] and fy = finite_parts [OF y(3)]
  let ?s = "f64_sign x \<noteq> f64_sign y"
  have mul: "f64_mul x y = f64_pack ?s (f64_mant x * f64_mant y) (f64_exp x + f64_exp y)"
    using fx fy x(3) y(3) by (simp add: f64_mul_def)
  show ?thesis
  proof (cases "a * b = 0")
    case True
    then have "f64_mant x * f64_mant y = 0" using x(1) y(1) by auto
    then show ?thesis unfolding mul True using assms(4) by (simp add: f64_pack_def is_zero)
  next
    case False
    have "(f64_mant x * 2 ^ nat (f64_exp x + 1074)) * (f64_mant y * 2 ^ nat (f64_exp y + 1074))
        = (nat \<bar>a\<bar> * 2 ^ nat (e + 1074)) * (nat \<bar>b\<bar> * 2 ^ nat (f + 1074))"
      by (simp only: x(1) y(1))
    moreover have "nat (f64_exp x + f64_exp y + 2148) = nat (f64_exp x + 1074) + nat (f64_exp y + 1074)"
      "nat (e + f + 2148) = nat (e + 1074) + nat (f + 1074)"
      using fx(2) fy(2) x(4) y(4) by simp_all
    moreover have "nat \<bar>a * b\<bar> = nat \<bar>a\<bar> * nat \<bar>b\<bar>" by (simp add: abs_mult nat_mult_distrib)
    ultimately have m: "f64_mant x * f64_mant y * 2 ^ nat (f64_exp x + f64_exp y + 2148)
        = nat \<bar>a * b\<bar> * 2 ^ nat (e + f + 2148)"
      by (simp only: power_add) (simp add: algebra_simps)
    have "f64_is (f64_pack ?s (f64_mant x * f64_mant y) (f64_exp x + f64_exp y))
        (if ?s then - int (nat \<bar>a * b\<bar>) else int (nat \<bar>a * b\<bar>)) (e + f)"
      by (rule pack_dyadic(1) [OF m]) (use fx(2) fy(2) x(4) y(4) assms(3-5) False in auto)
    moreover have "?s \<longleftrightarrow> a * b < 0" using x(2) y(2) False by (auto simp: mult_less_0_iff)
    then have "(if ?s then - int (nat \<bar>a * b\<bar>) else int (nat \<bar>a * b\<bar>)) = a * b" by simp
    ultimately show ?thesis unfolding mul by simp
  qed
qed

lemma neg_is: "f64_is x k e \<Longrightarrow> f64_is (f64_neg x) (- k) e"
  by (simp add: f64_is_def neg_value)

lemma sub_is:
  assumes "f64_is x a e" "f64_is y b e" "\<bar>a - b\<bar> < 2 ^ 53" "e \<le> 900"
  shows "f64_is (f64_sub x y) (a - b) e"
  using add_is [OF assms(1) neg_is [OF assms(2)]] assms(3,4) by (simp add: f64_sub_def)

text \<open>Dividing one by a power of two.\<close>

lemma one_div_is:
  assumes "f64_is y b e" "\<bar>b\<bar> = 2 ^ i" "- 900 \<le> e + int i" "e + int i \<le> 1000"
  shows "f64_is (f64_div f64_one y) (sgn b) (- (e + int i))"
proof -
  note y = is_mant [OF assms(1)]
  note fy = finite_parts [OF y(3)]
  have b: "b \<noteq> 0" "nat \<bar>b\<bar> = 2 ^ i" using assms(2) by (auto simp: nat_power_eq)
  have m: "f64_mant y * 2 ^ nat (f64_exp y + 1074) = 2 ^ (i + nat (e + 1074))" using y(1) b(2) by (simp add: power_add)
  then obtain r where r: "f64_mant y = 2 ^ r"
    using power_compare [of "f64_mant y" "nat (f64_exp y + 1074)" 1] by (auto split: if_splits intro: that [of 0])
  have "r < 53" using fy(1) unfolding r by (rule power_less_imp_less_exp [rotated]) simp
  have "(2 :: nat) ^ (r + nat (f64_exp y + 1074)) = 2 ^ (i + nat (e + 1074))" using m r by (simp add: power_add)
  then have "r + nat (f64_exp y + 1074) = i + nat (e + 1074)" by (rule power_inject_exp [THEN iffD1, rotated]) simp
  then have ex: "int r + f64_exp y = int i + e" using fy(2) y(4) by linarith
  have split: "(2 :: nat) ^ 160 = 2 ^ (160 - r) * 2 ^ r" using \<open>r < 53\<close> by (simp flip: power_add)
  have q: "(2 :: nat) ^ 160 div 2 ^ r = 2 ^ (160 - r)" "(2 :: nat) ^ 160 mod 2 ^ r = 0" unfolding split by simp_all
  have n: "(2 :: nat) ^ 52 * 2 ^ 108 = 2 ^ 160" "(2 :: nat) * 2 ^ (160 - r) + 0 = 2 ^ (161 - r)"
    using \<open>r < 53\<close> by (simp_all flip: power_add power_Suc add: Suc_diff_le)
  have div: "f64_div f64_one y = f64_pack (f64_sign y) (2 ^ (161 - r)) (- 161 - f64_exp y)"
    using y(3) one_parts finite_parts(4) [OF y(3)] finite_parts(4) [OF one_parts(1)]
    unfolding f64_div_def Let_def one_parts r n(1) q by (simp add: n(2) [simplified] q)
  have eq: "(2 :: nat) ^ (161 - r) * 2 ^ nat (- 161 - f64_exp y + 2148) = 1 * 2 ^ nat (- (e + int i) + 2148)"
  proof -
    have "161 - r + nat (- 161 - f64_exp y + 2148) = nat (- (e + int i) + 2148)"
      using ex \<open>r < 53\<close> assms(3,4) fy(3) by linarith
    then show ?thesis by (simp flip: power_add)
  qed
  have "f64_is (f64_pack (f64_sign y) (2 ^ (161 - r)) (- 161 - f64_exp y)) (if f64_sign y then - int 1 else int 1) (- (e + int i))"
    by (rule pack_dyadic(1) [OF eq]) (use ex \<open>r < 53\<close> assms(3,4) fy(3) in auto)
  moreover have "(if f64_sign y then - int 1 else int 1) = sgn b" using y(2) b(1) by (auto simp: sgn_if)
  ultimately show ?thesis unfolding div by simp
qed

lemma abs_value:
  assumes "f64_is_finite x"
  shows "f64_is_finite (f64_abs x)" "f64_fixed (f64_abs x) = \<bar>f64_fixed x\<bar>"
proof -
  have m: "f64_mag x < 2048 * 2 ^ 52" using finite_mag [OF assms] by simp
  note p = signed_parts [OF m]
  have "f64_exponent (f64_abs x) = f64_exponent x" "f64_fraction (f64_abs x) = f64_fraction x" "\<not> f64_sign (f64_abs x)"
    using p [of "f64_sign x"] p [of False] unfolding signed_mag
    by (simp_all only: f64_abs_def f64_mag_def [symmetric] not_False_eq_True)
  then show "f64_is_finite (f64_abs x)" "f64_fixed (f64_abs x) = \<bar>f64_fixed x\<bar>"
    using assms unfolding abs_fixed by (auto simp: f64_is_finite_def fixed_smant f64_mant_def f64_exp_def)
qed

lemma epsilon_is: "f64_is f64_EPSILON 1 (- 52)"
proof -
  have "f64_mant f64_EPSILON = 2 ^ 52" "f64_exp f64_EPSILON = - 104" "\<not> f64_sign f64_EPSILON" "f64_is_finite f64_EPSILON"
    by (simp_all add: f64_EPSILON_def f64_is_finite_def f64_exponent_def f64_mant_def f64_fraction_def f64_exp_def f64_sign_def)
  moreover have "(2 :: int) ^ 52 * 2 ^ 970 = 2 ^ 1022" by (simp flip: power_add)
  ultimately show ?thesis by (simp add: f64_is_def fixed_smant del: power_numeral)
qed

lemma not_below_epsilon:
  assumes "f64_is x k e" "k \<noteq> 0" "- 52 \<le> e"
  shows "\<not> f64_lt (f64_abs x) f64_EPSILON"
proof -
  have "(2 :: int) ^ nat (- 52 + 1074) \<le> 2 ^ nat (e + 1074)" using assms(3) by (intro power_increasing) simp_all
  also have "\<dots> \<le> \<bar>k\<bar> * 2 ^ nat (e + 1074)" using assms(2) by simp
  finally have "f64_fixed f64_EPSILON \<le> f64_fixed (f64_abs x)"
    using assms(1) epsilon_is abs_value(2) [of x] by (simp add: f64_is_def abs_mult)
  then show ?thesis using lt_fixed [of "f64_abs x" f64_EPSILON] abs_value(1) [of x] assms(1) epsilon_is by (simp add: f64_is_def)
qed

lemma is_one: "f64_is x (2 ^ i) (- int i) \<Longrightarrow> i \<le> 1000 \<Longrightarrow> x = f64_one"
proof -
  assume a: "f64_is x (2 ^ i) (- int i)" "i \<le> 1000"
  then have "i + nat (- int i + 1074) = 1074" by simp
  then have "(2 :: int) ^ i * 2 ^ nat (- int i + 1074) = f64_unit" unfolding f64_unit_def power_add [symmetric] by (rule arg_cong)
  then have "f64_fixed x = f64_fixed f64_one" using a(1) one_value by (simp add: f64_is_def)
  then show "x = f64_one" using fixed_inj [of x f64_one] a(1) one_value by (simp add: f64_is_def f64_unit_def)
qed

end
