(* ===== verification/Input_Routing.thy ===== *)
theory Input_Routing
  imports Float64 Layout_Render
begin

text \<open>
  Physical input on its way to a surface: the device table and the pending events of the libinput source
  (\<^verbatim>\<open>input/libinput.rs\<close>), keyboard focus per seat (\<^verbatim>\<open>input/focus.rs\<close>), the hit test of the pointer against the
  layers (\<^verbatim>\<open>input/hit_test.rs\<close>) and the coalescing of pointer motion (\<^verbatim>\<open>input/routed.rs\<close>). The poller behind the
  source is a parameter.
\<close>

section \<open>Devices (input/libinput.rs)\<close>

datatype LibinputDeviceKind = DevicePointer | DeviceKeyboard | DeviceTouch

record LibinputDeviceDescriptor =
  ld_seat :: SeatId
  ld_device :: DeviceId
  ld_kind :: LibinputDeviceKind

datatype LibinputEventIngest = IngestAccepted | IngestUnknownDevice | IngestSeatMismatch

record LibinputEventSource =
  le_devices :: "(DeviceId, LibinputDeviceDescriptor) btree"
  le_pending :: "InputEventPacket list"

definition event_source_new :: LibinputEventSource where
  "event_source_new = \<lparr>le_devices = [], le_pending = []\<rparr>"

definition register_device :: "LibinputDeviceDescriptor \<Rightarrow> LibinputEventSource \<Rightarrow> LibinputEventSource" where
  "register_device device s = s\<lparr>le_devices := bt_insert (ld_device device) device (le_devices s)\<rparr>"

definition remove_device ::
  "DeviceId \<Rightarrow> LibinputEventSource \<Rightarrow> LibinputDeviceDescriptor option \<times> LibinputEventSource" where
  "remove_device device s = (bt_get (le_devices s) device, s\<lparr>le_devices := bt_remove device (le_devices s)\<rparr>)"

definition push_event :: "InputEventPacket \<Rightarrow> LibinputEventSource \<Rightarrow> LibinputEventIngest \<times> LibinputEventSource" where
  "push_event event s =
     (case bt_get (le_devices s) (ie_device event) of
        None \<Rightarrow> (IngestUnknownDevice, s)
      | Some device \<Rightarrow>
          if ld_seat device \<noteq> ie_seat event then (IngestSeatMismatch, s)
          else (IngestAccepted, s\<lparr>le_pending := le_pending s @ [event]\<rparr>))"

definition drain_events :: "LibinputEventSource \<Rightarrow> InputEventPacket list \<times> LibinputEventSource" where
  "drain_events s = (le_pending s, s\<lparr>le_pending := []\<rparr>)"

record LibinputPollReport =
  lp_polled :: nat
  lp_accepted :: nat
  lp_rejected :: "LibinputEventIngest list"

text \<open>A poller is its state with \<open>poll_ready\<close>; an I/O error is its kind.\<close>

record 'p LibinputPhysicalInputAdapter =
  pa_poller :: 'p
  pa_source :: LibinputEventSource

type_synonym ('p, 'e) poll_ready = "'p \<Rightarrow> ('e + InputEventPacket list) \<times> 'p"

fun ingest_events ::
  "InputEventPacket list \<Rightarrow> nat \<Rightarrow> LibinputEventIngest list \<Rightarrow> LibinputEventSource
     \<Rightarrow> nat \<times> LibinputEventIngest list \<times> LibinputEventSource" where
  "ingest_events [] accepted rejected s = (accepted, rejected, s)"
| "ingest_events (event # events) accepted rejected s =
     (case push_event event s of
        (IngestAccepted, s') \<Rightarrow> ingest_events events (Suc accepted) rejected s'
      | (outcome, s') \<Rightarrow> ingest_events events accepted (rejected @ [outcome]) s')"

definition poll_once ::
  "('p, 'e) poll_ready \<Rightarrow> 'p LibinputPhysicalInputAdapter
     \<Rightarrow> ('e + LibinputPollReport) \<times> 'p LibinputPhysicalInputAdapter" where
  "poll_once poll_ready a =
     (case poll_ready (pa_poller a) of
        (Inl e, p) \<Rightarrow> (Inl e, a\<lparr>pa_poller := p\<rparr>)
      | (Inr events, p) \<Rightarrow>
          (case ingest_events events 0 [] (pa_source a) of
             (accepted, rejected, s) \<Rightarrow>
               (Inr \<lparr>lp_polled = length events, lp_accepted = accepted, lp_rejected = rejected\<rparr>,
                a\<lparr>pa_poller := p, pa_source := s\<rparr>)))"

record QueuedInputPoller =
  qp_queued :: "InputEventPacket list"

definition queued_poll_ready :: "(QueuedInputPoller, 'e) poll_ready" where
  "queued_poll_ready p = (Inr (qp_queued p), p\<lparr>qp_queued := []\<rparr>)"

section \<open>Keyboard focus (input/focus.rs)\<close>

record InputFocusState =
  fs_focused_surfaces :: "(SeatId, SurfaceId) btree"

datatype InputFocusDecision = FdFocused | FdInvalidSeat | FdUnknownSurface

datatype FocusedInputRoute =
    FrRouted InputEventPacket
  | FrNoFocus InputEventPacket
  | FrStaleFocus InputEventPacket
  | FrUnsupportedEvent InputEventPacket

definition input_focus_new :: InputFocusState where
  "input_focus_new = \<lparr>fs_focused_surfaces = []\<rparr>"

definition focused_surface :: "InputFocusState \<Rightarrow> SeatId \<Rightarrow> SurfaceId option" where
  "focused_surface s seat = bt_get (fs_focused_surfaces s) seat"

definition focus_surface ::
  "SeatId \<Rightarrow> SurfaceId \<Rightarrow> CommittedSurfaceState list \<Rightarrow> InputFocusState \<Rightarrow> InputFocusDecision \<times> InputFocusState" where
  "focus_surface seat surface committed s =
     (if \<not> id_is_valid seat then (FdInvalidSeat, s)
      else if \<not> list_ex (\<lambda>c. cs_surface c = surface) committed then (FdUnknownSurface, s)
      else (FdFocused, s\<lparr>fs_focused_surfaces := bt_insert seat surface (fs_focused_surfaces s)\<rparr>))"

definition clear_focused_surface :: "SurfaceId \<Rightarrow> InputFocusState \<Rightarrow> nat \<times> InputFocusState" where
  "clear_focused_surface surface s =
     (let kept = filter (\<lambda>(_, focused). focused \<noteq> surface) (fs_focused_surfaces s) in
      (length (fs_focused_surfaces s) - length kept, s\<lparr>fs_focused_surfaces := kept\<rparr>))"

definition route_keyboard_event ::
  "InputFocusState \<Rightarrow> InputEventPacket \<Rightarrow> CommittedSurfaceState list \<Rightarrow> FocusedInputRoute" where
  "route_keyboard_event s event committed =
     (case ie_kind event of
        Key _ _ \<Rightarrow>
          (case focused_surface s (ie_seat event) of
             None \<Rightarrow> FrNoFocus event
           | Some surface \<Rightarrow>
               if \<not> list_ex (\<lambda>c. cs_surface c = surface) committed then FrStaleFocus event
               else FrRouted (event\<lparr>ie_target_surface := Some surface\<rparr>))
      | _ \<Rightarrow> FrUnsupportedEvent event)"

section \<open>Hit test (input/hit_test.rs)\<close>

definition missed_input_route :: "InputEventPacket \<Rightarrow> Point \<Rightarrow> InputRoute" where
  "missed_input_route event global_position =
     \<lparr>ir_input_serial = ie_serial event, ir_target_surface = None, ir_global_position = global_position,
      ir_local_position = None, ir_transform = transform_IDENTITY, ir_outcome = NoTarget\<rparr>"

definition rect_contains_point :: "Rect \<Rightarrow> Point \<Rightarrow> bool" where
  "rect_contains_point rect point =
     (let left = f64_of_i32 (rc_x rect); upper = f64_of_i32 (rc_y rect);
          right = f64_add left (f64_of_i32 (rc_width rect));
          bottom = f64_add upper (f64_of_i32 (rc_height rect)) in
      f64_ge (pt_x point) left \<and> f64_lt (pt_x point) right
      \<and> f64_ge (pt_y point) upper \<and> f64_lt (pt_y point) bottom)"

text \<open>\<open>a * b - c * d\<close>, the cofactors of the matrix.\<close>

definition f64_cross :: "f64 \<Rightarrow> f64 \<Rightarrow> f64 \<Rightarrow> f64 \<Rightarrow> f64" where
  "f64_cross a b c d = f64_sub (f64_mul a b) (f64_mul c d)"

definition f64_row :: "f64 \<Rightarrow> f64 \<Rightarrow> f64 \<Rightarrow> Point \<Rightarrow> f64" where
  "f64_row a b c point = f64_add (f64_add (f64_mul a (pt_x point)) (f64_mul b (pt_y point))) c"

fun inverse_matrix :: "Transform \<Rightarrow> (f64 \<times> f64 \<times> f64 \<times> f64 \<times> f64 \<times> f64 \<times> f64 \<times> f64 \<times> f64) option" where
  "inverse_matrix (Transform t0 t1 t2 t3 t4 t5 t6 t7 t8) =
     (let m0 = f64_of_f32 t0; m1 = f64_of_f32 t1; m2 = f64_of_f32 t2; m3 = f64_of_f32 t3; m4 = f64_of_f32 t4;
          m5 = f64_of_f32 t5; m6 = f64_of_f32 t6; m7 = f64_of_f32 t7; m8 = f64_of_f32 t8;
          determinant = f64_add (f64_sub (f64_mul m0 (f64_cross m4 m8 m5 m7)) (f64_mul m1 (f64_cross m3 m8 m5 m6)))
                                (f64_mul m2 (f64_cross m3 m7 m4 m6)) in
      if \<not> f64_is_finite determinant \<or> f64_lt (f64_abs determinant) f64_EPSILON then None
      else let inv_det = f64_div 0x3FF0000000000000 determinant in
        Some (f64_mul (f64_cross m4 m8 m5 m7) inv_det, f64_mul (f64_cross m2 m7 m1 m8) inv_det,
              f64_mul (f64_cross m1 m5 m2 m4) inv_det, f64_mul (f64_cross m5 m6 m3 m8) inv_det,
              f64_mul (f64_cross m0 m8 m2 m6) inv_det, f64_mul (f64_cross m2 m3 m0 m5) inv_det,
              f64_mul (f64_cross m3 m7 m4 m6) inv_det, f64_mul (f64_cross m1 m6 m0 m7) inv_det,
              f64_mul (f64_cross m0 m4 m1 m3) inv_det))"

definition inverse_transform_point :: "Transform \<Rightarrow> Point \<Rightarrow> Point option" where
  "inverse_transform_point transform point =
     (case inverse_matrix transform of
        None \<Rightarrow> None
      | Some (i0, i1, i2, i3, i4, i5, i6, i7, i8) \<Rightarrow>
          let x = f64_row i0 i1 i2 point; y = f64_row i3 i4 i5 point; w = f64_row i6 i7 i8 point in
          if \<not> f64_is_finite x \<or> \<not> f64_is_finite y \<or> \<not> f64_is_finite w \<or> f64_lt (f64_abs w) f64_EPSILON then None
          else Some \<lparr>pt_x = f64_div x w, pt_y = f64_div y w\<rparr>)"

fun hit_test_ordered :: "InputEventPacket \<Rightarrow> Point \<Rightarrow> LayerSnapshot list \<Rightarrow> InputRoute" where
  "hit_test_ordered event position [] = missed_input_route event position"
| "hit_test_ordered event position (layer # layers) =
     (if \<not> surface_is_valid (ls_surface layer) \<or> \<not> should_render layer then hit_test_ordered event position layers
      else case inverse_transform_point (ls_transform layer) position of
          None \<Rightarrow> hit_test_ordered event position layers
        | Some untransformed \<Rightarrow>
            if \<not> rect_contains_point (ls_geometry layer) untransformed then hit_test_ordered event position layers
            else \<lparr>ir_input_serial = ie_serial event, ir_target_surface = Some (ls_surface layer),
                  ir_global_position = position,
                  ir_local_position = Some
                    \<lparr>pt_x = f64_sub (pt_x untransformed) (f64_of_i32 (rc_x (ls_geometry layer))),
                     pt_y = f64_sub (pt_y untransformed) (f64_of_i32 (rc_y (ls_geometry layer)))\<rparr>,
                  ir_transform = ls_transform layer, ir_outcome = Routed\<rparr>)"

definition hit_test_layers :: "InputEventPacket \<Rightarrow> LayerSnapshot list \<Rightarrow> InputRoute" where
  "hit_test_layers event layers =
     (case ie_global_position event of
        None \<Rightarrow> missed_input_route event \<lparr>pt_x = 0, pt_y = 0\<rparr>
      | Some position \<Rightarrow> hit_test_ordered event position (rev (sort_key ls_stack_rank layers)))"

section \<open>Coalescing (input/routed.rs)\<close>

record QueuedRoutedInput =
  qi_event :: InputEventPacket
  qi_route :: InputRoute

datatype RoutedInputRequestError =
  SerialMismatch | RouteNotAccepted | MissingTargetSurface | MissingLocalPosition

datatype RoutedInputFlushReason =
  FrameBoundary | StateChangingInput | TargetCrossing | DragStateChanged | GrabChanged | FocusChanged

record RoutedInputFlush =
  rf_reason :: RoutedInputFlushReason
  rf_inputs :: "QueuedRoutedInput list"

datatype RoutedInputQueueAction = BufferedMotion | Flushed RoutedInputFlush

record RoutedInputCoalescer =
  rc_pending_motion :: "QueuedRoutedInput option"

definition coalescer_new :: RoutedInputCoalescer where
  "coalescer_new = \<lparr>rc_pending_motion = None\<rparr>"

definition valid_target :: "InputRoute \<Rightarrow> SurfaceId option" where
  "valid_target route =
     (case ir_target_surface route of
        None \<Rightarrow> None | Some surface \<Rightarrow> if surface_is_valid surface then Some surface else None)"

definition coalescible_motion_key :: "QueuedRoutedInput \<Rightarrow> SurfaceId option" where
  "coalescible_motion_key i =
     (if ie_kind (qi_event i) \<noteq> PointerMotion then None
      else if ir_outcome (qi_route i) \<noteq> Routed then None
      else valid_target (qi_route i))"

definition flush_with ::
  "RoutedInputFlushReason \<Rightarrow> QueuedRoutedInput option \<Rightarrow> RoutedInputCoalescer
     \<Rightarrow> RoutedInputQueueAction \<times> RoutedInputCoalescer" where
  "flush_with reason current c =
     (Flushed \<lparr>rf_reason = reason,
        rf_inputs = (case rc_pending_motion c of None \<Rightarrow> [] | Some p \<Rightarrow> [p])
          @ (case current of None \<Rightarrow> [] | Some i \<Rightarrow> [i])\<rparr>,
      c\<lparr>rc_pending_motion := None\<rparr>)"

definition take_pending ::
  "RoutedInputFlushReason \<Rightarrow> RoutedInputCoalescer \<Rightarrow> RoutedInputFlush option \<times> RoutedInputCoalescer" where
  "take_pending reason c =
     (map_option (\<lambda>p. \<lparr>rf_reason = reason, rf_inputs = [p]\<rparr>) (rc_pending_motion c), c\<lparr>rc_pending_motion := None\<rparr>)"

definition push_motion ::
  "QueuedRoutedInput \<Rightarrow> SurfaceId \<Rightarrow> RoutedInputCoalescer \<Rightarrow> RoutedInputQueueAction \<times> RoutedInputCoalescer" where
  "push_motion i key c =
     (case Option.bind (rc_pending_motion c) coalescible_motion_key of
        Some pending_key \<Rightarrow>
          if pending_key = key then (BufferedMotion, c\<lparr>rc_pending_motion := Some i\<rparr>)
          else flush_with TargetCrossing (Some i) c
      | None \<Rightarrow> (BufferedMotion, c\<lparr>rc_pending_motion := Some i\<rparr>))"

definition push_input ::
  "InputEventPacket \<Rightarrow> InputRoute \<Rightarrow> RoutedInputCoalescer \<Rightarrow> RoutedInputQueueAction \<times> RoutedInputCoalescer" where
  "push_input event route c =
     (let i = \<lparr>qi_event = event, qi_route = route\<rparr> in
      case coalescible_motion_key i of
        Some key \<Rightarrow> push_motion i key c
      | None \<Rightarrow> flush_with StateChangingInput (Some i) c)"

definition flush_frame :: "RoutedInputCoalescer \<Rightarrow> RoutedInputFlush option \<times> RoutedInputCoalescer" where
  "flush_frame c = take_pending FrameBoundary c"

definition flush_barrier ::
  "RoutedInputFlushReason \<Rightarrow> RoutedInputCoalescer \<Rightarrow> RoutedInputFlush option \<times> RoutedInputCoalescer" where
  "flush_barrier reason c = take_pending reason c"

definition routed_input_request_from_physical_event ::
  "InputEventPacket \<Rightarrow> InputRoute \<Rightarrow> RoutedInputRequestError + RoutedInputRequest" where
  "routed_input_request_from_physical_event event route =
     (if ie_serial event \<noteq> ir_input_serial route then Inl SerialMismatch
      else if ir_outcome route \<noteq> Routed then Inl RouteNotAccepted
      else
        bind_res (ok_or (valid_target route) MissingTargetSurface) (\<lambda>target_surface.
        bind_res (ok_or (ir_local_position route) MissingLocalPosition) (\<lambda>local_position.
        Inr \<lparr>rr_serial = ie_serial event, rr_seat = ie_seat event, rr_device = ie_device event,
             rr_time_msec = ie_time_msec event, rr_target_surface = target_surface,
             rr_global_position = ir_global_position route, rr_local_position = local_position,
             rr_kind = ie_kind event\<rparr>)))"

definition routed_input_requests_from_flush ::
  "RoutedInputFlush \<Rightarrow> RoutedInputRequestError + RoutedInputRequest list" where
  "routed_input_requests_from_flush flush =
     map_res (\<lambda>i. routed_input_request_from_physical_event (qi_event i) (qi_route i)) (rf_inputs flush)"

section \<open>Intake and focus\<close>

definition known_event :: "LibinputEventSource \<Rightarrow> InputEventPacket \<Rightarrow> bool" where
  "known_event s ev \<longleftrightarrow> (\<exists>d. bt_get (le_devices s) (ie_device ev) = Some d \<and> ld_seat d = ie_seat ev)"

lemma push_event_cases:
  "push_event ev s = (if known_event s ev then (IngestAccepted, s\<lparr>le_pending := le_pending s @ [ev]\<rparr>)
     else (if bt_get (le_devices s) (ie_device ev) = None then IngestUnknownDevice else IngestSeatMismatch, s))"
  by (auto simp: push_event_def known_event_def split: option.split)

text \<open>Exactly the events of known devices of the right seat are queued, in order; every other one is reported.\<close>

lemma ingest_events_spec:
  "ingest_events evs accepted rejected s = (a, r, s') \<Longrightarrow>
     s' = s\<lparr>le_pending := le_pending s @ filter (known_event s) evs\<rparr>
     \<and> a = accepted + length (filter (known_event s) evs) \<and> length r + a = length rejected + accepted + length evs"
proof (induction evs arbitrary: accepted rejected s)
  case (Cons ev evs)
  show ?case
  proof (cases "known_event s ev")
    case True
    let ?s = "s\<lparr>le_pending := le_pending s @ [ev]\<rparr>"
    have "ingest_events evs (Suc accepted) rejected ?s = (a, r, s')"
      using Cons.prems True by (simp add: push_event_cases)
    moreover have "known_event ?s = known_event s" by (simp add: known_event_def fun_eq_iff)
    ultimately show ?thesis using Cons.IH [of "Suc accepted" rejected ?s] True by simp
  next
    case False
    then show ?thesis
      using Cons.prems Cons.IH [of accepted "rejected @ [IngestUnknownDevice]" s]
        Cons.IH [of accepted "rejected @ [IngestSeatMismatch]" s]
      by (auto simp: push_event_cases split: if_splits)
  qed
qed auto

lemma poll_once_spec:
  assumes "poll_once poll_ready a = (Inr report, a')"
  obtains events p where "poll_ready (pa_poller a) = (Inr events, p)" "lp_polled report = length events"
    "lp_accepted report + length (lp_rejected report) = length events"
    "le_pending (pa_source a') = le_pending (pa_source a) @ filter (known_event (pa_source a)) events"
proof -
  obtain events p acc rej s where "poll_ready (pa_poller a) = (Inr events, p)"
    and ing: "ingest_events events 0 [] (pa_source a) = (acc, rej, s)"
    and "report = \<lparr>lp_polled = length events, lp_accepted = acc, lp_rejected = rej\<rparr>" "pa_source a' = s"
    using assms by (auto simp: poll_once_def split: prod.splits sum.splits)
  with that [of events p] ingest_events_spec [OF ing] show thesis by simp
qed

lemma keyboard_only_to_focus:
  "route_keyboard_event s ev committed = FrRouted ev' \<Longrightarrow>
     \<exists>f. focused_surface s (ie_seat ev) = Some f \<and> ev' = ev\<lparr>ie_target_surface := Some f\<rparr> \<and> f \<in> cs_surface ` set committed"
  by (auto simp: route_keyboard_event_def list_ex_iff split: InputEventKind.splits option.splits if_splits)

lemma cleared_focus_is_gone: "focused_surface (snd (clear_focused_surface f s)) seat \<noteq> Some f"
  by (auto simp: clear_focused_surface_def focused_surface_def Let_def dest: map_of_SomeD)

section \<open>The hit test is exact\<close>

text \<open>A rectangle covers a point as real numbers, read in units of \<open>2 ^ -1074\<close>.\<close>

definition covers_point :: "Rect \<Rightarrow> Point \<Rightarrow> bool" where
  "covers_point r p \<longleftrightarrow>
     sint (rc_x r) * f64_unit \<le> f64_fixed (pt_x p) \<and> f64_fixed (pt_x p) < (sint (rc_x r) + sint (rc_width r)) * f64_unit
     \<and> sint (rc_y r) * f64_unit \<le> f64_fixed (pt_y p) \<and> f64_fixed (pt_y p) < (sint (rc_y r) + sint (rc_height r)) * f64_unit"

definition point_finite :: "Point \<Rightarrow> bool" where
  "point_finite p \<longleftrightarrow> f64_is_finite (pt_x p) \<and> f64_is_finite (pt_y p)"

definition point_eq :: "Point \<Rightarrow> Point \<Rightarrow> bool" where
  "point_eq p q \<longleftrightarrow> f64_fixed (pt_x p) = f64_fixed (pt_x q) \<and> f64_fixed (pt_y p) = f64_fixed (pt_y q)"

lemma i32_sum_small: "\<bar>sint (a :: i32) + sint (b :: i32)\<bar> < 2 ^ 53"
  using sint_i32_bounds [of a] sint_i32_bounds [of b] by auto

lemma edge_value:
  "f64_is_finite (f64_add (f64_of_i32 a) (f64_of_i32 b))"
  "f64_fixed (f64_add (f64_of_i32 a) (f64_of_i32 b)) = (sint a + sint b) * f64_unit"
  by (rule add_whole [OF of_i32_value of_i32_value i32_sum_small])+

lemma rect_contains_exact:
  assumes "point_finite p"
  shows "rect_contains_point r p \<longleftrightarrow> covers_point r p"
  using assms
  by (simp add: rect_contains_point_def covers_point_def Let_def point_finite_def lt_fixed ge_fixed edge_value of_i32_value)

lemma inverse_identity: "inverse_matrix transform_IDENTITY = Some (f64_one, 0, 0, 0, f64_one, 0, 0, 0, f64_one)"
  by (simp add: transform_IDENTITY_def f64_cross_def f64_consts f64_one_zero one_value Let_def)

lemma row_x:
  assumes "point_finite p"
  shows "f64_is_finite (f64_row f64_one 0 0 p)" "f64_fixed (f64_row f64_one 0 0 p) = f64_fixed (pt_x p)"
  and row_y: "f64_is_finite (f64_row 0 f64_one 0 p)" "f64_fixed (f64_row 0 f64_one 0 p) = f64_fixed (pt_y p)"
  and row_w: "f64_row 0 0 f64_one p = f64_one"
proof -
  have f: "f64_is_finite (pt_x p)" "f64_is_finite (pt_y p)" using assms by (simp_all add: point_finite_def)
  have z: "f64_is_finite 0" "f64_fixed 0 = 0" by (simp_all add: zero_parts fixed_0_iff)
  have zero_left: "f64_is_finite (f64_add (f64_signed s 0) x) \<and> f64_fixed (f64_add (f64_signed s 0) x) = f64_fixed x"
    if "f64_is_finite x" for s x
    using add_zero [OF that, of "f64_signed s 0"] f64_add_commute [of "f64_signed s 0" x] that by simp
  show "f64_is_finite (f64_row f64_one 0 0 p)" "f64_fixed (f64_row f64_one 0 0 p) = f64_fixed (pt_x p)"
    unfolding f64_row_def mul_zero [OF f(2)]
    using add_zero [of "f64_mul f64_one (pt_x p)" "f64_signed (f64_sign (pt_y p)) 0"] mul_one [OF f(1)] z
      add_zero [of "f64_add (f64_mul f64_one (pt_x p)) (f64_signed (f64_sign (pt_y p)) 0)" 0] by simp_all
  show "f64_is_finite (f64_row 0 f64_one 0 p)" "f64_fixed (f64_row 0 f64_one 0 p) = f64_fixed (pt_y p)"
    unfolding f64_row_def mul_zero [OF f(1)]
    using zero_left [of "f64_mul f64_one (pt_y p)" "f64_sign (pt_x p)"] mul_one [OF f(2)] z
      add_zero [of "f64_add (f64_signed (f64_sign (pt_x p)) 0) (f64_mul f64_one (pt_y p))" 0] by simp_all
  let ?z = "f64_add (f64_signed (f64_sign (pt_x p)) 0) (f64_signed (f64_sign (pt_y p)) 0)"
  have "f64_is_finite ?z" "f64_fixed ?z = 0" using zero_left [of "f64_signed (f64_sign (pt_y p)) 0"] by simp_all
  then show "f64_row 0 0 f64_one p = f64_one"
    unfolding f64_row_def mul_zero [OF f(1)] mul_zero [OF f(2)]
    using one_plus_zero [of ?z] f64_add_commute [of ?z f64_one] one_value(1) by simp
qed

lemma inverse_identity_point:
  assumes "point_finite p"
  obtains q where "inverse_transform_point transform_IDENTITY p = Some q" "point_finite q" "point_eq q p"
proof -
  note r = row_x [OF assms] row_y [OF assms] row_w [OF assms]
  let ?q = "\<lparr>pt_x = f64_div (f64_row f64_one 0 0 p) f64_one, pt_y = f64_div (f64_row 0 f64_one 0 p) f64_one\<rparr>"
  have "inverse_transform_point transform_IDENTITY p = Some ?q"
    using r one_value(1) f64_consts by (simp add: inverse_transform_point_def inverse_identity Let_def)
  moreover have "point_finite ?q" "point_eq ?q p"
    using div_one [OF r(1)] div_one [OF r(3)] r(2,4) by (simp_all add: point_finite_def point_eq_def)
  ultimately show ?thesis by (rule that)
qed

section \<open>Affine transforms\<close>

text \<open>A transform maps \<open>q\<close> to \<open>p\<close>: the affine equations as real numbers, in units of \<open>2 ^ -1074\<close> squared.\<close>

fun transform_maps :: "Transform \<Rightarrow> Point \<Rightarrow> Point \<Rightarrow> bool" where
  "transform_maps (Transform t0 t1 t2 t3 t4 t5 t6 t7 t8) q p \<longleftrightarrow>
     f64_fixed (f64_of_f32 t0) * f64_fixed (pt_x q) + f64_fixed (f64_of_f32 t1) * f64_fixed (pt_y q)
       + f64_fixed (f64_of_f32 t2) * f64_unit = f64_fixed (pt_x p) * f64_unit
     \<and> f64_fixed (f64_of_f32 t3) * f64_fixed (pt_x q) + f64_fixed (f64_of_f32 t4) * f64_fixed (pt_y q)
       + f64_fixed (f64_of_f32 t5) * f64_unit = f64_fixed (pt_y p) * f64_unit"

text \<open>
  The affine transforms whose inverse is computed without rounding: the entries are multiples of 1/256, at most 64 in
  the linear part and at most 65536 in the translation, the last row is 0 0 1, and the determinant is a power of two up to its sign.
  Scalings by powers of two, reflections, quarter turns and such shears are among them, with any such translation.
\<close>

fun affine_grid :: "Transform \<Rightarrow> bool" where
  "affine_grid (Transform t0 t1 t2 t3 t4 t5 t6 t7 t8) \<longleftrightarrow>
     (\<exists>a b tx c d ty i.
        f64_is (f64_of_f32 t0) a (- 8) \<and> f64_is (f64_of_f32 t1) b (- 8) \<and> f64_is (f64_of_f32 t2) tx (- 8)
        \<and> f64_is (f64_of_f32 t3) c (- 8) \<and> f64_is (f64_of_f32 t4) d (- 8) \<and> f64_is (f64_of_f32 t5) ty (- 8)
        \<and> f64_is (f64_of_f32 t6) 0 0 \<and> f64_is (f64_of_f32 t7) 0 0 \<and> f64_is (f64_of_f32 t8) 1 0
        \<and> \<bar>a\<bar> \<le> 2 ^ 14 \<and> \<bar>b\<bar> \<le> 2 ^ 14 \<and> \<bar>c\<bar> \<le> 2 ^ 14 \<and> \<bar>d\<bar> \<le> 2 ^ 14 \<and> \<bar>tx\<bar> \<le> 2 ^ 24 \<and> \<bar>ty\<bar> \<le> 2 ^ 24
        \<and> \<bar>a * d - b * c\<bar> = 2 ^ i)"

text \<open>Positions that are multiples of 1/256 up to 65536.\<close>

definition grid_point :: "Point \<Rightarrow> bool" where
  "grid_point p \<longleftrightarrow> (\<exists>x y. \<bar>x\<bar> \<le> 2 ^ 24 \<and> \<bar>y\<bar> \<le> 2 ^ 24 \<and> f64_is (pt_x p) x (- 8) \<and> f64_is (pt_y p) y (- 8))"

lemma prod_bound:
  fixes x y :: int
  assumes "\<bar>x\<bar> \<le> 2 ^ m" "\<bar>y\<bar> \<le> 2 ^ n"
  shows "\<bar>x * y\<bar> \<le> 2 ^ (m + n)"
  unfolding abs_mult power_add by (rule mult_mono) (use assms in simp_all)

lemma abs_pair:
  fixes u v B C :: int
  assumes "\<bar>u\<bar> \<le> B" "\<bar>v\<bar> \<le> B" "2 * B \<le> C"
  shows "\<bar>u - v\<bar> \<le> C" "\<bar>u + v\<bar> \<le> C"
  using assms by linarith+

lemma cross_is:
  assumes "f64_is x a e" "f64_is y b f" "f64_is z c g" "f64_is w d h" "e + f = E" "g + h = E"
    and "\<bar>a * b\<bar> \<le> 2 ^ 50" "\<bar>c * d\<bar> \<le> 2 ^ 50" "k = a * b - c * d" "- 1074 \<le> E" "E \<le> 900"
  shows "f64_is (f64_cross x y z w) k E"
proof -
  have m: "f64_is (f64_mul x y) (a * b) E" "f64_is (f64_mul z w) (c * d) E"
    using mul_is [OF assms(1,2)] mul_is [OF assms(3,4)] assms(5-11) by simp_all
  have "\<bar>a * b - c * d\<bar> < 2 ^ 53" using abs_pair(1) [OF assms(7,8), of "2 ^ 51"] by simp
  then show ?thesis unfolding f64_cross_def assms(9) by (rule sub_is [OF m]) (rule assms(11))
qed

lemma row_is:
  assumes "f64_is u a e" "f64_is v b e" "f64_is w c E" "f64_is (pt_x p) x f" "f64_is (pt_y p) y f" "e + f = E"
    and "\<bar>a * x\<bar> \<le> 2 ^ 50" "\<bar>b * y\<bar> \<le> 2 ^ 50" "\<bar>c\<bar> \<le> 2 ^ 50" "k = a * x + b * y + c" "- 1074 \<le> E" "E \<le> 900"
  shows "f64_is (f64_row u v w p) k E"
proof -
  have m: "f64_is (f64_mul u (pt_x p)) (a * x) E" "f64_is (f64_mul v (pt_y p)) (b * y) E"
    using mul_is [OF assms(1,4)] mul_is [OF assms(2,5)] assms(6-12) by simp_all
  have ab: "\<bar>a * x + b * y\<bar> \<le> 2 ^ 51" by (rule abs_pair(2) [OF assms(7,8)]) simp
  have "\<bar>a * x + b * y + c\<bar> \<le> 2 ^ 52" by (rule abs_pair(2) [OF ab]) (use assms(9) in simp_all)
  then have "\<bar>a * x + b * y\<bar> < 2 ^ 53" "\<bar>a * x + b * y + c\<bar> < 2 ^ 53" using ab by simp_all
  then show ?thesis unfolding f64_row_def assms(10) using add_is [OF add_is [OF m] assms(3)] assms(12) by blast
qed

lemma inverse_affine_matrix:
  assumes m: "f64_is (f64_of_f32 t0) a (- 8)" "f64_is (f64_of_f32 t1) b (- 8)" "f64_is (f64_of_f32 t2) tx (- 8)"
      "f64_is (f64_of_f32 t3) c (- 8)" "f64_is (f64_of_f32 t4) d (- 8)" "f64_is (f64_of_f32 t5) ty (- 8)"
      "f64_is (f64_of_f32 t6) 0 0" "f64_is (f64_of_f32 t7) 0 0" "f64_is (f64_of_f32 t8) 1 0"
    and lin: "\<bar>a\<bar> \<le> 2 ^ 14" "\<bar>b\<bar> \<le> 2 ^ 14" "\<bar>c\<bar> \<le> 2 ^ 14" "\<bar>d\<bar> \<le> 2 ^ 14"
    and off: "\<bar>tx\<bar> \<le> 2 ^ 24" "\<bar>ty\<bar> \<le> 2 ^ 24" and det: "\<bar>a * d - b * c\<bar> = 2 ^ i"
  defines "s \<equiv> sgn (a * d - b * c)"
  obtains i0 i1 i2 i3 i4 i5 i6 i7 i8
  where "inverse_matrix (Transform t0 t1 t2 t3 t4 t5 t6 t7 t8) = Some (i0, i1, i2, i3, i4, i5, i6, i7, i8)" "i \<le> 29"
    "f64_is i0 (d * s) (8 - int i)" "f64_is i1 (- b * s) (8 - int i)" "f64_is i2 ((b * ty - tx * d) * s) (- int i)"
    "f64_is i3 (- c * s) (8 - int i)" "f64_is i4 (a * s) (8 - int i)" "f64_is i5 ((tx * c - a * ty) * s) (- int i)"
    "f64_is i6 0 (8 - int i)" "f64_is i7 0 (8 - int i)" "f64_is i8 (2 ^ i) (- int i)"
proof -
  let ?m0 = "f64_of_f32 t0" and ?m1 = "f64_of_f32 t1" and ?m2 = "f64_of_f32 t2" and ?m3 = "f64_of_f32 t3"
    and ?m4 = "f64_of_f32 t4" and ?m5 = "f64_of_f32 t5" and ?m6 = "f64_of_f32 t6" and ?m7 = "f64_of_f32 t7"
    and ?m8 = "f64_of_f32 t8"
  let ?D = "a * d - b * c"
  have ad: "\<bar>a * d\<bar> \<le> 2 ^ 28" and bc: "\<bar>b * c\<bar> \<le> 2 ^ 28"
    using prod_bound [OF lin(1,4)] prod_bound [OF lin(2,3)] by simp_all
  have "(2 :: int) ^ i \<le> 2 ^ 29" unfolding det [symmetric] by (rule abs_pair(1) [OF ad bc]) simp
  then have i: "i \<le> 29" by (rule power_le_imp_le_exp [rotated]) simp
  have D0: "?D \<noteq> 0" using det by auto
  have s: "\<bar>s\<bar> = 1" "s * ?D = 2 ^ i" using D0 det by (auto simp: s_def sgn_if abs_if split: if_splits)
  have c48: "f64_is (f64_cross ?m4 ?m8 ?m5 ?m7) d (- 8)"
    by (rule cross_is [OF m(5,9,6,8)]) (use lin in simp_all)
  have c38: "f64_is (f64_cross ?m3 ?m8 ?m5 ?m6) c (- 8)"
    by (rule cross_is [OF m(4,9,6,7)]) (use lin in simp_all)
  have c37: "f64_is (f64_cross ?m3 ?m7 ?m4 ?m6) 0 (- 8)"
    by (rule cross_is [OF m(4,8,5,7)]) simp_all
  have c27: "f64_is (f64_cross ?m2 ?m7 ?m1 ?m8) (- b) (- 8)"
    by (rule cross_is [OF m(3,8,2,9)]) (use lin in simp_all)
  have c56: "f64_is (f64_cross ?m5 ?m6 ?m3 ?m8) (- c) (- 8)"
    by (rule cross_is [OF m(6,7,4,9)]) (use lin in simp_all)
  have c08: "f64_is (f64_cross ?m0 ?m8 ?m2 ?m6) a (- 8)"
    by (rule cross_is [OF m(1,9,3,7)]) (use lin in simp_all)
  have c16: "f64_is (f64_cross ?m1 ?m6 ?m0 ?m7) 0 (- 8)"
    by (rule cross_is [OF m(2,7,1,8)]) simp_all
  have big: "\<bar>b * ty\<bar> \<le> 2 ^ 38" "\<bar>tx * d\<bar> \<le> 2 ^ 38" "\<bar>tx * c\<bar> \<le> 2 ^ 38" "\<bar>a * ty\<bar> \<le> 2 ^ 38"
    using prod_bound [OF lin(2) off(2)] prod_bound [OF off(1) lin(4)] prod_bound [OF off(1) lin(3)] prod_bound [OF lin(1) off(2)]
    by simp_all
  have c15: "f64_is (f64_cross ?m1 ?m5 ?m2 ?m4) (b * ty - tx * d) (- 16)"
    by (rule cross_is [OF m(2,6,3,5)]) (use big in simp_all)
  have c23: "f64_is (f64_cross ?m2 ?m3 ?m0 ?m5) (tx * c - a * ty) (- 16)"
    by (rule cross_is [OF m(3,4,1,6)]) (use big in simp_all)
  have c04: "f64_is (f64_cross ?m0 ?m4 ?m1 ?m3) ?D (- 16)"
    by (rule cross_is [OF m(1,5,2,4)]) (use ad bc in simp_all)
  define determinant where "determinant = f64_add (f64_sub (f64_mul ?m0 (f64_cross ?m4 ?m8 ?m5 ?m7))
      (f64_mul ?m1 (f64_cross ?m3 ?m8 ?m5 ?m6))) (f64_mul ?m2 (f64_cross ?m3 ?m7 ?m4 ?m6))"
  have "f64_is (f64_mul ?m0 (f64_cross ?m4 ?m8 ?m5 ?m7)) (a * d) (- 16)"
    "f64_is (f64_mul ?m1 (f64_cross ?m3 ?m8 ?m5 ?m6)) (b * c) (- 16)"
    "f64_is (f64_mul ?m2 (f64_cross ?m3 ?m7 ?m4 ?m6)) 0 (- 16)"
    using mul_is [OF m(1) c48] mul_is [OF m(2) c38] mul_is [OF m(3) c37] ad bc by simp_all
  then have dt: "f64_is determinant ?D (- 16)"
    using add_is [OF sub_is, of "f64_mul ?m0 (f64_cross ?m4 ?m8 ?m5 ?m7)" "a * d" "- 16"
        "f64_mul ?m1 (f64_cross ?m3 ?m8 ?m5 ?m6)" "b * c" "f64_mul ?m2 (f64_cross ?m3 ?m7 ?m4 ?m6)" 0] ad bc
    unfolding determinant_def by simp
  have ok: "f64_is_finite determinant" "\<not> f64_lt (f64_abs determinant) f64_EPSILON"
    using is_mant(3) [OF dt] not_below_epsilon [OF dt D0] by simp_all
  define inv where "inv = f64_div f64_one determinant"
  have iv: "f64_is inv s (16 - int i)"
    using one_div_is [OF dt det] i unfolding inv_def s_def by (simp add: algebra_simps)
  have scaled: "f64_is (f64_mul z inv) (k * s) (e + (16 - int i))" if "f64_is z k e" "\<bar>k\<bar> \<le> 2 ^ 50" "- 100 \<le> e" "e \<le> 100" for z k e
  proof (rule mul_is [OF that(1) iv])
    show "\<bar>k * s\<bar> < 2 ^ 53" using that(2) s(1) by (simp add: abs_mult)
  qed (use that i in simp_all)
  have inv_m: "inverse_matrix (Transform t0 t1 t2 t3 t4 t5 t6 t7 t8) =
      Some (f64_mul (f64_cross ?m4 ?m8 ?m5 ?m7) inv, f64_mul (f64_cross ?m2 ?m7 ?m1 ?m8) inv,
        f64_mul (f64_cross ?m1 ?m5 ?m2 ?m4) inv, f64_mul (f64_cross ?m5 ?m6 ?m3 ?m8) inv,
        f64_mul (f64_cross ?m0 ?m8 ?m2 ?m6) inv, f64_mul (f64_cross ?m2 ?m3 ?m0 ?m5) inv,
        f64_mul (f64_cross ?m3 ?m7 ?m4 ?m6) inv, f64_mul (f64_cross ?m1 ?m6 ?m0 ?m7) inv,
        f64_mul (f64_cross ?m0 ?m4 ?m1 ?m3) inv)"
    using ok unfolding inverse_matrix.simps Let_def inv_def determinant_def by simp
  have half: "\<bar>b * ty - tx * d\<bar> \<le> 2 ^ 39" "\<bar>tx * c - a * ty\<bar> \<le> 2 ^ 39"
    using abs_pair(1) [OF big(1,2)] abs_pair(1) [OF big(3,4)] by simp_all
  have n: "f64_is (f64_mul (f64_cross ?m4 ?m8 ?m5 ?m7) inv) (d * s) (8 - int i)"
    "f64_is (f64_mul (f64_cross ?m2 ?m7 ?m1 ?m8) inv) (- b * s) (8 - int i)"
    "f64_is (f64_mul (f64_cross ?m1 ?m5 ?m2 ?m4) inv) ((b * ty - tx * d) * s) (- int i)"
    "f64_is (f64_mul (f64_cross ?m5 ?m6 ?m3 ?m8) inv) (- c * s) (8 - int i)"
    "f64_is (f64_mul (f64_cross ?m0 ?m8 ?m2 ?m6) inv) (a * s) (8 - int i)"
    "f64_is (f64_mul (f64_cross ?m2 ?m3 ?m0 ?m5) inv) ((tx * c - a * ty) * s) (- int i)"
    "f64_is (f64_mul (f64_cross ?m3 ?m7 ?m4 ?m6) inv) 0 (8 - int i)"
    "f64_is (f64_mul (f64_cross ?m1 ?m6 ?m0 ?m7) inv) 0 (8 - int i)"
    "f64_is (f64_mul (f64_cross ?m0 ?m4 ?m1 ?m3) inv) (2 ^ i) (- int i)"
    using scaled [OF c48] scaled [OF c27] scaled [OF c15] scaled [OF c56] scaled [OF c08] scaled [OF c23] scaled [OF c37]
      scaled [OF c16] scaled [OF c04] lin half abs_pair(1) [OF ad bc, of "2 ^ 50"] s(2)
    by (simp_all add: mult.commute [of s])
  show thesis by (rule that [OF inv_m i n])
qed

lemma inverse_affine_point:
  assumes m: "f64_is (f64_of_f32 t0) a (- 8)" "f64_is (f64_of_f32 t1) b (- 8)" "f64_is (f64_of_f32 t2) tx (- 8)"
      "f64_is (f64_of_f32 t3) c (- 8)" "f64_is (f64_of_f32 t4) d (- 8)" "f64_is (f64_of_f32 t5) ty (- 8)"
      "f64_is (f64_of_f32 t6) 0 0" "f64_is (f64_of_f32 t7) 0 0" "f64_is (f64_of_f32 t8) 1 0"
    and lin: "\<bar>a\<bar> \<le> 2 ^ 14" "\<bar>b\<bar> \<le> 2 ^ 14" "\<bar>c\<bar> \<le> 2 ^ 14" "\<bar>d\<bar> \<le> 2 ^ 14"
    and off: "\<bar>tx\<bar> \<le> 2 ^ 24" "\<bar>ty\<bar> \<le> 2 ^ 24" and det: "\<bar>a * d - b * c\<bar> = 2 ^ i"
    and p: "f64_is (pt_x p) x (- 8)" "f64_is (pt_y p) y (- 8)" "\<bar>x\<bar> \<le> 2 ^ 24" "\<bar>y\<bar> \<le> 2 ^ 24"
  defines "s \<equiv> sgn (a * d - b * c)"
  obtains q where "inverse_transform_point (Transform t0 t1 t2 t3 t4 t5 t6 t7 t8) p = Some q" "i \<le> 29"
    "f64_is (pt_x q) (s * (d * (x - tx) - b * (y - ty))) (- int i)"
    "f64_is (pt_y q) (s * (a * (y - ty) - c * (x - tx))) (- int i)"
    "\<bar>d * (x - tx) - b * (y - ty)\<bar> \<le> 2 ^ 40" "\<bar>a * (y - ty) - c * (x - tx)\<bar> \<le> 2 ^ 40"
proof -
  obtain i0 i1 i2 i3 i4 i5 i6 i7 i8
    where inv_m: "inverse_matrix (Transform t0 t1 t2 t3 t4 t5 t6 t7 t8) = Some (i0, i1, i2, i3, i4, i5, i6, i7, i8)" and i: "i \<le> 29"
    and n: "f64_is i0 (d * s) (8 - int i)" "f64_is i1 (- b * s) (8 - int i)" "f64_is i2 ((b * ty - tx * d) * s) (- int i)"
    "f64_is i3 (- c * s) (8 - int i)" "f64_is i4 (a * s) (8 - int i)" "f64_is i5 ((tx * c - a * ty) * s) (- int i)"
    "f64_is i6 0 (8 - int i)" "f64_is i7 0 (8 - int i)" "f64_is i8 (2 ^ i) (- int i)"
    by (rule inverse_affine_matrix [OF m lin off det]) (simp_all only: s_def)
  have s: "\<bar>s\<bar> = 1" using det by (auto simp: s_def sgn_if)
  have px: "\<bar>d * x\<bar> \<le> 2 ^ 38" "\<bar>b * y\<bar> \<le> 2 ^ 38" "\<bar>a * y\<bar> \<le> 2 ^ 38" "\<bar>c * x\<bar> \<le> 2 ^ 38"
    using prod_bound [OF lin(4) p(3)] prod_bound [OF lin(2) p(4)] prod_bound [OF lin(1) p(4)] prod_bound [OF lin(3) p(3)] by simp_all
  have big: "\<bar>b * ty\<bar> \<le> 2 ^ 38" "\<bar>tx * d\<bar> \<le> 2 ^ 38" "\<bar>tx * c\<bar> \<le> 2 ^ 38" "\<bar>a * ty\<bar> \<le> 2 ^ 38"
    using prod_bound [OF lin(2) off(2)] prod_bound [OF off(1) lin(4)] prod_bound [OF off(1) lin(3)] prod_bound [OF lin(1) off(2)]
    by simp_all
  have half: "\<bar>b * ty - tx * d\<bar> \<le> 2 ^ 39" "\<bar>tx * c - a * ty\<bar> \<le> 2 ^ 39"
    using abs_pair(1) [OF big(1,2)] abs_pair(1) [OF big(3,4)] by simp_all
  have abs_s: "\<bar>k * s * z\<bar> \<le> 2 ^ 50" "\<bar>- k * s * z\<bar> \<le> 2 ^ 50" if "\<bar>k * z\<bar> \<le> 2 ^ 38" for k z :: int
    using s that by (simp_all add: abs_mult)
  have abs_t: "\<bar>k * s\<bar> \<le> 2 ^ 50" if "\<bar>k\<bar> \<le> 2 ^ 39" for k :: int using s that by (simp add: abs_mult)
  have e: "8 - int i + - 8 = - int i" "- 1074 \<le> - int i" "- int i \<le> 900" using i by simp_all
  have alg: "s * (d * (x - tx) - b * (y - ty)) = d * s * x + - b * s * y + (b * ty - tx * d) * s"
    "s * (a * (y - ty) - c * (x - tx)) = - c * s * x + a * s * y + (tx * c - a * ty) * s"
    "2 ^ i = 0 * x + 0 * y + 2 ^ i"
    by (simp_all add: algebra_simps)
  note U = row_is [OF n(1,2,3) p(1,2) e(1) abs_s(1) [OF px(1)] abs_s(2) [OF px(2)] abs_t [OF half(1)] alg(1) e(2,3)]
    and V = row_is [OF n(4,5,6) p(1,2) e(1) abs_s(2) [OF px(4)] abs_s(1) [OF px(3)] abs_t [OF half(2)] alg(2) e(2,3)]
  have "\<bar>2 ^ i :: int\<bar> \<le> 2 ^ 50" using power_increasing [of i 50 "2 :: int"] i by simp
  then have W: "f64_is (f64_row i6 i7 i8 p) (2 ^ i) (- int i)"
    by (intro row_is [OF n(7,8,9) p(1,2) e(1) _ _ _ alg(3) e(2,3)]) simp_all
  have w1: "f64_row i6 i7 i8 p = f64_one" using is_one [OF W] i by simp
  let ?q = "\<lparr>pt_x = f64_div (f64_row i0 i1 i2 p) f64_one, pt_y = f64_div (f64_row i3 i4 i5 p) f64_one\<rparr>"
  have "inverse_transform_point (Transform t0 t1 t2 t3 t4 t5 t6 t7 t8) p = Some ?q"
    unfolding inverse_transform_point_def inv_m option.case prod.case Let_def w1
    using is_mant(3) [OF U] is_mant(3) [OF V] one_value(1) f64_consts by simp
  moreover have "f64_is (pt_x ?q) (s * (d * (x - tx) - b * (y - ty))) (- int i)"
    "f64_is (pt_y ?q) (s * (a * (y - ty) - c * (x - tx))) (- int i)"
    using U V div_one [OF is_mant(3) [OF U]] div_one [OF is_mant(3) [OF V]] by (simp_all add: f64_is_def)
  moreover have far: "\<bar>x - tx\<bar> \<le> 2 ^ 25" "\<bar>y - ty\<bar> \<le> 2 ^ 25"
    using abs_pair(1) [OF p(3) off(1)] abs_pair(1) [OF p(4) off(2)] by simp_all
  have "\<bar>d * (x - tx) - b * (y - ty)\<bar> \<le> 2 ^ 40" "\<bar>a * (y - ty) - c * (x - tx)\<bar> \<le> 2 ^ 40"
    by (rule abs_pair(1) [OF prod_bound [OF lin(4) far(1)] prod_bound [OF lin(2) far(2)]], simp)
      (rule abs_pair(1) [OF prod_bound [OF lin(1) far(2)] prod_bound [OF lin(3) far(1)]], simp)
  ultimately show thesis using i by (intro that [of ?q])
qed

lemma unit_split: "i \<le> 1074 \<Longrightarrow> 2 ^ i * 2 ^ nat (- int i + 1074) = f64_unit"
proof -
  assume "i \<le> 1074"
  then have "i + nat (- int i + 1074) = 1074" by simp
  then show ?thesis unfolding f64_unit_def power_add [symmetric] by (rule arg_cong)
qed

text \<open>What inverting a transform at \<open>p\<close> gives when it is exact: the one point that the transform maps to \<open>p\<close>.\<close>

definition preimage_of :: "Transform \<Rightarrow> Point \<Rightarrow> Point \<Rightarrow> bool" where
  "preimage_of t p q \<longleftrightarrow> point_finite q \<and> transform_maps t q p \<and> (\<forall>q'. transform_maps t q' p \<longrightarrow> point_eq q' q)"

definition sub_exact :: "Point \<Rightarrow> i32 \<Rightarrow> i32 \<Rightarrow> bool" where
  "sub_exact q x y \<longleftrightarrow>
     f64_is_finite (f64_sub (pt_x q) (f64_of_i32 x)) \<and> f64_is_finite (f64_sub (pt_y q) (f64_of_i32 y))
     \<and> f64_fixed (f64_sub (pt_x q) (f64_of_i32 x)) = f64_fixed (pt_x q) - sint x * f64_unit
     \<and> f64_fixed (f64_sub (pt_y q) (f64_of_i32 y)) = f64_fixed (pt_y q) - sint y * f64_unit"

lemma sub_i32_is:
  assumes "f64_is z k (- int i)" "i \<le> 29" "\<bar>k\<bar> \<le> 2 ^ 40" "\<bar>sint (j :: i32)\<bar> \<le> 2 ^ 20"
  shows "f64_is_finite (f64_sub z (f64_of_i32 j))" "f64_fixed (f64_sub z (f64_of_i32 j)) = f64_fixed z - sint j * f64_unit"
proof -
  have "f64_is (f64_of_i32 j) (sint j) 0" using of_i32_value by (simp add: f64_is_def f64_unit_def)
  then have j: "f64_is (f64_of_i32 j) (sint j * 2 ^ i) (- int i)" by (rule is_rescale) (use assms(2) in simp_all)
  have "\<bar>sint j * 2 ^ i\<bar> \<le> 2 ^ (20 + i)" by (rule prod_bound [OF assms(4)]) simp
  also have "(2 :: int) ^ (20 + i) \<le> 2 ^ 49" using assms(2) by (intro power_increasing) simp_all
  finally have "\<bar>k - sint j * 2 ^ i\<bar> \<le> 2 ^ 50" using abs_pair(1) [of k "2 ^ 49" "sint j * 2 ^ i" "2 ^ 50"] assms(3) by simp
  then have r: "f64_is (f64_sub z (f64_of_i32 j)) (k - sint j * 2 ^ i) (- int i)" by (intro sub_is [OF assms(1) j]) simp_all
  show "f64_is_finite (f64_sub z (f64_of_i32 j))" using r by (simp add: f64_is_def)
  show "f64_fixed (f64_sub z (f64_of_i32 j)) = f64_fixed z - sint j * f64_unit"
    using r assms(1) unit_split [of i] assms(2) by (simp add: f64_is_def left_diff_distrib mult.assoc)
qed

lemma linear_unique:
  fixes a b c d u v u' v' :: int
  assumes "a * u + b * v = a * u' + b * v'" "c * u + d * v = c * u' + d * v'" "a * d - b * c \<noteq> 0"
  shows "u = u'" "v = v'"
proof -
  have "(a * d - b * c) * (u - u') = d * ((a * u + b * v) - (a * u' + b * v')) - b * ((c * u + d * v) - (c * u' + d * v'))"
    "(a * d - b * c) * (v - v') = a * ((c * u + d * v) - (c * u' + d * v')) - c * ((a * u + b * v) - (a * u' + b * v'))"
    by (simp_all add: algebra_simps)
  then have "(a * d - b * c) * (u - u') = 0" "(a * d - b * c) * (v - v') = 0" unfolding assms(1,2) by simp_all
  then show "u = u'" "v = v'" using assms(3) by simp_all
qed

lemma affine_row:
  fixes a b U V :: int
  assumes "a * U + b * V = 2 ^ i * (x - t)" "2 ^ i * H = f64_unit"
  shows "a * G * (U * H) + b * G * (V * H) + t * G * f64_unit = x * G * f64_unit"
proof -
  have "a * G * (U * H) + b * G * (V * H) = G * H * (a * U + b * V)" by (simp add: algebra_simps)
  also have "\<dots> = G * (x - t) * (2 ^ i * H)" unfolding assms(1) by (simp add: algebra_simps)
  finally show ?thesis unfolding assms(2) by (simp add: algebra_simps)
qed

lemma affine_preimage:
  assumes "affine_grid t" "grid_point p"
  shows "\<exists>q. inverse_transform_point t p = Some q \<and> preimage_of t p q
    \<and> (\<forall>x y. \<bar>sint x\<bar> \<le> 2 ^ 20 \<longrightarrow> \<bar>sint y\<bar> \<le> 2 ^ 20 \<longrightarrow> sub_exact q x y)"
proof (cases t)
  case t: (Transform t0 t1 t2 t3 t4 t5 t6 t7 t8)
  obtain x y where p: "f64_is (pt_x p) x (- 8)" "f64_is (pt_y p) y (- 8)" "\<bar>x\<bar> \<le> 2 ^ 24" "\<bar>y\<bar> \<le> 2 ^ 24"
    using assms(2) by (auto simp: grid_point_def)
  obtain a b tx c d ty i where m: "f64_is (f64_of_f32 t0) a (- 8)" "f64_is (f64_of_f32 t1) b (- 8)" "f64_is (f64_of_f32 t2) tx (- 8)"
      "f64_is (f64_of_f32 t3) c (- 8)" "f64_is (f64_of_f32 t4) d (- 8)" "f64_is (f64_of_f32 t5) ty (- 8)"
      "f64_is (f64_of_f32 t6) 0 0" "f64_is (f64_of_f32 t7) 0 0" "f64_is (f64_of_f32 t8) 1 0"
    and lin: "\<bar>a\<bar> \<le> 2 ^ 14" "\<bar>b\<bar> \<le> 2 ^ 14" "\<bar>c\<bar> \<le> 2 ^ 14" "\<bar>d\<bar> \<le> 2 ^ 14"
    and off: "\<bar>tx\<bar> \<le> 2 ^ 24" "\<bar>ty\<bar> \<le> 2 ^ 24" and det: "\<bar>a * d - b * c\<bar> = 2 ^ i"
    using assms(1) unfolding t affine_grid.simps by blast
  define s where "s = sgn (a * d - b * c)"
  let ?U = "s * (d * (x - tx) - b * (y - ty))" and ?V = "s * (a * (y - ty) - c * (x - tx))"
  let ?G = "2 ^ nat (- 8 + 1074) :: int" and ?H = "2 ^ nat (- int i + 1074) :: int"
  obtain q where q: "inverse_transform_point (Transform t0 t1 t2 t3 t4 t5 t6 t7 t8) p = Some q" and i: "i \<le> 29"
    and uv: "f64_is (pt_x q) ?U (- int i)" "f64_is (pt_y q) ?V (- int i)"
    and small: "\<bar>d * (x - tx) - b * (y - ty)\<bar> \<le> 2 ^ 40" "\<bar>a * (y - ty) - c * (x - tx)\<bar> \<le> 2 ^ 40"
    using inverse_affine_point [OF m lin off det p] unfolding s_def by metis
  have s: "\<bar>s\<bar> = 1" "s * (a * d - b * c) = 2 ^ i" using det by (auto simp: s_def sgn_if abs_if split: if_splits)
  have split: "2 ^ i * ?H = f64_unit" using unit_split [of i] i by simp
  have rows: "a * ?U + b * ?V = 2 ^ i * (x - tx)" "c * ?U + d * ?V = 2 ^ i * (y - ty)"
    unfolding s(2) [symmetric] by (simp_all add: algebra_simps)
  have F: "f64_fixed (f64_of_f32 t0) = a * ?G" "f64_fixed (f64_of_f32 t1) = b * ?G" "f64_fixed (f64_of_f32 t2) = tx * ?G"
      "f64_fixed (f64_of_f32 t3) = c * ?G" "f64_fixed (f64_of_f32 t4) = d * ?G" "f64_fixed (f64_of_f32 t5) = ty * ?G"
      "f64_fixed (pt_x p) = x * ?G" "f64_fixed (pt_y p) = y * ?G" "f64_fixed (pt_x q) = ?U * ?H" "f64_fixed (pt_y q) = ?V * ?H"
    using m p(1,2) uv by (simp_all only: f64_is_def)
  have maps: "transform_maps t q p"
    unfolding t transform_maps.simps F using affine_row [OF rows(1) split, of ?G] affine_row [OF rows(2) split, of ?G] by simp
  have unique: "point_eq q' q" if "transform_maps t q' p" for q'
  proof -
    have "?G * (a * f64_fixed (pt_x q') + b * f64_fixed (pt_y q')) = ?G * (a * f64_fixed (pt_x q) + b * f64_fixed (pt_y q))"
      "?G * (c * f64_fixed (pt_x q') + d * f64_fixed (pt_y q')) = ?G * (c * f64_fixed (pt_x q) + d * f64_fixed (pt_y q))"
      using that maps unfolding t transform_maps.simps F(1-8) by (simp_all only: algebra_simps) linarith+
    then have "a * f64_fixed (pt_x q') + b * f64_fixed (pt_y q') = a * f64_fixed (pt_x q) + b * f64_fixed (pt_y q)"
      "c * f64_fixed (pt_x q') + d * f64_fixed (pt_y q') = c * f64_fixed (pt_x q) + d * f64_fixed (pt_y q)"
      by simp_all
    moreover have "a * d - b * c \<noteq> 0" using det by auto
    ultimately show ?thesis using linear_unique unfolding point_eq_def by blast
  qed
  have "\<bar>?U\<bar> \<le> 2 ^ 40" "\<bar>?V\<bar> \<le> 2 ^ 40" using small s(1) by (simp_all add: abs_mult)
  then have "sub_exact q j k" if "\<bar>sint j\<bar> \<le> 2 ^ 20" "\<bar>sint k\<bar> \<le> 2 ^ 20" for j k
    using that uv i sub_i32_is unfolding sub_exact_def by blast
  moreover have "point_finite q" using uv by (simp add: point_finite_def f64_is_def)
  ultimately show ?thesis using q maps unique unfolding t preimage_of_def by blast
qed

section \<open>Which layer is hit\<close>

text \<open>
  The transforms and positions for which the inverse is exact: the identity with every finite position, the transforms of
  \<open>affine_grid\<close> with the positions of \<open>grid_point\<close>.
\<close>

definition inverts_exactly :: "Transform \<Rightarrow> Point \<Rightarrow> bool" where
  "inverts_exactly t p \<longleftrightarrow> t = transform_IDENTITY \<or> affine_grid t \<and> grid_point p"

definition whole_point :: "Point \<Rightarrow> bool" where
  "whole_point p \<longleftrightarrow> (\<exists>x y. \<bar>x\<bar> \<le> 2147483648 \<and> \<bar>y\<bar> \<le> 2147483648
     \<and> f64_fixed (pt_x p) = x * f64_unit \<and> f64_fixed (pt_y p) = y * f64_unit)"

text \<open>Where the position inside the surface is free of rounding.\<close>

definition local_exact :: "Transform \<Rightarrow> Point \<Rightarrow> Rect \<Rightarrow> bool" where
  "local_exact t p r \<longleftrightarrow> t = transform_IDENTITY \<and> whole_point p
     \<or> affine_grid t \<and> grid_point p \<and> \<bar>sint (rc_x r)\<bar> \<le> 2 ^ 20 \<and> \<bar>sint (rc_y r)\<bar> \<le> 2 ^ 20"

text \<open>
  A layer is under the pointer when it is visible and the point that its transform maps to the position lies in its
  geometry; landing on it reports that point relative to the geometry's corner.
\<close>

definition hit_by :: "Point \<Rightarrow> LayerSnapshot \<Rightarrow> bool" where
  "hit_by p l \<longleftrightarrow> surface_is_valid (ls_surface l) \<and> should_render l
     \<and> (\<exists>q. point_finite q \<and> transform_maps (ls_transform l) q p \<and> covers_point (ls_geometry l) q)"

definition lands_on :: "InputEventPacket \<Rightarrow> Point \<Rightarrow> LayerSnapshot \<Rightarrow> InputRoute \<Rightarrow> bool" where
  "lands_on ev p l r \<longleftrightarrow> ir_outcome r = Routed \<and> ir_target_surface r = Some (ls_surface l) \<and> ir_input_serial r = ie_serial ev
     \<and> ir_global_position r = p \<and> ir_transform r = ls_transform l \<and> (\<exists>q z. ir_local_position r = Some z
     \<and> preimage_of (ls_transform l) p q
     \<and> (local_exact (ls_transform l) p (ls_geometry l) \<longrightarrow> point_finite z
          \<and> f64_fixed (pt_x z) = f64_fixed (pt_x q) - sint (rc_x (ls_geometry l)) * f64_unit
          \<and> f64_fixed (pt_y z) = f64_fixed (pt_y q) - sint (rc_y (ls_geometry l)) * f64_unit))"

lemma sub_whole:
  assumes "f64_is_finite x" "f64_fixed x = a * f64_unit" "\<bar>a\<bar> \<le> 2147483648"
  shows "f64_is_finite (f64_sub x (f64_of_i32 i))" "f64_fixed (f64_sub x (f64_of_i32 i)) = (a - sint i) * f64_unit"
proof -
  have n: "f64_is_finite (f64_neg (f64_of_i32 i))" "f64_fixed (f64_neg (f64_of_i32 i)) = (- sint i) * f64_unit"
    using neg_value [OF of_i32_value(1)] of_i32_value(2) by simp_all
  have "\<bar>a + - sint i\<bar> < 2 ^ 53" using assms(3) sint_i32_bounds [of i] by auto
  then show "f64_is_finite (f64_sub x (f64_of_i32 i))" "f64_fixed (f64_sub x (f64_of_i32 i)) = (a - sint i) * f64_unit"
    using add_whole [OF assms(1,2) n] by (simp_all add: f64_sub_def)
qed

lemma identity_maps: "transform_maps transform_IDENTITY q p \<longleftrightarrow> point_eq q p"
proof -
  have "f64_fixed 0 = 0" by (simp add: zero_parts fixed_0_iff)
  then show ?thesis
    using one_value(2) by (simp add: transform_IDENTITY_def f64_consts point_eq_def f64_unit_def)
qed

lemma identity_preimage:
  assumes "point_finite p"
  shows "\<exists>q. inverse_transform_point transform_IDENTITY p = Some q \<and> preimage_of transform_IDENTITY p q
    \<and> (whole_point p \<longrightarrow> sub_exact q x y)"
proof -
  obtain q where q: "inverse_transform_point transform_IDENTITY p = Some q" "point_finite q" "point_eq q p"
    by (rule inverse_identity_point [OF assms])
  have "preimage_of transform_IDENTITY p q" using q(2,3) by (simp add: preimage_of_def identity_maps point_eq_def)
  moreover have "sub_exact q x y" if w: "whole_point p"
  proof -
    obtain u v where "\<bar>u\<bar> \<le> 2147483648" "\<bar>v\<bar> \<le> 2147483648" "f64_fixed (pt_x p) = u * f64_unit" "f64_fixed (pt_y p) = v * f64_unit"
      using w by (auto simp: whole_point_def)
    then show ?thesis
      using sub_whole [of "pt_x q" u x] sub_whole [of "pt_y q" v y] q(2,3)
      by (simp add: sub_exact_def point_finite_def point_eq_def left_diff_distrib)
  qed
  ultimately show ?thesis using q(1) by blast
qed

lemma exact_preimage:
  assumes "point_finite p" "inverts_exactly t p"
  obtains q where "inverse_transform_point t p = Some q" "preimage_of t p q"
    "local_exact t p r \<Longrightarrow> sub_exact q (rc_x r) (rc_y r)"
proof (cases "affine_grid t \<and> grid_point p")
  case grid: True
  then obtain q where q: "inverse_transform_point t p = Some q" "preimage_of t p q"
      "\<And>x y. \<bar>sint x\<bar> \<le> 2 ^ 20 \<Longrightarrow> \<bar>sint y\<bar> \<le> 2 ^ 20 \<Longrightarrow> sub_exact q x y"
    using affine_preimage by blast
  have "sub_exact q (rc_x r) (rc_y r)" if "t = transform_IDENTITY" "whole_point p"
    using identity_preimage [OF assms(1), of "rc_x r" "rc_y r"] that q(1) by auto
  then show thesis using that [OF q(1,2)] q(3) by (auto simp: local_exact_def)
next
  case False
  then have t: "t = transform_IDENTITY" using assms(2) by (auto simp: inverts_exactly_def)
  then show thesis
    using identity_preimage [OF assms(1), of "rc_x r" "rc_y r"] that False by (auto simp: local_exact_def)
qed

lemma covers_point_cong: "point_eq q' q \<Longrightarrow> covers_point r q' \<longleftrightarrow> covers_point r q"
  by (simp add: covers_point_def point_eq_def)

lemma hit_test_ordered_spec:
  assumes p: "point_finite p" and exact: "\<forall>l \<in> set layers. inverts_exactly (ls_transform l) p"
  shows "case filter (hit_by p) layers of
      [] \<Rightarrow> hit_test_ordered ev p layers = missed_input_route ev p
    | l # _ \<Rightarrow> lands_on ev p l (hit_test_ordered ev p layers)"
  using exact
proof (induction layers)
  case (Cons l layers)
  obtain q where q: "inverse_transform_point (ls_transform l) p = Some q" "preimage_of (ls_transform l) p q"
      "local_exact (ls_transform l) p (ls_geometry l) \<Longrightarrow> sub_exact q (rc_x (ls_geometry l)) (rc_y (ls_geometry l))"
    using exact_preimage [OF p] Cons.prems by (metis list.set_intros(1))
  have c: "rect_contains_point (ls_geometry l) q \<longleftrightarrow>
      (\<exists>q'. point_finite q' \<and> transform_maps (ls_transform l) q' p \<and> covers_point (ls_geometry l) q')"
    using rect_contains_exact [of q "ls_geometry l"] q(2) covers_point_cong unfolding preimage_of_def by blast
  show ?case
  proof (cases "hit_by p l")
    case True
    have "lands_on ev p l (hit_test_ordered ev p (l # layers))"
      using True q(1) c unfolding lands_on_def hit_by_def by (auto intro!: exI [of _ q] q(2) dest!: q(3) simp: point_finite_def sub_exact_def)
    then show ?thesis using True by simp
  next
    case False
    then have same: "hit_test_ordered ev p (l # layers) = hit_test_ordered ev p layers"
      using q(1) c by (auto simp: hit_by_def)
    show ?thesis unfolding same using Cons False by (simp del: hit_test_ordered.simps)
  qed
qed simp

lemma hits_of_sorted:
  "set (filter P (sort_key f xs)) = set (filter P xs)" "sorted (map f (filter P (sort_key f xs)))"
  by (simp_all add: sorted_filter)

lemma request_of_landing:
  "lands_on ev p l r \<Longrightarrow> surface_is_valid (ls_surface l)
    \<Longrightarrow> \<exists>q. routed_input_request_from_physical_event ev r = Inr q \<and> rr_target_surface q = ls_surface l
         \<and> ir_local_position r = Some (rr_local_position q)"
  by (auto simp: lands_on_def routed_input_request_from_physical_event_def valid_target_def bind_res_def ok_or_def)

section \<open>Coalescing keeps what matters\<close>

text \<open>
  The reference: inputs may disappear only when they are motions and the very next input is a motion on the
  same surface.
\<close>

inductive coalesces :: "QueuedRoutedInput list \<Rightarrow> QueuedRoutedInput list \<Rightarrow> bool" where
  coalesces_none: "coalesces [] []"
| coalesces_keep: "coalesces xs ys \<Longrightarrow> coalesces (x # xs) (x # ys)"
| coalesces_drop: "coalescible_motion_key x = Some k \<Longrightarrow> coalescible_motion_key y = Some k
    \<Longrightarrow> coalesces (y # xs) ys \<Longrightarrow> coalesces (x # y # xs) ys"

inductive_cases coalesces_NilE: "coalesces xs []"

lemma coalesces_last:
  "coalesces xs ys \<Longrightarrow> (xs = [] \<longleftrightarrow> ys = []) \<and> (ys \<noteq> [] \<longrightarrow> last xs = last ys)"
  by (induction rule: coalesces.induct) auto

lemma coalesces_snoc: "coalesces xs ys \<Longrightarrow> coalesces (xs @ [x]) (ys @ [x])"
  by (induction rule: coalesces.induct) (auto intro: coalesces.intros)

lemma coalesces_replace:
  "coalesces xs zs \<Longrightarrow> zs = ys @ [p] \<Longrightarrow> coalescible_motion_key p = Some k \<Longrightarrow> coalescible_motion_key i = Some k
    \<Longrightarrow> coalesces (xs @ [i]) (ys @ [i])"
proof (induction arbitrary: ys rule: coalesces.induct)
  case (coalesces_keep xs zs x)
  show ?case
  proof (cases ys)
    case Nil
    then have x: "x = p" "zs = []" "xs = []"
      using coalesces_keep.prems(1) coalesces_last [OF coalesces_keep.hyps] by simp_all
    have "coalesces [i] [i]" by (intro coalesces.intros)
    then show ?thesis using x Nil coalesces_drop [OF coalesces_keep.prems(2,3), of "[]" "[i]"] by simp
  next
    case (Cons y ys')
    then show ?thesis using coalesces_keep by (auto intro: coalesces.coalesces_keep)
  qed
next
  case (coalesces_drop x k' y xs zs)
  then show ?case using coalesces.coalesces_drop [of x k' y "xs @ [i]"] by simp
qed simp

datatype coalescer_event = InPush InputEventPacket InputRoute | InFrame | InBarrier RoutedInputFlushReason

fun flushed :: "RoutedInputQueueAction \<Rightarrow> QueuedRoutedInput list" where
  "flushed BufferedMotion = []"
| "flushed (Flushed f) = rf_inputs f"

fun coalescer_step ::
  "QueuedRoutedInput list \<times> RoutedInputCoalescer \<Rightarrow> coalescer_event \<Rightarrow> QueuedRoutedInput list \<times> RoutedInputCoalescer" where
  "coalescer_step (out, c) (InPush ev r) = (case push_input ev r c of (a, c') \<Rightarrow> (out @ flushed a, c'))"
| "coalescer_step (out, c) InFrame =
     (case flush_frame c of (f, c') \<Rightarrow> (out @ (case f of None \<Rightarrow> [] | Some f \<Rightarrow> rf_inputs f), c'))"
| "coalescer_step (out, c) (InBarrier reason) =
     (case flush_barrier reason c of (f, c') \<Rightarrow> (out @ (case f of None \<Rightarrow> [] | Some f \<Rightarrow> rf_inputs f), c'))"

fun pushed :: "coalescer_event \<Rightarrow> QueuedRoutedInput list" where
  "pushed (InPush ev r) = [\<lparr>qi_event = ev, qi_route = r\<rparr>]"
| "pushed _ = []"

definition waiting :: "RoutedInputCoalescer \<Rightarrow> QueuedRoutedInput list" where
  "waiting c = (case rc_pending_motion c of None \<Rightarrow> [] | Some p \<Rightarrow> [p])"

definition coalescer_ok :: "QueuedRoutedInput list \<Rightarrow> QueuedRoutedInput list \<times> RoutedInputCoalescer \<Rightarrow> bool" where
  "coalescer_ok xs s \<longleftrightarrow> coalesces xs (fst s @ waiting (snd s))
     \<and> (\<forall>p. rc_pending_motion (snd s) = Some p \<longrightarrow> coalescible_motion_key p \<noteq> None)"

lemma coalescer_step_ok:
  assumes "coalescer_ok xs (out, c)"
  shows "coalescer_ok (xs @ pushed e) (coalescer_step (out, c) e)"
proof (cases e)
  case (InPush ev r)
  let ?i = "\<lparr>qi_event = ev, qi_route = r\<rparr>"
  have run: "coalesces xs (out @ waiting c)" and key: "\<And>p. rc_pending_motion c = Some p \<Longrightarrow> coalescible_motion_key p \<noteq> None"
    using assms by (auto simp: coalescer_ok_def)
  have snoc: "coalesces (xs @ [?i]) (out @ waiting c @ [?i])" using coalesces_snoc [OF run] by simp
  show ?thesis
  proof (cases "coalescible_motion_key ?i")
    case None
    then show ?thesis using InPush snoc
      by (auto simp: coalescer_ok_def push_input_def flush_with_def waiting_def split: option.splits)
  next
    case k: (Some k)
    show ?thesis
    proof (cases "rc_pending_motion c")
      case None
      then show ?thesis using InPush snoc k by (simp add: coalescer_ok_def push_input_def push_motion_def waiting_def)
    next
      case (Some p)
      then obtain k' where k': "coalescible_motion_key p = Some k'" using key by blast
      show ?thesis
      proof (cases "k' = k")
        case True
        have "coalesces (xs @ [?i]) (out @ [?i])"
          by (rule coalesces_replace [OF run _ k' [unfolded True] k]) (simp add: waiting_def Some)
        then show ?thesis using InPush Some k k' True by (simp add: coalescer_ok_def push_input_def push_motion_def waiting_def)
      next
        case False
        then show ?thesis using InPush Some k k' snoc
          by (simp add: coalescer_ok_def push_input_def push_motion_def flush_with_def waiting_def)
      qed
    qed
  qed
qed (use assms in \<open>auto simp: coalescer_ok_def flush_frame_def flush_barrier_def take_pending_def waiting_def split: option.splits\<close>)

lemma coalescer_run_ok:
  "coalescer_ok xs s \<Longrightarrow> coalescer_ok (xs @ concat (map pushed es)) (foldl coalescer_step s es)"
proof (induction es arbitrary: xs s)
  case (Cons e es)
  obtain out c where s: "s = (out, c)" by force
  show ?case using Cons.IH [OF coalescer_step_ok [OF Cons.prems [unfolded s]], of e] by (simp add: s)
qed simp

lemma coalesces_state_changes:
  "coalesces xs ys \<Longrightarrow> filter (\<lambda>i. coalescible_motion_key i = None) xs = filter (\<lambda>i. coalescible_motion_key i = None) ys"
  by (induction rule: coalesces.induct) auto

section \<open>Properties\<close>

text \<open>
  Property C31. A pointer event goes to the topmost visible surface under it, when the inverses of the layers' transforms
  are exact: the identity with any finite position, or affine transforms with entries that are multiples of 1/256
  within bounds and a power of two as determinant (scalings, quarter turns, reflections, shears, with translations),
  with positions that are multiples of 1/256 (\<open>affine_grid\<close>, \<open>grid_point\<close>). Then the hit test
  finds a target exactly when for some valid, rendered layer the point that its transform maps to the position lies in the
  layer's geometry, picks the highest stack rank
  (the later layer on a tie), reports that point relative to the corner of the geometry (without rounding error where
  \<open>local_exact\<close> says so: whole-pixel positions without a transform, or grid positions and a corner within
  1048576), and such a route always becomes a request to that surface; without a layer under the pointer the
  event is not delivered. Other transforms are inverted with rounding and are not described here. The edges of the
  geometry are compared exactly, also where they overflow 32 bits.
\<close>

theorem pointer_hits_topmost:
  assumes "ie_global_position ev = Some p" "point_finite p" "\<forall>l \<in> set layers. inverts_exactly (ls_transform l) p"
  defines "hits \<equiv> filter (hit_by p) (sort_key ls_stack_rank layers)"
  shows "if \<exists>l \<in> set layers. hit_by p l
    then last hits \<in> set layers \<and> hit_by p (last hits)
      \<and> (\<forall>l \<in> set layers. hit_by p l \<longrightarrow> ls_stack_rank l \<le> ls_stack_rank (last hits))
      \<and> lands_on ev p (last hits) (hit_test_layers ev layers)
      \<and> (\<exists>q. routed_input_request_from_physical_event ev (hit_test_layers ev layers) = Inr q
           \<and> rr_target_surface q = ls_surface (last hits))
    else hit_test_layers ev layers = missed_input_route ev p
      \<and> routed_input_request_from_physical_event ev (hit_test_layers ev layers) = Inl RouteNotAccepted"
proof -
  let ?r = "hit_test_layers ev layers"
  have set: "set hits = {l \<in> set layers. hit_by p l}" unfolding hits_def hits_of_sorted(1) by auto
  have r: "?r = hit_test_ordered ev p (rev (sort_key ls_stack_rank layers))" using assms(1) by (simp add: hit_test_layers_def)
  have spec: "case rev hits of [] \<Rightarrow> ?r = missed_input_route ev p | l # _ \<Rightarrow> lands_on ev p l ?r"
    unfolding r hits_def rev_filter by (rule hit_test_ordered_spec [OF assms(2)]) (use assms(3) in simp)
  show ?thesis
  proof (cases "hits = []")
    case True
    then show ?thesis using set spec
      by (auto simp: missed_input_route_def routed_input_request_from_physical_event_def)
  next
    case False
    then have land: "lands_on ev p (last hits) ?r" using spec by (cases hits rule: rev_cases) auto
    have last: "last hits \<in> set layers" "hit_by p (last hits)" using last_in_set [OF False] set by auto
    have "ls_stack_rank l \<le> ls_stack_rank (last hits)" if "l \<in> set hits" for l
    proof -
      have "sorted (map ls_stack_rank hits)" unfolding hits_def by (rule hits_of_sorted(2))
      then show ?thesis using that False by (cases hits rule: rev_cases) (auto simp: sorted_append)
    qed
    then show ?thesis using land last set request_of_landing [OF land] by (auto simp: hit_by_def)
  qed
qed

text \<open>A layer scaled by two and moved by 30 and 40, with a pointer at 36 and 48, over the untransformed layer.\<close>

definition scale_translate :: Transform where
  "scale_translate = Transform 0x40000000 0 0x41F00000 0 0x40000000 0x42200000 0 0 0x3F800000"

definition scaled_layer :: LayerSnapshot where
  "scaled_layer = example_layer\<lparr>ls_surface := SurfaceId 6 1, ls_stack_rank := 7, ls_transform := scale_translate\<rparr>"

definition example_position :: Point where
  "example_position = \<lparr>pt_x = f64_of_i32 36, pt_y = f64_of_i32 48\<rparr>"

definition example_motion :: InputEventPacket where
  "example_motion = \<lparr>ie_serial = 9, ie_seat = 1, ie_device = 2, ie_time_msec = 40, ie_kind = PointerMotion,
     ie_global_position = Some example_position, ie_target_surface = None, ie_local_position = None\<rparr>"

lemma f32_consts:
  "f64_is (f64_of_f32 0x40000000) 512 (- 8)" "f64_is (f64_of_f32 0x41F00000) 7680 (- 8)"
  "f64_is (f64_of_f32 0x42200000) 10240 (- 8)" "f64_is (f64_of_f32 0x3F800000) 1 0" "f64_is (f64_of_f32 0) 0 e \<longleftrightarrow> - 1074 \<le> e"
proof -
  show "f64_is (f64_of_f32 0x40000000) 512 (- 8)"
    using pack_dyadic(1) [of "2 ^ 23" "- 22" 30 "512" "- 8" False] by (simp add: f64_of_f32_def Let_def)
  show "f64_is (f64_of_f32 0x41F00000) 7680 (- 8)"
    using pack_dyadic(1) [of "15728640" "- 19" 30 "7680" "- 8" False] by (simp add: f64_of_f32_def Let_def)
  show "f64_is (f64_of_f32 0x42200000) 10240 (- 8)"
    using pack_dyadic(1) [of "10485760" "- 18" 30 "10240" "- 8" False] by (simp add: f64_of_f32_def Let_def)
  show "f64_is (f64_of_f32 0x3F800000) 1 0"
    using pack_dyadic(1) [of "2 ^ 23" "- 23" 30 1 0 False] by (simp add: f64_of_f32_def Let_def)
  show "f64_is (f64_of_f32 0) 0 e \<longleftrightarrow> - 1074 \<le> e"
    by (simp add: f64_consts is_zero zero_parts fixed_0_iff)
qed

lemma i32_on_grid: "f64_is (f64_of_i32 j) (sint j * 256) (- 8)"
  by (rule is_rescale [of _ "sint j" 0]) (use of_i32_value in \<open>simp_all add: f64_is_def f64_unit_def\<close>)

lemma example_grid: "affine_grid scale_translate" "grid_point example_position"
proof -
  show "affine_grid scale_translate"
    unfolding scale_translate_def affine_grid.simps
    by (rule exI [of _ 512], rule exI [of _ 0], rule exI [of _ 7680], rule exI [of _ 0], rule exI [of _ 512],
        rule exI [of _ 10240], rule exI [of _ 18]) (simp add: f32_consts)
  show "grid_point example_position"
    unfolding grid_point_def
    by (rule exI [of _ "36 * 256"], rule exI [of _ "48 * 256"])
      (use i32_on_grid [of 36] i32_on_grid [of 48] in \<open>simp add: example_position_def\<close>)
qed

lemma example_hit: "hit_by example_position scaled_layer"
proof -
  let ?q = "\<lparr>pt_x = f64_of_i32 3, pt_y = f64_of_i32 4\<rparr>"
  have "transform_maps scale_translate ?q example_position"
    using f32_consts(1,2,3) of_i32_value f32_consts(5) [of 0]
    by (simp add: scale_translate_def example_position_def f64_is_def f64_unit_def)
  moreover have "point_finite ?q" "covers_point (ls_geometry scaled_layer) ?q"
    by (simp_all add: point_finite_def covers_point_def of_i32_value scaled_layer_def example_layer_def example_template_def
        example_geometry_def f64_unit_def)
  moreover have "surface_is_valid (ls_surface scaled_layer)" "should_render scaled_layer" "ls_transform scaled_layer = scale_translate"
    by (simp_all add: scaled_layer_def example_layer_def example_template_def surface_is_valid_def
        word_max_def should_render_def f32_positive_def rect_is_empty_def example_geometry_def)
  ultimately show ?thesis unfolding hit_by_def by metis
qed

theorem pointer_hits_topmost_witness:
  "\<exists>q. routed_input_request_from_physical_event example_motion (hit_test_layers example_motion [scaled_layer, example_layer]) = Inr q
     \<and> rr_target_surface q = SurfaceId 6 1"
proof -
  have layers: "ls_transform scaled_layer = scale_translate" "ls_transform example_layer = transform_IDENTITY"
    "ls_surface scaled_layer = SurfaceId 6 1" "ls_stack_rank scaled_layer = 7" "ls_stack_rank example_layer < 7"
    by (simp_all add: scaled_layer_def example_layer_def example_template_def)
  have "point_finite example_position" by (simp add: example_position_def point_finite_def of_i32_value)
  moreover have "\<forall>l \<in> set [scaled_layer, example_layer]. inverts_exactly (ls_transform l) example_position"
    using example_grid by (simp add: inverts_exactly_def layers)
  moreover have "ie_global_position example_motion = Some example_position" by (simp add: example_motion_def)
  moreover have hit: "\<exists>l \<in> set [scaled_layer, example_layer]. hit_by example_position l" using example_hit by simp
  ultimately have "\<exists>q. routed_input_request_from_physical_event example_motion (hit_test_layers example_motion [scaled_layer, example_layer]) = Inr q
      \<and> rr_target_surface q
        = ls_surface (last (filter (hit_by example_position) (sort_key ls_stack_rank [scaled_layer, example_layer])))"
    using pointer_hits_topmost [of example_motion example_position "[scaled_layer, example_layer]"] unfolding if_P [OF hit] by blast
  moreover have "last (filter (hit_by example_position) (sort_key ls_stack_rank [scaled_layer, example_layer])) = scaled_layer"
    using layers(4,5) example_hit by simp
  ultimately show ?thesis by (simp only: layers(3))
qed

text \<open>
  Property C32. Coalescing pointer motion loses nothing that matters: over any sequence of pushed inputs, frame
  flushes and barriers, what was delivered and the motion still waiting are the pushed inputs in order, where
  only a motion directly followed by another motion on the same surface may be missing; every button, key and
  unroutable event is delivered, in its place among the motions.
\<close>

theorem coalescing_keeps_order:
  "case foldl coalescer_step ([], coalescer_new) es of
     (out, c) \<Rightarrow> coalesces (concat (map pushed es)) (out @ waiting c)
       \<and> filter (\<lambda>i. coalescible_motion_key i = None) out
         = filter (\<lambda>i. coalescible_motion_key i = None) (concat (map pushed es))"
proof -
  obtain out c where run: "foldl coalescer_step ([], coalescer_new) es = (out, c)" by force
  have "coalescer_ok [] ([], coalescer_new)"
    by (simp add: coalescer_ok_def coalescer_new_def waiting_def coalesces_none)
  from coalescer_run_ok [OF this, of es] have ok: "coalesces (concat (map pushed es)) (out @ waiting c)"
    "\<And>p. rc_pending_motion c = Some p \<Longrightarrow> coalescible_motion_key p \<noteq> None"
    by (auto simp: run coalescer_ok_def)
  have "filter (\<lambda>i. coalescible_motion_key i = None) (waiting c) = []"
    using ok(2) by (auto simp: waiting_def split: option.splits)
  then show ?thesis using ok(1) coalesces_state_changes [OF ok(1)] by (simp add: run)
qed

end
