(* ===== verification/Production.thy ===== *)
theory Production
  imports Input_Routing Session_Driver "HOL-Library.Sublist"
begin

text \<open>
  The production side of the engine: the coordinator that owns the committed surfaces across
  asynchronous presentation (\<^verbatim>\<open>runtime_driver/production.rs\<close>), and the compositor backend that puts input
  polling, frame clock, authority inbox, runtime driver and renderer together into one tick
  (\<^verbatim>\<open>backend_assembly.rs\<close>, \<^verbatim>\<open>live_backend.rs\<close>). The presentation and output adapters and the input poller are
  parameters, with their own state and error types.
\<close>

section \<open>Coordinator (runtime_driver/production.rs)\<close>

definition rebase_full_state_present_transactions ::
  "SurfaceTransaction list \<Rightarrow> CommittedSurfaceState list \<Rightarrow> SurfaceTransaction list" where
  "rebase_full_state_present_transactions transactions committed =
     map (\<lambda>transaction. transaction\<lparr>st_previous_committed_generation :=
         (case vec_find cs_surface committed (st_surface transaction) of
            None \<Rightarrow> 0 | Some state \<Rightarrow> cs_committed_generation state)\<rparr>) transactions"

datatype ProductionSessionPhase =
  PhAuthorityIntake | PhEngineCommitPreparation | PhFrameComposition | PhKmsSubmit | PhKmsRetire | PhProtocolFeedback

record ('a, 'p, 'e) ProductionOutputRuntimeAdapter =
  oa_output_count :: "'a \<Rightarrow> nat"
  oa_run_output :: "nat \<Rightarrow> CommittedSurfaceState list \<Rightarrow> 'a \<Rightarrow> ('e + 'p) \<times> 'a"

record 'r ProductionRetirement =
  prt_cycle :: u64
  prt_retirement :: 'r

record ('a, 'f, 's, 'r, 'v, 'e) ProductionPresentationAdapter =
  pp_compose :: "u64 \<Rightarrow> CommittedSurfaceState list \<Rightarrow> TransactionCommit list \<Rightarrow> 'a \<Rightarrow> ('e + 'f) \<times> 'a"
  pp_submit_frame :: "u64 \<Rightarrow> 'f \<Rightarrow> 'a \<Rightarrow> ('e + 's) \<times> 'a"
  pp_poll_retirements :: "'a \<Rightarrow> ('e + 'r ProductionRetirement list) \<times> 'a"
  pp_route_protocol_feedback :: "u64 \<Rightarrow> 'r \<Rightarrow> 'a \<Rightarrow> ('e + 'v) \<times> 'a"

record 'v ProductionPreparedRetirementReport =
  rrp_commit :: TransactionCommit
  rrp_committed_surfaces :: "CommittedSurfaceState list"
  rrp_evidence :: 'v

datatype 'e ProductionPreparedRetirementError = EngineCommit TransactionCommit | ProtocolFeedback 'e

record ('s, 'v) ProductionSessionCycleReport =
  cyr_cycle :: u64
  cyr_authority_commits :: "TransactionCommit list"
  cyr_committed_surfaces :: "CommittedSurfaceState list"
  cyr_submission :: 's
  cyr_evidence :: "'v list"

record 'e ProductionSessionCycleError =
  cye_cycle :: u64
  cye_phase :: ProductionSessionPhase
  cye_source :: 'e

record ProductionSessionCoordinator =
  pco_engine :: HeadlessEngine
  pco_committed_surfaces :: "CommittedSurfaceState list"
  pco_next_cycle :: u64

definition coordinator_new :: "HeadlessEngine \<Rightarrow> ProductionSessionCoordinator" where
  "coordinator_new engine = \<lparr>pco_engine = engine, pco_committed_surfaces = [], pco_next_cycle = 1\<rparr>"

definition replace_committed_surfaces ::
  "CommittedSurfaceState list \<Rightarrow> ProductionSessionCoordinator \<Rightarrow> ProductionSessionCoordinator" where
  "replace_committed_surfaces committed c = c\<lparr>pco_committed_surfaces := committed\<rparr>"

definition commit_authority_batches ::
  "AuthorityTransactionIntake list \<Rightarrow> ProductionSessionCoordinator
     \<Rightarrow> (TransactionCommit list \<times> ProductionSessionCoordinator) option" where
  "commit_authority_batches batches c =
     map_option (\<lambda>(commits, committed). (commits, c\<lparr>pco_committed_surfaces := committed\<rparr>))
       (intake_commits batches (pco_committed_surfaces c))"

definition prepare_full_state_present ::
  "TransactionId \<Rightarrow> SurfaceTransaction list \<Rightarrow> ProductionSessionCoordinator \<Rightarrow> PreparedSurfaceCommit" where
  "prepare_full_state_present transaction transactions c =
     prepare_surface_transactions transaction
       (rebase_full_state_present_transactions transactions (pco_committed_surfaces c)) (pco_committed_surfaces c)"

definition coordinator_apply_prepared ::
  "PreparedSurfaceCommit \<Rightarrow> ProductionSessionCoordinator \<Rightarrow> (TransactionCommit \<times> ProductionSessionCoordinator) option" where
  "coordinator_apply_prepared prepared c =
     map_option (\<lambda>(commit, committed). (commit, c\<lparr>pco_committed_surfaces := committed\<rparr>))
       (apply_prepared_surface_commit prepared (pco_committed_surfaces c))"

text \<open>The feedback closure runs on a state \<open>'w\<close> of its own.\<close>

definition complete_prepared_retirement ::
  "PreparedSurfaceCommit \<Rightarrow> ('w \<Rightarrow> ('e + 'v) \<times> 'w) \<Rightarrow> ProductionSessionCoordinator \<Rightarrow> 'w
     \<Rightarrow> (('e ProductionPreparedRetirementError + 'v ProductionPreparedRetirementReport)
          \<times> ProductionSessionCoordinator \<times> 'w) option" where
  "complete_prepared_retirement prepared complete_feedback c w =
     map_option (\<lambda>(commit, c').
         if tc_outcome commit \<noteq> Committed then (Inl (EngineCommit commit), c', w)
         else case complete_feedback w of
             (Inl e, w') \<Rightarrow> (Inl (ProtocolFeedback e), c', w')
           | (Inr evidence, w') \<Rightarrow>
               (Inr \<lparr>rrp_commit = commit, rrp_committed_surfaces = pco_committed_surfaces c', rrp_evidence = evidence\<rparr>,
                c', w'))
       (coordinator_apply_prepared prepared c)"

fun run_output_indexes ::
  "('a, 'p, 'e) ProductionOutputRuntimeAdapter \<Rightarrow> CommittedSurfaceState list \<Rightarrow> nat list \<Rightarrow> 'a \<Rightarrow> ('e + 'p list) \<times> 'a" where
  "run_output_indexes ops committed [] a = (Inr [], a)"
| "run_output_indexes ops committed (i # is) a =
     (case oa_run_output ops i committed a of
        (Inl e, a') \<Rightarrow> (Inl e, a')
      | (Inr report, a') \<Rightarrow>
          (case run_output_indexes ops committed is a' of
             (Inl e, a'') \<Rightarrow> (Inl e, a'')
           | (Inr reports, a'') \<Rightarrow> (Inr (report # reports), a'')))"

definition run_outputs ::
  "('a, 'p, 'e) ProductionOutputRuntimeAdapter \<Rightarrow> ProductionSessionCoordinator \<Rightarrow> 'a \<Rightarrow> ('e + 'p list) \<times> 'a" where
  "run_outputs ops c a = run_output_indexes ops (pco_committed_surfaces c) [0..<oa_output_count ops a] a"

fun route_retirements ::
  "('a, 'f, 's, 'r, 'v, 'e) ProductionPresentationAdapter \<Rightarrow> 'r ProductionRetirement list \<Rightarrow> 'a
     \<Rightarrow> ('e ProductionSessionCycleError + 'v list) \<times> 'a" where
  "route_retirements ops [] a = (Inr [], a)"
| "route_retirements ops (r # rs) a =
     (case pp_route_protocol_feedback ops (prt_cycle r) (prt_retirement r) a of
        (Inl e, a') \<Rightarrow> (Inl \<lparr>cye_cycle = prt_cycle r, cye_phase = PhProtocolFeedback, cye_source = e\<rparr>, a')
      | (Inr v, a') \<Rightarrow>
          (case route_retirements ops rs a' of
             (Inl e, a'') \<Rightarrow> (Inl e, a'')
           | (Inr vs, a'') \<Rightarrow> (Inr (v # vs), a'')))"

definition present_cycle ::
  "('a, 'f, 's, 'r, 'v, 'e) ProductionPresentationAdapter \<Rightarrow> u64 \<Rightarrow> TransactionCommit list
     \<Rightarrow> CommittedSurfaceState list \<Rightarrow> 'a
     \<Rightarrow> ('e ProductionSessionCycleError + ('s, 'v) ProductionSessionCycleReport) \<times> 'a" where
  "present_cycle ops cycle commits committed a =
     (case pp_compose ops cycle committed commits a of
        (Inl e, a1) \<Rightarrow> (Inl \<lparr>cye_cycle = cycle, cye_phase = PhFrameComposition, cye_source = e\<rparr>, a1)
      | (Inr frame, a1) \<Rightarrow>
          (case pp_submit_frame ops cycle frame a1 of
             (Inl e, a2) \<Rightarrow> (Inl \<lparr>cye_cycle = cycle, cye_phase = PhKmsSubmit, cye_source = e\<rparr>, a2)
           | (Inr submission, a2) \<Rightarrow>
               (case pp_poll_retirements ops a2 of
                  (Inl e, a3) \<Rightarrow> (Inl \<lparr>cye_cycle = cycle, cye_phase = PhKmsRetire, cye_source = e\<rparr>, a3)
                | (Inr retirements, a3) \<Rightarrow>
                    (case route_retirements ops retirements a3 of
                       (Inl e, a4) \<Rightarrow> (Inl e, a4)
                     | (Inr evidence, a4) \<Rightarrow>
                         (Inr \<lparr>cyr_cycle = cycle, cyr_authority_commits = commits, cyr_committed_surfaces = committed,
                               cyr_submission = submission, cyr_evidence = evidence\<rparr>, a4)))))"

definition run_cycle ::
  "('a, 'f, 's, 'r, 'v, 'e) ProductionPresentationAdapter \<Rightarrow> AuthorityTransactionIntake list
     \<Rightarrow> ProductionSessionCoordinator \<Rightarrow> 'a
     \<Rightarrow> (('e ProductionSessionCycleError + ('s, 'v) ProductionSessionCycleReport)
          \<times> ProductionSessionCoordinator \<times> 'a) option" where
  "run_cycle ops batches c a =
     (let cycle = pco_next_cycle c; c = c\<lparr>pco_next_cycle := sat_add (pco_next_cycle c) 1\<rparr> in
      map_option (\<lambda>(commits, c').
          case present_cycle ops cycle commits (pco_committed_surfaces c') a of (r, a') \<Rightarrow> (r, c', a'))
        (commit_authority_batches batches c))"

section \<open>Service order\<close>

record ProductionAsyncServiceObservation =
  so_retirement_required :: bool
  so_present_output_blocked :: bool
  so_present_queued :: bool
  so_pending_output_ready :: bool

datatype ProductionAsyncServicePhase = SvKmsRetire | SvSchedulePresent | SvSubmitPendingFrame

datatype ProductionAsyncServiceCursor = CurRetirement | CurPresent | CurPendingFrame | CurComplete

fun cursor_left :: "ProductionAsyncServiceCursor \<Rightarrow> nat" where
  "cursor_left CurRetirement = 3"
| "cursor_left CurPresent = 2"
| "cursor_left CurPendingFrame = 1"
| "cursor_left CurComplete = 0"

function next_phase ::
  "ProductionAsyncServiceObservation \<Rightarrow> ProductionAsyncServiceCursor
     \<Rightarrow> ProductionAsyncServicePhase option \<times> ProductionAsyncServiceCursor" where
  "next_phase ob CurRetirement =
     (if so_retirement_required ob then (Some SvKmsRetire, CurPresent) else next_phase ob CurPresent)"
| "next_phase ob CurPresent =
     (if so_present_queued ob \<and> \<not> so_present_output_blocked ob then (Some SvSchedulePresent, CurPendingFrame)
      else next_phase ob CurPendingFrame)"
| "next_phase ob CurPendingFrame =
     (if so_pending_output_ready ob then (Some SvSubmitPendingFrame, CurComplete) else next_phase ob CurComplete)"
| "next_phase ob CurComplete = (None, CurComplete)"
  by pat_completeness auto
termination by (relation "measure (\<lambda>(ob, cursor). cursor_left cursor)") auto

section \<open>Backend assembly (backend_assembly.rs)\<close>

datatype RendererSelection = CpuFallback | ImportCapable bool bool

fun selected_render_frame ::
  "RendererSelection \<Rightarrow> HeadlessEngine \<Rightarrow> FrameSnapshot \<Rightarrow> EngineError + RenderFrameReport" where
  "selected_render_frame CpuFallback engine frame = render_frame_with engine cpu_render_frame frame"
| "selected_render_frame (ImportCapable x d) engine frame =
     render_frame_with engine (import_render_frame \<lparr>ic_import_xpixmap = x, ic_import_dmabuf = d\<rparr>) frame"

record CompositorBackendTickInput =
  bx_x_event_count :: u32
  bx_authority_commits :: "TransactionCommit list"
  bx_authority_batches :: "AuthorityTransactionIntake list"
  bx_wm_update :: "WmTransactionUpdate option"
  bx_portal_commands :: "PortalCommand list"
  bx_chrome_command_count :: u32
  bx_layer_templates :: "LayerSnapshot list"
  bx_scanout_submit_state :: "RuntimeScanoutState option"
  bx_scanout_lifecycle_states :: "RuntimeScanoutState list"

record AuthorityTransactionInboxReport =
  ib_drained :: nat
  ib_disconnected :: bool
  ib_max_reached :: bool

definition inbox_report_default :: AuthorityTransactionInboxReport where
  "inbox_report_default = \<lparr>ib_drained = 0, ib_disconnected = False, ib_max_reached = False\<rparr>"

text \<open>The receiving end of a channel: the queued batches and whether every sender is gone.\<close>

record AuthorityTransactionInbox =
  in_queued :: "AuthorityTransactionIntake list"
  in_senders_gone :: bool
  in_max_drain_per_tick :: nat

fun drain_inbox ::
  "nat \<Rightarrow> AuthorityTransactionIntake list \<Rightarrow> AuthorityTransactionInboxReport \<Rightarrow> AuthorityTransactionInbox
     \<Rightarrow> AuthorityTransactionIntake list \<times> AuthorityTransactionInboxReport \<times> AuthorityTransactionInbox" where
  "drain_inbox 0 out report inbox = (out, report\<lparr>ib_max_reached := True\<rparr>, inbox)"
| "drain_inbox (Suc n) out report inbox =
     (case in_queued inbox of
        batch # queued \<Rightarrow>
          drain_inbox n (out @ [batch]) (report\<lparr>ib_drained := Suc (ib_drained report)\<rparr>) (inbox\<lparr>in_queued := queued\<rparr>)
      | [] \<Rightarrow> (out, if in_senders_gone inbox then report\<lparr>ib_disconnected := True\<rparr> else report, inbox))"

definition drain_ready ::
  "AuthorityTransactionIntake list \<Rightarrow> AuthorityTransactionInbox
     \<Rightarrow> AuthorityTransactionIntake list \<times> AuthorityTransactionInboxReport \<times> AuthorityTransactionInbox" where
  "drain_ready out inbox = drain_inbox (in_max_drain_per_tick inbox) out inbox_report_default inbox"

datatype PhysicalInputRoutingStage = PhysicalIntakeOnly

record PhysicalInputIntakeReport =
  pi_poll :: LibinputPollReport
  pi_pending_events :: nat
  pi_routing_stage :: PhysicalInputRoutingStage

definition intake_report_from_poll :: "LibinputPollReport \<Rightarrow> nat \<Rightarrow> PhysicalInputIntakeReport" where
  "intake_report_from_poll poll pending_events =
     \<lparr>pi_poll = poll, pi_pending_events = pending_events, pi_routing_stage = PhysicalIntakeOnly\<rparr>"

record CompositorBackendTickReport =
  tk_tick :: FrameClockTick
  tk_input_poll :: LibinputPollReport
  tk_physical_input :: PhysicalInputIntakeReport
  tk_authority_inbox :: AuthorityTransactionInboxReport
  tk_runtime :: HeadlessSessionDriverReport
  tk_render :: "RenderFrameReport option"

datatype 'e CompositorBackendAssemblyError = BeInputPoll 'e | BeEngine EngineError

record 'p HeadlessCompositorBackendAssembly =
  ba_production :: ProductionSessionCoordinator
  ba_driver :: HeadlessSessionDriver
  ba_clock :: PerOutputFrameClock
  ba_outputs :: DrmKmsOutputRegistry
  ba_input :: "'p LibinputPhysicalInputAdapter"
  ba_authority_inbox :: "AuthorityTransactionInbox option"
  ba_renderer :: RendererSelection

definition output_descriptor_from_headless_output :: "HeadlessOutput \<Rightarrow> DrmKmsOutputDescriptor" where
  "output_descriptor_from_headless_output output =
     \<lparr>dd_output = ho_id output,
      dd_connector_id = (if unat (ho_id output) < 2 ^ 32 then ucast (ho_id output) else word_max), dd_crtc_id = 0,
      dd_mode = \<lparr>dm_size = ho_size output, dm_refresh_millihz = 60000\<rparr>, dd_scale = ho_scale output\<rparr>"

definition assembly_from_parts ::
  "HeadlessOutput \<Rightarrow> DrmKmsOutputRegistry \<Rightarrow> DeterministicFrameClock \<Rightarrow> 'p LibinputPhysicalInputAdapter
     \<Rightarrow> RendererSelection \<Rightarrow> 'p HeadlessCompositorBackendAssembly" where
  "assembly_from_parts output outputs clock inp renderer =
     (let engine = \<lparr>he_output = output\<rparr> in
      \<lparr>ba_production = coordinator_new engine, ba_driver = driver_new engine,
       ba_clock = clocks_from_outputs outputs clock, ba_outputs = outputs, ba_input = inp,
       ba_authority_inbox = None, ba_renderer = renderer\<rparr>)"

definition assembly_new :: "HeadlessOutput \<Rightarrow> QueuedInputPoller HeadlessCompositorBackendAssembly" where
  "assembly_new output =
     assembly_from_parts output (snd (drm_upsert (output_descriptor_from_headless_output output) drm_registry_new))
       frame_clock_default \<lparr>pa_poller = \<lparr>qp_queued = []\<rparr>, pa_source = event_source_new\<rparr> CpuFallback"

definition drain_assembly_inbox ::
  "AuthorityTransactionIntake list \<Rightarrow> AuthorityTransactionInbox option
     \<Rightarrow> AuthorityTransactionIntake list \<times> AuthorityTransactionInboxReport \<times> AuthorityTransactionInbox option" where
  "drain_assembly_inbox batches inbox =
     (case inbox of
        None \<Rightarrow> (batches, inbox_report_default, None)
      | Some i \<Rightarrow> (case drain_ready batches i of (out, report, i') \<Rightarrow> (out, report, Some i')))"

definition run_tick_with_live_runtime_adapter ::
  "nat \<Rightarrow> ('p, 'e) poll_ready \<Rightarrow> 'a RuntimeDriverAdapter \<Rightarrow> (HeadlessEngine \<Rightarrow> LiveRuntimeDriverIntake \<Rightarrow> 'a option)
     \<Rightarrow> ('a \<Rightarrow> CommittedSurfaceState list) \<Rightarrow> CompositorBackendTickInput
     \<Rightarrow> 'p HeadlessCompositorBackendAssembly
     \<Rightarrow> (('e CompositorBackendAssemblyError + CompositorBackendTickReport)
          \<times> 'p HeadlessCompositorBackendAssembly) option" where
  "run_tick_with_live_runtime_adapter fuel poll_ready ops build_adapter extract inp b =
     (case poll_once poll_ready (ba_input b) of
        (Inl e, adapter_input) \<Rightarrow> Some (Inl (BeInputPoll e), b\<lparr>ba_input := adapter_input\<rparr>)
      | (Inr input_poll, adapter_input) \<Rightarrow>
          (case per_output_next_frame (ho_id (he_output (pco_engine (ba_production b)))) (ba_clock b) of
             (tick, clock) \<Rightarrow>
          (case drain_assembly_inbox (bx_authority_batches inp) (ba_authority_inbox b) of
             (batches, inbox_report, inbox) \<Rightarrow>
          Option.bind (build_adapter (pco_engine (ba_production b))
             \<lparr>li_x_event_count = bx_x_event_count inp, li_authority_commits = bx_authority_commits inp,
              li_authority_batches = batches, li_wm_update = bx_wm_update inp,
              li_portal_commands = bx_portal_commands inp, li_chrome_command_count = bx_chrome_command_count inp,
              li_layers = bx_layer_templates inp,
              li_committed_surfaces = pco_committed_surfaces (ba_production b),
              li_scanout_submit_state = bx_scanout_submit_state inp,
              li_scanout_lifecycle_states = bx_scanout_lifecycle_states inp\<rparr>) (\<lambda>adapter.
          map_option (\<lambda>(r, adapter', driver).
              let committed = (case r of Inl _ \<Rightarrow> extract adapter | Inr _ \<Rightarrow> extract adapter');
                  b' = b\<lparr>ba_input := adapter_input, ba_clock := clock, ba_authority_inbox := inbox, ba_driver := driver,
                         ba_production := (ba_production b)\<lparr>pco_committed_surfaces := committed\<rparr>\<rparr> in
              case r of
                Inl e \<Rightarrow> (Inl (BeEngine e), b')
              | Inr runtime \<Rightarrow>
                  (case (case dr_session_tick runtime of
                           None \<Rightarrow> Inr None
                         | Some session_tick \<Rightarrow>
                             map_sum id Some (selected_render_frame (ba_renderer b) (pco_engine (ba_production b))
                               (sr_frame session_tick))) of
                     Inl e \<Rightarrow> (Inl (BeEngine e), b')
                   | Inr render \<Rightarrow>
                       (Inr \<lparr>tk_tick = tick, tk_input_poll = input_poll,
                             tk_physical_input = intake_report_from_poll input_poll (length (le_pending (pa_source adapter_input))),
                             tk_authority_inbox = inbox_report, tk_runtime = runtime, tk_render = render\<rparr>, b')))
            (run_with_adapter fuel ops (ct_output tick) (ct_frame_serial tick) adapter (ba_driver b))))))"

definition backend_run_tick ::
  "nat \<Rightarrow> ('p, 'e) poll_ready \<Rightarrow> CompositorBackendTickInput \<Rightarrow> 'p HeadlessCompositorBackendAssembly
     \<Rightarrow> (('e CompositorBackendAssemblyError + CompositorBackendTickReport)
          \<times> 'p HeadlessCompositorBackendAssembly) option" where
  "backend_run_tick fuel poll_ready inp b =
     run_tick_with_live_runtime_adapter fuel poll_ready live_adapter (\<lambda>engine intake. from_authority_batches intake)
       (\<lambda>adapter. lr_committed_surfaces (la_renderer adapter)) inp b"

section \<open>Discovery (live_backend.rs)\<close>

datatype 'e LiveCompositorBackendDiscoveryStatus =
  DiReady | DiNoOutputs | DiOutputDiscoveryFailed 'e | DiInputDiscoveryFailed 'e

record 'e LiveCompositorBackendDiscoveryReport =
  di_status :: "'e LiveCompositorBackendDiscoveryStatus"
  di_outputs :: DrmKmsOutputRegistry
  di_selected_output :: "HeadlessOutput option"
  di_input_source :: LibinputEventSource

definition discovery_is_ready :: "'e LiveCompositorBackendDiscoveryReport \<Rightarrow> bool" where
  "discovery_is_ready r = (case di_status r of DiReady \<Rightarrow> True | _ \<Rightarrow> False)"

definition static_input_source :: "LibinputDeviceDescriptor list \<Rightarrow> LibinputEventSource" where
  "static_input_source devices = fold register_device devices event_source_new"

text \<open>The two discovery backends are the results they return.\<close>

definition discover_live_compositor_backend ::
  "'e + DrmKmsOutputRegistry \<Rightarrow> 'e + LibinputEventSource \<Rightarrow> 'e LiveCompositorBackendDiscoveryReport" where
  "discover_live_compositor_backend outputs inp =
     (case outputs of
        Inl e \<Rightarrow> \<lparr>di_status = DiOutputDiscoveryFailed e, di_outputs = drm_registry_new, di_selected_output = None,
                 di_input_source = event_source_new\<rparr>
      | Inr outputs \<Rightarrow>
          (case primary_engine_output outputs of
             None \<Rightarrow> \<lparr>di_status = DiNoOutputs, di_outputs = outputs, di_selected_output = None,
                      di_input_source = event_source_new\<rparr>
           | Some selected \<Rightarrow>
               (case inp of
                  Inl e \<Rightarrow> \<lparr>di_status = DiInputDiscoveryFailed e, di_outputs = outputs,
                            di_selected_output = Some selected, di_input_source = event_source_new\<rparr>
                | Inr source \<Rightarrow> \<lparr>di_status = DiReady, di_outputs = outputs, di_selected_output = Some selected,
                                 di_input_source = source\<rparr>)))"

definition into_headless_assembly ::
  "'e LiveCompositorBackendDiscoveryReport \<Rightarrow> 'p \<Rightarrow> RendererSelection
     \<Rightarrow> 'p HeadlessCompositorBackendAssembly option" where
  "into_headless_assembly r poller renderer =
     Option.bind (di_selected_output r) (\<lambda>output.
       if \<not> discovery_is_ready r then None
       else Some (assembly_from_parts output (di_outputs r) frame_clock_default
         \<lparr>pa_poller = poller, pa_source = di_input_source r\<rparr> renderer))"

section \<open>Commits and the inbox\<close>

lemma intake_commit_total:
  assumes "committed_wf cs"
  shows "\<exists>c cs'. intake_commit b cs = Some (c, cs') \<and> committed_wf cs'"
proof -
  obtain c cs' where "commit_surface_transactions (ai_transaction b) (ai_transactions b) cs = Some (c, cs')" "committed_wf cs'"
    using apply_prepared_spec [OF assms assms, of "ai_transaction b" "ai_transactions b"]
    by (auto simp: commit_surface_transactions_def)
  moreover have "committed_wf (filter P cs')" for P
    using \<open>committed_wf cs'\<close> by (simp add: committed_wf_def distinct_map_filter)
  ultimately show ?thesis by (auto simp: intake_commit_def)
qed

lemma intake_commits_total:
  "committed_wf cs \<Longrightarrow> \<exists>commits cs'. intake_commits bs cs = Some (commits, cs') \<and> committed_wf cs' \<and> length commits = length bs"
proof (induction bs arbitrary: cs)
  case (Cons b bs)
  obtain c cs1 where c: "intake_commit b cs = Some (c, cs1)" "committed_wf cs1"
    using intake_commit_total [OF Cons.prems] by blast
  then show ?case using Cons.IH [OF c(2)] by auto
qed simp

lemma drain_inbox_spec:
  "drain_inbox n out r i = (out', r', i') \<Longrightarrow>
     out' = out @ take n (in_queued i) \<and> i' = i\<lparr>in_queued := drop n (in_queued i)\<rparr>
     \<and> ib_drained r' = ib_drained r + length (take n (in_queued i))
     \<and> (ib_max_reached r' \<longleftrightarrow> ib_max_reached r \<or> n \<le> length (in_queued i))"
proof (induction n out r i rule: drain_inbox.induct)
  case (2 n out r i)
  then show ?case by (cases "in_queued i") (auto split: if_splits)
qed auto

fun taken :: "AuthorityTransactionInbox option \<Rightarrow> AuthorityTransactionIntake list" where
  "taken None = []"
| "taken (Some i) = take (in_max_drain_per_tick i) (in_queued i)"

fun left_over :: "AuthorityTransactionInbox option \<Rightarrow> AuthorityTransactionInbox option" where
  "left_over None = None"
| "left_over (Some i) = Some (i\<lparr>in_queued := drop (in_max_drain_per_tick i) (in_queued i)\<rparr>)"

lemma drain_assembly_inbox_spec:
  "\<exists>r. drain_assembly_inbox bs i = (bs @ taken i, r, left_over i) \<and> ib_drained r = length (taken i)"
proof (cases i)
  case (Some inbox)
  obtain out r inbox' where d: "drain_inbox (in_max_drain_per_tick inbox) bs inbox_report_default inbox = (out, r, inbox')"
    using prod_cases3 by blast
  from drain_inbox_spec [OF d] d show ?thesis
    by (simp add: drain_assembly_inbox_def drain_ready_def Some inbox_report_default_def)
qed (simp add: drain_assembly_inbox_def inbox_report_default_def)

section \<open>Full-state presents\<close>

text \<open>What a transaction of a full-state present needs besides its generation, which is rebased.\<close>

definition present_ready :: "(SurfaceId \<rightharpoonup> CommittedSurfaceState) \<Rightarrow> SurfaceTransaction \<Rightarrow> bool" where
  "present_ready m x \<longleftrightarrow> surface_is_valid (st_surface x) \<and> \<not> rect_is_empty (st_target_geometry x) \<and> st_readiness x = TrReady
     \<and> (m (st_surface x) = None \<longrightarrow> st_target_buffer x \<noteq> BufNone)"

lemma rebase_surfaces [simp]: "map st_surface (rebase_full_state_present_transactions xs cs) = map st_surface xs"
  by (simp add: rebase_full_state_present_transactions_def)

lemma rebase_surface_set [simp]: "st_surface ` set (rebase_full_state_present_transactions xs cs) = st_surface ` set xs"
  by (simp only: set_map [symmetric] rebase_surfaces)

lemma rebase_applicable:
  "spec_applicable tx (committed_of cs) (rebase_full_state_present_transactions xs cs)
   \<longleftrightarrow> (\<forall>x \<in> set xs. st_transaction x = tx \<and> present_ready (committed_of cs) x)"
  by (force simp: spec_applicable_def spec_ready_def present_ready_def rebase_full_state_present_transactions_def
      committed_of_def split: option.splits)

definition generation_of :: "CommittedSurfaceState list \<Rightarrow> SurfaceId \<Rightarrow> u64" where
  "generation_of cs f = (case committed_of cs f of None \<Rightarrow> 0 | Some d \<Rightarrow> cs_committed_generation d)"

definition presented_as :: "SurfaceTransaction list \<Rightarrow> u64 \<Rightarrow> SurfaceId \<Rightarrow> CommittedSurfaceState \<Rightarrow> bool" where
  "presented_as xs g f d \<longleftrightarrow> cs_surface d = f \<and> cs_committed_generation d = sat_add g 1
     \<and> (\<exists>x \<in> set xs. st_surface x = f \<and> cs_geometry d = st_target_geometry x \<and> cs_buffer d = st_target_buffer x)"

lemma rebase_commit:
  assumes "f \<in> st_surface ` set xs"
  shows "\<exists>d. spec_commit (rebase_full_state_present_transactions xs cs) m f = Some d \<and> presented_as xs (generation_of cs f) f d"
proof -
  have "f \<in> st_surface ` set (rebase_full_state_present_transactions xs cs)" using assms by simp
  then obtain y where y: "y \<in> set (rebase_full_state_present_transactions xs cs)" "st_surface y = f"
    "spec_commit (rebase_full_state_present_transactions xs cs) m f = Some (next_state y)"
    by (metis spec_commit_at)
  obtain x where "x \<in> set xs" "y = x\<lparr>st_previous_committed_generation := generation_of cs (st_surface x)\<rparr>"
    using y(1) by (auto simp: rebase_full_state_present_transactions_def generation_of_def committed_of_def)
  with y show ?thesis by (auto simp: presented_as_def intro!: exI [of _ "next_state y"])
qed

section \<open>Service order\<close>

fun service_run :: "ProductionAsyncServiceObservation list \<Rightarrow> ProductionAsyncServiceCursor \<Rightarrow> ProductionAsyncServicePhase list" where
  "service_run [] cursor = []"
| "service_run (ob # obs) cursor =
     (case next_phase ob cursor of (None, _) \<Rightarrow> [] | (Some ph, cursor') \<Rightarrow> ph # service_run obs cursor')"

text \<open>However the observations change, each phase comes at most once, retirement before presents before frames.\<close>

lemma service_run_order:
  "subseq (service_run obs CurRetirement) [SvKmsRetire, SvSchedulePresent, SvSubmitPendingFrame]"
proof -
  have e: "service_run obs CurComplete = []" for obs by (cases obs) simp_all
  have f: "subseq (service_run obs CurPendingFrame) [SvSubmitPendingFrame]" for obs
    by (cases obs) (simp_all add: e)
  have p: "subseq (service_run obs CurPresent) [SvSchedulePresent, SvSubmitPendingFrame]" for obs
    using f by (cases obs) (auto simp: e)
  show ?thesis using p by (cases obs) (auto simp: e f)
qed

text \<open>With nothing changing during one service, exactly the phases whose condition holds are run.\<close>

lemma service_run_complete:
  "service_run (replicate 4 ob) CurRetirement =
     (if so_retirement_required ob then [SvKmsRetire] else [])
     @ (if so_present_queued ob \<and> \<not> so_present_output_blocked ob then [SvSchedulePresent] else [])
     @ (if so_pending_output_ready ob then [SvSubmitPendingFrame] else [])"
  by (simp add: eval_nat_numeral)

section \<open>Properties\<close>

text \<open>
  Property C33. A full-state present survives skipped frames and never tears: whatever generations the
  authority counted meanwhile, its transactions are rebased onto the visible generation, so a valid present is
  always prepared; when its page flip retires, it is applied exactly if the surfaces it touches have not been
  committed by anyone else, each surface then moves to its next generation with the presented content, all
  other surfaces keep what was committed meanwhile and the feedback runs once; otherwise nothing is changed
  and the feedback is not run.
\<close>

theorem full_state_present_completes:
  assumes "committed_wf (pco_committed_surfaces c)" "committed_wf (pco_committed_surfaces c2)"
    and "\<forall>x \<in> set xs. st_transaction x = tx \<and> present_ready (committed_of (pco_committed_surfaces c)) x"
  shows "\<exists>r c' w'. complete_prepared_retirement (prepare_full_state_present tx xs c) feedback c2 w = Some (r, c', w')
    \<and> (if \<forall>f \<in> st_surface ` set xs. committed_of (pco_committed_surfaces c) f = committed_of (pco_committed_surfaces c2) f
       then (\<forall>f. if f \<in> st_surface ` set xs
              then \<exists>d. committed_of (pco_committed_surfaces c') f = Some d
                   \<and> presented_as xs (generation_of (pco_committed_surfaces c) f) f d
              else committed_of (pco_committed_surfaces c') f = committed_of (pco_committed_surfaces c2) f)
          \<and> w' = snd (feedback w)
          \<and> (case fst (feedback w) of
               Inl e \<Rightarrow> r = Inl (ProtocolFeedback e)
             | Inr v \<Rightarrow> \<exists>rep. r = Inr rep \<and> rrp_evidence rep = v \<and> rrp_committed_surfaces rep = pco_committed_surfaces c')
       else (\<exists>commit. r = Inl (EngineCommit commit) \<and> tc_applied_surfaces commit = []) \<and> c' = c2 \<and> w' = w)"
proof -
  let ?xs = "rebase_full_state_present_transactions xs (pco_committed_surfaces c)"
  have app: "spec_applicable tx (committed_of (pco_committed_surfaces c)) ?xs" using assms(3) by (simp add: rebase_applicable)
  define same where "same \<longleftrightarrow> (\<forall>f \<in> st_surface ` set xs.
      committed_of (pco_committed_surfaces c) f = committed_of (pco_committed_surfaces c2) f)"
  have same': "(\<forall>x \<in> set ?xs. committed_of (pco_committed_surfaces c) (st_surface x)
      = committed_of (pco_committed_surfaces c2) (st_surface x)) \<longleftrightarrow> same"
    unfolding same_def rebase_surface_set [of xs "pco_committed_surfaces c", symmetric] by (simp del: rebase_surface_set)
  obtain commit cs' where r: "apply_prepared_surface_commit (prepare_full_state_present tx xs c) (pco_committed_surfaces c2) = Some (commit, cs')"
    and p: "if same
       then tc_outcome commit = Committed \<and> committed_of cs' = spec_commit ?xs (committed_of (pco_committed_surfaces c2))
       else tc_outcome commit \<noteq> Committed \<and> tc_applied_surfaces commit = [] \<and> cs' = pco_committed_surfaces c2"
    using apply_prepared_spec [OF assms(1,2), of tx ?xs, unfolded same'] app unfolding prepare_full_state_present_def
    by (cases same) auto
  obtain fr w1 where fb: "feedback w = (fr, w1)" by force
  show ?thesis
  proof (cases same)
    case True
    then have commit: "tc_outcome commit = Committed" "committed_of cs' = spec_commit ?xs (committed_of (pco_committed_surfaces c2))"
      using p by auto
    have "if f \<in> st_surface ` set xs then \<exists>d. committed_of cs' f = Some d \<and> presented_as xs (generation_of (pco_committed_surfaces c) f) f d
        else committed_of cs' f = committed_of (pco_committed_surfaces c2) f" for f
      unfolding commit(2) using rebase_commit [of f xs "pco_committed_surfaces c"] spec_commit_other [of f ?xs] by simp
    then show ?thesis using True [unfolded same_def] commit(1) fb
      by (cases fr) (simp_all add: complete_prepared_retirement_def coordinator_apply_prepared_def r)
  next
    case False
    then have no: "tc_outcome commit \<noteq> Committed" "tc_applied_surfaces commit = []" "cs' = pco_committed_surfaces c2"
      using p by simp_all
    have "complete_prepared_retirement (prepare_full_state_present tx xs c) feedback c2 w = Some (Inl (EngineCommit commit), c2, w)"
      using no(1,3) by (simp add: complete_prepared_retirement_def coordinator_apply_prepared_def r)
    then show ?thesis using False [unfolded same_def] no(2) by auto
  qed
qed

definition example_coordinator :: "CommittedSurfaceState list \<Rightarrow> ProductionSessionCoordinator" where
  "example_coordinator cs = (coordinator_new example_engine)\<lparr>pco_committed_surfaces := cs\<rparr>"

theorem full_state_present_completes_witness:
  "\<exists>r c'. complete_prepared_retirement
        (prepare_full_state_present 7 [example_transaction\<lparr>st_previous_committed_generation := 5\<rparr>] (example_coordinator []))
        (\<lambda>n :: nat. (Inr n :: unit + nat, Suc n)) (example_coordinator [example_other]) 0 = Some (r, c', Suc 0)
     \<and> committed_of (pco_committed_surfaces c') (SurfaceId 5 1) = Some example_other
     \<and> (\<exists>d. committed_of (pco_committed_surfaces c') (SurfaceId 2 1) = Some d \<and> cs_committed_generation d = 1)"
proof -
  let ?x = "example_transaction\<lparr>st_previous_committed_generation := 5\<rparr>"
  have wf: "committed_wf (pco_committed_surfaces (example_coordinator []))"
    "committed_wf (pco_committed_surfaces (example_coordinator [example_other]))"
    by (simp_all add: committed_wf_def example_coordinator_def)
  have "\<forall>x \<in> set [?x]. st_transaction x = 7 \<and> present_ready (committed_of (pco_committed_surfaces (example_coordinator []))) x"
    by (simp add: present_ready_def example_transaction_def surface_is_valid_def rect_is_empty_def example_geometry_def word_max_def)
  note ready = this
  have x: "st_surface ` set [?x] = {SurfaceId 2 1}" by (simp add: example_transaction_def)
  have cs: "pco_committed_surfaces (example_coordinator cs) = cs" for cs by (simp add: example_coordinator_def)
  have n: "committed_of [] (SurfaceId 2 1) = None" "committed_of [example_other] (SurfaceId 2 1) = None"
    "committed_of [example_other] (SurfaceId 5 1) = Some example_other" "sat_add (generation_of [] (SurfaceId 2 1)) 1 = 1"
    by (simp_all add: committed_of_def generation_of_def sat_add_def example_other_def)
  obtain r c' w' where run: "complete_prepared_retirement (prepare_full_state_present 7 [?x] (example_coordinator []))
        (\<lambda>n :: nat. (Inr n :: unit + nat, Suc n)) (example_coordinator [example_other]) 0 = Some (r, c', w')"
    and p: "\<And>f. if f \<in> {SurfaceId 2 1}
              then \<exists>d. committed_of (pco_committed_surfaces c') f = Some d \<and> presented_as [?x] (generation_of [] f) f d
              else committed_of (pco_committed_surfaces c') f = committed_of [example_other] f" "w' = Suc 0"
    using full_state_present_completes [OF wf ready, of "\<lambda>n :: nat. (Inr n :: unit + nat, Suc n)" 0]
    unfolding x cs by (auto simp: n)
  show ?thesis using run p(1) [of "SurfaceId 2 1"] p(1) [of "SurfaceId 5 1"] p(2) n(3,4) by (auto simp: presented_as_def)
qed

text \<open>
  Property C34. A compositor tick always ends and never loses an accepted transaction. If the input poller
  fails, nothing but the poller has changed. Otherwise the batches handed in and at most the inbox's limit of
  queued ones, in order, are committed one after the other, and their result is the committed state after the
  tick, also when the runtime or the renderer fails later; the queued rest stays for the next tick, the clock
  of the output moves on by one frame, and exactly the events of known input devices are queued.
\<close>

theorem compositor_tick_keeps_commits:
  assumes "committed_wf (pco_committed_surfaces (ba_production b))"
  shows "\<exists>r b'. backend_run_tick (7 + fuel) poll_ready inp b = Some (r, b') \<and>
    (case poll_ready (pa_poller (ba_input b)) of
       (Inl e, p) \<Rightarrow> r = Inl (BeInputPoll e) \<and> b' = b\<lparr>ba_input := (ba_input b)\<lparr>pa_poller := p\<rparr>\<rparr>
     | (Inr events, p) \<Rightarrow>
         (\<exists>commits. intake_commits (bx_authority_batches inp @ taken (ba_authority_inbox b))
              (pco_committed_surfaces (ba_production b)) = Some (commits, pco_committed_surfaces (ba_production b')))
         \<and> committed_wf (pco_committed_surfaces (ba_production b'))
         \<and> ba_authority_inbox b' = left_over (ba_authority_inbox b)
         \<and> ba_clock b' = snd (per_output_next_frame (ho_id (he_output (pco_engine (ba_production b)))) (ba_clock b))
         \<and> le_pending (pa_source (ba_input b')) = le_pending (pa_source (ba_input b)) @ filter (known_event (pa_source (ba_input b))) events
         \<and> (\<forall>report. r = Inr report \<longrightarrow>
              tk_tick report = fst (per_output_next_frame (ho_id (he_output (pco_engine (ba_production b)))) (ba_clock b))
              \<and> ib_drained (tk_authority_inbox report) = length (taken (ba_authority_inbox b))
              \<and> lp_accepted (tk_input_poll report) = length (filter (known_event (pa_source (ba_input b))) events)
              \<and> (tk_render report = None \<longleftrightarrow> dr_session_tick (tk_runtime report) = None)))"
proof (cases "poll_ready (pa_poller (ba_input b))")
  case (Pair res p)
  show ?thesis
  proof (cases res)
    case (Inl e)
    then show ?thesis using Pair
      by (simp add: backend_run_tick_def run_tick_with_live_runtime_adapter_def poll_once_def)
  next
    case (Inr events)
    obtain acc rej src where ing: "ingest_events events 0 [] (pa_source (ba_input b)) = (acc, rej, src)"
      using prod_cases3 by blast
    note src = ingest_events_spec [OF ing]
    obtain tick clock where clk: "per_output_next_frame (ho_id (he_output (pco_engine (ba_production b)))) (ba_clock b) = (tick, clock)"
      by force
    obtain irep where inbox: "drain_assembly_inbox (bx_authority_batches inp) (ba_authority_inbox b)
        = (bx_authority_batches inp @ taken (ba_authority_inbox b), irep, left_over (ba_authority_inbox b))"
      "ib_drained irep = length (taken (ba_authority_inbox b))"
      using drain_assembly_inbox_spec by blast
    obtain commits cs where cs: "intake_commits (bx_authority_batches inp @ taken (ba_authority_inbox b))
        (pco_committed_surfaces (ba_production b)) = Some (commits, cs)" "committed_wf cs"
      using intake_commits_total [OF assms] by blast
    define adapter where "adapter = the (from_authority_batches
      \<lparr>li_x_event_count = bx_x_event_count inp, li_authority_commits = bx_authority_commits inp,
       li_authority_batches = bx_authority_batches inp @ taken (ba_authority_inbox b), li_wm_update = bx_wm_update inp,
       li_portal_commands = bx_portal_commands inp, li_chrome_command_count = bx_chrome_command_count inp,
       li_layers = bx_layer_templates inp, li_committed_surfaces = pco_committed_surfaces (ba_production b),
       li_scanout_submit_state = bx_scanout_submit_state inp,
       li_scanout_lifecycle_states = bx_scanout_lifecycle_states inp\<rparr>)"
    have ad: "from_authority_batches
      \<lparr>li_x_event_count = bx_x_event_count inp, li_authority_commits = bx_authority_commits inp,
       li_authority_batches = bx_authority_batches inp @ taken (ba_authority_inbox b), li_wm_update = bx_wm_update inp,
       li_portal_commands = bx_portal_commands inp, li_chrome_command_count = bx_chrome_command_count inp,
       li_layers = bx_layer_templates inp, li_committed_surfaces = pco_committed_surfaces (ba_production b),
       li_scanout_submit_state = bx_scanout_submit_state inp,
       li_scanout_lifecycle_states = bx_scanout_lifecycle_states inp\<rparr> = Some adapter"
      "lr_committed_surfaces (la_renderer adapter) = cs"
      unfolding adapter_def by (simp_all add: from_authority_batches_def cs from_intake_def)
    obtain rr d' where run: "run_with_adapter (7 + fuel) live_adapter (ct_output tick) (ct_frame_serial tick) adapter (ba_driver b)
        = Some (rr, adapter, d')"
      using live_tick_ends by blast
    note tick_simps = backend_run_tick_def run_tick_with_live_runtime_adapter_def poll_once_def Pair Inr ing clk inbox(1) ad run
    show ?thesis
    proof (cases rr)
      case (Inl e)
      then show ?thesis using src cs inbox(2) by (simp add: tick_simps Pair Inr)
    next
      case run_ok: (Inr runtime)
      show ?thesis
      proof (cases "dr_session_tick runtime")
        case None
        then show ?thesis using src cs inbox(2) run_ok by (simp add: tick_simps)
      next
        case (Some st)
        then show ?thesis using src cs inbox(2) run_ok
          by (cases "selected_render_frame (ba_renderer b) (pco_engine (ba_production b)) (sr_frame st)") (simp_all add: tick_simps)
      qed
    qed
  qed
qed

definition example_tick_input :: CompositorBackendTickInput where
  "example_tick_input =
     \<lparr>bx_x_event_count = 0, bx_authority_commits = [],
      bx_authority_batches = [\<lparr>ai_transaction = 7, ai_transactions = [example_transaction], ai_removed_surfaces = []\<rparr>],
      bx_wm_update = None, bx_portal_commands = [], bx_chrome_command_count = 0, bx_layer_templates = [],
      bx_scanout_submit_state = None, bx_scanout_lifecycle_states = []\<rparr>"

theorem compositor_tick_keeps_commits_witness:
  "\<exists>r b'. backend_run_tick 7 (queued_poll_ready :: (QueuedInputPoller, unit) poll_ready) example_tick_input
        (assembly_new headless_output_deterministic :: QueuedInputPoller HeadlessCompositorBackendAssembly) = Some (r, b')
     \<and> committed_of (pco_committed_surfaces (ba_production b')) (SurfaceId 2 1) = Some (next_state example_transaction)"
proof -
  let ?b = "assembly_new headless_output_deterministic :: QueuedInputPoller HeadlessCompositorBackendAssembly"
  let ?batch = "\<lparr>ai_transaction = 7, ai_transactions = [example_transaction], ai_removed_surfaces = []\<rparr> :: AuthorityTransactionIntake"
  have b: "pco_committed_surfaces (ba_production ?b) = []" "ba_authority_inbox ?b = None" "qp_queued (pa_poller (ba_input ?b)) = []"
    by (simp_all add: assembly_new_def assembly_from_parts_def coordinator_new_def Let_def)
  have wf: "committed_wf (pco_committed_surfaces (ba_production ?b))" by (simp add: b committed_wf_def)
  have nil: "committed_wf []" by (simp add: committed_wf_def)
  have cs: "committed_of cs (SurfaceId 2 1) = Some (next_state example_transaction)"
    if "intake_commits [?batch] [] = Some (commits, cs)" for commits cs
    using that apply_prepared_spec [OF nil nil, of 7 "[example_transaction]"] example_applicable
    by (auto simp: intake_commit_def commit_surface_transactions_def spec_commit_def example_transaction_def split: if_splits)
  have inp: "bx_authority_batches example_tick_input = [?batch]" by (simp add: example_tick_input_def)
  obtain r b' commits where run: "backend_run_tick 7 (queued_poll_ready :: (QueuedInputPoller, unit) poll_ready) example_tick_input ?b = Some (r, b')"
    and commits: "intake_commits [?batch] [] = Some (commits, pco_committed_surfaces (ba_production b'))"
    using compositor_tick_keeps_commits [OF wf, of 0 "queued_poll_ready :: (QueuedInputPoller, unit) poll_ready" example_tick_input]
    unfolding b inp by (auto simp: queued_poll_ready_def simp del: intake_commits.simps)
  show ?thesis by (intro exI conjI) (rule run, rule cs [OF commits])
qed

end
