(* ===== verification/Process_Supervisor.thy ===== *)
theory Process_Supervisor
  imports Session_Runtime
begin

text \<open>
  Supervised child processes (\<^verbatim>\<open>sophia-runtime/src/supervisor/process.rs\<close>), the supervisor of the X authority
  with the health it reports to the session (\<^verbatim>\<open>authority.rs\<close>) and the pair of broker supervisors (\<^verbatim>\<open>brokers.rs\<close>).
  The operating system is a parameter: spawning, waiting, killing and sleeping act on a world \<open>'w\<close> and may
  fail with a message. Dropping a supervisor terminates its child.
\<close>

section \<open>Child processes (process.rs)\<close>

record ProcessLaunchSpec =
  ps_program :: rust_string
  ps_args :: "rust_string list"


definition launch_spec_arg :: "rust_string \<Rightarrow> ProcessLaunchSpec \<Rightarrow> ProcessLaunchSpec" where
  "launch_spec_arg a s = s\<lparr>ps_args := ps_args s @ [a]\<rparr>"

datatype ProcessSupervisorError =
    WrongProcess SupervisedProcessKind SupervisedProcessKind
  | AlreadyRunning SupervisedProcessKind
  | SpawnFailed SupervisedProcessKind rust_string
  | WaitFailed SupervisedProcessKind rust_string

text \<open>The calls into the operating system; \<open>try_wait\<close> tells whether the child has exited.\<close>

record ('c, 'w) process_ops =
  os_spawn :: "ProcessLaunchSpec \<Rightarrow> 'w \<Rightarrow> (rust_string + 'c) \<times> 'w"
  os_try_wait :: "'c \<Rightarrow> 'w \<Rightarrow> (rust_string + bool) \<times> 'w"
  os_kill :: "'c \<Rightarrow> 'w \<Rightarrow> (rust_string + unit) \<times> 'w"
  os_wait :: "'c \<Rightarrow> 'w \<Rightarrow> (rust_string + unit) \<times> 'w"
  os_sleep :: "duration \<Rightarrow> 'w \<Rightarrow> 'w"

record 'c ProcessSupervisor =
  pv_process :: SupervisedProcessKind
  pv_spec :: ProcessLaunchSpec
  pv_child :: "'c option"

type_synonym ('c, 'w, 'r) supervised = "(ProcessSupervisorError + 'r) \<times> 'c ProcessSupervisor \<times> 'w"

definition process_supervisor_new :: "SupervisedProcessKind \<Rightarrow> ProcessLaunchSpec \<Rightarrow> 'c ProcessSupervisor" where
  "process_supervisor_new process spec = \<lparr>pv_process = process, pv_spec = spec, pv_child = None\<rparr>"

definition ensure_process :: "SupervisedProcessKind \<Rightarrow> 'c ProcessSupervisor \<Rightarrow> ProcessSupervisorError + unit" where
  "ensure_process process p = (if process = pv_process p then Inr () else Inl (WrongProcess (pv_process p) process))"

definition start_after ::
  "('c, 'w) process_ops \<Rightarrow> duration \<Rightarrow> 'c ProcessSupervisor \<Rightarrow> 'w \<Rightarrow> ('c, 'w, SupervisorEvent) supervised" where
  "start_after ops delay p w =
     (if pv_child p \<noteq> None then (Inl (AlreadyRunning (pv_process p)), p, w)
      else let w = (if delay = 0 then w else os_sleep ops delay w) in
        case os_spawn ops (pv_spec p) w of
          (Inl message, w') \<Rightarrow> (Inl (SpawnFailed (pv_process p) message), p, w')
        | (Inr child, w') \<Rightarrow> (Inr ProcessStarted, p\<lparr>pv_child := Some child\<rparr>, w'))"

fun process_apply ::
  "('c, 'w) process_ops \<Rightarrow> SupervisorCommand \<Rightarrow> 'c ProcessSupervisor \<Rightarrow> 'w \<Rightarrow> ('c, 'w, SupervisorEvent option) supervised" where
  "process_apply ops NoCommand p w = (Inr None, p, w)"
| "process_apply ops (GiveUp process) p w =
     (case ensure_process process p of Inl e \<Rightarrow> (Inl e, p, w) | Inr _ \<Rightarrow> (Inr None, p, w))"
| "process_apply ops (StartProcess process delay) p w =
     (case ensure_process process p of
        Inl e \<Rightarrow> (Inl e, p, w)
      | Inr _ \<Rightarrow> (case start_after ops delay p w of (r, p', w') \<Rightarrow> (map_sum id Some r, p', w')))"

definition process_poll ::
  "('c, 'w) process_ops \<Rightarrow> 'c ProcessSupervisor \<Rightarrow> 'w \<Rightarrow> ('c, 'w, SupervisorEvent option) supervised" where
  "process_poll ops p w =
     (case pv_child p of
        None \<Rightarrow> (Inr None, p, w)
      | Some child \<Rightarrow>
          (case os_try_wait ops child w of
             (Inr True, w') \<Rightarrow> (Inr (Some ProcessExited), p\<lparr>pv_child := None\<rparr>, w')
           | (Inr False, w') \<Rightarrow> (Inr None, p, w')
           | (Inl message, w') \<Rightarrow> (Inl (WaitFailed (pv_process p) message), p, w')))"

definition process_terminate ::
  "('c, 'w) process_ops \<Rightarrow> 'c ProcessSupervisor \<Rightarrow> 'w \<Rightarrow> ('c, 'w, unit) supervised" where
  "process_terminate ops p w =
     (case pv_child p of
        None \<Rightarrow> (Inr (), p, w)
      | Some child \<Rightarrow>
          let p = p\<lparr>pv_child := None\<rparr>; failed = (\<lambda>message. Inl (WaitFailed (pv_process p) message)) in
          (case os_try_wait ops child w of
             (Inl message, w1) \<Rightarrow> (failed message, p, w1)
           | (Inr exited, w1) \<Rightarrow>
               (case (if exited then (Inr (), w1) else os_kill ops child w1) of
                  (Inl message, w2) \<Rightarrow> (failed message, p, w2)
                | (Inr _, w2) \<Rightarrow>
                    (case os_wait ops child w2 of
                       (Inl message, w3) \<Rightarrow> (failed message, p, w3)
                     | (Inr _, w3) \<Rightarrow> (Inr (), p, w3)))))"

section \<open>X authority (authority.rs)\<close>

record 'c RuntimeAuthoritySupervisor =
  as_x_authority :: "'c ProcessSupervisor"
  as_generation :: u64

record RuntimeAuthoritySupervisorReport =
  ar_start :: "SupervisorEvent option"
  ar_poll :: "SupervisorEvent option"
  ar_observations :: "SessionRuntimeObservation list"


definition health_observation ::
  "BrokerHealthState \<Rightarrow> 'c RuntimeAuthoritySupervisor \<Rightarrow> SessionRuntimeObservation \<times> 'c RuntimeAuthoritySupervisor" where
  "health_observation state a =
     (let a = a\<lparr>as_generation := sat_add (as_generation a) 1\<rparr> in
      (ObAuthorityProcessHealthChanged SophiaXAuthority state (as_generation a) 0, a))"

fun observation_from_event ::
  "SupervisorEvent \<Rightarrow> 'c RuntimeAuthoritySupervisor \<Rightarrow> SessionRuntimeObservation option \<times> 'c RuntimeAuthoritySupervisor" where
  "observation_from_event ProcessStarted a = (case health_observation BhReady a of (ob, a') \<Rightarrow> (Some ob, a'))"
| "observation_from_event ProcessHealthy a = (case health_observation BhReady a of (ob, a') \<Rightarrow> (Some ob, a'))"
| "observation_from_event ProcessExited a = (case health_observation BhStopped a of (ob, a') \<Rightarrow> (Some ob, a'))"
| "observation_from_event _ a = (None, a)"

definition observation_from_optional_event ::
  "SupervisorEvent option \<Rightarrow> 'c RuntimeAuthoritySupervisor \<Rightarrow> SessionRuntimeObservation option \<times> 'c RuntimeAuthoritySupervisor" where
  "observation_from_optional_event event a =
     (case event of None \<Rightarrow> (None, a) | Some event \<Rightarrow> observation_from_event event a)"

definition authority_start ::
  "('c, 'w) process_ops \<Rightarrow> 'c RuntimeAuthoritySupervisor \<Rightarrow> 'w
     \<Rightarrow> (ProcessSupervisorError + RuntimeAuthoritySupervisorReport) \<times> 'c RuntimeAuthoritySupervisor \<times> 'w" where
  "authority_start ops a w =
     (case process_apply ops (StartProcess SophiaXAuthority 0) (as_x_authority a) w of
        (Inl e, p, w1) \<Rightarrow> (Inl e, a\<lparr>as_x_authority := p\<rparr>, w1)
      | (Inr start, p, w1) \<Rightarrow>
          (case observation_from_optional_event start (a\<lparr>as_x_authority := p\<rparr>) of (start_ob, a1) \<Rightarrow>
          (case process_poll ops (as_x_authority a1) w1 of
             (Inl e, p2, w2) \<Rightarrow> (Inl e, a1\<lparr>as_x_authority := p2\<rparr>, w2)
           | (Inr poll, p2, w2) \<Rightarrow>
               (case observation_from_optional_event poll (a1\<lparr>as_x_authority := p2\<rparr>) of (poll_ob, a2) \<Rightarrow>
                  (Inr \<lparr>ar_start = start, ar_poll = poll,
                        ar_observations = List.map_filter (\<lambda>x. x) [start_ob, poll_ob]\<rparr>, a2, w2)))))"

definition authority_poll ::
  "('c, 'w) process_ops \<Rightarrow> 'c RuntimeAuthoritySupervisor \<Rightarrow> 'w
     \<Rightarrow> (ProcessSupervisorError + SupervisorEvent option \<times> SessionRuntimeObservation list)
          \<times> 'c RuntimeAuthoritySupervisor \<times> 'w" where
  "authority_poll ops a w =
     (case process_poll ops (as_x_authority a) w of
        (Inl e, p, w1) \<Rightarrow> (Inl e, a\<lparr>as_x_authority := p\<rparr>, w1)
      | (Inr event, p, w1) \<Rightarrow>
          (case observation_from_optional_event event (a\<lparr>as_x_authority := p\<rparr>) of (ob, a1) \<Rightarrow>
             (Inr (event, List.map_filter (\<lambda>x. x) [ob]), a1, w1)))"

definition authority_terminate ::
  "('c, 'w) process_ops \<Rightarrow> 'c RuntimeAuthoritySupervisor \<Rightarrow> 'w
     \<Rightarrow> (ProcessSupervisorError + SessionRuntimeObservation) \<times> 'c RuntimeAuthoritySupervisor \<times> 'w" where
  "authority_terminate ops a w =
     (case process_terminate ops (as_x_authority a) w of
        (Inl e, p, w1) \<Rightarrow> (Inl e, a\<lparr>as_x_authority := p\<rparr>, w1)
      | (Inr _, p, w1) \<Rightarrow>
          (case health_observation BhStopped (a\<lparr>as_x_authority := p\<rparr>) of (ob, a1) \<Rightarrow> (Inr ob, a1, w1)))"

section \<open>Brokers (brokers.rs)\<close>

record 'c RuntimeBrokerSupervisors =
  bs_portal :: "'c ProcessSupervisor"
  bs_metadata :: "'c ProcessSupervisor"

record RuntimeBrokerSupervisorReport =
  br_portal_start :: "SupervisorEvent option"
  br_metadata_start :: "SupervisorEvent option"
  br_portal_poll :: "SupervisorEvent option"
  br_metadata_poll :: "SupervisorEvent option"

definition broker_supervisors_new :: "ProcessLaunchSpec \<Rightarrow> ProcessLaunchSpec \<Rightarrow> 'c RuntimeBrokerSupervisors" where
  "broker_supervisors_new portal_spec metadata_spec =
     \<lparr>bs_portal = process_supervisor_new PortalBroker portal_spec,
      bs_metadata = process_supervisor_new MetadataBroker metadata_spec\<rparr>"

text \<open>One call on the portal supervisor and one on the metadata supervisor, in this order.\<close>

definition on_both ::
  "('c ProcessSupervisor \<Rightarrow> 'w \<Rightarrow> ('c, 'w, 'a) supervised) \<Rightarrow> ('c ProcessSupervisor \<Rightarrow> 'w \<Rightarrow> ('c, 'w, 'b) supervised)
     \<Rightarrow> 'c RuntimeBrokerSupervisors \<Rightarrow> 'w \<Rightarrow> (ProcessSupervisorError + 'a \<times> 'b) \<times> 'c RuntimeBrokerSupervisors \<times> 'w" where
  "on_both f g b w =
     (case f (bs_portal b) w of
        (Inl e, p, w1) \<Rightarrow> (Inl e, b\<lparr>bs_portal := p\<rparr>, w1)
      | (Inr x, p, w1) \<Rightarrow>
          (case g (bs_metadata b) w1 of
             (Inl e, m, w2) \<Rightarrow> (Inl e, b\<lparr>bs_portal := p, bs_metadata := m\<rparr>, w2)
           | (Inr y, m, w2) \<Rightarrow> (Inr (x, y), b\<lparr>bs_portal := p, bs_metadata := m\<rparr>, w2)))"

definition poll_all ::
  "('c, 'w) process_ops \<Rightarrow> 'c RuntimeBrokerSupervisors \<Rightarrow> 'w
     \<Rightarrow> (ProcessSupervisorError + SupervisorEvent option \<times> SupervisorEvent option) \<times> 'c RuntimeBrokerSupervisors \<times> 'w" where
  "poll_all ops = on_both (process_poll ops) (process_poll ops)"

definition start_placeholders ::
  "('c, 'w) process_ops \<Rightarrow> 'c RuntimeBrokerSupervisors \<Rightarrow> 'w
     \<Rightarrow> (ProcessSupervisorError + RuntimeBrokerSupervisorReport) \<times> 'c RuntimeBrokerSupervisors \<times> 'w" where
  "start_placeholders ops b w =
     (case on_both (process_apply ops (StartProcess PortalBroker 0)) (process_apply ops (StartProcess MetadataBroker 0)) b w of
        (Inl e, b1, w1) \<Rightarrow> (Inl e, b1, w1)
      | (Inr (portal_start, metadata_start), b1, w1) \<Rightarrow>
          (case poll_all ops b1 w1 of
             (Inl e, b2, w2) \<Rightarrow> (Inl e, b2, w2)
           | (Inr (portal_poll, metadata_poll), b2, w2) \<Rightarrow>
               (Inr \<lparr>br_portal_start = portal_start, br_metadata_start = metadata_start,
                     br_portal_poll = portal_poll, br_metadata_poll = metadata_poll\<rparr>, b2, w2)))"

definition terminate_all ::
  "('c, 'w) process_ops \<Rightarrow> 'c RuntimeBrokerSupervisors \<Rightarrow> 'w
     \<Rightarrow> (ProcessSupervisorError + unit) \<times> 'c RuntimeBrokerSupervisors \<times> 'w" where
  "terminate_all ops b w =
     (case on_both (process_terminate ops) (process_terminate ops) b w of
        (Inl e, b1, w1) \<Rightarrow> (Inl e, b1, w1)
      | (Inr _, b1, w1) \<Rightarrow> (Inr (), b1, w1))"

section \<open>The session's view of the authority\<close>

datatype authority_call = AcStart | AcPoll | AcTerminate

definition observed :: "SessionRuntimeObservation list \<Rightarrow> SessionRuntimeState \<Rightarrow> SessionRuntimeState" where
  "observed obs s = snd (step_observations obs s)"

text \<open>
  A call of the supervisor whose observations the session processes; an error reports nothing. The second part is
  the error of the call.
\<close>

fun authority_step ::
  "('c, 'w) process_ops \<Rightarrow> authority_call \<Rightarrow> 'c RuntimeAuthoritySupervisor \<times> SessionRuntimeState \<times> 'w
     \<Rightarrow> ('c RuntimeAuthoritySupervisor \<times> SessionRuntimeState \<times> 'w) \<times> ProcessSupervisorError option" where
  "authority_step ops AcStart (a, s, w) =
     (case authority_start ops a w of
        (Inl e, a', w') \<Rightarrow> ((a', s, w'), Some e)
      | (Inr report, a', w') \<Rightarrow> ((a', observed (ar_observations report) s, w'), None))"
| "authority_step ops AcPoll (a, s, w) =
     (case authority_poll ops a w of
        (Inl e, a', w') \<Rightarrow> ((a', s, w'), Some e) | (Inr (_, obs), a', w') \<Rightarrow> ((a', observed obs s, w'), None))"
| "authority_step ops AcTerminate (a, s, w) =
     (case authority_terminate ops a w of
        (Inl e, a', w') \<Rightarrow> ((a', s, w'), Some e) | (Inr ob, a', w') \<Rightarrow> ((a', observed [ob] s, w'), None))"

text \<open>
  Whether the latest start or termination with an effect left the session informed, judged by what the caller sees:
  a success does, a start or termination that failed while waiting for the child does not, and a poll or a start
  that was refused or could not spawn changes nothing about it.
\<close>

definition informed :: "authority_call \<Rightarrow> ProcessSupervisorError option \<Rightarrow> bool \<Rightarrow> bool" where
  "informed call err before =
     (case call of
        AcPoll \<Rightarrow> before
      | _ \<Rightarrow> (case err of None \<Rightarrow> True | Some (WaitFailed process message) \<Rightarrow> False | Some _ \<Rightarrow> before))"


text \<open>The session's health of the X authority says whether the supervisor holds the handle of a child.\<close>

definition health_tracks :: "'c RuntimeAuthoritySupervisor \<times> SessionRuntimeState \<times> 'w \<Rightarrow> bool" where
  "health_tracks x \<longleftrightarrow> (case x of (a, s, w) \<Rightarrow>
     (case sr_x_authority_health s of
        None \<Rightarrow> pv_child (as_x_authority a) = None
      | Some h \<Rightarrow> ha_state h = (if pv_child (as_x_authority a) = None then BhStopped else BhReady)))"

text \<open>What no failure breaks: reports are numbered upwards.\<close>

definition reports_numbered :: "'c RuntimeAuthoritySupervisor \<times> SessionRuntimeState \<times> 'w \<Rightarrow> bool" where
  "reports_numbered x \<longleftrightarrow> (case x of (a, s, w) \<Rightarrow> pv_process (as_x_authority a) = SophiaXAuthority
     \<and> (\<forall>h. sr_x_authority_health s = Some h \<longrightarrow> ha_generation h \<le> as_generation a))"

abbreviation health_report :: "BrokerHealthState \<Rightarrow> u64 \<Rightarrow> SessionRuntimeObservation" where
  "health_report st g \<equiv> ObAuthorityProcessHealthChanged SophiaXAuthority st g 0"

lemma observed_Nil [simp]: "observed [] s = s"
  by (simp add: observed_def step_observations_def from_observations_def loop_step_def)

lemma observed_health_one [simp]:
  "observed [health_report st g] s =
     (if accepts_authority_health (sr_x_authority_health s) g
      then s\<lparr>sr_x_authority_health := Some \<lparr>ha_process = SophiaXAuthority, ha_state = st, ha_generation = g, ha_status_message_len = 0\<rparr>\<rparr>
      else s)"
  by (simp add: observed_def step_observations_def from_observations_def loop_step_def bind_res_def
      MAX_SESSION_RUNTIME_OBSERVATION_BATCH_def SOPHIA_BROKER_HEALTH_MAX_MESSAGE_LEN_def Let_def)

lemma observed_health_two [simp]:
  "observed [health_report st g, health_report st' g'] s = observed [health_report st' g'] (observed [health_report st g] s)"
  by (simp add: observed_def step_observations_def from_observations_def loop_step_def bind_res_def
      MAX_SESSION_RUNTIME_OBSERVATION_BATCH_def SOPHIA_BROKER_HEALTH_MAX_MESSAGE_LEN_def Let_def)





lemmas authority_defs = observation_from_optional_event_def health_observation_def accepts_authority_health_def
  informed_def health_tracks_def reports_numbered_def Let_def map_filter_simps









text \<open>
  When waiting fails, a termination forgets the child without killing it, and the session is not told.
\<close>

lemma failed_termination_forgets_child:
  assumes "pv_child p = Some c" "os_try_wait ops c w = (Inl m, w1)"
  shows "process_terminate ops p w = (Inl (WaitFailed (pv_process p) m), p\<lparr>pv_child := None\<rparr>, w1)"
  using assms by (simp add: process_terminate_def Let_def)

text \<open>
  Likewise a start whose first poll fails has a child but reports nothing, and later polls of the running child do
  not make up for it.
\<close>

lemma failed_start_is_silent:
  assumes "pv_process (as_x_authority a) = SophiaXAuthority" "pv_child (as_x_authority a) = None"
    and "os_spawn ops (pv_spec (as_x_authority a)) w = (Inr c, w1)" "os_try_wait ops c w1 = (Inl m, w2)"
  shows "\<exists>a'. authority_step ops AcStart (a, s, w) = ((a', s, w2), Some (WaitFailed SophiaXAuthority m))
           \<and> pv_child (as_x_authority a') = Some c"
  using assms
  by (auto simp: authority_start_def ensure_process_def start_after_def process_poll_def authority_defs)

end
