(* ===== verification/X_Wire_Base.thy ===== *)
theory X_Wire_Base
  imports X_Runtime
begin

text \<open>
  The vocabulary of the X11 request decoder (\<^verbatim>\<open>sophia-x-authority/src/wire.rs\<close>): opcodes and lengths, the
  request and error types, the byte readers of \<^verbatim>\<open>setup.rs\<close>, and a small program logic for decoders. A decoder
  returns \<open>None\<close> where the code would panic (an index or slice out of range), \<open>Some (Inl e)\<close> for an error and
  \<open>Some (Inr r)\<close> for a decoded request. The one enum of 140 requests is laid out as a sum of groups, each of
  which has the source's constructors (prefix \<open>Rq\<close>) with their fields in the source's order.
\<close>

named_theorems x_wire \<open>opcodes and request lengths\<close>

section \<open>Opcodes and lengths (wire.rs)\<close>

definition X_CREATE_WINDOW :: u8 where [x_wire]: "X_CREATE_WINDOW = 1"
definition X_CHANGE_WINDOW_ATTRIBUTES :: u8 where [x_wire]: "X_CHANGE_WINDOW_ATTRIBUTES = 2"
definition X_GET_WINDOW_ATTRIBUTES :: u8 where [x_wire]: "X_GET_WINDOW_ATTRIBUTES = 3"
definition X_DESTROY_WINDOW :: u8 where [x_wire]: "X_DESTROY_WINDOW = 4"
definition X_REPARENT_WINDOW :: u8 where [x_wire]: "X_REPARENT_WINDOW = 7"
definition X_MAP_WINDOW :: u8 where [x_wire]: "X_MAP_WINDOW = 8"
definition X_MAP_SUBWINDOWS :: u8 where [x_wire]: "X_MAP_SUBWINDOWS = 9"
definition X_UNMAP_WINDOW :: u8 where [x_wire]: "X_UNMAP_WINDOW = 10"
definition X_CONFIGURE_WINDOW :: u8 where [x_wire]: "X_CONFIGURE_WINDOW = 12"
definition X_GET_GEOMETRY :: u8 where [x_wire]: "X_GET_GEOMETRY = 14"
definition X_QUERY_TREE :: u8 where [x_wire]: "X_QUERY_TREE = 15"
definition X_INTERN_ATOM :: u8 where [x_wire]: "X_INTERN_ATOM = 16"
definition X_GET_ATOM_NAME :: u8 where [x_wire]: "X_GET_ATOM_NAME = 17"
definition X_CHANGE_PROPERTY :: u8 where [x_wire]: "X_CHANGE_PROPERTY = 18"
definition X_DELETE_PROPERTY :: u8 where [x_wire]: "X_DELETE_PROPERTY = 19"
definition X_GET_PROPERTY :: u8 where [x_wire]: "X_GET_PROPERTY = 20"
definition X_QUERY_POINTER :: u8 where [x_wire]: "X_QUERY_POINTER = 38"
definition X_LIST_PROPERTIES :: u8 where [x_wire]: "X_LIST_PROPERTIES = 21"
definition X_SET_SELECTION_OWNER :: u8 where [x_wire]: "X_SET_SELECTION_OWNER = 22"
definition X_GET_SELECTION_OWNER :: u8 where [x_wire]: "X_GET_SELECTION_OWNER = 23"
definition X_CONVERT_SELECTION :: u8 where [x_wire]: "X_CONVERT_SELECTION = 24"
definition X_SEND_EVENT :: u8 where [x_wire]: "X_SEND_EVENT = 25"
definition X_GRAB_POINTER :: u8 where [x_wire]: "X_GRAB_POINTER = 26"
definition X_UNGRAB_POINTER :: u8 where [x_wire]: "X_UNGRAB_POINTER = 27"
definition X_GRAB_BUTTON :: u8 where [x_wire]: "X_GRAB_BUTTON = 28"
definition X_UNGRAB_BUTTON :: u8 where [x_wire]: "X_UNGRAB_BUTTON = 29"
definition X_GRAB_KEYBOARD :: u8 where [x_wire]: "X_GRAB_KEYBOARD = 31"
definition X_UNGRAB_KEYBOARD :: u8 where [x_wire]: "X_UNGRAB_KEYBOARD = 32"
definition X_GRAB_KEY :: u8 where [x_wire]: "X_GRAB_KEY = 33"
definition X_UNGRAB_KEY :: u8 where [x_wire]: "X_UNGRAB_KEY = 34"
definition X_ALLOW_EVENTS :: u8 where [x_wire]: "X_ALLOW_EVENTS = 35"
definition X_GRAB_SERVER :: u8 where [x_wire]: "X_GRAB_SERVER = 36"
definition X_UNGRAB_SERVER :: u8 where [x_wire]: "X_UNGRAB_SERVER = 37"
definition X_TRANSLATE_COORDINATES :: u8 where [x_wire]: "X_TRANSLATE_COORDINATES = 40"
definition X_SET_INPUT_FOCUS :: u8 where [x_wire]: "X_SET_INPUT_FOCUS = 42"
definition X_GET_INPUT_FOCUS :: u8 where [x_wire]: "X_GET_INPUT_FOCUS = 43"
definition X_OPEN_FONT :: u8 where [x_wire]: "X_OPEN_FONT = 45"
definition X_CLOSE_FONT :: u8 where [x_wire]: "X_CLOSE_FONT = 46"
definition X_QUERY_FONT :: u8 where [x_wire]: "X_QUERY_FONT = 47"
definition X_LIST_FONTS :: u8 where [x_wire]: "X_LIST_FONTS = 49"
definition X_LIST_FONTS_WITH_INFO :: u8 where [x_wire]: "X_LIST_FONTS_WITH_INFO = 50"
definition X_CREATE_PIXMAP :: u8 where [x_wire]: "X_CREATE_PIXMAP = 53"
definition X_FREE_PIXMAP :: u8 where [x_wire]: "X_FREE_PIXMAP = 54"
definition X_CREATE_GC :: u8 where [x_wire]: "X_CREATE_GC = 55"
definition X_CHANGE_GC :: u8 where [x_wire]: "X_CHANGE_GC = 56"
definition X_SET_CLIP_RECTANGLES :: u8 where [x_wire]: "X_SET_CLIP_RECTANGLES = 59"
definition X_FREE_GC :: u8 where [x_wire]: "X_FREE_GC = 60"
definition X_CLEAR_AREA :: u8 where [x_wire]: "X_CLEAR_AREA = 61"
definition X_COPY_AREA :: u8 where [x_wire]: "X_COPY_AREA = 62"
definition X_POLY_LINE :: u8 where [x_wire]: "X_POLY_LINE = 65"
definition X_POLY_SEGMENT :: u8 where [x_wire]: "X_POLY_SEGMENT = 66"
definition X_FILL_POLY :: u8 where [x_wire]: "X_FILL_POLY = 69"
definition X_POLY_FILL_RECTANGLE :: u8 where [x_wire]: "X_POLY_FILL_RECTANGLE = 70"
definition X_POLY_FILL_ARC :: u8 where [x_wire]: "X_POLY_FILL_ARC = 71"
definition X_PUT_IMAGE :: u8 where [x_wire]: "X_PUT_IMAGE = 72"
definition X_GET_IMAGE :: u8 where [x_wire]: "X_GET_IMAGE = 73"
definition X_POLY_TEXT8 :: u8 where [x_wire]: "X_POLY_TEXT8 = 74"
definition X_IMAGE_TEXT8 :: u8 where [x_wire]: "X_IMAGE_TEXT8 = 76"
definition X_CREATE_COLORMAP :: u8 where [x_wire]: "X_CREATE_COLORMAP = 78"
definition X_FREE_COLORMAP :: u8 where [x_wire]: "X_FREE_COLORMAP = 79"
definition X_ALLOC_COLOR :: u8 where [x_wire]: "X_ALLOC_COLOR = 84"
definition X_ALLOC_NAMED_COLOR :: u8 where [x_wire]: "X_ALLOC_NAMED_COLOR = 85"
definition X_QUERY_COLORS :: u8 where [x_wire]: "X_QUERY_COLORS = 91"
definition X_CREATE_CURSOR :: u8 where [x_wire]: "X_CREATE_CURSOR = 93"
definition X_CREATE_GLYPH_CURSOR :: u8 where [x_wire]: "X_CREATE_GLYPH_CURSOR = 94"
definition X_FREE_CURSOR :: u8 where [x_wire]: "X_FREE_CURSOR = 95"
definition X_RECOLOR_CURSOR :: u8 where [x_wire]: "X_RECOLOR_CURSOR = 96"
definition X_QUERY_EXTENSION :: u8 where [x_wire]: "X_QUERY_EXTENSION = 98"
definition X_LIST_EXTENSIONS :: u8 where [x_wire]: "X_LIST_EXTENSIONS = 99"
definition X_GET_KEYBOARD_MAPPING :: u8 where [x_wire]: "X_GET_KEYBOARD_MAPPING = 101"
definition X_GET_KEYBOARD_CONTROL :: u8 where [x_wire]: "X_GET_KEYBOARD_CONTROL = 103"
definition X_BELL :: u8 where [x_wire]: "X_BELL = 104"
definition X_QUERY_BEST_SIZE :: u8 where [x_wire]: "X_QUERY_BEST_SIZE = 97"
definition X_GET_MODIFIER_MAPPING :: u8 where [x_wire]: "X_GET_MODIFIER_MAPPING = 119"
definition X_SOPHIA_PRESENT_MAJOR_OPCODE :: u8 where [x_wire]: "X_SOPHIA_PRESENT_MAJOR_OPCODE = 130"
definition X_SOPHIA_PRESENT_PIXMAP_MINOR_OPCODE :: u8 where [x_wire]: "X_SOPHIA_PRESENT_PIXMAP_MINOR_OPCODE = 0"
definition X_MIT_SHM_MAJOR_OPCODE :: u8 where [x_wire]: "X_MIT_SHM_MAJOR_OPCODE = 131"
definition X_MIT_SHM_QUERY_VERSION_MINOR_OPCODE :: u8 where [x_wire]: "X_MIT_SHM_QUERY_VERSION_MINOR_OPCODE = 0"
definition X_MIT_SHM_ATTACH_MINOR_OPCODE :: u8 where [x_wire]: "X_MIT_SHM_ATTACH_MINOR_OPCODE = 1"
definition X_MIT_SHM_DETACH_MINOR_OPCODE :: u8 where [x_wire]: "X_MIT_SHM_DETACH_MINOR_OPCODE = 2"
definition X_MIT_SHM_PUT_IMAGE_MINOR_OPCODE :: u8 where [x_wire]: "X_MIT_SHM_PUT_IMAGE_MINOR_OPCODE = 3"
definition X_MIT_SHM_CREATE_PIXMAP_MINOR_OPCODE :: u8 where [x_wire]: "X_MIT_SHM_CREATE_PIXMAP_MINOR_OPCODE = 5"
definition X_RANDR_MAJOR_OPCODE :: u8 where [x_wire]: "X_RANDR_MAJOR_OPCODE = 132"
definition X_RANDR_QUERY_VERSION_MINOR_OPCODE :: u8 where [x_wire]: "X_RANDR_QUERY_VERSION_MINOR_OPCODE = 0"
definition X_RANDR_SELECT_INPUT_MINOR_OPCODE :: u8 where [x_wire]: "X_RANDR_SELECT_INPUT_MINOR_OPCODE = 4"
definition X_RANDR_GET_SCREEN_SIZE_RANGE_MINOR_OPCODE :: u8 where [x_wire]: "X_RANDR_GET_SCREEN_SIZE_RANGE_MINOR_OPCODE = 6"
definition X_RANDR_GET_SCREEN_RESOURCES_MINOR_OPCODE :: u8 where [x_wire]: "X_RANDR_GET_SCREEN_RESOURCES_MINOR_OPCODE = 8"
definition X_RANDR_GET_OUTPUT_INFO_MINOR_OPCODE :: u8 where [x_wire]: "X_RANDR_GET_OUTPUT_INFO_MINOR_OPCODE = 9"
definition X_RANDR_GET_OUTPUT_PROPERTY_MINOR_OPCODE :: u8 where [x_wire]: "X_RANDR_GET_OUTPUT_PROPERTY_MINOR_OPCODE = 15"
definition X_RANDR_GET_CRTC_INFO_MINOR_OPCODE :: u8 where [x_wire]: "X_RANDR_GET_CRTC_INFO_MINOR_OPCODE = 20"
definition X_RANDR_GET_CRTC_GAMMA_SIZE_MINOR_OPCODE :: u8 where [x_wire]: "X_RANDR_GET_CRTC_GAMMA_SIZE_MINOR_OPCODE = 22"
definition X_RANDR_GET_SCREEN_RESOURCES_CURRENT_MINOR_OPCODE :: u8 where [x_wire]: "X_RANDR_GET_SCREEN_RESOURCES_CURRENT_MINOR_OPCODE = 25"
definition X_RANDR_GET_OUTPUT_PRIMARY_MINOR_OPCODE :: u8 where [x_wire]: "X_RANDR_GET_OUTPUT_PRIMARY_MINOR_OPCODE = 31"
definition X_RANDR_GET_PROVIDERS_MINOR_OPCODE :: u8 where [x_wire]: "X_RANDR_GET_PROVIDERS_MINOR_OPCODE = 32"
definition X_RANDR_GET_MONITORS_MINOR_OPCODE :: u8 where [x_wire]: "X_RANDR_GET_MONITORS_MINOR_OPCODE = 42"
definition X_KEYBOARD_MAJOR_OPCODE :: u8 where [x_wire]: "X_KEYBOARD_MAJOR_OPCODE = 133"
definition X_KEYBOARD_USE_EXTENSION_MINOR_OPCODE :: u8 where [x_wire]: "X_KEYBOARD_USE_EXTENSION_MINOR_OPCODE = 0"
definition X_KEYBOARD_SELECT_EVENTS_MINOR_OPCODE :: u8 where [x_wire]: "X_KEYBOARD_SELECT_EVENTS_MINOR_OPCODE = 1"
definition X_KEYBOARD_GET_STATE_MINOR_OPCODE :: u8 where [x_wire]: "X_KEYBOARD_GET_STATE_MINOR_OPCODE = 4"
definition X_KEYBOARD_GET_CONTROLS_MINOR_OPCODE :: u8 where [x_wire]: "X_KEYBOARD_GET_CONTROLS_MINOR_OPCODE = 6"
definition X_KEYBOARD_GET_MAP_MINOR_OPCODE :: u8 where [x_wire]: "X_KEYBOARD_GET_MAP_MINOR_OPCODE = 8"
definition X_KEYBOARD_GET_COMPAT_MAP_MINOR_OPCODE :: u8 where [x_wire]: "X_KEYBOARD_GET_COMPAT_MAP_MINOR_OPCODE = 10"
definition X_KEYBOARD_GET_INDICATOR_MAP_MINOR_OPCODE :: u8 where [x_wire]: "X_KEYBOARD_GET_INDICATOR_MAP_MINOR_OPCODE = 13"
definition X_KEYBOARD_GET_NAMES_MINOR_OPCODE :: u8 where [x_wire]: "X_KEYBOARD_GET_NAMES_MINOR_OPCODE = 17"
definition X_KEYBOARD_PER_CLIENT_FLAGS_MINOR_OPCODE :: u8 where [x_wire]: "X_KEYBOARD_PER_CLIENT_FLAGS_MINOR_OPCODE = 21"
definition X_KEYBOARD_GET_DEVICE_INFO_MINOR_OPCODE :: u8 where [x_wire]: "X_KEYBOARD_GET_DEVICE_INFO_MINOR_OPCODE = 24"
definition X_BIG_REQUESTS_MAJOR_OPCODE :: u8 where [x_wire]: "X_BIG_REQUESTS_MAJOR_OPCODE = 134"
definition X_BIG_REQUESTS_ENABLE_MINOR_OPCODE :: u8 where [x_wire]: "X_BIG_REQUESTS_ENABLE_MINOR_OPCODE = 0"
definition X_INPUT_MAJOR_OPCODE :: u8 where [x_wire]: "X_INPUT_MAJOR_OPCODE = 135"
definition X_INPUT_GET_EXTENSION_VERSION_MINOR_OPCODE :: u8 where [x_wire]: "X_INPUT_GET_EXTENSION_VERSION_MINOR_OPCODE = 1"
definition X_INPUT_DEVICE_BELL_MINOR_OPCODE :: u8 where [x_wire]: "X_INPUT_DEVICE_BELL_MINOR_OPCODE = 32"
definition X_INPUT_QUERY_POINTER_MINOR_OPCODE :: u8 where [x_wire]: "X_INPUT_QUERY_POINTER_MINOR_OPCODE = 40"
definition X_INPUT_CHANGE_CURSOR_MINOR_OPCODE :: u8 where [x_wire]: "X_INPUT_CHANGE_CURSOR_MINOR_OPCODE = 42"
definition X_INPUT_QUERY_POINTER_REQ_LEN :: nat where [x_wire]: "X_INPUT_QUERY_POINTER_REQ_LEN = 12"
definition X_INPUT_CHANGE_CURSOR_REQ_LEN :: nat where [x_wire]: "X_INPUT_CHANGE_CURSOR_REQ_LEN = 16"
definition X_INPUT_UNGRAB_DEVICE_REQ_LEN :: nat where [x_wire]: "X_INPUT_UNGRAB_DEVICE_REQ_LEN = 12"
definition X_INPUT_SELECT_EVENTS_MINOR_OPCODE :: u8 where [x_wire]: "X_INPUT_SELECT_EVENTS_MINOR_OPCODE = 46"
definition X_INPUT_GET_CLIENT_POINTER_MINOR_OPCODE :: u8 where [x_wire]: "X_INPUT_GET_CLIENT_POINTER_MINOR_OPCODE = 45"
definition X_INPUT_QUERY_VERSION_MINOR_OPCODE :: u8 where [x_wire]: "X_INPUT_QUERY_VERSION_MINOR_OPCODE = 47"
definition X_INPUT_QUERY_DEVICE_MINOR_OPCODE :: u8 where [x_wire]: "X_INPUT_QUERY_DEVICE_MINOR_OPCODE = 48"
definition X_INPUT_GET_FOCUS_MINOR_OPCODE :: u8 where [x_wire]: "X_INPUT_GET_FOCUS_MINOR_OPCODE = 50"
definition X_INPUT_UNGRAB_DEVICE_MINOR_OPCODE :: u8 where [x_wire]: "X_INPUT_UNGRAB_DEVICE_MINOR_OPCODE = 52"
definition X_INPUT_GET_PROPERTY_MINOR_OPCODE :: u8 where [x_wire]: "X_INPUT_GET_PROPERTY_MINOR_OPCODE = 59"
definition X_GENERIC_EVENT_MAJOR_OPCODE :: u8 where [x_wire]: "X_GENERIC_EVENT_MAJOR_OPCODE = 136"
definition X_GENERIC_EVENT_QUERY_VERSION_MINOR_OPCODE :: u8 where [x_wire]: "X_GENERIC_EVENT_QUERY_VERSION_MINOR_OPCODE = 0"
definition X_DRI3_MAJOR_OPCODE :: u8 where [x_wire]: "X_DRI3_MAJOR_OPCODE = 137"
definition X_DRI3_QUERY_VERSION_MINOR_OPCODE :: u8 where [x_wire]: "X_DRI3_QUERY_VERSION_MINOR_OPCODE = 0"
definition X_DRI3_OPEN_MINOR_OPCODE :: u8 where [x_wire]: "X_DRI3_OPEN_MINOR_OPCODE = 1"
definition X_DRI3_PIXMAP_FROM_BUFFER_MINOR_OPCODE :: u8 where [x_wire]: "X_DRI3_PIXMAP_FROM_BUFFER_MINOR_OPCODE = 2"
definition X_DRI3_FENCE_FROM_FD_MINOR_OPCODE :: u8 where [x_wire]: "X_DRI3_FENCE_FROM_FD_MINOR_OPCODE = 4"
definition X_DRI3_GET_SUPPORTED_MODIFIERS_MINOR_OPCODE :: u8 where [x_wire]: "X_DRI3_GET_SUPPORTED_MODIFIERS_MINOR_OPCODE = 6"
definition X_DRI3_PIXMAP_FROM_BUFFERS_MINOR_OPCODE :: u8 where [x_wire]: "X_DRI3_PIXMAP_FROM_BUFFERS_MINOR_OPCODE = 7"
definition X_PRESENT_MAJOR_OPCODE :: u8 where [x_wire]: "X_PRESENT_MAJOR_OPCODE = 138"
definition X_PRESENT_QUERY_VERSION_MINOR_OPCODE :: u8 where [x_wire]: "X_PRESENT_QUERY_VERSION_MINOR_OPCODE = 0"
definition X_PRESENT_PIXMAP_MINOR_OPCODE :: u8 where [x_wire]: "X_PRESENT_PIXMAP_MINOR_OPCODE = 1"
definition X_PRESENT_SELECT_INPUT_MINOR_OPCODE :: u8 where [x_wire]: "X_PRESENT_SELECT_INPUT_MINOR_OPCODE = 3"
definition X_PRESENT_QUERY_CAPABILITIES_MINOR_OPCODE :: u8 where [x_wire]: "X_PRESENT_QUERY_CAPABILITIES_MINOR_OPCODE = 4"
definition X_XFIXES_MAJOR_OPCODE :: u8 where [x_wire]: "X_XFIXES_MAJOR_OPCODE = 139"
definition X_XFIXES_QUERY_VERSION_MINOR_OPCODE :: u8 where [x_wire]: "X_XFIXES_QUERY_VERSION_MINOR_OPCODE = 0"
definition X_XFIXES_SELECT_SELECTION_INPUT_MINOR_OPCODE :: u8 where [x_wire]: "X_XFIXES_SELECT_SELECTION_INPUT_MINOR_OPCODE = 2"
definition X_XFIXES_CREATE_REGION_MINOR_OPCODE :: u8 where [x_wire]: "X_XFIXES_CREATE_REGION_MINOR_OPCODE = 5"
definition X_XFIXES_DESTROY_REGION_MINOR_OPCODE :: u8 where [x_wire]: "X_XFIXES_DESTROY_REGION_MINOR_OPCODE = 10"
definition X_XFIXES_SET_REGION_MINOR_OPCODE :: u8 where [x_wire]: "X_XFIXES_SET_REGION_MINOR_OPCODE = 11"
definition X_GLX_MAJOR_OPCODE :: u8 where [x_wire]: "X_GLX_MAJOR_OPCODE = 140"
definition X_GLX_DESTROY_CONTEXT_MINOR_OPCODE :: u8 where [x_wire]: "X_GLX_DESTROY_CONTEXT_MINOR_OPCODE = 4"
definition X_GLX_IS_DIRECT_MINOR_OPCODE :: u8 where [x_wire]: "X_GLX_IS_DIRECT_MINOR_OPCODE = 6"
definition X_GLX_QUERY_VERSION_MINOR_OPCODE :: u8 where [x_wire]: "X_GLX_QUERY_VERSION_MINOR_OPCODE = 7"
definition X_GLX_GET_VISUAL_CONFIGS_MINOR_OPCODE :: u8 where [x_wire]: "X_GLX_GET_VISUAL_CONFIGS_MINOR_OPCODE = 14"
definition X_GLX_QUERY_EXTENSIONS_STRING_MINOR_OPCODE :: u8 where [x_wire]: "X_GLX_QUERY_EXTENSIONS_STRING_MINOR_OPCODE = 18"
definition X_GLX_QUERY_SERVER_STRING_MINOR_OPCODE :: u8 where [x_wire]: "X_GLX_QUERY_SERVER_STRING_MINOR_OPCODE = 19"
definition X_GLX_CLIENT_INFO_MINOR_OPCODE :: u8 where [x_wire]: "X_GLX_CLIENT_INFO_MINOR_OPCODE = 20"
definition X_GLX_GET_FB_CONFIGS_MINOR_OPCODE :: u8 where [x_wire]: "X_GLX_GET_FB_CONFIGS_MINOR_OPCODE = 21"
definition X_GLX_CREATE_NEW_CONTEXT_MINOR_OPCODE :: u8 where [x_wire]: "X_GLX_CREATE_NEW_CONTEXT_MINOR_OPCODE = 24"
definition X_GLX_GET_DRAWABLE_ATTRIBUTES_MINOR_OPCODE :: u8 where [x_wire]: "X_GLX_GET_DRAWABLE_ATTRIBUTES_MINOR_OPCODE = 29"
definition X_GLX_CREATE_WINDOW_MINOR_OPCODE :: u8 where [x_wire]: "X_GLX_CREATE_WINDOW_MINOR_OPCODE = 31"
definition X_GLX_DELETE_WINDOW_MINOR_OPCODE :: u8 where [x_wire]: "X_GLX_DELETE_WINDOW_MINOR_OPCODE = 32"
definition X_GLX_SET_CLIENT_INFO_ARB_MINOR_OPCODE :: u8 where [x_wire]: "X_GLX_SET_CLIENT_INFO_ARB_MINOR_OPCODE = 33"
definition X_GLX_CREATE_CONTEXT_ATTRIBS_ARB_MINOR_OPCODE :: u8 where [x_wire]: "X_GLX_CREATE_CONTEXT_ATTRIBS_ARB_MINOR_OPCODE = 34"
definition X_GLX_SET_CLIENT_INFO_2_ARB_MINOR_OPCODE :: u8 where [x_wire]: "X_GLX_SET_CLIENT_INFO_2_ARB_MINOR_OPCODE = 35"
definition X_SYNC_MAJOR_OPCODE :: u8 where [x_wire]: "X_SYNC_MAJOR_OPCODE = 141"
definition X_SYNC_INITIALIZE_MINOR_OPCODE :: u8 where [x_wire]: "X_SYNC_INITIALIZE_MINOR_OPCODE = 0"
definition X_SYNC_DESTROY_FENCE_MINOR_OPCODE :: u8 where [x_wire]: "X_SYNC_DESTROY_FENCE_MINOR_OPCODE = 17"
definition X_CREATE_WINDOW_REQ_LEN :: nat where [x_wire]: "X_CREATE_WINDOW_REQ_LEN = 32"
definition X_CHANGE_WINDOW_ATTRIBUTES_REQ_LEN :: nat where [x_wire]: "X_CHANGE_WINDOW_ATTRIBUTES_REQ_LEN = 12"
definition X_GET_WINDOW_ATTRIBUTES_REQ_LEN :: nat where [x_wire]: "X_GET_WINDOW_ATTRIBUTES_REQ_LEN = 8"
definition X_DESTROY_WINDOW_REQ_LEN :: nat where [x_wire]: "X_DESTROY_WINDOW_REQ_LEN = 8"
definition X_REPARENT_WINDOW_REQ_LEN :: nat where [x_wire]: "X_REPARENT_WINDOW_REQ_LEN = 16"
definition X_MAP_WINDOW_REQ_LEN :: nat where [x_wire]: "X_MAP_WINDOW_REQ_LEN = 8"
definition X_MAP_SUBWINDOWS_REQ_LEN :: nat where [x_wire]: "X_MAP_SUBWINDOWS_REQ_LEN = 8"
definition X_UNMAP_WINDOW_REQ_LEN :: nat where [x_wire]: "X_UNMAP_WINDOW_REQ_LEN = 8"
definition X_CONFIGURE_WINDOW_REQ_LEN :: nat where [x_wire]: "X_CONFIGURE_WINDOW_REQ_LEN = 12"
definition X_GET_GEOMETRY_REQ_LEN :: nat where [x_wire]: "X_GET_GEOMETRY_REQ_LEN = 8"
definition X_QUERY_TREE_REQ_LEN :: nat where [x_wire]: "X_QUERY_TREE_REQ_LEN = 8"
definition X_INTERN_ATOM_REQ_LEN :: nat where [x_wire]: "X_INTERN_ATOM_REQ_LEN = 8"
definition X_GET_ATOM_NAME_REQ_LEN :: nat where [x_wire]: "X_GET_ATOM_NAME_REQ_LEN = 8"
definition X_CHANGE_PROPERTY_REQ_LEN :: nat where [x_wire]: "X_CHANGE_PROPERTY_REQ_LEN = 24"
definition X_DELETE_PROPERTY_REQ_LEN :: nat where [x_wire]: "X_DELETE_PROPERTY_REQ_LEN = 12"
definition X_GET_PROPERTY_REQ_LEN :: nat where [x_wire]: "X_GET_PROPERTY_REQ_LEN = 24"
definition X_QUERY_POINTER_REQ_LEN :: nat where [x_wire]: "X_QUERY_POINTER_REQ_LEN = 8"
definition X_LIST_PROPERTIES_REQ_LEN :: nat where [x_wire]: "X_LIST_PROPERTIES_REQ_LEN = 8"
definition X_SET_SELECTION_OWNER_REQ_LEN :: nat where [x_wire]: "X_SET_SELECTION_OWNER_REQ_LEN = 16"
definition X_GET_SELECTION_OWNER_REQ_LEN :: nat where [x_wire]: "X_GET_SELECTION_OWNER_REQ_LEN = 8"
definition X_CONVERT_SELECTION_REQ_LEN :: nat where [x_wire]: "X_CONVERT_SELECTION_REQ_LEN = 24"
definition X_SEND_EVENT_REQ_LEN :: nat where [x_wire]: "X_SEND_EVENT_REQ_LEN = 44"
definition X_GRAB_BUTTON_REQ_LEN :: nat where [x_wire]: "X_GRAB_BUTTON_REQ_LEN = 24"
definition X_UNGRAB_BUTTON_REQ_LEN :: nat where [x_wire]: "X_UNGRAB_BUTTON_REQ_LEN = 12"
definition X_GRAB_POINTER_REQ_LEN :: nat where [x_wire]: "X_GRAB_POINTER_REQ_LEN = 24"
definition X_UNGRAB_POINTER_REQ_LEN :: nat where [x_wire]: "X_UNGRAB_POINTER_REQ_LEN = 8"
definition X_GRAB_KEYBOARD_REQ_LEN :: nat where [x_wire]: "X_GRAB_KEYBOARD_REQ_LEN = 16"
definition X_UNGRAB_KEYBOARD_REQ_LEN :: nat where [x_wire]: "X_UNGRAB_KEYBOARD_REQ_LEN = 8"
definition X_GRAB_KEY_REQ_LEN :: nat where [x_wire]: "X_GRAB_KEY_REQ_LEN = 16"
definition X_UNGRAB_KEY_REQ_LEN :: nat where [x_wire]: "X_UNGRAB_KEY_REQ_LEN = 12"
definition X_ALLOW_EVENTS_REQ_LEN :: nat where [x_wire]: "X_ALLOW_EVENTS_REQ_LEN = 8"
definition X_GRAB_SERVER_REQ_LEN :: nat where [x_wire]: "X_GRAB_SERVER_REQ_LEN = 4"
definition X_UNGRAB_SERVER_REQ_LEN :: nat where [x_wire]: "X_UNGRAB_SERVER_REQ_LEN = 4"
definition X_TRANSLATE_COORDINATES_REQ_LEN :: nat where [x_wire]: "X_TRANSLATE_COORDINATES_REQ_LEN = 16"
definition X_SET_INPUT_FOCUS_REQ_LEN :: nat where [x_wire]: "X_SET_INPUT_FOCUS_REQ_LEN = 12"
definition X_GET_INPUT_FOCUS_REQ_LEN :: nat where [x_wire]: "X_GET_INPUT_FOCUS_REQ_LEN = 4"
definition X_GET_IMAGE_REQ_LEN :: nat where [x_wire]: "X_GET_IMAGE_REQ_LEN = 20"
definition X_OPEN_FONT_REQ_LEN :: nat where [x_wire]: "X_OPEN_FONT_REQ_LEN = 12"
definition X_CLOSE_FONT_REQ_LEN :: nat where [x_wire]: "X_CLOSE_FONT_REQ_LEN = 8"
definition X_QUERY_FONT_REQ_LEN :: nat where [x_wire]: "X_QUERY_FONT_REQ_LEN = 8"
definition X_LIST_FONTS_REQ_LEN :: nat where [x_wire]: "X_LIST_FONTS_REQ_LEN = 8"
definition X_LIST_FONTS_WITH_INFO_REQ_LEN :: nat where [x_wire]: "X_LIST_FONTS_WITH_INFO_REQ_LEN = 8"
definition X_CREATE_PIXMAP_REQ_LEN :: nat where [x_wire]: "X_CREATE_PIXMAP_REQ_LEN = 16"
definition X_FREE_PIXMAP_REQ_LEN :: nat where [x_wire]: "X_FREE_PIXMAP_REQ_LEN = 8"
definition X_CREATE_GC_REQ_LEN :: nat where [x_wire]: "X_CREATE_GC_REQ_LEN = 16"
definition X_CHANGE_GC_REQ_LEN :: nat where [x_wire]: "X_CHANGE_GC_REQ_LEN = 12"
definition X_SET_CLIP_RECTANGLES_REQ_LEN :: nat where [x_wire]: "X_SET_CLIP_RECTANGLES_REQ_LEN = 12"
definition X_FREE_GC_REQ_LEN :: nat where [x_wire]: "X_FREE_GC_REQ_LEN = 8"
definition X_CLEAR_AREA_REQ_LEN :: nat where [x_wire]: "X_CLEAR_AREA_REQ_LEN = 16"
definition X_COPY_AREA_REQ_LEN :: nat where [x_wire]: "X_COPY_AREA_REQ_LEN = 28"
definition X_POLY_LINE_REQ_LEN :: nat where [x_wire]: "X_POLY_LINE_REQ_LEN = 12"
definition X_POLY_SEGMENT_REQ_LEN :: nat where [x_wire]: "X_POLY_SEGMENT_REQ_LEN = 12"
definition X_FILL_POLY_REQ_LEN :: nat where [x_wire]: "X_FILL_POLY_REQ_LEN = 16"
definition X_POLY_FILL_RECTANGLE_REQ_LEN :: nat where [x_wire]: "X_POLY_FILL_RECTANGLE_REQ_LEN = 12"
definition X_POLY_FILL_ARC_REQ_LEN :: nat where [x_wire]: "X_POLY_FILL_ARC_REQ_LEN = 12"
definition X_PUT_IMAGE_REQ_LEN :: nat where [x_wire]: "X_PUT_IMAGE_REQ_LEN = 24"
definition X_POLY_TEXT8_REQ_LEN :: nat where [x_wire]: "X_POLY_TEXT8_REQ_LEN = 16"
definition X_IMAGE_TEXT8_REQ_LEN :: nat where [x_wire]: "X_IMAGE_TEXT8_REQ_LEN = 16"
definition X_CREATE_COLORMAP_REQ_LEN :: nat where [x_wire]: "X_CREATE_COLORMAP_REQ_LEN = 16"
definition X_FREE_COLORMAP_REQ_LEN :: nat where [x_wire]: "X_FREE_COLORMAP_REQ_LEN = 8"
definition X_ALLOC_COLOR_REQ_LEN :: nat where [x_wire]: "X_ALLOC_COLOR_REQ_LEN = 16"
definition X_ALLOC_NAMED_COLOR_REQ_LEN :: nat where [x_wire]: "X_ALLOC_NAMED_COLOR_REQ_LEN = 12"
definition X_QUERY_COLORS_REQ_LEN :: nat where [x_wire]: "X_QUERY_COLORS_REQ_LEN = 8"
definition X_CREATE_CURSOR_REQ_LEN :: nat where [x_wire]: "X_CREATE_CURSOR_REQ_LEN = 32"
definition X_CREATE_GLYPH_CURSOR_REQ_LEN :: nat where [x_wire]: "X_CREATE_GLYPH_CURSOR_REQ_LEN = 32"
definition X_FREE_CURSOR_REQ_LEN :: nat where [x_wire]: "X_FREE_CURSOR_REQ_LEN = 8"
definition X_RECOLOR_CURSOR_REQ_LEN :: nat where [x_wire]: "X_RECOLOR_CURSOR_REQ_LEN = 20"
definition X_QUERY_EXTENSION_REQ_LEN :: nat where [x_wire]: "X_QUERY_EXTENSION_REQ_LEN = 8"
definition X_LIST_EXTENSIONS_REQ_LEN :: nat where [x_wire]: "X_LIST_EXTENSIONS_REQ_LEN = 4"
definition X_GET_KEYBOARD_MAPPING_REQ_LEN :: nat where [x_wire]: "X_GET_KEYBOARD_MAPPING_REQ_LEN = 8"
definition X_QUERY_BEST_SIZE_REQ_LEN :: nat where [x_wire]: "X_QUERY_BEST_SIZE_REQ_LEN = 12"
definition X_GET_MODIFIER_MAPPING_REQ_LEN :: nat where [x_wire]: "X_GET_MODIFIER_MAPPING_REQ_LEN = 4"
definition X_SOPHIA_PRESENT_PIXMAP_REQ_LEN :: nat where [x_wire]: "X_SOPHIA_PRESENT_PIXMAP_REQ_LEN = 32"
definition X_MIT_SHM_QUERY_VERSION_REQ_LEN :: nat where [x_wire]: "X_MIT_SHM_QUERY_VERSION_REQ_LEN = 4"
definition X_MIT_SHM_ATTACH_REQ_LEN :: nat where [x_wire]: "X_MIT_SHM_ATTACH_REQ_LEN = 16"
definition X_MIT_SHM_DETACH_REQ_LEN :: nat where [x_wire]: "X_MIT_SHM_DETACH_REQ_LEN = 8"
definition X_MIT_SHM_PUT_IMAGE_REQ_LEN :: nat where [x_wire]: "X_MIT_SHM_PUT_IMAGE_REQ_LEN = 40"
definition X_MIT_SHM_CREATE_PIXMAP_REQ_LEN :: nat where [x_wire]: "X_MIT_SHM_CREATE_PIXMAP_REQ_LEN = 28"
definition X_RANDR_QUERY_VERSION_REQ_LEN :: nat where [x_wire]: "X_RANDR_QUERY_VERSION_REQ_LEN = 12"
definition X_RANDR_SELECT_INPUT_REQ_LEN :: nat where [x_wire]: "X_RANDR_SELECT_INPUT_REQ_LEN = 12"
definition X_RANDR_GET_SCREEN_SIZE_RANGE_REQ_LEN :: nat where [x_wire]: "X_RANDR_GET_SCREEN_SIZE_RANGE_REQ_LEN = 8"
definition X_RANDR_GET_SCREEN_RESOURCES_REQ_LEN :: nat where [x_wire]: "X_RANDR_GET_SCREEN_RESOURCES_REQ_LEN = 8"
definition X_RANDR_GET_OUTPUT_INFO_REQ_LEN :: nat where [x_wire]: "X_RANDR_GET_OUTPUT_INFO_REQ_LEN = 12"
definition X_RANDR_GET_OUTPUT_PROPERTY_REQ_LEN :: nat where [x_wire]: "X_RANDR_GET_OUTPUT_PROPERTY_REQ_LEN = 28"
definition X_RANDR_GET_CRTC_INFO_REQ_LEN :: nat where [x_wire]: "X_RANDR_GET_CRTC_INFO_REQ_LEN = 12"
definition X_RANDR_GET_CRTC_GAMMA_SIZE_REQ_LEN :: nat where [x_wire]: "X_RANDR_GET_CRTC_GAMMA_SIZE_REQ_LEN = 8"
definition X_RANDR_GET_OUTPUT_PRIMARY_REQ_LEN :: nat where [x_wire]: "X_RANDR_GET_OUTPUT_PRIMARY_REQ_LEN = 8"
definition X_RANDR_GET_MONITORS_REQ_LEN :: nat where [x_wire]: "X_RANDR_GET_MONITORS_REQ_LEN = 12"
definition X_KEYBOARD_USE_EXTENSION_REQ_LEN :: nat where [x_wire]: "X_KEYBOARD_USE_EXTENSION_REQ_LEN = 8"
definition X_KEYBOARD_SELECT_EVENTS_REQ_LEN :: nat where [x_wire]: "X_KEYBOARD_SELECT_EVENTS_REQ_LEN = 16"
definition X_KEYBOARD_GET_MAP_REQ_LEN :: nat where [x_wire]: "X_KEYBOARD_GET_MAP_REQ_LEN = 28"
definition X_KEYBOARD_GET_CONTROLS_REQ_LEN :: nat where [x_wire]: "X_KEYBOARD_GET_CONTROLS_REQ_LEN = 8"
definition X_KEYBOARD_PER_CLIENT_FLAGS_REQ_LEN :: nat where [x_wire]: "X_KEYBOARD_PER_CLIENT_FLAGS_REQ_LEN = 28"
definition X_BIG_REQUESTS_ENABLE_REQ_LEN :: nat where [x_wire]: "X_BIG_REQUESTS_ENABLE_REQ_LEN = 4"
definition X_INPUT_QUERY_VERSION_REQ_LEN :: nat where [x_wire]: "X_INPUT_QUERY_VERSION_REQ_LEN = 8"
definition X_INPUT_GET_CLIENT_POINTER_REQ_LEN :: nat where [x_wire]: "X_INPUT_GET_CLIENT_POINTER_REQ_LEN = 8"
definition X_INPUT_QUERY_DEVICE_REQ_LEN :: nat where [x_wire]: "X_INPUT_QUERY_DEVICE_REQ_LEN = 8"
definition X_INPUT_SELECT_EVENTS_REQ_LEN :: nat where [x_wire]: "X_INPUT_SELECT_EVENTS_REQ_LEN = 12"
definition X_INPUT_GET_FOCUS_REQ_LEN :: nat where [x_wire]: "X_INPUT_GET_FOCUS_REQ_LEN = 8"
definition X_INPUT_GET_PROPERTY_REQ_LEN :: nat where [x_wire]: "X_INPUT_GET_PROPERTY_REQ_LEN = 24"
definition X_GENERIC_EVENT_QUERY_VERSION_REQ_LEN :: nat where [x_wire]: "X_GENERIC_EVENT_QUERY_VERSION_REQ_LEN = 8"
definition X_PUT_IMAGE_MAX_DATA_BYTES :: nat where [x_wire]: "X_PUT_IMAGE_MAX_DATA_BYTES = 256 * 1024"
definition X_QUERY_COLORS_MAX_PIXELS :: nat where [x_wire]: "X_QUERY_COLORS_MAX_PIXELS = 256"
definition X_POLY_TEXT8_MAX_BYTES :: nat where [x_wire]: "X_POLY_TEXT8_MAX_BYTES = 64 * 1024"
definition X_IMAGE_TEXT8_MAX_BYTES :: nat where [x_wire]: "X_IMAGE_TEXT8_MAX_BYTES = 64 * 1024"
definition X_ALLOC_NAMED_COLOR_MAX_NAME_BYTES :: nat where [x_wire]: "X_ALLOC_NAMED_COLOR_MAX_NAME_BYTES = 256"

section \<open>Events and requests\<close>

text \<open>\<^verbatim>\<open>client_output.rs\<close>; the events of a client connection, prefix \<open>Xev\<close>.\<close>

datatype XClientEvent =
    XevKey u16 bool u8 XTimestamp XResourceId XResourceId u16
  | XevFocus u16 bool u8 XResourceId u8
  | XevXkbStateNotify u16 XTimestamp u8 u16 u8 u8
  | XevPointerMotion u16 XTimestamp XResourceId XResourceId i16 i16 i16 i16 u16
  | XevPointerButton u16 bool u8 XTimestamp XResourceId XResourceId i16 i16 i16 i16 u16
  | XevExpose u16 XResourceId u16 u16 u16 u16 u16
  | XevVisibilityNotify u16 XResourceId u8
  | XevMapNotify u16 XResourceId XResourceId bool
  | XevConfigureNotify u16 XResourceId XResourceId "XResourceId option" i16 i16 u16 u16 u16 bool
  | XevPropertyNotify u16 XResourceId u32 XTimestamp bool
  | XevSelectionClear u16 XTimestamp XResourceId u32
  | XevSelectionRequest u16 XTimestamp XResourceId XResourceId u32 u32 u32
  | XevSelectionNotify u16 XTimestamp XResourceId u32 u32 u32
  | XevClientMessage u16 "u8 list"
  | XevShmCompletion u16 XResourceId XResourceId u32
  | XevPresentCompleteNotify u16 XResourceId XResourceId u32 u64 u64 u8
  | XevPresentIdleNotify u16 XResourceId XResourceId u32 XResourceId "XResourceId option"
  | XevRandrScreenChange u16 u32 u32 XResourceId XResourceId u16 u16 u16 u16
  | XevRandrCrtcChange u16 u32 XResourceId u32 u32 i16 i16 u16 u16
  | XevRandrOutputChange u16 u32 XResourceId u32 u32 u32
  | XevRandrResourceChange u16 u32 XResourceId

datatype WindowRequest =
    RqCreateWindow XAuthorityRequestPacket XResourceId u8 u32 "XResourceId option" "u32 option" "u32 option" "u32 option"
  | RqChangeWindowAttributes XResourceId "u32 option" "u32 option"
  | RqGetWindowAttributes XResourceId
  | RqDestroyWindow XResourceId
  | RqReparentWindow XResourceId XResourceId i16 i16
  | RqMapSubwindows XResourceId
  | RqUnmapWindow XResourceId
  | RqConfigureWindow XResourceId u16 "i16 option" "i16 option" "u16 option" "u16 option" "XResourceId option" "u8 option"
  | RqGetGeometry XResourceId
  | RqQueryTree XResourceId
  | RqQueryPointer XResourceId
  | RqTranslateCoordinates XResourceId XResourceId i16 i16

datatype PropertyRequest =
    RqInternAtom bool rust_string
  | RqGetAtomName XAtom
  | RqChangeProperty XPropertyChange
  | RqGetProperty XPropertyRead
  | RqListProperties XResourceId
  | RqDeleteProperty XResourceId u32
  | RqGetSelectionOwner XAtom
  | RqSendSelectionNotify XResourceId u32 XClientEvent

datatype GrabRequest =
    RqGrabPointer XResourceId u16 bool u8 u8 u32
  | RqUngrabPointer u32
  | RqGrabButton XResourceId u16 u8 u16 bool u8 u8
  | RqUngrabButton XResourceId u8 u16
  | RqGrabKeyboard XResourceId bool u8 u8 u32
  | RqUngrabKeyboard u32
  | RqGrabKey XResourceId u8 u16 bool u8 u8
  | RqUngrabKey XResourceId u8 u16
  | RqAllowEvents u8 u32
  | RqGrabServer
  | RqUngrabServer
  | RqGetInputFocus
  | RqSetInputFocus XResourceId u8 u32

datatype DrawRequest =
    RqCreateGraphicsContext XResourceId XResourceId XGraphicsContextValues
  | RqChangeGraphicsContext XResourceId u32 XGraphicsContextValues
  | RqSetClipRectangles XResourceId "Rect list"
  | RqFreeGraphicsContext XResourceId
  | RqClearArea bool XResourceId i16 i16 u16 u16
  | RqPolyFillRectangle XResourceId XResourceId "Rect list"
  | RqPutImage u8 XResourceId XResourceId u16 u16 i16 i16 u8 u8 "u8 list"
  | RqGetImage u8 XResourceId i16 i16 u16 u16 u32
  | RqPolyText8 XResourceId XResourceId i16 i16 "u8 list"
  | RqImageText8 XResourceId XResourceId i16 i16 "u8 list"
  | RqCreatePixmap u8 XResourceId XResourceId u16 u16
  | RqFreePixmap XResourceId
  | RqCopyArea XResourceId XResourceId XResourceId i16 i16 i16 i16 u16 u16
  | RqPolySegment XResourceId XResourceId "Rect list"
  | RqPolyLine XResourceId XResourceId "XPoint list"
  | RqFillPoly XResourceId XResourceId "Rect option"
  | RqPolyFillArc XResourceId XResourceId "Rect list"

datatype ResourceRequest =
    RqCreateColormap XResourceId XResourceId u32
  | RqFreeColormap XResourceId
  | RqAllocColor XResourceId u16 u16 u16
  | RqAllocNamedColor XResourceId rust_string
  | RqOpenFont XResourceId rust_string
  | RqCloseFont XResourceId
  | RqQueryFont XResourceId
  | RqListFonts u16 rust_string
  | RqListFontsWithInfo u16 rust_string
  | RqQueryBestSize u8 XResourceId u16 u16
  | RqQueryColors XResourceId "u32 list"
  | RqCreateCursor XResourceId XResourceId "XResourceId option"
  | RqCreateGlyphCursor XResourceId XResourceId "XResourceId option"
  | RqFreeCursor XResourceId
  | RqRecolorCursor XResourceId

datatype ServerRequest =
    RqQueryExtension rust_string
  | RqListExtensions
  | RqSyncInitialize u8 u8
  | RqSyncDestroyFence XResourceId
  | RqGeQueryVersion u16 u16
  | RqBigRequestsEnable
  | RqGetModifierMapping
  | RqGetKeyboardMapping u8 u8
  | RqGetKeyboardControl
  | RqBell

datatype BufferRequest =
    RqShmQueryVersion
  | RqDri3QueryVersion u32 u32
  | RqDri3Open XResourceId u32
  | RqDri3PixmapFromBuffer XResourceId XResourceId u32 u16 u16 u16 u8 u8
  | RqDri3PixmapFromBuffers XResourceId XResourceId u8 u16 u16 "u32 list" "u32 list" u8 u8 u64
  | RqDri3FenceFromFd XResourceId XResourceId bool
  | RqDri3GetSupportedModifiers XResourceId u8 u8
  | RqXfixesQueryVersion u32 u32
  | RqXfixesSelectSelectionInput XResourceId XAtom u32
  | RqXfixesCreateRegion XResourceId "Rect list"
  | RqXfixesDestroyRegion XResourceId
  | RqXfixesSetRegion XResourceId "Rect list"
  | RqPresentQueryVersion u32 u32
  | RqPresentPixmap TransactionId XResourceId XResourceId u32 u32 u32 i16 i16 u32 "XResourceId option" "XResourceId option" u32 u64 u64 u64 "(XResourceId \<times> u32) list"
  | RqPresentSelectInput XResourceId XResourceId u32
  | RqPresentQueryCapabilities XResourceId
  | RqShmAttach XResourceId u32 bool
  | RqShmDetach XResourceId
  | RqShmPutImage XResourceId XResourceId u16 u16 u16 u16 u16 u16 i16 i16 u8 u8 bool XResourceId u32
  | RqShmCreatePixmap XResourceId XResourceId u16 u16 u8 XResourceId u32

datatype RandrRequest =
    RqRandrQueryVersion u32 u32
  | RqRandrSelectInput XResourceId u16
  | RqRandrGetScreenSizeRange XResourceId
  | RqRandrGetScreenResources XResourceId bool
  | RqRandrGetOutputInfo u32 u32
  | RqRandrGetOutputProperty u32 XAtom XAtom u32 u32 bool bool
  | RqRandrGetCrtcInfo u32 u32
  | RqRandrGetCrtcGammaSize u32
  | RqRandrGetOutputPrimary XResourceId
  | RqRandrGetProviders XResourceId
  | RqRandrGetMonitors XResourceId bool

datatype InputRequest =
    RqXkbUseExtension u16 u16
  | RqXkbGetMap u16 u16
  | RqXkbGetCompatMap u16
  | RqXkbGetIndicatorMap u16
  | RqXkbGetState
  | RqXkbGetControls
  | RqXkbGetNames u32
  | RqXkbGetDeviceInfo u16 u16
  | RqXkbSelectEvents u16 u16 u16 "(u16 \<times> u16) option"
  | RqXkbPerClientFlags u32 u32
  | RqXiQueryVersion u16 u16
  | RqXiQueryPointer XResourceId u16
  | RqXiGetClientPointer
  | RqXiDeviceBell
  | RqXiUngrabDevice u16 u32
  | RqXiChangeCursor XResourceId "XResourceId option"
  | RqXiGetExtensionVersion
  | RqXiQueryDevice u16
  | RqXiSelectEvents XResourceId "(u16 \<times> u32 list) list"
  | RqXiGetFocus u16
  | RqXiGetProperty

datatype GlxRequest =
    RqGlxQueryVersion u32 u32
  | RqGlxGetVisualConfigs u32
  | RqGlxGetFbConfigs u32
  | RqGlxClientInfo
  | RqGlxCreateContext XResourceId u32 u32 "XResourceId option" bool
  | RqGlxDestroyContext XResourceId
  | RqGlxIsDirect XResourceId
  | RqGlxCreateWindow u32 u32 XResourceId XResourceId
  | RqGlxDeleteWindow XResourceId
  | RqGlxGetDrawableAttributes XResourceId
  | RqGlxQueryExtensionsString
  | RqGlxQueryServerString u32

datatype XWireRequest =
    RqAuthority XAuthorityRequestPacket
  | RqWindow WindowRequest
  | RqProperty PropertyRequest
  | RqGrab GrabRequest
  | RqDraw DrawRequest
  | RqResource ResourceRequest
  | RqServer ServerRequest
  | RqBuffer BufferRequest
  | RqRandr RandrRequest
  | RqInput InputRequest
  | RqGlx GlxRequest

record XWireClientContext =
  wc_byte_order :: XByteOrder
  wc_namespace :: NamespaceId
  wc_transaction :: TransactionId
  wc_resource_id_range :: "XWireClientResourceRange option"

datatype XWireParseError =
    WpTruncated nat nat
  | WpInvalidLength u8 nat nat
  | WpTrailingBytes nat
  | WpUnknownOpcode u8
  | WpInvalidPropertyMode u8
  | WpInvalidPropertyFormat u8
  | WpInvalidEventType u8
  | WpInvalidValue u32
  | WpPropertyValueTooLarge nat nat
  | WpResourceIdOutsideClientRange u32

section \<open>Results that may panic\<close>

type_synonym 'a wire = "(XWireParseError + 'a) option"

definition wok :: "'a \<Rightarrow> 'a wire" where "wok x = Some (Inr x)"

definition werr :: "XWireParseError \<Rightarrow> 'a wire" where "werr e = Some (Inl e)"

definition wbind :: "'a wire \<Rightarrow> ('a \<Rightarrow> 'b wire) \<Rightarrow> 'b wire" where
  "wbind m f = (case m of None \<Rightarrow> None | Some (Inl e) \<Rightarrow> Some (Inl e) | Some (Inr x) \<Rightarrow> f x)"

definition indexed :: "'a option \<Rightarrow> 'a wire" where "indexed v = map_option Inr v"

text \<open>\<open>bytes[a..b]\<close> and \<open>bytes[i]\<close>\<close>

definition slice :: "nat \<Rightarrow> nat \<Rightarrow> u8 list \<Rightarrow> u8 list option" where
  "slice a b bytes = (if a \<le> b \<and> b \<le> length bytes then Some (take (b - a) (drop a bytes)) else None)"

definition byte_at :: "u8 list \<Rightarrow> nat \<Rightarrow> u8 wire" where
  "byte_at bytes i = indexed (if i < length bytes then Some (bytes ! i) else None)"

section \<open>Byte order (setup.rs)\<close>

fun bo_nat :: "XByteOrder \<Rightarrow> u8 list \<Rightarrow> nat" where
  "bo_nat LittleEndian bs = le_nat bs"
| "bo_nat BigEndian bs = le_nat (rev bs)"

definition bo_u16 :: "XByteOrder \<Rightarrow> u8 list \<Rightarrow> u16 option" where
  "bo_u16 order bytes = (if 2 \<le> length bytes then Some (word_of_nat (bo_nat order (take 2 bytes))) else None)"

definition bo_u32 :: "XByteOrder \<Rightarrow> u8 list \<Rightarrow> u32 option" where
  "bo_u32 order bytes = (if 4 \<le> length bytes then Some (word_of_nat (bo_nat order (take 4 bytes))) else None)"

definition bo_u64 :: "XByteOrder \<Rightarrow> u8 list \<Rightarrow> u64 option" where
  "bo_u64 order bytes = (if 8 \<le> length bytes then Some (word_of_nat (bo_nat order (take 8 bytes))) else None)"

definition bo_i16 :: "XByteOrder \<Rightarrow> u8 list \<Rightarrow> i16 option" where
  "bo_i16 order bytes = (if 2 \<le> length bytes then Some (word_of_nat (bo_nat order (take 2 bytes))) else None)"

definition padded_len :: "nat \<Rightarrow> nat" where
  "padded_len n = (n + 3) - (n + 3) mod 4"

text \<open>The reads the decoders write as \<open>context.byte_order.u32(&bytes[a..a + 4])\<close>, and the id made of one.\<close>

definition u16_at :: "XWireClientContext \<Rightarrow> u8 list \<Rightarrow> nat \<Rightarrow> u16 wire" where
  "u16_at context bytes a = indexed (Option.bind (slice a (a + 2) bytes) (bo_u16 (wc_byte_order context)))"

definition i16_at :: "XWireClientContext \<Rightarrow> u8 list \<Rightarrow> nat \<Rightarrow> i16 wire" where
  "i16_at context bytes a = indexed (Option.bind (slice a (a + 2) bytes) (bo_i16 (wc_byte_order context)))"

definition u32_at :: "XWireClientContext \<Rightarrow> u8 list \<Rightarrow> nat \<Rightarrow> u32 wire" where
  "u32_at context bytes a = indexed (Option.bind (slice a (a + 4) bytes) (bo_u32 (wc_byte_order context)))"

definition u64_at :: "XWireClientContext \<Rightarrow> u8 list \<Rightarrow> nat \<Rightarrow> u64 wire" where
  "u64_at context bytes a = indexed (Option.bind (slice a (a + 8) bytes) (bo_u64 (wc_byte_order context)))"

definition resource_id :: "u32 \<Rightarrow> XResourceId" where
  "resource_id raw = AuthorityLocalId (ucast raw) 1"

definition optional_id :: "u32 \<Rightarrow> XResourceId option" where
  "optional_id raw = (if raw \<noteq> 0 then Some (resource_id raw) else None)"

definition id_at :: "XWireClientContext \<Rightarrow> u8 list \<Rightarrow> nat \<Rightarrow> XResourceId wire" where
  "id_at context bytes a = wbind (u32_at context bytes a) (\<lambda>raw. wok (resource_id raw))"

definition slice_at :: "u8 list \<Rightarrow> nat \<Rightarrow> nat \<Rightarrow> u8 list wire" where
  "slice_at bytes a b = indexed (slice a b bytes)"

section \<open>Guards (wire.rs)\<close>

definition require_len :: "u8 \<Rightarrow> nat \<Rightarrow> nat \<Rightarrow> unit wire" where
  "require_len opcode expected_at_least actual =
     (if actual < expected_at_least then werr (WpInvalidLength opcode expected_at_least actual) else wok ())"

definition require_exact_len :: "u8 \<Rightarrow> nat \<Rightarrow> nat \<Rightarrow> unit wire" where
  "require_exact_len opcode expected actual =
     (if actual \<noteq> expected then werr (WpInvalidLength opcode expected actual) else wok ())"

definition validate_wire_property_format :: "u8 \<Rightarrow> unit wire" where
  "validate_wire_property_format format =
     (if format = 8 \<or> format = 16 \<or> format = 32 then wok () else werr (WpInvalidPropertyFormat format))"

definition validate_wire_image_format :: "u8 \<Rightarrow> unit wire" where
  "validate_wire_image_format format = (if format \<le> 2 then wok () else werr (WpInvalidPropertyFormat format))"

definition validate_new_resource_id :: "XWireClientContext \<Rightarrow> u32 \<Rightarrow> unit wire" where
  "validate_new_resource_id context raw =
     (case wc_resource_id_range context of
        None \<Rightarrow> wok ()
      | Some rng \<Rightarrow> if \<not> owns_new_resource rng raw then werr (WpResourceIdOutsideClientRange raw) else wok ())"

section \<open>Repeated fields\<close>

text \<open>\<open>chunks_exact\<close>, and a fallible map over its chunks.\<close>

function chunks_exact :: "nat \<Rightarrow> u8 list \<Rightarrow> u8 list list" where
  "chunks_exact n bytes =
     (if n = 0 \<or> length bytes < n then [] else take n bytes # chunks_exact n (drop n bytes))"
  by pat_completeness auto
termination by (relation "measure (\<lambda>(n, bytes). length bytes)") auto

declare chunks_exact.simps [simp del]

fun wmap :: "('a \<Rightarrow> 'b wire) \<Rightarrow> 'a list \<Rightarrow> 'b list wire" where
  "wmap f [] = wok []"
| "wmap f (x # xs) = wbind (f x) (\<lambda>y. wbind (wmap f xs) (\<lambda>ys. wok (y # ys)))"

text \<open>\<open>count_ones\<close>\<close>

definition count_ones :: "'a::len word \<Rightarrow> nat" where
  "count_ones w = length (filter (bit w) [0..<LENGTH('a)])"

text \<open>
  The loop over a value mask: \<open>for bit in ..\<close> with \<open>continue\<close> where the bit is clear, the next four bytes as its
  value, and a \<open>match bit\<close> that updates what is being built.
\<close>

fun read_values ::
  "XWireClientContext \<Rightarrow> u8 list \<Rightarrow> u32 \<Rightarrow> (nat \<Rightarrow> u32 \<Rightarrow> 's \<Rightarrow> 's) \<Rightarrow> nat list \<Rightarrow> nat \<Rightarrow> 's \<Rightarrow> 's wire" where
  "read_values context bytes value_mask store [] cursor s = wok s"
| "read_values context bytes value_mask store (i # is) cursor s =
     (if value_mask AND push_bit i 1 = 0 then read_values context bytes value_mask store is cursor s
      else wbind (u32_at context bytes cursor) (\<lambda>value.
           read_values context bytes value_mask store is (cursor + 4) (store i value s)))"

section \<open>A program logic for decoders\<close>

text \<open>\<open>ensures P m\<close>: \<open>m\<close> does not panic, and what it returns satisfies \<open>P\<close>.\<close>

definition ensures :: "('a \<Rightarrow> bool) \<Rightarrow> 'a wire \<Rightarrow> bool" where
  "ensures P m = (case m of None \<Rightarrow> False | Some (Inl e) \<Rightarrow> True | Some (Inr x) \<Rightarrow> P x)"

named_theorems wire_rule \<open>rules of the decoder logic\<close>

lemma ensuresD: "ensures P m \<Longrightarrow> m = Some (Inr x) \<Longrightarrow> P x"
  by (simp add: ensures_def)

lemma ensures_no_panic: "ensures P m \<Longrightarrow> m \<noteq> None"
  by (cases m) (auto simp: ensures_def)

lemma ensures_mono: "ensures P m \<Longrightarrow> (\<And>x. P x \<Longrightarrow> Q x) \<Longrightarrow> ensures Q m"
  by (auto simp: ensures_def split: option.splits sum.splits)

lemma ensures_wok [wire_rule]: "P x \<Longrightarrow> ensures P (wok x)"
  by (simp add: ensures_def wok_def)

lemma ensures_werr [wire_rule]: "ensures P (werr e)"
  by (simp add: ensures_def werr_def)

lemma ensures_wbind [wire_rule]: "ensures (\<lambda>x. ensures P (f x)) m \<Longrightarrow> ensures P (wbind m f)"
  by (auto simp: ensures_def wbind_def split: option.splits sum.splits)

lemma ensures_if [wire_rule]:
  "(b \<Longrightarrow> ensures P m) \<Longrightarrow> (\<not> b \<Longrightarrow> ensures P m') \<Longrightarrow> ensures P (if b then m else m')"
  by simp

lemma ensures_let [wire_rule]: "(\<And>y. y = x \<Longrightarrow> ensures P (f y)) \<Longrightarrow> ensures P (let y = x in f y)"
  by simp

lemma ensures_reads [wire_rule]:
  "a + 2 \<le> length bytes \<Longrightarrow> (\<And>v. P v) \<Longrightarrow> ensures P (u16_at context bytes a)"
  "a + 2 \<le> length bytes \<Longrightarrow> (\<And>v. P' v) \<Longrightarrow> ensures P' (i16_at context bytes a)"
  "a + 4 \<le> length bytes \<Longrightarrow> (\<And>v. Q v) \<Longrightarrow> ensures Q (u32_at context bytes a)"
  "a + 8 \<le> length bytes \<Longrightarrow> (\<And>v. R v) \<Longrightarrow> ensures R (u64_at context bytes a)"
  "i < length bytes \<Longrightarrow> (\<And>v. S v) \<Longrightarrow> ensures S (byte_at bytes i)"
  by (simp_all add: ensures_def u16_at_def i16_at_def u32_at_def u64_at_def byte_at_def indexed_def slice_def
      bo_u16_def bo_i16_def bo_u32_def bo_u64_def)

lemma ensures_id_at [wire_rule]:
  "a + 4 \<le> length bytes \<Longrightarrow> (\<And>v. P v) \<Longrightarrow> ensures P (id_at context bytes a)"
  unfolding id_at_def by (intro wire_rule)

lemma ensures_slice_at [wire_rule]:
  "a \<le> b \<Longrightarrow> b \<le> length bytes \<Longrightarrow> (\<And>v. length v = b - a \<Longrightarrow> P v) \<Longrightarrow> ensures P (slice_at bytes a b)"
  by (simp add: ensures_def slice_at_def indexed_def slice_def)

lemma ensures_require [wire_rule]:
  "(n \<le> l \<Longrightarrow> P ()) \<Longrightarrow> ensures P (require_len oc n l)"
  "(l = n \<Longrightarrow> P ()) \<Longrightarrow> ensures P (require_exact_len oc n l)"
  by (auto simp: require_len_def require_exact_len_def intro!: wire_rule)

lemma ensures_validate [wire_rule]:
  "(format = 8 \<or> format = 16 \<or> format = 32 \<Longrightarrow> P ()) \<Longrightarrow> ensures P (validate_wire_property_format format)"
  "P () \<Longrightarrow> ensures P (validate_wire_image_format format)"
  "((\<And>rng. wc_resource_id_range context = Some rng \<Longrightarrow> range_owns_id rng (resource_id raw)) \<Longrightarrow> P ())
     \<Longrightarrow> ensures P (validate_new_resource_id context raw)"
proof -
  have "(ucast (ucast raw :: u64) :: u32) = raw" by (rule bit_word_eqI) (simp add: bit_simps)
  moreover have "unat raw < 4294967296" using unsigned_less [of raw] by simp
  ultimately have own: "owns_new_resource rng raw \<Longrightarrow> range_owns_id rng (resource_id raw)" for rng
    by (simp add: range_owns_id_def resource_id_def)
  show "((\<And>rng. wc_resource_id_range context = Some rng \<Longrightarrow> range_owns_id rng (resource_id raw)) \<Longrightarrow> P ())
      \<Longrightarrow> ensures P (validate_new_resource_id context raw)"
    by (auto simp: validate_new_resource_id_def own split: option.split intro!: wire_rule)
qed (auto simp: validate_wire_property_format_def validate_wire_image_format_def intro!: wire_rule)

lemma ensures_wmap [wire_rule]:
  "(\<And>x. x \<in> set xs \<Longrightarrow> ensures (\<lambda>_. True) (f x)) \<Longrightarrow> (\<And>ys. length ys = length xs \<Longrightarrow> P ys) \<Longrightarrow> ensures P (wmap f xs)"
proof (induction xs arbitrary: P)
  case (Cons x xs)
  have "ensures (\<lambda>ys. length ys = length xs) (wmap f xs)" by (rule Cons.IH) (simp_all add: Cons.prems)
  then show ?case
    by (auto intro!: wire_rule Cons.prems(2) ensures_mono [OF Cons.prems(1)] elim!: ensures_mono)
qed (auto intro: wire_rule)

lemma chunks_exact_length: "c \<in> set (chunks_exact n bytes) \<Longrightarrow> length c = n"
proof (induction n bytes rule: chunks_exact.induct)
  case (1 n bytes)
  then show ?case by (subst (asm) (2) chunks_exact.simps) (auto split: if_splits)
qed

lemma length_chunks_exact: "n \<noteq> 0 \<Longrightarrow> length (chunks_exact n bytes) = length bytes div n"
proof (induction n bytes rule: chunks_exact.induct)
  case (1 n bytes)
  then show ?case by (subst chunks_exact.simps) (auto simp: le_div_geq)
qed

lemma padded_len_ge: "n \<le> padded_len n"
  unfolding padded_len_def by presburger

section \<open>Value masks\<close>

lemma mask_bit: "value_mask AND push_bit i 1 = 0 \<longleftrightarrow> \<not> bit value_mask i" for value_mask :: "'a::len word"
  by (simp add: and_exp_eq_0_iff_not_bit)

lemma ensures_read_values:
  "cursor + 4 * length (filter (bit value_mask) is) \<le> length bytes \<Longrightarrow> (\<And>t. P t)
     \<Longrightarrow> ensures P (read_values context bytes value_mask store is cursor s)"
proof (induction "is" arbitrary: cursor s)
  case (Cons i "is")
  then show ?case
    by (cases "bit value_mask i") (auto simp: mask_bit simp del: push_bit_of_1 intro!: wire_rule Cons.IH)
qed (auto intro: wire_rule)

lemma count_ones_upto: "n \<le> LENGTH('a) \<Longrightarrow> length (filter (bit w) [0..<n]) \<le> count_ones w" for w :: "'a::len word"
proof -
  assume "n \<le> LENGTH('a)"
  then have "[0..<LENGTH('a)] = [0..<n] @ [n..<LENGTH('a)]" by (metis le_Suc_ex le0 upt_add_eq_append)
  then show ?thesis by (simp add: count_ones_def)
qed

end
