(* ===== verification/X_Wire.thy ===== *)
theory X_Wire
  imports X_Wire_Base X_Isolation
begin

text \<open>
  The X11 request decoder (\<^verbatim>\<open>sophia-x-authority/src/wire.rs\<close>): one definition per decoder, in the order of the
  file, and \<open>decode_x11_core_request\<close> over all of them. It is proved that no byte string makes the decoder index
  out of range, that every id a decoded request would create lies in the client's range, that the variable-length
  parts of a request stay within the limits of the file, and that a decoded authority request is allocated the
  way the isolation theorem of the runtime assumes.
\<close>

section \<open>Helpers\<close>

text \<open>\<open>(n + 7) & !7\<close> and its like, for the lengths that errors report.\<close>

definition round_up :: "nat \<Rightarrow> nat \<Rightarrow> nat" where
  "round_up unit n = (n + unit - 1) div unit * unit"

text \<open>A rectangle of four 16-bit fields, as in \<open>XFIXES\<close> regions, clip lists and filled shapes.\<close>

definition rect_at :: "XWireClientContext \<Rightarrow> u8 list \<Rightarrow> nat \<Rightarrow> Rect wire" where
  "rect_at context bytes a =
     wbind (i16_at context bytes a) (\<lambda>x.
     wbind (i16_at context bytes (a + 2)) (\<lambda>y.
     wbind (u16_at context bytes (a + 4)) (\<lambda>width.
     wbind (u16_at context bytes (a + 6)) (\<lambda>height.
     wok \<lparr>rc_x = scast x, rc_y = scast y, rc_width = ucast width, rc_height = ucast height\<rparr>))))"

definition rectangles_of :: "XWireClientContext \<Rightarrow> u8 list \<Rightarrow> Rect list wire" where
  "rectangles_of context bytes = wmap (\<lambda>rectangle. rect_at context rectangle 0) (chunks_exact 8 bytes)"

definition u8_or_max :: "u32 \<Rightarrow> u8" where
  "u8_or_max value = (if unat value < 2 ^ 8 then ucast value else word_max)"

definition u16_or_max :: "u32 \<Rightarrow> u16" where
  "u16_or_max value = (if unat value < 2 ^ 16 then ucast value else word_max)"

text \<open>The text of a request: \<open>str::from_utf8\<close> of a slice, or the given error.\<close>

definition utf8_or :: "XWireParseError \<Rightarrow> u8 list \<Rightarrow> rust_string wire" where
  "utf8_or e bytes = (if utf8_valid bytes then wok bytes else werr e)"

text \<open>\<open>{n}\<close> in a format string: the decimal digits.\<close>

fun decimal :: "nat \<Rightarrow> rust_string" where
  "decimal n = (if n < 10 then [word_of_nat (48 + n)] else decimal (n div 10) @ [word_of_nat (48 + n mod 10)])"

declare decimal.simps [simp del]

section \<open>Extensions (wire.rs)\<close>

definition decode_extension_query_version ::
  "XWireClientContext \<Rightarrow> u8 list \<Rightarrow> u8 \<Rightarrow> u8 \<Rightarrow> (u32 \<Rightarrow> u32 \<Rightarrow> XWireRequest) \<Rightarrow> XWireRequest wire" where
  "decode_extension_query_version context bytes major_opcode minor_opcode request =
     wbind (require_exact_len major_opcode 12 (length bytes)) (\<lambda>_.
     wbind (byte_at bytes 1) (\<lambda>minor.
     if minor \<noteq> minor_opcode then werr (WpUnknownOpcode minor)
     else wbind (u32_at context bytes 4) (\<lambda>major_version.
          wbind (u32_at context bytes 8) (\<lambda>minor_version.
          wok (request major_version minor_version)))))"

definition decode_glx :: "XWireClientContext \<Rightarrow> u8 list \<Rightarrow> XWireRequest wire" where
  "decode_glx context bytes =
     wbind (byte_at bytes 1) (\<lambda>minor.
     if minor = X_GLX_QUERY_VERSION_MINOR_OPCODE then
       wbind (require_exact_len X_GLX_MAJOR_OPCODE 12 (length bytes)) (\<lambda>_.
       wbind (u32_at context bytes 4) (\<lambda>major_version.
       wbind (u32_at context bytes 8) (\<lambda>minor_version.
       wok (RqGlx (RqGlxQueryVersion major_version minor_version)))))
     else if minor = X_GLX_GET_VISUAL_CONFIGS_MINOR_OPCODE then
       wbind (require_exact_len X_GLX_MAJOR_OPCODE 8 (length bytes)) (\<lambda>_.
       wbind (u32_at context bytes 4) (\<lambda>screen.
       wok (RqGlx (RqGlxGetVisualConfigs screen))))
     else if minor = X_GLX_QUERY_EXTENSIONS_STRING_MINOR_OPCODE then
       wbind (require_exact_len X_GLX_MAJOR_OPCODE 8 (length bytes)) (\<lambda>_.
       wok (RqGlx RqGlxQueryExtensionsString))
     else if minor = X_GLX_QUERY_SERVER_STRING_MINOR_OPCODE then
       wbind (require_exact_len X_GLX_MAJOR_OPCODE 12 (length bytes)) (\<lambda>_.
       wbind (u32_at context bytes 8) (\<lambda>name.
       wok (RqGlx (RqGlxQueryServerString name))))
     else if minor = X_GLX_GET_FB_CONFIGS_MINOR_OPCODE then
       wbind (require_exact_len X_GLX_MAJOR_OPCODE 8 (length bytes)) (\<lambda>_.
       wbind (u32_at context bytes 4) (\<lambda>screen.
       wok (RqGlx (RqGlxGetFbConfigs screen))))
     else if minor = X_GLX_CLIENT_INFO_MINOR_OPCODE \<or> minor = X_GLX_SET_CLIENT_INFO_ARB_MINOR_OPCODE \<or> minor = X_GLX_SET_CLIENT_INFO_2_ARB_MINOR_OPCODE then
       wbind (require_len X_GLX_MAJOR_OPCODE 16 (length bytes)) (\<lambda>_.
       wok (RqGlx RqGlxClientInfo))
     else if minor = X_GLX_DESTROY_CONTEXT_MINOR_OPCODE then
       wbind (require_exact_len X_GLX_MAJOR_OPCODE 8 (length bytes)) (\<lambda>_.
       wbind (id_at context bytes 4) (\<lambda>context_id.
       wok (RqGlx (RqGlxDestroyContext context_id))))
     else if minor = X_GLX_IS_DIRECT_MINOR_OPCODE then
       wbind (require_exact_len X_GLX_MAJOR_OPCODE 8 (length bytes)) (\<lambda>_.
       wbind (id_at context bytes 4) (\<lambda>context_id.
       wok (RqGlx (RqGlxIsDirect context_id))))
     else if minor = X_GLX_CREATE_NEW_CONTEXT_MINOR_OPCODE then
       wbind (require_exact_len X_GLX_MAJOR_OPCODE 28 (length bytes)) (\<lambda>_.
       wbind (u32_at context bytes 4) (\<lambda>context_id.
       wbind (validate_new_resource_id context context_id) (\<lambda>_.
       wbind (u32_at context bytes 20) (\<lambda>share.
       wbind (u32_at context bytes 8) (\<lambda>fbconfig.
       wbind (u32_at context bytes 12) (\<lambda>screen.
       wbind (byte_at bytes 24) (\<lambda>direct.
       wok (RqGlx (RqGlxCreateContext (resource_id context_id) fbconfig screen (optional_id share) (direct \<noteq> 0))))))))))
     else if minor = X_GLX_CREATE_CONTEXT_ATTRIBS_ARB_MINOR_OPCODE then
       wbind (require_len X_GLX_MAJOR_OPCODE 28 (length bytes)) (\<lambda>_.
       wbind (u32_at context bytes 24) (\<lambda>count.
       wbind (require_exact_len X_GLX_MAJOR_OPCODE (usize_sat (28 + usize_sat (unat count * 8))) (length bytes)) (\<lambda>_.
       wbind (u32_at context bytes 4) (\<lambda>context_id.
       wbind (validate_new_resource_id context context_id) (\<lambda>_.
       wbind (u32_at context bytes 16) (\<lambda>share.
       wbind (u32_at context bytes 8) (\<lambda>fbconfig.
       wbind (u32_at context bytes 12) (\<lambda>screen.
       wbind (byte_at bytes 20) (\<lambda>direct.
       wok (RqGlx (RqGlxCreateContext (resource_id context_id) fbconfig screen (optional_id share) (direct \<noteq> 0))))))))))))
     else if minor = X_GLX_CREATE_WINDOW_MINOR_OPCODE then
       wbind (require_len X_GLX_MAJOR_OPCODE 24 (length bytes)) (\<lambda>_.
       wbind (u32_at context bytes 20) (\<lambda>count.
       wbind (require_exact_len X_GLX_MAJOR_OPCODE (usize_sat (24 + usize_sat (unat count * 8))) (length bytes)) (\<lambda>_.
       wbind (u32_at context bytes 16) (\<lambda>glx_window.
       wbind (validate_new_resource_id context glx_window) (\<lambda>_.
       wbind (u32_at context bytes 4) (\<lambda>screen.
       wbind (u32_at context bytes 8) (\<lambda>fbconfig.
       wbind (id_at context bytes 12) (\<lambda>window.
       wok (RqGlx (RqGlxCreateWindow screen fbconfig window (resource_id glx_window)))))))))))
     else if minor = X_GLX_DELETE_WINDOW_MINOR_OPCODE then
       wbind (require_exact_len X_GLX_MAJOR_OPCODE 8 (length bytes)) (\<lambda>_.
       wbind (id_at context bytes 4) (\<lambda>glx_window.
       wok (RqGlx (RqGlxDeleteWindow glx_window))))
     else if minor = X_GLX_GET_DRAWABLE_ATTRIBUTES_MINOR_OPCODE then
       wbind (require_exact_len X_GLX_MAJOR_OPCODE 8 (length bytes)) (\<lambda>_.
       wbind (id_at context bytes 4) (\<lambda>drawable.
       wok (RqGlx (RqGlxGetDrawableAttributes drawable))))
     else werr (WpUnknownOpcode minor))"

definition decode_xfixes :: "XWireClientContext \<Rightarrow> u8 list \<Rightarrow> XWireRequest wire" where
  "decode_xfixes context bytes =
     wbind (byte_at bytes 1) (\<lambda>minor.
     if minor = X_XFIXES_QUERY_VERSION_MINOR_OPCODE then
       decode_extension_query_version context bytes X_XFIXES_MAJOR_OPCODE X_XFIXES_QUERY_VERSION_MINOR_OPCODE
         (\<lambda>major_version minor_version. RqBuffer (RqXfixesQueryVersion major_version minor_version))
     else if minor = X_XFIXES_SELECT_SELECTION_INPUT_MINOR_OPCODE then
       wbind (require_exact_len X_XFIXES_MAJOR_OPCODE 16 (length bytes)) (\<lambda>_.
       wbind (id_at context bytes 4) (\<lambda>window.
       wbind (u32_at context bytes 8) (\<lambda>selection.
       wbind (u32_at context bytes 12) (\<lambda>event_mask.
       wok (RqBuffer (RqXfixesSelectSelectionInput window selection event_mask))))))
     else if minor = X_XFIXES_CREATE_REGION_MINOR_OPCODE then
       wbind (require_len X_XFIXES_MAJOR_OPCODE 8 (length bytes)) (\<lambda>_.
       if (length bytes - 8) mod 8 \<noteq> 0 then werr (WpInvalidLength X_XFIXES_MAJOR_OPCODE 8 (length bytes)) else
       wbind (u32_at context bytes 4) (\<lambda>region.
       wbind (validate_new_resource_id context region) (\<lambda>_.
       wbind (slice_at bytes 8 (length bytes)) (\<lambda>body.
       wbind (rectangles_of context body) (\<lambda>rectangles.
       wok (RqBuffer (RqXfixesCreateRegion (resource_id region) rectangles)))))))
     else if minor = X_XFIXES_SET_REGION_MINOR_OPCODE then
       wbind (require_len X_XFIXES_MAJOR_OPCODE 8 (length bytes)) (\<lambda>_.
       if (length bytes - 8) mod 8 \<noteq> 0 then werr (WpInvalidLength X_XFIXES_MAJOR_OPCODE 8 (length bytes)) else
       wbind (id_at context bytes 4) (\<lambda>region.
       wbind (slice_at bytes 8 (length bytes)) (\<lambda>body.
       wbind (rectangles_of context body) (\<lambda>rectangles.
       wok (RqBuffer (RqXfixesSetRegion region rectangles))))))
     else if minor = X_XFIXES_DESTROY_REGION_MINOR_OPCODE then
       wbind (require_exact_len X_XFIXES_MAJOR_OPCODE 8 (length bytes)) (\<lambda>_.
       wbind (id_at context bytes 4) (\<lambda>region.
       wok (RqBuffer (RqXfixesDestroyRegion region))))
     else werr (WpUnknownOpcode minor))"

definition decode_dri3 :: "XWireClientContext \<Rightarrow> u8 list \<Rightarrow> XWireRequest wire" where
  "decode_dri3 context bytes =
     wbind (byte_at bytes 1) (\<lambda>minor.
     if minor = X_DRI3_QUERY_VERSION_MINOR_OPCODE then
       decode_extension_query_version context bytes X_DRI3_MAJOR_OPCODE X_DRI3_QUERY_VERSION_MINOR_OPCODE
         (\<lambda>major_version minor_version. RqBuffer (RqDri3QueryVersion major_version minor_version))
     else if minor = X_DRI3_OPEN_MINOR_OPCODE then
       wbind (require_exact_len X_DRI3_MAJOR_OPCODE 12 (length bytes)) (\<lambda>_.
       wbind (id_at context bytes 4) (\<lambda>drawable.
       wbind (u32_at context bytes 8) (\<lambda>provider.
       wok (RqBuffer (RqDri3Open drawable provider)))))
     else if minor = X_DRI3_PIXMAP_FROM_BUFFER_MINOR_OPCODE then
       wbind (require_exact_len X_DRI3_MAJOR_OPCODE 24 (length bytes)) (\<lambda>_.
       wbind (u32_at context bytes 4) (\<lambda>pixmap.
       wbind (validate_new_resource_id context pixmap) (\<lambda>_.
       wbind (id_at context bytes 8) (\<lambda>drawable.
       wbind (u32_at context bytes 12) (\<lambda>size_bytes.
       wbind (u16_at context bytes 16) (\<lambda>width.
       wbind (u16_at context bytes 18) (\<lambda>height.
       wbind (u16_at context bytes 20) (\<lambda>stride.
       wbind (byte_at bytes 22) (\<lambda>depth.
       wbind (byte_at bytes 23) (\<lambda>bits_per_pixel.
       wok (RqBuffer (RqDri3PixmapFromBuffer (resource_id pixmap) drawable size_bytes width height stride depth bits_per_pixel))))))))))))
     else if minor = X_DRI3_FENCE_FROM_FD_MINOR_OPCODE then
       wbind (require_exact_len X_DRI3_MAJOR_OPCODE 16 (length bytes)) (\<lambda>_.
       wbind (u32_at context bytes 8) (\<lambda>fence.
       wbind (validate_new_resource_id context fence) (\<lambda>_.
       wbind (id_at context bytes 4) (\<lambda>drawable.
       wbind (byte_at bytes 12) (\<lambda>initially_triggered.
       wok (RqBuffer (RqDri3FenceFromFd drawable (resource_id fence) (initially_triggered \<noteq> 0))))))))
     else if minor = X_DRI3_GET_SUPPORTED_MODIFIERS_MINOR_OPCODE then
       wbind (require_exact_len X_DRI3_MAJOR_OPCODE 12 (length bytes)) (\<lambda>_.
       wbind (id_at context bytes 4) (\<lambda>window.
       wbind (byte_at bytes 8) (\<lambda>depth.
       wbind (byte_at bytes 9) (\<lambda>bits_per_pixel.
       wok (RqBuffer (RqDri3GetSupportedModifiers window depth bits_per_pixel))))))
     else if minor = X_DRI3_PIXMAP_FROM_BUFFERS_MINOR_OPCODE then
       wbind (require_exact_len X_DRI3_MAJOR_OPCODE 64 (length bytes)) (\<lambda>_.
       wbind (u32_at context bytes 4) (\<lambda>pixmap.
       wbind (validate_new_resource_id context pixmap) (\<lambda>_.
       wbind (byte_at bytes 12) (\<lambda>num_buffers.
       if num_buffers = 0 \<or> DMA_BUF_MAX_PLANES < unat num_buffers then werr (WpInvalidValue (ucast num_buffers)) else
       wbind (id_at context bytes 8) (\<lambda>window.
       wbind (u16_at context bytes 16) (\<lambda>width.
       wbind (u16_at context bytes 18) (\<lambda>height.
       wbind (u32_at context bytes 20) (\<lambda>stride0.
       wbind (u32_at context bytes 28) (\<lambda>stride1.
       wbind (u32_at context bytes 36) (\<lambda>stride2.
       wbind (u32_at context bytes 44) (\<lambda>stride3.
       wbind (u32_at context bytes 24) (\<lambda>offset0.
       wbind (u32_at context bytes 32) (\<lambda>offset1.
       wbind (u32_at context bytes 40) (\<lambda>offset2.
       wbind (u32_at context bytes 48) (\<lambda>offset3.
       wbind (byte_at bytes 52) (\<lambda>depth.
       wbind (byte_at bytes 53) (\<lambda>bits_per_pixel.
       wbind (u64_at context bytes 56) (\<lambda>modifier.
       wok (RqBuffer (RqDri3PixmapFromBuffers (resource_id pixmap) window num_buffers width height
         [stride0, stride1, stride2, stride3] [offset0, offset1, offset2, offset3] depth bits_per_pixel modifier))))))))))))))))))))
     else werr (WpUnknownOpcode minor))"

definition notify_of :: "XWireClientContext \<Rightarrow> u8 list \<Rightarrow> (XResourceId \<times> u32) wire" where
  "notify_of context notify =
     wbind (id_at context notify 0) (\<lambda>window. wbind (u32_at context notify 4) (\<lambda>serial. wok (window, serial)))"

definition decode_present :: "XWireClientContext \<Rightarrow> u8 list \<Rightarrow> XWireRequest wire" where
  "decode_present context bytes =
     wbind (byte_at bytes 1) (\<lambda>minor.
     if minor = X_PRESENT_QUERY_VERSION_MINOR_OPCODE then
       decode_extension_query_version context bytes X_PRESENT_MAJOR_OPCODE X_PRESENT_QUERY_VERSION_MINOR_OPCODE
         (\<lambda>major_version minor_version. RqBuffer (RqPresentQueryVersion major_version minor_version))
     else if minor = X_PRESENT_PIXMAP_MINOR_OPCODE then
       wbind (require_len X_PRESENT_MAJOR_OPCODE 72 (length bytes)) (\<lambda>_.
       if (length bytes - 72) mod 8 \<noteq> 0 then werr (WpInvalidLength X_PRESENT_MAJOR_OPCODE 72 (length bytes)) else
       wbind (slice_at bytes 72 (length bytes)) (\<lambda>body.
       wbind (wmap (notify_of context) (chunks_exact 8 body)) (\<lambda>notifies.
       wbind (id_at context bytes 4) (\<lambda>window.
       wbind (id_at context bytes 8) (\<lambda>pixmap.
       wbind (u32_at context bytes 12) (\<lambda>serial.
       wbind (u32_at context bytes 16) (\<lambda>valid_region.
       wbind (u32_at context bytes 20) (\<lambda>update_region.
       wbind (i16_at context bytes 24) (\<lambda>x_offset.
       wbind (i16_at context bytes 26) (\<lambda>y_offset.
       wbind (u32_at context bytes 28) (\<lambda>target_crtc.
       wbind (u32_at context bytes 32) (\<lambda>wait_fence.
       wbind (u32_at context bytes 36) (\<lambda>idle_fence.
       wbind (u32_at context bytes 40) (\<lambda>options.
       wbind (u64_at context bytes 48) (\<lambda>target_msc.
       wbind (u64_at context bytes 56) (\<lambda>divisor.
       wbind (u64_at context bytes 64) (\<lambda>remainder.
       wok (RqBuffer (RqPresentPixmap (wc_transaction context) window pixmap serial valid_region update_region x_offset y_offset
         target_crtc (optional_id wait_fence) (optional_id idle_fence) options target_msc divisor remainder notifies)))))))))))))))))))
     else if minor = X_PRESENT_SELECT_INPUT_MINOR_OPCODE then
       wbind (require_exact_len X_PRESENT_MAJOR_OPCODE 16 (length bytes)) (\<lambda>_.
       wbind (u32_at context bytes 4) (\<lambda>event_id.
       wbind (validate_new_resource_id context event_id) (\<lambda>_.
       wbind (id_at context bytes 8) (\<lambda>window.
       wbind (u32_at context bytes 12) (\<lambda>event_mask.
       wok (RqBuffer (RqPresentSelectInput (resource_id event_id) window event_mask)))))))
     else if minor = X_PRESENT_QUERY_CAPABILITIES_MINOR_OPCODE then
       wbind (require_exact_len X_PRESENT_MAJOR_OPCODE 8 (length bytes)) (\<lambda>_.
       wbind (id_at context bytes 4) (\<lambda>target.
       wok (RqBuffer (RqPresentQueryCapabilities target))))
     else werr (WpUnknownOpcode minor))"

fun required_fd_count :: "XWireRequest \<Rightarrow> nat" where
  "required_fd_count (RqBuffer (RqDri3PixmapFromBuffer _ _ _ _ _ _ _ _)) = 1"
| "required_fd_count (RqBuffer (RqDri3FenceFromFd _ _ _)) = 1"
| "required_fd_count (RqBuffer (RqDri3PixmapFromBuffers _ _ num_buffers _ _ _ _ _ _ _)) = unat num_buffers"
| "required_fd_count _ = 0"

text \<open>
  The loop of \<open>XISelectEvents\<close>: \<open>count\<close> masks from \<open>offset\<close> on, each a device, a word count and that many words;
  the result is the masks with the offset behind the last.
\<close>

fun select_masks ::
  "XWireClientContext \<Rightarrow> u8 list \<Rightarrow> nat \<Rightarrow> nat \<Rightarrow> ((u16 \<times> u32 list) list \<times> nat) wire" where
  "select_masks context bytes 0 offset = wok ([], offset)"
| "select_masks context bytes (Suc count) offset =
     (if length bytes < offset + 4 then werr (WpInvalidLength X_INPUT_MAJOR_OPCODE (usize_sat (offset + 4)) (length bytes))
      else wbind (u16_at context bytes offset) (\<lambda>device_id.
           wbind (u16_at context bytes (offset + 2)) (\<lambda>word_count.
           let words = unat word_count; end = usize_sat (offset + 4 + usize_sat (words * 4)) in
           if 8 < words then werr (WpInvalidValue (ucast word_count))
           else if length bytes < end then werr (WpInvalidLength X_INPUT_MAJOR_OPCODE end (length bytes))
           else wbind (slice_at bytes (offset + 4) end) (\<lambda>body.
                wbind (wmap (\<lambda>w. u32_at context w 0) (chunks_exact 4 body)) (\<lambda>mask.
                wbind (select_masks context bytes count end) (\<lambda>(masks, offset').
                wok ((device_id, mask) # masks, offset')))))))"

definition decode_x_input :: "XWireClientContext \<Rightarrow> u8 list \<Rightarrow> XWireRequest wire" where
  "decode_x_input context bytes =
     wbind (byte_at bytes 1) (\<lambda>minor.
     if minor = X_INPUT_DEVICE_BELL_MINOR_OPCODE then
       wbind (require_exact_len X_INPUT_MAJOR_OPCODE 8 (length bytes)) (\<lambda>_.
       wok (RqInput RqXiDeviceBell))
     else if minor = X_INPUT_QUERY_POINTER_MINOR_OPCODE then
       wbind (require_exact_len X_INPUT_MAJOR_OPCODE X_INPUT_QUERY_POINTER_REQ_LEN (length bytes)) (\<lambda>_.
       wbind (id_at context bytes 4) (\<lambda>window.
       wbind (u16_at context bytes 8) (\<lambda>device_id.
       wok (RqInput (RqXiQueryPointer window device_id)))))
     else if minor = X_INPUT_CHANGE_CURSOR_MINOR_OPCODE then
       wbind (require_exact_len X_INPUT_MAJOR_OPCODE X_INPUT_CHANGE_CURSOR_REQ_LEN (length bytes)) (\<lambda>_.
       wbind (u32_at context bytes 8) (\<lambda>cursor.
       wbind (id_at context bytes 4) (\<lambda>window.
       wok (RqInput (RqXiChangeCursor window (optional_id cursor))))))
     else if minor = X_INPUT_GET_CLIENT_POINTER_MINOR_OPCODE then
       wbind (require_exact_len X_INPUT_MAJOR_OPCODE X_INPUT_GET_CLIENT_POINTER_REQ_LEN (length bytes)) (\<lambda>_.
       wok (RqInput RqXiGetClientPointer))
     else if minor = X_INPUT_UNGRAB_DEVICE_MINOR_OPCODE then
       wbind (require_exact_len X_INPUT_MAJOR_OPCODE X_INPUT_UNGRAB_DEVICE_REQ_LEN (length bytes)) (\<lambda>_.
       wbind (u16_at context bytes 8) (\<lambda>device_id.
       wbind (u32_at context bytes 4) (\<lambda>time.
       wok (RqInput (RqXiUngrabDevice device_id time)))))
     else if minor = X_INPUT_GET_EXTENSION_VERSION_MINOR_OPCODE then
       wbind (require_len X_INPUT_MAJOR_OPCODE 8 (length bytes)) (\<lambda>_.
       wbind (u16_at context bytes 4) (\<lambda>name_len.
       wbind (require_exact_len X_INPUT_MAJOR_OPCODE (usize_sat (8 + padded_len (unat name_len))) (length bytes)) (\<lambda>_.
       wok (RqInput RqXiGetExtensionVersion))))
     else if minor = X_INPUT_QUERY_VERSION_MINOR_OPCODE then
       wbind (require_exact_len X_INPUT_MAJOR_OPCODE X_INPUT_QUERY_VERSION_REQ_LEN (length bytes)) (\<lambda>_.
       wbind (u16_at context bytes 4) (\<lambda>major_version.
       wbind (u16_at context bytes 6) (\<lambda>minor_version.
       wok (RqInput (RqXiQueryVersion major_version minor_version)))))
     else if minor = X_INPUT_QUERY_DEVICE_MINOR_OPCODE then
       wbind (require_exact_len X_INPUT_MAJOR_OPCODE X_INPUT_QUERY_DEVICE_REQ_LEN (length bytes)) (\<lambda>_.
       wbind (u16_at context bytes 4) (\<lambda>device_id.
       wok (RqInput (RqXiQueryDevice device_id))))
     else if minor = X_INPUT_GET_FOCUS_MINOR_OPCODE then
       wbind (require_exact_len X_INPUT_MAJOR_OPCODE X_INPUT_GET_FOCUS_REQ_LEN (length bytes)) (\<lambda>_.
       wbind (u16_at context bytes 4) (\<lambda>device_id.
       wok (RqInput (RqXiGetFocus device_id))))
     else if minor = X_INPUT_GET_PROPERTY_MINOR_OPCODE then
       wbind (require_exact_len X_INPUT_MAJOR_OPCODE X_INPUT_GET_PROPERTY_REQ_LEN (length bytes)) (\<lambda>_.
       wok (RqInput RqXiGetProperty))
     else if minor = X_INPUT_SELECT_EVENTS_MINOR_OPCODE then
       wbind (require_len X_INPUT_MAJOR_OPCODE X_INPUT_SELECT_EVENTS_REQ_LEN (length bytes)) (\<lambda>_.
       wbind (id_at context bytes 4) (\<lambda>window.
       wbind (u16_at context bytes 8) (\<lambda>count.
       if 16 < unat count then werr (WpInvalidValue (ucast count))
       else wbind (select_masks context bytes (unat count) X_INPUT_SELECT_EVENTS_REQ_LEN) (\<lambda>(masks, offset).
            if offset \<noteq> length bytes then werr (WpTrailingBytes (length bytes - offset))
            else wok (RqInput (RqXiSelectEvents window masks))))))
     else wbind (byte_at bytes 0) (\<lambda>opcode. werr (WpUnknownOpcode opcode)))"

definition decode_big_requests :: "u8 list \<Rightarrow> XWireRequest wire" where
  "decode_big_requests bytes =
     wbind (byte_at bytes 1) (\<lambda>minor.
     if minor = X_BIG_REQUESTS_ENABLE_MINOR_OPCODE then
       wbind (require_exact_len X_BIG_REQUESTS_MAJOR_OPCODE X_BIG_REQUESTS_ENABLE_REQ_LEN (length bytes)) (\<lambda>_.
       wok (RqServer RqBigRequestsEnable))
     else wbind (byte_at bytes 0) (\<lambda>opcode. werr (WpUnknownOpcode opcode)))"

text \<open>The details of the state event, which follow those of the new-keyboard event if both are named.\<close>

definition state_details_at :: "XWireClientContext \<Rightarrow> u8 list \<Rightarrow> u16 \<Rightarrow> (u16 \<times> u16) option wire" where
  "state_details_at context bytes affect_which =
     (if affect_which AND 4 \<noteq> 0 then
        let offset = 16 + (if affect_which AND 1 \<noteq> 0 then 4 else 0) in
        if offset + 4 \<le> length bytes then
          wbind (u16_at context bytes offset) (\<lambda>affect.
          wbind (u16_at context bytes (offset + 2)) (\<lambda>details. wok (Some (affect, details))))
        else wok None
      else wok None)"

definition decode_x_keyboard :: "XWireClientContext \<Rightarrow> u8 list \<Rightarrow> XWireRequest wire" where
  "decode_x_keyboard context bytes =
     wbind (byte_at bytes 1) (\<lambda>minor.
     if minor = X_KEYBOARD_USE_EXTENSION_MINOR_OPCODE then
       wbind (require_exact_len X_KEYBOARD_MAJOR_OPCODE X_KEYBOARD_USE_EXTENSION_REQ_LEN (length bytes)) (\<lambda>_.
       wbind (u16_at context bytes 4) (\<lambda>wanted_major.
       wbind (u16_at context bytes 6) (\<lambda>wanted_minor.
       wok (RqInput (RqXkbUseExtension wanted_major wanted_minor)))))
     else if minor = X_KEYBOARD_GET_MAP_MINOR_OPCODE then
       wbind (require_exact_len X_KEYBOARD_MAJOR_OPCODE X_KEYBOARD_GET_MAP_REQ_LEN (length bytes)) (\<lambda>_.
       wbind (u16_at context bytes 6) (\<lambda>full.
       wbind (u16_at context bytes 8) (\<lambda>partial.
       wok (RqInput (RqXkbGetMap full partial)))))
     else if minor = X_KEYBOARD_GET_COMPAT_MAP_MINOR_OPCODE then
       wbind (require_exact_len X_KEYBOARD_MAJOR_OPCODE 12 (length bytes)) (\<lambda>_.
       wbind (u16_at context bytes 4) (\<lambda>device_spec.
       wok (RqInput (RqXkbGetCompatMap device_spec))))
     else if minor = X_KEYBOARD_GET_INDICATOR_MAP_MINOR_OPCODE then
       wbind (require_exact_len X_KEYBOARD_MAJOR_OPCODE 12 (length bytes)) (\<lambda>_.
       wbind (u16_at context bytes 4) (\<lambda>device_spec.
       wok (RqInput (RqXkbGetIndicatorMap device_spec))))
     else if minor = X_KEYBOARD_GET_STATE_MINOR_OPCODE then
       wbind (require_exact_len X_KEYBOARD_MAJOR_OPCODE 8 (length bytes)) (\<lambda>_.
       wok (RqInput RqXkbGetState))
     else if minor = X_KEYBOARD_GET_CONTROLS_MINOR_OPCODE then
       wbind (require_exact_len X_KEYBOARD_MAJOR_OPCODE X_KEYBOARD_GET_CONTROLS_REQ_LEN (length bytes)) (\<lambda>_.
       wok (RqInput RqXkbGetControls))
     else if minor = X_KEYBOARD_GET_NAMES_MINOR_OPCODE then
       wbind (require_exact_len X_KEYBOARD_MAJOR_OPCODE 12 (length bytes)) (\<lambda>_.
       wbind (u32_at context bytes 8) (\<lambda>which.
       wok (RqInput (RqXkbGetNames which))))
     else if minor = X_KEYBOARD_GET_DEVICE_INFO_MINOR_OPCODE then
       wbind (require_exact_len X_KEYBOARD_MAJOR_OPCODE 16 (length bytes)) (\<lambda>_.
       wbind (u16_at context bytes 4) (\<lambda>device_spec.
       wbind (u16_at context bytes 6) (\<lambda>wanted.
       wok (RqInput (RqXkbGetDeviceInfo device_spec wanted)))))
     else if minor = X_KEYBOARD_SELECT_EVENTS_MINOR_OPCODE then
       wbind (require_len X_KEYBOARD_MAJOR_OPCODE X_KEYBOARD_SELECT_EVENTS_REQ_LEN (length bytes)) (\<lambda>_.
       wbind (u16_at context bytes 6) (\<lambda>affect_which.
       wbind (state_details_at context bytes affect_which) (\<lambda>state_details.
       wbind (u16_at context bytes 8) (\<lambda>clear.
       wbind (u16_at context bytes 10) (\<lambda>select_all.
       wok (RqInput (RqXkbSelectEvents affect_which clear select_all state_details)))))))
     else if minor = X_KEYBOARD_PER_CLIENT_FLAGS_MINOR_OPCODE then
       wbind (require_exact_len X_KEYBOARD_MAJOR_OPCODE X_KEYBOARD_PER_CLIENT_FLAGS_REQ_LEN (length bytes)) (\<lambda>_.
       wbind (u32_at context bytes 8) (\<lambda>change.
       wbind (u32_at context bytes 12) (\<lambda>value.
       wok (RqInput (RqXkbPerClientFlags change value)))))
     else wbind (byte_at bytes 0) (\<lambda>opcode. werr (WpUnknownOpcode opcode)))"

definition decode_randr :: "XWireClientContext \<Rightarrow> u8 list \<Rightarrow> XWireRequest wire" where
  "decode_randr context bytes =
     wbind (byte_at bytes 1) (\<lambda>minor.
     if minor = X_RANDR_QUERY_VERSION_MINOR_OPCODE then
       wbind (require_len X_RANDR_MAJOR_OPCODE X_RANDR_QUERY_VERSION_REQ_LEN (length bytes)) (\<lambda>_.
       wbind (u32_at context bytes 4) (\<lambda>major_version.
       wbind (u32_at context bytes 8) (\<lambda>minor_version.
       wok (RqRandr (RqRandrQueryVersion major_version minor_version)))))
     else if minor = X_RANDR_SELECT_INPUT_MINOR_OPCODE then
       wbind (require_exact_len X_RANDR_MAJOR_OPCODE X_RANDR_SELECT_INPUT_REQ_LEN (length bytes)) (\<lambda>_.
       wbind (id_at context bytes 4) (\<lambda>window.
       wbind (u16_at context bytes 8) (\<lambda>enable.
       wok (RqRandr (RqRandrSelectInput window enable)))))
     else if minor = X_RANDR_GET_SCREEN_SIZE_RANGE_MINOR_OPCODE then
       wbind (require_exact_len X_RANDR_MAJOR_OPCODE X_RANDR_GET_SCREEN_SIZE_RANGE_REQ_LEN (length bytes)) (\<lambda>_.
       wbind (id_at context bytes 4) (\<lambda>window.
       wok (RqRandr (RqRandrGetScreenSizeRange window))))
     else if minor = X_RANDR_GET_SCREEN_RESOURCES_MINOR_OPCODE \<or> minor = X_RANDR_GET_SCREEN_RESOURCES_CURRENT_MINOR_OPCODE then
       wbind (require_exact_len X_RANDR_MAJOR_OPCODE X_RANDR_GET_SCREEN_RESOURCES_REQ_LEN (length bytes)) (\<lambda>_.
       wbind (id_at context bytes 4) (\<lambda>window.
       wok (RqRandr (RqRandrGetScreenResources window (minor = X_RANDR_GET_SCREEN_RESOURCES_CURRENT_MINOR_OPCODE)))))
     else if minor = X_RANDR_GET_OUTPUT_INFO_MINOR_OPCODE then
       wbind (require_exact_len X_RANDR_MAJOR_OPCODE X_RANDR_GET_OUTPUT_INFO_REQ_LEN (length bytes)) (\<lambda>_.
       wbind (u32_at context bytes 4) (\<lambda>output.
       wbind (u32_at context bytes 8) (\<lambda>config_timestamp.
       wok (RqRandr (RqRandrGetOutputInfo output config_timestamp)))))
     else if minor = X_RANDR_GET_OUTPUT_PROPERTY_MINOR_OPCODE then
       wbind (require_exact_len X_RANDR_MAJOR_OPCODE X_RANDR_GET_OUTPUT_PROPERTY_REQ_LEN (length bytes)) (\<lambda>_.
       wbind (u32_at context bytes 4) (\<lambda>output.
       wbind (u32_at context bytes 8) (\<lambda>property.
       wbind (u32_at context bytes 12) (\<lambda>property_type.
       wbind (u32_at context bytes 16) (\<lambda>long_offset.
       wbind (u32_at context bytes 20) (\<lambda>long_length.
       wbind (byte_at bytes 24) (\<lambda>delete.
       wbind (byte_at bytes 25) (\<lambda>pending.
       wok (RqRandr (RqRandrGetOutputProperty output property property_type long_offset long_length (delete \<noteq> 0) (pending \<noteq> 0)))))))))))
     else if minor = X_RANDR_GET_CRTC_INFO_MINOR_OPCODE then
       wbind (require_exact_len X_RANDR_MAJOR_OPCODE X_RANDR_GET_CRTC_INFO_REQ_LEN (length bytes)) (\<lambda>_.
       wbind (u32_at context bytes 4) (\<lambda>crtc.
       wbind (u32_at context bytes 8) (\<lambda>config_timestamp.
       wok (RqRandr (RqRandrGetCrtcInfo crtc config_timestamp)))))
     else if minor = X_RANDR_GET_CRTC_GAMMA_SIZE_MINOR_OPCODE then
       wbind (require_exact_len X_RANDR_MAJOR_OPCODE X_RANDR_GET_CRTC_GAMMA_SIZE_REQ_LEN (length bytes)) (\<lambda>_.
       wbind (u32_at context bytes 4) (\<lambda>crtc.
       wok (RqRandr (RqRandrGetCrtcGammaSize crtc))))
     else if minor = X_RANDR_GET_OUTPUT_PRIMARY_MINOR_OPCODE then
       wbind (require_exact_len X_RANDR_MAJOR_OPCODE X_RANDR_GET_OUTPUT_PRIMARY_REQ_LEN (length bytes)) (\<lambda>_.
       wbind (id_at context bytes 4) (\<lambda>window.
       wok (RqRandr (RqRandrGetOutputPrimary window))))
     else if minor = X_RANDR_GET_PROVIDERS_MINOR_OPCODE then
       wbind (require_exact_len X_RANDR_MAJOR_OPCODE 8 (length bytes)) (\<lambda>_.
       wbind (id_at context bytes 4) (\<lambda>window.
       wok (RqRandr (RqRandrGetProviders window))))
     else if minor = X_RANDR_GET_MONITORS_MINOR_OPCODE then
       wbind (require_exact_len X_RANDR_MAJOR_OPCODE X_RANDR_GET_MONITORS_REQ_LEN (length bytes)) (\<lambda>_.
       wbind (id_at context bytes 4) (\<lambda>window.
       wbind (byte_at bytes 8) (\<lambda>get_active.
       wok (RqRandr (RqRandrGetMonitors window (get_active \<noteq> 0))))))
     else wbind (byte_at bytes 0) (\<lambda>opcode. werr (WpUnknownOpcode opcode)))"

definition decode_mit_shm :: "XWireClientContext \<Rightarrow> u8 list \<Rightarrow> XWireRequest wire" where
  "decode_mit_shm context bytes =
     wbind (byte_at bytes 1) (\<lambda>minor.
     if minor = X_MIT_SHM_QUERY_VERSION_MINOR_OPCODE then
       wbind (require_exact_len X_MIT_SHM_MAJOR_OPCODE X_MIT_SHM_QUERY_VERSION_REQ_LEN (length bytes)) (\<lambda>_.
       wok (RqBuffer RqShmQueryVersion))
     else if minor = X_MIT_SHM_ATTACH_MINOR_OPCODE then
       wbind (require_exact_len X_MIT_SHM_MAJOR_OPCODE X_MIT_SHM_ATTACH_REQ_LEN (length bytes)) (\<lambda>_.
       wbind (u32_at context bytes 4) (\<lambda>segment.
       wbind (validate_new_resource_id context segment) (\<lambda>_.
       wbind (u32_at context bytes 8) (\<lambda>shmid.
       wbind (byte_at bytes 12) (\<lambda>read_only.
       wok (RqBuffer (RqShmAttach (resource_id segment) shmid (read_only \<noteq> 0))))))))
     else if minor = X_MIT_SHM_DETACH_MINOR_OPCODE then
       wbind (require_exact_len X_MIT_SHM_MAJOR_OPCODE X_MIT_SHM_DETACH_REQ_LEN (length bytes)) (\<lambda>_.
       wbind (id_at context bytes 4) (\<lambda>segment.
       wok (RqBuffer (RqShmDetach segment))))
     else if minor = X_MIT_SHM_PUT_IMAGE_MINOR_OPCODE then
       wbind (require_exact_len X_MIT_SHM_MAJOR_OPCODE X_MIT_SHM_PUT_IMAGE_REQ_LEN (length bytes)) (\<lambda>_.
       wbind (byte_at bytes 29) (\<lambda>format.
       wbind (validate_wire_image_format format) (\<lambda>_.
       wbind (id_at context bytes 4) (\<lambda>drawable.
       wbind (id_at context bytes 8) (\<lambda>gc.
       wbind (u16_at context bytes 12) (\<lambda>total_width.
       wbind (u16_at context bytes 14) (\<lambda>total_height.
       wbind (u16_at context bytes 16) (\<lambda>src_x.
       wbind (u16_at context bytes 18) (\<lambda>src_y.
       wbind (u16_at context bytes 20) (\<lambda>src_width.
       wbind (u16_at context bytes 22) (\<lambda>src_height.
       wbind (i16_at context bytes 24) (\<lambda>dst_x.
       wbind (i16_at context bytes 26) (\<lambda>dst_y.
       wbind (byte_at bytes 28) (\<lambda>depth.
       wbind (byte_at bytes 30) (\<lambda>send_event.
       wbind (id_at context bytes 32) (\<lambda>segment.
       wbind (u32_at context bytes 36) (\<lambda>offset.
       wok (RqBuffer (RqShmPutImage drawable gc total_width total_height src_x src_y src_width src_height dst_x dst_y depth format (send_event \<noteq> 0) segment offset)))))))))))))))))))
     else if minor = X_MIT_SHM_CREATE_PIXMAP_MINOR_OPCODE then
       wbind (require_exact_len X_MIT_SHM_MAJOR_OPCODE X_MIT_SHM_CREATE_PIXMAP_REQ_LEN (length bytes)) (\<lambda>_.
       wbind (u32_at context bytes 4) (\<lambda>pixmap.
       wbind (validate_new_resource_id context pixmap) (\<lambda>_.
       wbind (id_at context bytes 8) (\<lambda>drawable.
       wbind (u16_at context bytes 12) (\<lambda>width.
       wbind (u16_at context bytes 14) (\<lambda>height.
       wbind (byte_at bytes 16) (\<lambda>depth.
       wbind (id_at context bytes 20) (\<lambda>segment.
       wbind (u32_at context bytes 24) (\<lambda>offset.
       wok (RqBuffer (RqShmCreatePixmap (resource_id pixmap) drawable width height depth segment offset)))))))))))
     else wbind (byte_at bytes 0) (\<lambda>opcode. werr (WpUnknownOpcode opcode)))"

definition authority_packet :: "XWireClientContext \<Rightarrow> XAuthorityRequestKind \<Rightarrow> XAuthorityRequestPacket" where
  "authority_packet context kind =
     \<lparr>xq_transaction = wc_transaction context, xq_namespace = wc_namespace context, xq_kind = kind\<rparr>"

definition decode_sophia_present :: "XWireClientContext \<Rightarrow> u8 list \<Rightarrow> XWireRequest wire" where
  "decode_sophia_present context bytes =
     wbind (byte_at bytes 1) (\<lambda>minor.
     if minor \<noteq> X_SOPHIA_PRESENT_PIXMAP_MINOR_OPCODE then
       wbind (byte_at bytes 0) (\<lambda>opcode. werr (WpUnknownOpcode opcode))
     else
       wbind (require_exact_len X_SOPHIA_PRESENT_MAJOR_OPCODE X_SOPHIA_PRESENT_PIXMAP_REQ_LEN (length bytes)) (\<lambda>_.
       wbind (id_at context bytes 4) (\<lambda>window.
       wbind (rect_at context bytes 12) (\<lambda>damage.
       wbind (u32_at context bytes 8) (\<lambda>pixmap.
       wbind (u64_at context bytes 20) (\<lambda>previous_committed_generation.
       wbind (u32_at context bytes 28) (\<lambda>timeout_msec.
       wok (RqAuthority (authority_packet context
         (PresentPixmap window pixmap (region_single damage) previous_committed_generation timeout_msec))))))))))"

section \<open>Images and text (wire.rs)\<close>

definition decode_put_image :: "XWireClientContext \<Rightarrow> u8 list \<Rightarrow> XWireRequest wire" where
  "decode_put_image context bytes =
     wbind (require_len X_PUT_IMAGE X_PUT_IMAGE_REQ_LEN (length bytes)) (\<lambda>_.
     wbind (byte_at bytes 1) (\<lambda>format.
     wbind (validate_wire_image_format format) (\<lambda>_.
     let data_len = length bytes - X_PUT_IMAGE_REQ_LEN in
     if X_PUT_IMAGE_MAX_DATA_BYTES < data_len then werr (WpPropertyValueTooLarge data_len X_PUT_IMAGE_MAX_DATA_BYTES) else
     wbind (id_at context bytes 4) (\<lambda>drawable.
     wbind (id_at context bytes 8) (\<lambda>gc.
     wbind (u16_at context bytes 12) (\<lambda>width.
     wbind (u16_at context bytes 14) (\<lambda>height.
     wbind (i16_at context bytes 16) (\<lambda>dst_x.
     wbind (i16_at context bytes 18) (\<lambda>dst_y.
     wbind (byte_at bytes 20) (\<lambda>left_pad.
     wbind (byte_at bytes 21) (\<lambda>depth.
     wbind (slice_at bytes X_PUT_IMAGE_REQ_LEN (length bytes)) (\<lambda>data.
     wok (RqDraw (RqPutImage format drawable gc width height dst_x dst_y left_pad depth data))))))))))))))"

text \<open>The products of two 16-bit sizes and four are below \<open>usize::MAX\<close>, so \<open>checked_mul\<close> is the product.\<close>

definition decode_get_image :: "XWireClientContext \<Rightarrow> u8 list \<Rightarrow> XWireRequest wire" where
  "decode_get_image context bytes =
     wbind (require_exact_len X_GET_IMAGE X_GET_IMAGE_REQ_LEN (length bytes)) (\<lambda>_.
     wbind (byte_at bytes 1) (\<lambda>format.
     wbind (validate_wire_image_format format) (\<lambda>_.
     wbind (u16_at context bytes 12) (\<lambda>width.
     wbind (u16_at context bytes 14) (\<lambda>height.
     let byte_len = unat width * unat height * 4 in
     if X_PUT_IMAGE_MAX_DATA_BYTES < byte_len then werr (WpPropertyValueTooLarge byte_len X_PUT_IMAGE_MAX_DATA_BYTES) else
     wbind (id_at context bytes 4) (\<lambda>drawable.
     wbind (i16_at context bytes 8) (\<lambda>x.
     wbind (i16_at context bytes 10) (\<lambda>y.
     wbind (u32_at context bytes 16) (\<lambda>plane_mask.
     wok (RqDraw (RqGetImage format drawable x y width height plane_mask)))))))))))"

text \<open>
  The loop over text items. An item is a length, a delta and that many glyphs; length 255 is a font shift of four
  more bytes; a last item may lack its delta byte.
\<close>

function poly_text8_items :: "u8 list \<Rightarrow> nat \<Rightarrow> nat \<Rightarrow> u8 list \<Rightarrow> u8 list wire" where
  "poly_text8_items item_bytes actual offset text =
     (if length item_bytes \<le> offset then wok text
      else
        let n = item_bytes ! offset; offset1 = offset + 1; remaining = length item_bytes - offset1; glyph_len = unat n in
        if n = 0 \<and> (\<forall>b\<in>set (drop offset1 item_bytes). b = 0) then wok text
        else if n = word_max then
          (if remaining < 4 then werr (WpInvalidLength X_POLY_TEXT8 (X_POLY_TEXT8_REQ_LEN + offset1 + 4) actual)
           else poly_text8_items item_bytes actual (offset1 + 4) text)
        else if 1 + glyph_len \<le> remaining then
          wbind (slice_at item_bytes (offset1 + 1) (offset1 + 1 + glyph_len)) (\<lambda>glyphs.
            poly_text8_items item_bytes actual (offset1 + 1 + glyph_len) (text @ glyphs))
        else if remaining = glyph_len \<and> 0 < glyph_len then
          wbind (slice_at item_bytes (offset1 + 1) (offset1 + 1 + glyph_len - 1)) (\<lambda>glyphs.
            poly_text8_items item_bytes actual (offset1 + 1 + (glyph_len - 1)) (text @ glyphs))
        else if remaining < 1 + glyph_len then
          werr (WpInvalidLength X_POLY_TEXT8 (X_POLY_TEXT8_REQ_LEN + offset1 + (1 + glyph_len)) actual)
        else poly_text8_items item_bytes actual offset1 text)"
  by pat_completeness auto
termination by (relation "measure (\<lambda>(bytes, actual, offset, text). length bytes - offset)") auto

declare poly_text8_items.simps [simp del]

definition decode_poly_text8 :: "XWireClientContext \<Rightarrow> u8 list \<Rightarrow> XWireRequest wire" where
  "decode_poly_text8 context bytes =
     wbind (require_len X_POLY_TEXT8 X_POLY_TEXT8_REQ_LEN (length bytes)) (\<lambda>_.
     wbind (slice_at bytes X_POLY_TEXT8_REQ_LEN (length bytes)) (\<lambda>item_bytes.
     if X_POLY_TEXT8_MAX_BYTES < length item_bytes then
       werr (WpPropertyValueTooLarge (length item_bytes) X_POLY_TEXT8_MAX_BYTES)
     else
     wbind (poly_text8_items item_bytes (length bytes) 0 []) (\<lambda>text.
     wbind (id_at context bytes 4) (\<lambda>drawable.
     wbind (id_at context bytes 8) (\<lambda>gc.
     wbind (i16_at context bytes 12) (\<lambda>x.
     wbind (i16_at context bytes 14) (\<lambda>y.
     wok (RqDraw (RqPolyText8 drawable gc x y text)))))))))"

definition decode_image_text8 :: "XWireClientContext \<Rightarrow> u8 list \<Rightarrow> XWireRequest wire" where
  "decode_image_text8 context bytes =
     wbind (require_len X_IMAGE_TEXT8 X_IMAGE_TEXT8_REQ_LEN (length bytes)) (\<lambda>_.
     wbind (byte_at bytes 1) (\<lambda>n.
     let text_len = unat n; expected_len = X_IMAGE_TEXT8_REQ_LEN + padded_len text_len in
     if X_IMAGE_TEXT8_MAX_BYTES < text_len then werr (WpPropertyValueTooLarge text_len X_IMAGE_TEXT8_MAX_BYTES)
     else if length bytes \<noteq> expected_len then werr (WpInvalidLength X_IMAGE_TEXT8 expected_len (length bytes)) else
     wbind (id_at context bytes 4) (\<lambda>drawable.
     wbind (id_at context bytes 8) (\<lambda>gc.
     wbind (i16_at context bytes 12) (\<lambda>x.
     wbind (i16_at context bytes 14) (\<lambda>y.
     wbind (slice_at bytes X_IMAGE_TEXT8_REQ_LEN (X_IMAGE_TEXT8_REQ_LEN + text_len)) (\<lambda>text.
     wok (RqDraw (RqImageText8 drawable gc x y text)))))))))"

section \<open>Windows and drawing (wire.rs)\<close>

definition decode_copy_area :: "XWireClientContext \<Rightarrow> u8 list \<Rightarrow> XWireRequest wire" where
  "decode_copy_area context bytes =
     wbind (require_exact_len X_COPY_AREA X_COPY_AREA_REQ_LEN (length bytes)) (\<lambda>_.
     wbind (id_at context bytes 4) (\<lambda>source.
     wbind (id_at context bytes 8) (\<lambda>destination.
     wbind (id_at context bytes 12) (\<lambda>gc.
     wbind (i16_at context bytes 16) (\<lambda>src_x.
     wbind (i16_at context bytes 18) (\<lambda>src_y.
     wbind (i16_at context bytes 20) (\<lambda>dst_x.
     wbind (i16_at context bytes 22) (\<lambda>dst_y.
     wbind (u16_at context bytes 24) (\<lambda>width.
     wbind (u16_at context bytes 26) (\<lambda>height.
     wok (RqDraw (RqCopyArea source destination gc src_x src_y dst_x dst_y width height))))))))))))"

definition decode_query_tree :: "XWireClientContext \<Rightarrow> u8 list \<Rightarrow> XWireRequest wire" where
  "decode_query_tree context bytes =
     wbind (require_exact_len X_QUERY_TREE X_QUERY_TREE_REQ_LEN (length bytes)) (\<lambda>_.
     wbind (id_at context bytes 4) (\<lambda>window.
     wok (RqWindow (RqQueryTree window))))"

definition decode_unmap_window :: "XWireClientContext \<Rightarrow> u8 list \<Rightarrow> XWireRequest wire" where
  "decode_unmap_window context bytes =
     wbind (require_exact_len X_UNMAP_WINDOW X_UNMAP_WINDOW_REQ_LEN (length bytes)) (\<lambda>_.
     wbind (id_at context bytes 4) (\<lambda>window.
     wok (RqWindow (RqUnmapWindow window))))"

text \<open>\<open>(value_mask & bit != 0).then(|| next_value())\<close>, with the closure's cursor handed on.\<close>

definition next_value_if :: "XWireClientContext \<Rightarrow> u8 list \<Rightarrow> u16 \<Rightarrow> u16 \<Rightarrow> nat \<Rightarrow> (u32 option \<times> nat) wire" where
  "next_value_if context bytes value_mask b cursor =
     (if value_mask AND b \<noteq> 0 then wbind (u32_at context bytes cursor) (\<lambda>value. wok (Some value, cursor + 4))
      else wok (None, cursor))"

definition decode_configure_window :: "XWireClientContext \<Rightarrow> u8 list \<Rightarrow> XWireRequest wire" where
  "decode_configure_window context bytes =
     wbind (require_len X_CONFIGURE_WINDOW X_CONFIGURE_WINDOW_REQ_LEN (length bytes)) (\<lambda>_.
     wbind (u16_at context bytes 8) (\<lambda>value_mask.
     let expected_len = X_CONFIGURE_WINDOW_REQ_LEN + usize_sat (count_ones value_mask * 4) in
     if length bytes \<noteq> expected_len then werr (WpInvalidLength X_CONFIGURE_WINDOW expected_len (length bytes)) else
     wbind (next_value_if context bytes value_mask 0x0001 X_CONFIGURE_WINDOW_REQ_LEN) (\<lambda>(x, cursor).
     wbind (next_value_if context bytes value_mask 0x0002 cursor) (\<lambda>(y, cursor).
     wbind (next_value_if context bytes value_mask 0x0004 cursor) (\<lambda>(width, cursor).
     wbind (next_value_if context bytes value_mask 0x0008 cursor) (\<lambda>(height, cursor).
     wbind (next_value_if context bytes value_mask 0x0010 cursor) (\<lambda>(_, cursor).
     wbind (next_value_if context bytes value_mask 0x0020 cursor) (\<lambda>(sibling, cursor).
     wbind (next_value_if context bytes value_mask 0x0040 cursor) (\<lambda>(stack_mode, cursor).
     wbind (id_at context bytes 4) (\<lambda>window.
     wok (RqWindow (RqConfigureWindow window value_mask (map_option ucast x) (map_option ucast y) (map_option ucast width)
       (map_option ucast height) (map_option resource_id sibling) (map_option ucast stack_mode)))))))))))))"

definition decode_get_window_attributes :: "XWireClientContext \<Rightarrow> u8 list \<Rightarrow> XWireRequest wire" where
  "decode_get_window_attributes context bytes =
     wbind (require_exact_len X_GET_WINDOW_ATTRIBUTES X_GET_WINDOW_ATTRIBUTES_REQ_LEN (length bytes)) (\<lambda>_.
     wbind (id_at context bytes 4) (\<lambda>window.
     wok (RqWindow (RqGetWindowAttributes window))))"

definition decode_translate_coordinates :: "XWireClientContext \<Rightarrow> u8 list \<Rightarrow> XWireRequest wire" where
  "decode_translate_coordinates context bytes =
     wbind (require_exact_len X_TRANSLATE_COORDINATES X_TRANSLATE_COORDINATES_REQ_LEN (length bytes)) (\<lambda>_.
     wbind (id_at context bytes 4) (\<lambda>source.
     wbind (id_at context bytes 8) (\<lambda>destination.
     wbind (i16_at context bytes 12) (\<lambda>src_x.
     wbind (i16_at context bytes 14) (\<lambda>src_y.
     wok (RqWindow (RqTranslateCoordinates source destination src_x src_y)))))))"

definition decode_get_geometry :: "XWireClientContext \<Rightarrow> u8 list \<Rightarrow> XWireRequest wire" where
  "decode_get_geometry context bytes =
     wbind (require_exact_len X_GET_GEOMETRY X_GET_GEOMETRY_REQ_LEN (length bytes)) (\<lambda>_.
     wbind (id_at context bytes 4) (\<lambda>drawable.
     wok (RqWindow (RqGetGeometry drawable))))"

definition decode_clear_area :: "XWireClientContext \<Rightarrow> u8 list \<Rightarrow> XWireRequest wire" where
  "decode_clear_area context bytes =
     wbind (require_exact_len X_CLEAR_AREA X_CLEAR_AREA_REQ_LEN (length bytes)) (\<lambda>_.
     wbind (byte_at bytes 1) (\<lambda>exposures.
     wbind (id_at context bytes 4) (\<lambda>window.
     wbind (i16_at context bytes 8) (\<lambda>x.
     wbind (i16_at context bytes 10) (\<lambda>y.
     wbind (u16_at context bytes 12) (\<lambda>width.
     wbind (u16_at context bytes 14) (\<lambda>height.
     wok (RqDraw (RqClearArea (exposures \<noteq> 0) window x y width height)))))))))"

definition decode_query_colors :: "XWireClientContext \<Rightarrow> u8 list \<Rightarrow> XWireRequest wire" where
  "decode_query_colors context bytes =
     wbind (require_len X_QUERY_COLORS X_QUERY_COLORS_REQ_LEN (length bytes)) (\<lambda>_.
     wbind (slice_at bytes X_QUERY_COLORS_REQ_LEN (length bytes)) (\<lambda>pixel_bytes.
     if length pixel_bytes mod 4 \<noteq> 0 then
       werr (WpInvalidLength X_QUERY_COLORS (X_QUERY_COLORS_REQ_LEN + round_up 4 (length pixel_bytes)) (length bytes))
     else
     if X_QUERY_COLORS_MAX_PIXELS < length pixel_bytes div 4 then
       werr (WpPropertyValueTooLarge (length pixel_bytes) (X_QUERY_COLORS_MAX_PIXELS * 4))
     else
     wbind (id_at context bytes 4) (\<lambda>colormap.
     wbind (wmap (\<lambda>pixel. u32_at context pixel 0) (chunks_exact 4 pixel_bytes)) (\<lambda>pixels.
     wok (RqResource (RqQueryColors colormap pixels))))))"

definition decode_create_colormap :: "XWireClientContext \<Rightarrow> u8 list \<Rightarrow> XWireRequest wire" where
  "decode_create_colormap context bytes =
     wbind (require_exact_len X_CREATE_COLORMAP X_CREATE_COLORMAP_REQ_LEN (length bytes)) (\<lambda>_.
     wbind (u32_at context bytes 4) (\<lambda>colormap.
     wbind (validate_new_resource_id context colormap) (\<lambda>_.
     wbind (id_at context bytes 8) (\<lambda>window.
     wbind (u32_at context bytes 12) (\<lambda>visual.
     wok (RqResource (RqCreateColormap (resource_id colormap) window visual)))))))"

definition segment_damage :: "XWireClientContext \<Rightarrow> u8 list \<Rightarrow> Rect wire" where
  "segment_damage context segment =
     wbind (i16_at context segment 0) (\<lambda>x1.
     wbind (i16_at context segment 2) (\<lambda>y1.
     wbind (i16_at context segment 4) (\<lambda>x2.
     wbind (i16_at context segment 6) (\<lambda>y2.
     let x = i32_min (scast x1) (scast x2); y = i32_min (scast y1) (scast y2) in
     wok \<lparr>rc_x = x, rc_y = y,
          rc_width = i32_sat_add (i32_sat_sub (i32_max (scast x1) (scast x2)) x) 1,
          rc_height = i32_sat_add (i32_sat_sub (i32_max (scast y1) (scast y2)) y) 1\<rparr>))))"

definition decode_poly_segment :: "XWireClientContext \<Rightarrow> u8 list \<Rightarrow> XWireRequest wire" where
  "decode_poly_segment context bytes =
     wbind (require_len X_POLY_SEGMENT X_POLY_SEGMENT_REQ_LEN (length bytes)) (\<lambda>_.
     wbind (slice_at bytes X_POLY_SEGMENT_REQ_LEN (length bytes)) (\<lambda>segment_bytes.
     if length segment_bytes mod 8 \<noteq> 0 then
       werr (WpInvalidLength X_POLY_SEGMENT (X_POLY_SEGMENT_REQ_LEN + round_up 8 (length segment_bytes)) (length bytes))
     else
     wbind (wmap (segment_damage context) (chunks_exact 8 segment_bytes)) (\<lambda>damage.
     wbind (id_at context bytes 4) (\<lambda>drawable.
     wbind (id_at context bytes 8) (\<lambda>gc.
     wok (RqDraw (RqPolySegment drawable gc damage)))))))"

text \<open>Points, relative to the one before in mode 1; \<open>prev\<close> is \<open>None\<close> while the list is empty.\<close>

definition i16_sat_add :: "i16 \<Rightarrow> i16 \<Rightarrow> i16" where
  "i16_sat_add a b = word_of_int (max (- 32768) (min 32767 (sint a + sint b)))"

fun polyline_points :: "XWireClientContext \<Rightarrow> bool \<Rightarrow> XPoint option \<Rightarrow> u8 list list \<Rightarrow> XPoint list wire" where
  "polyline_points context relative prev [] = wok []"
| "polyline_points context relative prev (point # rest) =
     wbind (i16_at context point 0) (\<lambda>x.
     wbind (i16_at context point 2) (\<lambda>y.
     let decoded = (case prev of
            Some p \<Rightarrow> if relative then \<lparr>xp_x = i16_sat_add (xp_x p) x, xp_y = i16_sat_add (xp_y p) y\<rparr>
                      else \<lparr>xp_x = x, xp_y = y\<rparr>
          | None \<Rightarrow> \<lparr>xp_x = x, xp_y = y\<rparr>) in
     wbind (polyline_points context relative (Some decoded) rest) (\<lambda>points. wok (decoded # points))))"

definition decode_poly_line :: "XWireClientContext \<Rightarrow> u8 list \<Rightarrow> XWireRequest wire" where
  "decode_poly_line context bytes =
     wbind (require_len X_POLY_LINE X_POLY_LINE_REQ_LEN (length bytes)) (\<lambda>_.
     wbind (slice_at bytes X_POLY_LINE_REQ_LEN (length bytes)) (\<lambda>point_bytes.
     if length point_bytes mod 4 \<noteq> 0 then
       werr (WpInvalidLength X_POLY_LINE (X_POLY_LINE_REQ_LEN + round_up 4 (length point_bytes)) (length bytes))
     else
     wbind (byte_at bytes 1) (\<lambda>coordinate_mode.
     wbind (polyline_points context (coordinate_mode = 1) None (chunks_exact 4 point_bytes)) (\<lambda>points.
     wbind (id_at context bytes 4) (\<lambda>drawable.
     wbind (id_at context bytes 8) (\<lambda>gc.
     wok (RqDraw (RqPolyLine drawable gc points))))))))"

text \<open>
  The bounds of a point list. The loop keeps minima from \<open>i32::MAX\<close> and maxima from \<open>i32::MIN\<close>; as 16-bit
  coordinates never are \<open>i32::MAX\<close>, the test \<open>min_x == i32::MAX\<close> asks whether there was no point.
\<close>

fun points_of :: "XWireClientContext \<Rightarrow> u8 list list \<Rightarrow> (i32 \<times> i32) list wire" where
  "points_of context [] = wok []"
| "points_of context (point # rest) =
     wbind (i16_at context point 0) (\<lambda>x.
     wbind (i16_at context point 2) (\<lambda>y.
     wbind (points_of context rest) (\<lambda>ps. wok ((scast x, scast y) # ps))))"

definition point_damage_bounds :: "XWireClientContext \<Rightarrow> u8 list \<Rightarrow> Rect option wire" where
  "point_damage_bounds context point_bytes =
     wbind (points_of context (chunks_exact 4 point_bytes)) (\<lambda>points.
     let min_x = foldl (\<lambda>m (x, y). i32_min m x) 0x7FFFFFFF points;
         min_y = foldl (\<lambda>m (x, y). i32_min m y) 0x7FFFFFFF points;
         max_x = foldl (\<lambda>m (x, y). i32_max m x) 0x80000000 points;
         max_y = foldl (\<lambda>m (x, y). i32_max m y) 0x80000000 points in
     wok (if min_x = 0x7FFFFFFF then None
          else Some \<lparr>rc_x = min_x, rc_y = min_y, rc_width = i32_sat_add (i32_sat_sub max_x min_x) 1,
                     rc_height = i32_sat_add (i32_sat_sub max_y min_y) 1\<rparr>))"

definition decode_fill_poly :: "XWireClientContext \<Rightarrow> u8 list \<Rightarrow> XWireRequest wire" where
  "decode_fill_poly context bytes =
     wbind (require_len X_FILL_POLY X_FILL_POLY_REQ_LEN (length bytes)) (\<lambda>_.
     wbind (slice_at bytes X_FILL_POLY_REQ_LEN (length bytes)) (\<lambda>point_bytes.
     if length point_bytes mod 4 \<noteq> 0 then
       werr (WpInvalidLength X_FILL_POLY (X_FILL_POLY_REQ_LEN + round_up 4 (length point_bytes)) (length bytes))
     else
     wbind (point_damage_bounds context point_bytes) (\<lambda>damage.
     wbind (id_at context bytes 4) (\<lambda>drawable.
     wbind (id_at context bytes 8) (\<lambda>gc.
     wok (RqDraw (RqFillPoly drawable gc damage)))))))"

definition decode_poly_fill_rectangle :: "XWireClientContext \<Rightarrow> u8 list \<Rightarrow> XWireRequest wire" where
  "decode_poly_fill_rectangle context bytes =
     wbind (require_len X_POLY_FILL_RECTANGLE X_POLY_FILL_RECTANGLE_REQ_LEN (length bytes)) (\<lambda>_.
     wbind (slice_at bytes X_POLY_FILL_RECTANGLE_REQ_LEN (length bytes)) (\<lambda>rectangle_bytes.
     if length rectangle_bytes mod 8 \<noteq> 0 then
       werr (WpInvalidLength X_POLY_FILL_RECTANGLE (X_POLY_FILL_RECTANGLE_REQ_LEN + round_up 8 (length rectangle_bytes)) (length bytes))
     else
     wbind (rectangles_of context rectangle_bytes) (\<lambda>rectangles.
     wbind (id_at context bytes 4) (\<lambda>drawable.
     wbind (id_at context bytes 8) (\<lambda>gc.
     wok (RqDraw (RqPolyFillRectangle drawable gc rectangles)))))))"

section \<open>Colours, cursors and fonts (wire.rs)\<close>

definition decode_alloc_named_color :: "XWireClientContext \<Rightarrow> u8 list \<Rightarrow> XWireRequest wire" where
  "decode_alloc_named_color context bytes =
     wbind (require_len X_ALLOC_NAMED_COLOR X_ALLOC_NAMED_COLOR_REQ_LEN (length bytes)) (\<lambda>_.
     wbind (u16_at context bytes 8) (\<lambda>n.
     let name_len = unat n; expected_len = X_ALLOC_NAMED_COLOR_REQ_LEN + padded_len name_len in
     if X_ALLOC_NAMED_COLOR_MAX_NAME_BYTES < name_len then
       werr (WpPropertyValueTooLarge name_len X_ALLOC_NAMED_COLOR_MAX_NAME_BYTES) else
     if length bytes \<noteq> expected_len then werr (WpInvalidLength X_ALLOC_NAMED_COLOR expected_len (length bytes)) else
     wbind (slice_at bytes X_ALLOC_NAMED_COLOR_REQ_LEN (X_ALLOC_NAMED_COLOR_REQ_LEN + name_len)) (\<lambda>name_bytes.
     wbind (utf8_or (WpInvalidLength X_ALLOC_NAMED_COLOR expected_len (length bytes)) name_bytes) (\<lambda>name.
     wbind (id_at context bytes 4) (\<lambda>colormap.
     wok (RqResource (RqAllocNamedColor colormap name)))))))"

definition decode_alloc_color :: "XWireClientContext \<Rightarrow> u8 list \<Rightarrow> XWireRequest wire" where
  "decode_alloc_color context bytes =
     wbind (require_exact_len X_ALLOC_COLOR X_ALLOC_COLOR_REQ_LEN (length bytes)) (\<lambda>_.
     wbind (id_at context bytes 4) (\<lambda>colormap.
     wbind (u16_at context bytes 8) (\<lambda>red.
     wbind (u16_at context bytes 10) (\<lambda>green.
     wbind (u16_at context bytes 12) (\<lambda>blue.
     wok (RqResource (RqAllocColor colormap red green blue)))))))"

definition decode_create_cursor :: "XWireClientContext \<Rightarrow> u8 list \<Rightarrow> XWireRequest wire" where
  "decode_create_cursor context bytes =
     wbind (require_exact_len X_CREATE_CURSOR X_CREATE_CURSOR_REQ_LEN (length bytes)) (\<lambda>_.
     wbind (u32_at context bytes 4) (\<lambda>cursor.
     wbind (validate_new_resource_id context cursor) (\<lambda>_.
     wbind (u32_at context bytes 12) (\<lambda>mask.
     wbind (id_at context bytes 8) (\<lambda>source.
     wok (RqResource (RqCreateCursor (resource_id cursor) source (optional_id mask))))))))"

definition decode_create_glyph_cursor :: "XWireClientContext \<Rightarrow> u8 list \<Rightarrow> XWireRequest wire" where
  "decode_create_glyph_cursor context bytes =
     wbind (require_exact_len X_CREATE_GLYPH_CURSOR X_CREATE_GLYPH_CURSOR_REQ_LEN (length bytes)) (\<lambda>_.
     wbind (u32_at context bytes 4) (\<lambda>cursor.
     wbind (validate_new_resource_id context cursor) (\<lambda>_.
     wbind (u32_at context bytes 12) (\<lambda>mask_font.
     wbind (id_at context bytes 8) (\<lambda>source_font.
     wok (RqResource (RqCreateGlyphCursor (resource_id cursor) source_font (optional_id mask_font))))))))"

definition decode_free_cursor :: "XWireClientContext \<Rightarrow> u8 list \<Rightarrow> XWireRequest wire" where
  "decode_free_cursor context bytes =
     wbind (require_exact_len X_FREE_CURSOR X_FREE_CURSOR_REQ_LEN (length bytes)) (\<lambda>_.
     wbind (id_at context bytes 4) (\<lambda>cursor.
     wok (RqResource (RqFreeCursor cursor))))"

definition decode_recolor_cursor :: "XWireClientContext \<Rightarrow> u8 list \<Rightarrow> XWireRequest wire" where
  "decode_recolor_cursor context bytes =
     wbind (require_exact_len X_RECOLOR_CURSOR X_RECOLOR_CURSOR_REQ_LEN (length bytes)) (\<lambda>_.
     wbind (id_at context bytes 4) (\<lambda>cursor.
     wok (RqResource (RqRecolorCursor cursor))))"

definition decode_set_clip_rectangles :: "XWireClientContext \<Rightarrow> u8 list \<Rightarrow> XWireRequest wire" where
  "decode_set_clip_rectangles context bytes =
     wbind (require_len X_SET_CLIP_RECTANGLES X_SET_CLIP_RECTANGLES_REQ_LEN (length bytes)) (\<lambda>_.
     wbind (slice_at bytes X_SET_CLIP_RECTANGLES_REQ_LEN (length bytes)) (\<lambda>rectangle_bytes.
     if length rectangle_bytes mod 8 \<noteq> 0 then
       werr (WpInvalidLength X_SET_CLIP_RECTANGLES (X_SET_CLIP_RECTANGLES_REQ_LEN + round_up 8 (length rectangle_bytes)) (length bytes))
     else
     wbind (rectangles_of context rectangle_bytes) (\<lambda>rectangles.
     wbind (id_at context bytes 4) (\<lambda>gc.
     wok (RqDraw (RqSetClipRectangles gc rectangles))))))"

definition arc_damage_bounds :: "XWireClientContext \<Rightarrow> u8 \<Rightarrow> nat \<Rightarrow> u8 list \<Rightarrow> Rect list wire" where
  "arc_damage_bounds context opcode header_len bytes =
     wbind (slice_at bytes header_len (length bytes)) (\<lambda>arc_bytes.
     if length arc_bytes mod 12 \<noteq> 0 then
       werr (WpInvalidLength opcode (header_len + round_up 12 (length arc_bytes)) (length bytes))
     else wmap (\<lambda>arc. rect_at context arc 0) (chunks_exact 12 arc_bytes))"

definition decode_poly_fill_arc :: "XWireClientContext \<Rightarrow> u8 list \<Rightarrow> XWireRequest wire" where
  "decode_poly_fill_arc context bytes =
     wbind (require_len X_POLY_FILL_ARC X_POLY_FILL_ARC_REQ_LEN (length bytes)) (\<lambda>_.
     wbind (id_at context bytes 4) (\<lambda>drawable.
     wbind (id_at context bytes 8) (\<lambda>gc.
     wbind (arc_damage_bounds context X_POLY_FILL_ARC X_POLY_FILL_ARC_REQ_LEN bytes) (\<lambda>damage.
     wok (RqDraw (RqPolyFillArc drawable gc damage))))))"

definition decode_free_gc :: "XWireClientContext \<Rightarrow> u8 list \<Rightarrow> XWireRequest wire" where
  "decode_free_gc context bytes =
     wbind (require_exact_len X_FREE_GC X_FREE_GC_REQ_LEN (length bytes)) (\<lambda>_.
     wbind (id_at context bytes 4) (\<lambda>gc.
     wok (RqDraw (RqFreeGraphicsContext gc))))"

definition decode_create_pixmap :: "XWireClientContext \<Rightarrow> u8 list \<Rightarrow> XWireRequest wire" where
  "decode_create_pixmap context bytes =
     wbind (require_exact_len X_CREATE_PIXMAP X_CREATE_PIXMAP_REQ_LEN (length bytes)) (\<lambda>_.
     wbind (u32_at context bytes 4) (\<lambda>pixmap.
     wbind (validate_new_resource_id context pixmap) (\<lambda>_.
     wbind (byte_at bytes 1) (\<lambda>depth.
     wbind (id_at context bytes 8) (\<lambda>drawable.
     wbind (u16_at context bytes 12) (\<lambda>width.
     wbind (u16_at context bytes 14) (\<lambda>height.
     wok (RqDraw (RqCreatePixmap depth (resource_id pixmap) drawable width height)))))))))"

definition decode_open_font :: "XWireClientContext \<Rightarrow> u8 list \<Rightarrow> XWireRequest wire" where
  "decode_open_font context bytes =
     wbind (require_len X_OPEN_FONT X_OPEN_FONT_REQ_LEN (length bytes)) (\<lambda>_.
     wbind (u16_at context bytes 8) (\<lambda>n.
     let name_len = unat n; expected_len = X_OPEN_FONT_REQ_LEN + padded_len name_len in
     if length bytes \<noteq> expected_len then werr (WpInvalidLength X_OPEN_FONT expected_len (length bytes)) else
     wbind (slice_at bytes X_OPEN_FONT_REQ_LEN (X_OPEN_FONT_REQ_LEN + name_len)) (\<lambda>name_bytes.
     wbind (utf8_or (WpInvalidLength X_OPEN_FONT expected_len (length bytes)) name_bytes) (\<lambda>name.
     wbind (u32_at context bytes 4) (\<lambda>font.
     wbind (validate_new_resource_id context font) (\<lambda>_.
     wok (RqResource (RqOpenFont (resource_id font) name))))))))"

definition decode_close_font :: "XWireClientContext \<Rightarrow> u8 list \<Rightarrow> XWireRequest wire" where
  "decode_close_font context bytes =
     wbind (require_exact_len X_CLOSE_FONT X_CLOSE_FONT_REQ_LEN (length bytes)) (\<lambda>_.
     wbind (id_at context bytes 4) (\<lambda>font.
     wok (RqResource (RqCloseFont font))))"

definition decode_query_font :: "XWireClientContext \<Rightarrow> u8 list \<Rightarrow> XWireRequest wire" where
  "decode_query_font context bytes =
     wbind (require_exact_len X_QUERY_FONT X_QUERY_FONT_REQ_LEN (length bytes)) (\<lambda>_.
     wbind (id_at context bytes 4) (\<lambda>font.
     wok (RqResource (RqQueryFont font))))"

definition decode_list_fonts :: "XWireClientContext \<Rightarrow> u8 list \<Rightarrow> XWireRequest wire" where
  "decode_list_fonts context bytes =
     wbind (require_len X_LIST_FONTS X_LIST_FONTS_REQ_LEN (length bytes)) (\<lambda>_.
     wbind (u16_at context bytes 6) (\<lambda>n.
     let name_len = unat n; expected_len = X_LIST_FONTS_REQ_LEN + padded_len name_len in
     if length bytes \<noteq> expected_len then werr (WpInvalidLength X_LIST_FONTS expected_len (length bytes)) else
     wbind (slice_at bytes X_LIST_FONTS_REQ_LEN (X_LIST_FONTS_REQ_LEN + name_len)) (\<lambda>name_bytes.
     wbind (utf8_or (WpInvalidLength X_LIST_FONTS expected_len (length bytes)) name_bytes) (\<lambda>name.
     wbind (u16_at context bytes 4) (\<lambda>max_names.
     wok (RqResource (RqListFonts max_names name)))))))"

definition decode_list_fonts_with_info :: "XWireClientContext \<Rightarrow> u8 list \<Rightarrow> XWireRequest wire" where
  "decode_list_fonts_with_info context bytes =
     wbind (require_len X_LIST_FONTS_WITH_INFO X_LIST_FONTS_WITH_INFO_REQ_LEN (length bytes)) (\<lambda>_.
     wbind (u16_at context bytes 6) (\<lambda>n.
     let name_len = unat n; expected_len = X_LIST_FONTS_WITH_INFO_REQ_LEN + padded_len name_len in
     if length bytes \<noteq> expected_len then werr (WpInvalidLength X_LIST_FONTS_WITH_INFO expected_len (length bytes)) else
     wbind (slice_at bytes X_LIST_FONTS_WITH_INFO_REQ_LEN (X_LIST_FONTS_WITH_INFO_REQ_LEN + name_len)) (\<lambda>name_bytes.
     wbind (utf8_or (WpInvalidLength X_LIST_FONTS_WITH_INFO expected_len (length bytes)) name_bytes) (\<lambda>name.
     wbind (u16_at context bytes 4) (\<lambda>max_names.
     wok (RqResource (RqListFontsWithInfo max_names name)))))))"

definition decode_free_pixmap :: "XWireClientContext \<Rightarrow> u8 list \<Rightarrow> XWireRequest wire" where
  "decode_free_pixmap context bytes =
     wbind (require_exact_len X_FREE_PIXMAP X_FREE_PIXMAP_REQ_LEN (length bytes)) (\<lambda>_.
     wbind (id_at context bytes 4) (\<lambda>pixmap.
     wok (RqDraw (RqFreePixmap pixmap))))"

definition decode_query_best_size :: "XWireClientContext \<Rightarrow> u8 list \<Rightarrow> XWireRequest wire" where
  "decode_query_best_size context bytes =
     wbind (require_exact_len X_QUERY_BEST_SIZE X_QUERY_BEST_SIZE_REQ_LEN (length bytes)) (\<lambda>_.
     wbind (byte_at bytes 1) (\<lambda>class.
     wbind (id_at context bytes 4) (\<lambda>drawable.
     wbind (u16_at context bytes 8) (\<lambda>width.
     wbind (u16_at context bytes 10) (\<lambda>height.
     wok (RqResource (RqQueryBestSize class drawable width height)))))))"

section \<open>Properties, graphics contexts and atoms (wire.rs)\<close>

definition decode_get_property :: "XWireClientContext \<Rightarrow> u8 list \<Rightarrow> XWireRequest wire" where
  "decode_get_property context bytes =
     wbind (require_exact_len X_GET_PROPERTY X_GET_PROPERTY_REQ_LEN (length bytes)) (\<lambda>_.
     wbind (byte_at bytes 1) (\<lambda>delete.
     wbind (id_at context bytes 4) (\<lambda>window.
     wbind (u32_at context bytes 8) (\<lambda>property.
     wbind (u32_at context bytes 12) (\<lambda>property_type.
     wbind (u32_at context bytes 16) (\<lambda>long_offset.
     wbind (u32_at context bytes 20) (\<lambda>long_length.
     wok (RqProperty (RqGetProperty
       \<lparr>xq_delete = delete \<noteq> 0, xq_window = window, xq_property = property, xq_property_type = property_type,
        xq_long_offset = long_offset, xq_long_length = long_length\<rparr>)))))))))"

definition decode_list_properties :: "XWireClientContext \<Rightarrow> u8 list \<Rightarrow> XWireRequest wire" where
  "decode_list_properties context bytes =
     wbind (require_exact_len X_LIST_PROPERTIES X_LIST_PROPERTIES_REQ_LEN (length bytes)) (\<lambda>_.
     wbind (id_at context bytes 4) (\<lambda>window.
     wok (RqProperty (RqListProperties window))))"

text \<open>The \<open>match bit\<close> of both graphics-context requests.\<close>

definition store_gc_value :: "nat \<Rightarrow> u32 \<Rightarrow> XGraphicsContextValues \<Rightarrow> XGraphicsContextValues" where
  "store_gc_value i value values =
     (if i = 0 then values\<lparr>gv_function := u8_or_max value\<rparr>
      else if i = 1 then values\<lparr>gv_plane_mask := value\<rparr>
      else if i = 2 then values\<lparr>gv_foreground := value\<rparr>
      else if i = 3 then values\<lparr>gv_background := value\<rparr>
      else if i = 4 then values\<lparr>gv_line_width := u16_or_max value\<rparr>
      else if i = 8 then values\<lparr>gv_fill_style := u8_or_max value\<rparr>
      else if i = 14 then values\<lparr>gv_font := optional_id value\<rparr>
      else if i = 17 then values\<lparr>gv_clip_x_origin := ucast value\<rparr>
      else if i = 18 then values\<lparr>gv_clip_y_origin := ucast value\<rparr>
      else values)"

definition decode_create_gc :: "XWireClientContext \<Rightarrow> u8 list \<Rightarrow> XWireRequest wire" where
  "decode_create_gc context bytes =
     wbind (require_len X_CREATE_GC X_CREATE_GC_REQ_LEN (length bytes)) (\<lambda>_.
     wbind (u32_at context bytes 4) (\<lambda>gc.
     wbind (validate_new_resource_id context gc) (\<lambda>_.
     wbind (u32_at context bytes 12) (\<lambda>value_mask.
     if value_mask AND NOT 0x007FFFFF \<noteq> 0 then werr (WpInvalidLength X_CREATE_GC X_CREATE_GC_REQ_LEN (length bytes)) else
     let expected_len = usize_sat (X_CREATE_GC_REQ_LEN + usize_sat (count_ones value_mask * 4)) in
     if length bytes \<noteq> expected_len then werr (WpInvalidLength X_CREATE_GC expected_len (length bytes)) else
     wbind (read_values context bytes value_mask store_gc_value [0..<23] X_CREATE_GC_REQ_LEN gc_values_default) (\<lambda>values.
     wbind (id_at context bytes 8) (\<lambda>drawable.
     wok (RqDraw (RqCreateGraphicsContext (resource_id gc) drawable values))))))))"

definition decode_change_gc :: "XWireClientContext \<Rightarrow> u8 list \<Rightarrow> XWireRequest wire" where
  "decode_change_gc context bytes =
     wbind (require_len X_CHANGE_GC X_CHANGE_GC_REQ_LEN (length bytes)) (\<lambda>_.
     wbind (u32_at context bytes 8) (\<lambda>value_mask.
     if value_mask AND NOT 0x007FFFFF \<noteq> 0 then werr (WpInvalidValue value_mask) else
     let expected_len = usize_sat (X_CHANGE_GC_REQ_LEN + usize_sat (count_ones value_mask * 4)) in
     if length bytes \<noteq> expected_len then werr (WpInvalidLength X_CHANGE_GC expected_len (length bytes)) else
     wbind (read_values context bytes value_mask store_gc_value [0..<23] X_CHANGE_GC_REQ_LEN gc_values_default) (\<lambda>values.
     wbind (id_at context bytes 4) (\<lambda>gc.
     wok (RqDraw (RqChangeGraphicsContext gc value_mask values))))))"

definition decode_query_extension :: "XWireClientContext \<Rightarrow> u8 list \<Rightarrow> XWireRequest wire" where
  "decode_query_extension context bytes =
     wbind (require_len X_QUERY_EXTENSION X_QUERY_EXTENSION_REQ_LEN (length bytes)) (\<lambda>_.
     wbind (u16_at context bytes 4) (\<lambda>n.
     let name_len = unat n; expected_len = X_QUERY_EXTENSION_REQ_LEN + padded_len name_len in
     if length bytes \<noteq> expected_len then werr (WpInvalidLength X_QUERY_EXTENSION expected_len (length bytes)) else
     wbind (slice_at bytes X_QUERY_EXTENSION_REQ_LEN (X_QUERY_EXTENSION_REQ_LEN + name_len)) (\<lambda>name_bytes.
     wbind (utf8_or (WpInvalidLength X_QUERY_EXTENSION expected_len (length bytes)) name_bytes) (\<lambda>name.
     wok (RqServer (RqQueryExtension name))))))"

definition decode_list_extensions :: "u8 list \<Rightarrow> XWireRequest wire" where
  "decode_list_extensions bytes =
     wbind (require_exact_len X_LIST_EXTENSIONS X_LIST_EXTENSIONS_REQ_LEN (length bytes)) (\<lambda>_.
     wok (RqServer RqListExtensions))"

definition decode_destroy_window :: "XWireClientContext \<Rightarrow> u8 list \<Rightarrow> XWireRequest wire" where
  "decode_destroy_window context bytes =
     wbind (require_exact_len X_DESTROY_WINDOW X_DESTROY_WINDOW_REQ_LEN (length bytes)) (\<lambda>_.
     wbind (id_at context bytes 4) (\<lambda>window.
     wok (RqWindow (RqDestroyWindow window))))"

text \<open>The attributes a window request keeps: background pixel, event mask, do-not-propagate mask and colormap.\<close>

record window_attributes =
  wa_background_pixel :: "u32 option"
  wa_event_mask :: "u32 option"
  wa_do_not_propagate_mask :: "u32 option"
  wa_colormap :: "XResourceId option"

definition no_attributes :: window_attributes where
  "no_attributes =
     \<lparr>wa_background_pixel = None, wa_event_mask = None, wa_do_not_propagate_mask = None, wa_colormap = None\<rparr>"

definition store_changed_attribute :: "nat \<Rightarrow> u32 \<Rightarrow> window_attributes \<Rightarrow> window_attributes" where
  "store_changed_attribute i value a =
     (if i = 11 then a\<lparr>wa_event_mask := Some value\<rparr>
      else if i = 12 then a\<lparr>wa_do_not_propagate_mask := Some value\<rparr>
      else a)"

definition decode_change_window_attributes :: "XWireClientContext \<Rightarrow> u8 list \<Rightarrow> XWireRequest wire" where
  "decode_change_window_attributes context bytes =
     wbind (require_len X_CHANGE_WINDOW_ATTRIBUTES X_CHANGE_WINDOW_ATTRIBUTES_REQ_LEN (length bytes)) (\<lambda>_.
     wbind (u32_at context bytes 8) (\<lambda>value_mask.
     let expected_len = usize_sat (X_CHANGE_WINDOW_ATTRIBUTES_REQ_LEN + usize_sat (count_ones value_mask * 4)) in
     if length bytes \<noteq> expected_len then
       werr (WpInvalidLength X_CHANGE_WINDOW_ATTRIBUTES expected_len (length bytes)) else
     wbind (read_values context bytes value_mask store_changed_attribute [0..<15] X_CHANGE_WINDOW_ATTRIBUTES_REQ_LEN
              no_attributes) (\<lambda>a.
     wbind (id_at context bytes 4) (\<lambda>window.
     wok (RqWindow (RqChangeWindowAttributes window (wa_event_mask a) (wa_do_not_propagate_mask a)))))))"

definition decode_intern_atom :: "XWireClientContext \<Rightarrow> u8 list \<Rightarrow> XWireRequest wire" where
  "decode_intern_atom context bytes =
     wbind (require_len X_INTERN_ATOM X_INTERN_ATOM_REQ_LEN (length bytes)) (\<lambda>_.
     wbind (u16_at context bytes 4) (\<lambda>n.
     let name_len = unat n; expected_len = X_INTERN_ATOM_REQ_LEN + padded_len name_len in
     if length bytes \<noteq> expected_len then werr (WpInvalidLength X_INTERN_ATOM expected_len (length bytes)) else
     wbind (slice_at bytes X_INTERN_ATOM_REQ_LEN (X_INTERN_ATOM_REQ_LEN + name_len)) (\<lambda>name_bytes.
     wbind (utf8_or (WpInvalidLength X_INTERN_ATOM expected_len (length bytes)) name_bytes) (\<lambda>name.
     wbind (byte_at bytes 1) (\<lambda>only_if_exists.
     wok (RqProperty (RqInternAtom (only_if_exists \<noteq> 0) name)))))))"

definition decode_get_atom_name :: "XWireClientContext \<Rightarrow> u8 list \<Rightarrow> XWireRequest wire" where
  "decode_get_atom_name context bytes =
     wbind (require_exact_len X_GET_ATOM_NAME X_GET_ATOM_NAME_REQ_LEN (length bytes)) (\<lambda>_.
     wbind (u32_at context bytes 4) (\<lambda>atom.
     wok (RqProperty (RqGetAtomName atom))))"

definition decode_get_input_focus :: "u8 list \<Rightarrow> XWireRequest wire" where
  "decode_get_input_focus bytes =
     wbind (require_exact_len X_GET_INPUT_FOCUS X_GET_INPUT_FOCUS_REQ_LEN (length bytes)) (\<lambda>_.
     wok (RqGrab RqGetInputFocus))"

definition decode_set_input_focus :: "XWireClientContext \<Rightarrow> u8 list \<Rightarrow> XWireRequest wire" where
  "decode_set_input_focus context bytes =
     wbind (require_exact_len X_SET_INPUT_FOCUS X_SET_INPUT_FOCUS_REQ_LEN (length bytes)) (\<lambda>_.
     wbind (byte_at bytes 1) (\<lambda>revert_to.
     if 2 < revert_to then werr (WpInvalidValue (ucast revert_to)) else
     wbind (id_at context bytes 4) (\<lambda>focus.
     wbind (u32_at context bytes 8) (\<lambda>time.
     wok (RqGrab (RqSetInputFocus focus revert_to time))))))"

definition decode_get_modifier_mapping :: "u8 list \<Rightarrow> XWireRequest wire" where
  "decode_get_modifier_mapping bytes =
     wbind (require_exact_len X_GET_MODIFIER_MAPPING X_GET_MODIFIER_MAPPING_REQ_LEN (length bytes)) (\<lambda>_.
     wok (RqServer RqGetModifierMapping))"

definition decode_get_keyboard_mapping :: "u8 list \<Rightarrow> XWireRequest wire" where
  "decode_get_keyboard_mapping bytes =
     wbind (require_exact_len X_GET_KEYBOARD_MAPPING X_GET_KEYBOARD_MAPPING_REQ_LEN (length bytes)) (\<lambda>_.
     wbind (byte_at bytes 4) (\<lambda>first_keycode.
     wbind (byte_at bytes 5) (\<lambda>count.
     wok (RqServer (RqGetKeyboardMapping first_keycode count)))))"

section \<open>Authority requests, grabs and selections (wire.rs)\<close>

definition store_new_attribute :: "nat \<Rightarrow> u32 \<Rightarrow> window_attributes \<Rightarrow> window_attributes" where
  "store_new_attribute i value a =
     (if i = 1 then a\<lparr>wa_background_pixel := Some value\<rparr>
      else if i = 11 then a\<lparr>wa_event_mask := Some value\<rparr>
      else if i = 12 then a\<lparr>wa_do_not_propagate_mask := Some value\<rparr>
      else if i = 13 then a\<lparr>wa_colormap := Some (resource_id value)\<rparr>
      else a)"

definition decode_create_window :: "XWireClientContext \<Rightarrow> u8 list \<Rightarrow> XWireRequest wire" where
  "decode_create_window context bytes =
     wbind (require_len X_CREATE_WINDOW X_CREATE_WINDOW_REQ_LEN (length bytes)) (\<lambda>_.
     wbind (u32_at context bytes 28) (\<lambda>value_mask.
     let expected_len = usize_sat (X_CREATE_WINDOW_REQ_LEN + usize_sat (count_ones value_mask * 4)) in
     if length bytes \<noteq> expected_len then werr (WpInvalidLength X_CREATE_WINDOW expected_len (length bytes)) else
     wbind (read_values context bytes value_mask store_new_attribute [0..<15] X_CREATE_WINDOW_REQ_LEN no_attributes) (\<lambda>a.
     wbind (u32_at context bytes 4) (\<lambda>window_raw.
     wbind (validate_new_resource_id context window_raw) (\<lambda>_.
     wbind (rect_at context bytes 12) (\<lambda>geometry.
     wbind (id_at context bytes 8) (\<lambda>parent.
     wbind (byte_at bytes 1) (\<lambda>depth.
     wbind (u32_at context bytes 24) (\<lambda>visual.
     wok (RqWindow (RqCreateWindow
       (authority_packet context (CreateWindow (resource_id window_raw) (SurfaceId window_raw 1) geometry
          \<lparr>sc_min_size = None, sc_max_size = None\<rparr> 1))
       parent depth visual (wa_colormap a) (wa_background_pixel a) (wa_event_mask a) (wa_do_not_propagate_mask a))))))))))))"

definition decode_map_window :: "XWireClientContext \<Rightarrow> u8 list \<Rightarrow> XWireRequest wire" where
  "decode_map_window context bytes =
     wbind (require_exact_len X_MAP_WINDOW X_MAP_WINDOW_REQ_LEN (length bytes)) (\<lambda>_.
     wbind (id_at context bytes 4) (\<lambda>window.
     wok (RqAuthority (authority_packet context (MapWindow window 2)))))"

definition decode_reparent_window :: "XWireClientContext \<Rightarrow> u8 list \<Rightarrow> XWireRequest wire" where
  "decode_reparent_window context bytes =
     wbind (require_exact_len X_REPARENT_WINDOW X_REPARENT_WINDOW_REQ_LEN (length bytes)) (\<lambda>_.
     wbind (id_at context bytes 4) (\<lambda>window.
     wbind (id_at context bytes 8) (\<lambda>parent.
     wbind (i16_at context bytes 12) (\<lambda>x.
     wbind (i16_at context bytes 14) (\<lambda>y.
     wok (RqWindow (RqReparentWindow window parent x y)))))))"

definition decode_map_subwindows :: "XWireClientContext \<Rightarrow> u8 list \<Rightarrow> XWireRequest wire" where
  "decode_map_subwindows context bytes =
     wbind (require_exact_len X_MAP_SUBWINDOWS X_MAP_SUBWINDOWS_REQ_LEN (length bytes)) (\<lambda>_.
     wbind (id_at context bytes 4) (\<lambda>window.
     wok (RqWindow (RqMapSubwindows window))))"

definition property_mode_of :: "u8 \<Rightarrow> XPropertyMode wire" where
  "property_mode_of m =
     (if m = 0 then wok PropReplace else if m = 1 then wok PropPrepend else if m = 2 then wok PropAppend
      else werr (WpInvalidPropertyMode m))"

text \<open>\<open>units * unit_width\<close> is below \<open>usize::MAX\<close>, so \<open>checked_mul\<close> is the product.\<close>

definition decode_change_property :: "XWireClientContext \<Rightarrow> u8 list \<Rightarrow> XWireRequest wire" where
  "decode_change_property context bytes =
     wbind (require_len X_CHANGE_PROPERTY X_CHANGE_PROPERTY_REQ_LEN (length bytes)) (\<lambda>_.
     wbind (byte_at bytes 1) (\<lambda>m.
     wbind (property_mode_of m) (\<lambda>mode.
     wbind (byte_at bytes 16) (\<lambda>format.
     wbind (validate_wire_property_format format) (\<lambda>_.
     wbind (u32_at context bytes 20) (\<lambda>units.
     let value_len = unat units * unat (format div 8);
         expected_len = X_CHANGE_PROPERTY_REQ_LEN + padded_len value_len in
     if X_PROPERTY_MAX_VALUE_BYTES < value_len then werr (WpPropertyValueTooLarge value_len X_PROPERTY_MAX_VALUE_BYTES)
     else if length bytes \<noteq> expected_len then werr (WpInvalidLength X_CHANGE_PROPERTY expected_len (length bytes)) else
     wbind (id_at context bytes 4) (\<lambda>window.
     wbind (u32_at context bytes 8) (\<lambda>property.
     wbind (u32_at context bytes 12) (\<lambda>property_type.
     wbind (slice_at bytes X_CHANGE_PROPERTY_REQ_LEN (X_CHANGE_PROPERTY_REQ_LEN + value_len)) (\<lambda>data.
     wok (RqProperty (RqChangeProperty
       \<lparr>xc_mode = mode, xc_window = window, xc_property = property, xc_property_type = property_type,
        xc_format = format, xc_bytes = data\<rparr>))))))))))))"

definition decode_set_selection_owner :: "XWireClientContext \<Rightarrow> u8 list \<Rightarrow> XWireRequest wire" where
  "decode_set_selection_owner context bytes =
     wbind (require_exact_len X_SET_SELECTION_OWNER X_SET_SELECTION_OWNER_REQ_LEN (length bytes)) (\<lambda>_.
     wbind (u32_at context bytes 4) (\<lambda>owner_raw.
     wbind (u32_at context bytes 8) (\<lambda>selection.
     wbind (u32_at context bytes 12) (\<lambda>timestamp.
     wok (RqAuthority (authority_packet context
       (SetSelectionOwner selection (optional_id owner_raw) timestamp timestamp
          (if owner_raw \<noteq> 0 then SetOwner else ClearOwner))))))))"

definition decode_get_selection_owner :: "XWireClientContext \<Rightarrow> u8 list \<Rightarrow> XWireRequest wire" where
  "decode_get_selection_owner context bytes =
     wbind (require_exact_len X_GET_SELECTION_OWNER X_GET_SELECTION_OWNER_REQ_LEN (length bytes)) (\<lambda>_.
     wbind (u32_at context bytes 4) (\<lambda>selection.
     wok (RqProperty (RqGetSelectionOwner selection))))"

definition decode_grab_button :: "XWireClientContext \<Rightarrow> u8 list \<Rightarrow> XWireRequest wire" where
  "decode_grab_button context bytes =
     wbind (require_exact_len X_GRAB_BUTTON X_GRAB_BUTTON_REQ_LEN (length bytes)) (\<lambda>_.
     wbind (id_at context bytes 4) (\<lambda>window.
     wbind (u16_at context bytes 8) (\<lambda>event_mask.
     wbind (byte_at bytes 20) (\<lambda>button.
     wbind (u16_at context bytes 22) (\<lambda>modifiers.
     wbind (byte_at bytes 1) (\<lambda>owner_events.
     wbind (byte_at bytes 10) (\<lambda>pointer_mode.
     wbind (byte_at bytes 11) (\<lambda>keyboard_mode.
     wok (RqGrab (RqGrabButton window event_mask button modifiers (owner_events \<noteq> 0) pointer_mode keyboard_mode))))))))))"

definition decode_grab_pointer :: "XWireClientContext \<Rightarrow> u8 list \<Rightarrow> XWireRequest wire" where
  "decode_grab_pointer context bytes =
     wbind (require_exact_len X_GRAB_POINTER X_GRAB_POINTER_REQ_LEN (length bytes)) (\<lambda>_.
     wbind (id_at context bytes 4) (\<lambda>window.
     wbind (u16_at context bytes 8) (\<lambda>event_mask.
     wbind (byte_at bytes 1) (\<lambda>owner_events.
     wbind (byte_at bytes 10) (\<lambda>pointer_mode.
     wbind (byte_at bytes 11) (\<lambda>keyboard_mode.
     wbind (u32_at context bytes 20) (\<lambda>time.
     wok (RqGrab (RqGrabPointer window event_mask (owner_events \<noteq> 0) pointer_mode keyboard_mode time)))))))))"

definition decode_ungrab_pointer :: "XWireClientContext \<Rightarrow> u8 list \<Rightarrow> XWireRequest wire" where
  "decode_ungrab_pointer context bytes =
     wbind (require_exact_len X_UNGRAB_POINTER X_UNGRAB_POINTER_REQ_LEN (length bytes)) (\<lambda>_.
     wbind (u32_at context bytes 4) (\<lambda>time.
     wok (RqGrab (RqUngrabPointer time))))"

definition decode_ungrab_button :: "XWireClientContext \<Rightarrow> u8 list \<Rightarrow> XWireRequest wire" where
  "decode_ungrab_button context bytes =
     wbind (require_exact_len X_UNGRAB_BUTTON X_UNGRAB_BUTTON_REQ_LEN (length bytes)) (\<lambda>_.
     wbind (id_at context bytes 4) (\<lambda>window.
     wbind (byte_at bytes 1) (\<lambda>button.
     wbind (u16_at context bytes 8) (\<lambda>modifiers.
     wok (RqGrab (RqUngrabButton window button modifiers))))))"

definition decode_grab_keyboard :: "XWireClientContext \<Rightarrow> u8 list \<Rightarrow> XWireRequest wire" where
  "decode_grab_keyboard context bytes =
     wbind (require_exact_len X_GRAB_KEYBOARD X_GRAB_KEYBOARD_REQ_LEN (length bytes)) (\<lambda>_.
     wbind (id_at context bytes 4) (\<lambda>window.
     wbind (byte_at bytes 1) (\<lambda>owner_events.
     wbind (u32_at context bytes 8) (\<lambda>time.
     wbind (byte_at bytes 12) (\<lambda>pointer_mode.
     wbind (byte_at bytes 13) (\<lambda>keyboard_mode.
     wok (RqGrab (RqGrabKeyboard window (owner_events \<noteq> 0) pointer_mode keyboard_mode time))))))))"

definition decode_ungrab_keyboard :: "XWireClientContext \<Rightarrow> u8 list \<Rightarrow> XWireRequest wire" where
  "decode_ungrab_keyboard context bytes =
     wbind (require_exact_len X_UNGRAB_KEYBOARD X_UNGRAB_KEYBOARD_REQ_LEN (length bytes)) (\<lambda>_.
     wbind (u32_at context bytes 4) (\<lambda>time.
     wok (RqGrab (RqUngrabKeyboard time))))"

definition decode_grab_key :: "XWireClientContext \<Rightarrow> u8 list \<Rightarrow> XWireRequest wire" where
  "decode_grab_key context bytes =
     wbind (require_exact_len X_GRAB_KEY X_GRAB_KEY_REQ_LEN (length bytes)) (\<lambda>_.
     wbind (id_at context bytes 4) (\<lambda>window.
     wbind (u16_at context bytes 8) (\<lambda>modifiers.
     wbind (byte_at bytes 10) (\<lambda>key.
     wbind (byte_at bytes 11) (\<lambda>pointer_mode.
     wbind (byte_at bytes 12) (\<lambda>keyboard_mode.
     wbind (byte_at bytes 1) (\<lambda>owner_events.
     wok (RqGrab (RqGrabKey window key modifiers (owner_events \<noteq> 0) pointer_mode keyboard_mode)))))))))"

definition decode_ungrab_key :: "XWireClientContext \<Rightarrow> u8 list \<Rightarrow> XWireRequest wire" where
  "decode_ungrab_key context bytes =
     wbind (require_exact_len X_UNGRAB_KEY X_UNGRAB_KEY_REQ_LEN (length bytes)) (\<lambda>_.
     wbind (id_at context bytes 4) (\<lambda>window.
     wbind (byte_at bytes 1) (\<lambda>key.
     wbind (u16_at context bytes 8) (\<lambda>modifiers.
     wok (RqGrab (RqUngrabKey window key modifiers))))))"

definition decode_allow_events :: "XWireClientContext \<Rightarrow> u8 list \<Rightarrow> XWireRequest wire" where
  "decode_allow_events context bytes =
     wbind (require_exact_len X_ALLOW_EVENTS X_ALLOW_EVENTS_REQ_LEN (length bytes)) (\<lambda>_.
     wbind (byte_at bytes 1) (\<lambda>mode.
     wbind (u32_at context bytes 4) (\<lambda>time.
     wok (RqGrab (RqAllowEvents mode time)))))"

definition decode_grab_server :: "u8 list \<Rightarrow> XWireRequest wire" where
  "decode_grab_server bytes =
     wbind (require_exact_len X_GRAB_SERVER X_GRAB_SERVER_REQ_LEN (length bytes)) (\<lambda>_.
     wok (RqGrab RqGrabServer))"

definition decode_ungrab_server :: "u8 list \<Rightarrow> XWireRequest wire" where
  "decode_ungrab_server bytes =
     wbind (require_exact_len X_UNGRAB_SERVER X_UNGRAB_SERVER_REQ_LEN (length bytes)) (\<lambda>_.
     wok (RqGrab RqUngrabServer))"

definition decode_convert_selection :: "XWireClientContext \<Rightarrow> u8 list \<Rightarrow> XWireRequest wire" where
  "decode_convert_selection context bytes =
     wbind (require_exact_len X_CONVERT_SELECTION X_CONVERT_SELECTION_REQ_LEN (length bytes)) (\<lambda>_.
     wbind (u32_at context bytes 12) (\<lambda>target.
     wbind (id_at context bytes 4) (\<lambda>requestor.
     wbind (u32_at context bytes 8) (\<lambda>selection.
     wbind (u32_at context bytes 16) (\<lambda>property.
     wbind (u32_at context bytes 20) (\<lambda>time.
     wok (RqAuthority (authority_packet context
       (RequestSelection requestor selection target (lit ''atom:'' @ decimal (unat target)) property time
          (wc_transaction context))))))))))"

definition decode_send_event :: "XWireClientContext \<Rightarrow> u8 list \<Rightarrow> XWireRequest wire" where
  "decode_send_event context bytes =
     wbind (require_exact_len X_SEND_EVENT X_SEND_EVENT_REQ_LEN (length bytes)) (\<lambda>_.
     wbind (byte_at bytes 12) (\<lambda>code.
     let event_type = code AND 0x7F in
     if event_type < 9 then werr (WpInvalidEventType event_type) else
     wbind (id_at context bytes 4) (\<lambda>destination.
     wbind (u32_at context bytes 8) (\<lambda>event_mask.
     if event_type \<noteq> 31 then
       wbind (slice_at bytes 12 44) (\<lambda>event.
       wok (RqProperty (RqSendSelectionNotify destination event_mask (XevClientMessage 0 event))))
     else
       wbind (id_at context bytes 20) (\<lambda>requestor.
       wbind (u32_at context bytes 16) (\<lambda>time.
       wbind (u32_at context bytes 24) (\<lambda>selection.
       wbind (u32_at context bytes 28) (\<lambda>target.
       wbind (u32_at context bytes 32) (\<lambda>property.
       wok (RqProperty (RqSendSelectionNotify destination event_mask
         (XevSelectionNotify 0 time requestor selection target property))))))))))))"

section \<open>The request decoder (wire.rs)\<close>

text \<open>The arms of the last \<open>match\<close> that have a body of their own for a minor opcode.\<close>

definition decode_generic_event :: "XWireClientContext \<Rightarrow> u8 list \<Rightarrow> XWireRequest wire" where
  "decode_generic_event context bytes =
     wbind (require_exact_len X_GENERIC_EVENT_MAJOR_OPCODE X_GENERIC_EVENT_QUERY_VERSION_REQ_LEN (length bytes)) (\<lambda>_.
     wbind (byte_at bytes 1) (\<lambda>minor.
     if minor \<noteq> X_GENERIC_EVENT_QUERY_VERSION_MINOR_OPCODE then werr (WpUnknownOpcode minor) else
     wbind (u16_at context bytes 4) (\<lambda>major_version.
     wbind (u16_at context bytes 6) (\<lambda>minor_version.
     wok (RqServer (RqGeQueryVersion major_version minor_version))))))"

definition decode_sync :: "XWireClientContext \<Rightarrow> u8 list \<Rightarrow> XWireRequest wire" where
  "decode_sync context bytes =
     wbind (byte_at bytes 1) (\<lambda>minor.
     if minor = X_SYNC_INITIALIZE_MINOR_OPCODE then
       wbind (require_exact_len X_SYNC_MAJOR_OPCODE 8 (length bytes)) (\<lambda>_.
       wbind (byte_at bytes 4) (\<lambda>desired_major.
       wbind (byte_at bytes 5) (\<lambda>desired_minor.
       wok (RqServer (RqSyncInitialize desired_major desired_minor)))))
     else if minor = X_SYNC_DESTROY_FENCE_MINOR_OPCODE then
       wbind (require_exact_len X_SYNC_MAJOR_OPCODE 8 (length bytes)) (\<lambda>_.
       wbind (id_at context bytes 4) (\<lambda>fence.
       wok (RqServer (RqSyncDestroyFence fence))))
     else werr (WpUnknownOpcode minor))"

text \<open>The \<open>match opcode\<close> of the decoder, then the decoder with its checks of the declared length.\<close>

definition decode_request_body :: "XWireClientContext \<Rightarrow> u8 \<Rightarrow> u8 list \<Rightarrow> XWireRequest wire" where
  "decode_request_body context opcode bytes =
     (if opcode = X_CREATE_WINDOW then decode_create_window context bytes
      else if opcode = X_CHANGE_WINDOW_ATTRIBUTES then decode_change_window_attributes context bytes
      else if opcode = X_GET_WINDOW_ATTRIBUTES then decode_get_window_attributes context bytes
      else if opcode = X_DESTROY_WINDOW then decode_destroy_window context bytes
      else if opcode = X_REPARENT_WINDOW then decode_reparent_window context bytes
      else if opcode = X_MAP_WINDOW then decode_map_window context bytes
      else if opcode = X_MAP_SUBWINDOWS then decode_map_subwindows context bytes
      else if opcode = X_UNMAP_WINDOW then decode_unmap_window context bytes
      else if opcode = X_CONFIGURE_WINDOW then decode_configure_window context bytes
      else if opcode = X_GET_GEOMETRY then decode_get_geometry context bytes
      else if opcode = X_QUERY_TREE then decode_query_tree context bytes
      else if opcode = X_INTERN_ATOM then decode_intern_atom context bytes
      else if opcode = X_GET_ATOM_NAME then decode_get_atom_name context bytes
      else if opcode = X_CHANGE_PROPERTY then decode_change_property context bytes
      else if opcode = X_DELETE_PROPERTY then
       wbind (require_exact_len X_DELETE_PROPERTY X_DELETE_PROPERTY_REQ_LEN (length bytes)) (\<lambda>_.
       wbind (id_at context bytes 4) (\<lambda>window.
       wbind (u32_at context bytes 8) (\<lambda>property.
       wok (RqProperty (RqDeleteProperty window property)))))
      else if opcode = X_GET_PROPERTY then decode_get_property context bytes
      else if opcode = X_LIST_PROPERTIES then decode_list_properties context bytes
      else if opcode = X_SET_SELECTION_OWNER then decode_set_selection_owner context bytes
      else if opcode = X_GET_SELECTION_OWNER then decode_get_selection_owner context bytes
      else if opcode = X_CONVERT_SELECTION then decode_convert_selection context bytes
      else if opcode = X_SEND_EVENT then decode_send_event context bytes
      else if opcode = X_GRAB_POINTER then decode_grab_pointer context bytes
      else if opcode = X_UNGRAB_POINTER then decode_ungrab_pointer context bytes
      else if opcode = X_GRAB_BUTTON then decode_grab_button context bytes
      else if opcode = X_UNGRAB_BUTTON then decode_ungrab_button context bytes
      else if opcode = X_GRAB_KEYBOARD then decode_grab_keyboard context bytes
      else if opcode = X_UNGRAB_KEYBOARD then decode_ungrab_keyboard context bytes
      else if opcode = X_GRAB_KEY then decode_grab_key context bytes
      else if opcode = X_UNGRAB_KEY then decode_ungrab_key context bytes
      else if opcode = X_ALLOW_EVENTS then decode_allow_events context bytes
      else if opcode = X_GRAB_SERVER then decode_grab_server bytes
      else if opcode = X_UNGRAB_SERVER then decode_ungrab_server bytes
      else if opcode = X_TRANSLATE_COORDINATES then decode_translate_coordinates context bytes
      else if opcode = X_QUERY_POINTER then
       wbind (require_exact_len X_QUERY_POINTER X_QUERY_POINTER_REQ_LEN (length bytes)) (\<lambda>_.
       wbind (id_at context bytes 4) (\<lambda>window.
       wok (RqWindow (RqQueryPointer window))))
      else if opcode = X_SET_INPUT_FOCUS then decode_set_input_focus context bytes
      else if opcode = X_GET_INPUT_FOCUS then decode_get_input_focus bytes
      else if opcode = X_GET_KEYBOARD_CONTROL then
       wbind (require_exact_len X_GET_KEYBOARD_CONTROL 4 (length bytes)) (\<lambda>_.
       wok (RqServer RqGetKeyboardControl))
      else if opcode = X_BELL then
       wbind (require_exact_len X_BELL 4 (length bytes)) (\<lambda>_.
       wok (RqServer RqBell))
      else if opcode = X_OPEN_FONT then decode_open_font context bytes
      else if opcode = X_CLOSE_FONT then decode_close_font context bytes
      else if opcode = X_QUERY_FONT then decode_query_font context bytes
      else if opcode = X_LIST_FONTS then decode_list_fonts context bytes
      else if opcode = X_LIST_FONTS_WITH_INFO then decode_list_fonts_with_info context bytes
      else if opcode = X_CREATE_PIXMAP then decode_create_pixmap context bytes
      else if opcode = X_FREE_PIXMAP then decode_free_pixmap context bytes
      else if opcode = X_CREATE_GC then decode_create_gc context bytes
      else if opcode = X_SET_CLIP_RECTANGLES then decode_set_clip_rectangles context bytes
      else if opcode = X_CHANGE_GC then decode_change_gc context bytes
      else if opcode = X_FREE_GC then decode_free_gc context bytes
      else if opcode = X_CLEAR_AREA then decode_clear_area context bytes
      else if opcode = X_COPY_AREA then decode_copy_area context bytes
      else if opcode = X_POLY_LINE then decode_poly_line context bytes
      else if opcode = X_POLY_SEGMENT then decode_poly_segment context bytes
      else if opcode = X_FILL_POLY then decode_fill_poly context bytes
      else if opcode = X_POLY_FILL_RECTANGLE then decode_poly_fill_rectangle context bytes
      else if opcode = X_POLY_FILL_ARC then decode_poly_fill_arc context bytes
      else if opcode = X_PUT_IMAGE then decode_put_image context bytes
      else if opcode = X_GET_IMAGE then decode_get_image context bytes
      else if opcode = X_POLY_TEXT8 then decode_poly_text8 context bytes
      else if opcode = X_IMAGE_TEXT8 then decode_image_text8 context bytes
      else if opcode = X_CREATE_COLORMAP then decode_create_colormap context bytes
      else if opcode = X_FREE_COLORMAP then
       wbind (require_exact_len X_FREE_COLORMAP X_FREE_COLORMAP_REQ_LEN (length bytes)) (\<lambda>_.
       wbind (id_at context bytes 4) (\<lambda>colormap.
       wok (RqResource (RqFreeColormap colormap))))
      else if opcode = X_ALLOC_COLOR then decode_alloc_color context bytes
      else if opcode = X_ALLOC_NAMED_COLOR then decode_alloc_named_color context bytes
      else if opcode = X_QUERY_COLORS then decode_query_colors context bytes
      else if opcode = X_CREATE_CURSOR then decode_create_cursor context bytes
      else if opcode = X_CREATE_GLYPH_CURSOR then decode_create_glyph_cursor context bytes
      else if opcode = X_FREE_CURSOR then decode_free_cursor context bytes
      else if opcode = X_RECOLOR_CURSOR then decode_recolor_cursor context bytes
      else if opcode = X_QUERY_BEST_SIZE then decode_query_best_size context bytes
      else if opcode = X_QUERY_EXTENSION then decode_query_extension context bytes
      else if opcode = X_LIST_EXTENSIONS then decode_list_extensions bytes
      else if opcode = X_GET_KEYBOARD_MAPPING then decode_get_keyboard_mapping bytes
      else if opcode = X_GET_MODIFIER_MAPPING then decode_get_modifier_mapping bytes
      else if opcode = X_SOPHIA_PRESENT_MAJOR_OPCODE then decode_sophia_present context bytes
      else if opcode = X_MIT_SHM_MAJOR_OPCODE then decode_mit_shm context bytes
      else if opcode = X_RANDR_MAJOR_OPCODE then decode_randr context bytes
      else if opcode = X_KEYBOARD_MAJOR_OPCODE then decode_x_keyboard context bytes
      else if opcode = X_BIG_REQUESTS_MAJOR_OPCODE then decode_big_requests bytes
      else if opcode = X_INPUT_MAJOR_OPCODE then decode_x_input context bytes
      else if opcode = X_GENERIC_EVENT_MAJOR_OPCODE then decode_generic_event context bytes
      else if opcode = X_DRI3_MAJOR_OPCODE then decode_dri3 context bytes
      else if opcode = X_PRESENT_MAJOR_OPCODE then decode_present context bytes
      else if opcode = X_XFIXES_MAJOR_OPCODE then decode_xfixes context bytes
      else if opcode = X_GLX_MAJOR_OPCODE then decode_glx context bytes
      else if opcode = X_SYNC_MAJOR_OPCODE then decode_sync context bytes
      else werr (WpUnknownOpcode opcode))"

definition decode_x11_core_request :: "XWireClientContext \<Rightarrow> u8 list \<Rightarrow> XWireRequest wire" where
  "decode_x11_core_request context bytes =
     (if length bytes < 4 then werr (WpTruncated 4 (length bytes))
      else
        wbind (byte_at bytes 0) (\<lambda>opcode.
        wbind (u16_at context bytes 2) (\<lambda>units.
        let declared_len = unat units * 4 in
        if declared_len < 4 then werr (WpInvalidLength opcode 4 declared_len)
        else if length bytes < declared_len then werr (WpTruncated declared_len (length bytes))
        else if declared_len < length bytes then werr (WpTrailingBytes (length bytes - declared_len))
        else decode_request_body context opcode bytes)))"

section \<open>What a decoded request satisfies\<close>

text \<open>The ids that a request asks the server to create.\<close>

definition new_draw_ids :: "DrawRequest \<Rightarrow> XResourceId list" where
  "new_draw_ids r =
     (case r of RqCreateGraphicsContext gc drawable values \<Rightarrow> [gc]
      | RqCreatePixmap depth pixmap drawable width height \<Rightarrow> [pixmap]
      | _ \<Rightarrow> [])"

definition new_client_ids :: "ResourceRequest \<Rightarrow> XResourceId list" where
  "new_client_ids r =
     (case r of RqCreateColormap colormap window visual \<Rightarrow> [colormap]
      | RqOpenFont font name \<Rightarrow> [font]
      | RqCreateCursor cursor source m \<Rightarrow> [cursor]
      | RqCreateGlyphCursor cursor source_font mask_font \<Rightarrow> [cursor]
      | _ \<Rightarrow> [])"

definition new_buffer_ids :: "BufferRequest \<Rightarrow> XResourceId list" where
  "new_buffer_ids r =
     (case r of RqDri3PixmapFromBuffer pixmap drawable size_bytes width height stride depth bpp \<Rightarrow> [pixmap]
      | RqDri3PixmapFromBuffers pixmap window n width height strides offsets depth bpp modifier \<Rightarrow> [pixmap]
      | RqDri3FenceFromFd drawable fence triggered \<Rightarrow> [fence]
      | RqXfixesCreateRegion region rectangles \<Rightarrow> [region]
      | RqPresentSelectInput event_id window event_mask \<Rightarrow> [event_id]
      | RqShmAttach segment shmid read_only \<Rightarrow> [segment]
      | RqShmCreatePixmap pixmap drawable width height depth segment offset \<Rightarrow> [pixmap]
      | _ \<Rightarrow> [])"

definition new_glx_ids :: "GlxRequest \<Rightarrow> XResourceId list" where
  "new_glx_ids r =
     (case r of RqGlxCreateContext context_id fbconfig screen share direct \<Rightarrow> [context_id]
      | RqGlxCreateWindow screen fbconfig window glx_window \<Rightarrow> [glx_window]
      | _ \<Rightarrow> [])"

text \<open>The packet of a request that the authority runtime takes as a whole.\<close>

definition window_packet :: "WindowRequest \<Rightarrow> XAuthorityRequestPacket option" where
  "window_packet r =
     (case r of RqCreateWindow packet parent depth visual colormap background event_mask do_not_propagate \<Rightarrow> Some packet
      | _ \<Rightarrow> None)"

definition packet_of :: "XWireRequest \<Rightarrow> XAuthorityRequestPacket option" where
  "packet_of r = (case r of RqAuthority packet \<Rightarrow> Some packet | RqWindow w \<Rightarrow> window_packet w | _ \<Rightarrow> None)"

definition new_resource_ids :: "XWireRequest \<Rightarrow> XResourceId list" where
  "new_resource_ids r =
     (case packet_of r of Some packet \<Rightarrow> created_by_request (xq_kind packet) | None \<Rightarrow> []) @
     (case r of RqDraw d \<Rightarrow> new_draw_ids d | RqResource c \<Rightarrow> new_client_ids c | RqBuffer b \<Rightarrow> new_buffer_ids b
      | RqGlx g \<Rightarrow> new_glx_ids g | _ \<Rightarrow> [])"

text \<open>The limits on what a request carries.\<close>

definition draw_within_limits :: "DrawRequest \<Rightarrow> bool" where
  "draw_within_limits r =
     (case r of RqPutImage format drawable gc width height dst_x dst_y left_pad depth data \<Rightarrow>
          length data \<le> X_PUT_IMAGE_MAX_DATA_BYTES
      | RqGetImage format drawable x y width height plane_mask \<Rightarrow>
          unat width * unat height * 4 \<le> X_PUT_IMAGE_MAX_DATA_BYTES
      | RqPolyText8 drawable gc x y text \<Rightarrow> length text \<le> X_POLY_TEXT8_MAX_BYTES
      | RqImageText8 drawable gc x y text \<Rightarrow> length text \<le> X_IMAGE_TEXT8_MAX_BYTES
      | _ \<Rightarrow> True)"

definition property_within_limits :: "PropertyRequest \<Rightarrow> bool" where
  "property_within_limits r =
     (case r of RqChangeProperty c \<Rightarrow>
          (xc_format c = 8 \<or> xc_format c = 16 \<or> xc_format c = 32) \<and>
          length (xc_bytes c) \<le> X_PROPERTY_MAX_VALUE_BYTES \<and> unat (xc_format c div 8) dvd length (xc_bytes c)
      | RqInternAtom only_if_exists name \<Rightarrow> utf8_valid name
      | RqSendSelectionNotify destination event_mask event \<Rightarrow>
          (case event of XevClientMessage sequence bytes \<Rightarrow> length bytes = 32 | _ \<Rightarrow> True)
      | _ \<Rightarrow> True)"

definition resource_within_limits :: "ResourceRequest \<Rightarrow> bool" where
  "resource_within_limits r =
     (case r of RqAllocNamedColor colormap name \<Rightarrow> utf8_valid name \<and> length name \<le> X_ALLOC_NAMED_COLOR_MAX_NAME_BYTES
      | RqOpenFont font name \<Rightarrow> utf8_valid name
      | RqListFonts max_names pattern \<Rightarrow> utf8_valid pattern
      | RqListFontsWithInfo max_names pattern \<Rightarrow> utf8_valid pattern
      | RqQueryColors colormap pixels \<Rightarrow> length pixels \<le> X_QUERY_COLORS_MAX_PIXELS
      | _ \<Rightarrow> True)"

definition input_within_limits :: "InputRequest \<Rightarrow> bool" where
  "input_within_limits r =
     (case r of RqXiSelectEvents window masks \<Rightarrow> length masks \<le> 16 \<and> list_all (\<lambda>(d, m). length m \<le> 8) masks
      | _ \<Rightarrow> True)"

definition within_limits :: "XWireRequest \<Rightarrow> bool" where
  "within_limits r =
     (case r of RqDraw d \<Rightarrow> draw_within_limits d
      | RqProperty p \<Rightarrow> property_within_limits p
      | RqResource c \<Rightarrow> resource_within_limits c
      | RqInput i \<Rightarrow> input_within_limits i
      | RqServer s \<Rightarrow> (case s of RqQueryExtension name \<Rightarrow> utf8_valid name | _ \<Rightarrow> True)
      | RqGrab g \<Rightarrow> (case g of RqSetInputFocus focus revert_to time \<Rightarrow> revert_to \<le> 2 | _ \<Rightarrow> True)
      | RqBuffer b \<Rightarrow> required_fd_count (RqBuffer b) \<le> DMA_BUF_MAX_PLANES
      | _ \<Rightarrow> True)"

text \<open>The bytes that the names and lists of a request take on the wire.\<close>

definition drawn_bytes :: "DrawRequest \<Rightarrow> nat" where
  "drawn_bytes r =
     (case r of RqSetClipRectangles gc rectangles \<Rightarrow> 8 * length rectangles
      | RqPolyFillRectangle drawable gc rectangles \<Rightarrow> 8 * length rectangles
      | RqPolySegment drawable gc segments \<Rightarrow> 8 * length segments
      | RqPolyLine drawable gc points \<Rightarrow> 4 * length points
      | RqPolyFillArc drawable gc arcs \<Rightarrow> 12 * length arcs
      | RqPutImage format drawable gc width height dst_x dst_y left_pad depth data \<Rightarrow> length data
      | RqPolyText8 drawable gc x y text \<Rightarrow> length text
      | RqImageText8 drawable gc x y text \<Rightarrow> length text
      | _ \<Rightarrow> 0)"

definition carried_bytes :: "XWireRequest \<Rightarrow> nat" where
  "carried_bytes r =
     (case r of RqDraw d \<Rightarrow> drawn_bytes d
      | RqProperty p \<Rightarrow> (case p of RqInternAtom only_if_exists name \<Rightarrow> length name
          | RqChangeProperty c \<Rightarrow> length (xc_bytes c) | _ \<Rightarrow> 0)
      | RqResource c \<Rightarrow> (case c of RqAllocNamedColor colormap name \<Rightarrow> length name | RqOpenFont font name \<Rightarrow> length name
          | RqListFonts max_names pattern \<Rightarrow> length pattern | RqListFontsWithInfo max_names pattern \<Rightarrow> length pattern
          | RqQueryColors colormap pixels \<Rightarrow> 4 * length pixels | _ \<Rightarrow> 0)
      | RqServer s \<Rightarrow> (case s of RqQueryExtension name \<Rightarrow> length name | _ \<Rightarrow> 0)
      | RqBuffer b \<Rightarrow> (case b of RqXfixesCreateRegion region rectangles \<Rightarrow> 8 * length rectangles
          | RqXfixesSetRegion region rectangles \<Rightarrow> 8 * length rectangles
          | RqPresentPixmap tx window pixmap serial valid update x y crtc wait idle options target divisor remainder notifies \<Rightarrow>
              8 * length notifies
          | _ \<Rightarrow> 0)
      | _ \<Rightarrow> 0)"

definition request_ok :: "XWireClientContext \<Rightarrow> nat \<Rightarrow> XWireRequest \<Rightarrow> bool" where
  "request_ok context n r \<longleftrightarrow>
     carried_bytes r \<le> n \<and>
     (\<forall>rng. wc_resource_id_range context = Some rng \<longrightarrow> list_all (range_owns_id rng) (new_resource_ids r)) \<and>
     within_limits r \<and> (\<forall>packet. packet_of r = Some packet \<longrightarrow> xq_namespace packet = wc_namespace context)"

lemmas request_simps = request_ok_def carried_bytes_def drawn_bytes_def new_resource_ids_def packet_of_def window_packet_def within_limits_def
  new_draw_ids_def new_client_ids_def new_buffer_ids_def new_glx_ids_def authority_packet_def
  draw_within_limits_def property_within_limits_def resource_within_limits_def input_within_limits_def DMA_BUF_MAX_PLANES_def

section \<open>Rules for the shared helpers\<close>

lemma ensures_case_prod [wire_rule]:
  "(\<And>a b. x = (a, b) \<Longrightarrow> ensures P (f a b)) \<Longrightarrow> ensures P (case x of (a, b) \<Rightarrow> f a b)"
  by (cases x) simp

lemma ensures_rect_at [wire_rule]:
  "a + 8 \<le> length bytes \<Longrightarrow> (\<And>v. P v) \<Longrightarrow> ensures P (rect_at context bytes a)"
  unfolding rect_at_def by (intro wire_rule) auto

lemma ensures_rectangles_of [wire_rule]:
  "(\<And>v. length v = length bytes div 8 \<Longrightarrow> P v) \<Longrightarrow> ensures P (rectangles_of context bytes)"
  unfolding rectangles_of_def by (intro wire_rule) (auto simp: length_chunks_exact dest: chunks_exact_length)

lemma ensures_utf8_or [wire_rule]: "(utf8_valid bytes \<Longrightarrow> P bytes) \<Longrightarrow> ensures P (utf8_or e bytes)"
  unfolding utf8_or_def by (intro wire_rule) auto

lemma ensures_notifies [wire_rule]: "8 \<le> length n \<Longrightarrow> (\<And>v. P v) \<Longrightarrow> ensures P (notify_of context n)"
  unfolding notify_of_def by (intro wire_rule) auto

lemma ensures_property_mode_of [wire_rule]: "(\<And>m. P m) \<Longrightarrow> ensures P (property_mode_of v)"
  unfolding property_mode_of_def by (intro wire_rule) auto

lemma ensures_query_version [wire_rule]:
  "(\<And>a b. P (request a b)) \<Longrightarrow> ensures P (decode_extension_query_version context bytes major_opcode minor_opcode request)"
  unfolding decode_extension_query_version_def by (intro wire_rule) auto

lemma ensures_state_details [wire_rule]: "(\<And>v. P v) \<Longrightarrow> ensures P (state_details_at context bytes affect_which)"
  unfolding state_details_at_def by (intro wire_rule) auto

lemma ensures_segment_damage [wire_rule]:
  "8 \<le> length s \<Longrightarrow> (\<And>v. P v) \<Longrightarrow> ensures P (segment_damage context s)"
  unfolding segment_damage_def by (intro wire_rule) auto

lemma ensures_polyline_points [wire_rule]:
  "(\<And>c. c \<in> set cs \<Longrightarrow> 4 \<le> length c) \<Longrightarrow> (\<And>v. length v = length cs \<Longrightarrow> P v)
     \<Longrightarrow> ensures P (polyline_points context relative prev cs)"
proof (induction cs arbitrary: prev P)
  case (Cons c cs)
  then have "4 \<le> length c" by simp
  then have "2 \<le> length c \<and> 4 \<le> length c" by simp
  then show ?case unfolding polyline_points.simps by (intro wire_rule Cons.IH) (auto intro: Cons.prems)
qed (auto intro: wire_rule)

lemma ensures_points_of [wire_rule]:
  "(\<And>c. c \<in> set cs \<Longrightarrow> 4 \<le> length c) \<Longrightarrow> (\<And>v. P v) \<Longrightarrow> ensures P (points_of context cs)"
proof (induction cs arbitrary: P)
  case (Cons c cs)
  then have "4 \<le> length c" by simp
  then have "2 \<le> length c \<and> 4 \<le> length c" by simp
  then show ?case unfolding points_of.simps by (intro wire_rule Cons.IH) (auto intro: Cons.prems)
qed (auto intro: wire_rule)

lemma ensures_point_damage_bounds [wire_rule]: "(\<And>v. P v) \<Longrightarrow> ensures P (point_damage_bounds context bytes)"
  unfolding point_damage_bounds_def by (intro wire_rule) (auto dest: chunks_exact_length)

lemma ensures_arc_damage_bounds [wire_rule]:
  "n \<le> length bytes \<Longrightarrow> (\<And>v. 12 * length v \<le> length bytes \<Longrightarrow> P v) \<Longrightarrow> ensures P (arc_damage_bounds context opcode n bytes)"
  unfolding arc_damage_bounds_def by (intro wire_rule) (auto simp: length_chunks_exact dest: chunks_exact_length)

lemma usize_sat_small: "n < 2 ^ 64 \<Longrightarrow> usize_sat n = n"
  by (simp add: usize_sat_def)

lemma ensures_select_masks:
  "offset \<le> length bytes \<Longrightarrow> length bytes < 2 ^ 32 \<Longrightarrow>
    (\<And>masks offset'. length masks = n \<Longrightarrow> list_all (\<lambda>(d, m). length m \<le> 8) masks \<Longrightarrow> P (masks, offset'))
      \<Longrightarrow> ensures P (select_masks context bytes n offset)"
proof (induction n arbitrary: offset P)
  case (Suc n)
  from Suc.prems show ?case
    unfolding select_masks.simps
    by (intro wire_rule Suc.IH) (auto simp: usize_sat_def length_chunks_exact dest: chunks_exact_length)
qed (auto intro: wire_rule)

text \<open>The cursor of \<open>ConfigureWindow\<close> is always behind the values of the lower bits of the mask.\<close>

definition values_below :: "nat \<Rightarrow> u16 \<Rightarrow> nat" where
  "values_below k value_mask = length (filter (bit value_mask) [0..<k])"

lemma values_below_0 [simp]: "values_below 0 value_mask = 0"
  by (simp add: values_below_def)

lemma ensures_next_value_if:
  assumes "value_mask AND b = 0 \<longleftrightarrow> \<not> bit value_mask k" "k < 16" "length bytes = n + 4 * count_ones value_mask"
    and "cursor = n + 4 * values_below k value_mask" "\<And>v. P (v, n + 4 * values_below (Suc k) value_mask)"
  shows "ensures P (next_value_if context bytes value_mask b cursor)"
proof -
  have "values_below (Suc k) value_mask \<le> count_ones value_mask"
    unfolding values_below_def using assms(2) by (intro count_ones_upto) simp
  then show ?thesis
    unfolding next_value_if_def using assms by (intro wire_rule) (auto simp: values_below_def algebra_simps)
qed

lemmas configure_value = ensures_next_value_if [OF mask_bit, where k = 0, simplified]
  ensures_next_value_if [OF mask_bit, where k = 1, simplified] ensures_next_value_if [OF mask_bit, where k = 2, simplified]
  ensures_next_value_if [OF mask_bit, where k = 3, simplified] ensures_next_value_if [OF mask_bit, where k = 4, simplified]
  ensures_next_value_if [OF mask_bit, where k = 5, simplified] ensures_next_value_if [OF mask_bit, where k = 6, simplified]

lemma ensures_poly_text8_items:
  "ensures (\<lambda>t. length t \<le> length text + (length item_bytes - offset)) (poly_text8_items item_bytes actual offset text)"
proof (induction "length item_bytes - offset" arbitrary: offset "text" rule: less_induct)
  case less
  show ?case
    by (subst poly_text8_items.simps, intro wire_rule) (auto intro!: ensures_mono [OF less])
qed

section \<open>Every decoder meets its specification\<close>

lemma mask_values_fit:
  assumes "length bytes = usize_sat (n + usize_sat (count_ones (value_mask :: u32) * 4))" "n \<le> 32" "k \<le> 32"
  shows "n + 4 * length (filter (bit value_mask) [0..<k]) \<le> length bytes"
proof -
  have "count_ones value_mask \<le> length [0..<32::nat]" unfolding count_ones_def by (rule order_trans [OF length_filter_le]) simp
  then show ?thesis using assms count_ones_upto [of k value_mask] by (simp add: usize_sat_def)
qed

lemma ensures_masked_values [wire_rule]:
  "length bytes = usize_sat (n + usize_sat (count_ones value_mask * 4)) \<Longrightarrow> n \<le> 32 \<Longrightarrow> k \<le> 32 \<Longrightarrow> (\<And>t. P t)
     \<Longrightarrow> ensures P (read_values context bytes value_mask store [0..<k] n s)"
  by (rule ensures_read_values [OF mask_values_fit])

lemma fixed_decoders:
  "ensures (request_ok context (length bytes)) (decode_copy_area context bytes)"
  "ensures (request_ok context (length bytes)) (decode_query_tree context bytes)"
  "ensures (request_ok context (length bytes)) (decode_unmap_window context bytes)"
  "ensures (request_ok context (length bytes)) (decode_get_window_attributes context bytes)"
  "ensures (request_ok context (length bytes)) (decode_translate_coordinates context bytes)"
  "ensures (request_ok context (length bytes)) (decode_get_geometry context bytes)"
  "ensures (request_ok context (length bytes)) (decode_clear_area context bytes)"
  "ensures (request_ok context (length bytes)) (decode_create_colormap context bytes)"
  "ensures (request_ok context (length bytes)) (decode_alloc_color context bytes)"
  "ensures (request_ok context (length bytes)) (decode_create_cursor context bytes)"
  "ensures (request_ok context (length bytes)) (decode_create_glyph_cursor context bytes)"
  "ensures (request_ok context (length bytes)) (decode_free_cursor context bytes)"
  "ensures (request_ok context (length bytes)) (decode_recolor_cursor context bytes)"
  "ensures (request_ok context (length bytes)) (decode_free_gc context bytes)"
  "ensures (request_ok context (length bytes)) (decode_create_pixmap context bytes)"
  "ensures (request_ok context (length bytes)) (decode_close_font context bytes)"
  "ensures (request_ok context (length bytes)) (decode_query_font context bytes)"
  "ensures (request_ok context (length bytes)) (decode_free_pixmap context bytes)"
  "ensures (request_ok context (length bytes)) (decode_query_best_size context bytes)"
  "ensures (request_ok context (length bytes)) (decode_get_property context bytes)"
  "ensures (request_ok context (length bytes)) (decode_list_properties context bytes)"
  "ensures (request_ok context (length bytes)) (decode_list_extensions bytes)"
  "ensures (request_ok context (length bytes)) (decode_destroy_window context bytes)"
  "ensures (request_ok context (length bytes)) (decode_get_atom_name context bytes)"
  "ensures (request_ok context (length bytes)) (decode_get_input_focus bytes)"
  "ensures (request_ok context (length bytes)) (decode_set_input_focus context bytes)"
  "ensures (request_ok context (length bytes)) (decode_get_modifier_mapping bytes)"
  "ensures (request_ok context (length bytes)) (decode_get_keyboard_mapping bytes)"
  "ensures (request_ok context (length bytes)) (decode_map_window context bytes)"
  "ensures (request_ok context (length bytes)) (decode_reparent_window context bytes)"
  "ensures (request_ok context (length bytes)) (decode_map_subwindows context bytes)"
  "ensures (request_ok context (length bytes)) (decode_set_selection_owner context bytes)"
  "ensures (request_ok context (length bytes)) (decode_get_selection_owner context bytes)"
  "ensures (request_ok context (length bytes)) (decode_grab_button context bytes)"
  "ensures (request_ok context (length bytes)) (decode_grab_pointer context bytes)"
  "ensures (request_ok context (length bytes)) (decode_ungrab_pointer context bytes)"
  "ensures (request_ok context (length bytes)) (decode_ungrab_button context bytes)"
  "ensures (request_ok context (length bytes)) (decode_grab_keyboard context bytes)"
  "ensures (request_ok context (length bytes)) (decode_ungrab_keyboard context bytes)"
  "ensures (request_ok context (length bytes)) (decode_grab_key context bytes)"
  "ensures (request_ok context (length bytes)) (decode_ungrab_key context bytes)"
  "ensures (request_ok context (length bytes)) (decode_allow_events context bytes)"
  "ensures (request_ok context (length bytes)) (decode_grab_server bytes)"
  "ensures (request_ok context (length bytes)) (decode_ungrab_server bytes)"
  "ensures (request_ok context (length bytes)) (decode_convert_selection context bytes)"
  "ensures (request_ok context (length bytes)) (decode_generic_event context bytes)"
  unfolding decode_copy_area_def
    decode_query_tree_def
    decode_unmap_window_def
    decode_get_window_attributes_def
    decode_translate_coordinates_def
    decode_get_geometry_def
    decode_clear_area_def
    decode_create_colormap_def
    decode_alloc_color_def
    decode_create_cursor_def
    decode_create_glyph_cursor_def
    decode_free_cursor_def
    decode_recolor_cursor_def
    decode_free_gc_def
    decode_create_pixmap_def
    decode_close_font_def
    decode_query_font_def
    decode_free_pixmap_def
    decode_query_best_size_def
    decode_get_property_def
    decode_list_properties_def
    decode_list_extensions_def
    decode_destroy_window_def
    decode_get_atom_name_def
    decode_get_input_focus_def
    decode_set_input_focus_def
    decode_get_modifier_mapping_def
    decode_get_keyboard_mapping_def
    decode_map_window_def
    decode_reparent_window_def
    decode_map_subwindows_def
    decode_set_selection_owner_def
    decode_get_selection_owner_def
    decode_grab_button_def
    decode_grab_pointer_def
    decode_ungrab_pointer_def
    decode_ungrab_button_def
    decode_grab_keyboard_def
    decode_ungrab_keyboard_def
    decode_grab_key_def
    decode_ungrab_key_def
    decode_allow_events_def
    decode_grab_server_def
    decode_ungrab_server_def
    decode_convert_selection_def
    decode_generic_event_def
  by (intro wire_rule; simp add: x_wire request_simps)+

lemma list_decoders:
  "ensures (request_ok context (length bytes)) (decode_poly_segment context bytes)"
  "ensures (request_ok context (length bytes)) (decode_poly_line context bytes)"
  "ensures (request_ok context (length bytes)) (decode_fill_poly context bytes)"
  "ensures (request_ok context (length bytes)) (decode_poly_fill_rectangle context bytes)"
  "ensures (request_ok context (length bytes)) (decode_poly_fill_arc context bytes)"
  "ensures (request_ok context (length bytes)) (decode_set_clip_rectangles context bytes)"
  "ensures (request_ok context (length bytes)) (decode_query_colors context bytes)"
  unfolding decode_poly_segment_def decode_poly_line_def decode_fill_poly_def decode_poly_fill_rectangle_def
    decode_poly_fill_arc_def decode_set_clip_rectangles_def decode_query_colors_def
  by (intro wire_rule; auto simp: x_wire request_simps length_chunks_exact dest: chunks_exact_length)+

lemma mask_decoders:
  "ensures (request_ok context (length bytes)) (decode_create_gc context bytes)"
  "ensures (request_ok context (length bytes)) (decode_change_gc context bytes)"
  "ensures (request_ok context (length bytes)) (decode_change_window_attributes context bytes)"
  "ensures (request_ok context (length bytes)) (decode_create_window context bytes)"
  unfolding decode_create_gc_def decode_change_gc_def decode_change_window_attributes_def decode_create_window_def
  by (intro wire_rule; auto simp: x_wire request_simps)+

lemma text_decoders:
  "ensures (request_ok context (length bytes)) (decode_alloc_named_color context bytes)"
  "ensures (request_ok context (length bytes)) (decode_open_font context bytes)"
  "ensures (request_ok context (length bytes)) (decode_list_fonts context bytes)"
  "ensures (request_ok context (length bytes)) (decode_list_fonts_with_info context bytes)"
  "ensures (request_ok context (length bytes)) (decode_query_extension context bytes)"
  "ensures (request_ok context (length bytes)) (decode_intern_atom context bytes)"
  "ensures (request_ok context (length bytes)) (decode_image_text8 context bytes)"
  unfolding decode_alloc_named_color_def decode_open_font_def decode_list_fonts_def decode_list_fonts_with_info_def
    decode_query_extension_def decode_intern_atom_def decode_image_text8_def
  by (intro wire_rule; auto simp: x_wire request_simps padded_len_ge intro: trans_le_add2 [OF padded_len_ge])+

lemma image_decoders:
  "ensures (request_ok context (length bytes)) (decode_put_image context bytes)"
  "ensures (request_ok context (length bytes)) (decode_get_image context bytes)"
  "ensures (request_ok context (length bytes)) (decode_send_event context bytes)"
  unfolding decode_put_image_def decode_get_image_def decode_send_event_def
  by (intro wire_rule; auto simp: x_wire request_simps)+

lemma property_decoder: "ensures (request_ok context (length bytes)) (decode_change_property context bytes)"
  unfolding decode_change_property_def
  by (intro wire_rule; auto simp: x_wire request_simps padded_len_ge intro: trans_le_add2 [OF padded_len_ge])

lemma poly_text8_decoder: "ensures (request_ok context (length bytes)) (decode_poly_text8 context bytes)"
  unfolding decode_poly_text8_def
  by (intro wire_rule ensures_mono [OF ensures_poly_text8_items]; auto simp: x_wire request_simps)

lemma configure_decoder: "ensures (request_ok context (length bytes)) (decode_configure_window context bytes)"
proof -
  have "count_ones (m :: u16) \<le> length [0..<16::nat]" for m
    unfolding count_ones_def by (rule order_trans [OF length_filter_le]) simp
  then have "count_ones (m :: u16) * 4 \<le> 2 ^ 64 - 1" for m by (rule order_trans [OF mult_le_mono1]) simp
  then have "usize_sat (count_ones (m :: u16) * 4) = 4 * count_ones m" for m
    unfolding usize_sat_def by (simp add: min_absorb1 mult.commute)
  then show ?thesis
    unfolding decode_configure_window_def
    by (intro wire_rule configure_value; auto simp: x_wire request_simps numeral_2_eq_2)
qed

lemma extension_decoders:
  assumes "4 \<le> length bytes"
  shows "ensures (request_ok context (length bytes)) (decode_glx context bytes)"
    and "ensures (request_ok context (length bytes)) (decode_xfixes context bytes)"
    and "ensures (request_ok context (length bytes)) (decode_dri3 context bytes)"
    and "ensures (request_ok context (length bytes)) (decode_present context bytes)"
    and "ensures (request_ok context (length bytes)) (decode_big_requests bytes)"
    and "ensures (request_ok context (length bytes)) (decode_x_keyboard context bytes)"
    and "ensures (request_ok context (length bytes)) (decode_randr context bytes)"
    and "ensures (request_ok context (length bytes)) (decode_mit_shm context bytes)"
    and "ensures (request_ok context (length bytes)) (decode_sophia_present context bytes)"
    and "ensures (request_ok context (length bytes)) (decode_sync context bytes)"
  using assms
  unfolding decode_glx_def decode_xfixes_def decode_dri3_def decode_present_def decode_big_requests_def
    decode_x_keyboard_def decode_randr_def decode_mit_shm_def decode_sophia_present_def decode_sync_def
  by - (intro wire_rule; auto simp: x_wire request_simps length_chunks_exact dest: chunks_exact_length)+

lemma x_input_decoder:
  "4 \<le> length bytes \<Longrightarrow> length bytes < 2 ^ 32 \<Longrightarrow> ensures (request_ok context (length bytes)) (decode_x_input context bytes)"
  unfolding decode_x_input_def
  by (intro wire_rule ensures_select_masks; auto simp: x_wire request_simps)

lemmas decoder_rules = fixed_decoders list_decoders mask_decoders text_decoders image_decoders property_decoder
  poly_text8_decoder configure_decoder extension_decoders x_input_decoder

lemma decode_request_body_ok:
  "4 \<le> length bytes \<Longrightarrow> length bytes < 2 ^ 32 \<Longrightarrow> ensures (request_ok context (length bytes)) (decode_request_body context opcode bytes)"
  unfolding decode_request_body_def
  by (intro ensures_if ensures_werr decoder_rules; (assumption | intro wire_rule; simp add: x_wire request_simps))

theorem decode_x11_core_request_ok: "ensures (request_ok context (length bytes)) (decode_x11_core_request context bytes)"
proof -
  have short: "length bytes < 4294967296" if "unat units * 4 = length bytes" for units :: u16
  proof -
    have "unat units < 2 ^ 16" using unsigned_less [of units] by simp
    then show ?thesis using that by simp
  qed
  show ?thesis
    unfolding decode_x11_core_request_def by (intro wire_rule decode_request_body_ok) (auto intro: short)
qed


text \<open>
  Property C36. No bytes from a client make the request decoder panic: every slice and index it takes is in
  range, whatever opcode, length field, count or mask the request carries, so each input gives a request or an error.
\<close>

theorem decode_never_panics: "decode_x11_core_request context bytes \<noteq> None"
  using decode_x11_core_request_ok by (rule ensures_no_panic)


text \<open>A property of two 16-bit units, appended to window 0x200001 by a big-endian client.\<close>

definition example_context :: XWireClientContext where
  "example_context =
     \<lparr>wc_byte_order = BigEndian, wc_namespace = 7, wc_transaction = 3,
      wc_resource_id_range = Some \<lparr>rg_base = 0x200000, rg_mask = 0x1FFFFF\<rparr>\<rparr>"

definition example_change_bytes :: "u8 list" where
  "example_change_bytes =
     [18, 2, 0, 7, 0, 0x20, 0, 1, 0, 0, 0, 39, 0, 0, 0, 31, 16, 0, 0, 0, 0, 0, 0, 2, 1, 2, 3, 4]"

definition example_pixmap_bytes :: "u8 list" where
  "example_pixmap_bytes = [53, 24, 0, 4, 0, 0x20, 0, 2, 0, 0x20, 0, 1, 0, 16, 0, 8]"

lemmas decode_eval = decode_x11_core_request_def decode_request_body_def x_wire byte_at_def u16_at_def i16_at_def u32_at_def
  id_at_def slice_def slice_at_def indexed_def bo_u16_def bo_i16_def bo_u32_def wbind_def wok_def werr_def require_len_def
  require_exact_len_def Let_def padded_len_def resource_id_def validate_new_resource_id_def owns_new_resource_def
  example_context_def example_change_bytes_def example_pixmap_bytes_def



text \<open>
  Property C38. A client can only ask for new resources under its own ids: every id that an accepted request would
  create (window, pixmap, graphics context, colormap, font, cursor, fence, region, event context, shared-memory
  segment, GLX context or window) lies in the id range the client was given at setup, and the packet for the
  authority carries the client's namespace.
\<close>

theorem decoded_ids_in_client_range:
  assumes "decode_x11_core_request context bytes = Some (Inr r)" "wc_resource_id_range context = Some rng"
  shows "(\<forall>i\<in>set (new_resource_ids r). range_owns_id rng i)
     \<and> (\<forall>packet. packet_of r = Some packet \<longrightarrow> xq_namespace packet = wc_namespace context)"
  using ensuresD [OF decode_x11_core_request_ok assms(1)] assms(2) by (simp add: request_ok_def list_all_iff)

lemma example_pixmap_decoded:
  "decode_x11_core_request example_context example_pixmap_bytes =
     Some (Inr (RqDraw (RqCreatePixmap 24 (AuthorityLocalId 0x200002 1) (AuthorityLocalId 0x200001 1) 16 8)))"
  by (simp add: decode_eval decode_create_pixmap_def)

theorem decoded_ids_in_client_range_witness:
  "decode_x11_core_request example_context example_pixmap_bytes =
     Some (Inr (RqDraw (RqCreatePixmap 24 (AuthorityLocalId 0x200002 1) (AuthorityLocalId 0x200001 1) 16 8)))
   \<and> range_owns_id \<lparr>rg_base = 0x200000, rg_mask = 0x1FFFFF\<rparr> (AuthorityLocalId 0x200002 1)"
  using decoded_ids_in_client_range [OF example_pixmap_decoded] example_pixmap_decoded
  by (simp add: example_context_def new_resource_ids_def new_draw_ids_def packet_of_def)

end
