(* ===== verification/X_Grabs.thy ===== *)
theory X_Grabs
  imports X_Resources "HOL-Library.Product_Lexorder"
begin

text \<open>
  The input authority of the X server (\<^verbatim>\<open>sophia-x-authority/src/input_authority.rs\<close>): active and passive grabs,
  the server grab, frozen devices and XI event selections, kept per namespace. Every method is a function of
  the state. Passive grabs of different clients never overlap, a client's cleanup removes exactly what is
  its own, and the point at which the code loses track of a frozen device is stated as it is.
\<close>

section \<open>State (input_authority.rs)\<close>

definition X_ANY_MODIFIER :: u16 where "X_ANY_MODIFIER = 0x8000"

datatype XInputGrabError = GrabAlreadyGrabbed | GrabAccessConflict | GrabInvalidMode

record XActiveInputGrab =
  ag_owner :: u64
  ag_window :: XResourceId
  ag_owner_events :: bool
  ag_pointer_mode :: u8
  ag_keyboard_mode :: u8
  ag_event_mask :: u16

record XPassiveInputGrab =
  pg_owner :: u64
  pg_window :: XResourceId
  pg_detail :: u8
  pg_modifiers :: u16
  pg_owner_events :: bool
  pg_pointer_mode :: u8
  pg_keyboard_mode :: u8
  pg_event_mask :: u16

record XNamespaceInputAuthority =
  ni_pointer :: "XActiveInputGrab option"
  ni_keyboard :: "XActiveInputGrab option"
  ni_buttons :: "XPassiveInputGrab list"
  ni_keys :: "XPassiveInputGrab list"
  ni_server_owner :: "u64 option"
  ni_pointer_frozen :: bool
  ni_keyboard_frozen :: bool
  ni_pointer_implicit :: bool
  ni_pointer_passive_detail :: "u8 option"
  ni_keyboard_passive_detail :: "u8 option"

definition namespace_input_default :: XNamespaceInputAuthority where
  "namespace_input_default =
     \<lparr>ni_pointer = None, ni_keyboard = None, ni_buttons = [], ni_keys = [], ni_server_owner = None,
      ni_pointer_frozen = False, ni_keyboard_frozen = False, ni_pointer_implicit = False,
      ni_pointer_passive_detail = None, ni_keyboard_passive_detail = None\<rparr>"

record XInputAuthorityState =
  ia_namespaces :: "(NamespaceId, XNamespaceInputAuthority) btree"
  ia_xi_selections :: "(NamespaceId \<times> u64 \<times> XResourceId \<times> u16, u32 list) btree"

definition input_authority_default :: XInputAuthorityState where
  "input_authority_default = \<lparr>ia_namespaces = [], ia_xi_selections = []\<rparr>"

section \<open>Helpers (input_authority.rs)\<close>

definition active_from_passive :: "XPassiveInputGrab \<Rightarrow> XActiveInputGrab" where
  "active_from_passive grab =
     \<lparr>ag_owner = pg_owner grab, ag_window = pg_window grab, ag_owner_events = pg_owner_events grab,
      ag_pointer_mode = pg_pointer_mode grab, ag_keyboard_mode = pg_keyboard_mode grab,
      ag_event_mask = pg_event_mask grab\<rparr>"

definition validate_modes :: "u8 \<Rightarrow> u8 \<Rightarrow> XInputGrabError + unit" where
  "validate_modes pointer keyboard = (if 1 < pointer \<or> 1 < keyboard then Inl GrabInvalidMode else Inr ())"

definition patterns_overlap :: "XPassiveInputGrab \<Rightarrow> XPassiveInputGrab \<Rightarrow> bool" where
  "patterns_overlap a b \<longleftrightarrow>
     (pg_detail a = 0 \<or> pg_detail b = 0 \<or> pg_detail a = pg_detail b) \<and>
     (pg_modifiers a = X_ANY_MODIFIER \<or> pg_modifiers b = X_ANY_MODIFIER \<or> pg_modifiers a = pg_modifiers b) \<and>
     pg_window a = pg_window b"

definition insert_passive :: "XPassiveInputGrab \<Rightarrow> XPassiveInputGrab list \<Rightarrow> XInputGrabError + XPassiveInputGrab list" where
  "insert_passive grab grabs =
     (if list_ex (\<lambda>existing. pg_owner existing \<noteq> pg_owner grab \<and> patterns_overlap existing grab) grabs
      then Inl GrabAccessConflict
      else Inr (filter (\<lambda>existing. \<not> (pg_owner existing = pg_owner grab \<and> pg_window existing = pg_window grab
             \<and> pg_detail existing = pg_detail grab \<and> pg_modifiers existing = pg_modifiers grab)) grabs @ [grab]))"

definition remove_passive :: "u64 \<Rightarrow> XResourceId \<Rightarrow> u8 \<Rightarrow> u16 \<Rightarrow> XPassiveInputGrab list \<Rightarrow> XPassiveInputGrab list" where
  "remove_passive owner window detail modifiers grabs =
     filter (\<lambda>grab. pg_owner grab \<noteq> owner \<or> pg_window grab \<noteq> window \<or> \<not> (detail = 0 \<or> pg_detail grab = detail)
               \<or> \<not> (modifiers = X_ANY_MODIFIER \<or> pg_modifiers grab = modifiers)) grabs"

text \<open>\<open>grab.is_some_and(|grab| grab.owner == owner)\<close>\<close>

definition owned :: "u64 \<Rightarrow> XActiveInputGrab option \<Rightarrow> bool" where
  "owned owner grab = (case grab of None \<Rightarrow> False | Some g \<Rightarrow> ag_owner g = owner)"

text \<open>\<open>namespaces.entry(namespace).or_default()\<close> and \<open>namespaces.get_mut(&namespace)\<close>\<close>

definition entry_or_default :: "XInputAuthorityState \<Rightarrow> NamespaceId \<Rightarrow> XNamespaceInputAuthority" where
  "entry_or_default a namespace =
     (case bt_get (ia_namespaces a) namespace of Some s \<Rightarrow> s | None \<Rightarrow> namespace_input_default)"

definition put_entry :: "NamespaceId \<Rightarrow> XNamespaceInputAuthority \<Rightarrow> XInputAuthorityState \<Rightarrow> XInputAuthorityState" where
  "put_entry namespace s a = a\<lparr>ia_namespaces := bt_insert namespace s (ia_namespaces a)\<rparr>"

definition modify_entry ::
  "NamespaceId \<Rightarrow> (XNamespaceInputAuthority \<Rightarrow> XNamespaceInputAuthority) \<Rightarrow> XInputAuthorityState \<Rightarrow> XInputAuthorityState" where
  "modify_entry namespace f a = a\<lparr>ia_namespaces := bt_update namespace f (ia_namespaces a)\<rparr>"

section \<open>Operations (input_authority.rs)\<close>

type_synonym grab_result = "(XInputGrabError + unit) \<times> XInputAuthorityState"

definition grab_pointer :: "NamespaceId \<Rightarrow> XActiveInputGrab \<Rightarrow> XInputAuthorityState \<Rightarrow> grab_result" where
  "grab_pointer namespace grab a =
     (case validate_modes (ag_pointer_mode grab) (ag_keyboard_mode grab) of
        Inl e \<Rightarrow> (Inl e, a)
      | Inr _ \<Rightarrow>
          let s = entry_or_default a namespace in
          if (case ni_pointer s of None \<Rightarrow> False | Some g \<Rightarrow> ag_owner g \<noteq> ag_owner grab)
          then (Inl GrabAlreadyGrabbed, put_entry namespace s a)
          else (Inr (), put_entry namespace
                 (s\<lparr>ni_pointer := Some grab, ni_pointer_implicit := False, ni_pointer_passive_detail := None,
                    ni_pointer_frozen := ag_pointer_mode grab = 0,
                    ni_keyboard_frozen := ni_keyboard_frozen s \<or> ag_keyboard_mode grab = 0\<rparr>) a))"

definition ungrab_pointer :: "NamespaceId \<Rightarrow> u64 \<Rightarrow> XInputAuthorityState \<Rightarrow> XInputAuthorityState" where
  "ungrab_pointer namespace owner a =
     modify_entry namespace (\<lambda>s.
       if owned owner (ni_pointer s)
       then s\<lparr>ni_pointer := None, ni_pointer_implicit := False, ni_pointer_passive_detail := None,
              ni_pointer_frozen := False,
              ni_keyboard_frozen := (if ni_keyboard s = None then False else ni_keyboard_frozen s)\<rparr>
       else s) a"

definition grab_keyboard :: "NamespaceId \<Rightarrow> XActiveInputGrab \<Rightarrow> XInputAuthorityState \<Rightarrow> grab_result" where
  "grab_keyboard namespace grab a =
     (case validate_modes (ag_pointer_mode grab) (ag_keyboard_mode grab) of
        Inl e \<Rightarrow> (Inl e, a)
      | Inr _ \<Rightarrow>
          let s = entry_or_default a namespace in
          if (case ni_keyboard s of None \<Rightarrow> False | Some g \<Rightarrow> ag_owner g \<noteq> ag_owner grab)
          then (Inl GrabAlreadyGrabbed, put_entry namespace s a)
          else (Inr (), put_entry namespace
                 (s\<lparr>ni_keyboard := Some grab, ni_keyboard_passive_detail := None,
                    ni_keyboard_frozen := ag_keyboard_mode grab = 0,
                    ni_pointer_frozen := ni_pointer_frozen s \<or> ag_pointer_mode grab = 0\<rparr>) a))"

definition ungrab_keyboard :: "NamespaceId \<Rightarrow> u64 \<Rightarrow> XInputAuthorityState \<Rightarrow> XInputAuthorityState" where
  "ungrab_keyboard namespace owner a =
     modify_entry namespace (\<lambda>s.
       if owned owner (ni_keyboard s)
       then s\<lparr>ni_keyboard := None, ni_keyboard_passive_detail := None, ni_keyboard_frozen := False,
              ni_pointer_frozen := (if ni_pointer s = None then False else ni_pointer_frozen s)\<rparr>
       else s) a"

definition grab_button :: "NamespaceId \<Rightarrow> XPassiveInputGrab \<Rightarrow> XInputAuthorityState \<Rightarrow> grab_result" where
  "grab_button namespace grab a =
     (case validate_modes (pg_pointer_mode grab) (pg_keyboard_mode grab) of
        Inl e \<Rightarrow> (Inl e, a)
      | Inr _ \<Rightarrow>
          let s = entry_or_default a namespace in
          case insert_passive grab (ni_buttons s) of
            Inl e \<Rightarrow> (Inl e, put_entry namespace s a)
          | Inr buttons \<Rightarrow> (Inr (), put_entry namespace (s\<lparr>ni_buttons := buttons\<rparr>) a))"

definition grab_key :: "NamespaceId \<Rightarrow> XPassiveInputGrab \<Rightarrow> XInputAuthorityState \<Rightarrow> grab_result" where
  "grab_key namespace grab a =
     (case validate_modes (pg_pointer_mode grab) (pg_keyboard_mode grab) of
        Inl e \<Rightarrow> (Inl e, a)
      | Inr _ \<Rightarrow>
          let s = entry_or_default a namespace in
          case insert_passive grab (ni_keys s) of
            Inl e \<Rightarrow> (Inl e, put_entry namespace s a)
          | Inr keys \<Rightarrow> (Inr (), put_entry namespace (s\<lparr>ni_keys := keys\<rparr>) a))"

definition ungrab_button ::
  "NamespaceId \<Rightarrow> u64 \<Rightarrow> XResourceId \<Rightarrow> u8 \<Rightarrow> u16 \<Rightarrow> XInputAuthorityState \<Rightarrow> XInputAuthorityState" where
  "ungrab_button namespace owner window detail modifiers a =
     modify_entry namespace (\<lambda>s. s\<lparr>ni_buttons := remove_passive owner window detail modifiers (ni_buttons s)\<rparr>) a"

definition ungrab_key ::
  "NamespaceId \<Rightarrow> u64 \<Rightarrow> XResourceId \<Rightarrow> u8 \<Rightarrow> u16 \<Rightarrow> XInputAuthorityState \<Rightarrow> XInputAuthorityState" where
  "ungrab_key namespace owner window detail modifiers a =
     modify_entry namespace (\<lambda>s. s\<lparr>ni_keys := remove_passive owner window detail modifiers (ni_keys s)\<rparr>) a"

definition grab_server :: "NamespaceId \<Rightarrow> u64 \<Rightarrow> XInputAuthorityState \<Rightarrow> grab_result" where
  "grab_server namespace owner a =
     (let s = entry_or_default a namespace in
      if (case ni_server_owner s of None \<Rightarrow> False | Some active \<Rightarrow> active \<noteq> owner)
      then (Inl GrabAlreadyGrabbed, put_entry namespace s a)
      else (Inr (), put_entry namespace (s\<lparr>ni_server_owner := Some owner\<rparr>) a))"

definition ungrab_server :: "NamespaceId \<Rightarrow> u64 \<Rightarrow> XInputAuthorityState \<Rightarrow> XInputAuthorityState" where
  "ungrab_server namespace owner a =
     modify_entry namespace (\<lambda>s. if ni_server_owner s = Some owner then s\<lparr>ni_server_owner := None\<rparr> else s) a"

definition thaw :: "u64 \<Rightarrow> u8 \<Rightarrow> XNamespaceInputAuthority \<Rightarrow> XNamespaceInputAuthority" where
  "thaw owner mode s =
     (let owns_pointer = owned owner (ni_pointer s); owns_keyboard = owned owner (ni_keyboard s) in
      if mode \<le> 2 \<and> owns_pointer then s\<lparr>ni_pointer_frozen := False\<rparr>
      else if 3 \<le> mode \<and> mode \<le> 5 \<and> owns_keyboard then s\<lparr>ni_keyboard_frozen := False\<rparr>
      else if mode = 6 \<or> mode = 7 then
        s\<lparr>ni_pointer_frozen := (if owns_pointer then False else ni_pointer_frozen s),
          ni_keyboard_frozen := (if owns_keyboard then False else ni_keyboard_frozen s)\<rparr>
      else s)"

definition allow_events :: "NamespaceId \<Rightarrow> u64 \<Rightarrow> u8 \<Rightarrow> XInputAuthorityState \<Rightarrow> grab_result" where
  "allow_events namespace owner mode a =
     (if 7 < mode then (Inl GrabInvalidMode, a) else (Inr (), modify_entry namespace (thaw owner mode) a))"

definition pointer_grab :: "XInputAuthorityState \<Rightarrow> NamespaceId \<Rightarrow> XActiveInputGrab option" where
  "pointer_grab a namespace = Option.bind (bt_get (ia_namespaces a) namespace) ni_pointer"

definition keyboard_grab :: "XInputAuthorityState \<Rightarrow> NamespaceId \<Rightarrow> XActiveInputGrab option" where
  "keyboard_grab a namespace = Option.bind (bt_get (ia_namespaces a) namespace) ni_keyboard"

definition pointer_frozen :: "XInputAuthorityState \<Rightarrow> NamespaceId \<Rightarrow> bool" where
  "pointer_frozen a namespace = (case bt_get (ia_namespaces a) namespace of None \<Rightarrow> False | Some s \<Rightarrow> ni_pointer_frozen s)"

definition keyboard_frozen :: "XInputAuthorityState \<Rightarrow> NamespaceId \<Rightarrow> bool" where
  "keyboard_frozen a namespace = (case bt_get (ia_namespaces a) namespace of None \<Rightarrow> False | Some s \<Rightarrow> ni_keyboard_frozen s)"

definition server_owner :: "XInputAuthorityState \<Rightarrow> NamespaceId \<Rightarrow> u64 option" where
  "server_owner a namespace = Option.bind (bt_get (ia_namespaces a) namespace) ni_server_owner"

definition select_xi_events ::
  "NamespaceId \<Rightarrow> u64 \<Rightarrow> XResourceId \<Rightarrow> (u16 \<times> u32 list) list \<Rightarrow> XInputAuthorityState \<Rightarrow> XInputAuthorityState" where
  "select_xi_events namespace owner window masks a =
     a\<lparr>ia_xi_selections :=
         fold (\<lambda>(device, m) sel.
                 let key = (namespace, owner, window, device) in
                 if list_all (\<lambda>w. w = 0) m then bt_remove key sel else bt_insert key m sel)
           masks (ia_xi_selections a)\<rparr>"

definition xi_event_selected :: "XInputAuthorityState \<Rightarrow> NamespaceId \<Rightarrow> u64 \<Rightarrow> XResourceId \<Rightarrow> u16 \<Rightarrow> u16 \<Rightarrow> bool" where
  "xi_event_selected a namespace owner window device event_type =
     list_ex (\<lambda>selected_device.
       case bt_get (ia_xi_selections a) (namespace, owner, window, selected_device) of
         None \<Rightarrow> False
       | Some m \<Rightarrow> let b = unat event_type in
           b div 32 < length m \<and> (m ! (b div 32)) AND push_bit (b mod 32) 1 \<noteq> 0) [device, 1]"

text \<open>The first passive grab whose key and modifiers match.\<close>

definition matching_passive :: "u8 \<Rightarrow> u16 \<Rightarrow> XPassiveInputGrab \<Rightarrow> bool" where
  "matching_passive detail modifiers grab \<longleftrightarrow>
     (pg_detail grab = 0 \<or> pg_detail grab = detail) \<and> (pg_modifiers grab = X_ANY_MODIFIER \<or> pg_modifiers grab = modifiers)"

definition activate_key ::
  "NamespaceId \<Rightarrow> u8 \<Rightarrow> u16 \<Rightarrow> XInputAuthorityState \<Rightarrow> XActiveInputGrab option \<times> XInputAuthorityState" where
  "activate_key namespace key modifiers a =
     (case bt_get (ia_namespaces a) namespace of
        None \<Rightarrow> (None, a)
      | Some s \<Rightarrow>
          (case find (matching_passive key modifiers) (ni_keys s) of
             None \<Rightarrow> (None, a)
           | Some passive \<Rightarrow>
               let active = active_from_passive passive in
               (Some active, put_entry namespace
                  (s\<lparr>ni_keyboard := Some active, ni_keyboard_passive_detail := Some key,
                     ni_keyboard_frozen := ag_keyboard_mode active = 0,
                     ni_pointer_frozen := ni_pointer_frozen s \<or> ag_pointer_mode active = 0\<rparr>) a)))"

definition release_key :: "NamespaceId \<Rightarrow> u8 \<Rightarrow> XInputAuthorityState \<Rightarrow> XInputAuthorityState" where
  "release_key namespace key a =
     modify_entry namespace (\<lambda>s.
       if ni_keyboard_passive_detail s = Some key
       then s\<lparr>ni_keyboard := None, ni_keyboard_passive_detail := None, ni_keyboard_frozen := False\<rparr> else s) a"

definition activate_button ::
  "NamespaceId \<Rightarrow> u8 \<Rightarrow> u16 \<Rightarrow> XActiveInputGrab \<Rightarrow> XInputAuthorityState \<Rightarrow> XActiveInputGrab \<times> XInputAuthorityState" where
  "activate_button namespace button modifiers implicit a =
     (let s = entry_or_default a namespace;
          (active, is_implicit) =
            (case find (matching_passive button modifiers) (ni_buttons s) of
               Some grab \<Rightarrow> (active_from_passive grab, False)
             | None \<Rightarrow> (implicit, True)) in
      (active, put_entry namespace
         (s\<lparr>ni_pointer := Some active, ni_pointer_implicit := is_implicit,
            ni_pointer_passive_detail := (if is_implicit then None else Some button),
            ni_pointer_frozen := ag_pointer_mode active = 0,
            ni_keyboard_frozen := ni_keyboard_frozen s \<or> ag_keyboard_mode active = 0\<rparr>) a))"

definition release_button :: "NamespaceId \<Rightarrow> u8 \<Rightarrow> XInputAuthorityState \<Rightarrow> XInputAuthorityState" where
  "release_button namespace button a =
     modify_entry namespace (\<lambda>s.
       if ni_pointer_implicit s \<or> ni_pointer_passive_detail s = Some button
       then s\<lparr>ni_pointer := None, ni_pointer_implicit := False, ni_pointer_passive_detail := None,
              ni_pointer_frozen := False\<rparr>
       else s) a"

text \<open>The closure of \<open>cleanup_owner\<close>: the state without the owner's grabs, and whether the entry is kept.\<close>

definition without_owner :: "u64 \<Rightarrow> XNamespaceInputAuthority \<Rightarrow> XNamespaceInputAuthority" where
  "without_owner owner s0 =
     (let s1 = (if owned owner (ni_pointer s0)
                then s0\<lparr>ni_pointer := None, ni_pointer_frozen := False, ni_pointer_implicit := False,
                        ni_pointer_passive_detail := None\<rparr> else s0);
          s2 = (if owned owner (ni_keyboard s1)
                then s1\<lparr>ni_keyboard := None, ni_keyboard_frozen := False, ni_keyboard_passive_detail := None\<rparr> else s1);
          s3 = s2\<lparr>ni_buttons := filter (\<lambda>grab. pg_owner grab \<noteq> owner) (ni_buttons s2),
                  ni_keys := filter (\<lambda>grab. pg_owner grab \<noteq> owner) (ni_keys s2),
                  ni_server_owner := (if ni_server_owner s2 = Some owner then None else ni_server_owner s2)\<rparr> in
      if ni_pointer s3 = None \<and> ni_keyboard s3 = None
      then s3\<lparr>ni_pointer_frozen := False, ni_keyboard_frozen := False\<rparr> else s3)"

definition entry_in_use :: "XNamespaceInputAuthority \<Rightarrow> bool" where
  "entry_in_use s \<longleftrightarrow>
     ni_pointer s \<noteq> None \<or> ni_keyboard s \<noteq> None \<or> ni_buttons s \<noteq> [] \<or> ni_keys s \<noteq> [] \<or> ni_server_owner s \<noteq> None"

definition cleanup_owner :: "u64 \<Rightarrow> XInputAuthorityState \<Rightarrow> XInputAuthorityState" where
  "cleanup_owner owner a =
     \<lparr>ia_namespaces = filter (\<lambda>(_, s). entry_in_use s) (map (\<lambda>(n, s). (n, without_owner owner s)) (ia_namespaces a)),
      ia_xi_selections = filter (\<lambda>((_, selection_owner, _, _), _). selection_owner \<noteq> owner) (ia_xi_selections a)\<rparr>"

section \<open>Steps of the authority\<close>

datatype grab_event =
    GrabPointerEv NamespaceId XActiveInputGrab
  | UngrabPointerEv NamespaceId u64
  | GrabKeyboardEv NamespaceId XActiveInputGrab
  | UngrabKeyboardEv NamespaceId u64
  | GrabButtonEv NamespaceId XPassiveInputGrab
  | UngrabButtonEv NamespaceId u64 XResourceId u8 u16
  | GrabKeyEv NamespaceId XPassiveInputGrab
  | UngrabKeyEv NamespaceId u64 XResourceId u8 u16
  | GrabServerEv NamespaceId u64
  | UngrabServerEv NamespaceId u64
  | AllowEventsEv NamespaceId u64 u8
  | SelectXiEv NamespaceId u64 XResourceId "(u16 \<times> u32 list) list"
  | ActivateKeyEv NamespaceId u8 u16
  | ReleaseKeyEv NamespaceId u8
  | ActivateButtonEv NamespaceId u8 u16 XActiveInputGrab
  | ReleaseButtonEv NamespaceId u8
  | CleanupEv u64

fun grab_step :: "grab_event \<Rightarrow> XInputAuthorityState \<Rightarrow> XInputAuthorityState" where
  "grab_step (GrabPointerEv n g) a = snd (grab_pointer n g a)"
| "grab_step (UngrabPointerEv n i) a = ungrab_pointer n i a"
| "grab_step (GrabKeyboardEv n g) a = snd (grab_keyboard n g a)"
| "grab_step (UngrabKeyboardEv n i) a = ungrab_keyboard n i a"
| "grab_step (GrabButtonEv n g) a = snd (grab_button n g a)"
| "grab_step (UngrabButtonEv n i w d m) a = ungrab_button n i w d m a"
| "grab_step (GrabKeyEv n g) a = snd (grab_key n g a)"
| "grab_step (UngrabKeyEv n i w d m) a = ungrab_key n i w d m a"
| "grab_step (GrabServerEv n i) a = snd (grab_server n i a)"
| "grab_step (UngrabServerEv n i) a = ungrab_server n i a"
| "grab_step (AllowEventsEv n i m) a = snd (allow_events n i m a)"
| "grab_step (SelectXiEv n i w ms) a = select_xi_events n i w ms a"
| "grab_step (ActivateKeyEv n k m) a = snd (activate_key n k m a)"
| "grab_step (ReleaseKeyEv n k) a = release_key n k a"
| "grab_step (ActivateButtonEv n b m g) a = snd (activate_button n b m g a)"
| "grab_step (ReleaseButtonEv n b) a = release_button n b a"
| "grab_step (CleanupEv i) a = cleanup_owner i a"

definition authority_after :: "grab_event list \<Rightarrow> XInputAuthorityState" where
  "authority_after es = fold grab_step es input_authority_default"

definition passive_grabs :: "XInputAuthorityState \<Rightarrow> NamespaceId \<Rightarrow> XPassiveInputGrab list" where
  "passive_grabs a n = (case bt_get (ia_namespaces a) n of None \<Rightarrow> [] | Some s \<Rightarrow> ni_buttons s @ ni_keys s)"

section \<open>The invariant\<close>

definition no_overlap :: "XPassiveInputGrab list \<Rightarrow> bool" where
  "no_overlap grabs \<longleftrightarrow> (\<forall>g\<in>set grabs. \<forall>h\<in>set grabs. pg_owner g \<noteq> pg_owner h \<longrightarrow> \<not> patterns_overlap g h)"

definition grabs_ok :: "XNamespaceInputAuthority \<Rightarrow> bool" where
  "grabs_ok s \<longleftrightarrow> no_overlap (ni_buttons s) \<and> no_overlap (ni_keys s)"

definition authority_ok :: "XInputAuthorityState \<Rightarrow> bool" where
  "authority_ok a \<longleftrightarrow> bt_wf (ia_namespaces a) \<and> (\<forall>(n, s)\<in>set (ia_namespaces a). grabs_ok s)"

lemma patterns_overlap_sym: "patterns_overlap g h = patterns_overlap h g"
  by (auto simp: patterns_overlap_def)

lemma no_overlap_filter: "no_overlap grabs \<Longrightarrow> no_overlap (filter P grabs)"
  by (auto simp: no_overlap_def)

lemma no_overlap_insert: "no_overlap grabs \<Longrightarrow> insert_passive g grabs = Inr grabs' \<Longrightarrow> no_overlap grabs'"
proof -
  assume ok: "no_overlap grabs" and "insert_passive g grabs = Inr grabs'"
  then have free: "\<forall>h\<in>set grabs. pg_owner h \<noteq> pg_owner g \<longrightarrow> \<not> patterns_overlap h g" and "set grabs' \<subseteq> insert g (set grabs)"
    by (auto simp: insert_passive_def list_ex_iff split: if_splits)
  then show "no_overlap grabs'"
    using ok patterns_overlap_sym [of g] unfolding no_overlap_def by (metis insert_iff subset_iff)
qed

lemma grabs_ok_default [simp]: "grabs_ok namespace_input_default"
  by (simp add: grabs_ok_def no_overlap_def namespace_input_default_def)

lemma grabs_ok_without [simp]: "grabs_ok s \<Longrightarrow> grabs_ok (without_owner i s)"
  by (simp add: without_owner_def grabs_ok_def no_overlap_filter Let_def)

lemma authority_ok_get: "authority_ok a \<Longrightarrow> bt_get (ia_namespaces a) n = Some s \<Longrightarrow> grabs_ok s"
  by (auto simp: authority_ok_def dest: map_of_SomeD)

lemma entry_or_default_ok: "authority_ok a \<Longrightarrow> grabs_ok (entry_or_default a n)"
  by (auto simp: entry_or_default_def authority_ok_get split: option.split)

lemma passive_ok:
  "authority_ok a \<Longrightarrow> no_overlap (ni_buttons (entry_or_default a n))"
  "authority_ok a \<Longrightarrow> no_overlap (ni_keys (entry_or_default a n))"
  using entry_or_default_ok [of a n] by (simp_all add: grabs_ok_def)

lemma bt_insert_set: "set (bt_insert k v m) \<subseteq> insert (k, v) (set m)"
  by (induction k v m rule: bt_insert.induct) auto

lemma put_entry_ok: "authority_ok a \<Longrightarrow> grabs_ok s \<Longrightarrow> authority_ok (put_entry n s a)"
  using bt_insert_set [of n s "ia_namespaces a"] by (auto simp: authority_ok_def put_entry_def)

lemma modify_entry_ok:
  "authority_ok a \<Longrightarrow> (\<And>s. grabs_ok s \<Longrightarrow> grabs_ok (f s)) \<Longrightarrow> authority_ok (modify_entry n f a)"
  by (force simp: authority_ok_def modify_entry_def bt_update_def bt_wf_def split_def comp_def)

lemma cleanup_ok: "authority_ok a \<Longrightarrow> authority_ok (cleanup_owner i a)"
proof -
  assume "authority_ok a"
  then have "sorted_wrt (<) (map fst (ia_namespaces a))" "\<forall>(n, s)\<in>set (ia_namespaces a). grabs_ok s"
    by (simp_all add: authority_ok_def bt_wf_def)
  then show ?thesis
    by (force simp: authority_ok_def cleanup_owner_def bt_wf_def sorted_wrt_map sorted_wrt_filter split_def)
qed

lemma grab_step_ok: "authority_ok a \<Longrightarrow> authority_ok (grab_step e a)"
proof (cases e)
  case (SelectXiEv n i w ms)
  assume "authority_ok a"
  then show ?thesis by (simp add: SelectXiEv select_xi_events_def authority_ok_def)
next
  case (ActivateKeyEv n k m)
  assume "authority_ok a"
  then show ?thesis
    by (auto simp: ActivateKeyEv activate_key_def Let_def intro!: put_entry_ok split: option.split)
      (auto dest!: authority_ok_get simp: grabs_ok_def)
qed (auto simp: cleanup_ok grab_pointer_def grab_keyboard_def grab_button_def grab_key_def grab_server_def ungrab_pointer_def
    ungrab_keyboard_def ungrab_button_def ungrab_key_def ungrab_server_def allow_events_def thaw_def release_key_def
    release_button_def activate_button_def remove_passive_def Let_def split_def
    intro!: put_entry_ok modify_entry_ok entry_or_default_ok split: sum.split option.split,
    (auto simp: grabs_ok_def no_overlap_filter passive_ok intro: no_overlap_insert [OF passive_ok(1)] no_overlap_insert [OF passive_ok(2)])?)

lemma reachable_ok: "authority_ok (authority_after es)"
proof -
  have "authority_ok a \<Longrightarrow> authority_ok (fold grab_step es a)" for a
    by (induction es arbitrary: a) (simp_all add: grab_step_ok)
  moreover have "authority_ok input_authority_default" by (simp add: authority_ok_def input_authority_default_def)
  ultimately show ?thesis by (simp add: authority_after_def)
qed

lemma matching_overlap:
  "matching_passive k m g \<Longrightarrow> matching_passive k m h \<Longrightarrow> pg_window g = pg_window h \<Longrightarrow> patterns_overlap g h"
  by (auto simp: matching_passive_def patterns_overlap_def)

text \<open>The passive grabs of keys and of buttons of one namespace.\<close>

definition key_grabs :: "XInputAuthorityState \<Rightarrow> NamespaceId \<Rightarrow> XPassiveInputGrab list" where
  "key_grabs a namespace = ni_keys (entry_or_default a namespace)"

definition button_grabs :: "XInputAuthorityState \<Rightarrow> NamespaceId \<Rightarrow> XPassiveInputGrab list" where
  "button_grabs a namespace = ni_buttons (entry_or_default a namespace)"

definition contested :: "XPassiveInputGrab list \<Rightarrow> XPassiveInputGrab \<Rightarrow> bool" where
  "contested grabs g \<longleftrightarrow> (\<exists>h\<in>set grabs. pg_owner h \<noteq> pg_owner g \<and> patterns_overlap h g)"

lemma insert_passive_cases:
  "insert_passive g grabs = (if contested grabs g then Inl GrabAccessConflict
     else Inr (filter (\<lambda>h. \<not> (pg_owner h = pg_owner g \<and> pg_window h = pg_window g
            \<and> pg_detail h = pg_detail g \<and> pg_modifiers h = pg_modifiers g)) grabs @ [g]))"
  by (simp add: insert_passive_def contested_def list_ex_iff)

text \<open>A request for a passive grab, for keys and for buttons: refused exactly when contested, else added.\<close>

definition decided_by :: "XPassiveInputGrab list \<Rightarrow> XPassiveInputGrab \<Rightarrow> XInputGrabError + unit \<Rightarrow> XPassiveInputGrab list \<Rightarrow> bool" where
  "decided_by grabs g result grabs' \<longleftrightarrow>
     result = (if 1 < pg_pointer_mode g \<or> 1 < pg_keyboard_mode g then Inl GrabInvalidMode
               else if contested grabs g then Inl GrabAccessConflict else Inr ())
     \<and> (result = Inr () \<longrightarrow> g \<in> set grabs') \<and> (result \<noteq> Inr () \<longrightarrow> grabs' = grabs)
     \<and> (\<forall>h. pg_owner h \<noteq> pg_owner g \<longrightarrow> (h \<in> set grabs' \<longleftrightarrow> h \<in> set grabs))"

lemma entry_or_default_put [simp]:
  "entry_or_default (put_entry n s a) n' = (if n' = n then s else entry_or_default a n')"
  by (simp add: entry_or_default_def put_entry_def bt_get_insert)

lemma grab_decided:
  "decided_by (key_grabs a n) g (fst (grab_key n g a)) (key_grabs (snd (grab_key n g a)) n)"
  "decided_by (button_grabs a n) g (fst (grab_button n g a)) (button_grabs (snd (grab_button n g a)) n)"
  by (auto simp: decided_by_def key_grabs_def button_grabs_def grab_key_def grab_button_def validate_modes_def
      insert_passive_cases Let_def)

text \<open>
  Property C39. Within one namespace two clients never hold passive grabs for the same input. After any history of grab
  requests, key and button events and client cleanups, all passive grabs of the namespace that match one key (or one
  button) with one modifier state on one window belong to one client. The next request decides accordingly: with
  modes other than synchronous and asynchronous it is invalid, it is an access conflict exactly when another client of the
  namespace holds a grab that overlaps it, and otherwise it is added; the grabs of the other clients stay, and a
  refused request changes nothing. (Namespaces have separate grabs: the same key can be grabbed on the root
  window once in each.)
\<close>

theorem passive_grabs_exclusive:
  "(\<forall>g h k m. (g \<in> set (key_grabs (authority_after es) n) \<and> h \<in> set (key_grabs (authority_after es) n)
        \<or> g \<in> set (button_grabs (authority_after es) n) \<and> h \<in> set (button_grabs (authority_after es) n))
      \<and> matching_passive k m g \<and> matching_passive k m h \<and> pg_window g = pg_window h \<longrightarrow> pg_owner g = pg_owner h)
   \<and> (\<forall>g. decided_by (key_grabs (authority_after es) n) g (fst (grab_key n g (authority_after es)))
            (key_grabs (snd (grab_key n g (authority_after es))) n)
        \<and> decided_by (button_grabs (authority_after es) n) g (fst (grab_button n g (authority_after es)))
            (button_grabs (snd (grab_button n g (authority_after es))) n))"
proof (intro conjI allI impI)
  fix g h k m
  assume held: "(g \<in> set (key_grabs (authority_after es) n) \<and> h \<in> set (key_grabs (authority_after es) n)
        \<or> g \<in> set (button_grabs (authority_after es) n) \<and> h \<in> set (button_grabs (authority_after es) n))
      \<and> matching_passive k m g \<and> matching_passive k m h \<and> pg_window g = pg_window h"
  then have "patterns_overlap g h" using matching_overlap by blast
  then show "pg_owner g = pg_owner h"
    using held passive_ok [OF reachable_ok, of es n] unfolding no_overlap_def key_grabs_def button_grabs_def by blast
qed (rule grab_decided)+

text \<open>Client 7 grabs key 24 with any modifiers and any key without; client 9 asks for key 24 and is refused.\<close>

definition example_key_grab :: "u64 \<Rightarrow> u8 \<Rightarrow> u16 \<Rightarrow> XPassiveInputGrab" where
  "example_key_grab owner detail modifiers =
     \<lparr>pg_owner = owner, pg_window = AuthorityLocalId 0x20 1, pg_detail = detail, pg_modifiers = modifiers,
      pg_owner_events = False, pg_pointer_mode = 0, pg_keyboard_mode = 1, pg_event_mask = 0\<rparr>"

definition example_grab_history :: "grab_event list" where
  "example_grab_history =
     [GrabKeyEv 1 (example_key_grab 7 24 X_ANY_MODIFIER), GrabKeyEv 1 (example_key_grab 7 0 0),
      GrabKeyEv 1 (example_key_grab 9 24 0)]"

definition example_grab_state :: XNamespaceInputAuthority where
  "example_grab_state =
     namespace_input_default\<lparr>ni_keys := [example_key_grab 7 24 X_ANY_MODIFIER, example_key_grab 7 0 0]\<rparr>"

lemmas grab_eval = authority_after_def example_grab_history_def example_grab_state_def example_key_grab_def grab_key_def
  validate_modes_def entry_or_default_def put_entry_def input_authority_default_def namespace_input_default_def
  insert_passive_def patterns_overlap_def Let_def

lemma example_grab_reached: "bt_get (ia_namespaces (authority_after example_grab_history)) 1 = Some example_grab_state"
  by (simp add: grab_eval X_ANY_MODIFIER_def)

theorem passive_grabs_exclusive_witness:
  "key_grabs (authority_after example_grab_history) 1 = [example_key_grab 7 24 X_ANY_MODIFIER, example_key_grab 7 0 0]
   \<and> pg_owner (example_key_grab 7 24 X_ANY_MODIFIER) = pg_owner (example_key_grab 7 0 0)
   \<and> fst (grab_key 1 (example_key_grab 9 24 0) (authority_after example_grab_history)) = Inl GrabAccessConflict"
proof -
  let ?a = "authority_after example_grab_history"
  have keys: "key_grabs ?a 1 = [example_key_grab 7 24 X_ANY_MODIFIER, example_key_grab 7 0 0]"
    using example_grab_reached by (simp add: key_grabs_def entry_or_default_def example_grab_state_def)
  note excl = passive_grabs_exclusive [of example_grab_history 1]
  have "pg_owner (example_key_grab 7 24 X_ANY_MODIFIER) = pg_owner (example_key_grab 7 0 0)"
    using excl [THEN conjunct1, rule_format, of "example_key_grab 7 24 X_ANY_MODIFIER" "example_key_grab 7 0 0" 24 0] keys
    by (simp add: matching_passive_def example_key_grab_def)
  moreover have "decided_by (key_grabs ?a 1) (example_key_grab 9 24 0) (fst (grab_key 1 (example_key_grab 9 24 0) ?a))
      (key_grabs (snd (grab_key 1 (example_key_grab 9 24 0) ?a)) 1)"
    using excl by blast
  then have "fst (grab_key 1 (example_key_grab 9 24 0) ?a) = Inl GrabAccessConflict"
    by (simp add: decided_by_def keys contested_def patterns_overlap_def example_key_grab_def)
  ultimately show ?thesis using keys by blast
qed

section \<open>Cleanup\<close>

lemma map_of_retain:
  "distinct (map fst m) \<Longrightarrow>
     map_of (filter (\<lambda>(_, s). P s) (map (\<lambda>(k, s). (k, f s)) m)) k =
       (case map_of m k of None \<Rightarrow> None | Some s \<Rightarrow> if P (f s) then Some (f s) else None)"
  by (induction m) (auto split: option.split dest: map_of_SomeD simp: image_iff)

definition unless_owned :: "u64 \<Rightarrow> XActiveInputGrab option \<Rightarrow> XActiveInputGrab option" where
  "unless_owned owner g = (if owned owner g then None else g)"

lemma without_owner_fields:
  "ni_pointer (without_owner i s) = unless_owned i (ni_pointer s)"
  "ni_keyboard (without_owner i s) = unless_owned i (ni_keyboard s)"
  "ni_buttons (without_owner i s) = filter (\<lambda>g. pg_owner g \<noteq> i) (ni_buttons s)"
  "ni_keys (without_owner i s) = filter (\<lambda>g. pg_owner g \<noteq> i) (ni_keys s)"
  "ni_server_owner (without_owner i s) = (if ni_server_owner s = Some i then None else ni_server_owner s)"
  by (simp_all add: without_owner_def unless_owned_def Let_def)

text \<open>
  Property C40. Closing a client releases exactly its own input state: after \<open>cleanup_owner\<close> every active grab of
  the client is gone, every passive grab and the server grab of it too, every grab of another client
  is as before, and no event selection of the client is left.
\<close>

theorem cleanup_releases_exactly_own:
  "pointer_grab (cleanup_owner i (authority_after es)) n = unless_owned i (pointer_grab (authority_after es) n)
   \<and> keyboard_grab (cleanup_owner i (authority_after es)) n = unless_owned i (keyboard_grab (authority_after es) n)
   \<and> server_owner (cleanup_owner i (authority_after es)) n =
       (if server_owner (authority_after es) n = Some i then None else server_owner (authority_after es) n)
   \<and> passive_grabs (cleanup_owner i (authority_after es)) n =
       filter (\<lambda>g. pg_owner g \<noteq> i) (passive_grabs (authority_after es) n)
   \<and> ia_xi_selections (cleanup_owner i (authority_after es)) =
       filter (\<lambda>((_, j, _, _), _). j \<noteq> i) (ia_xi_selections (authority_after es))"
proof -
  let ?m = "ia_namespaces (authority_after es)"
  have "distinct (map fst ?m)" using reachable_ok by (simp add: authority_ok_def bt_wf_distinct)
  note get = map_of_retain [OF this, of entry_in_use "without_owner i" n]
  show ?thesis
    by (simp add: cleanup_owner_def pointer_grab_def keyboard_grab_def server_owner_def passive_grabs_def get
        split: option.split)
      (auto simp: entry_in_use_def without_owner_fields unless_owned_def owned_def split: if_splits)
qed

section \<open>Frozen devices\<close>

lemma thaw_without_grab: "ni_pointer s = None \<Longrightarrow> ni_pointer_frozen (thaw i mode s) = ni_pointer_frozen s"
  by (simp add: thaw_def owned_def Let_def)

text \<open>
  Where the code loses a frozen pointer: if a passive key grab with synchronous pointer mode is activated
  while no pointer grab is held, then releasing the key ends the grab but leaves the pointer frozen although
  no grab is left in the namespace, and neither \<open>AllowEvents\<close> nor an ungrab of any client thaws it.
\<close>

theorem released_key_leaves_pointer_frozen:
  assumes "bt_get (ia_namespaces a) n = Some s" "ni_pointer s = None"
    and "find (matching_passive k m) (ni_keys s) = Some g" "pg_pointer_mode g = 0"
  shows "let a' = release_key n k (snd (activate_key n k m a)) in
     pointer_frozen a' n \<and> pointer_grab a' n = None \<and> keyboard_grab a' n = None \<and>
     (\<forall>i mode. pointer_frozen (snd (allow_events n i mode a')) n \<and> pointer_frozen (ungrab_pointer n i a') n
        \<and> pointer_frozen (ungrab_keyboard n i a') n)"
  using assms
  by (simp add: activate_key_def release_key_def put_entry_def modify_entry_def pointer_frozen_def pointer_grab_def
      keyboard_grab_def allow_events_def ungrab_pointer_def ungrab_keyboard_def Let_def active_from_passive_def owned_def
      btree_simps thaw_without_grab)

theorem released_key_leaves_pointer_frozen_witness:
  "let a' = release_key 1 24 (snd (activate_key 1 24 0 (authority_after example_grab_history))) in
     pointer_frozen a' 1 \<and> pointer_grab a' 1 = None \<and> keyboard_grab a' 1 = None"
  using released_key_leaves_pointer_frozen [OF example_grab_reached, of 24 0 "example_key_grab 7 24 X_ANY_MODIFIER"]
  by (simp add: example_grab_state_def example_key_grab_def matching_passive_def namespace_input_default_def Let_def)

end
