(* ===== verification/Spec2Isabelle.thy ===== *)
theory Spec2Isabelle
  imports Surface_Table Ipc_Portal Visual_State Output_Topology Presentation Portal_Lifecycle Portal_Reducers Wm_Policy
    Wm_Transport X_Atoms X_Drawing X_Release Namespace_Registry Chrome_State Production
    Process_Supervisor X_Wire X_Grabs
begin

text \<open>
  A verification library for Sophia, a display server whose clients are kept apart in namespaces. An X authority
  (\<^verbatim>\<open>sophia-x-authority\<close>) decodes the bytes of X11 clients, keeps their resources and turns what they draw into
  surface transactions; the engine (\<^verbatim>\<open>sophia-engine\<close>) commits those transactions atomically, asks a window
  manager over a framed byte stream (\<^verbatim>\<open>sophia-protocol/src/ipc\<close>) for placements, plans frames and retires
  them on page flips; portals (\<^verbatim>\<open>sophia-portal\<close>) mediate transfers between namespaces; the session runtime
  (\<^verbatim>\<open>sophia-runtime\<close>) admits clients, supervises processes and drives ticks. The theories follow this
  structure. Every operation is a HOL function of the explicit state it reads and writes; a Rust \<open>Result\<close> is a
  sum with the error on the left, a panic is the value \<open>None\<close> of an option, fixed-width integers are words with
  the checked, saturating and wrapping operations of the source written out, and \<open>BTreeMap\<close> and \<open>HashMap\<close> are
  ordered association lists (\<open>Sophia_Prelude\<close>).

  \<^bold>\<open>Protocol\<close> (\<^verbatim>\<open>sophia-protocol\<close>).
  \<^item> \<open>Sophia_Prelude\<close> (\<^verbatim>\<open>std\<close>): machine integers, results, ordered maps,
    and the two interfaces of the state machines: \<open>invariant_machine\<close> (every step keeps an invariant,
    so every run does) and \<open>history_machine\<close> (in addition every step relates the state before and
    after, so every run does).
  \<^item> \<open>Protocol_Types, Protocol_Packets\<close> (\<^verbatim>\<open>ids.rs, geometry.rs, packets/*.rs,
    cursor.rs\<close>): identifiers, geometry and packets with their validators.
  \<^item> \<open>Surface_Table\<close> (\<^verbatim>\<open>table.rs\<close>): the generational slot table, an
    instance of the interface \<open>handle_table\<close>: a removed handle stays dead until its generation may wrap.
  \<^item> \<open>Ipc_Cursor, Ipc_Frame, Ipc_Primitives, Ipc_Wm, Ipc_Portal\<close>
    (\<^verbatim>\<open>ipc/\<close>): the byte codec. The interface \<open>codec\<close> states what one field
    codec promises (decoding after encoding returns the value and the rest); every field is an instance, and the
    message round trips are put together from them. \<open>Ipc_Frame\<close> has the frame layer: framing is a
    bijection and everything else is refused.

  \<^bold>\<open>Engine\<close> (\<^verbatim>\<open>sophia-engine\<close>).
  \<^item> \<open>Engine_Core\<close> (\<^verbatim>\<open>error.rs, engine/core.rs\<close>): errors and the headless
    engine.
  \<^item> \<open>Visual_State\<close> (\<^verbatim>\<open>visual_state.rs,
    engine/layout/{authority_transaction,projection}.rs\<close>): readiness, prepared and applied commits; a batch
    of transactions refines one atomic override of the committed map, a prepared commit never overwrites newer
    state, generations never go back.
  \<^item> \<open>Output_Topology\<close> (\<^verbatim>\<open>drm.rs, output.rs\<close>): the output registry and
    the logical desktop: projection is exact clipping below the last 32-bit coordinate, the desktop is tiled.
  \<^item> \<open>Frame_Scheduling, Presentation\<close> (\<^verbatim>\<open>frame/\<close>): clocks, layout epochs,
    the page-flip gate and the presentation registry; the decisions of an epoch are given exactly, and an observer of
    an output never sees a second frame in flight.
  \<^item> \<open>Layout_Render\<close> (\<^verbatim>\<open>engine/layout/wm_transaction.rs, engine/rendering.rs,
    render.rs, chrome/action.rs, session.rs, engine/session_tick.rs\<close>): placements, frame planning and replay,
    session ticks.
  \<^item> \<open>Wm_Policy, Wm_Shortcuts, Wm_Transport\<close> (\<^verbatim>\<open>wm_policy.rs, wm.rs,
    engine/wm_transaction.rs\<close>): workspaces and the plan of a response, shortcut routing per seat against a
    reference description, framed exchanges over a stream given by its read and write operations.
  \<^item> \<open>Float64, Input_Routing\<close> (\<^verbatim>\<open>input/\<close>): IEEE double arithmetic as Rust
    computes it, the device table, focus, the hit test (exact for the identity and for affine transforms on a dyadic grid) and motion coalescing.
  \<^item> \<open>Session_Driver, Production\<close> (\<^verbatim>\<open>runtime_driver/, backend_assembly.rs,
    live_backend.rs\<close>): the command executor with the headless and the live adapter, the coordinator of
    asynchronous presents and the compositor tick.
  \<^item> \<open>Chrome_State\<close> (\<^verbatim>\<open>chrome/{metadata,notification}.rs\<close>): descriptors
    and notifications.

  \<^bold>\<open>Portals and session runtime\<close> (\<^verbatim>\<open>sophia-portal\<close>, \<^verbatim>\<open>sophia-runtime\<close>).
  \<^item> \<open>Portal_Lifecycle\<close> (\<^verbatim>\<open>lifecycle.rs, broker.rs\<close>): requests and
    grants: bounded, authorised, final once decided.
  \<^item> \<open>Portal_Reducers\<close> (\<^verbatim>\<open>clipboard.rs, drag_and_drop.rs, file_handoff.rs,
    screen_capture.rs, uri_open.rs, notification.rs\<close>): the six policy reducers, instances of one interface
    \<open>portal_reducer\<close>.
  \<^item> \<open>Supervisor, Process_Supervisor, Session_Runtime, Namespace_Registry\<close>
    (\<^verbatim>\<open>supervisor/, session/\<close>): restart policy, child processes over operating-system calls
    as a parameter, the session reducer, and the registry of namespaces and admissions.

  \<^bold>\<open>X authority\<close> (\<^verbatim>\<open>sophia-x-authority\<close>).
  \<^item> \<open>X_Resources, X_Atoms\<close> (\<^verbatim>\<open>resource.rs, window.rs, drawing.rs, event.rs,
    graphics_context.rs, shm.rs, close_target.rs, pointer.rs, atom.rs, property.rs\<close>): the tables of the
    server.
  \<^item> \<open>X_Software, X_Drawing\<close> (\<^verbatim>\<open>software.rs\<close>): the software buffers;
    painting damage is a function of pixels, lines end.
  \<^item> \<open>X_Selection, X_Runtime\<close> (\<^verbatim>\<open>selection.rs, clipboard.rs, packet.rs,
    runtime.rs\<close>): selections and every request of the runtime.
  \<^item> \<open>X_Isolation, X_Release\<close> (\<^verbatim>\<open>runtime.rs\<close>): what the runtime promises:
    the interface \<open>owned_machine\<close> gives, for any sequence of calls, that calls of other namespaces
    change nothing a namespace owns, for clients with disjoint id ranges; the state after releasing a client is given
    table by table.
  \<^item> \<open>X_Grabs\<close> (\<^verbatim>\<open>input_authority.rs\<close>): active and passive grabs, frozen
    devices, XI selections; within a namespace passive grabs of two clients never overlap.
  \<^item> \<open>X_Wire_Base, X_Wire\<close> (\<^verbatim>\<open>wire.rs\<close>): every request decoder, from
    bytes to requests, in a small logic of results (\<open>ensures\<close>): no byte string makes a decoder panic,
    decoded requests are bounded by their length and by the limits the decoder declares, and new ids lie in the range of
    the client, which is what the isolation theorem assumes of the ids a call creates.

  \<^bold>\<open>Bounds and fuel.\<close> Structural recursion is used wherever the loop is structural. The line loop of the
  software painter runs with one round per row and column, and \<open>draw_line_ends\<close> shows that it stops by itself
  before that; the command executor of a tick runs with fuel seven, and \<open>live_tick_completes\<close> shows that seven
  rounds are enough; readers of a stream consume at least one byte per round. The engine and the X authority use
  the limits of the code (\<open>64 KiB\<close> frames, \<open>16\<close> seats, \<open>64\<close> notifications, the property byte limits).

  \<^bold>\<open>Parameters.\<close> The byte stream of the window manager, the operating-system calls of the process
  supervisor, the presentation adapter and the renderer are functions given to the operations that call them.

  \<^bold>\<open>Not modelled.\<close> The dispatcher of decoded requests (\<^verbatim>\<open>dispatch.rs\<close>), the encoders of replies and
  events (\<^verbatim>\<open>client_output.rs\<close>), the connection setup and the socket loops (\<^verbatim>\<open>setup.rs\<close>, \<^verbatim>\<open>codec.rs\<close>, \<^verbatim>\<open>transport.rs\<close>, \<^verbatim>\<open>x11_socket.rs\<close>), because their core is
  socket I/O around the modelled operations; the keymap (\<^verbatim>\<open>keyboard.rs\<close>), a wrapper of xkbcommon; the portal socket, the demonstration window
  manager and the bridge to an external X server; the KMS backend and the renderers, which are DRM, libinput, EGL and
  GLES calls; shared memory and fences; the command line.
  Logging is left out everywhere.

  The findings of the development are stated as lemmas beside the definitions they are about, for example
  \<open>released_key_leaves_pointer_frozen\<close>, \<open>foreign_drawing_paints\<close>, \<open>unbacked_window_blocks_release\<close>,
  \<open>destroyed_owner_stays\<close>, \<open>renegotiation_forgets_modifiers\<close>, \<open>rerequest_reopens\<close> and \<open>reregister_hides_focus\<close>.
\<close>

end
